(* ===== verification/Prelude.thy ===== *)
theory Prelude
  imports Main "HOL-Library.Word" "HOL-Library.Monad_Syntax"
begin

text \<open>
  Shared vocabulary of the development: the machine integers of the Rust sources, their big-endian
  byte representations (\<open>to_be_bytes\<close>, \<open>from_be_bytes\<close>, the only operations of Rust's integer types
  that the wire formats use), and the generic facts on lists, options and words that the component
  theories share.

  Conventions used everywhere. A \<open>usize\<close> is a \<open>nat\<close>: the code only uses it for lengths and indices of
  data held in memory, which never reach \<open>2 ^ 64\<close>; integers that are written to the wire or that can
  wrap keep their width and are \<open>w word\<close>. \<open>as u8\<close>, \<open>as u16\<close>, \<open>as u32\<close> are \<^const>\<open>word_of_nat\<close>,
  which truncates as Rust does. \<open>Result<T, E>\<close> is the sum \<open>E + T\<close> with \<open>Inl\<close> for \<open>Err\<close>;
  \<open>Option<T>\<close> is \<open>T option\<close>. A panic is a value of an error type of the model, or \<open>None\<close>, never an
  unspecified term. \<open>debug_assert!\<close> is not modelled (release builds drop it).
\<close>

unbundle bit_operations_syntax

type_synonym u8 = "8 word"
type_synonym u16 = "16 word"
type_synonym u32 = "32 word"
type_synonym u64 = "64 word"
type_synonym bytes = "u8 list"

text \<open>Equations that say what an encoder appends; used by all encoder proofs.\<close>

named_theorems enc_simps "the bytes that an encoder appends"

text \<open>What a decoder returns on the encoding of a valid value; filled by the codec locales.\<close>

named_theorems codec_simps "results of decoders on encodings"

subsection \<open>Big-endian byte representations\<close>

definition u16_to_be_bytes :: "u16 \<Rightarrow> bytes" where
  "u16_to_be_bytes v = [ucast (drop_bit 8 v), ucast v]"

definition u32_to_be_bytes :: "u32 \<Rightarrow> bytes" where
  "u32_to_be_bytes v = [ucast (drop_bit 24 v), ucast (drop_bit 16 v), ucast (drop_bit 8 v), ucast v]"

definition u64_to_be_bytes :: "u64 \<Rightarrow> bytes" where
  "u64_to_be_bytes v =
     [ucast (drop_bit 56 v), ucast (drop_bit 48 v), ucast (drop_bit 40 v), ucast (drop_bit 32 v),
      ucast (drop_bit 24 v), ucast (drop_bit 16 v), ucast (drop_bit 8 v), ucast v]"

text \<open>
  \<open>from_be_bytes\<close> takes a fixed-size array; the conversion of a slice into that array
  (\<open>try_into().ok()\<close>) fails unless the length matches.
\<close>

fun u16_from_be_bytes :: "bytes \<Rightarrow> u16 option" where
  "u16_from_be_bytes [a, b] = Some (push_bit 8 (ucast a) OR ucast b)"
| "u16_from_be_bytes _ = None"

fun u32_from_be_bytes :: "bytes \<Rightarrow> u32 option" where
  "u32_from_be_bytes [a, b, c, d] =
     Some (push_bit 24 (ucast a) OR push_bit 16 (ucast b) OR push_bit 8 (ucast c) OR ucast d)"
| "u32_from_be_bytes _ = None"

fun u64_from_be_bytes :: "bytes \<Rightarrow> u64 option" where
  "u64_from_be_bytes [a, b, c, d, e, f, g, h] =
     Some (push_bit 56 (ucast a) OR push_bit 48 (ucast b) OR push_bit 40 (ucast c) OR
           push_bit 32 (ucast d) OR push_bit 24 (ucast e) OR push_bit 16 (ucast f) OR
           push_bit 8 (ucast g) OR ucast h)"
| "u64_from_be_bytes _ = None"

lemma length_to_be_bytes [simp]:
  "length (u16_to_be_bytes v) = 2" "length (u32_to_be_bytes w) = 4" "length (u64_to_be_bytes x) = 8"
  by (simp_all add: u16_to_be_bytes_def u32_to_be_bytes_def u64_to_be_bytes_def)

lemma to_be_bytes_nonempty [simp]:
  "u16_to_be_bytes v \<noteq> []" "u32_to_be_bytes w \<noteq> []" "u64_to_be_bytes x \<noteq> []"
  by (simp_all add: u16_to_be_bytes_def u32_to_be_bytes_def u64_to_be_bytes_def)

text \<open>One byte of a big-endian representation contributes exactly its eight bits.\<close>

lemma bit_be_byte:
  fixes v :: "'a::len word"
  assumes "n < LENGTH('a)"
  shows "bit (push_bit k (ucast (ucast (drop_bit k v) :: u8)) :: 'a word) n \<longleftrightarrow>
    k \<le> n \<and> n < k + 8 \<and> bit v n"
  using assms by (auto simp: bit_simps)

lemma bit_be_byte0:
  fixes v :: "'a::len word"
  assumes "n < LENGTH('a)"
  shows "bit (ucast (ucast v :: u8) :: 'a word) n \<longleftrightarrow> n < 8 \<and> bit v n"
  using assms by (auto simp: bit_simps)

lemma u16_from_to_be [simp]: "u16_from_be_bytes (u16_to_be_bytes v) = Some v"
  by (simp add: u16_to_be_bytes_def)
    (rule bit_word_eqI, simp add: bit_or_iff bit_be_byte bit_be_byte0, linarith)

lemma u32_from_to_be [simp]: "u32_from_be_bytes (u32_to_be_bytes v) = Some v"
  by (simp add: u32_to_be_bytes_def)
    (rule bit_word_eqI, simp add: bit_or_iff bit_be_byte bit_be_byte0, linarith)

lemma u64_from_to_be [simp]: "u64_from_be_bytes (u64_to_be_bytes v) = Some v"
  by (simp add: u64_to_be_bytes_def)
    (rule bit_word_eqI, simp add: bit_or_iff bit_be_byte bit_be_byte0, linarith)

lemma u8_high_bit: "8 \<le> n \<Longrightarrow> \<not> bit (w :: u8) n"
  using bit_imp_le_length [of w n] by auto

lemma u16_to_from_be: "u16_from_be_bytes bs = Some v \<Longrightarrow> u16_to_be_bytes v = bs"
  by (induction bs rule: u16_from_be_bytes.induct)
    (auto simp: u16_to_be_bytes_def bit_simps u8_high_bit intro!: bit_word_eqI)

lemma u32_to_from_be: "u32_from_be_bytes bs = Some v \<Longrightarrow> u32_to_be_bytes v = bs"
  by (induction bs rule: u32_from_be_bytes.induct)
    (auto simp: u32_to_be_bytes_def bit_simps u8_high_bit intro!: bit_word_eqI)

lemma u64_to_from_be: "u64_from_be_bytes bs = Some v \<Longrightarrow> u64_to_be_bytes v = bs"
  by (induction bs rule: u64_from_be_bytes.induct)
    (auto simp: u64_to_be_bytes_def bit_simps u8_high_bit intro!: bit_word_eqI)

lemma from_be_bytes_Some_iff:
  "(\<exists>v. u16_from_be_bytes bs = Some v) \<longleftrightarrow> length bs = 2"
  "(\<exists>v. u32_from_be_bytes bs = Some v) \<longleftrightarrow> length bs = 4"
  "(\<exists>v. u64_from_be_bytes bs = Some v) \<longleftrightarrow> length bs = 8"
  by (auto simp: length_Suc_conv numeral_eq_Suc elim: u16_from_be_bytes.elims
      u32_from_be_bytes.elims u64_from_be_bytes.elims)

text \<open>Truncating a length to its field and reading it back.\<close>

lemma unat_word_of_nat_small:
  "n < 2 ^ LENGTH('a) \<Longrightarrow> unat (word_of_nat n :: 'a::len word) = n"
  by (simp add: unat_of_nat)

lemma unat_word_of_nat_mod: "unat (word_of_nat n :: 'a::len word) = n mod 2 ^ LENGTH('a)"
  by (rule unat_of_nat)

lemma unat_u8_less [simp]: "unat (w :: u8) < 256"
  using unsigned_less [of w] by simp

lemma unat_u16_less [simp]: "unat (w :: u16) < 65536"
  using unsigned_less [of w] by simp

lemma unat_u8_le [simp]: "unat (w :: u8) \<le> 255"
  using unat_u8_less [of w] by linarith

lemma unat_u16_le [simp]: "unat (w :: u16) \<le> 65535"
  using unat_u16_less [of w] by linarith

end
