(* ===== verification/Puffin_Codec.thy ===== *)
theory Puffin_Codec
  imports Prelude
begin

text \<open>
  The byte codec of \<open>puffin/src/codec.rs\<close>: the \<open>Reader\<close> over a byte slice, the \<open>Codec\<close> trait, its
  instances for the integers, and the length-prefixed vectors.

  An encoder \<open>fn encode(&self, bytes: &mut Vec<u8>)\<close> is a function from the value and the buffer to the
  new buffer; a decoder \<open>fn read(r: &mut Reader) -> Option<Self>\<close> returns the value together with the
  advanced reader. A decoder that fails leaves its reader somewhere inside the buffer; no caller in
  the code looks at a reader after a failure, so the failing branch carries no reader.

  The trait's contract, which the code leaves implicit, is stated by the locales at the end:
  \<open>encoder\<close> (only appends), \<open>decoder\<close> (moves forward inside the buffer), \<open>strict_decoder\<close> (consumes at
  least one byte, which is what makes the vector loops terminate), \<open>codec\<close> (decoding what was encoded
  gives the value back, whatever follows), \<open>canonical_codec\<close> (and re-encoding what was decoded gives the same
  bytes back) and \<open>tail_codec\<close> (round trip for values that extend to the end of the reader).
\<close>

subsection \<open>The reader\<close>

record Reader =
  rd_buf :: bytes
  rd_offs :: nat

definition Reader_init :: "bytes \<Rightarrow> Reader" where
  "Reader_init bs = \<lparr>rd_buf = bs, rd_offs = 0\<rparr>"

definition Reader_left :: "Reader \<Rightarrow> nat" where
  "Reader_left r = length (rd_buf r) - rd_offs r"

definition Reader_any_left :: "Reader \<Rightarrow> bool" where
  "Reader_any_left r \<longleftrightarrow> rd_offs r < length (rd_buf r)"

definition Reader_used :: "Reader \<Rightarrow> nat" where
  "Reader_used r = rd_offs r"

definition Reader_rest :: "Reader \<Rightarrow> bytes \<times> Reader" where
  "Reader_rest r = (drop (rd_offs r) (rd_buf r), r\<lparr>rd_offs := length (rd_buf r)\<rparr>)"

definition Reader_take :: "nat \<Rightarrow> Reader \<Rightarrow> (bytes \<times> Reader) option" where
  "Reader_take len r =
     (if Reader_left r < len then None
      else Some (take len (drop (rd_offs r) (rd_buf r)), r\<lparr>rd_offs := rd_offs r + len\<rparr>))"

definition Reader_peek :: "nat \<Rightarrow> Reader \<Rightarrow> bytes option" where
  "Reader_peek len r =
     (if Reader_left r < len then None else Some (take len (drop (rd_offs r) (rd_buf r))))"

definition Reader_sub :: "nat \<Rightarrow> Reader \<Rightarrow> (Reader \<times> Reader) option" where
  "Reader_sub len r = map_option (\<lambda>(bs, r'). (Reader_init bs, r')) (Reader_take len r)"

subsection \<open>The trait's provided methods\<close>

definition get_encoding :: "('a \<Rightarrow> bytes \<Rightarrow> bytes) \<Rightarrow> 'a \<Rightarrow> bytes" where
  "get_encoding encode x = encode x []"

definition read_bytes :: "(Reader \<Rightarrow> ('a \<times> Reader) option) \<Rightarrow> bytes \<Rightarrow> 'a option" where
  "read_bytes read bs = map_option fst (read (Reader_init bs))"

subsection \<open>Integers\<close>

fun decode_u8 :: "bytes \<Rightarrow> u8 option" where
  "decode_u8 [value] = Some value"
| "decode_u8 _ = None"

definition u8_encode :: "u8 \<Rightarrow> bytes \<Rightarrow> bytes" where
  "u8_encode v bs = bs @ [v]"

definition u8_read :: "Reader \<Rightarrow> (u8 \<times> Reader) option" where
  "u8_read r = do { (bs, r) \<leftarrow> Reader_take 1 r; v \<leftarrow> decode_u8 bs; Some (v, r) }"

text \<open>\<open>put_u16\<close> and \<open>put_u64\<close> panic (\<open>None\<close>) when the slice is too short.\<close>

definition put_u16 :: "u16 \<Rightarrow> bytes \<Rightarrow> bytes option" where
  "put_u16 v out = (if length out < 2 then None else Some (u16_to_be_bytes v @ drop 2 out))"

definition decode_u16 :: "bytes \<Rightarrow> u16 option" where
  "decode_u16 bs = u16_from_be_bytes bs"

definition u16_encode :: "u16 \<Rightarrow> bytes \<Rightarrow> bytes" where
  "u16_encode v bs = bs @ the (put_u16 v (replicate 2 0))"

definition u16_read :: "Reader \<Rightarrow> (u16 \<times> Reader) option" where
  "u16_read r = do { (bs, r) \<leftarrow> Reader_take 2 r; v \<leftarrow> decode_u16 bs; Some (v, r) }"

datatype u24 = u24 (u24_val: u32)

fun u24_decode :: "bytes \<Rightarrow> u24 option" where
  "u24_decode [a, b, c] = map_option u24 (u32_from_be_bytes [0, a, b, c])"
| "u24_decode _ = None"

definition u24_encode :: "u24 \<Rightarrow> bytes \<Rightarrow> bytes" where
  "u24_encode v bs = bs @ drop 1 (u32_to_be_bytes (u24_val v))"

definition u24_read :: "Reader \<Rightarrow> (u24 \<times> Reader) option" where
  "u24_read r = do { (bs, r) \<leftarrow> Reader_take 3 r; v \<leftarrow> u24_decode bs; Some (v, r) }"

definition usize_from_u24 :: "u24 \<Rightarrow> nat" where
  "usize_from_u24 v = unat (u24_val v)"

definition decode_u32 :: "bytes \<Rightarrow> u32 option" where
  "decode_u32 bs = u32_from_be_bytes bs"

definition u32_encode :: "u32 \<Rightarrow> bytes \<Rightarrow> bytes" where
  "u32_encode v bs = bs @ u32_to_be_bytes v"

definition u32_read :: "Reader \<Rightarrow> (u32 \<times> Reader) option" where
  "u32_read r = do { (bs, r) \<leftarrow> Reader_take 4 r; v \<leftarrow> decode_u32 bs; Some (v, r) }"

definition put_u64 :: "u64 \<Rightarrow> bytes \<Rightarrow> bytes option" where
  "put_u64 v out = (if length out < 8 then None else Some (u64_to_be_bytes v @ drop 8 out))"

definition decode_u64 :: "bytes \<Rightarrow> u64 option" where
  "decode_u64 bs = u64_from_be_bytes bs"

definition u64_encode :: "u64 \<Rightarrow> bytes \<Rightarrow> bytes" where
  "u64_encode v bs = bs @ the (put_u64 v (replicate 8 0))"

definition u64_read :: "Reader \<Rightarrow> (u64 \<times> Reader) option" where
  "u64_read r = do { (bs, r) \<leftarrow> Reader_take 8 r; v \<leftarrow> decode_u64 bs; Some (v, r) }"

subsection \<open>Length-prefixed vectors\<close>

text \<open>
  The encoders reserve the length field, append the items, and then patch the field in place
  (\<open>overwrite\<close> is the slice assignment \<open>bytes[off..off + n] = new\<close>).
\<close>

definition overwrite :: "nat \<Rightarrow> bytes \<Rightarrow> bytes \<Rightarrow> bytes" where
  "overwrite off new bs = take off bs @ new @ drop (off + length new) bs"

definition encode_vec_u8 :: "('a \<Rightarrow> bytes \<Rightarrow> bytes) \<Rightarrow> 'a list \<Rightarrow> bytes \<Rightarrow> bytes" where
  "encode_vec_u8 encode items bs =
     (let len_offset = length bs;
          bs = bs @ [0];
          bs = fold encode items bs;
          len = length bs - len_offset - 1
      in bs[len_offset := word_of_nat len])"

definition encode_vec_u16 :: "('a \<Rightarrow> bytes \<Rightarrow> bytes) \<Rightarrow> 'a list \<Rightarrow> bytes \<Rightarrow> bytes" where
  "encode_vec_u16 encode items bs =
     (let len_offset = length bs;
          bs = bs @ [0, 0];
          bs = fold encode items bs;
          len = length bs - len_offset - 2
      in overwrite len_offset (u16_to_be_bytes (word_of_nat len)) bs)"

definition encode_vec_u24 :: "('a \<Rightarrow> bytes \<Rightarrow> bytes) \<Rightarrow> 'a list \<Rightarrow> bytes \<Rightarrow> bytes" where
  "encode_vec_u24 encode items bs =
     (let len_offset = length bs;
          bs = bs @ [0, 0, 0];
          bs = fold encode items bs;
          len = length bs - len_offset - 3;
          len_bytes = u32_to_be_bytes (word_of_nat len)
      in overwrite len_offset (drop 1 len_bytes) bs)"

text \<open>
  The loop \<open>while sub.any_left() { ret.push(T::read(&mut sub)?); }\<close>. An item decoder that consumed
  nothing would make it run forever; the guard \<open>Reader_left sub' < Reader_left sub\<close> is what makes the definition total,
  and \<open>read_items_unfold\<close> below shows that it is no restriction for any strict decoder: there the
  function satisfies the equation of the code's loop.
\<close>

function read_items ::
  "(Reader \<Rightarrow> ('a \<times> Reader) option) \<Rightarrow> Reader \<Rightarrow> ('a list \<times> Reader) option" where
  "read_items read sub =
     (if \<not> Reader_any_left sub then Some ([], sub)
      else case read sub of
             None \<Rightarrow> None
           | Some (x, sub') \<Rightarrow>
               if Reader_left sub' < Reader_left sub
               then map_option (\<lambda>(ret, s). (x # ret, s)) (read_items read sub')
               else None)"
  by pat_completeness auto
termination
  by (relation "measure (\<lambda>(read, sub). Reader_left sub)") auto

declare read_items.simps [simp del]

definition read_vec_u8 ::
  "(Reader \<Rightarrow> ('a \<times> Reader) option) \<Rightarrow> Reader \<Rightarrow> ('a list \<times> Reader) option" where
  "read_vec_u8 read r = do {
     (len, r) \<leftarrow> u8_read r;
     (sub, r) \<leftarrow> Reader_sub (unat len) r;
     (ret, _) \<leftarrow> read_items read sub;
     Some (ret, r) }"

definition read_vec_u16 ::
  "(Reader \<Rightarrow> ('a \<times> Reader) option) \<Rightarrow> Reader \<Rightarrow> ('a list \<times> Reader) option" where
  "read_vec_u16 read r = do {
     (len, r) \<leftarrow> u16_read r;
     (sub, r) \<leftarrow> Reader_sub (unat len) r;
     (ret, _) \<leftarrow> read_items read sub;
     Some (ret, r) }"

definition read_vec_u24_limited ::
  "(Reader \<Rightarrow> ('a \<times> Reader) option) \<Rightarrow> nat \<Rightarrow> Reader \<Rightarrow> ('a list \<times> Reader) option" where
  "read_vec_u24_limited read max_bytes r = do {
     (len, r) \<leftarrow> u24_read r;
     let len = unat (u24_val len);
     if len > max_bytes then None else do {
       (sub, r) \<leftarrow> Reader_sub len r;
       (ret, _) \<leftarrow> read_items read sub;
       Some (ret, r) } }"

subsection \<open>Specification vocabulary\<close>

text \<open>
  \<open>rem r\<close> is what a reader has not consumed yet, \<open>adv r n\<close> the reader after consuming \<open>n\<close> bytes,
  \<open>Reader_ok\<close> the type's invariant: the offset stays inside the buffer.
\<close>

definition rem :: "Reader \<Rightarrow> bytes" where
  "rem r = drop (rd_offs r) (rd_buf r)"

definition adv :: "Reader \<Rightarrow> nat \<Rightarrow> Reader" where
  "adv r n = r\<lparr>rd_offs := rd_offs r + n\<rparr>"

definition Reader_ok :: "Reader \<Rightarrow> bool" where
  "Reader_ok r \<longleftrightarrow> rd_offs r \<le> length (rd_buf r)"

lemma rem_init [simp]: "rem (Reader_init bs) = bs"
  by (simp add: rem_def Reader_init_def)

lemma rem_adv [simp]: "rem (adv r n) = drop n (rem r)"
  by (simp add: rem_def adv_def add.commute)

lemma adv_adv [simp]: "adv (adv r n) m = adv r (n + m)"
  by (simp add: adv_def add.assoc)

lemma adv_0 [simp]: "adv r 0 = r"
  by (simp add: adv_def)

lemma adv_eq_iff: "adv r n = adv r m \<longleftrightarrow> n = m"
  by (cases r) (simp add: adv_def)

lemma Reader_ok_init [simp]: "Reader_ok (Reader_init bs)"
  by (simp add: Reader_ok_def Reader_init_def)

lemma Reader_ok_adv: "Reader_ok r \<Longrightarrow> n \<le> length (rem r) \<Longrightarrow> Reader_ok (adv r n)"
  by (auto simp: Reader_ok_def adv_def rem_def)

lemma Reader_ok_adv_init [simp]: "Reader_ok (adv (Reader_init bs) n) \<longleftrightarrow> n \<le> length bs"
  by (simp add: Reader_ok_def adv_def Reader_init_def)

lemma Reader_left_rem [simp]: "Reader_left r = length (rem r)"
  by (simp add: Reader_left_def rem_def)

lemma Reader_any_left_rem [simp]: "Reader_any_left r \<longleftrightarrow> rem r \<noteq> []"
  by (simp add: Reader_any_left_def rem_def not_le)

lemma Reader_take_rem:
  "Reader_take n r = (if length (rem r) < n then None else Some (take n (rem r), adv r n))"
  by (simp add: Reader_take_def rem_def [symmetric] adv_def)

lemma Reader_sub_rem:
  "Reader_sub n r =
     (if length (rem r) < n then None else Some (Reader_init (take n (rem r)), adv r n))"
  by (simp add: Reader_sub_def Reader_take_rem)

lemma Reader_rest_rem: "Reader_ok r \<Longrightarrow> Reader_rest r = (rem r, adv r (length (rem r)))"
  by (simp add: Reader_rest_def rem_def adv_def Reader_ok_def)

lemma fst_Reader_rest [simp]: "fst (Reader_rest r) = rem r"
  by (simp add: Reader_rest_def rem_def)

lemma Reader_used_adv [simp]: "Reader_used (adv r n) = Reader_used r + n"
  by (simp add: Reader_used_def adv_def)

lemma Reader_used_init [simp]: "Reader_used (Reader_init bs) = 0"
  by (simp add: Reader_used_def Reader_init_def)

lemma Reader_peek_take: "Reader_peek n r = map_option fst (Reader_take n r)"
  by (simp add: Reader_peek_def Reader_take_def)

lemma length_take_eq_iff: "take (length xs) ys = xs \<Longrightarrow> length xs \<le> length ys"
  by (metis length_take min.absorb_iff2 min.commute)

lemma take_prefixE:
  assumes "take (length xs) ys = xs"
  obtains post where "ys = xs @ post"
  using assms by (metis append_take_drop_id)

text \<open>
  How a decoder may move its reader: \<open>moves\<close> forward inside the buffer, or \<open>advances\<close> by at least one byte.
\<close>

definition moves :: "Reader \<Rightarrow> Reader \<Rightarrow> bool" where
  "moves r r' \<longleftrightarrow> (Reader_ok r \<longrightarrow> (\<exists>n \<le> length (rem r). r' = adv r n))"

definition advances :: "Reader \<Rightarrow> Reader \<Rightarrow> bool" where
  "advances r r' \<longleftrightarrow> (Reader_ok r \<longrightarrow> (\<exists>n \<le> length (rem r). 0 < n \<and> r' = adv r n))"

lemma moves_refl [simp, intro]: "moves r r"
  by (auto simp: moves_def intro: exI [of _ 0])

lemma moves_adv [intro]: "n \<le> length (rem r) \<Longrightarrow> moves r (adv r n)"
  by (auto simp: moves_def)

lemma advances_adv [intro]: "0 < n \<Longrightarrow> n \<le> length (rem r) \<Longrightarrow> advances r (adv r n)"
  by (auto simp: advances_def)

lemma moves_rest [intro]: "Reader_rest r = (bs, r') \<Longrightarrow> moves r r'"
  by (auto simp: moves_def Reader_rest_rem)

lemma moves_snd_rest [simp, intro]: "moves r (snd (Reader_rest r))"
  by (auto simp: moves_def Reader_rest_rem)

lemma advances_moves: "advances r r' \<Longrightarrow> moves r r'"
  by (auto simp: moves_def advances_def)

lemma moves_ok: "moves r r' \<Longrightarrow> Reader_ok r \<Longrightarrow> Reader_ok r'"
  by (auto simp: moves_def intro: Reader_ok_adv)

lemma moves_trans: "moves r r' \<Longrightarrow> moves r' r'' \<Longrightarrow> moves r r''"
  unfolding moves_def
  by (metis (no_types, opaque_lifting) Reader_ok_adv adv_adv add_le_imp_le_diff le_diff_conv2 length_drop rem_adv add.commute)

lemma advances_trans:
  assumes "advances r r'" "moves r' r''"
  shows "advances r r''"
  unfolding advances_def
proof
  assume ok: "Reader_ok r"
  with assms(1) obtain n where n: "n \<le> length (rem r)" "0 < n" "r' = adv r n"
    by (auto simp: advances_def)
  with ok assms(2) obtain m where "m \<le> length (rem r) - n" "r'' = adv r (n + m)"
    by (auto simp: moves_def Reader_ok_adv)
  with n show "\<exists>n\<le>length (rem r). 0 < n \<and> r'' = adv r n"
    by (intro exI [of _ "n + m"]) auto
qed

lemma Reader_take_advances: "0 < n \<Longrightarrow> Reader_take n r = Some (bs, r') \<Longrightarrow> advances r r'"
  by (auto simp: Reader_take_rem split: if_splits)

lemma Reader_take_moves: "Reader_take n r = Some (bs, r') \<Longrightarrow> moves r r'"
  by (auto simp: Reader_take_rem split: if_splits)

lemma Reader_sub_moves: "Reader_sub n r = Some (sub, r') \<Longrightarrow> moves r r'"
  by (auto simp: Reader_sub_rem split: if_splits)

text \<open>A vector of good items whose encoding fits into \<open>m\<close> bytes.\<close>

definition vec_fits :: "('a \<Rightarrow> bytes \<Rightarrow> bytes) \<Rightarrow> ('a \<Rightarrow> bool) \<Rightarrow> nat \<Rightarrow> 'a list \<Rightarrow> bool" where
  "vec_fits encode valid m xs \<longleftrightarrow>
     list_all valid xs \<and> length (concat (map (get_encoding encode) xs)) \<le> m"

lemma u16_read_be:
  "take 2 (rem r) = u16_to_be_bytes v \<Longrightarrow> u16_read r = Some (v, adv r 2)"
  using length_take_eq_iff [of "u16_to_be_bytes v" "rem r"]
  by (simp add: u16_read_def Reader_take_rem decode_u16_def)

lemma u32_be_high_zero:
  "unat v < 2 ^ 24 \<Longrightarrow> u32_to_be_bytes v = 0 # drop 1 (u32_to_be_bytes v)"
proof -
  assume "unat v < 2 ^ 24"
  then have "unat (drop_bit 24 v) = 0"
    by (simp add: drop_bit_eq_div unat_div_distrib)
  then have "drop_bit 24 v = 0" by (simp add: unat_eq_zero)
  then show ?thesis by (simp add: u32_to_be_bytes_def)
qed

lemma u24_read_be:
  assumes "unat v < 2 ^ 24" "take 3 (rem r) = drop 1 (u32_to_be_bytes v)"
  shows "u24_read r = Some (u24 v, adv r 3)"
proof -
  obtain a b c where abc: "drop 1 (u32_to_be_bytes v) = [a, b, c]"
    by (simp add: u32_to_be_bytes_def)
  with u32_be_high_zero [OF assms(1)] have "u32_from_be_bytes [0, a, b, c] = Some v"
    by (metis u32_from_to_be)
  moreover have "3 \<le> length (rem r)"
    using arg_cong [OF assms(2), of length] by (simp add: min_def split: if_splits)
  ultimately show ?thesis
    using assms(2) abc by (simp add: u24_read_def Reader_take_rem)
qed

lemma u24_decode_SomeD:
  "u24_decode bs = Some v \<Longrightarrow> unat (u24_val v) < 2 ^ 24 \<and> drop 1 (u32_to_be_bytes (u24_val v)) = bs"
proof (induction bs rule: u24_decode.induct)
  case (1 a b c)
  then obtain w where w: "u32_from_be_bytes [0, a, b, c] = Some w" "v = u24 w" by auto
  have be: "u32_to_be_bytes w = [0, a, b, c]" using w(1) by (rule u32_to_from_be)
  then have high: "ucast (drop_bit 24 w) = (0 :: u8)" by (simp add: u32_to_be_bytes_def)
  have "drop_bit 24 w = 0"
  proof (rule bit_word_eqI)
    fix n assume "n < LENGTH(32)"
    show "bit (drop_bit 24 w) n = bit (0 :: u32) n"
    proof (cases "n < 8")
      case True
      then have "bit (ucast (drop_bit 24 w) :: u8) n = bit (drop_bit 24 w) n"
        by (simp add: bit_simps)
      with high show ?thesis by simp
    next
      case False
      then show ?thesis using bit_imp_le_length [of w "24 + n"] by (auto simp: bit_simps)
    qed
  qed
  then have "unat (drop_bit 24 w) = 0" by simp
  then have "unat w < 2 ^ 24" by (simp add: drop_bit_eq_div unat_div_distrib div_eq_0_iff)
  with w be show ?case by simp
qed simp_all

subsection \<open>The contract of the trait\<close>

locale encoder =
  fixes encode :: "'a \<Rightarrow> bytes \<Rightarrow> bytes"
  assumes encode_appends: "encode x bs = bs @ encode x []"
begin

lemma encode_conv: "encode x bs = bs @ get_encoding encode x"
  unfolding get_encoding_def by (rule encode_appends)

lemma fold_encode: "fold encode xs bs = bs @ concat (map (get_encoding encode) xs)"
  by (induction xs arbitrary: bs) (simp_all add: encode_conv)

lemma vec_u8_bytes [enc_simps]:
  "get_encoding (encode_vec_u8 encode) xs =
     word_of_nat (length (concat (map (get_encoding encode) xs)))
       # concat (map (get_encoding encode) xs)"
  by (simp add: get_encoding_def [of "encode_vec_u8 encode"] encode_vec_u8_def fold_encode)

lemma vec_u16_bytes [enc_simps]:
  "get_encoding (encode_vec_u16 encode) xs =
     u16_to_be_bytes (word_of_nat (length (concat (map (get_encoding encode) xs))))
       @ concat (map (get_encoding encode) xs)"
  by (simp add: get_encoding_def [of "encode_vec_u16 encode"] encode_vec_u16_def fold_encode overwrite_def)

lemma vec_u24_bytes [enc_simps]:
  "get_encoding (encode_vec_u24 encode) xs =
     drop 1 (u32_to_be_bytes (word_of_nat (length (concat (map (get_encoding encode) xs)))))
       @ concat (map (get_encoding encode) xs)"
  by (simp add: get_encoding_def [of "encode_vec_u24 encode"] encode_vec_u24_def fold_encode overwrite_def)

lemma vec_u8_encoder: "encoder (encode_vec_u8 encode)"
  by unfold_locales (simp add: encode_vec_u8_def Let_def fold_encode list_update_append)

lemma vec_u16_encoder: "encoder (encode_vec_u16 encode)"
  by unfold_locales (simp add: encode_vec_u16_def Let_def fold_encode overwrite_def)

lemma vec_u24_encoder: "encoder (encode_vec_u24 encode)"
  by unfold_locales (simp add: encode_vec_u24_def Let_def fold_encode overwrite_def)

end

locale decoder =
  fixes read :: "Reader \<Rightarrow> ('a \<times> Reader) option"
  assumes frame: "read r = Some (x, r') \<Longrightarrow> moves r r'"

locale strict_decoder =
  fixes read :: "Reader \<Rightarrow> ('a \<times> Reader) option"
  assumes progress: "read r = Some (x, r') \<Longrightarrow> advances r r'"
begin

lemma read_moves: "read r = Some (x, r') \<Longrightarrow> moves r r'"
  by (intro advances_moves progress)

lemma shrinks: "Reader_ok r \<Longrightarrow> read r = Some (x, r') \<Longrightarrow> length (rem r') < length (rem r)"
  using progress [of r x r'] by (auto simp: advances_def)

lemma read_items_unfold:
  assumes "Reader_ok sub"
  shows "read_items read sub =
    (if \<not> Reader_any_left sub then Some ([], sub)
     else do { (x, sub') \<leftarrow> read sub; (ret, s) \<leftarrow> read_items read sub'; Some (x # ret, s) })"
  using shrinks [OF assms]
  by (subst read_items.simps) (auto split: option.splits simp: map_option_case)

lemma vec_strict:
  "strict_decoder (read_vec_u8 read)"
  "strict_decoder (read_vec_u16 read)"
  "strict_decoder (read_vec_u24_limited read m)"
  by (unfold_locales,
      auto simp: read_vec_u8_def read_vec_u16_def read_vec_u24_limited_def u8_read_def
        u16_read_def u24_read_def Let_def split: bind_split_asm if_splits
        dest!: Reader_take_advances [rotated] Reader_sub_moves)
    (blast intro: advances_trans)+

end

sublocale strict_decoder \<subseteq> decoder
  by unfold_locales (rule read_moves)

text \<open>
  A codec decodes what it encodes. \<open>valid\<close> delimits the values the wire format can carry (a vector has to fit its length
  field, an \<open>Unknown\<close> ordinal must not be a known one).
\<close>

locale codec = encoder encode + strict_decoder read
  for encode :: "'a \<Rightarrow> bytes \<Rightarrow> bytes" and read :: "Reader \<Rightarrow> ('a \<times> Reader) option" +
  fixes valid :: "'a \<Rightarrow> bool"
  assumes read_encode:
    "valid x \<Longrightarrow> take (length (get_encoding encode x)) (rem r) = get_encoding encode x \<Longrightarrow>
       read r = Some (x, adv r (length (get_encoding encode x)))"
begin

lemma read_bytes_get_encoding:
  "valid x \<Longrightarrow> read_bytes read (get_encoding encode x @ post) = Some x"
  by (simp add: read_bytes_def read_encode)

lemma encoding_nonempty: "valid x \<Longrightarrow> get_encoding encode x \<noteq> []"
  using read_encode [of x "Reader_init (get_encoding encode x)"]
    shrinks [of "Reader_init (get_encoding encode x)" x] by auto

lemma encode_inj:
  assumes "valid x" "valid y" "get_encoding encode x @ p = get_encoding encode y @ q"
  shows "x = y \<and> p = q"
proof -
  have "Some x = Some y"
    using read_bytes_get_encoding [OF assms(1), of p] read_bytes_get_encoding [OF assms(2), of q]
      assms(3) by simp
  with assms(3) show ?thesis by simp
qed

lemma read_items_encode:
  assumes "list_all valid xs" "Reader_ok r" "rem r = concat (map (get_encoding encode) xs)"
  shows "read_items read r = Some (xs, adv r (length (rem r)))"
  using assms
proof (induction xs arbitrary: r)
  case Nil
  then show ?case by (simp add: read_items.simps)
next
  case (Cons x xs)
  let ?n = "length (get_encoding encode x)"
  from Cons.prems have rd: "read r = Some (x, adv r ?n)"
    by (intro read_encode) auto
  have "read_items read (adv r ?n) = Some (xs, adv (adv r ?n) (length (rem (adv r ?n))))"
    using Cons.prems by (intro Cons.IH Reader_ok_adv) auto
  then show ?case
    using Cons.prems rd encoding_nonempty [of x] by (simp add: read_items_unfold)
qed

lemma vec_u8: "codec (encode_vec_u8 encode) (read_vec_u8 read) (vec_fits encode valid 255)"
proof (intro codec.intro vec_u8_encoder vec_strict codec_axioms.intro)
  fix xs r
  let ?body = "concat (map (get_encoding encode) xs)"
  assume wf: "vec_fits encode valid 255 xs"
    and rem: "take (length (get_encoding (encode_vec_u8 encode) xs)) (rem r) =
      get_encoding (encode_vec_u8 encode) xs"
  from rem obtain post where post: "rem r = (word_of_nat (length ?body) # ?body) @ post"
    by (metis append_take_drop_id vec_u8_bytes)
  from wf have "unat (word_of_nat (length ?body) :: u8) = length ?body"
    by (intro unat_word_of_nat_small) (simp add: vec_fits_def)
  moreover have "read_items read (Reader_init ?body) = Some (xs, adv (Reader_init ?body) (length ?body))"
    using read_items_encode [of xs "Reader_init ?body"] wf by (simp add: vec_fits_def)
  ultimately show "read_vec_u8 read r =
      Some (xs, adv r (length (get_encoding (encode_vec_u8 encode) xs)))"
    using post by (simp add: read_vec_u8_def u8_read_def Reader_take_rem Reader_sub_rem vec_u8_bytes)
qed

lemma vec_u16: "codec (encode_vec_u16 encode) (read_vec_u16 read) (vec_fits encode valid 65535)"
proof (intro codec.intro vec_u16_encoder vec_strict codec_axioms.intro)
  fix xs r
  let ?body = "concat (map (get_encoding encode) xs)"
  let ?len = "word_of_nat (length ?body) :: u16"
  assume wf: "vec_fits encode valid 65535 xs"
    and rem: "take (length (get_encoding (encode_vec_u16 encode) xs)) (rem r) =
      get_encoding (encode_vec_u16 encode) xs"
  from rem obtain post where post: "rem r = (u16_to_be_bytes ?len @ ?body) @ post"
    by (metis append_take_drop_id vec_u16_bytes)
  from wf have "unat ?len = length ?body"
    by (intro unat_word_of_nat_small) (simp add: vec_fits_def)
  moreover have "u16_read r = Some (?len, adv r 2)"
    using post by (intro u16_read_be) simp
  moreover have "read_items read (Reader_init ?body) = Some (xs, adv (Reader_init ?body) (length ?body))"
    using read_items_encode [of xs "Reader_init ?body"] wf by (simp add: vec_fits_def)
  ultimately show "read_vec_u16 read r =
      Some (xs, adv r (length (get_encoding (encode_vec_u16 encode) xs)))"
    using post by (simp add: read_vec_u16_def Reader_sub_rem vec_u16_bytes)
qed

lemma vec_u24:
  assumes "m < 2 ^ 24"
  shows "codec (encode_vec_u24 encode) (read_vec_u24_limited read m) (vec_fits encode valid m)"
proof (intro codec.intro vec_u24_encoder vec_strict codec_axioms.intro)
  fix xs r
  let ?body = "concat (map (get_encoding encode) xs)"
  let ?len = "word_of_nat (length ?body) :: u32"
  assume wf: "vec_fits encode valid m xs"
    and rem: "take (length (get_encoding (encode_vec_u24 encode) xs)) (rem r) =
      get_encoding (encode_vec_u24 encode) xs"
  from rem obtain post where post: "rem r = (drop 1 (u32_to_be_bytes ?len) @ ?body) @ post"
    by (metis append_take_drop_id vec_u24_bytes)
  from wf assms have len: "unat ?len = length ?body"
    by (intro unat_word_of_nat_small) (simp add: vec_fits_def)
  moreover have "u24_read r = Some (u24 ?len, adv r 3)"
    using post wf assms len by (intro u24_read_be) (simp_all add: vec_fits_def)
  moreover have "read_items read (Reader_init ?body) = Some (xs, adv (Reader_init ?body) (length ?body))"
    using read_items_encode [of xs "Reader_init ?body"] wf by (simp add: vec_fits_def)
  ultimately show "read_vec_u24_limited read m r =
      Some (xs, adv r (length (get_encoding (encode_vec_u24 encode) xs)))"
    using post wf by (simp add: read_vec_u24_limited_def Reader_sub_rem vec_u24_bytes vec_fits_def)
qed

end

text \<open>
  A canonical codec accepts only its own encodings: whatever it decodes is valid and re-encodes to
  exactly the bytes it consumed.
\<close>

locale canonical_codec = codec encode read valid
  for encode :: "'a \<Rightarrow> bytes \<Rightarrow> bytes" and read :: "Reader \<Rightarrow> ('a \<times> Reader) option"
    and valid :: "'a \<Rightarrow> bool" +
  assumes encode_read:
    "Reader_ok r \<Longrightarrow> read r = Some (x, r') \<Longrightarrow>
       valid x \<and> take (length (get_encoding encode x)) (rem r) = get_encoding encode x
         \<and> r' = adv r (length (get_encoding encode x))"
begin

lemma read_items_decode:
  "Reader_ok r \<Longrightarrow> read_items read r = Some (xs, s) \<Longrightarrow>
     list_all valid xs \<and> rem r = concat (map (get_encoding encode) xs)"
proof (induction "length (rem r)" arbitrary: r xs rule: less_induct)
  case less
  show ?case
  proof (cases "rem r = []")
    case True
    with less.prems show ?thesis by (simp add: read_items.simps)
  next
    case False
    with less.prems obtain x r' ys where rd: "read r = Some (x, r')" and xs: "xs = x # ys"
      and rest: "read_items read r' = Some (ys, s)"
      by (auto simp: read_items_unfold split: bind_split_asm)
    have er: "valid x" "take (length (get_encoding encode x)) (rem r) = get_encoding encode x"
      "r' = adv r (length (get_encoding encode x))"
      using encode_read [OF less.prems(1) rd] by auto
    have "list_all valid ys \<and> rem r' = concat (map (get_encoding encode) ys)"
      using less.hyps [OF shrinks [OF less.prems(1) rd]
          moves_ok [OF read_moves [OF rd] less.prems(1)] rest] .
    moreover have "rem r = get_encoding encode x @ rem r'"
      using er(2,3) by (metis append_take_drop_id rem_adv)
    ultimately show ?thesis using er(1) xs by simp
  qed
qed

lemma vec_u8_canonical:
  "canonical_codec (encode_vec_u8 encode) (read_vec_u8 read) (vec_fits encode valid 255)"
proof (intro canonical_codec.intro vec_u8 canonical_codec_axioms.intro)
  fix r xs r' assume ok: "Reader_ok r" and rd: "read_vec_u8 read r = Some (xs, r')"
  then obtain len s where len: "rem r \<noteq> []" "len = hd (rem r)" "unat len \<le> length (rem r) - 1"
    "r' = adv r (1 + unat len)"
    and items: "read_items read (Reader_init (take (unat len) (drop 1 (rem r)))) = Some (xs, s)"
    by (cases "rem r") (auto simp: read_vec_u8_def u8_read_def Reader_take_rem Reader_sub_rem
        split: bind_split_asm if_splits)
  from read_items_decode [OF _ items] have good: "list_all valid xs"
    and body: "take (unat len) (tl (rem r)) = concat (map (get_encoding encode) xs)"
    by (auto simp: drop_Suc)
  from arg_cong [OF body, of length] len(3)
  have l: "length (concat (map (get_encoding encode) xs)) = unat len" by simp
  then have "get_encoding (encode_vec_u8 encode) xs = len # take (unat len) (tl (rem r))"
    by (simp add: vec_u8_bytes body)
  then show "vec_fits encode valid 255 xs
      \<and> take (length (get_encoding (encode_vec_u8 encode) xs)) (rem r) = get_encoding (encode_vec_u8 encode) xs
      \<and> r' = adv r (length (get_encoding (encode_vec_u8 encode) xs))"
    using len l good by (cases "rem r") (auto simp: vec_fits_def)
qed

lemma vec_u16_canonical:
  "canonical_codec (encode_vec_u16 encode) (read_vec_u16 read) (vec_fits encode valid 65535)"
proof (intro canonical_codec.intro vec_u16 canonical_codec_axioms.intro)
  fix r xs r' assume ok: "Reader_ok r" and rd: "read_vec_u16 read r = Some (xs, r')"
  then obtain len s where len: "2 \<le> length (rem r)" "u16_from_be_bytes (take 2 (rem r)) = Some len"
    "unat len \<le> length (rem r) - 2" "r' = adv r (2 + unat len)"
    and items: "read_items read (Reader_init (take (unat len) (drop 2 (rem r)))) = Some (xs, s)"
    by (auto simp: read_vec_u16_def u16_read_def decode_u16_def Reader_take_rem Reader_sub_rem
        split: bind_split_asm if_splits)
  from read_items_decode [OF _ items] have good: "list_all valid xs"
    and body: "take (unat len) (drop 2 (rem r)) = concat (map (get_encoding encode) xs)"
    by auto
  from arg_cong [OF body, of length] len(3)
  have l: "length (concat (map (get_encoding encode) xs)) = unat len" by simp
  then have "get_encoding (encode_vec_u16 encode) xs = take 2 (rem r) @ take (unat len) (drop 2 (rem r))"
    by (simp add: vec_u16_bytes body u16_to_from_be [OF len(2)])
  then show "vec_fits encode valid 65535 xs
      \<and> take (length (get_encoding (encode_vec_u16 encode) xs)) (rem r) = get_encoding (encode_vec_u16 encode) xs
      \<and> r' = adv r (length (get_encoding (encode_vec_u16 encode) xs))"
    using len l good by (auto simp: vec_fits_def take_add min_def)
qed

lemma vec_u24_canonical:
  assumes "m < 2 ^ 24"
  shows "canonical_codec (encode_vec_u24 encode) (read_vec_u24_limited read m) (vec_fits encode valid m)"
proof (intro canonical_codec.intro vec_u24 assms canonical_codec_axioms.intro)
  fix r xs r' assume ok: "Reader_ok r" and rd: "read_vec_u24_limited read m r = Some (xs, r')"
  then obtain len s where len: "3 \<le> length (rem r)" "u24_decode (take 3 (rem r)) = Some len"
    "unat (u24_val len) \<le> length (rem r) - 3" "unat (u24_val len) \<le> m" "r' = adv r (3 + unat (u24_val len))"
    and items: "read_items read (Reader_init (take (unat (u24_val len)) (drop 3 (rem r)))) = Some (xs, s)"
    by (auto simp: read_vec_u24_limited_def u24_read_def Reader_take_rem Reader_sub_rem Let_def
        split: bind_split_asm if_splits)
  from read_items_decode [OF _ items] have good: "list_all valid xs"
    and body: "take (unat (u24_val len)) (drop 3 (rem r)) = concat (map (get_encoding encode) xs)"
    by auto
  from arg_cong [OF body, of length] len(3)
  have l: "length (concat (map (get_encoding encode) xs)) = unat (u24_val len)" by simp
  then have "get_encoding (encode_vec_u24 encode) xs =
      take 3 (rem r) @ take (unat (u24_val len)) (drop 3 (rem r))"
    using u24_decode_SomeD [OF len(2)] by (simp add: vec_u24_bytes body)
  then show "vec_fits encode valid m xs
      \<and> take (length (get_encoding (encode_vec_u24 encode) xs)) (rem r) = get_encoding (encode_vec_u24 encode) xs
      \<and> r' = adv r (length (get_encoding (encode_vec_u24 encode) xs))"
    using len l good by (auto simp: vec_fits_def take_add min_def)
qed

end

text \<open>A codec for values that extend to the end of the reader.\<close>

locale tail_codec = encoder encode + decoder read
  for encode :: "'a \<Rightarrow> bytes \<Rightarrow> bytes" and read :: "Reader \<Rightarrow> ('a \<times> Reader) option" +
  fixes valid :: "'a \<Rightarrow> bool"
  assumes read_encode_all:
    "valid x \<Longrightarrow> Reader_ok r \<Longrightarrow> rem r = get_encoding encode x \<Longrightarrow>
       read r = Some (x, adv r (length (get_encoding encode x)))"
begin

lemma read_bytes_tail: "valid x \<Longrightarrow> read_bytes read (get_encoding encode x) = Some x"
  by (simp add: read_bytes_def read_encode_all)

lemma read_init [codec_simps]:
  "valid x \<Longrightarrow> read (Reader_init (encode x [])) =
     Some (x, adv (Reader_init (encode x [])) (length (encode x [])))"
  using read_encode_all [of x "Reader_init (encode x [])"] by (simp add: get_encoding_def)

end

sublocale codec \<subseteq> tail_codec
  by unfold_locales (simp add: read_encode)

subsection \<open>The integers are canonical codecs\<close>

lemma get_encoding_ints [enc_simps, simp]:
  "get_encoding u8_encode v8 = [v8]"
  "get_encoding u16_encode v16 = u16_to_be_bytes v16"
  "get_encoding u24_encode v24 = drop 1 (u32_to_be_bytes (u24_val v24))"
  "get_encoding u32_encode v32 = u32_to_be_bytes v32"
  "get_encoding u64_encode v64 = u64_to_be_bytes v64"
  by (simp_all add: get_encoding_def u8_encode_def u16_encode_def u24_encode_def u32_encode_def
      u64_encode_def put_u16_def put_u64_def)

lemmas int_encode_defs = u8_encode_def u16_encode_def u24_encode_def u32_encode_def u64_encode_def

interpretation u8: canonical_codec u8_encode u8_read "\<lambda>_. True"
proof unfold_locales
  fix x bs show "u8_encode x bs = bs @ u8_encode x []" by (simp add: u8_encode_def)
next
  fix r x r' assume "u8_read r = Some (x, r')"
  then show "advances r r'"
    by (auto simp: u8_read_def split: bind_split_asm dest!: Reader_take_advances [rotated])
next
  fix x r assume "take (length (get_encoding u8_encode x)) (rem r) = get_encoding u8_encode x"
  then show "u8_read r = Some (x, adv r (length (get_encoding u8_encode x)))"
    by (cases "rem r") (auto simp: u8_read_def Reader_take_rem)
next
  fix r x r' assume "u8_read r = Some (x, r')"
  then show "True \<and> take (length (get_encoding u8_encode x)) (rem r) = get_encoding u8_encode x
      \<and> r' = adv r (length (get_encoding u8_encode x))"
    by (cases "rem r") (auto simp: u8_read_def Reader_take_rem split: if_splits)
qed

interpretation u16: canonical_codec u16_encode u16_read "\<lambda>_. True"
proof unfold_locales
  fix x bs show "u16_encode x bs = bs @ u16_encode x []" by (simp add: u16_encode_def)
next
  fix r x r' assume "u16_read r = Some (x, r')"
  then show "advances r r'"
    by (auto simp: u16_read_def split: bind_split_asm dest!: Reader_take_advances [rotated])
next
  fix x r assume "take (length (get_encoding u16_encode x)) (rem r) = get_encoding u16_encode x"
  then show "u16_read r = Some (x, adv r (length (get_encoding u16_encode x)))"
    by (simp add: u16_read_be)
next
  fix r x r' assume "u16_read r = Some (x, r')"
  then show "True \<and> take (length (get_encoding u16_encode x)) (rem r) = get_encoding u16_encode x
      \<and> r' = adv r (length (get_encoding u16_encode x))"
    by (auto simp: u16_read_def Reader_take_rem decode_u16_def u16_to_from_be
        split: if_splits bind_split_asm)
qed

interpretation u24: canonical_codec u24_encode u24_read "\<lambda>v. unat (u24_val v) < 2 ^ 24"
proof unfold_locales
  fix x bs show "u24_encode x bs = bs @ u24_encode x []" by (simp add: u24_encode_def)
next
  fix r x r' assume "u24_read r = Some (x, r')"
  then show "advances r r'"
    by (auto simp: u24_read_def split: bind_split_asm dest!: Reader_take_advances [rotated])
next
  fix x r assume "unat (u24_val x) < 2 ^ 24"
    "take (length (get_encoding u24_encode x)) (rem r) = get_encoding u24_encode x"
  then show "u24_read r = Some (x, adv r (length (get_encoding u24_encode x)))"
    by (simp add: u24_read_be)
next
  fix r x r' assume "u24_read r = Some (x, r')"
  then show "unat (u24_val x) < 2 ^ 24
      \<and> take (length (get_encoding u24_encode x)) (rem r) = get_encoding u24_encode x
      \<and> r' = adv r (length (get_encoding u24_encode x))"
    by (auto simp: u24_read_def Reader_take_rem split: if_splits bind_split_asm
        dest!: u24_decode_SomeD)
qed

interpretation u32: canonical_codec u32_encode u32_read "\<lambda>_. True"
proof unfold_locales
  fix x bs show "u32_encode x bs = bs @ u32_encode x []" by (simp add: u32_encode_def)
next
  fix r x r' assume "u32_read r = Some (x, r')"
  then show "advances r r'"
    by (auto simp: u32_read_def split: bind_split_asm dest!: Reader_take_advances [rotated])
next
  fix x r assume "take (length (get_encoding u32_encode x)) (rem r) = get_encoding u32_encode x"
  then show "u32_read r = Some (x, adv r (length (get_encoding u32_encode x)))"
    using length_take_eq_iff [of "u32_to_be_bytes x" "rem r"]
    by (simp add: u32_read_def Reader_take_rem decode_u32_def)
next
  fix r x r' assume "u32_read r = Some (x, r')"
  then show "True \<and> take (length (get_encoding u32_encode x)) (rem r) = get_encoding u32_encode x
      \<and> r' = adv r (length (get_encoding u32_encode x))"
    by (auto simp: u32_read_def Reader_take_rem decode_u32_def u32_to_from_be
        split: if_splits bind_split_asm)
qed

interpretation u64: canonical_codec u64_encode u64_read "\<lambda>_. True"
proof unfold_locales
  fix x bs show "u64_encode x bs = bs @ u64_encode x []" by (simp add: u64_encode_def)
next
  fix r x r' assume "u64_read r = Some (x, r')"
  then show "advances r r'"
    by (auto simp: u64_read_def split: bind_split_asm dest!: Reader_take_advances [rotated])
next
  fix x r assume "take (length (get_encoding u64_encode x)) (rem r) = get_encoding u64_encode x"
  then show "u64_read r = Some (x, adv r (length (get_encoding u64_encode x)))"
    using length_take_eq_iff [of "u64_to_be_bytes x" "rem r"]
    by (simp add: u64_read_def Reader_take_rem decode_u64_def)
next
  fix r x r' assume "u64_read r = Some (x, r')"
  then show "True \<and> take (length (get_encoding u64_encode x)) (rem r) = get_encoding u64_encode x
      \<and> r' = adv r (length (get_encoding u64_encode x))"
    by (auto simp: u64_read_def Reader_take_rem decode_u64_def u64_to_from_be
        split: if_splits bind_split_asm)
qed

subsection \<open>Composition\<close>

text \<open>
  Most wire structures encode their fields one after the other. \<open>pair_encode\<close> and \<open>pair_read\<close> are the
  sequence of two codecs; the lemmas carry the contracts over to the sequence and, along a bijection,
  to a structure with named fields.
\<close>

definition pair_encode ::
  "('a \<Rightarrow> bytes \<Rightarrow> bytes) \<Rightarrow> ('b \<Rightarrow> bytes \<Rightarrow> bytes) \<Rightarrow> 'a \<times> 'b \<Rightarrow> bytes \<Rightarrow> bytes" where
  "pair_encode e1 e2 = (\<lambda>(a, b) bs. e2 b (e1 a bs))"

definition pair_read ::
  "(Reader \<Rightarrow> ('a \<times> Reader) option) \<Rightarrow> (Reader \<Rightarrow> ('b \<times> Reader) option) \<Rightarrow>
     Reader \<Rightarrow> (('a \<times> 'b) \<times> Reader) option" where
  "pair_read r1 r2 r = do { (a, r) \<leftarrow> r1 r; (b, r) \<leftarrow> r2 r; Some ((a, b), r) }"

lemma pair_encoder: "encoder e1 \<Longrightarrow> encoder e2 \<Longrightarrow> encoder (pair_encode e1 e2)"
  by (rule encoder.intro) (simp add: pair_encode_def encoder.encode_conv split_beta)

lemma pair_bytes:
  assumes "encoder e1" "encoder e2"
  shows "get_encoding (pair_encode e1 e2) (a, b) = get_encoding e1 a @ get_encoding e2 b"
  unfolding get_encoding_def [of "pair_encode e1 e2"]
  by (simp add: pair_encode_def encoder.encode_conv [OF assms(1)] encoder.encode_conv [OF assms(2)])

lemma pair_decoder: "decoder r1 \<Longrightarrow> decoder r2 \<Longrightarrow> decoder (pair_read r1 r2)"
  by (auto simp: decoder_def pair_read_def split: bind_split_asm) (blast intro: moves_trans)

lemma pair_strict: "strict_decoder r1 \<Longrightarrow> decoder r2 \<Longrightarrow> strict_decoder (pair_read r1 r2)"
  by (auto simp: strict_decoder_def decoder_def pair_read_def split: bind_split_asm)
    (blast intro: advances_trans)

lemma codec_pair:
  assumes "codec e1 r1 v1" "codec e2 r2 v2"
  shows "codec (pair_encode e1 e2) (pair_read r1 r2) (\<lambda>(a, b). v1 a \<and> v2 b)"
proof -
  from assms have enc: "encoder e1" "encoder e2" and dec: "strict_decoder r1" "decoder r2"
    by (auto simp: codec_def intro: strict_decoder.read_moves decoder.intro)
  show ?thesis
  proof (intro codec.intro pair_encoder pair_strict enc dec codec_axioms.intro)
    fix x r
    assume v: "case x of (a, b) \<Rightarrow> v1 a \<and> v2 b"
      and t: "take (length (get_encoding (pair_encode e1 e2) x)) (rem r) = get_encoding (pair_encode e1 e2) x"
    obtain a b where x: "x = (a, b)" by (cases x)
    from t obtain post where post: "rem r = (get_encoding e1 a @ get_encoding e2 b) @ post"
      unfolding x pair_bytes [OF enc] by (metis append_take_drop_id)
    have "r1 r = Some (a, adv r (length (get_encoding e1 a)))"
      using v x post by (intro codec.read_encode [OF assms(1)]) auto
    moreover have "r2 (adv r (length (get_encoding e1 a))) =
        Some (b, adv (adv r (length (get_encoding e1 a))) (length (get_encoding e2 b)))"
      using v x post by (intro codec.read_encode [OF assms(2)]) auto
    ultimately show "pair_read r1 r2 r = Some (x, adv r (length (get_encoding (pair_encode e1 e2) x)))"
      by (simp add: pair_read_def x pair_bytes [OF enc])
  qed
qed

lemma tail_pair:
  assumes "codec e1 r1 v1" "tail_codec e2 r2 v2"
  shows "tail_codec (pair_encode e1 e2) (pair_read r1 r2) (\<lambda>(a, b). v1 a \<and> v2 b)"
proof -
  from assms have enc: "encoder e1" "encoder e2" and dec: "decoder r1" "decoder r2"
    by (auto simp: codec_def tail_codec_def intro: strict_decoder.read_moves decoder.intro)
  show ?thesis
  proof (intro tail_codec.intro pair_encoder pair_decoder enc dec tail_codec_axioms.intro)
    fix x r
    assume v: "case x of (a, b) \<Rightarrow> v1 a \<and> v2 b" and ok: "Reader_ok r"
      and t: "rem r = get_encoding (pair_encode e1 e2) x"
    obtain a b where x: "x = (a, b)" by (cases x)
    have post: "rem r = get_encoding e1 a @ get_encoding e2 b"
      using t x pair_bytes [OF enc] by simp
    have "r1 r = Some (a, adv r (length (get_encoding e1 a)))"
      using v x post by (intro codec.read_encode [OF assms(1)]) auto
    moreover have "r2 (adv r (length (get_encoding e1 a))) =
        Some (b, adv (adv r (length (get_encoding e1 a))) (length (get_encoding e2 b)))"
      using v x post ok by (intro tail_codec.read_encode_all [OF assms(2)] Reader_ok_adv) auto
    ultimately show "pair_read r1 r2 r = Some (x, adv r (length (get_encoding (pair_encode e1 e2) x)))"
      by (simp add: pair_read_def x pair_bytes [OF enc])
  qed
qed

lemma canonical_pair:
  assumes "canonical_codec e1 r1 v1" "canonical_codec e2 r2 v2"
  shows "canonical_codec (pair_encode e1 e2) (pair_read r1 r2) (\<lambda>(a, b). v1 a \<and> v2 b)"
proof -
  have c: "codec e1 r1 v1" "codec e2 r2 v2" using assms by (auto simp: canonical_codec_def)
  then have enc: "encoder e1" "encoder e2" by (auto simp: codec_def)
  show ?thesis
  proof (intro canonical_codec.intro codec_pair c canonical_codec_axioms.intro)
    fix r x r' assume ok: "Reader_ok r" and rd: "pair_read r1 r2 r = Some (x, r')"
    then obtain a b s where x: "x = (a, b)" and ra: "r1 r = Some (a, s)" and rb: "r2 s = Some (b, r')"
      by (auto simp: pair_read_def split: bind_split_asm)
    from canonical_codec.encode_read [OF assms(1) ok ra]
    have a: "v1 a" "take (length (get_encoding e1 a)) (rem r) = get_encoding e1 a"
      "s = adv r (length (get_encoding e1 a))" by auto
    then have "Reader_ok s" using ok length_take_eq_iff [OF a(2)] by (simp add: Reader_ok_adv)
    from canonical_codec.encode_read [OF assms(2) this rb]
    have b: "v2 b" "take (length (get_encoding e2 b)) (drop (length (get_encoding e1 a)) (rem r)) = get_encoding e2 b"
      "r' = adv r (length (get_encoding e1 a) + length (get_encoding e2 b))" by (auto simp: a(3))
    show "(case x of (a, b) \<Rightarrow> v1 a \<and> v2 b)
        \<and> take (length (get_encoding (pair_encode e1 e2) x)) (rem r) = get_encoding (pair_encode e1 e2) x
        \<and> r' = adv r (length (get_encoding (pair_encode e1 e2) x))"
      by (simp add: x pair_bytes [OF enc] a b take_add)
  qed
qed

lemma iso_bytes:
  "(\<And>x bs. encode x bs = e (f x) bs) \<Longrightarrow> get_encoding encode x = get_encoding e (f x)"
  by (simp add: get_encoding_def)

text \<open>
  A structure with named fields: \<open>f\<close> lists the fields, \<open>g\<close> builds the structure and may reject the fields it was given.
\<close>

lemma codec_partial:
  assumes "codec e rd v" and "\<And>x bs. encode x bs = e (f x) bs"
    and "\<And>r. read r = do { (a, r) \<leftarrow> rd r; x \<leftarrow> g a; Some (x, r) }"
    and "\<And>x. valid x \<Longrightarrow> v (f x) \<and> g (f x) = Some x"
  shows "codec encode read valid"
proof -
  have "encoder e" using assms(1) by (simp add: codec_def)
  then have "encoder encode"
    unfolding encoder_def assms(2) by blast
  moreover have "strict_decoder read"
    using assms(1,3) by (auto simp: codec_def strict_decoder_def split: bind_split_asm)
  moreover have "read r = Some (x, adv r (length (get_encoding encode x)))"
    if "valid x" "take (length (get_encoding encode x)) (rem r) = get_encoding encode x" for x r
  proof -
    have "rd r = Some (f x, adv r (length (get_encoding e (f x))))"
      using that assms(4) [of x] unfolding iso_bytes [of encode e f, OF assms(2)]
      by (intro codec.read_encode [OF assms(1)]) auto
    then show ?thesis
      using assms(4) [OF that(1)] unfolding iso_bytes [of encode e f, OF assms(2)] by (simp add: assms(3))
  qed
  ultimately show ?thesis by (intro codec.intro codec_axioms.intro) auto
qed

lemma tail_partial:
  assumes "tail_codec e rd v" and "\<And>x bs. encode x bs = e (f x) bs"
    and "\<And>r. read r = do { (a, r) \<leftarrow> rd r; x \<leftarrow> g a; Some (x, r) }"
    and "\<And>x. valid x \<Longrightarrow> v (f x) \<and> g (f x) = Some x"
  shows "tail_codec encode read valid"
proof -
  have "encoder e" using assms(1) by (simp add: tail_codec_def)
  then have "encoder encode"
    unfolding encoder_def assms(2) by blast
  moreover have "decoder read"
    using assms(1,3) by (auto simp: tail_codec_def decoder_def split: bind_split_asm)
  moreover have "read r = Some (x, adv r (length (get_encoding encode x)))"
    if "valid x" "Reader_ok r" "rem r = get_encoding encode x" for x r
  proof -
    have "rd r = Some (f x, adv r (length (get_encoding e (f x))))"
      using that assms(4) [of x] unfolding iso_bytes [of encode e f, OF assms(2)]
      by (intro tail_codec.read_encode_all [OF assms(1)]) auto
    then show ?thesis
      using assms(4) [OF that(1)] unfolding iso_bytes [of encode e f, OF assms(2)] by (simp add: assms(3))
  qed
  ultimately show ?thesis by (intro tail_codec.intro tail_codec_axioms.intro) auto
qed

lemma canonical_partial:
  assumes "canonical_codec e rd v" and "\<And>x bs. encode x bs = e (f x) bs"
    and "\<And>r. read r = do { (a, r) \<leftarrow> rd r; x \<leftarrow> g a; Some (x, r) }"
    and "\<And>x. valid x \<Longrightarrow> v (f x) \<and> g (f x) = Some x"
    and "\<And>a x. v a \<Longrightarrow> g a = Some x \<Longrightarrow> valid x \<and> f x = a"
  shows "canonical_codec encode read valid"
proof -
  have c: "codec e rd v" using assms(1) by (simp add: canonical_codec_def)
  show ?thesis
  proof (intro canonical_codec.intro codec_partial [OF c assms(2,3,4)] canonical_codec_axioms.intro)
    fix r x r' assume ok: "Reader_ok r" and "read r = Some (x, r')"
    then obtain a where a: "rd r = Some (a, r')" "g a = Some x"
      using assms(3) by (auto split: bind_split_asm)
    with canonical_codec.encode_read [OF assms(1) ok a(1)] assms(5) [of a x]
    show "valid x \<and> take (length (get_encoding encode x)) (rem r) = get_encoding encode x
        \<and> r' = adv r (length (get_encoding encode x))"
      by (simp add: iso_bytes [of encode e f, OF assms(2)])
  qed simp_all
qed

lemma bind_total: "(rd :: Reader \<Rightarrow> ('a \<times> Reader) option) r \<bind> (\<lambda>(a, r). Some (g a) \<bind> (\<lambda>x. Some (x, r)))
    = map_option (\<lambda>(a, r). (g a, r)) (rd r)"
  by (cases "rd r") auto

lemma codec_iso:
  assumes "codec e rd v" and "\<And>x bs. encode x bs = e (f x) bs"
    and "\<And>r. read r = map_option (\<lambda>(a, r). (g a, r)) (rd r)"
    and "\<And>x. valid x \<Longrightarrow> v (f x) \<and> g (f x) = x"
  shows "codec encode read valid"
  by (rule codec_partial [OF assms(1,2), where g = "\<lambda>a. Some (g a)"])
    (simp_all only: bind_total assms(3), simp add: assms(4))

lemma tail_iso:
  assumes "tail_codec e rd v" and "\<And>x bs. encode x bs = e (f x) bs"
    and "\<And>r. read r = map_option (\<lambda>(a, r). (g a, r)) (rd r)"
    and "\<And>x. valid x \<Longrightarrow> v (f x) \<and> g (f x) = x"
  shows "tail_codec encode read valid"
  by (rule tail_partial [OF assms(1,2), where g = "\<lambda>a. Some (g a)"])
    (simp_all only: bind_total assms(3), simp add: assms(4))

lemma canonical_iso:
  assumes "canonical_codec e rd v" and "\<And>x bs. encode x bs = e (f x) bs"
    and "\<And>r. read r = map_option (\<lambda>(a, r). (g a, r)) (rd r)"
    and "\<And>x. valid x \<Longrightarrow> v (f x) \<and> g (f x) = x"
    and "\<And>a. v a \<Longrightarrow> valid (g a) \<and> f (g a) = a"
  shows "canonical_codec encode read valid"
  by (rule canonical_partial [OF assms(1,2), where g = "\<lambda>a. Some (g a)"])
    (simp_all only: bind_total assms(3), auto simp: assms(4,5))

text \<open>A tag followed by a body whose format depends on the tag.\<close>

lemma tagged_encoder:
  assumes "encoder et" "encoder eb" "\<And>x bs. encode x bs = eb x (et (tag x) bs)"
  shows "encoder encode" "get_encoding encode x = get_encoding et (tag x) @ get_encoding eb x"
proof -
  show "encoder encode"
    by (rule encoder.intro) (simp add: assms(3) encoder.encode_conv [OF assms(1)] encoder.encode_conv [OF assms(2)])
  show "get_encoding encode x = get_encoding et (tag x) @ get_encoding eb x"
    unfolding get_encoding_def [of encode] assms(3)
    by (simp add: encoder.encode_conv [OF assms(1)] encoder.encode_conv [OF assms(2)])
qed

lemma tagged_codec:
  assumes "codec et rt vt" "encoder eb" "\<And>x bs. encode x bs = eb x (et (tag x) bs)"
    and rd: "\<And>r. read r = do { (t, r) \<leftarrow> rt r; rd t r }" and "\<And>t. decoder (rd t)"
    and body: "\<And>x. valid x \<Longrightarrow> vt (tag x)"
      "\<And>x r. valid x \<Longrightarrow> take (length (get_encoding eb x)) (rem r) = get_encoding eb x \<Longrightarrow>
         rd (tag x) r = Some (x, adv r (length (get_encoding eb x)))"
  shows "codec encode read valid"
proof (intro codec.intro codec_axioms.intro)
  have et: "encoder et" and rt: "strict_decoder rt" using assms(1) by (simp_all add: codec_def)
  show "encoder encode" by (rule tagged_encoder [OF et assms(2,3)])
  show "strict_decoder read"
    using rt assms(5) unfolding strict_decoder_def decoder_def rd
    by (auto split: bind_split_asm) (blast intro: advances_trans)
  fix x r assume v: "valid x" and t: "take (length (get_encoding encode x)) (rem r) = get_encoding encode x"
  then obtain post where post: "rem r = (get_encoding et (tag x) @ get_encoding eb x) @ post"
    unfolding tagged_encoder(2) [OF et assms(2,3)] by (blast elim: take_prefixE)
  have "rt r = Some (tag x, adv r (length (get_encoding et (tag x))))"
    using body(1) [OF v] post by (intro codec.read_encode [OF assms(1)]) auto
  moreover have "rd (tag x) (adv r (length (get_encoding et (tag x)))) =
      Some (x, adv (adv r (length (get_encoding et (tag x)))) (length (get_encoding eb x)))"
    using v post by (intro body(2)) auto
  ultimately show "read r = Some (x, adv r (length (get_encoding encode x)))"
    by (simp add: rd tagged_encoder(2) [OF et assms(2,3)])
qed

lemma tagged_tail:
  assumes "codec et rt vt" "encoder eb" "\<And>x bs. encode x bs = eb x (et (tag x) bs)"
    and rd: "\<And>r. read r = do { (t, r) \<leftarrow> rt r; rd t r }" and "\<And>t. decoder (rd t)"
    and body: "\<And>x. valid x \<Longrightarrow> vt (tag x)"
      "\<And>x r. valid x \<Longrightarrow> Reader_ok r \<Longrightarrow> rem r = get_encoding eb x \<Longrightarrow>
         rd (tag x) r = Some (x, adv r (length (get_encoding eb x)))"
  shows "tail_codec encode read valid"
proof (intro tail_codec.intro tail_codec_axioms.intro)
  have et: "encoder et" and rt: "strict_decoder rt" using assms(1) by (simp_all add: codec_def)
  show "encoder encode" by (rule tagged_encoder [OF et assms(2,3)])
  show "decoder read"
    using rt assms(5) unfolding strict_decoder_def decoder_def rd
    by (auto split: bind_split_asm) (blast intro: advances_moves advances_trans)
  fix x r assume v: "valid x" and ok: "Reader_ok r" and t: "rem r = get_encoding encode x"
  have post: "rem r = get_encoding et (tag x) @ get_encoding eb x"
    using t unfolding tagged_encoder(2) [OF et assms(2,3)] .
  have "rt r = Some (tag x, adv r (length (get_encoding et (tag x))))"
    using body(1) [OF v] post by (intro codec.read_encode [OF assms(1)]) auto
  moreover have "rd (tag x) (adv r (length (get_encoding et (tag x)))) =
      Some (x, adv (adv r (length (get_encoding et (tag x)))) (length (get_encoding eb x)))"
    using v post ok by (intro body(2) Reader_ok_adv) auto
  ultimately show "read r = Some (x, adv r (length (get_encoding encode x)))"
    by (simp add: rd tagged_encoder(2) [OF et assms(2,3)])
qed

end
