(* ===== verification/Tls_Enums.thy ===== *)
theory Tls_Enums
  imports Puffin_Codec
begin

text \<open>
  The TLS enumerations of \<open>tlspuffin/src/tls/rustls/msgs/enums.rs\<close> and the macro \<open>enum_builder!\<close>
  of \<open>msgs/macros.rs\<close> that generates their codecs. Every enumeration is a datatype with the source's
  variants and a catch-all \<open>Unknown\<close>; \<open>X_get\<close> is the generated \<open>get_u8\<close> / \<open>get_u16\<close> and \<open>X_from\<close> the
  generated \<open>From\<close> instance, whose match arms are tried in the order of the declaration.

  The locales \<open>enum_u8\<close> and \<open>enum_u16\<close> state the one law the generated functions have to satisfy,
  \<open>get (from x) = x\<close>, and derive from it that the generated \<open>encode\<close> and \<open>read\<close> form a canonical codec:
  every ordinal decodes, and re-encodes to itself; a value survives the round trip unless it is an
  \<open>Unknown\<close> that carries the ordinal of a named variant.

  \<open>CipherSuite\<close> has 376 named variants with pairwise distinct ordinals; its named variants are
  represented by their ordinal (\<open>Known v\<close>, where \<open>v\<close> is in the declared list), the others by \<open>Unknown\<close>.
\<close>

subsection \<open>What \<open>enum_builder!\<close> generates\<close>

definition enum_u8_encode :: "('a \<Rightarrow> u8) \<Rightarrow> 'a \<Rightarrow> bytes \<Rightarrow> bytes" where
  "enum_u8_encode get v bs = u8_encode (get v) bs"

definition enum_u8_read :: "(u8 \<Rightarrow> 'a) \<Rightarrow> Reader \<Rightarrow> ('a \<times> Reader) option" where
  "enum_u8_read conv r = map_option (\<lambda>(x, r). (conv x, r)) (u8_read r)"

definition enum_u16_encode :: "('a \<Rightarrow> u16) \<Rightarrow> 'a \<Rightarrow> bytes \<Rightarrow> bytes" where
  "enum_u16_encode get v bs = u16_encode (get v) bs"

definition enum_u16_read :: "(u16 \<Rightarrow> 'a) \<Rightarrow> Reader \<Rightarrow> ('a \<times> Reader) option" where
  "enum_u16_read conv r = map_option (\<lambda>(x, r). (conv x, r)) (u16_read r)"

subsection \<open>\<open>ProtocolVersion\<close>\<close>

datatype ProtocolVersion =
    SSLv2
  | SSLv3
  | TLSv1_0
  | TLSv1_1
  | TLSv1_2
  | TLSv1_3
  | DTLSv1_0
  | DTLSv1_2
  | Unknown u16

fun ProtocolVersion_get :: "ProtocolVersion \<Rightarrow> u16" where
  "ProtocolVersion_get ProtocolVersion.SSLv2 = 0x0200"
| "ProtocolVersion_get ProtocolVersion.SSLv3 = 0x0300"
| "ProtocolVersion_get ProtocolVersion.TLSv1_0 = 0x0301"
| "ProtocolVersion_get ProtocolVersion.TLSv1_1 = 0x0302"
| "ProtocolVersion_get ProtocolVersion.TLSv1_2 = 0x0303"
| "ProtocolVersion_get ProtocolVersion.TLSv1_3 = 0x0304"
| "ProtocolVersion_get ProtocolVersion.DTLSv1_0 = 0xfeff"
| "ProtocolVersion_get ProtocolVersion.DTLSv1_2 = 0xfefd"
| "ProtocolVersion_get (ProtocolVersion.Unknown x) = x"

definition ProtocolVersion_from :: "u16 \<Rightarrow> ProtocolVersion" where
  "ProtocolVersion_from x =
     (if x = 0x0200 then ProtocolVersion.SSLv2
      else if x = 0x0300 then ProtocolVersion.SSLv3
      else if x = 0x0301 then ProtocolVersion.TLSv1_0
      else if x = 0x0302 then ProtocolVersion.TLSv1_1
      else if x = 0x0303 then ProtocolVersion.TLSv1_2
      else if x = 0x0304 then ProtocolVersion.TLSv1_3
      else if x = 0xfeff then ProtocolVersion.DTLSv1_0
      else if x = 0xfefd then ProtocolVersion.DTLSv1_2
      else ProtocolVersion.Unknown x)"

abbreviation "ProtocolVersion_encode \<equiv> enum_u16_encode ProtocolVersion_get"

abbreviation "ProtocolVersion_read \<equiv> enum_u16_read ProtocolVersion_from"

abbreviation "ProtocolVersion_valid v \<equiv> ProtocolVersion_from (ProtocolVersion_get v) = v"

subsection \<open>\<open>HashAlgorithm\<close>\<close>

datatype HashAlgorithm =
    NONE
  | MD5
  | SHA1
  | SHA224
  | SHA256
  | SHA384
  | SHA512
  | Unknown u8

fun HashAlgorithm_get :: "HashAlgorithm \<Rightarrow> u8" where
  "HashAlgorithm_get HashAlgorithm.NONE = 0x00"
| "HashAlgorithm_get HashAlgorithm.MD5 = 0x01"
| "HashAlgorithm_get HashAlgorithm.SHA1 = 0x02"
| "HashAlgorithm_get HashAlgorithm.SHA224 = 0x03"
| "HashAlgorithm_get HashAlgorithm.SHA256 = 0x04"
| "HashAlgorithm_get HashAlgorithm.SHA384 = 0x05"
| "HashAlgorithm_get HashAlgorithm.SHA512 = 0x06"
| "HashAlgorithm_get (HashAlgorithm.Unknown x) = x"

definition HashAlgorithm_from :: "u8 \<Rightarrow> HashAlgorithm" where
  "HashAlgorithm_from x =
     (if x = 0x00 then HashAlgorithm.NONE
      else if x = 0x01 then HashAlgorithm.MD5
      else if x = 0x02 then HashAlgorithm.SHA1
      else if x = 0x03 then HashAlgorithm.SHA224
      else if x = 0x04 then HashAlgorithm.SHA256
      else if x = 0x05 then HashAlgorithm.SHA384
      else if x = 0x06 then HashAlgorithm.SHA512
      else HashAlgorithm.Unknown x)"

abbreviation "HashAlgorithm_encode \<equiv> enum_u8_encode HashAlgorithm_get"

abbreviation "HashAlgorithm_read \<equiv> enum_u8_read HashAlgorithm_from"

abbreviation "HashAlgorithm_valid v \<equiv> HashAlgorithm_from (HashAlgorithm_get v) = v"

subsection \<open>\<open>SignatureAlgorithm\<close>\<close>

datatype SignatureAlgorithm =
    Anonymous
  | RSA
  | DSA
  | ECDSA
  | ED25519
  | ED448
  | Unknown u8

fun SignatureAlgorithm_get :: "SignatureAlgorithm \<Rightarrow> u8" where
  "SignatureAlgorithm_get SignatureAlgorithm.Anonymous = 0x00"
| "SignatureAlgorithm_get SignatureAlgorithm.RSA = 0x01"
| "SignatureAlgorithm_get SignatureAlgorithm.DSA = 0x02"
| "SignatureAlgorithm_get SignatureAlgorithm.ECDSA = 0x03"
| "SignatureAlgorithm_get SignatureAlgorithm.ED25519 = 0x07"
| "SignatureAlgorithm_get SignatureAlgorithm.ED448 = 0x08"
| "SignatureAlgorithm_get (SignatureAlgorithm.Unknown x) = x"

definition SignatureAlgorithm_from :: "u8 \<Rightarrow> SignatureAlgorithm" where
  "SignatureAlgorithm_from x =
     (if x = 0x00 then SignatureAlgorithm.Anonymous
      else if x = 0x01 then SignatureAlgorithm.RSA
      else if x = 0x02 then SignatureAlgorithm.DSA
      else if x = 0x03 then SignatureAlgorithm.ECDSA
      else if x = 0x07 then SignatureAlgorithm.ED25519
      else if x = 0x08 then SignatureAlgorithm.ED448
      else SignatureAlgorithm.Unknown x)"

abbreviation "SignatureAlgorithm_encode \<equiv> enum_u8_encode SignatureAlgorithm_get"

abbreviation "SignatureAlgorithm_read \<equiv> enum_u8_read SignatureAlgorithm_from"

abbreviation "SignatureAlgorithm_valid v \<equiv> SignatureAlgorithm_from (SignatureAlgorithm_get v) = v"

subsection \<open>\<open>ClientCertificateType\<close>\<close>

datatype ClientCertificateType =
    RSASign
  | DSSSign
  | RSAFixedDH
  | DSSFixedDH
  | RSAEphemeralDH
  | DSSEphemeralDH
  | FortezzaDMS
  | ECDSASign
  | RSAFixedECDH
  | ECDSAFixedECDH
  | Unknown u8

fun ClientCertificateType_get :: "ClientCertificateType \<Rightarrow> u8" where
  "ClientCertificateType_get ClientCertificateType.RSASign = 0x01"
| "ClientCertificateType_get ClientCertificateType.DSSSign = 0x02"
| "ClientCertificateType_get ClientCertificateType.RSAFixedDH = 0x03"
| "ClientCertificateType_get ClientCertificateType.DSSFixedDH = 0x04"
| "ClientCertificateType_get ClientCertificateType.RSAEphemeralDH = 0x05"
| "ClientCertificateType_get ClientCertificateType.DSSEphemeralDH = 0x06"
| "ClientCertificateType_get ClientCertificateType.FortezzaDMS = 0x14"
| "ClientCertificateType_get ClientCertificateType.ECDSASign = 0x40"
| "ClientCertificateType_get ClientCertificateType.RSAFixedECDH = 0x41"
| "ClientCertificateType_get ClientCertificateType.ECDSAFixedECDH = 0x42"
| "ClientCertificateType_get (ClientCertificateType.Unknown x) = x"

definition ClientCertificateType_from :: "u8 \<Rightarrow> ClientCertificateType" where
  "ClientCertificateType_from x =
     (if x = 0x01 then ClientCertificateType.RSASign
      else if x = 0x02 then ClientCertificateType.DSSSign
      else if x = 0x03 then ClientCertificateType.RSAFixedDH
      else if x = 0x04 then ClientCertificateType.DSSFixedDH
      else if x = 0x05 then ClientCertificateType.RSAEphemeralDH
      else if x = 0x06 then ClientCertificateType.DSSEphemeralDH
      else if x = 0x14 then ClientCertificateType.FortezzaDMS
      else if x = 0x40 then ClientCertificateType.ECDSASign
      else if x = 0x41 then ClientCertificateType.RSAFixedECDH
      else if x = 0x42 then ClientCertificateType.ECDSAFixedECDH
      else ClientCertificateType.Unknown x)"

abbreviation "ClientCertificateType_encode \<equiv> enum_u8_encode ClientCertificateType_get"

abbreviation "ClientCertificateType_read \<equiv> enum_u8_read ClientCertificateType_from"

abbreviation "ClientCertificateType_valid v \<equiv> ClientCertificateType_from (ClientCertificateType_get v) = v"

subsection \<open>\<open>Compression\<close>\<close>

datatype Compression =
    Null
  | Deflate
  | LSZ
  | Unknown u8

fun Compression_get :: "Compression \<Rightarrow> u8" where
  "Compression_get Compression.Null = 0x00"
| "Compression_get Compression.Deflate = 0x01"
| "Compression_get Compression.LSZ = 0x40"
| "Compression_get (Compression.Unknown x) = x"

definition Compression_from :: "u8 \<Rightarrow> Compression" where
  "Compression_from x =
     (if x = 0x00 then Compression.Null
      else if x = 0x01 then Compression.Deflate
      else if x = 0x40 then Compression.LSZ
      else Compression.Unknown x)"

abbreviation "Compression_encode \<equiv> enum_u8_encode Compression_get"

abbreviation "Compression_read \<equiv> enum_u8_read Compression_from"

abbreviation "Compression_valid v \<equiv> Compression_from (Compression_get v) = v"

subsection \<open>\<open>ContentType\<close>\<close>

datatype ContentType =
    ChangeCipherSpec
  | Alert
  | Handshake
  | ApplicationData
  | Heartbeat
  | Unknown u8

fun ContentType_get :: "ContentType \<Rightarrow> u8" where
  "ContentType_get ContentType.ChangeCipherSpec = 0x14"
| "ContentType_get ContentType.Alert = 0x15"
| "ContentType_get ContentType.Handshake = 0x16"
| "ContentType_get ContentType.ApplicationData = 0x17"
| "ContentType_get ContentType.Heartbeat = 0x18"
| "ContentType_get (ContentType.Unknown x) = x"

definition ContentType_from :: "u8 \<Rightarrow> ContentType" where
  "ContentType_from x =
     (if x = 0x14 then ContentType.ChangeCipherSpec
      else if x = 0x15 then ContentType.Alert
      else if x = 0x16 then ContentType.Handshake
      else if x = 0x17 then ContentType.ApplicationData
      else if x = 0x18 then ContentType.Heartbeat
      else ContentType.Unknown x)"

abbreviation "ContentType_encode \<equiv> enum_u8_encode ContentType_get"

abbreviation "ContentType_read \<equiv> enum_u8_read ContentType_from"

abbreviation "ContentType_valid v \<equiv> ContentType_from (ContentType_get v) = v"

subsection \<open>\<open>HandshakeType\<close>\<close>

datatype HandshakeType =
    HelloRequest
  | ClientHello
  | ServerHello
  | HelloVerifyRequest
  | NewSessionTicket
  | EndOfEarlyData
  | HelloRetryRequest
  | EncryptedExtensions
  | Certificate
  | ServerKeyExchange
  | CertificateRequest
  | ServerHelloDone
  | CertificateVerify
  | ClientKeyExchange
  | Finished
  | CertificateURL
  | CertificateStatus
  | KeyUpdate
  | MessageHash
  | Unknown u8

fun HandshakeType_get :: "HandshakeType \<Rightarrow> u8" where
  "HandshakeType_get HandshakeType.HelloRequest = 0x00"
| "HandshakeType_get HandshakeType.ClientHello = 0x01"
| "HandshakeType_get HandshakeType.ServerHello = 0x02"
| "HandshakeType_get HandshakeType.HelloVerifyRequest = 0x03"
| "HandshakeType_get HandshakeType.NewSessionTicket = 0x04"
| "HandshakeType_get HandshakeType.EndOfEarlyData = 0x05"
| "HandshakeType_get HandshakeType.HelloRetryRequest = 0x06"
| "HandshakeType_get HandshakeType.EncryptedExtensions = 0x08"
| "HandshakeType_get HandshakeType.Certificate = 0x0b"
| "HandshakeType_get HandshakeType.ServerKeyExchange = 0x0c"
| "HandshakeType_get HandshakeType.CertificateRequest = 0x0d"
| "HandshakeType_get HandshakeType.ServerHelloDone = 0x0e"
| "HandshakeType_get HandshakeType.CertificateVerify = 0x0f"
| "HandshakeType_get HandshakeType.ClientKeyExchange = 0x10"
| "HandshakeType_get HandshakeType.Finished = 0x14"
| "HandshakeType_get HandshakeType.CertificateURL = 0x15"
| "HandshakeType_get HandshakeType.CertificateStatus = 0x16"
| "HandshakeType_get HandshakeType.KeyUpdate = 0x18"
| "HandshakeType_get HandshakeType.MessageHash = 0xfe"
| "HandshakeType_get (HandshakeType.Unknown x) = x"

definition HandshakeType_from :: "u8 \<Rightarrow> HandshakeType" where
  "HandshakeType_from x =
     (if x = 0x00 then HandshakeType.HelloRequest
      else if x = 0x01 then HandshakeType.ClientHello
      else if x = 0x02 then HandshakeType.ServerHello
      else if x = 0x03 then HandshakeType.HelloVerifyRequest
      else if x = 0x04 then HandshakeType.NewSessionTicket
      else if x = 0x05 then HandshakeType.EndOfEarlyData
      else if x = 0x06 then HandshakeType.HelloRetryRequest
      else if x = 0x08 then HandshakeType.EncryptedExtensions
      else if x = 0x0b then HandshakeType.Certificate
      else if x = 0x0c then HandshakeType.ServerKeyExchange
      else if x = 0x0d then HandshakeType.CertificateRequest
      else if x = 0x0e then HandshakeType.ServerHelloDone
      else if x = 0x0f then HandshakeType.CertificateVerify
      else if x = 0x10 then HandshakeType.ClientKeyExchange
      else if x = 0x14 then HandshakeType.Finished
      else if x = 0x15 then HandshakeType.CertificateURL
      else if x = 0x16 then HandshakeType.CertificateStatus
      else if x = 0x18 then HandshakeType.KeyUpdate
      else if x = 0xfe then HandshakeType.MessageHash
      else HandshakeType.Unknown x)"

abbreviation "HandshakeType_encode \<equiv> enum_u8_encode HandshakeType_get"

abbreviation "HandshakeType_read \<equiv> enum_u8_read HandshakeType_from"

abbreviation "HandshakeType_valid v \<equiv> HandshakeType_from (HandshakeType_get v) = v"

subsection \<open>\<open>AlertLevel\<close>\<close>

datatype AlertLevel =
    Warning
  | Fatal
  | Unknown u8

fun AlertLevel_get :: "AlertLevel \<Rightarrow> u8" where
  "AlertLevel_get AlertLevel.Warning = 0x01"
| "AlertLevel_get AlertLevel.Fatal = 0x02"
| "AlertLevel_get (AlertLevel.Unknown x) = x"

definition AlertLevel_from :: "u8 \<Rightarrow> AlertLevel" where
  "AlertLevel_from x =
     (if x = 0x01 then AlertLevel.Warning
      else if x = 0x02 then AlertLevel.Fatal
      else AlertLevel.Unknown x)"

abbreviation "AlertLevel_encode \<equiv> enum_u8_encode AlertLevel_get"

abbreviation "AlertLevel_read \<equiv> enum_u8_read AlertLevel_from"

abbreviation "AlertLevel_valid v \<equiv> AlertLevel_from (AlertLevel_get v) = v"

subsection \<open>\<open>AlertDescription\<close>\<close>

datatype AlertDescription =
    CloseNotify
  | UnexpectedMessage
  | BadRecordMac
  | DecryptionFailed
  | RecordOverflow
  | DecompressionFailure
  | HandshakeFailure
  | NoCertificate
  | BadCertificate
  | UnsupportedCertificate
  | CertificateRevoked
  | CertificateExpired
  | CertificateUnknown
  | IllegalParameter
  | UnknownCA
  | AccessDenied
  | DecodeError
  | DecryptError
  | ExportRestriction
  | ProtocolVersion
  | InsufficientSecurity
  | InternalError
  | InappropriateFallback
  | UserCanceled
  | NoRenegotiation
  | MissingExtension
  | UnsupportedExtension
  | CertificateUnobtainable
  | UnrecognisedName
  | BadCertificateStatusResponse
  | BadCertificateHashValue
  | UnknownPSKIdentity
  | CertificateRequired
  | NoApplicationProtocol
  | Unknown u8

fun AlertDescription_get :: "AlertDescription \<Rightarrow> u8" where
  "AlertDescription_get AlertDescription.CloseNotify = 0x00"
| "AlertDescription_get AlertDescription.UnexpectedMessage = 0x0a"
| "AlertDescription_get AlertDescription.BadRecordMac = 0x14"
| "AlertDescription_get AlertDescription.DecryptionFailed = 0x15"
| "AlertDescription_get AlertDescription.RecordOverflow = 0x16"
| "AlertDescription_get AlertDescription.DecompressionFailure = 0x1e"
| "AlertDescription_get AlertDescription.HandshakeFailure = 0x28"
| "AlertDescription_get AlertDescription.NoCertificate = 0x29"
| "AlertDescription_get AlertDescription.BadCertificate = 0x2a"
| "AlertDescription_get AlertDescription.UnsupportedCertificate = 0x2b"
| "AlertDescription_get AlertDescription.CertificateRevoked = 0x2c"
| "AlertDescription_get AlertDescription.CertificateExpired = 0x2d"
| "AlertDescription_get AlertDescription.CertificateUnknown = 0x2e"
| "AlertDescription_get AlertDescription.IllegalParameter = 0x2f"
| "AlertDescription_get AlertDescription.UnknownCA = 0x30"
| "AlertDescription_get AlertDescription.AccessDenied = 0x31"
| "AlertDescription_get AlertDescription.DecodeError = 0x32"
| "AlertDescription_get AlertDescription.DecryptError = 0x33"
| "AlertDescription_get AlertDescription.ExportRestriction = 0x3c"
| "AlertDescription_get AlertDescription.ProtocolVersion = 0x46"
| "AlertDescription_get AlertDescription.InsufficientSecurity = 0x47"
| "AlertDescription_get AlertDescription.InternalError = 0x50"
| "AlertDescription_get AlertDescription.InappropriateFallback = 0x56"
| "AlertDescription_get AlertDescription.UserCanceled = 0x5a"
| "AlertDescription_get AlertDescription.NoRenegotiation = 0x64"
| "AlertDescription_get AlertDescription.MissingExtension = 0x6d"
| "AlertDescription_get AlertDescription.UnsupportedExtension = 0x6e"
| "AlertDescription_get AlertDescription.CertificateUnobtainable = 0x6f"
| "AlertDescription_get AlertDescription.UnrecognisedName = 0x70"
| "AlertDescription_get AlertDescription.BadCertificateStatusResponse = 0x71"
| "AlertDescription_get AlertDescription.BadCertificateHashValue = 0x72"
| "AlertDescription_get AlertDescription.UnknownPSKIdentity = 0x73"
| "AlertDescription_get AlertDescription.CertificateRequired = 0x74"
| "AlertDescription_get AlertDescription.NoApplicationProtocol = 0x78"
| "AlertDescription_get (AlertDescription.Unknown x) = x"

definition AlertDescription_from :: "u8 \<Rightarrow> AlertDescription" where
  "AlertDescription_from x =
     (if x = 0x00 then AlertDescription.CloseNotify
      else if x = 0x0a then AlertDescription.UnexpectedMessage
      else if x = 0x14 then AlertDescription.BadRecordMac
      else if x = 0x15 then AlertDescription.DecryptionFailed
      else if x = 0x16 then AlertDescription.RecordOverflow
      else if x = 0x1e then AlertDescription.DecompressionFailure
      else if x = 0x28 then AlertDescription.HandshakeFailure
      else if x = 0x29 then AlertDescription.NoCertificate
      else if x = 0x2a then AlertDescription.BadCertificate
      else if x = 0x2b then AlertDescription.UnsupportedCertificate
      else if x = 0x2c then AlertDescription.CertificateRevoked
      else if x = 0x2d then AlertDescription.CertificateExpired
      else if x = 0x2e then AlertDescription.CertificateUnknown
      else if x = 0x2f then AlertDescription.IllegalParameter
      else if x = 0x30 then AlertDescription.UnknownCA
      else if x = 0x31 then AlertDescription.AccessDenied
      else if x = 0x32 then AlertDescription.DecodeError
      else if x = 0x33 then AlertDescription.DecryptError
      else if x = 0x3c then AlertDescription.ExportRestriction
      else if x = 0x46 then AlertDescription.ProtocolVersion
      else if x = 0x47 then AlertDescription.InsufficientSecurity
      else if x = 0x50 then AlertDescription.InternalError
      else if x = 0x56 then AlertDescription.InappropriateFallback
      else if x = 0x5a then AlertDescription.UserCanceled
      else if x = 0x64 then AlertDescription.NoRenegotiation
      else if x = 0x6d then AlertDescription.MissingExtension
      else if x = 0x6e then AlertDescription.UnsupportedExtension
      else if x = 0x6f then AlertDescription.CertificateUnobtainable
      else if x = 0x70 then AlertDescription.UnrecognisedName
      else if x = 0x71 then AlertDescription.BadCertificateStatusResponse
      else if x = 0x72 then AlertDescription.BadCertificateHashValue
      else if x = 0x73 then AlertDescription.UnknownPSKIdentity
      else if x = 0x74 then AlertDescription.CertificateRequired
      else if x = 0x78 then AlertDescription.NoApplicationProtocol
      else AlertDescription.Unknown x)"

abbreviation "AlertDescription_encode \<equiv> enum_u8_encode AlertDescription_get"

abbreviation "AlertDescription_read \<equiv> enum_u8_read AlertDescription_from"

abbreviation "AlertDescription_valid v \<equiv> AlertDescription_from (AlertDescription_get v) = v"

subsection \<open>\<open>HeartbeatMessageType\<close>\<close>

datatype HeartbeatMessageType =
    Request
  | Response
  | Unknown u8

fun HeartbeatMessageType_get :: "HeartbeatMessageType \<Rightarrow> u8" where
  "HeartbeatMessageType_get HeartbeatMessageType.Request = 0x01"
| "HeartbeatMessageType_get HeartbeatMessageType.Response = 0x02"
| "HeartbeatMessageType_get (HeartbeatMessageType.Unknown x) = x"

definition HeartbeatMessageType_from :: "u8 \<Rightarrow> HeartbeatMessageType" where
  "HeartbeatMessageType_from x =
     (if x = 0x01 then HeartbeatMessageType.Request
      else if x = 0x02 then HeartbeatMessageType.Response
      else HeartbeatMessageType.Unknown x)"

abbreviation "HeartbeatMessageType_encode \<equiv> enum_u8_encode HeartbeatMessageType_get"

abbreviation "HeartbeatMessageType_read \<equiv> enum_u8_read HeartbeatMessageType_from"

abbreviation "HeartbeatMessageType_valid v \<equiv> HeartbeatMessageType_from (HeartbeatMessageType_get v) = v"

subsection \<open>\<open>ExtensionType\<close>\<close>

datatype ExtensionType =
    ServerName
  | MaxFragmentLength
  | ClientCertificateUrl
  | TrustedCAKeys
  | TruncatedHMAC
  | StatusRequest
  | UserMapping
  | ClientAuthz
  | ServerAuthz
  | CertificateType
  | EllipticCurves
  | ECPointFormats
  | SRP
  | SignatureAlgorithms
  | UseSRTP
  | Heartbeat
  | ALProtocolNegotiation
  | SCT
  | Padding
  | ExtendedMasterSecret
  | SessionTicket
  | PreSharedKey
  | EarlyData
  | SupportedVersions
  | Cookie
  | PSKKeyExchangeModes
  | TicketEarlyDataInfo
  | CertificateAuthorities
  | OIDFilters
  | PostHandshakeAuth
  | SignatureAlgorithmsCert
  | KeyShare
  | TransportParameters
  | NextProtocolNegotiation
  | ChannelId
  | RenegotiationInfo
  | TransportParametersDraft
  | Unknown u16

fun ExtensionType_get :: "ExtensionType \<Rightarrow> u16" where
  "ExtensionType_get ExtensionType.ServerName = 0x0000"
| "ExtensionType_get ExtensionType.MaxFragmentLength = 0x0001"
| "ExtensionType_get ExtensionType.ClientCertificateUrl = 0x0002"
| "ExtensionType_get ExtensionType.TrustedCAKeys = 0x0003"
| "ExtensionType_get ExtensionType.TruncatedHMAC = 0x0004"
| "ExtensionType_get ExtensionType.StatusRequest = 0x0005"
| "ExtensionType_get ExtensionType.UserMapping = 0x0006"
| "ExtensionType_get ExtensionType.ClientAuthz = 0x0007"
| "ExtensionType_get ExtensionType.ServerAuthz = 0x0008"
| "ExtensionType_get ExtensionType.CertificateType = 0x0009"
| "ExtensionType_get ExtensionType.EllipticCurves = 0x000a"
| "ExtensionType_get ExtensionType.ECPointFormats = 0x000b"
| "ExtensionType_get ExtensionType.SRP = 0x000c"
| "ExtensionType_get ExtensionType.SignatureAlgorithms = 0x000d"
| "ExtensionType_get ExtensionType.UseSRTP = 0x000e"
| "ExtensionType_get ExtensionType.Heartbeat = 0x000f"
| "ExtensionType_get ExtensionType.ALProtocolNegotiation = 0x0010"
| "ExtensionType_get ExtensionType.SCT = 0x0012"
| "ExtensionType_get ExtensionType.Padding = 0x0015"
| "ExtensionType_get ExtensionType.ExtendedMasterSecret = 0x0017"
| "ExtensionType_get ExtensionType.SessionTicket = 0x0023"
| "ExtensionType_get ExtensionType.PreSharedKey = 0x0029"
| "ExtensionType_get ExtensionType.EarlyData = 0x002a"
| "ExtensionType_get ExtensionType.SupportedVersions = 0x002b"
| "ExtensionType_get ExtensionType.Cookie = 0x002c"
| "ExtensionType_get ExtensionType.PSKKeyExchangeModes = 0x002d"
| "ExtensionType_get ExtensionType.TicketEarlyDataInfo = 0x002e"
| "ExtensionType_get ExtensionType.CertificateAuthorities = 0x002f"
| "ExtensionType_get ExtensionType.OIDFilters = 0x0030"
| "ExtensionType_get ExtensionType.PostHandshakeAuth = 0x0031"
| "ExtensionType_get ExtensionType.SignatureAlgorithmsCert = 0x0032"
| "ExtensionType_get ExtensionType.KeyShare = 0x0033"
| "ExtensionType_get ExtensionType.TransportParameters = 0x0039"
| "ExtensionType_get ExtensionType.NextProtocolNegotiation = 0x3374"
| "ExtensionType_get ExtensionType.ChannelId = 0x754f"
| "ExtensionType_get ExtensionType.RenegotiationInfo = 0xff01"
| "ExtensionType_get ExtensionType.TransportParametersDraft = 0xffa5"
| "ExtensionType_get (ExtensionType.Unknown x) = x"

definition ExtensionType_from :: "u16 \<Rightarrow> ExtensionType" where
  "ExtensionType_from x =
     (if x = 0x0000 then ExtensionType.ServerName
      else if x = 0x0001 then ExtensionType.MaxFragmentLength
      else if x = 0x0002 then ExtensionType.ClientCertificateUrl
      else if x = 0x0003 then ExtensionType.TrustedCAKeys
      else if x = 0x0004 then ExtensionType.TruncatedHMAC
      else if x = 0x0005 then ExtensionType.StatusRequest
      else if x = 0x0006 then ExtensionType.UserMapping
      else if x = 0x0007 then ExtensionType.ClientAuthz
      else if x = 0x0008 then ExtensionType.ServerAuthz
      else if x = 0x0009 then ExtensionType.CertificateType
      else if x = 0x000a then ExtensionType.EllipticCurves
      else if x = 0x000b then ExtensionType.ECPointFormats
      else if x = 0x000c then ExtensionType.SRP
      else if x = 0x000d then ExtensionType.SignatureAlgorithms
      else if x = 0x000e then ExtensionType.UseSRTP
      else if x = 0x000f then ExtensionType.Heartbeat
      else if x = 0x0010 then ExtensionType.ALProtocolNegotiation
      else if x = 0x0012 then ExtensionType.SCT
      else if x = 0x0015 then ExtensionType.Padding
      else if x = 0x0017 then ExtensionType.ExtendedMasterSecret
      else if x = 0x0023 then ExtensionType.SessionTicket
      else if x = 0x0029 then ExtensionType.PreSharedKey
      else if x = 0x002a then ExtensionType.EarlyData
      else if x = 0x002b then ExtensionType.SupportedVersions
      else if x = 0x002c then ExtensionType.Cookie
      else if x = 0x002d then ExtensionType.PSKKeyExchangeModes
      else if x = 0x002e then ExtensionType.TicketEarlyDataInfo
      else if x = 0x002f then ExtensionType.CertificateAuthorities
      else if x = 0x0030 then ExtensionType.OIDFilters
      else if x = 0x0031 then ExtensionType.PostHandshakeAuth
      else if x = 0x0032 then ExtensionType.SignatureAlgorithmsCert
      else if x = 0x0033 then ExtensionType.KeyShare
      else if x = 0x0039 then ExtensionType.TransportParameters
      else if x = 0x3374 then ExtensionType.NextProtocolNegotiation
      else if x = 0x754f then ExtensionType.ChannelId
      else if x = 0xff01 then ExtensionType.RenegotiationInfo
      else if x = 0xffa5 then ExtensionType.TransportParametersDraft
      else ExtensionType.Unknown x)"

abbreviation "ExtensionType_encode \<equiv> enum_u16_encode ExtensionType_get"

abbreviation "ExtensionType_read \<equiv> enum_u16_read ExtensionType_from"

abbreviation "ExtensionType_valid v \<equiv> ExtensionType_from (ExtensionType_get v) = v"

subsection \<open>\<open>ServerNameType\<close>\<close>

datatype ServerNameType =
    HostName
  | Unknown u8

fun ServerNameType_get :: "ServerNameType \<Rightarrow> u8" where
  "ServerNameType_get ServerNameType.HostName = 0x00"
| "ServerNameType_get (ServerNameType.Unknown x) = x"

definition ServerNameType_from :: "u8 \<Rightarrow> ServerNameType" where
  "ServerNameType_from x =
     (if x = 0x00 then ServerNameType.HostName
      else ServerNameType.Unknown x)"

abbreviation "ServerNameType_encode \<equiv> enum_u8_encode ServerNameType_get"

abbreviation "ServerNameType_read \<equiv> enum_u8_read ServerNameType_from"

abbreviation "ServerNameType_valid v \<equiv> ServerNameType_from (ServerNameType_get v) = v"

subsection \<open>\<open>NamedCurve\<close>\<close>

datatype NamedCurve =
    sect163k1
  | sect163r1
  | sect163r2
  | sect193r1
  | sect193r2
  | sect233k1
  | sect233r1
  | sect239k1
  | sect283k1
  | sect283r1
  | sect409k1
  | sect409r1
  | sect571k1
  | sect571r1
  | secp160k1
  | secp160r1
  | secp160r2
  | secp192k1
  | secp192r1
  | secp224k1
  | secp224r1
  | secp256k1
  | secp256r1
  | secp384r1
  | secp521r1
  | brainpoolp256r1
  | brainpoolp384r1
  | brainpoolp512r1
  | X25519
  | X448
  | arbitrary_explicit_prime_curves
  | arbitrary_explicit_char2_curves
  | Unknown u16

fun NamedCurve_get :: "NamedCurve \<Rightarrow> u16" where
  "NamedCurve_get NamedCurve.sect163k1 = 0x0001"
| "NamedCurve_get NamedCurve.sect163r1 = 0x0002"
| "NamedCurve_get NamedCurve.sect163r2 = 0x0003"
| "NamedCurve_get NamedCurve.sect193r1 = 0x0004"
| "NamedCurve_get NamedCurve.sect193r2 = 0x0005"
| "NamedCurve_get NamedCurve.sect233k1 = 0x0006"
| "NamedCurve_get NamedCurve.sect233r1 = 0x0007"
| "NamedCurve_get NamedCurve.sect239k1 = 0x0008"
| "NamedCurve_get NamedCurve.sect283k1 = 0x0009"
| "NamedCurve_get NamedCurve.sect283r1 = 0x000a"
| "NamedCurve_get NamedCurve.sect409k1 = 0x000b"
| "NamedCurve_get NamedCurve.sect409r1 = 0x000c"
| "NamedCurve_get NamedCurve.sect571k1 = 0x000d"
| "NamedCurve_get NamedCurve.sect571r1 = 0x000e"
| "NamedCurve_get NamedCurve.secp160k1 = 0x000f"
| "NamedCurve_get NamedCurve.secp160r1 = 0x0010"
| "NamedCurve_get NamedCurve.secp160r2 = 0x0011"
| "NamedCurve_get NamedCurve.secp192k1 = 0x0012"
| "NamedCurve_get NamedCurve.secp192r1 = 0x0013"
| "NamedCurve_get NamedCurve.secp224k1 = 0x0014"
| "NamedCurve_get NamedCurve.secp224r1 = 0x0015"
| "NamedCurve_get NamedCurve.secp256k1 = 0x0016"
| "NamedCurve_get NamedCurve.secp256r1 = 0x0017"
| "NamedCurve_get NamedCurve.secp384r1 = 0x0018"
| "NamedCurve_get NamedCurve.secp521r1 = 0x0019"
| "NamedCurve_get NamedCurve.brainpoolp256r1 = 0x001a"
| "NamedCurve_get NamedCurve.brainpoolp384r1 = 0x001b"
| "NamedCurve_get NamedCurve.brainpoolp512r1 = 0x001c"
| "NamedCurve_get NamedCurve.X25519 = 0x001d"
| "NamedCurve_get NamedCurve.X448 = 0x001e"
| "NamedCurve_get NamedCurve.arbitrary_explicit_prime_curves = 0xff01"
| "NamedCurve_get NamedCurve.arbitrary_explicit_char2_curves = 0xff02"
| "NamedCurve_get (NamedCurve.Unknown x) = x"

definition NamedCurve_from :: "u16 \<Rightarrow> NamedCurve" where
  "NamedCurve_from x =
     (if x = 0x0001 then NamedCurve.sect163k1
      else if x = 0x0002 then NamedCurve.sect163r1
      else if x = 0x0003 then NamedCurve.sect163r2
      else if x = 0x0004 then NamedCurve.sect193r1
      else if x = 0x0005 then NamedCurve.sect193r2
      else if x = 0x0006 then NamedCurve.sect233k1
      else if x = 0x0007 then NamedCurve.sect233r1
      else if x = 0x0008 then NamedCurve.sect239k1
      else if x = 0x0009 then NamedCurve.sect283k1
      else if x = 0x000a then NamedCurve.sect283r1
      else if x = 0x000b then NamedCurve.sect409k1
      else if x = 0x000c then NamedCurve.sect409r1
      else if x = 0x000d then NamedCurve.sect571k1
      else if x = 0x000e then NamedCurve.sect571r1
      else if x = 0x000f then NamedCurve.secp160k1
      else if x = 0x0010 then NamedCurve.secp160r1
      else if x = 0x0011 then NamedCurve.secp160r2
      else if x = 0x0012 then NamedCurve.secp192k1
      else if x = 0x0013 then NamedCurve.secp192r1
      else if x = 0x0014 then NamedCurve.secp224k1
      else if x = 0x0015 then NamedCurve.secp224r1
      else if x = 0x0016 then NamedCurve.secp256k1
      else if x = 0x0017 then NamedCurve.secp256r1
      else if x = 0x0018 then NamedCurve.secp384r1
      else if x = 0x0019 then NamedCurve.secp521r1
      else if x = 0x001a then NamedCurve.brainpoolp256r1
      else if x = 0x001b then NamedCurve.brainpoolp384r1
      else if x = 0x001c then NamedCurve.brainpoolp512r1
      else if x = 0x001d then NamedCurve.X25519
      else if x = 0x001e then NamedCurve.X448
      else if x = 0xff01 then NamedCurve.arbitrary_explicit_prime_curves
      else if x = 0xff02 then NamedCurve.arbitrary_explicit_char2_curves
      else NamedCurve.Unknown x)"

abbreviation "NamedCurve_encode \<equiv> enum_u16_encode NamedCurve_get"

abbreviation "NamedCurve_read \<equiv> enum_u16_read NamedCurve_from"

abbreviation "NamedCurve_valid v \<equiv> NamedCurve_from (NamedCurve_get v) = v"

subsection \<open>\<open>NamedGroup\<close>\<close>

datatype NamedGroup =
    secp256r1
  | secp384r1
  | secp521r1
  | X25519
  | X448
  | FFDHE2048
  | FFDHE3072
  | FFDHE4096
  | FFDHE6144
  | FFDHE8192
  | Unknown u16

fun NamedGroup_get :: "NamedGroup \<Rightarrow> u16" where
  "NamedGroup_get NamedGroup.secp256r1 = 0x0017"
| "NamedGroup_get NamedGroup.secp384r1 = 0x0018"
| "NamedGroup_get NamedGroup.secp521r1 = 0x0019"
| "NamedGroup_get NamedGroup.X25519 = 0x001d"
| "NamedGroup_get NamedGroup.X448 = 0x001e"
| "NamedGroup_get NamedGroup.FFDHE2048 = 0x0100"
| "NamedGroup_get NamedGroup.FFDHE3072 = 0x0101"
| "NamedGroup_get NamedGroup.FFDHE4096 = 0x0102"
| "NamedGroup_get NamedGroup.FFDHE6144 = 0x0103"
| "NamedGroup_get NamedGroup.FFDHE8192 = 0x0104"
| "NamedGroup_get (NamedGroup.Unknown x) = x"

definition NamedGroup_from :: "u16 \<Rightarrow> NamedGroup" where
  "NamedGroup_from x =
     (if x = 0x0017 then NamedGroup.secp256r1
      else if x = 0x0018 then NamedGroup.secp384r1
      else if x = 0x0019 then NamedGroup.secp521r1
      else if x = 0x001d then NamedGroup.X25519
      else if x = 0x001e then NamedGroup.X448
      else if x = 0x0100 then NamedGroup.FFDHE2048
      else if x = 0x0101 then NamedGroup.FFDHE3072
      else if x = 0x0102 then NamedGroup.FFDHE4096
      else if x = 0x0103 then NamedGroup.FFDHE6144
      else if x = 0x0104 then NamedGroup.FFDHE8192
      else NamedGroup.Unknown x)"

abbreviation "NamedGroup_encode \<equiv> enum_u16_encode NamedGroup_get"

abbreviation "NamedGroup_read \<equiv> enum_u16_read NamedGroup_from"

abbreviation "NamedGroup_valid v \<equiv> NamedGroup_from (NamedGroup_get v) = v"

subsection \<open>\<open>CipherSuite\<close>\<close>

text \<open>The ordinals of the named variants, in the order of the declaration.\<close>

definition CipherSuite_ordinals :: "u16 list" where
  "CipherSuite_ordinals =
    [0x0000, 0x0001, 0x0002, 0x0003, 0x0004, 0x0005, 0x0006, 0x0007, 0x0008, 0x0009,
     0x000a, 0x000b, 0x000c, 0x000d, 0x000e, 0x000f, 0x0010, 0x0011, 0x0012, 0x0013,
     0x0014, 0x0015, 0x0016, 0x0017, 0x0018, 0x0019, 0x001a, 0x001b, 0x001c, 0x001d,
     0x001e, 0x001f, 0x0020, 0x0021, 0x0022, 0x0023, 0x0024, 0x0025, 0x0026, 0x0027,
     0x0028, 0x0029, 0x002a, 0x002b, 0x002c, 0x002d, 0x002e, 0x002f, 0x0030, 0x0031,
     0x0032, 0x0033, 0x0034, 0x0035, 0x0036, 0x0037, 0x0038, 0x0039, 0x003a, 0x003b,
     0x003c, 0x003d, 0x003e, 0x003f, 0x0040, 0x0041, 0x0042, 0x0043, 0x0044, 0x0045,
     0x0046, 0x0047, 0x0048, 0x0049, 0x004a, 0x004b, 0x004c, 0x004d, 0x004e, 0x004f,
     0x0050, 0x0051, 0x0052, 0x0053, 0x0054, 0x0055, 0x0056, 0x0057, 0x0058, 0x0059,
     0x005a, 0x005b, 0x005c, 0x0060, 0x0061, 0x0062, 0x0063, 0x0064, 0x0065, 0x0066,
     0x0067, 0x0068, 0x0069, 0x006a, 0x006b, 0x006c, 0x006d, 0x0072, 0x0073, 0x0074,
     0x0077, 0x0078, 0x0079, 0x007c, 0x007d, 0x007e, 0x0080, 0x0081, 0x0082, 0x0083,
     0x0084, 0x0085, 0x0086, 0x0087, 0x0088, 0x0089, 0x008a, 0x008b, 0x008c, 0x008d,
     0x008e, 0x008f, 0x0090, 0x0091, 0x0092, 0x0093, 0x0094, 0x0095, 0x0096, 0x0097,
     0x0098, 0x0099, 0x009a, 0x009b, 0x009c, 0x009d, 0x009e, 0x009f, 0x00a0, 0x00a1,
     0x00a2, 0x00a3, 0x00a4, 0x00a5, 0x00a6, 0x00a7, 0x00a8, 0x00a9, 0x00aa, 0x00ab,
     0x00ac, 0x00ad, 0x00ae, 0x00af, 0x00b0, 0x00b1, 0x00b2, 0x00b3, 0x00b4, 0x00b5,
     0x00b6, 0x00b7, 0x00b8, 0x00b9, 0x00ba, 0x00bb, 0x00bc, 0x00bd, 0x00be, 0x00bf,
     0x00c0, 0x00c1, 0x00c2, 0x00c3, 0x00c4, 0x00c5, 0x00ff, 0x1301, 0x1302, 0x1303,
     0x1304, 0x1305, 0xc001, 0xc002, 0xc003, 0xc004, 0xc005, 0xc006, 0xc007, 0xc008,
     0xc009, 0xc00a, 0xc00b, 0xc00c, 0xc00d, 0xc00e, 0xc00f, 0xc010, 0xc011, 0xc012,
     0xc013, 0xc014, 0xc015, 0xc016, 0xc017, 0xc018, 0xc019, 0xc01a, 0xc01b, 0xc01c,
     0xc01d, 0xc01e, 0xc01f, 0xc020, 0xc021, 0xc022, 0xc023, 0xc024, 0xc025, 0xc026,
     0xc027, 0xc028, 0xc029, 0xc02a, 0xc02b, 0xc02c, 0xc02d, 0xc02e, 0xc02f, 0xc030,
     0xc031, 0xc032, 0xc033, 0xc034, 0xc035, 0xc036, 0xc037, 0xc038, 0xc039, 0xc03a,
     0xc03b, 0xc03c, 0xc03d, 0xc03e, 0xc03f, 0xc040, 0xc041, 0xc042, 0xc043, 0xc044,
     0xc045, 0xc046, 0xc047, 0xc048, 0xc049, 0xc04a, 0xc04b, 0xc04c, 0xc04d, 0xc04e,
     0xc04f, 0xc050, 0xc051, 0xc052, 0xc053, 0xc054, 0xc055, 0xc056, 0xc057, 0xc058,
     0xc059, 0xc05a, 0xc05b, 0xc05c, 0xc05d, 0xc05e, 0xc05f, 0xc060, 0xc061, 0xc062,
     0xc063, 0xc064, 0xc065, 0xc066, 0xc067, 0xc068, 0xc069, 0xc06a, 0xc06b, 0xc06c,
     0xc06d, 0xc06e, 0xc06f, 0xc070, 0xc071, 0xc072, 0xc073, 0xc074, 0xc075, 0xc076,
     0xc077, 0xc078, 0xc079, 0xc07a, 0xc07b, 0xc07c, 0xc07d, 0xc07e, 0xc07f, 0xc080,
     0xc081, 0xc082, 0xc083, 0xc084, 0xc085, 0xc086, 0xc087, 0xc088, 0xc089, 0xc08a,
     0xc08b, 0xc08c, 0xc08d, 0xc08e, 0xc08f, 0xc090, 0xc091, 0xc092, 0xc093, 0xc094,
     0xc095, 0xc096, 0xc097, 0xc098, 0xc099, 0xc09a, 0xc09b, 0xc09c, 0xc09d, 0xc09e,
     0xc09f, 0xc0a0, 0xc0a1, 0xc0a2, 0xc0a3, 0xc0a4, 0xc0a5, 0xc0a6, 0xc0a7, 0xc0a8,
     0xc0a9, 0xc0aa, 0xc0ab, 0xc0ac, 0xc0ad, 0xc0ae, 0xc0af, 0xcca8, 0xcca9, 0xccaa,
     0xccab, 0xccac, 0xccad, 0xccae, 0xfefe, 0xfeff]"

datatype CipherSuite = Known u16 | Unknown u16

fun CipherSuite_get :: "CipherSuite \<Rightarrow> u16" where
  "CipherSuite_get (CipherSuite.Known v) = v"
| "CipherSuite_get (CipherSuite.Unknown x) = x"

definition CipherSuite_from :: "u16 \<Rightarrow> CipherSuite" where
  "CipherSuite_from x =
     (if x \<in> set CipherSuite_ordinals then CipherSuite.Known x else CipherSuite.Unknown x)"

abbreviation "CipherSuite_encode \<equiv> enum_u16_encode CipherSuite_get"

abbreviation "CipherSuite_read \<equiv> enum_u16_read CipherSuite_from"

abbreviation "CipherSuite_valid v \<equiv> CipherSuite_from (CipherSuite_get v) = v"

subsection \<open>\<open>ECPointFormat\<close>\<close>

datatype ECPointFormat =
    Uncompressed
  | ANSIX962CompressedPrime
  | ANSIX962CompressedChar2
  | Unknown u8

fun ECPointFormat_get :: "ECPointFormat \<Rightarrow> u8" where
  "ECPointFormat_get ECPointFormat.Uncompressed = 0x00"
| "ECPointFormat_get ECPointFormat.ANSIX962CompressedPrime = 0x01"
| "ECPointFormat_get ECPointFormat.ANSIX962CompressedChar2 = 0x02"
| "ECPointFormat_get (ECPointFormat.Unknown x) = x"

definition ECPointFormat_from :: "u8 \<Rightarrow> ECPointFormat" where
  "ECPointFormat_from x =
     (if x = 0x00 then ECPointFormat.Uncompressed
      else if x = 0x01 then ECPointFormat.ANSIX962CompressedPrime
      else if x = 0x02 then ECPointFormat.ANSIX962CompressedChar2
      else ECPointFormat.Unknown x)"

abbreviation "ECPointFormat_encode \<equiv> enum_u8_encode ECPointFormat_get"

abbreviation "ECPointFormat_read \<equiv> enum_u8_read ECPointFormat_from"

abbreviation "ECPointFormat_valid v \<equiv> ECPointFormat_from (ECPointFormat_get v) = v"

subsection \<open>\<open>HeartbeatMode\<close>\<close>

datatype HeartbeatMode =
    PeerAllowedToSend
  | PeerNotAllowedToSend
  | Unknown u8

fun HeartbeatMode_get :: "HeartbeatMode \<Rightarrow> u8" where
  "HeartbeatMode_get HeartbeatMode.PeerAllowedToSend = 0x01"
| "HeartbeatMode_get HeartbeatMode.PeerNotAllowedToSend = 0x02"
| "HeartbeatMode_get (HeartbeatMode.Unknown x) = x"

definition HeartbeatMode_from :: "u8 \<Rightarrow> HeartbeatMode" where
  "HeartbeatMode_from x =
     (if x = 0x01 then HeartbeatMode.PeerAllowedToSend
      else if x = 0x02 then HeartbeatMode.PeerNotAllowedToSend
      else HeartbeatMode.Unknown x)"

abbreviation "HeartbeatMode_encode \<equiv> enum_u8_encode HeartbeatMode_get"

abbreviation "HeartbeatMode_read \<equiv> enum_u8_read HeartbeatMode_from"

abbreviation "HeartbeatMode_valid v \<equiv> HeartbeatMode_from (HeartbeatMode_get v) = v"

subsection \<open>\<open>ECCurveType\<close>\<close>

datatype ECCurveType =
    ExplicitPrime
  | ExplicitChar2
  | NamedCurve
  | Unknown u8

fun ECCurveType_get :: "ECCurveType \<Rightarrow> u8" where
  "ECCurveType_get ECCurveType.ExplicitPrime = 0x01"
| "ECCurveType_get ECCurveType.ExplicitChar2 = 0x02"
| "ECCurveType_get ECCurveType.NamedCurve = 0x03"
| "ECCurveType_get (ECCurveType.Unknown x) = x"

definition ECCurveType_from :: "u8 \<Rightarrow> ECCurveType" where
  "ECCurveType_from x =
     (if x = 0x01 then ECCurveType.ExplicitPrime
      else if x = 0x02 then ECCurveType.ExplicitChar2
      else if x = 0x03 then ECCurveType.NamedCurve
      else ECCurveType.Unknown x)"

abbreviation "ECCurveType_encode \<equiv> enum_u8_encode ECCurveType_get"

abbreviation "ECCurveType_read \<equiv> enum_u8_read ECCurveType_from"

abbreviation "ECCurveType_valid v \<equiv> ECCurveType_from (ECCurveType_get v) = v"

subsection \<open>\<open>SignatureScheme\<close>\<close>

datatype SignatureScheme =
    RSA_PKCS1_SHA1
  | ECDSA_SHA1_Legacy
  | RSA_PKCS1_SHA256
  | ECDSA_NISTP256_SHA256
  | RSA_PKCS1_SHA384
  | ECDSA_NISTP384_SHA384
  | RSA_PKCS1_SHA512
  | ECDSA_NISTP521_SHA512
  | RSA_PSS_SHA256
  | RSA_PSS_SHA384
  | RSA_PSS_SHA512
  | ED25519
  | ED448
  | Unknown u16

fun SignatureScheme_get :: "SignatureScheme \<Rightarrow> u16" where
  "SignatureScheme_get SignatureScheme.RSA_PKCS1_SHA1 = 0x0201"
| "SignatureScheme_get SignatureScheme.ECDSA_SHA1_Legacy = 0x0203"
| "SignatureScheme_get SignatureScheme.RSA_PKCS1_SHA256 = 0x0401"
| "SignatureScheme_get SignatureScheme.ECDSA_NISTP256_SHA256 = 0x0403"
| "SignatureScheme_get SignatureScheme.RSA_PKCS1_SHA384 = 0x0501"
| "SignatureScheme_get SignatureScheme.ECDSA_NISTP384_SHA384 = 0x0503"
| "SignatureScheme_get SignatureScheme.RSA_PKCS1_SHA512 = 0x0601"
| "SignatureScheme_get SignatureScheme.ECDSA_NISTP521_SHA512 = 0x0603"
| "SignatureScheme_get SignatureScheme.RSA_PSS_SHA256 = 0x0804"
| "SignatureScheme_get SignatureScheme.RSA_PSS_SHA384 = 0x0805"
| "SignatureScheme_get SignatureScheme.RSA_PSS_SHA512 = 0x0806"
| "SignatureScheme_get SignatureScheme.ED25519 = 0x0807"
| "SignatureScheme_get SignatureScheme.ED448 = 0x0808"
| "SignatureScheme_get (SignatureScheme.Unknown x) = x"

definition SignatureScheme_from :: "u16 \<Rightarrow> SignatureScheme" where
  "SignatureScheme_from x =
     (if x = 0x0201 then SignatureScheme.RSA_PKCS1_SHA1
      else if x = 0x0203 then SignatureScheme.ECDSA_SHA1_Legacy
      else if x = 0x0401 then SignatureScheme.RSA_PKCS1_SHA256
      else if x = 0x0403 then SignatureScheme.ECDSA_NISTP256_SHA256
      else if x = 0x0501 then SignatureScheme.RSA_PKCS1_SHA384
      else if x = 0x0503 then SignatureScheme.ECDSA_NISTP384_SHA384
      else if x = 0x0601 then SignatureScheme.RSA_PKCS1_SHA512
      else if x = 0x0603 then SignatureScheme.ECDSA_NISTP521_SHA512
      else if x = 0x0804 then SignatureScheme.RSA_PSS_SHA256
      else if x = 0x0805 then SignatureScheme.RSA_PSS_SHA384
      else if x = 0x0806 then SignatureScheme.RSA_PSS_SHA512
      else if x = 0x0807 then SignatureScheme.ED25519
      else if x = 0x0808 then SignatureScheme.ED448
      else SignatureScheme.Unknown x)"

abbreviation "SignatureScheme_encode \<equiv> enum_u16_encode SignatureScheme_get"

abbreviation "SignatureScheme_read \<equiv> enum_u16_read SignatureScheme_from"

abbreviation "SignatureScheme_valid v \<equiv> SignatureScheme_from (SignatureScheme_get v) = v"

subsection \<open>\<open>PSKKeyExchangeMode\<close>\<close>

datatype PSKKeyExchangeMode =
    PSK_KE
  | PSK_DHE_KE
  | Unknown u8

fun PSKKeyExchangeMode_get :: "PSKKeyExchangeMode \<Rightarrow> u8" where
  "PSKKeyExchangeMode_get PSKKeyExchangeMode.PSK_KE = 0x00"
| "PSKKeyExchangeMode_get PSKKeyExchangeMode.PSK_DHE_KE = 0x01"
| "PSKKeyExchangeMode_get (PSKKeyExchangeMode.Unknown x) = x"

definition PSKKeyExchangeMode_from :: "u8 \<Rightarrow> PSKKeyExchangeMode" where
  "PSKKeyExchangeMode_from x =
     (if x = 0x00 then PSKKeyExchangeMode.PSK_KE
      else if x = 0x01 then PSKKeyExchangeMode.PSK_DHE_KE
      else PSKKeyExchangeMode.Unknown x)"

abbreviation "PSKKeyExchangeMode_encode \<equiv> enum_u8_encode PSKKeyExchangeMode_get"

abbreviation "PSKKeyExchangeMode_read \<equiv> enum_u8_read PSKKeyExchangeMode_from"

abbreviation "PSKKeyExchangeMode_valid v \<equiv> PSKKeyExchangeMode_from (PSKKeyExchangeMode_get v) = v"

subsection \<open>\<open>KeyUpdateRequest\<close>\<close>

datatype KeyUpdateRequest =
    UpdateNotRequested
  | UpdateRequested
  | Unknown u8

fun KeyUpdateRequest_get :: "KeyUpdateRequest \<Rightarrow> u8" where
  "KeyUpdateRequest_get KeyUpdateRequest.UpdateNotRequested = 0x00"
| "KeyUpdateRequest_get KeyUpdateRequest.UpdateRequested = 0x01"
| "KeyUpdateRequest_get (KeyUpdateRequest.Unknown x) = x"

definition KeyUpdateRequest_from :: "u8 \<Rightarrow> KeyUpdateRequest" where
  "KeyUpdateRequest_from x =
     (if x = 0x00 then KeyUpdateRequest.UpdateNotRequested
      else if x = 0x01 then KeyUpdateRequest.UpdateRequested
      else KeyUpdateRequest.Unknown x)"

abbreviation "KeyUpdateRequest_encode \<equiv> enum_u8_encode KeyUpdateRequest_get"

abbreviation "KeyUpdateRequest_read \<equiv> enum_u8_read KeyUpdateRequest_from"

abbreviation "KeyUpdateRequest_valid v \<equiv> KeyUpdateRequest_from (KeyUpdateRequest_get v) = v"

subsection \<open>\<open>CertificateStatusType\<close>\<close>

datatype CertificateStatusType =
    OCSP
  | Unknown u8

fun CertificateStatusType_get :: "CertificateStatusType \<Rightarrow> u8" where
  "CertificateStatusType_get CertificateStatusType.OCSP = 0x01"
| "CertificateStatusType_get (CertificateStatusType.Unknown x) = x"

definition CertificateStatusType_from :: "u8 \<Rightarrow> CertificateStatusType" where
  "CertificateStatusType_from x =
     (if x = 0x01 then CertificateStatusType.OCSP
      else CertificateStatusType.Unknown x)"

abbreviation "CertificateStatusType_encode \<equiv> enum_u8_encode CertificateStatusType_get"

abbreviation "CertificateStatusType_read \<equiv> enum_u8_read CertificateStatusType_from"

abbreviation "CertificateStatusType_valid v \<equiv> CertificateStatusType_from (CertificateStatusType_get v) = v"

subsection \<open>The contract of the generated functions\<close>

locale enum_u8 =
  fixes get :: "'a \<Rightarrow> u8" and conv :: "u8 \<Rightarrow> 'a"
  assumes get_from: "get (conv x) = x"
begin

lemma enum_bytes: "get_encoding (enum_u8_encode get) v = [get v]"
  by (simp add: get_encoding_def [of "enum_u8_encode get"] enum_u8_encode_def u8_encode_def)

lemma enum_canonical:
  "canonical_codec (enum_u8_encode get) (enum_u8_read conv) (\<lambda>v. conv (get v) = v)"
proof unfold_locales
  fix v bs show "enum_u8_encode get v bs = bs @ enum_u8_encode get v []"
    by (simp add: enum_u8_encode_def u8_encode_def)
next
  fix r v r' assume "enum_u8_read conv r = Some (v, r')"
  then show "advances r r'" by (auto simp: enum_u8_read_def intro: u8.progress)
next
  fix v r assume "conv (get v) = v"
    "take (length (get_encoding (enum_u8_encode get) v)) (rem r) = get_encoding (enum_u8_encode get) v"
  then show "enum_u8_read conv r = Some (v, adv r (length (get_encoding (enum_u8_encode get) v)))"
    using u8.read_encode [of "get v" r] by (simp add: enum_u8_read_def enum_bytes)
next
  fix r v r' assume ok: "Reader_ok r" and "enum_u8_read conv r = Some (v, r')"
  then obtain x where x: "u8_read r = Some (x, r')" "v = conv x"
    by (auto simp: enum_u8_read_def)
  from u8.encode_read [OF ok x(1)] show "conv (get v) = v
      \<and> take (length (get_encoding (enum_u8_encode get) v)) (rem r) = get_encoding (enum_u8_encode get) v
      \<and> r' = adv r (length (get_encoding (enum_u8_encode get) v))"
    by (simp add: x(2) enum_bytes get_from)
qed

end

sublocale enum_u8 \<subseteq> canonical_codec "enum_u8_encode get" "enum_u8_read conv" "\<lambda>v. conv (get v) = v"
  by (rule enum_canonical)

locale enum_u16 =
  fixes get :: "'a \<Rightarrow> u16" and conv :: "u16 \<Rightarrow> 'a"
  assumes get_from: "get (conv x) = x"
begin

lemma enum_bytes: "get_encoding (enum_u16_encode get) v = u16_to_be_bytes (get v)"
  by (simp add: get_encoding_def [of "enum_u16_encode get"] enum_u16_encode_def u16.encode_conv)

lemma enum_canonical:
  "canonical_codec (enum_u16_encode get) (enum_u16_read conv) (\<lambda>v. conv (get v) = v)"
proof unfold_locales
  fix v bs show "enum_u16_encode get v bs = bs @ enum_u16_encode get v []"
    by (simp add: enum_u16_encode_def u16.encode_conv)
next
  fix r v r' assume "enum_u16_read conv r = Some (v, r')"
  then show "advances r r'" by (auto simp: enum_u16_read_def intro: u16.progress)
next
  fix v r assume "conv (get v) = v"
    "take (length (get_encoding (enum_u16_encode get) v)) (rem r) = get_encoding (enum_u16_encode get) v"
  then show "enum_u16_read conv r = Some (v, adv r (length (get_encoding (enum_u16_encode get) v)))"
    using u16.read_encode [of "get v" r] by (simp add: enum_u16_read_def enum_bytes)
next
  fix r v r' assume ok: "Reader_ok r" and "enum_u16_read conv r = Some (v, r')"
  then obtain x where x: "u16_read r = Some (x, r')" "v = conv x"
    by (auto simp: enum_u16_read_def)
  from u16.encode_read [OF ok x(1)] show "conv (get v) = v
      \<and> take (length (get_encoding (enum_u16_encode get) v)) (rem r) = get_encoding (enum_u16_encode get) v
      \<and> r' = adv r (length (get_encoding (enum_u16_encode get) v))"
    by (simp add: x(2) enum_bytes get_from)
qed

end

sublocale enum_u16 \<subseteq> canonical_codec "enum_u16_encode get" "enum_u16_read conv" "\<lambda>v. conv (get v) = v"
  by (rule enum_canonical)

subsection \<open>Every enumeration satisfies the contract\<close>

interpretation ProtocolVersion: enum_u16 ProtocolVersion_get ProtocolVersion_from
  by unfold_locales (simp add: ProtocolVersion_from_def)

lemma ProtocolVersion_valid_named [simp]:
  "(\<And>k. v \<noteq> ProtocolVersion.Unknown k) \<Longrightarrow> ProtocolVersion_valid v"
  by (cases v) (simp_all add: ProtocolVersion_from_def)

declare ProtocolVersion_get.simps [simp del]

interpretation HashAlgorithm: enum_u8 HashAlgorithm_get HashAlgorithm_from
  by unfold_locales (simp add: HashAlgorithm_from_def)

lemma HashAlgorithm_valid_named [simp]:
  "(\<And>k. v \<noteq> HashAlgorithm.Unknown k) \<Longrightarrow> HashAlgorithm_valid v"
  by (cases v) (simp_all add: HashAlgorithm_from_def)

declare HashAlgorithm_get.simps [simp del]

interpretation SignatureAlgorithm: enum_u8 SignatureAlgorithm_get SignatureAlgorithm_from
  by unfold_locales (simp add: SignatureAlgorithm_from_def)

lemma SignatureAlgorithm_valid_named [simp]:
  "(\<And>k. v \<noteq> SignatureAlgorithm.Unknown k) \<Longrightarrow> SignatureAlgorithm_valid v"
  by (cases v) (simp_all add: SignatureAlgorithm_from_def)

declare SignatureAlgorithm_get.simps [simp del]

interpretation ClientCertificateType: enum_u8 ClientCertificateType_get ClientCertificateType_from
  by unfold_locales (simp add: ClientCertificateType_from_def)

lemma ClientCertificateType_valid_named [simp]:
  "(\<And>k. v \<noteq> ClientCertificateType.Unknown k) \<Longrightarrow> ClientCertificateType_valid v"
  by (cases v) (simp_all add: ClientCertificateType_from_def)

declare ClientCertificateType_get.simps [simp del]

interpretation Compression: enum_u8 Compression_get Compression_from
  by unfold_locales (simp add: Compression_from_def)

lemma Compression_valid_named [simp]:
  "(\<And>k. v \<noteq> Compression.Unknown k) \<Longrightarrow> Compression_valid v"
  by (cases v) (simp_all add: Compression_from_def)

declare Compression_get.simps [simp del]

interpretation ContentType: enum_u8 ContentType_get ContentType_from
  by unfold_locales (simp add: ContentType_from_def)

lemma ContentType_valid_named [simp]:
  "(\<And>k. v \<noteq> ContentType.Unknown k) \<Longrightarrow> ContentType_valid v"
  by (cases v) (simp_all add: ContentType_from_def)

declare ContentType_get.simps [simp del]

interpretation HandshakeType: enum_u8 HandshakeType_get HandshakeType_from
  by unfold_locales (simp add: HandshakeType_from_def)

lemma HandshakeType_valid_named [simp]:
  "(\<And>k. v \<noteq> HandshakeType.Unknown k) \<Longrightarrow> HandshakeType_valid v"
  by (cases v) (simp_all add: HandshakeType_from_def)

declare HandshakeType_get.simps [simp del]

interpretation AlertLevel: enum_u8 AlertLevel_get AlertLevel_from
  by unfold_locales (simp add: AlertLevel_from_def)

lemma AlertLevel_valid_named [simp]:
  "(\<And>k. v \<noteq> AlertLevel.Unknown k) \<Longrightarrow> AlertLevel_valid v"
  by (cases v) (simp_all add: AlertLevel_from_def)

declare AlertLevel_get.simps [simp del]

interpretation AlertDescription: enum_u8 AlertDescription_get AlertDescription_from
  by unfold_locales (simp add: AlertDescription_from_def)

lemma AlertDescription_valid_named [simp]:
  "(\<And>k. v \<noteq> AlertDescription.Unknown k) \<Longrightarrow> AlertDescription_valid v"
  by (cases v) (simp_all add: AlertDescription_from_def)

declare AlertDescription_get.simps [simp del]

interpretation HeartbeatMessageType: enum_u8 HeartbeatMessageType_get HeartbeatMessageType_from
  by unfold_locales (simp add: HeartbeatMessageType_from_def)

lemma HeartbeatMessageType_valid_named [simp]:
  "(\<And>k. v \<noteq> HeartbeatMessageType.Unknown k) \<Longrightarrow> HeartbeatMessageType_valid v"
  by (cases v) (simp_all add: HeartbeatMessageType_from_def)

declare HeartbeatMessageType_get.simps [simp del]

interpretation ExtensionType: enum_u16 ExtensionType_get ExtensionType_from
  by unfold_locales (simp add: ExtensionType_from_def)

lemma ExtensionType_valid_named [simp]:
  "(\<And>k. v \<noteq> ExtensionType.Unknown k) \<Longrightarrow> ExtensionType_valid v"
  by (cases v) (simp_all add: ExtensionType_from_def)

declare ExtensionType_get.simps [simp del]

interpretation ServerNameType: enum_u8 ServerNameType_get ServerNameType_from
  by unfold_locales (simp add: ServerNameType_from_def)

lemma ServerNameType_valid_named [simp]:
  "(\<And>k. v \<noteq> ServerNameType.Unknown k) \<Longrightarrow> ServerNameType_valid v"
  by (cases v) (simp_all add: ServerNameType_from_def)

declare ServerNameType_get.simps [simp del]

interpretation NamedCurve: enum_u16 NamedCurve_get NamedCurve_from
  by unfold_locales (simp add: NamedCurve_from_def)

lemma NamedCurve_valid_named [simp]:
  "(\<And>k. v \<noteq> NamedCurve.Unknown k) \<Longrightarrow> NamedCurve_valid v"
  by (cases v) (simp_all add: NamedCurve_from_def)

declare NamedCurve_get.simps [simp del]

interpretation NamedGroup: enum_u16 NamedGroup_get NamedGroup_from
  by unfold_locales (simp add: NamedGroup_from_def)

lemma NamedGroup_valid_named [simp]:
  "(\<And>k. v \<noteq> NamedGroup.Unknown k) \<Longrightarrow> NamedGroup_valid v"
  by (cases v) (simp_all add: NamedGroup_from_def)

declare NamedGroup_get.simps [simp del]

interpretation CipherSuite: enum_u16 CipherSuite_get CipherSuite_from
  by unfold_locales (simp add: CipherSuite_from_def)

lemma CipherSuite_valid_iff:
  "CipherSuite_valid (CipherSuite.Known v) \<longleftrightarrow> v \<in> set CipherSuite_ordinals"
  "CipherSuite_valid (CipherSuite.Unknown v) \<longleftrightarrow> v \<notin> set CipherSuite_ordinals"
  by (simp_all add: CipherSuite_from_def)

interpretation ECPointFormat: enum_u8 ECPointFormat_get ECPointFormat_from
  by unfold_locales (simp add: ECPointFormat_from_def)

lemma ECPointFormat_valid_named [simp]:
  "(\<And>k. v \<noteq> ECPointFormat.Unknown k) \<Longrightarrow> ECPointFormat_valid v"
  by (cases v) (simp_all add: ECPointFormat_from_def)

declare ECPointFormat_get.simps [simp del]

interpretation HeartbeatMode: enum_u8 HeartbeatMode_get HeartbeatMode_from
  by unfold_locales (simp add: HeartbeatMode_from_def)

lemma HeartbeatMode_valid_named [simp]:
  "(\<And>k. v \<noteq> HeartbeatMode.Unknown k) \<Longrightarrow> HeartbeatMode_valid v"
  by (cases v) (simp_all add: HeartbeatMode_from_def)

declare HeartbeatMode_get.simps [simp del]

interpretation ECCurveType: enum_u8 ECCurveType_get ECCurveType_from
  by unfold_locales (simp add: ECCurveType_from_def)

lemma ECCurveType_valid_named [simp]:
  "(\<And>k. v \<noteq> ECCurveType.Unknown k) \<Longrightarrow> ECCurveType_valid v"
  by (cases v) (simp_all add: ECCurveType_from_def)

declare ECCurveType_get.simps [simp del]

interpretation SignatureScheme: enum_u16 SignatureScheme_get SignatureScheme_from
  by unfold_locales (simp add: SignatureScheme_from_def)

lemma SignatureScheme_valid_named [simp]:
  "(\<And>k. v \<noteq> SignatureScheme.Unknown k) \<Longrightarrow> SignatureScheme_valid v"
  by (cases v) (simp_all add: SignatureScheme_from_def)

declare SignatureScheme_get.simps [simp del]

interpretation PSKKeyExchangeMode: enum_u8 PSKKeyExchangeMode_get PSKKeyExchangeMode_from
  by unfold_locales (simp add: PSKKeyExchangeMode_from_def)

lemma PSKKeyExchangeMode_valid_named [simp]:
  "(\<And>k. v \<noteq> PSKKeyExchangeMode.Unknown k) \<Longrightarrow> PSKKeyExchangeMode_valid v"
  by (cases v) (simp_all add: PSKKeyExchangeMode_from_def)

declare PSKKeyExchangeMode_get.simps [simp del]

interpretation KeyUpdateRequest: enum_u8 KeyUpdateRequest_get KeyUpdateRequest_from
  by unfold_locales (simp add: KeyUpdateRequest_from_def)

lemma KeyUpdateRequest_valid_named [simp]:
  "(\<And>k. v \<noteq> KeyUpdateRequest.Unknown k) \<Longrightarrow> KeyUpdateRequest_valid v"
  by (cases v) (simp_all add: KeyUpdateRequest_from_def)

declare KeyUpdateRequest_get.simps [simp del]

interpretation CertificateStatusType: enum_u8 CertificateStatusType_get CertificateStatusType_from
  by unfold_locales (simp add: CertificateStatusType_from_def)

lemma CertificateStatusType_valid_named [simp]:
  "(\<And>k. v \<noteq> CertificateStatusType.Unknown k) \<Longrightarrow> CertificateStatusType_valid v"
  by (cases v) (simp_all add: CertificateStatusType_from_def)

declare CertificateStatusType_get.simps [simp del]

end
