(* ===== verification/Tls_Base.thy ===== *)
theory Tls_Base
  imports Tls_Enums
begin

text \<open>
  The opaque payloads of \<open>tlspuffin/src/tls/rustls/msgs/base.rs\<close>: \<open>Payload\<close> (extends to the end of the
  reader), \<open>PayloadU8\<close>, \<open>PayloadU16\<close>, \<open>PayloadU24\<close> and \<open>key::Certificate\<close> (length-prefixed). The
  newtypes over \<open>Vec<u8>\<close> are byte lists here. Lengths are truncated to their field by \<open>as u8\<close>,
  \<open>as u16\<close> and \<open>as u32\<close> as in the source, so the round trip needs the payload to fit.
\<close>

type_synonym Payload = bytes
type_synonym PayloadU8 = bytes
type_synonym PayloadU16 = bytes
type_synonym PayloadU24 = bytes
type_synonym Certificate = bytes

definition Payload_encode :: "Payload \<Rightarrow> bytes \<Rightarrow> bytes" where
  "Payload_encode p bs = bs @ p"

definition Payload_read :: "Reader \<Rightarrow> Payload \<times> Reader" where
  "Payload_read r = Reader_rest r"

text \<open>\<open>Payload\<close> as an instance of the trait.\<close>

definition Payload_codec_read :: "Reader \<Rightarrow> (Payload \<times> Reader) option" where
  "Payload_codec_read r = Some (Payload_read r)"

definition Certificate_encode :: "Certificate \<Rightarrow> bytes \<Rightarrow> bytes" where
  "Certificate_encode c bs = u24_encode (u24 (word_of_nat (length c))) bs @ c"

definition Certificate_read :: "Reader \<Rightarrow> (Certificate \<times> Reader) option" where
  "Certificate_read r = do {
     (len, r) \<leftarrow> u24_read r;
     (sub, r) \<leftarrow> Reader_sub (unat (u24_val len)) r;
     let (body, sub) = Reader_rest sub;
     Some (body, r) }"

definition PayloadU24_encode :: "PayloadU24 \<Rightarrow> bytes \<Rightarrow> bytes" where
  "PayloadU24_encode p bs = u24_encode (u24 (word_of_nat (length p))) bs @ p"

definition PayloadU24_read :: "Reader \<Rightarrow> (PayloadU24 \<times> Reader) option" where
  "PayloadU24_read r = do {
     (len, r) \<leftarrow> u24_read r;
     (sub, r) \<leftarrow> Reader_sub (unat (u24_val len)) r;
     let (body, sub) = Reader_rest sub;
     Some (body, r) }"

definition PayloadU16_encode_slice :: "bytes \<Rightarrow> bytes \<Rightarrow> bytes" where
  "PayloadU16_encode_slice sl bs = u16_encode (word_of_nat (length sl)) bs @ sl"

definition PayloadU16_encode :: "PayloadU16 \<Rightarrow> bytes \<Rightarrow> bytes" where
  "PayloadU16_encode p bs = PayloadU16_encode_slice p bs"

definition PayloadU16_read :: "Reader \<Rightarrow> (PayloadU16 \<times> Reader) option" where
  "PayloadU16_read r = do {
     (len, r) \<leftarrow> u16_read r;
     (sub, r) \<leftarrow> Reader_sub (unat len) r;
     let (body, sub) = Reader_rest sub;
     Some (body, r) }"

definition PayloadU8_encode :: "PayloadU8 \<Rightarrow> bytes \<Rightarrow> bytes" where
  "PayloadU8_encode p bs = u8_encode (word_of_nat (length p)) bs @ p"

definition PayloadU8_read :: "Reader \<Rightarrow> (PayloadU8 \<times> Reader) option" where
  "PayloadU8_read r = do {
     (len, r) \<leftarrow> u8_read r;
     (sub, r) \<leftarrow> Reader_sub (unat len) r;
     let (body, sub) = Reader_rest sub;
     Some (body, r) }"

subsection \<open>Contracts\<close>

lemma payload_bytes [enc_simps, simp]:
  "get_encoding Payload_encode p = p"
  "get_encoding PayloadU8_encode p8 = word_of_nat (length p8) # p8"
  "get_encoding PayloadU16_encode p16 = u16_to_be_bytes (word_of_nat (length p16)) @ p16"
  "get_encoding PayloadU24_encode p24 = drop 1 (u32_to_be_bytes (word_of_nat (length p24))) @ p24"
  "get_encoding Certificate_encode c = drop 1 (u32_to_be_bytes (word_of_nat (length c))) @ c"
  unfolding get_encoding_def Payload_encode_def PayloadU8_encode_def PayloadU16_encode_def
    PayloadU16_encode_slice_def PayloadU24_encode_def Certificate_encode_def
  by (simp_all add: u8.encode_conv u16.encode_conv u24.encode_conv)

interpretation Payload: tail_codec Payload_encode Payload_codec_read "\<lambda>_. True"
  by unfold_locales
    (auto simp: Payload_encode_def Payload_codec_read_def Payload_read_def Reader_rest_rem)

text \<open>The length-prefixed payloads are vectors of bytes.\<close>

lemma list_all_True [simp]: "list_all (\<lambda>_. True) xs"
  by (simp add: list_all_iff)

lemma read_items_u8: "Reader_ok r \<Longrightarrow> read_items u8_read r = Some (rem r, adv r (length (rem r)))"
proof -
  assume "Reader_ok r"
  moreover have "concat (map (get_encoding u8_encode) xs) = xs" for xs by (induction xs) auto
  ultimately show ?thesis
    using u8.read_items_encode [of "rem r" r] by simp
qed

lemma vec_fits_u8 [simp]: "vec_fits u8_encode (\<lambda>_. True) m xs \<longleftrightarrow> length xs \<le> m"
proof -
  have "concat (map (get_encoding u8_encode) xs) = xs" for xs by (induction xs) auto
  then show ?thesis by (simp add: vec_fits_def)
qed

lemma u24_read_bound: "u24_read r = Some (v, r') \<Longrightarrow> unat (u24_val v) \<le> 16777215"
  by (auto simp: u24_read_def split: bind_split_asm dest!: u24_decode_SomeD)

lemma payload_vec:
  "PayloadU8_encode = encode_vec_u8 u8_encode"
  "PayloadU16_encode = encode_vec_u16 u8_encode"
  "PayloadU24_encode = encode_vec_u24 u8_encode"
  "Certificate_encode = encode_vec_u24 u8_encode"
  "PayloadU8_read = read_vec_u8 u8_read"
  "PayloadU16_read = read_vec_u16 u8_read"
  "PayloadU24_read = read_vec_u24_limited u8_read (2 ^ 24 - 1)"
  "Certificate_read = read_vec_u24_limited u8_read (2 ^ 24 - 1)"
proof -
  have b: "concat (map (get_encoding u8_encode) xs) = xs" for xs by (induction xs) auto
  show "PayloadU8_encode = encode_vec_u8 u8_encode"
    by (intro ext) (simp add: PayloadU8_encode_def u8.encode_conv encoder.encode_conv [OF u8.vec_u8_encoder]
        u8.vec_u8_bytes b)
  show "PayloadU16_encode = encode_vec_u16 u8_encode"
    by (intro ext) (simp add: PayloadU16_encode_def PayloadU16_encode_slice_def u16.encode_conv
        encoder.encode_conv [OF u8.vec_u16_encoder] u8.vec_u16_bytes b)
  show "PayloadU24_encode = encode_vec_u24 u8_encode" "Certificate_encode = encode_vec_u24 u8_encode"
    by (intro ext, simp add: PayloadU24_encode_def Certificate_encode_def u24.encode_conv
        encoder.encode_conv [OF u8.vec_u24_encoder] u8.vec_u24_bytes b)+
  show "PayloadU8_read = read_vec_u8 u8_read"
    by (intro ext) (auto simp: PayloadU8_read_def read_vec_u8_def Reader_sub_rem Reader_rest_rem
        read_items_u8 split: bind_splits)
  show "PayloadU16_read = read_vec_u16 u8_read"
    by (intro ext) (auto simp: PayloadU16_read_def read_vec_u16_def Reader_sub_rem Reader_rest_rem
        read_items_u8 split: bind_splits)
  show "PayloadU24_read = read_vec_u24_limited u8_read (2 ^ 24 - 1)"
    "Certificate_read = read_vec_u24_limited u8_read (2 ^ 24 - 1)"
    by (intro ext, auto simp: PayloadU24_read_def Certificate_read_def read_vec_u24_limited_def
        Reader_sub_rem Reader_rest_rem read_items_u8 Let_def split: bind_splits dest!: u24_read_bound)+
qed

interpretation PayloadU8: canonical_codec PayloadU8_encode PayloadU8_read "\<lambda>p. length p \<le> 255"
  using u8.vec_u8_canonical by (simp add: payload_vec vec_fits_u8 [abs_def])

interpretation PayloadU16: canonical_codec PayloadU16_encode PayloadU16_read "\<lambda>p. length p \<le> 65535"
  using u8.vec_u16_canonical by (simp add: payload_vec vec_fits_u8 [abs_def])

interpretation PayloadU24: canonical_codec PayloadU24_encode PayloadU24_read "\<lambda>p. length p \<le> 16777215"
  using u8.vec_u24_canonical [of "2 ^ 24 - 1"] by (simp add: payload_vec vec_fits_u8 [abs_def])

interpretation Certificate: canonical_codec Certificate_encode Certificate_read "\<lambda>p. length p \<le> 16777215"
  using u8.vec_u24_canonical [of "2 ^ 24 - 1"] by (simp add: payload_vec vec_fits_u8 [abs_def])

end
