(* ===== verification/Tls_Structs.thy ===== *)
theory Tls_Structs
  imports Tls_Base
begin

text \<open>
  The building blocks of \<open>tlspuffin/src/tls/rustls/msgs/handshake.rs\<close> below the extensions: \<open>Random\<close>,
  \<open>SessionID\<close>, signature schemes, server names, key shares, pre-shared keys and status requests.

  A Rust struct is a record, its \<open>Codec\<close> instance a pair \<open>X_encode\<close> / \<open>X_read\<close>, and \<open>X_valid\<close> delimits the
  values that the wire format can carry. Every pair is interpreted as one of the codec locales.

  \<open>webpki::DnsName\<close> is third-party code: its type is a type parameter and
  \<open>webpki::DnsNameRef::try_from_ascii\<close> the parameter \<open>dns :: bytes \<Rightarrow> 'd option\<close> of the decoders.
\<close>

subsection \<open>Vector newtypes\<close>

type_synonym VecU16OfPayloadU8 = "PayloadU8 list"
type_synonym VecU16OfPayloadU16 = "PayloadU16 list"

definition VecU16OfPayloadU8_encode :: "VecU16OfPayloadU8 \<Rightarrow> bytes \<Rightarrow> bytes" where
  "VecU16OfPayloadU8_encode = encode_vec_u16 PayloadU8_encode"

definition VecU16OfPayloadU8_read :: "Reader \<Rightarrow> (VecU16OfPayloadU8 \<times> Reader) option" where
  "VecU16OfPayloadU8_read = read_vec_u16 PayloadU8_read"

definition VecU16OfPayloadU16_encode :: "VecU16OfPayloadU16 \<Rightarrow> bytes \<Rightarrow> bytes" where
  "VecU16OfPayloadU16_encode = encode_vec_u16 PayloadU16_encode"

definition VecU16OfPayloadU16_read :: "Reader \<Rightarrow> (VecU16OfPayloadU16 \<times> Reader) option" where
  "VecU16OfPayloadU16_read = read_vec_u16 PayloadU16_read"

subsection \<open>\<open>Random\<close> and \<open>SessionID\<close>\<close>

type_synonym Random = bytes

definition HELLO_RETRY_REQUEST_RANDOM :: Random where
  "HELLO_RETRY_REQUEST_RANDOM =
    [0xcf, 0x21, 0xad, 0x74, 0xe5, 0x9a, 0x61, 0x11, 0xbe, 0x1d, 0x8c, 0x02, 0x1e, 0x65, 0xb8, 0x91,
     0xc2, 0xa2, 0x11, 0x16, 0x7a, 0xbb, 0x8c, 0x5e, 0x07, 0x9e, 0x09, 0xe2, 0xc8, 0xa8, 0x33, 0x9c]"

definition ZERO_RANDOM :: Random where
  "ZERO_RANDOM = replicate 32 0"

definition Random_encode :: "Random \<Rightarrow> bytes \<Rightarrow> bytes" where
  "Random_encode v bs = bs @ v"

definition Random_read :: "Reader \<Rightarrow> (Random \<times> Reader) option" where
  "Random_read r = Reader_take 32 r"

text \<open>\<open>copy_from_slice\<close> panics when the lengths differ.\<close>

definition Random_write_slice :: "Random \<Rightarrow> bytes \<Rightarrow> bytes option" where
  "Random_write_slice v bs =
     (let buf = get_encoding Random_encode v in if length bs = length buf then Some buf else None)"

record SessionID =
  sid_len :: nat
  sid_data :: bytes

text \<open>The comparison accumulates the differences of the used prefix, without an early exit.\<close>

definition SessionID_eq :: "SessionID \<Rightarrow> SessionID \<Rightarrow> bool" where
  "SessionID_eq a b =
     (if sid_len a \<noteq> sid_len b then False
      else fold (\<lambda>i diff. or diff (xor (sid_data a ! i) (sid_data b ! i))) [0..<sid_len a] (0 :: u8) = 0)"

definition SessionID_encode :: "SessionID \<Rightarrow> bytes \<Rightarrow> bytes" where
  "SessionID_encode s bs = (bs @ [word_of_nat (sid_len s)]) @ take (sid_len s) (sid_data s)"

definition SessionID_read :: "Reader \<Rightarrow> (SessionID \<times> Reader) option" where
  "SessionID_read r = do {
     (len, r) \<leftarrow> u8_read r;
     let len = unat len;
     if len > 32 then None else do {
       (bs, r) \<leftarrow> Reader_take len r;
       let out = overwrite 0 (take len bs) (replicate 32 0);
       Some (\<lparr>sid_len = len, sid_data = out\<rparr>, r) } }"

definition SessionID_empty :: SessionID where
  "SessionID_empty = \<lparr>sid_len = 0, sid_data = replicate 32 0\<rparr>"

definition SessionID_is_empty :: "SessionID \<Rightarrow> bool" where
  "SessionID_is_empty s \<longleftrightarrow> sid_len s = 0"

text \<open>What \<open>read\<close> and the constructors produce: a prefix of at most 32 bytes, padded with zeros.\<close>

definition SessionID_valid :: "SessionID \<Rightarrow> bool" where
  "SessionID_valid s \<longleftrightarrow> sid_len s \<le> 32 \<and> length (sid_data s) = 32
     \<and> drop (sid_len s) (sid_data s) = replicate (32 - sid_len s) 0"

subsection \<open>Extension building blocks\<close>

record UnknownExtension =
  ue_typ :: ExtensionType
  ue_payload :: Payload

definition UnknownExtension_encode :: "UnknownExtension \<Rightarrow> bytes \<Rightarrow> bytes" where
  "UnknownExtension_encode u bs = Payload_encode (ue_payload u) bs"

definition UnknownExtension_read :: "ExtensionType \<Rightarrow> Reader \<Rightarrow> UnknownExtension \<times> Reader" where
  "UnknownExtension_read typ r =
     (let (payload, r) = Payload_read r in (\<lparr>ue_typ = typ, ue_payload = payload\<rparr>, r))"

type_synonym ECPointFormatList = "ECPointFormat list"
type_synonym NamedGroups = "NamedGroup list"
type_synonym SupportedSignatureSchemes = "SignatureScheme list"

definition ECPointFormatList_encode :: "ECPointFormatList \<Rightarrow> bytes \<Rightarrow> bytes" where
  "ECPointFormatList_encode = encode_vec_u8 ECPointFormat_encode"

definition ECPointFormatList_read :: "Reader \<Rightarrow> (ECPointFormatList \<times> Reader) option" where
  "ECPointFormatList_read = read_vec_u8 ECPointFormat_read"

definition ECPointFormatList_supported :: ECPointFormatList where
  "ECPointFormatList_supported = [ECPointFormat.Uncompressed]"

definition NamedGroups_encode :: "NamedGroups \<Rightarrow> bytes \<Rightarrow> bytes" where
  "NamedGroups_encode = encode_vec_u16 NamedGroup_encode"

definition NamedGroups_read :: "Reader \<Rightarrow> (NamedGroups \<times> Reader) option" where
  "NamedGroups_read = read_vec_u16 NamedGroup_read"

definition SupportedSignatureSchemes_encode :: "SupportedSignatureSchemes \<Rightarrow> bytes \<Rightarrow> bytes" where
  "SupportedSignatureSchemes_encode = encode_vec_u16 SignatureScheme_encode"

definition SupportedSignatureSchemes_read :: "Reader \<Rightarrow> (SupportedSignatureSchemes \<times> Reader) option" where
  "SupportedSignatureSchemes_read = read_vec_u16 SignatureScheme_read"

definition SignatureScheme_sign :: "SignatureScheme \<Rightarrow> SignatureAlgorithm" where
  "SignatureScheme_sign s =
     (if s \<in> {SignatureScheme.RSA_PKCS1_SHA1, SignatureScheme.RSA_PKCS1_SHA256,
        SignatureScheme.RSA_PKCS1_SHA384, SignatureScheme.RSA_PKCS1_SHA512,
        SignatureScheme.RSA_PSS_SHA256, SignatureScheme.RSA_PSS_SHA384, SignatureScheme.RSA_PSS_SHA512}
      then SignatureAlgorithm.RSA
      else if s \<in> {SignatureScheme.ECDSA_NISTP256_SHA256, SignatureScheme.ECDSA_NISTP384_SHA384,
        SignatureScheme.ECDSA_NISTP521_SHA512}
      then SignatureAlgorithm.ECDSA
      else SignatureAlgorithm.Unknown 0)"

text \<open>\<open>None\<close> is the \<open>unreachable!()\<close> arm.\<close>

definition SignatureScheme_make :: "SignatureAlgorithm \<Rightarrow> HashAlgorithm \<Rightarrow> SignatureScheme option" where
  "SignatureScheme_make alg hash =
     (case (alg, hash) of
        (SignatureAlgorithm.RSA, HashAlgorithm.SHA1) \<Rightarrow> Some SignatureScheme.RSA_PKCS1_SHA1
      | (SignatureAlgorithm.RSA, HashAlgorithm.SHA256) \<Rightarrow> Some SignatureScheme.RSA_PKCS1_SHA256
      | (SignatureAlgorithm.RSA, HashAlgorithm.SHA384) \<Rightarrow> Some SignatureScheme.RSA_PKCS1_SHA384
      | (SignatureAlgorithm.RSA, HashAlgorithm.SHA512) \<Rightarrow> Some SignatureScheme.RSA_PKCS1_SHA512
      | (SignatureAlgorithm.ECDSA, HashAlgorithm.SHA256) \<Rightarrow> Some SignatureScheme.ECDSA_NISTP256_SHA256
      | (SignatureAlgorithm.ECDSA, HashAlgorithm.SHA384) \<Rightarrow> Some SignatureScheme.ECDSA_NISTP384_SHA384
      | (SignatureAlgorithm.ECDSA, HashAlgorithm.SHA512) \<Rightarrow> Some SignatureScheme.ECDSA_NISTP521_SHA512
      | (_, _) \<Rightarrow> None)"

subsection \<open>Server names\<close>

datatype 'd ServerNamePayload =
    HostName PayloadU16 'd
  | Unknown Payload

text \<open>\<open>as_bytes\<close> stands for the ASCII bytes of a \<open>webpki::DnsName\<close>.\<close>

definition ServerNamePayload_new_hostname :: "('d \<Rightarrow> bytes) \<Rightarrow> 'd \<Rightarrow> 'd ServerNamePayload" where
  "ServerNamePayload_new_hostname as_bytes hostname = ServerNamePayload.HostName (as_bytes hostname) hostname"

definition ServerNamePayload_read_hostname ::
  "(bytes \<Rightarrow> 'd option) \<Rightarrow> Reader \<Rightarrow> ('d ServerNamePayload \<times> Reader) option" where
  "ServerNamePayload_read_hostname dns r = do {
     (raw, r) \<leftarrow> PayloadU16_read r;
     dns_name \<leftarrow> dns raw;
     Some (ServerNamePayload.HostName raw dns_name, r) }"

fun ServerNamePayload_encode :: "'d ServerNamePayload \<Rightarrow> bytes \<Rightarrow> bytes" where
  "ServerNamePayload_encode (ServerNamePayload.HostName r _) bs = PayloadU16_encode r bs"
| "ServerNamePayload_encode (ServerNamePayload.Unknown r) bs = Payload_encode r bs"

record 'd ServerName =
  sn_typ :: ServerNameType
  sn_payload :: "'d ServerNamePayload"

definition ServerName_encode :: "'d ServerName \<Rightarrow> bytes \<Rightarrow> bytes" where
  "ServerName_encode n bs =
     (let bs = ServerNameType_encode (sn_typ n) bs in ServerNamePayload_encode (sn_payload n) bs)"

definition ServerName_read :: "(bytes \<Rightarrow> 'd option) \<Rightarrow> Reader \<Rightarrow> ('d ServerName \<times> Reader) option" where
  "ServerName_read dns r = do {
     (typ, r) \<leftarrow> ServerNameType_read r;
     (payload, r) \<leftarrow> (case typ of
        ServerNameType.HostName \<Rightarrow> ServerNamePayload_read_hostname dns r
      | _ \<Rightarrow> let (p, r) = Payload_read r in Some (ServerNamePayload.Unknown p, r));
     Some (\<lparr>sn_typ = typ, sn_payload = payload\<rparr>, r) }"

type_synonym 'd ServerNameRequest = "'d ServerName list"

definition ServerNameRequest_encode :: "'d ServerNameRequest \<Rightarrow> bytes \<Rightarrow> bytes" where
  "ServerNameRequest_encode = encode_vec_u16 ServerName_encode"

definition ServerNameRequest_read :: "(bytes \<Rightarrow> 'd option) \<Rightarrow> Reader \<Rightarrow> ('d ServerNameRequest \<times> Reader) option" where
  "ServerNameRequest_read dns = read_vec_u16 (ServerName_read dns)"

text \<open>
  The loops that look for a repeated key: \<open>seen\<close> is the \<open>HashSet\<close>, and the loop returns at the first
  key that is already in it.
\<close>

fun seen_before :: "'k set \<Rightarrow> 'k list \<Rightarrow> bool" where
  "seen_before seen [] = False"
| "seen_before seen (k # ks) = (if k \<in> seen then True else seen_before (insert k seen) ks)"

definition has_duplicate_names_for_type :: "'d ServerNameRequest \<Rightarrow> bool" where
  "has_duplicate_names_for_type names = seen_before {} (map (\<lambda>n. ServerNameType_get (sn_typ n)) names)"

definition get_single_hostname :: "'d ServerNameRequest \<Rightarrow> 'd option" where
  "get_single_hostname names =
     (case List.map_filter (\<lambda>n. case sn_payload n of ServerNamePayload.HostName _ dns \<Rightarrow> Some dns | _ \<Rightarrow> None) names of
        [] \<Rightarrow> None | d # _ \<Rightarrow> Some d)"

type_synonym ProtocolNameList = VecU16OfPayloadU8

definition ProtocolNameList_as_single_slice :: "ProtocolNameList \<Rightarrow> bytes option" where
  "ProtocolNameList_as_single_slice ps = (case ps of [p] \<Rightarrow> Some p | _ \<Rightarrow> None)"

subsection \<open>Key shares and pre-shared keys\<close>

record KeyShareEntry =
  kse_group :: NamedGroup
  kse_payload :: PayloadU16

definition KeyShareEntry_encode :: "KeyShareEntry \<Rightarrow> bytes \<Rightarrow> bytes" where
  "KeyShareEntry_encode k bs =
     (let bs = NamedGroup_encode (kse_group k) bs in PayloadU16_encode (kse_payload k) bs)"

definition KeyShareEntry_read :: "Reader \<Rightarrow> (KeyShareEntry \<times> Reader) option" where
  "KeyShareEntry_read r = do {
     (group, r) \<leftarrow> NamedGroup_read r;
     (payload, r) \<leftarrow> PayloadU16_read r;
     Some (\<lparr>kse_group = group, kse_payload = payload\<rparr>, r) }"

record PresharedKeyIdentity =
  pki_identity :: PayloadU16
  pki_obfuscated_ticket_age :: u32

definition PresharedKeyIdentity_encode :: "PresharedKeyIdentity \<Rightarrow> bytes \<Rightarrow> bytes" where
  "PresharedKeyIdentity_encode i bs =
     (let bs = PayloadU16_encode (pki_identity i) bs in u32_encode (pki_obfuscated_ticket_age i) bs)"

definition PresharedKeyIdentity_read :: "Reader \<Rightarrow> (PresharedKeyIdentity \<times> Reader) option" where
  "PresharedKeyIdentity_read r = do {
     (identity, r) \<leftarrow> PayloadU16_read r;
     (age, r) \<leftarrow> u32_read r;
     Some (\<lparr>pki_identity = identity, pki_obfuscated_ticket_age = age\<rparr>, r) }"

type_synonym PresharedKeyIdentities = "PresharedKeyIdentity list"
type_synonym PresharedKeyBinders = VecU16OfPayloadU8

definition PresharedKeyIdentities_encode :: "PresharedKeyIdentities \<Rightarrow> bytes \<Rightarrow> bytes" where
  "PresharedKeyIdentities_encode = encode_vec_u16 PresharedKeyIdentity_encode"

definition PresharedKeyIdentities_read :: "Reader \<Rightarrow> (PresharedKeyIdentities \<times> Reader) option" where
  "PresharedKeyIdentities_read = read_vec_u16 PresharedKeyIdentity_read"

record PresharedKeyOffer =
  pko_identities :: PresharedKeyIdentities
  pko_binders :: PresharedKeyBinders

definition PresharedKeyOffer_new :: "PresharedKeyIdentity \<Rightarrow> bytes \<Rightarrow> PresharedKeyOffer" where
  "PresharedKeyOffer_new ident bnd = \<lparr>pko_identities = [ident], pko_binders = [bnd]\<rparr>"

definition PresharedKeyOffer_encode :: "PresharedKeyOffer \<Rightarrow> bytes \<Rightarrow> bytes" where
  "PresharedKeyOffer_encode p bs =
     (let bs = PresharedKeyIdentities_encode (pko_identities p) bs in VecU16OfPayloadU8_encode (pko_binders p) bs)"

definition PresharedKeyOffer_read :: "Reader \<Rightarrow> (PresharedKeyOffer \<times> Reader) option" where
  "PresharedKeyOffer_read r = do {
     (identities, r) \<leftarrow> PresharedKeyIdentities_read r;
     (binders, r) \<leftarrow> VecU16OfPayloadU8_read r;
     Some (\<lparr>pko_identities = identities, pko_binders = binders\<rparr>, r) }"

subsection \<open>Certificate status requests\<close>

type_synonym ResponderIDs = VecU16OfPayloadU16
type_synonym SCTList = VecU16OfPayloadU16

record OCSPCertificateStatusRequest =
  ocsp_responder_ids :: ResponderIDs
  ocsp_extensions :: PayloadU16

definition OCSPCertificateStatusRequest_encode :: "OCSPCertificateStatusRequest \<Rightarrow> bytes \<Rightarrow> bytes" where
  "OCSPCertificateStatusRequest_encode q bs =
     (let bs = CertificateStatusType_encode CertificateStatusType.OCSP bs;
          bs = VecU16OfPayloadU16_encode (ocsp_responder_ids q) bs
      in PayloadU16_encode (ocsp_extensions q) bs)"

definition OCSPCertificateStatusRequest_read :: "Reader \<Rightarrow> (OCSPCertificateStatusRequest \<times> Reader) option" where
  "OCSPCertificateStatusRequest_read r = do {
     (responder_ids, r) \<leftarrow> VecU16OfPayloadU16_read r;
     (extensions, r) \<leftarrow> PayloadU16_read r;
     Some (\<lparr>ocsp_responder_ids = responder_ids, ocsp_extensions = extensions\<rparr>, r) }"

datatype CertificateStatusRequest =
    OCSP OCSPCertificateStatusRequest
  | Unknown CertificateStatusType Payload

fun CertificateStatusRequest_encode :: "CertificateStatusRequest \<Rightarrow> bytes \<Rightarrow> bytes" where
  "CertificateStatusRequest_encode (CertificateStatusRequest.OCSP r) bs = OCSPCertificateStatusRequest_encode r bs"
| "CertificateStatusRequest_encode (CertificateStatusRequest.Unknown typ payload) bs =
     Payload_encode payload (CertificateStatusType_encode typ bs)"

definition CertificateStatusRequest_read :: "Reader \<Rightarrow> (CertificateStatusRequest \<times> Reader) option" where
  "CertificateStatusRequest_read r = do {
     (typ, r) \<leftarrow> CertificateStatusType_read r;
     (case typ of
        CertificateStatusType.OCSP \<Rightarrow> do {
          (ocsp_req, r) \<leftarrow> OCSPCertificateStatusRequest_read r;
          Some (CertificateStatusRequest.OCSP ocsp_req, r) }
      | _ \<Rightarrow> let (data, r) = Payload_read r in Some (CertificateStatusRequest.Unknown typ data, r)) }"

definition CertificateStatusRequest_build_ocsp :: CertificateStatusRequest where
  "CertificateStatusRequest_build_ocsp =
     CertificateStatusRequest.OCSP \<lparr>ocsp_responder_ids = [], ocsp_extensions = []\<rparr>"

record CertificateStatus =
  cs_ocsp_response :: PayloadU24

definition CertificateStatus_encode :: "CertificateStatus \<Rightarrow> bytes \<Rightarrow> bytes" where
  "CertificateStatus_encode c bs =
     (let bs = CertificateStatusType_encode CertificateStatusType.OCSP bs in PayloadU24_encode (cs_ocsp_response c) bs)"

definition CertificateStatus_read :: "Reader \<Rightarrow> (CertificateStatus \<times> Reader) option" where
  "CertificateStatus_read r = do {
     (typ, r) \<leftarrow> CertificateStatusType_read r;
     (case typ of
        CertificateStatusType.OCSP \<Rightarrow> do {
          (ocsp_response, r) \<leftarrow> PayloadU24_read r;
          Some (\<lparr>cs_ocsp_response = ocsp_response\<rparr>, r) }
      | _ \<Rightarrow> None) }"

type_synonym PSKKeyExchangeModes = "PSKKeyExchangeMode list"
type_synonym KeyShareEntries = "KeyShareEntry list"
type_synonym ProtocolVersions = "ProtocolVersion list"

definition PSKKeyExchangeModes_encode :: "PSKKeyExchangeModes \<Rightarrow> bytes \<Rightarrow> bytes" where
  "PSKKeyExchangeModes_encode = encode_vec_u8 PSKKeyExchangeMode_encode"

definition PSKKeyExchangeModes_read :: "Reader \<Rightarrow> (PSKKeyExchangeModes \<times> Reader) option" where
  "PSKKeyExchangeModes_read = read_vec_u8 PSKKeyExchangeMode_read"

definition KeyShareEntries_encode :: "KeyShareEntries \<Rightarrow> bytes \<Rightarrow> bytes" where
  "KeyShareEntries_encode = encode_vec_u16 KeyShareEntry_encode"

definition KeyShareEntries_read :: "Reader \<Rightarrow> (KeyShareEntries \<times> Reader) option" where
  "KeyShareEntries_read = read_vec_u16 KeyShareEntry_read"

definition ProtocolVersions_encode :: "ProtocolVersions \<Rightarrow> bytes \<Rightarrow> bytes" where
  "ProtocolVersions_encode = encode_vec_u8 ProtocolVersion_encode"

definition ProtocolVersions_read :: "Reader \<Rightarrow> (ProtocolVersions \<times> Reader) option" where
  "ProtocolVersions_read = read_vec_u8 ProtocolVersion_read"

subsection \<open>Contracts\<close>

text \<open>The vector newtypes.\<close>

interpretation VecU16OfPayloadU8: canonical_codec VecU16OfPayloadU8_encode VecU16OfPayloadU8_read
  "vec_fits PayloadU8_encode (\<lambda>p. length p \<le> 255) 65535"
  unfolding VecU16OfPayloadU8_encode_def VecU16OfPayloadU8_read_def by (rule PayloadU8.vec_u16_canonical)

interpretation VecU16OfPayloadU16: canonical_codec VecU16OfPayloadU16_encode VecU16OfPayloadU16_read
  "vec_fits PayloadU16_encode (\<lambda>p. length p \<le> 65535) 65535"
  unfolding VecU16OfPayloadU16_encode_def VecU16OfPayloadU16_read_def by (rule PayloadU16.vec_u16_canonical)

interpretation ECPointFormatList: canonical_codec ECPointFormatList_encode ECPointFormatList_read
  "vec_fits ECPointFormat_encode (\<lambda>v. ECPointFormat_valid v) 255"
  unfolding ECPointFormatList_encode_def ECPointFormatList_read_def by (rule ECPointFormat.vec_u8_canonical)

interpretation NamedGroups: canonical_codec NamedGroups_encode NamedGroups_read
  "vec_fits NamedGroup_encode (\<lambda>v. NamedGroup_valid v) 65535"
  unfolding NamedGroups_encode_def NamedGroups_read_def by (rule NamedGroup.vec_u16_canonical)

interpretation SupportedSignatureSchemes: canonical_codec SupportedSignatureSchemes_encode
  SupportedSignatureSchemes_read "vec_fits SignatureScheme_encode (\<lambda>v. SignatureScheme_valid v) 65535"
  unfolding SupportedSignatureSchemes_encode_def SupportedSignatureSchemes_read_def
  by (rule SignatureScheme.vec_u16_canonical)

interpretation PSKKeyExchangeModes: canonical_codec PSKKeyExchangeModes_encode PSKKeyExchangeModes_read
  "vec_fits PSKKeyExchangeMode_encode (\<lambda>v. PSKKeyExchangeMode_valid v) 255"
  unfolding PSKKeyExchangeModes_encode_def PSKKeyExchangeModes_read_def
  by (rule PSKKeyExchangeMode.vec_u8_canonical)

interpretation ProtocolVersions: canonical_codec ProtocolVersions_encode ProtocolVersions_read
  "vec_fits ProtocolVersion_encode (\<lambda>v. ProtocolVersion_valid v) 255"
  unfolding ProtocolVersions_encode_def ProtocolVersions_read_def by (rule ProtocolVersion.vec_u8_canonical)

text \<open>The records.\<close>

lemma Random_bytes [enc_simps, simp]: "get_encoding Random_encode v = v"
  by (simp add: get_encoding_def Random_encode_def)

interpretation Random: canonical_codec Random_encode Random_read "\<lambda>v. length v = 32"
  by unfold_locales
    (auto simp: Random_encode_def [abs_def] Random_read_def Reader_take_rem get_encoding_def
      split: if_splits dest: length_take_eq_iff)

lemma SessionID_bytes [enc_simps, simp]:
  "get_encoding SessionID_encode s = word_of_nat (sid_len s) # take (sid_len s) (sid_data s)"
  by (simp add: get_encoding_def SessionID_encode_def)

definition KeyShareEntry_valid :: "KeyShareEntry \<Rightarrow> bool" where
  "KeyShareEntry_valid k \<longleftrightarrow> NamedGroup_valid (kse_group k) \<and> length (kse_payload k) \<le> 65535"

interpretation KeyShareEntry: canonical_codec KeyShareEntry_encode KeyShareEntry_read KeyShareEntry_valid
  by (rule canonical_iso [OF canonical_pair [OF NamedGroup.canonical_codec_axioms PayloadU16.canonical_codec_axioms],
      where f = "\<lambda>k. (kse_group k, kse_payload k)"
        and g = "\<lambda>(a, b). \<lparr>kse_group = a, kse_payload = b\<rparr>"])
    (auto simp: KeyShareEntry_encode_def KeyShareEntry_read_def KeyShareEntry_valid_def pair_encode_def
      pair_read_def split: bind_splits)

interpretation KeyShareEntries: canonical_codec KeyShareEntries_encode KeyShareEntries_read
  "vec_fits KeyShareEntry_encode KeyShareEntry_valid 65535"
  unfolding KeyShareEntries_encode_def KeyShareEntries_read_def by (rule KeyShareEntry.vec_u16_canonical)

definition PresharedKeyIdentity_valid :: "PresharedKeyIdentity \<Rightarrow> bool" where
  "PresharedKeyIdentity_valid i \<longleftrightarrow> length (pki_identity i) \<le> 65535"

interpretation PresharedKeyIdentity: canonical_codec PresharedKeyIdentity_encode PresharedKeyIdentity_read
  PresharedKeyIdentity_valid
  by (rule canonical_iso [OF canonical_pair [OF PayloadU16.canonical_codec_axioms u32.canonical_codec_axioms],
      where f = "\<lambda>k. (pki_identity k, pki_obfuscated_ticket_age k)"
        and g = "\<lambda>(a, b). \<lparr>pki_identity = a, pki_obfuscated_ticket_age = b\<rparr>"])
    (auto simp: PresharedKeyIdentity_encode_def PresharedKeyIdentity_read_def PresharedKeyIdentity_valid_def
      pair_encode_def pair_read_def split: bind_splits)

interpretation PresharedKeyIdentities: canonical_codec PresharedKeyIdentities_encode PresharedKeyIdentities_read
  "vec_fits PresharedKeyIdentity_encode PresharedKeyIdentity_valid 65535"
  unfolding PresharedKeyIdentities_encode_def PresharedKeyIdentities_read_def
  by (rule PresharedKeyIdentity.vec_u16_canonical)

definition PresharedKeyOffer_valid :: "PresharedKeyOffer \<Rightarrow> bool" where
  "PresharedKeyOffer_valid p \<longleftrightarrow>
     vec_fits PresharedKeyIdentity_encode PresharedKeyIdentity_valid 65535 (pko_identities p)
     \<and> vec_fits PayloadU8_encode (\<lambda>p. length p \<le> 255) 65535 (pko_binders p)"

interpretation PresharedKeyOffer: canonical_codec PresharedKeyOffer_encode PresharedKeyOffer_read
  PresharedKeyOffer_valid
  by (rule canonical_iso [OF canonical_pair [OF PresharedKeyIdentities.canonical_codec_axioms
        VecU16OfPayloadU8.canonical_codec_axioms],
      where f = "\<lambda>k. (pko_identities k, pko_binders k)"
        and g = "\<lambda>(a, b). \<lparr>pko_identities = a, pko_binders = b\<rparr>"])
    (auto simp: PresharedKeyOffer_encode_def PresharedKeyOffer_read_def PresharedKeyOffer_valid_def
      pair_encode_def pair_read_def split: bind_splits)

interpretation SessionID: canonical_codec SessionID_encode SessionID_read SessionID_valid
proof unfold_locales
  fix s bs show "SessionID_encode s bs = bs @ SessionID_encode s []" by (simp add: SessionID_encode_def)
next
  fix r s r' assume "SessionID_read r = Some (s, r')"
  then show "advances r r'"
    by (auto simp: SessionID_read_def Let_def split: bind_split_asm if_splits
        dest!: u8.progress Reader_take_moves) (blast intro: advances_trans)
next
  fix s r assume v: "SessionID_valid s"
    and t: "take (length (get_encoding SessionID_encode s)) (rem r) = get_encoding SessionID_encode s"
  obtain n d where s: "s = \<lparr>sid_len = n, sid_data = d\<rparr>" by (cases s)
  from v s have n: "n \<le> 32" "length d = 32" "drop n d = replicate (32 - n) 0"
    by (auto simp: SessionID_valid_def)
  then have u: "unat (word_of_nat n :: u8) = n" by (intro unat_word_of_nat_small) simp
  from t obtain post where "rem r = get_encoding SessionID_encode s @ post" by (rule take_prefixE)
  then have post: "rem r = (word_of_nat n # take n d) @ post" by (simp add: s)
  have "u8_read r = Some (word_of_nat n, adv r 1)"
    using u8.read_encode [of "word_of_nat n" r] post by simp
  then show "SessionID_read r = Some (s, adv r (length (get_encoding SessionID_encode s)))"
    using n u post s append_take_drop_id [of n d]
    by (simp add: SessionID_read_def Reader_take_rem overwrite_def)
next
  fix r s r' assume ok: "Reader_ok r" and rd: "SessionID_read r = Some (s, r')"
  then obtain len where len: "rem r \<noteq> []" "hd (rem r) = len" "unat len \<le> 32" "unat len \<le> length (rem r) - 1"
    "r' = adv r (1 + unat len)"
    and s: "s = \<lparr>sid_len = unat len, sid_data = overwrite 0 (take (unat len) (drop 1 (rem r))) (replicate 32 0)\<rparr>"
    by (cases "rem r") (auto simp: SessionID_read_def u8_read_def Reader_take_rem Let_def
        split: bind_split_asm if_splits)
  then show "SessionID_valid s
      \<and> take (length (get_encoding SessionID_encode s)) (rem r) = get_encoding SessionID_encode s
      \<and> r' = adv r (length (get_encoding SessionID_encode s))"
    by (cases "rem r") (auto simp: SessionID_valid_def overwrite_def)
qed

definition CertificateStatus_valid :: "CertificateStatus \<Rightarrow> bool" where
  "CertificateStatus_valid c \<longleftrightarrow> length (cs_ocsp_response c) \<le> 16777215"

interpretation CertificateStatus: canonical_codec CertificateStatus_encode CertificateStatus_read
  CertificateStatus_valid
  by (rule canonical_partial [OF canonical_pair [OF CertificateStatusType.canonical_codec_axioms
        PayloadU24.canonical_codec_axioms],
      where f = "\<lambda>c. (CertificateStatusType.OCSP, cs_ocsp_response c)"
        and g = "\<lambda>(a, b). if a = CertificateStatusType.OCSP then Some \<lparr>cs_ocsp_response = b\<rparr> else None"])
    (auto simp: CertificateStatus_encode_def CertificateStatus_read_def CertificateStatus_valid_def
      pair_encode_def pair_read_def split: bind_splits CertificateStatusType.splits if_splits)

definition OCSPCertificateStatusRequest_valid :: "OCSPCertificateStatusRequest \<Rightarrow> bool" where
  "OCSPCertificateStatusRequest_valid q \<longleftrightarrow>
     vec_fits PayloadU16_encode (\<lambda>p. length p \<le> 65535) 65535 (ocsp_responder_ids q)
     \<and> length (ocsp_extensions q) \<le> 65535"

fun CertificateStatusRequest_valid :: "CertificateStatusRequest \<Rightarrow> bool" where
  "CertificateStatusRequest_valid (CertificateStatusRequest.OCSP q) \<longleftrightarrow> OCSPCertificateStatusRequest_valid q"
| "CertificateStatusRequest_valid (CertificateStatusRequest.Unknown typ p) \<longleftrightarrow>
     CertificateStatusType_valid typ \<and> typ \<noteq> CertificateStatusType.OCSP"

text \<open>The instance for \<open>OCSPCertificateStatusRequest\<close> writes the status type, which its \<open>read\<close> leaves to the caller.\<close>

definition OCSP_fields_encode :: "OCSPCertificateStatusRequest \<Rightarrow> bytes \<Rightarrow> bytes" where
  "OCSP_fields_encode q bs = PayloadU16_encode (ocsp_extensions q) (VecU16OfPayloadU16_encode (ocsp_responder_ids q) bs)"

interpretation OCSP_fields: canonical_codec OCSP_fields_encode OCSPCertificateStatusRequest_read
  OCSPCertificateStatusRequest_valid
  by (rule canonical_iso [OF canonical_pair [OF VecU16OfPayloadU16.canonical_codec_axioms
        PayloadU16.canonical_codec_axioms],
      where f = "\<lambda>k. (ocsp_responder_ids k, ocsp_extensions k)"
        and g = "\<lambda>(a, b). \<lparr>ocsp_responder_ids = a, ocsp_extensions = b\<rparr>"])
    (auto simp: OCSP_fields_encode_def OCSPCertificateStatusRequest_read_def OCSPCertificateStatusRequest_valid_def
      pair_encode_def pair_read_def split: bind_splits)

fun CertificateStatusRequest_tag :: "CertificateStatusRequest \<Rightarrow> CertificateStatusType" where
  "CertificateStatusRequest_tag (CertificateStatusRequest.OCSP q) = CertificateStatusType.OCSP"
| "CertificateStatusRequest_tag (CertificateStatusRequest.Unknown typ p) = typ"

fun CertificateStatusRequest_body :: "CertificateStatusRequest \<Rightarrow> bytes \<Rightarrow> bytes" where
  "CertificateStatusRequest_body (CertificateStatusRequest.OCSP q) bs = OCSP_fields_encode q bs"
| "CertificateStatusRequest_body (CertificateStatusRequest.Unknown typ p) bs = Payload_encode p bs"

lemma CertificateStatusRequest_body_bytes:
  "encoder CertificateStatusRequest_body"
  "get_encoding CertificateStatusRequest_body (CertificateStatusRequest.OCSP q) = get_encoding OCSP_fields_encode q"
  "get_encoding CertificateStatusRequest_body (CertificateStatusRequest.Unknown typ p) = p"
proof -
  show "encoder CertificateStatusRequest_body"
  proof (rule encoder.intro)
    fix x bs show "CertificateStatusRequest_body x bs = bs @ CertificateStatusRequest_body x []"
      by (cases x) (simp_all add: OCSP_fields.encode_appends [of _ bs] Payload.encode_appends [of _ bs])
  qed
qed (simp_all add: get_encoding_def [of CertificateStatusRequest_body] get_encoding_def [of OCSP_fields_encode]
    Payload_encode_def)

interpretation CertificateStatusRequest: tail_codec CertificateStatusRequest_encode
  CertificateStatusRequest_read CertificateStatusRequest_valid
proof (rule tagged_tail [OF CertificateStatusType.codec_axioms CertificateStatusRequest_body_bytes(1),
      where tag = CertificateStatusRequest_tag])
  fix x bs show "CertificateStatusRequest_encode x bs =
      CertificateStatusRequest_body x (CertificateStatusType_encode (CertificateStatusRequest_tag x) bs)"
    by (cases x) (simp_all add: OCSPCertificateStatusRequest_encode_def OCSP_fields_encode_def)
next
  fix r show "CertificateStatusRequest_read r = CertificateStatusType_read r \<bind> (\<lambda>(typ, r). case typ of
        CertificateStatusType.OCSP \<Rightarrow> do {
          (ocsp_req, r) \<leftarrow> OCSPCertificateStatusRequest_read r;
          Some (CertificateStatusRequest.OCSP ocsp_req, r) }
      | _ \<Rightarrow> let (data, r) = Payload_read r in Some (CertificateStatusRequest.Unknown typ data, r))"
    by (simp add: CertificateStatusRequest_read_def)
next
  fix t show "decoder (\<lambda>r. case t of
        CertificateStatusType.OCSP \<Rightarrow> do {
          (ocsp_req, r) \<leftarrow> OCSPCertificateStatusRequest_read r;
          Some (CertificateStatusRequest.OCSP ocsp_req, r) }
      | _ \<Rightarrow> let (data, r) = Payload_read r in Some (CertificateStatusRequest.Unknown t data, r))"
    by (auto simp: decoder_def Payload_read_def split: CertificateStatusType.splits bind_split_asm prod.splits
        dest: OCSP_fields.frame)
next
  fix x show "CertificateStatusRequest_valid x \<Longrightarrow> CertificateStatusType_valid (CertificateStatusRequest_tag x)"
    by (cases x) simp_all
next
  fix x r assume "CertificateStatusRequest_valid x" "Reader_ok r" "rem r = get_encoding CertificateStatusRequest_body x"
  then show "(case CertificateStatusRequest_tag x of
        CertificateStatusType.OCSP \<Rightarrow> do {
          (ocsp_req, r) \<leftarrow> OCSPCertificateStatusRequest_read r;
          Some (CertificateStatusRequest.OCSP ocsp_req, r) }
      | _ \<Rightarrow> let (data, r) = Payload_read r in Some (CertificateStatusRequest.Unknown (CertificateStatusRequest_tag x) data, r))
    = Some (x, adv r (length (get_encoding CertificateStatusRequest_body x)))"
    by (cases x) (auto simp: CertificateStatusRequest_body_bytes OCSP_fields.read_encode Payload_read_def
        Reader_rest_rem split: CertificateStatusType.split)
qed

text \<open>
  A server name: only a host name has a length of its own, any other name extends to the end of the
  list, so inside a list the round trip is for host names.
\<close>

definition ServerName_valid :: "(bytes \<Rightarrow> 'd option) \<Rightarrow> 'd ServerName \<Rightarrow> bool" where
  "ServerName_valid dns n \<longleftrightarrow> sn_typ n = ServerNameType.HostName \<and>
     (case sn_payload n of ServerNamePayload.HostName raw d \<Rightarrow> length raw \<le> 65535 \<and> dns raw = Some d
      | ServerNamePayload.Unknown _ \<Rightarrow> False)"

lemma ServerNamePayload_encoder: "encoder ServerNamePayload_encode"
proof (rule encoder.intro)
  fix x :: "'d ServerNamePayload" and bs
  show "ServerNamePayload_encode x bs = bs @ ServerNamePayload_encode x []"
    by (cases x) (simp_all add: PayloadU16.encode_appends [of _ bs] Payload.encode_appends [of _ bs])
qed

interpretation ServerName: codec ServerName_encode "ServerName_read dns" "ServerName_valid dns" for dns
proof (rule tagged_codec [OF ServerNameType.codec_axioms, where tag = sn_typ
      and eb = "\<lambda>n. ServerNamePayload_encode (sn_payload n)"])
  show "encoder (\<lambda>n. ServerNamePayload_encode (sn_payload n))"
    using ServerNamePayload_encoder unfolding encoder_def by blast
next
  fix n :: "'d ServerName" and bs
  show "ServerName_encode n bs = ServerNamePayload_encode (sn_payload n) (ServerNameType_encode (sn_typ n) bs)"
    by (simp add: ServerName_encode_def)
next
  fix r show "ServerName_read dns r = ServerNameType_read r \<bind> (\<lambda>(typ, r). do {
     (payload, r) \<leftarrow> (case typ of
        ServerNameType.HostName \<Rightarrow> ServerNamePayload_read_hostname dns r
      | _ \<Rightarrow> let (p, r) = Payload_read r in Some (ServerNamePayload.Unknown p, r));
     Some (\<lparr>sn_typ = typ, sn_payload = payload\<rparr>, r) })"
    by (simp add: ServerName_read_def)
next
  fix t show "decoder (\<lambda>r. do {
     (payload, r) \<leftarrow> (case t of
        ServerNameType.HostName \<Rightarrow> ServerNamePayload_read_hostname dns r
      | _ \<Rightarrow> let (p, r) = Payload_read r in Some (ServerNamePayload.Unknown p, r));
     Some (\<lparr>sn_typ = t, sn_payload = payload\<rparr>, r) })"
    by (auto simp: decoder_def ServerNamePayload_read_hostname_def Payload_read_def
        split: ServerNameType.splits bind_split_asm prod.splits dest: PayloadU16.frame)
next
  fix n show "ServerName_valid dns n \<Longrightarrow> ServerNameType_valid (sn_typ n)"
    by (simp add: ServerName_valid_def)
next
  fix n r assume v: "ServerName_valid dns n"
    and t: "take (length (get_encoding (\<lambda>n. ServerNamePayload_encode (sn_payload n)) n)) (rem r) =
      get_encoding (\<lambda>n. ServerNamePayload_encode (sn_payload n)) n"
  from v obtain raw d where n: "n = \<lparr>sn_typ = ServerNameType.HostName, sn_payload = ServerNamePayload.HostName raw d\<rparr>"
    and raw: "length raw \<le> 65535" "dns raw = Some d"
    by (cases n) (auto simp: ServerName_valid_def split: ServerNamePayload.splits)
  have b: "get_encoding (\<lambda>n. ServerNamePayload_encode (sn_payload n)) n = get_encoding PayloadU16_encode raw"
    by (simp add: n get_encoding_def)
  show "(case sn_typ n of
        ServerNameType.HostName \<Rightarrow> ServerNamePayload_read_hostname dns r
      | _ \<Rightarrow> let (p, r) = Payload_read r in Some (ServerNamePayload.Unknown p, r)) \<bind>
     (\<lambda>(payload, r). Some (\<lparr>sn_typ = sn_typ n, sn_payload = payload\<rparr>, r))
    = Some (n, adv r (length (get_encoding (\<lambda>n. ServerNamePayload_encode (sn_payload n)) n)))"
    using PayloadU16.read_encode [OF raw(1), of r] t unfolding b
    by (simp add: n ServerNamePayload_read_hostname_def raw)
qed

interpretation ServerNameRequest: codec ServerNameRequest_encode "ServerNameRequest_read dns"
  "vec_fits ServerName_encode (ServerName_valid dns) 65535" for dns
  unfolding ServerNameRequest_encode_def ServerNameRequest_read_def by (rule ServerName.vec_u16)

subsection \<open>Properties\<close>

lemma seen_before_iff: "seen_before seen ks \<longleftrightarrow> \<not> (distinct ks \<and> set ks \<inter> seen = {})"
  by (induction seen ks rule: seen_before.induct) auto

lemma seen_before_distinct [simp]: "seen_before {} ks \<longleftrightarrow> \<not> distinct ks"
  by (simp add: seen_before_iff)

lemma fold_or_zero:
  "fold (\<lambda>i diff. or diff (f i)) is d = (0 :: u8) \<longleftrightarrow> d = 0 \<and> (\<forall>i \<in> set is. f i = 0)"
  by (induction "is" arbitrary: d) (auto simp: or_eq_0_iff)

lemma xor_eq_zero_iff: "xor a b = (0 :: 'a::len word) \<longleftrightarrow> a = b"
  by (auto simp: bit_eq_iff bit_simps)

lemma SessionID_eq_iff:
  assumes "SessionID_valid a" "SessionID_valid b"
  shows "SessionID_eq a b \<longleftrightarrow> a = b"
proof
  assume eq: "SessionID_eq a b"
  then have len: "sid_len a = sid_len b" and xor: "\<forall>i < sid_len a. xor (sid_data a ! i) (sid_data b ! i) = 0"
    by (auto simp: SessionID_eq_def fold_or_zero split: if_splits)
  from assms have ab: "sid_len a \<le> 32" "length (sid_data a) = 32" "length (sid_data b) = 32"
    "drop (sid_len a) (sid_data a) = drop (sid_len a) (sid_data b)"
    by (auto simp: SessionID_valid_def len)
  have "take (sid_len a) (sid_data a) = take (sid_len a) (sid_data b)"
    using xor ab by (intro nth_equalityI) (auto simp: xor_eq_zero_iff)
  with ab(4) have "sid_data a = sid_data b" by (metis append_take_drop_id)
  with len show "a = b" by simp
qed (unfold SessionID_eq_def fold_or_zero, simp)

lemma sign_make: "SignatureScheme_make alg hash = Some s \<Longrightarrow> SignatureScheme_sign s = alg"
  by (auto simp: SignatureScheme_make_def SignatureScheme_sign_def
      split: SignatureAlgorithm.splits HashAlgorithm.splits)

end
