(* ===== verification/Tls_Extensions.thy ===== *)
theory Tls_Extensions
  imports Tls_Structs
begin

text \<open>
  The six extension enumerations of \<open>tlspuffin/src/tls/rustls/msgs/handshake.rs\<close>: \<open>ClientExtension\<close>,
  \<open>ServerExtension\<close>, \<open>HelloRetryExtension\<close>, \<open>CertificateExtension\<close>, \<open>CertReqExtension\<close> and
  \<open>NewSessionTicketExtension\<close>. Their \<open>encode\<close> and \<open>read\<close> share one frame (type, 16-bit length, body, and on
  reading the check that the body was consumed); \<open>encode_extension\<close> and \<open>read_extension\<close> are that frame and
  \<open>X_encode_body\<close> and \<open>X_read_body\<close> the matches on the variant and on the extension type.

  The locale \<open>extension\<close> is the contract between the two: on the type and the body of a valid extension
  the match gives the extension back. Its one theorem makes each enumeration a codec.
\<close>

subsection \<open>The frame\<close>

definition encode_extension :: "ExtensionType \<Rightarrow> bytes \<Rightarrow> bytes \<Rightarrow> bytes" where
  "encode_extension typ sub bs =
     (let bs = ExtensionType_encode typ bs;
          bs = u16_encode (word_of_nat (length sub)) bs
      in bs @ sub)"

definition read_extension ::
  "(ExtensionType \<Rightarrow> Reader \<Rightarrow> ('e \<times> Reader) option) \<Rightarrow> Reader \<Rightarrow> ('e \<times> Reader) option" where
  "read_extension read_body r = do {
     (typ, r) \<leftarrow> ExtensionType_read r;
     (len, r) \<leftarrow> u16_read r;
     (sub, r) \<leftarrow> Reader_sub (unat len) r;
     (ext, sub) \<leftarrow> read_body typ sub;
     if Reader_any_left sub then None else Some (ext, r) }"

subsection \<open>\<open>ClientExtension\<close>\<close>

datatype ClientSessionTicket = Request | Offer Payload

datatype 'd ClientExtension =
    ECPointFormats ECPointFormatList
  | NamedGroups NamedGroups
  | SignatureAlgorithms SupportedSignatureSchemes
  | ServerName "'d ServerNameRequest"
  | SessionTicket ClientSessionTicket
  | Protocols ProtocolNameList
  | SupportedVersions ProtocolVersions
  | KeyShare KeyShareEntries
  | PresharedKeyModes PSKKeyExchangeModes
  | PresharedKey PresharedKeyOffer
  | Cookie PayloadU16
  | ExtendedMasterSecretRequest
  | CertificateStatusRequest CertificateStatusRequest
  | SignedCertificateTimestampRequest
  | TransportParameters bytes
  | TransportParametersDraft bytes
  | EarlyData
  | RenegotiationInfo PayloadU8
  | SignatureAlgorithmsCert SupportedSignatureSchemes
  | Unknown UnknownExtension

fun ClientExtension_get_type :: "'d ClientExtension \<Rightarrow> ExtensionType" where
  "ClientExtension_get_type (ClientExtension.ECPointFormats _) = ExtensionType.ECPointFormats"
| "ClientExtension_get_type (ClientExtension.NamedGroups _) = ExtensionType.EllipticCurves"
| "ClientExtension_get_type (ClientExtension.SignatureAlgorithms _) = ExtensionType.SignatureAlgorithms"
| "ClientExtension_get_type (ClientExtension.ServerName _) = ExtensionType.ServerName"
| "ClientExtension_get_type (ClientExtension.SessionTicket _) = ExtensionType.SessionTicket"
| "ClientExtension_get_type (ClientExtension.Protocols _) = ExtensionType.ALProtocolNegotiation"
| "ClientExtension_get_type (ClientExtension.SupportedVersions _) = ExtensionType.SupportedVersions"
| "ClientExtension_get_type (ClientExtension.KeyShare _) = ExtensionType.KeyShare"
| "ClientExtension_get_type (ClientExtension.PresharedKeyModes _) = ExtensionType.PSKKeyExchangeModes"
| "ClientExtension_get_type (ClientExtension.PresharedKey _) = ExtensionType.PreSharedKey"
| "ClientExtension_get_type (ClientExtension.Cookie _) = ExtensionType.Cookie"
| "ClientExtension_get_type ClientExtension.ExtendedMasterSecretRequest = ExtensionType.ExtendedMasterSecret"
| "ClientExtension_get_type (ClientExtension.CertificateStatusRequest _) = ExtensionType.StatusRequest"
| "ClientExtension_get_type ClientExtension.SignedCertificateTimestampRequest = ExtensionType.SCT"
| "ClientExtension_get_type (ClientExtension.TransportParameters _) = ExtensionType.TransportParameters"
| "ClientExtension_get_type (ClientExtension.TransportParametersDraft _) = ExtensionType.TransportParametersDraft"
| "ClientExtension_get_type ClientExtension.EarlyData = ExtensionType.EarlyData"
| "ClientExtension_get_type (ClientExtension.RenegotiationInfo _) = ExtensionType.RenegotiationInfo"
| "ClientExtension_get_type (ClientExtension.SignatureAlgorithmsCert _) = ExtensionType.SignatureAlgorithmsCert"
| "ClientExtension_get_type (ClientExtension.Unknown r) = ue_typ r"

fun ClientExtension_encode_body :: "'d ClientExtension \<Rightarrow> bytes \<Rightarrow> bytes" where
  "ClientExtension_encode_body (ClientExtension.ECPointFormats r) sub = ECPointFormatList_encode r sub"
| "ClientExtension_encode_body (ClientExtension.NamedGroups r) sub = NamedGroups_encode r sub"
| "ClientExtension_encode_body (ClientExtension.SignatureAlgorithms r) sub = SupportedSignatureSchemes_encode r sub"
| "ClientExtension_encode_body (ClientExtension.ServerName r) sub = ServerNameRequest_encode r sub"
| "ClientExtension_encode_body (ClientExtension.SessionTicket ClientSessionTicket.Request) sub = sub"
| "ClientExtension_encode_body ClientExtension.ExtendedMasterSecretRequest sub = sub"
| "ClientExtension_encode_body ClientExtension.SignedCertificateTimestampRequest sub = sub"
| "ClientExtension_encode_body ClientExtension.EarlyData sub = sub"
| "ClientExtension_encode_body (ClientExtension.SessionTicket (ClientSessionTicket.Offer r)) sub = Payload_encode r sub"
| "ClientExtension_encode_body (ClientExtension.Protocols r) sub = VecU16OfPayloadU8_encode r sub"
| "ClientExtension_encode_body (ClientExtension.SupportedVersions r) sub = ProtocolVersions_encode r sub"
| "ClientExtension_encode_body (ClientExtension.KeyShare r) sub = KeyShareEntries_encode r sub"
| "ClientExtension_encode_body (ClientExtension.PresharedKeyModes r) sub = PSKKeyExchangeModes_encode r sub"
| "ClientExtension_encode_body (ClientExtension.PresharedKey r) sub = PresharedKeyOffer_encode r sub"
| "ClientExtension_encode_body (ClientExtension.Cookie r) sub = PayloadU16_encode r sub"
| "ClientExtension_encode_body (ClientExtension.CertificateStatusRequest r) sub = CertificateStatusRequest_encode r sub"
| "ClientExtension_encode_body (ClientExtension.TransportParameters r) sub = sub @ r"
| "ClientExtension_encode_body (ClientExtension.TransportParametersDraft r) sub = sub @ r"
| "ClientExtension_encode_body (ClientExtension.RenegotiationInfo r) sub = PayloadU8_encode r sub"
| "ClientExtension_encode_body (ClientExtension.SignatureAlgorithmsCert r) sub = SupportedSignatureSchemes_encode r sub"
| "ClientExtension_encode_body (ClientExtension.Unknown r) sub = UnknownExtension_encode r sub"

definition ClientExtension_encode :: "'d ClientExtension \<Rightarrow> bytes \<Rightarrow> bytes" where
  "ClientExtension_encode e bs = encode_extension (ClientExtension_get_type e) (ClientExtension_encode_body e []) bs"

text \<open>
  The arms of the matches in \<open>read\<close>: a variant around what a decoder returns, a variant around the rest
  of the body, the catch-all arm.
\<close>

definition arm :: "('a \<Rightarrow> 'e) \<Rightarrow> ('a \<times> Reader) option \<Rightarrow> ('e \<times> Reader) option" where
  "arm c res = map_option (\<lambda>(x, sub). (c x, sub)) res"

definition unknown_arm :: "(UnknownExtension \<Rightarrow> 'e) \<Rightarrow> ExtensionType \<Rightarrow> Reader \<Rightarrow> ('e \<times> Reader) option" where
  "unknown_arm c typ sub = arm c (Some (UnknownExtension_read typ sub))"

definition ClientExtension_read_body ::
  "(bytes \<Rightarrow> 'd option) \<Rightarrow> ExtensionType \<Rightarrow> Reader \<Rightarrow> ('d ClientExtension \<times> Reader) option" where
  "ClientExtension_read_body dns typ sub =
     (let unknown = unknown_arm ClientExtension.Unknown typ sub in
      case typ of
        ExtensionType.ECPointFormats \<Rightarrow> arm ClientExtension.ECPointFormats (ECPointFormatList_read sub)
      | ExtensionType.EllipticCurves \<Rightarrow> arm ClientExtension.NamedGroups (NamedGroups_read sub)
      | ExtensionType.SignatureAlgorithms \<Rightarrow> arm ClientExtension.SignatureAlgorithms (SupportedSignatureSchemes_read sub)
      | ExtensionType.ServerName \<Rightarrow> arm ClientExtension.ServerName (ServerNameRequest_read dns sub)
      | ExtensionType.SessionTicket \<Rightarrow>
          if Reader_any_left sub
          then arm (\<lambda>c. ClientExtension.SessionTicket (ClientSessionTicket.Offer c)) (Some (Payload_read sub))
          else Some (ClientExtension.SessionTicket ClientSessionTicket.Request, sub)
      | ExtensionType.ALProtocolNegotiation \<Rightarrow> arm ClientExtension.Protocols (VecU16OfPayloadU8_read sub)
      | ExtensionType.SupportedVersions \<Rightarrow> arm ClientExtension.SupportedVersions (ProtocolVersions_read sub)
      | ExtensionType.KeyShare \<Rightarrow> arm ClientExtension.KeyShare (KeyShareEntries_read sub)
      | ExtensionType.PSKKeyExchangeModes \<Rightarrow> arm ClientExtension.PresharedKeyModes (PSKKeyExchangeModes_read sub)
      | ExtensionType.PreSharedKey \<Rightarrow> arm ClientExtension.PresharedKey (PresharedKeyOffer_read sub)
      | ExtensionType.Cookie \<Rightarrow> arm ClientExtension.Cookie (PayloadU16_read sub)
      | ExtensionType.ExtendedMasterSecret \<Rightarrow>
          if \<not> Reader_any_left sub then Some (ClientExtension.ExtendedMasterSecretRequest, sub) else unknown
      | ExtensionType.StatusRequest \<Rightarrow> arm ClientExtension.CertificateStatusRequest (CertificateStatusRequest_read sub)
      | ExtensionType.SCT \<Rightarrow>
          if \<not> Reader_any_left sub then Some (ClientExtension.SignedCertificateTimestampRequest, sub) else unknown
      | ExtensionType.TransportParameters \<Rightarrow> arm ClientExtension.TransportParameters (Some (Reader_rest sub))
      | ExtensionType.TransportParametersDraft \<Rightarrow> arm ClientExtension.TransportParametersDraft (Some (Reader_rest sub))
      | ExtensionType.RenegotiationInfo \<Rightarrow> arm ClientExtension.RenegotiationInfo (Some (Reader_rest sub))
      | ExtensionType.SignatureAlgorithmsCert \<Rightarrow>
          arm ClientExtension.SignatureAlgorithmsCert (SupportedSignatureSchemes_read sub)
      | ExtensionType.EarlyData \<Rightarrow> if \<not> Reader_any_left sub then Some (ClientExtension.EarlyData, sub) else unknown
      | _ \<Rightarrow> unknown)"

definition ClientExtension_read :: "(bytes \<Rightarrow> 'd option) \<Rightarrow> Reader \<Rightarrow> ('d ClientExtension \<times> Reader) option" where
  "ClientExtension_read dns r = read_extension (ClientExtension_read_body dns) r"

text \<open>
  \<open>trim_hostname_trailing_dot_for_sni\<close> and \<open>make_sni\<close>: \<open>as_bytes\<close> gives the bytes of a \<open>webpki::DnsName\<close>, and
  \<open>None\<close> is the panic of \<open>unwrap\<close>.
\<close>

definition trim_hostname_trailing_dot_for_sni :: "(bytes \<Rightarrow> 'd option) \<Rightarrow> ('d \<Rightarrow> bytes) \<Rightarrow> 'd \<Rightarrow> 'd option" where
  "trim_hostname_trailing_dot_for_sni dns as_bytes dns_name =
     (let s = as_bytes dns_name in
      if s \<noteq> [] \<and> last s = 0x2e then dns (take (length s - 1) s) else Some dns_name)"

definition make_sni :: "(bytes \<Rightarrow> 'd option) \<Rightarrow> ('d \<Rightarrow> bytes) \<Rightarrow> 'd \<Rightarrow> 'd ClientExtension option" where
  "make_sni dns as_bytes dns_name = do {
     trimmed \<leftarrow> trim_hostname_trailing_dot_for_sni dns as_bytes dns_name;
     Some (ClientExtension.ServerName
       [\<lparr>sn_typ = ServerNameType.HostName, sn_payload = ServerNamePayload_new_hostname as_bytes trimmed\<rparr>]) }"

subsection \<open>\<open>ServerExtension\<close>\<close>

datatype ServerExtension =
    ECPointFormats ECPointFormatList
  | ServerNameAck
  | SessionTicketAck
  | RenegotiationInfo PayloadU8
  | Protocols ProtocolNameList
  | KeyShare KeyShareEntry
  | PresharedKey u16
  | ExtendedMasterSecretAck
  | CertificateStatusAck
  | SignedCertificateTimestamp SCTList
  | SupportedVersions ProtocolVersion
  | TransportParameters bytes
  | TransportParametersDraft bytes
  | EarlyData
  | Unknown UnknownExtension

fun ServerExtension_get_type :: "ServerExtension \<Rightarrow> ExtensionType" where
  "ServerExtension_get_type (ServerExtension.ECPointFormats _) = ExtensionType.ECPointFormats"
| "ServerExtension_get_type ServerExtension.ServerNameAck = ExtensionType.ServerName"
| "ServerExtension_get_type ServerExtension.SessionTicketAck = ExtensionType.SessionTicket"
| "ServerExtension_get_type (ServerExtension.RenegotiationInfo _) = ExtensionType.RenegotiationInfo"
| "ServerExtension_get_type (ServerExtension.Protocols _) = ExtensionType.ALProtocolNegotiation"
| "ServerExtension_get_type (ServerExtension.KeyShare _) = ExtensionType.KeyShare"
| "ServerExtension_get_type (ServerExtension.PresharedKey _) = ExtensionType.PreSharedKey"
| "ServerExtension_get_type ServerExtension.ExtendedMasterSecretAck = ExtensionType.ExtendedMasterSecret"
| "ServerExtension_get_type ServerExtension.CertificateStatusAck = ExtensionType.StatusRequest"
| "ServerExtension_get_type (ServerExtension.SignedCertificateTimestamp _) = ExtensionType.SCT"
| "ServerExtension_get_type (ServerExtension.SupportedVersions _) = ExtensionType.SupportedVersions"
| "ServerExtension_get_type (ServerExtension.TransportParameters _) = ExtensionType.TransportParameters"
| "ServerExtension_get_type (ServerExtension.TransportParametersDraft _) = ExtensionType.TransportParametersDraft"
| "ServerExtension_get_type ServerExtension.EarlyData = ExtensionType.EarlyData"
| "ServerExtension_get_type (ServerExtension.Unknown r) = ue_typ r"

fun ServerExtension_encode_body :: "ServerExtension \<Rightarrow> bytes \<Rightarrow> bytes" where
  "ServerExtension_encode_body (ServerExtension.ECPointFormats r) sub = ECPointFormatList_encode r sub"
| "ServerExtension_encode_body ServerExtension.ServerNameAck sub = sub"
| "ServerExtension_encode_body ServerExtension.SessionTicketAck sub = sub"
| "ServerExtension_encode_body (ServerExtension.RenegotiationInfo r) sub = PayloadU8_encode r sub"
| "ServerExtension_encode_body (ServerExtension.Protocols r) sub = VecU16OfPayloadU8_encode r sub"
| "ServerExtension_encode_body (ServerExtension.KeyShare r) sub = KeyShareEntry_encode r sub"
| "ServerExtension_encode_body (ServerExtension.PresharedKey r) sub = u16_encode r sub"
| "ServerExtension_encode_body ServerExtension.ExtendedMasterSecretAck sub = sub"
| "ServerExtension_encode_body ServerExtension.CertificateStatusAck sub = sub"
| "ServerExtension_encode_body (ServerExtension.SignedCertificateTimestamp r) sub = VecU16OfPayloadU16_encode r sub"
| "ServerExtension_encode_body (ServerExtension.SupportedVersions r) sub = ProtocolVersion_encode r sub"
| "ServerExtension_encode_body (ServerExtension.TransportParameters r) sub = sub @ r"
| "ServerExtension_encode_body (ServerExtension.TransportParametersDraft r) sub = sub @ r"
| "ServerExtension_encode_body ServerExtension.EarlyData sub = sub"
| "ServerExtension_encode_body (ServerExtension.Unknown r) sub = UnknownExtension_encode r sub"

definition ServerExtension_encode :: "ServerExtension \<Rightarrow> bytes \<Rightarrow> bytes" where
  "ServerExtension_encode e bs = encode_extension (ServerExtension_get_type e) (ServerExtension_encode_body e []) bs"

definition ServerExtension_read_body :: "ExtensionType \<Rightarrow> Reader \<Rightarrow> (ServerExtension \<times> Reader) option" where
  "ServerExtension_read_body typ sub =
     (case typ of
        ExtensionType.ECPointFormats \<Rightarrow> arm ServerExtension.ECPointFormats (ECPointFormatList_read sub)
      | ExtensionType.ServerName \<Rightarrow> Some (ServerExtension.ServerNameAck, sub)
      | ExtensionType.SessionTicket \<Rightarrow> Some (ServerExtension.SessionTicketAck, sub)
      | ExtensionType.StatusRequest \<Rightarrow> Some (ServerExtension.CertificateStatusAck, sub)
      | ExtensionType.RenegotiationInfo \<Rightarrow> arm ServerExtension.RenegotiationInfo (PayloadU8_read sub)
      | ExtensionType.ALProtocolNegotiation \<Rightarrow> arm ServerExtension.Protocols (VecU16OfPayloadU8_read sub)
      | ExtensionType.KeyShare \<Rightarrow> arm ServerExtension.KeyShare (KeyShareEntry_read sub)
      | ExtensionType.PreSharedKey \<Rightarrow> arm ServerExtension.PresharedKey (u16_read sub)
      | ExtensionType.ExtendedMasterSecret \<Rightarrow> Some (ServerExtension.ExtendedMasterSecretAck, sub)
      | ExtensionType.SCT \<Rightarrow> arm ServerExtension.SignedCertificateTimestamp (VecU16OfPayloadU16_read sub)
      | ExtensionType.SupportedVersions \<Rightarrow> arm ServerExtension.SupportedVersions (ProtocolVersion_read sub)
      | ExtensionType.TransportParameters \<Rightarrow> arm ServerExtension.TransportParameters (Some (Reader_rest sub))
      | ExtensionType.TransportParametersDraft \<Rightarrow> arm ServerExtension.TransportParametersDraft (Some (Reader_rest sub))
      | ExtensionType.EarlyData \<Rightarrow> Some (ServerExtension.EarlyData, sub)
      | _ \<Rightarrow> unknown_arm ServerExtension.Unknown typ sub)"

definition ServerExtension_read :: "Reader \<Rightarrow> (ServerExtension \<times> Reader) option" where
  "ServerExtension_read r = read_extension ServerExtension_read_body r"

text \<open>\<open>None\<close> is the panic of \<open>expect\<close>.\<close>

definition ServerExtension_make_sct :: "bytes \<Rightarrow> ServerExtension option" where
  "ServerExtension_make_sct sctl =
     map_option ServerExtension.SignedCertificateTimestamp (read_bytes VecU16OfPayloadU16_read sctl)"

subsection \<open>\<open>HelloRetryExtension\<close>\<close>

datatype HelloRetryExtension =
    KeyShare NamedGroup
  | Cookie PayloadU16
  | SupportedVersions ProtocolVersion
  | Unknown UnknownExtension

fun HelloRetryExtension_get_type :: "HelloRetryExtension \<Rightarrow> ExtensionType" where
  "HelloRetryExtension_get_type (HelloRetryExtension.KeyShare _) = ExtensionType.KeyShare"
| "HelloRetryExtension_get_type (HelloRetryExtension.Cookie _) = ExtensionType.Cookie"
| "HelloRetryExtension_get_type (HelloRetryExtension.SupportedVersions _) = ExtensionType.SupportedVersions"
| "HelloRetryExtension_get_type (HelloRetryExtension.Unknown r) = ue_typ r"

fun HelloRetryExtension_encode_body :: "HelloRetryExtension \<Rightarrow> bytes \<Rightarrow> bytes" where
  "HelloRetryExtension_encode_body (HelloRetryExtension.KeyShare r) sub = NamedGroup_encode r sub"
| "HelloRetryExtension_encode_body (HelloRetryExtension.Cookie r) sub = PayloadU16_encode r sub"
| "HelloRetryExtension_encode_body (HelloRetryExtension.SupportedVersions r) sub = ProtocolVersion_encode r sub"
| "HelloRetryExtension_encode_body (HelloRetryExtension.Unknown r) sub = UnknownExtension_encode r sub"

definition HelloRetryExtension_encode :: "HelloRetryExtension \<Rightarrow> bytes \<Rightarrow> bytes" where
  "HelloRetryExtension_encode e bs = encode_extension (HelloRetryExtension_get_type e) (HelloRetryExtension_encode_body e []) bs"

definition HelloRetryExtension_read_body :: "ExtensionType \<Rightarrow> Reader \<Rightarrow> (HelloRetryExtension \<times> Reader) option" where
  "HelloRetryExtension_read_body typ sub =
     (case typ of
        ExtensionType.KeyShare \<Rightarrow> arm HelloRetryExtension.KeyShare (NamedGroup_read sub)
      | ExtensionType.Cookie \<Rightarrow> arm HelloRetryExtension.Cookie (PayloadU16_read sub)
      | ExtensionType.SupportedVersions \<Rightarrow> arm HelloRetryExtension.SupportedVersions (ProtocolVersion_read sub)
      | _ \<Rightarrow> unknown_arm HelloRetryExtension.Unknown typ sub)"

definition HelloRetryExtension_read :: "Reader \<Rightarrow> (HelloRetryExtension \<times> Reader) option" where
  "HelloRetryExtension_read r = read_extension HelloRetryExtension_read_body r"

subsection \<open>\<open>CertificateExtension\<close>\<close>

datatype CertificateExtension =
    CertificateStatus CertificateStatus
  | SignedCertificateTimestamp SCTList
  | Unknown UnknownExtension

fun CertificateExtension_get_type :: "CertificateExtension \<Rightarrow> ExtensionType" where
  "CertificateExtension_get_type (CertificateExtension.CertificateStatus _) = ExtensionType.StatusRequest"
| "CertificateExtension_get_type (CertificateExtension.SignedCertificateTimestamp _) = ExtensionType.SCT"
| "CertificateExtension_get_type (CertificateExtension.Unknown r) = ue_typ r"

fun CertificateExtension_encode_body :: "CertificateExtension \<Rightarrow> bytes \<Rightarrow> bytes" where
  "CertificateExtension_encode_body (CertificateExtension.CertificateStatus r) sub = CertificateStatus_encode r sub"
| "CertificateExtension_encode_body (CertificateExtension.SignedCertificateTimestamp r) sub = VecU16OfPayloadU16_encode r sub"
| "CertificateExtension_encode_body (CertificateExtension.Unknown r) sub = UnknownExtension_encode r sub"

definition CertificateExtension_encode :: "CertificateExtension \<Rightarrow> bytes \<Rightarrow> bytes" where
  "CertificateExtension_encode e bs = encode_extension (CertificateExtension_get_type e) (CertificateExtension_encode_body e []) bs"

definition CertificateExtension_read_body :: "ExtensionType \<Rightarrow> Reader \<Rightarrow> (CertificateExtension \<times> Reader) option" where
  "CertificateExtension_read_body typ sub =
     (case typ of
        ExtensionType.StatusRequest \<Rightarrow> arm CertificateExtension.CertificateStatus (CertificateStatus_read sub)
      | ExtensionType.SCT \<Rightarrow> arm CertificateExtension.SignedCertificateTimestamp (VecU16OfPayloadU16_read sub)
      | _ \<Rightarrow> unknown_arm CertificateExtension.Unknown typ sub)"

definition CertificateExtension_read :: "Reader \<Rightarrow> (CertificateExtension \<times> Reader) option" where
  "CertificateExtension_read r = read_extension CertificateExtension_read_body r"

fun CertificateExtension_get_cert_status :: "CertificateExtension \<Rightarrow> bytes option" where
  "CertificateExtension_get_cert_status (CertificateExtension.CertificateStatus cs) = Some (cs_ocsp_response cs)"
| "CertificateExtension_get_cert_status _ = None"

fun CertificateExtension_get_sct_list :: "CertificateExtension \<Rightarrow> SCTList option" where
  "CertificateExtension_get_sct_list (CertificateExtension.SignedCertificateTimestamp sctl) = Some sctl"
| "CertificateExtension_get_sct_list _ = None"

type_synonym DistinguishedNames = VecU16OfPayloadU16

subsection \<open>\<open>CertReqExtension\<close>\<close>

datatype CertReqExtension =
    SignatureAlgorithms SupportedSignatureSchemes
  | AuthorityNames DistinguishedNames
  | Unknown UnknownExtension

fun CertReqExtension_get_type :: "CertReqExtension \<Rightarrow> ExtensionType" where
  "CertReqExtension_get_type (CertReqExtension.SignatureAlgorithms _) = ExtensionType.SignatureAlgorithms"
| "CertReqExtension_get_type (CertReqExtension.AuthorityNames _) = ExtensionType.CertificateAuthorities"
| "CertReqExtension_get_type (CertReqExtension.Unknown r) = ue_typ r"

fun CertReqExtension_encode_body :: "CertReqExtension \<Rightarrow> bytes \<Rightarrow> bytes" where
  "CertReqExtension_encode_body (CertReqExtension.SignatureAlgorithms r) sub = SupportedSignatureSchemes_encode r sub"
| "CertReqExtension_encode_body (CertReqExtension.AuthorityNames r) sub = VecU16OfPayloadU16_encode r sub"
| "CertReqExtension_encode_body (CertReqExtension.Unknown r) sub = UnknownExtension_encode r sub"

definition CertReqExtension_encode :: "CertReqExtension \<Rightarrow> bytes \<Rightarrow> bytes" where
  "CertReqExtension_encode e bs = encode_extension (CertReqExtension_get_type e) (CertReqExtension_encode_body e []) bs"

definition CertReqExtension_read_body :: "ExtensionType \<Rightarrow> Reader \<Rightarrow> (CertReqExtension \<times> Reader) option" where
  "CertReqExtension_read_body typ sub =
     (case typ of
        ExtensionType.SignatureAlgorithms \<Rightarrow> do {
          (schemes, sub) \<leftarrow> SupportedSignatureSchemes_read sub;
          if schemes = [] then None else Some (CertReqExtension.SignatureAlgorithms schemes, sub) }
      | ExtensionType.CertificateAuthorities \<Rightarrow> arm CertReqExtension.AuthorityNames (VecU16OfPayloadU16_read sub)
      | _ \<Rightarrow> unknown_arm CertReqExtension.Unknown typ sub)"

definition CertReqExtension_read :: "Reader \<Rightarrow> (CertReqExtension \<times> Reader) option" where
  "CertReqExtension_read r = read_extension CertReqExtension_read_body r"

subsection \<open>\<open>NewSessionTicketExtension\<close>\<close>

datatype NewSessionTicketExtension =
    EarlyData u32
  | Unknown UnknownExtension

fun NewSessionTicketExtension_get_type :: "NewSessionTicketExtension \<Rightarrow> ExtensionType" where
  "NewSessionTicketExtension_get_type (NewSessionTicketExtension.EarlyData _) = ExtensionType.EarlyData"
| "NewSessionTicketExtension_get_type (NewSessionTicketExtension.Unknown r) = ue_typ r"

fun NewSessionTicketExtension_encode_body :: "NewSessionTicketExtension \<Rightarrow> bytes \<Rightarrow> bytes" where
  "NewSessionTicketExtension_encode_body (NewSessionTicketExtension.EarlyData r) sub = u32_encode r sub"
| "NewSessionTicketExtension_encode_body (NewSessionTicketExtension.Unknown r) sub = UnknownExtension_encode r sub"

definition NewSessionTicketExtension_encode :: "NewSessionTicketExtension \<Rightarrow> bytes \<Rightarrow> bytes" where
  "NewSessionTicketExtension_encode e bs = encode_extension (NewSessionTicketExtension_get_type e) (NewSessionTicketExtension_encode_body e []) bs"

definition NewSessionTicketExtension_read_body :: "ExtensionType \<Rightarrow> Reader \<Rightarrow> (NewSessionTicketExtension \<times> Reader) option" where
  "NewSessionTicketExtension_read_body typ sub =
     (case typ of
        ExtensionType.EarlyData \<Rightarrow> arm NewSessionTicketExtension.EarlyData (u32_read sub)
      | _ \<Rightarrow> unknown_arm NewSessionTicketExtension.Unknown typ sub)"

definition NewSessionTicketExtension_read :: "Reader \<Rightarrow> (NewSessionTicketExtension \<times> Reader) option" where
  "NewSessionTicketExtension_read r = read_extension NewSessionTicketExtension_read_body r"

subsection \<open>The contract of an extension\<close>

lemma read_extension_strict: "strict_decoder (read_extension read_body)"
  by unfold_locales
    (auto simp: read_extension_def split: bind_split_asm if_splits
      dest!: ExtensionType.progress u16.frame Reader_sub_moves, blast intro: advances_trans)

lemma encode_extension_conv:
  "encode_extension typ sub bs = bs @ encode_extension typ sub []"
  "encode_extension typ sub [] =
     get_encoding ExtensionType_encode typ @ u16_to_be_bytes (word_of_nat (length sub)) @ sub"
  by (simp_all add: encode_extension_def ExtensionType.encode_conv u16.encode_conv)

locale extension =
  fixes get_type :: "'e \<Rightarrow> ExtensionType" and encode_body :: "'e \<Rightarrow> bytes \<Rightarrow> bytes"
    and read_body :: "ExtensionType \<Rightarrow> Reader \<Rightarrow> ('e \<times> Reader) option"
    and valid :: "'e \<Rightarrow> bool"
  assumes valid_type: "valid e \<Longrightarrow> ExtensionType_valid (get_type e)"
    and valid_length: "valid e \<Longrightarrow> length (encode_body e []) \<le> 65535"
    and read_body_encode: "valid e \<Longrightarrow>
      \<exists>sub. read_body (get_type e) (Reader_init (encode_body e [])) = Some (e, sub) \<and> rem sub = []"
begin

lemma extension_codec:
  "codec (\<lambda>e. encode_extension (get_type e) (encode_body e [])) (read_extension read_body) valid"
proof (intro codec.intro read_extension_strict encoder.intro codec_axioms.intro)
  fix e bs show "encode_extension (get_type e) (encode_body e []) bs =
      bs @ encode_extension (get_type e) (encode_body e []) []"
    by (rule encode_extension_conv)
next
  fix e r
  let ?E = "\<lambda>e. encode_extension (get_type e) (encode_body e [])"
  let ?t = "get_encoding ExtensionType_encode (get_type e)" and ?b = "encode_body e []"
  let ?l = "word_of_nat (length ?b) :: u16"
  assume v: "valid e" and t: "take (length (get_encoding ?E e)) (rem r) = get_encoding ?E e"
  have b: "get_encoding ?E e = ?t @ u16_to_be_bytes ?l @ ?b"
    by (simp add: get_encoding_def [of ?E] encode_extension_conv(2))
  from t obtain post where post: "rem r = (?t @ u16_to_be_bytes ?l @ ?b) @ post"
    unfolding b by (rule take_prefixE)
  have l: "unat ?l = length ?b"
    using valid_length [OF v] by (intro unat_word_of_nat_small) simp
  have "ExtensionType_read r = Some (get_type e, adv r (length ?t))"
    using valid_type [OF v] post by (intro ExtensionType.read_encode) auto
  moreover have "u16_read (adv r (length ?t)) = Some (?l, adv r (length ?t + 2))"
    using u16_read_be [of "adv r (length ?t)" ?l] post by simp
  moreover obtain sub where "read_body (get_type e) (Reader_init ?b) = Some (e, sub)" "rem sub = []"
    using read_body_encode [OF v] by blast
  ultimately show "read_extension read_body r = Some (e, adv r (length (get_encoding ?E e)))"
    using post l by (simp add: read_extension_def Reader_sub_rem b)
qed

end

lemmas extension_arms = arm_def unknown_arm_def UnknownExtension_read_def UnknownExtension_encode_def
  Payload_encode_def Payload_read_def Reader_rest_rem

text \<open>
  What the wire format can carry: the payload fits its fields; an \<open>Unknown\<close> extension has none of the types
  that \<open>read\<close> handles (or, for the types whose arm has the guard \<open>!sub.any_left()\<close>, a non-empty body). A client's
  \<open>RenegotiationInfo\<close> is never read back as it was written.
\<close>

fun ClientExtension_content :: "(bytes \<Rightarrow> 'd option) \<Rightarrow> 'd ClientExtension \<Rightarrow> bool" where
  "ClientExtension_content dns (ClientExtension.ECPointFormats r) \<longleftrightarrow>
     vec_fits ECPointFormat_encode (\<lambda>v. ECPointFormat_valid v) 255 r"
| "ClientExtension_content dns (ClientExtension.NamedGroups r) \<longleftrightarrow>
     vec_fits NamedGroup_encode (\<lambda>v. NamedGroup_valid v) 65535 r"
| "ClientExtension_content dns (ClientExtension.SignatureAlgorithms r) \<longleftrightarrow>
     vec_fits SignatureScheme_encode (\<lambda>v. SignatureScheme_valid v) 65535 r"
| "ClientExtension_content dns (ClientExtension.ServerName r) \<longleftrightarrow>
     vec_fits ServerName_encode (ServerName_valid dns) 65535 r"
| "ClientExtension_content dns (ClientExtension.SessionTicket ClientSessionTicket.Request) \<longleftrightarrow> True"
| "ClientExtension_content dns (ClientExtension.SessionTicket (ClientSessionTicket.Offer p)) \<longleftrightarrow> p \<noteq> []"
| "ClientExtension_content dns (ClientExtension.Protocols r) \<longleftrightarrow>
     vec_fits PayloadU8_encode (\<lambda>p. length p \<le> 255) 65535 r"
| "ClientExtension_content dns (ClientExtension.SupportedVersions r) \<longleftrightarrow>
     vec_fits ProtocolVersion_encode (\<lambda>v. ProtocolVersion_valid v) 255 r"
| "ClientExtension_content dns (ClientExtension.KeyShare r) \<longleftrightarrow>
     vec_fits KeyShareEntry_encode KeyShareEntry_valid 65535 r"
| "ClientExtension_content dns (ClientExtension.PresharedKeyModes r) \<longleftrightarrow>
     vec_fits PSKKeyExchangeMode_encode (\<lambda>v. PSKKeyExchangeMode_valid v) 255 r"
| "ClientExtension_content dns (ClientExtension.PresharedKey r) \<longleftrightarrow> PresharedKeyOffer_valid r"
| "ClientExtension_content dns (ClientExtension.Cookie r) \<longleftrightarrow> length r \<le> 65535"
| "ClientExtension_content dns ClientExtension.ExtendedMasterSecretRequest \<longleftrightarrow> True"
| "ClientExtension_content dns (ClientExtension.CertificateStatusRequest r) \<longleftrightarrow> CertificateStatusRequest_valid r"
| "ClientExtension_content dns ClientExtension.SignedCertificateTimestampRequest \<longleftrightarrow> True"
| "ClientExtension_content dns (ClientExtension.TransportParameters r) \<longleftrightarrow> True"
| "ClientExtension_content dns (ClientExtension.TransportParametersDraft r) \<longleftrightarrow> True"
| "ClientExtension_content dns ClientExtension.EarlyData \<longleftrightarrow> True"
| "ClientExtension_content dns (ClientExtension.RenegotiationInfo r) \<longleftrightarrow> False"
| "ClientExtension_content dns (ClientExtension.SignatureAlgorithmsCert r) \<longleftrightarrow>
     vec_fits SignatureScheme_encode (\<lambda>v. SignatureScheme_valid v) 65535 r"
| "ClientExtension_content dns (ClientExtension.Unknown u) \<longleftrightarrow> ExtensionType_valid (ue_typ u) \<and>
     ue_typ u \<notin> set [ExtensionType.ECPointFormats, ExtensionType.EllipticCurves, ExtensionType.SignatureAlgorithms,
       ExtensionType.ServerName, ExtensionType.SessionTicket, ExtensionType.ALProtocolNegotiation,
       ExtensionType.SupportedVersions, ExtensionType.KeyShare, ExtensionType.PSKKeyExchangeModes,
       ExtensionType.PreSharedKey, ExtensionType.Cookie, ExtensionType.StatusRequest,
       ExtensionType.TransportParameters, ExtensionType.TransportParametersDraft,
       ExtensionType.RenegotiationInfo, ExtensionType.SignatureAlgorithmsCert] \<and>
     (ue_typ u \<in> set [ExtensionType.ExtendedMasterSecret, ExtensionType.SCT, ExtensionType.EarlyData] \<longrightarrow>
       ue_payload u \<noteq> [])"

definition ClientExtension_valid :: "(bytes \<Rightarrow> 'd option) \<Rightarrow> 'd ClientExtension \<Rightarrow> bool" where
  "ClientExtension_valid dns e \<longleftrightarrow>
     ClientExtension_content dns e \<and> length (ClientExtension_encode_body e []) \<le> 65535"

fun ServerExtension_content :: "ServerExtension \<Rightarrow> bool" where
  "ServerExtension_content (ServerExtension.ECPointFormats r) \<longleftrightarrow>
     vec_fits ECPointFormat_encode (\<lambda>v. ECPointFormat_valid v) 255 r"
| "ServerExtension_content (ServerExtension.RenegotiationInfo r) \<longleftrightarrow> length r \<le> 255"
| "ServerExtension_content (ServerExtension.Protocols r) \<longleftrightarrow>
     vec_fits PayloadU8_encode (\<lambda>p. length p \<le> 255) 65535 r"
| "ServerExtension_content (ServerExtension.KeyShare r) \<longleftrightarrow> KeyShareEntry_valid r"
| "ServerExtension_content (ServerExtension.SignedCertificateTimestamp r) \<longleftrightarrow>
     vec_fits PayloadU16_encode (\<lambda>p. length p \<le> 65535) 65535 r"
| "ServerExtension_content (ServerExtension.SupportedVersions v) \<longleftrightarrow> ProtocolVersion_valid v"
| "ServerExtension_content (ServerExtension.Unknown u) \<longleftrightarrow> ExtensionType_valid (ue_typ u) \<and>
     ue_typ u \<notin> set [ExtensionType.ECPointFormats, ExtensionType.ServerName, ExtensionType.SessionTicket,
       ExtensionType.StatusRequest, ExtensionType.RenegotiationInfo, ExtensionType.ALProtocolNegotiation,
       ExtensionType.KeyShare, ExtensionType.PreSharedKey, ExtensionType.ExtendedMasterSecret,
       ExtensionType.SCT, ExtensionType.SupportedVersions, ExtensionType.TransportParameters,
       ExtensionType.TransportParametersDraft, ExtensionType.EarlyData]"
| "ServerExtension_content _ \<longleftrightarrow> True"

definition ServerExtension_valid :: "ServerExtension \<Rightarrow> bool" where
  "ServerExtension_valid e \<longleftrightarrow> ServerExtension_content e \<and> length (ServerExtension_encode_body e []) \<le> 65535"

fun HelloRetryExtension_content :: "HelloRetryExtension \<Rightarrow> bool" where
  "HelloRetryExtension_content (HelloRetryExtension.KeyShare r) \<longleftrightarrow> NamedGroup_valid r"
| "HelloRetryExtension_content (HelloRetryExtension.Cookie r) \<longleftrightarrow> length r \<le> 65535"
| "HelloRetryExtension_content (HelloRetryExtension.SupportedVersions v) \<longleftrightarrow> ProtocolVersion_valid v"
| "HelloRetryExtension_content (HelloRetryExtension.Unknown u) \<longleftrightarrow> ExtensionType_valid (ue_typ u) \<and>
     ue_typ u \<notin> set [ExtensionType.KeyShare, ExtensionType.Cookie, ExtensionType.SupportedVersions]"

definition HelloRetryExtension_valid :: "HelloRetryExtension \<Rightarrow> bool" where
  "HelloRetryExtension_valid e \<longleftrightarrow>
     HelloRetryExtension_content e \<and> length (HelloRetryExtension_encode_body e []) \<le> 65535"

fun CertificateExtension_content :: "CertificateExtension \<Rightarrow> bool" where
  "CertificateExtension_content (CertificateExtension.CertificateStatus r) \<longleftrightarrow> CertificateStatus_valid r"
| "CertificateExtension_content (CertificateExtension.SignedCertificateTimestamp r) \<longleftrightarrow>
     vec_fits PayloadU16_encode (\<lambda>p. length p \<le> 65535) 65535 r"
| "CertificateExtension_content (CertificateExtension.Unknown u) \<longleftrightarrow> ExtensionType_valid (ue_typ u) \<and>
     ue_typ u \<notin> set [ExtensionType.StatusRequest, ExtensionType.SCT]"

definition CertificateExtension_valid :: "CertificateExtension \<Rightarrow> bool" where
  "CertificateExtension_valid e \<longleftrightarrow>
     CertificateExtension_content e \<and> length (CertificateExtension_encode_body e []) \<le> 65535"

fun CertReqExtension_content :: "CertReqExtension \<Rightarrow> bool" where
  "CertReqExtension_content (CertReqExtension.SignatureAlgorithms r) \<longleftrightarrow>
     r \<noteq> [] \<and> vec_fits SignatureScheme_encode (\<lambda>v. SignatureScheme_valid v) 65535 r"
| "CertReqExtension_content (CertReqExtension.AuthorityNames r) \<longleftrightarrow>
     vec_fits PayloadU16_encode (\<lambda>p. length p \<le> 65535) 65535 r"
| "CertReqExtension_content (CertReqExtension.Unknown u) \<longleftrightarrow> ExtensionType_valid (ue_typ u) \<and>
     ue_typ u \<notin> set [ExtensionType.SignatureAlgorithms, ExtensionType.CertificateAuthorities]"

definition CertReqExtension_valid :: "CertReqExtension \<Rightarrow> bool" where
  "CertReqExtension_valid e \<longleftrightarrow>
     CertReqExtension_content e \<and> length (CertReqExtension_encode_body e []) \<le> 65535"

fun NewSessionTicketExtension_content :: "NewSessionTicketExtension \<Rightarrow> bool" where
  "NewSessionTicketExtension_content (NewSessionTicketExtension.EarlyData _) \<longleftrightarrow> True"
| "NewSessionTicketExtension_content (NewSessionTicketExtension.Unknown u) \<longleftrightarrow>
     ExtensionType_valid (ue_typ u) \<and> ue_typ u \<noteq> ExtensionType.EarlyData"

definition NewSessionTicketExtension_valid :: "NewSessionTicketExtension \<Rightarrow> bool" where
  "NewSessionTicketExtension_valid e \<longleftrightarrow>
     NewSessionTicketExtension_content e \<and> length (NewSessionTicketExtension_encode_body e []) \<le> 65535"

text \<open>The catch-all arm returns the unknown extension.\<close>

lemma unknown_arm_read:
  "unknown_arm c typ (Reader_init bs) =
     Some (c \<lparr>ue_typ = typ, ue_payload = bs\<rparr>, adv (Reader_init bs) (length bs))"
  by (simp add: unknown_arm_def arm_def UnknownExtension_read_def Payload_read_def Reader_rest_rem)

lemma arm_Some [simp]: "arm c (Some (x, sub)) = Some (c x, sub)"
  by (simp add: arm_def)

lemma rest_arm [simp]:
  "arm c (Some (Reader_rest (Reader_init bs))) = Some (c bs, adv (Reader_init bs) (length bs))"
  by (simp add: Reader_rest_rem)

lemma UnknownExtension_body [simp]: "UnknownExtension_encode u [] = ue_payload u"
  by (simp add: UnknownExtension_encode_def Payload_encode_def)

lemma extensionI:
  assumes "\<And>e. valid e \<longleftrightarrow> content e \<and> length (encode_body e []) \<le> 65535"
    and "\<And>e. content e \<Longrightarrow> ExtensionType_valid (get_type e)"
    and "\<And>e. content e \<Longrightarrow>
      \<exists>sub. read_body (get_type e) (Reader_init (encode_body e [])) = Some (e, sub) \<and> rem sub = []"
  shows "extension get_type encode_body read_body valid"
  using assms by unfold_locales auto

interpretation ServerExtension_tlv: extension ServerExtension_get_type ServerExtension_encode_body ServerExtension_read_body ServerExtension_valid
  by ((rule extensionI [where content = ServerExtension_content], rule ServerExtension_valid_def); erule ServerExtension_content.elims(2))
    (simp_all add: ServerExtension_read_body_def codec_simps unknown_arm_read split: ExtensionType.split)

interpretation HelloRetryExtension_tlv: extension HelloRetryExtension_get_type HelloRetryExtension_encode_body HelloRetryExtension_read_body HelloRetryExtension_valid
  by ((rule extensionI [where content = HelloRetryExtension_content], rule HelloRetryExtension_valid_def); erule HelloRetryExtension_content.elims(2))
    (simp_all add: HelloRetryExtension_read_body_def codec_simps unknown_arm_read split: ExtensionType.split)

interpretation CertificateExtension_tlv: extension CertificateExtension_get_type CertificateExtension_encode_body CertificateExtension_read_body CertificateExtension_valid
  by ((rule extensionI [where content = CertificateExtension_content], rule CertificateExtension_valid_def); erule CertificateExtension_content.elims(2))
    (simp_all add: CertificateExtension_read_body_def codec_simps unknown_arm_read split: ExtensionType.split)

interpretation CertReqExtension_tlv: extension CertReqExtension_get_type CertReqExtension_encode_body CertReqExtension_read_body CertReqExtension_valid
  by ((rule extensionI [where content = CertReqExtension_content], rule CertReqExtension_valid_def); erule CertReqExtension_content.elims(2))
    (simp_all add: CertReqExtension_read_body_def codec_simps unknown_arm_read split: ExtensionType.split)

interpretation NewSessionTicketExtension_tlv: extension NewSessionTicketExtension_get_type NewSessionTicketExtension_encode_body NewSessionTicketExtension_read_body NewSessionTicketExtension_valid
  by ((rule extensionI [where content = NewSessionTicketExtension_content], rule NewSessionTicketExtension_valid_def); erule NewSessionTicketExtension_content.elims(2))
    (simp_all add: NewSessionTicketExtension_read_body_def codec_simps unknown_arm_read split: ExtensionType.split)

interpretation ClientExtension_tlv: extension ClientExtension_get_type ClientExtension_encode_body
  "ClientExtension_read_body dns" "ClientExtension_valid dns" for dns
  by ((rule extensionI [where content = "ClientExtension_content dns"], rule ClientExtension_valid_def); erule ClientExtension_content.elims(2))
    (simp_all add: ClientExtension_read_body_def codec_simps unknown_arm_read Let_def Payload_read_def
      Payload_encode_def split: ExtensionType.split)

interpretation ServerExtension: codec ServerExtension_encode ServerExtension_read ServerExtension_valid
  using ServerExtension_tlv.extension_codec by (simp add: ServerExtension_encode_def [abs_def] ServerExtension_read_def [abs_def])

interpretation HelloRetryExtension: codec HelloRetryExtension_encode HelloRetryExtension_read HelloRetryExtension_valid
  using HelloRetryExtension_tlv.extension_codec by (simp add: HelloRetryExtension_encode_def [abs_def] HelloRetryExtension_read_def [abs_def])

interpretation CertificateExtension: codec CertificateExtension_encode CertificateExtension_read CertificateExtension_valid
  using CertificateExtension_tlv.extension_codec by (simp add: CertificateExtension_encode_def [abs_def] CertificateExtension_read_def [abs_def])

interpretation CertReqExtension: codec CertReqExtension_encode CertReqExtension_read CertReqExtension_valid
  using CertReqExtension_tlv.extension_codec by (simp add: CertReqExtension_encode_def [abs_def] CertReqExtension_read_def [abs_def])

interpretation NewSessionTicketExtension: codec NewSessionTicketExtension_encode NewSessionTicketExtension_read NewSessionTicketExtension_valid
  using NewSessionTicketExtension_tlv.extension_codec by (simp add: NewSessionTicketExtension_encode_def [abs_def] NewSessionTicketExtension_read_def [abs_def])

interpretation ClientExtension: codec ClientExtension_encode "ClientExtension_read dns"
  "ClientExtension_valid dns" for dns
  using ClientExtension_tlv.extension_codec [of dns]
  by (simp add: ClientExtension_encode_def [abs_def] ClientExtension_read_def [abs_def])

text \<open>
  A client's \<open>RenegotiationInfo\<close> is written with its length byte, which the reader keeps as part of the value.
\<close>

lemma ClientExtension_read_renegotiation_info:
  assumes "length p \<le> 255"
  shows "read_bytes (ClientExtension_read dns)
      (get_encoding ClientExtension_encode (ClientExtension.RenegotiationInfo p)) =
    Some (ClientExtension.RenegotiationInfo (word_of_nat (length p) # p))"
proof -
  let ?b = "PayloadU8_encode p []" and ?t = "get_encoding ExtensionType_encode ExtensionType.RenegotiationInfo"
  let ?l = "word_of_nat (length ?b) :: u16"
  have b: "?b = word_of_nat (length p) # p"
    using payload_bytes(2) [of p] by (simp add: get_encoding_def)
  have l: "unat ?l = length ?b"
    using assms by (intro unat_word_of_nat_small) (simp add: b)
  have e: "get_encoding ClientExtension_encode (ClientExtension.RenegotiationInfo p) =
      ?t @ u16_to_be_bytes ?l @ ?b"
    by (simp add: get_encoding_def [of ClientExtension_encode] ClientExtension_encode_def encode_extension_conv(2))
  let ?r = "Reader_init (?t @ u16_to_be_bytes ?l @ ?b)"
  have "ExtensionType_read ?r = Some (ExtensionType.RenegotiationInfo, adv ?r (length ?t))"
    by (intro ExtensionType.read_encode) simp_all
  moreover have "u16_read (adv ?r (length ?t)) = Some (?l, adv ?r (length ?t + 2))"
    using u16_read_be [of "adv ?r (length ?t)" ?l] by simp
  ultimately show ?thesis
    by (simp add: e read_bytes_def ClientExtension_read_def read_extension_def Reader_sub_rem
        ClientExtension_read_body_def l) (simp add: b)
qed

end
