(* ===== verification/Tls_Hello.thy ===== *)
theory Tls_Hello
  imports Tls_Extensions
begin

text \<open>
  The three hello payloads of \<open>tlspuffin/src/tls/rustls/msgs/handshake.rs\<close>: \<open>ClientHelloPayload\<close>,
  \<open>HelloRetryRequest\<close> and \<open>ServerHelloPayload\<close> with the trait \<open>HasServerExtensions\<close>; their codecs and
  accessors. The client hello reads to the end of its reader; the other two are read after the version
  and the random, which \<open>HandshakeMessagePayload::read_version\<close> consumes to tell them apart.
\<close>

subsection \<open>\<open>ClientHelloPayload\<close>\<close>

record 'd ClientHelloPayload =
  chp_client_version :: ProtocolVersion
  chp_random :: Random
  chp_session_id :: SessionID
  chp_cipher_suites :: "CipherSuite list"
  chp_compression_methods :: "Compression list"
  chp_extensions :: "'d ClientExtension list"

definition ClientHelloPayload_encode :: "'d ClientHelloPayload \<Rightarrow> bytes \<Rightarrow> bytes" where
  "ClientHelloPayload_encode p bs =
     (let bs = ProtocolVersion_encode (chp_client_version p) bs;
          bs = Random_encode (chp_random p) bs;
          bs = SessionID_encode (chp_session_id p) bs;
          bs = encode_vec_u16 CipherSuite_encode (chp_cipher_suites p) bs;
          bs = encode_vec_u8 Compression_encode (chp_compression_methods p) bs
      in if chp_extensions p \<noteq> [] then encode_vec_u16 ClientExtension_encode (chp_extensions p) bs else bs)"

definition ClientHelloPayload_read ::
  "(bytes \<Rightarrow> 'd option) \<Rightarrow> Reader \<Rightarrow> ('d ClientHelloPayload \<times> Reader) option" where
  "ClientHelloPayload_read dns r = do {
     (client_version, r) \<leftarrow> ProtocolVersion_read r;
     (random, r) \<leftarrow> Random_read r;
     (session_id, r) \<leftarrow> SessionID_read r;
     (cipher_suites, r) \<leftarrow> read_vec_u16 CipherSuite_read r;
     (compression_methods, r) \<leftarrow> read_vec_u8 Compression_read r;
     (extensions, r) \<leftarrow> (if Reader_any_left r then read_vec_u16 (ClientExtension_read dns) r else Some ([], r));
     if Reader_any_left r then None
     else Some (\<lparr>chp_client_version = client_version, chp_random = random, chp_session_id = session_id,
       chp_cipher_suites = cipher_suites, chp_compression_methods = compression_methods,
       chp_extensions = extensions\<rparr>, r) }"

definition ClientHelloPayload_has_duplicate_extension :: "'d ClientHelloPayload \<Rightarrow> bool" where
  "ClientHelloPayload_has_duplicate_extension p =
     seen_before {} (map (\<lambda>e. ExtensionType_get (ClientExtension_get_type e)) (chp_extensions p))"

definition ClientHelloPayload_find_extension :: "'d ClientHelloPayload \<Rightarrow> ExtensionType \<Rightarrow> 'd ClientExtension option" where
  "ClientHelloPayload_find_extension p ext = find (\<lambda>x. ClientExtension_get_type x = ext) (chp_extensions p)"

definition ClientHelloPayload_get_sni_extension :: "'d ClientHelloPayload \<Rightarrow> 'd ServerNameRequest option" where
  "ClientHelloPayload_get_sni_extension p = do {
     ext \<leftarrow> ClientHelloPayload_find_extension p ExtensionType.ServerName;
     (case ext of ClientExtension.ServerName req \<Rightarrow> Some req | _ \<Rightarrow> None) }"

definition ClientHelloPayload_get_sigalgs_extension :: "'d ClientHelloPayload \<Rightarrow> SupportedSignatureSchemes option" where
  "ClientHelloPayload_get_sigalgs_extension p = do {
     ext \<leftarrow> ClientHelloPayload_find_extension p ExtensionType.SignatureAlgorithms;
     (case ext of ClientExtension.SignatureAlgorithms req \<Rightarrow> Some req | _ \<Rightarrow> None) }"

definition ClientHelloPayload_get_namedgroups_extension :: "'d ClientHelloPayload \<Rightarrow> NamedGroups option" where
  "ClientHelloPayload_get_namedgroups_extension p = do {
     ext \<leftarrow> ClientHelloPayload_find_extension p ExtensionType.EllipticCurves;
     (case ext of ClientExtension.NamedGroups req \<Rightarrow> Some req | _ \<Rightarrow> None) }"

definition ClientHelloPayload_get_ecpoints_extension :: "'d ClientHelloPayload \<Rightarrow> ECPointFormatList option" where
  "ClientHelloPayload_get_ecpoints_extension p = do {
     ext \<leftarrow> ClientHelloPayload_find_extension p ExtensionType.ECPointFormats;
     (case ext of ClientExtension.ECPointFormats req \<Rightarrow> Some req | _ \<Rightarrow> None) }"

definition ClientHelloPayload_get_alpn_extension :: "'d ClientHelloPayload \<Rightarrow> ProtocolNameList option" where
  "ClientHelloPayload_get_alpn_extension p = do {
     ext \<leftarrow> ClientHelloPayload_find_extension p ExtensionType.ALProtocolNegotiation;
     (case ext of ClientExtension.Protocols req \<Rightarrow> Some req | _ \<Rightarrow> None) }"

definition ClientHelloPayload_get_quic_params_extension :: "'d ClientHelloPayload \<Rightarrow> bytes option" where
  "ClientHelloPayload_get_quic_params_extension p = do {
     ext \<leftarrow> (case ClientHelloPayload_find_extension p ExtensionType.TransportParameters of
        Some e \<Rightarrow> Some e
      | None \<Rightarrow> ClientHelloPayload_find_extension p ExtensionType.TransportParametersDraft);
     (case ext of
        ClientExtension.TransportParameters bs \<Rightarrow> Some bs
      | ClientExtension.TransportParametersDraft bs \<Rightarrow> Some bs
      | _ \<Rightarrow> None) }"

definition ClientHelloPayload_get_ticket_extension :: "'d ClientHelloPayload \<Rightarrow> 'd ClientExtension option" where
  "ClientHelloPayload_get_ticket_extension p = ClientHelloPayload_find_extension p ExtensionType.SessionTicket"

definition ClientHelloPayload_get_versions_extension :: "'d ClientHelloPayload \<Rightarrow> ProtocolVersions option" where
  "ClientHelloPayload_get_versions_extension p = do {
     ext \<leftarrow> ClientHelloPayload_find_extension p ExtensionType.SupportedVersions;
     (case ext of ClientExtension.SupportedVersions vers \<Rightarrow> Some vers | _ \<Rightarrow> None) }"

definition ClientHelloPayload_get_keyshare_extension :: "'d ClientHelloPayload \<Rightarrow> KeyShareEntries option" where
  "ClientHelloPayload_get_keyshare_extension p = do {
     ext \<leftarrow> ClientHelloPayload_find_extension p ExtensionType.KeyShare;
     (case ext of ClientExtension.KeyShare shares \<Rightarrow> Some shares | _ \<Rightarrow> None) }"

definition ClientHelloPayload_has_keyshare_extension_with_duplicates :: "'d ClientHelloPayload \<Rightarrow> bool" where
  "ClientHelloPayload_has_keyshare_extension_with_duplicates p =
     (case ClientHelloPayload_get_keyshare_extension p of
        Some entries \<Rightarrow> seen_before {} (map (\<lambda>kse. NamedGroup_get (kse_group kse)) entries)
      | None \<Rightarrow> False)"

definition ClientHelloPayload_get_psk :: "'d ClientHelloPayload \<Rightarrow> PresharedKeyOffer option" where
  "ClientHelloPayload_get_psk p = do {
     ext \<leftarrow> ClientHelloPayload_find_extension p ExtensionType.PreSharedKey;
     (case ext of ClientExtension.PresharedKey psk \<Rightarrow> Some psk | _ \<Rightarrow> None) }"

definition ClientHelloPayload_check_psk_ext_is_last :: "'d ClientHelloPayload \<Rightarrow> bool" where
  "ClientHelloPayload_check_psk_ext_is_last p =
     (if chp_extensions p = [] then False
      else ClientExtension_get_type (last (chp_extensions p)) = ExtensionType.PreSharedKey)"

definition ClientHelloPayload_get_psk_modes :: "'d ClientHelloPayload \<Rightarrow> PSKKeyExchangeModes option" where
  "ClientHelloPayload_get_psk_modes p = do {
     ext \<leftarrow> ClientHelloPayload_find_extension p ExtensionType.PSKKeyExchangeModes;
     (case ext of ClientExtension.PresharedKeyModes psk_modes \<Rightarrow> Some psk_modes | _ \<Rightarrow> None) }"

definition ClientHelloPayload_psk_mode_offered :: "'d ClientHelloPayload \<Rightarrow> PSKKeyExchangeMode \<Rightarrow> bool" where
  "ClientHelloPayload_psk_mode_offered p mode =
     (case ClientHelloPayload_get_psk_modes p of Some modes \<Rightarrow> mode \<in> set modes | None \<Rightarrow> False)"

text \<open>\<open>None\<close> is the panic of the index \<open>binders.0[0]\<close> on an offer without binders.\<close>

definition ClientHelloPayload_set_psk_binder :: "'d ClientHelloPayload \<Rightarrow> bytes \<Rightarrow> 'd ClientHelloPayload option" where
  "ClientHelloPayload_set_psk_binder p bnd =
     (if chp_extensions p = [] then Some p
      else case last (chp_extensions p) of
        ClientExtension.PresharedKey offer \<Rightarrow>
          if pko_binders offer = [] then None
          else Some (p\<lparr>chp_extensions := (chp_extensions p)[length (chp_extensions p) - 1 :=
            ClientExtension.PresharedKey (offer\<lparr>pko_binders := (pko_binders offer)[0 := bnd]\<rparr>)]\<rparr>)
      | _ \<Rightarrow> Some p)"

definition ClientHelloPayload_ems_support_offered :: "'d ClientHelloPayload \<Rightarrow> bool" where
  "ClientHelloPayload_ems_support_offered p \<longleftrightarrow>
     ClientHelloPayload_find_extension p ExtensionType.ExtendedMasterSecret \<noteq> None"

definition ClientHelloPayload_early_data_extension_offered :: "'d ClientHelloPayload \<Rightarrow> bool" where
  "ClientHelloPayload_early_data_extension_offered p \<longleftrightarrow>
     ClientHelloPayload_find_extension p ExtensionType.EarlyData \<noteq> None"

subsection \<open>\<open>HelloRetryRequest\<close>\<close>

record HelloRetryRequest =
  hrr_legacy_version :: ProtocolVersion
  hrr_session_id :: SessionID
  hrr_cipher_suite :: CipherSuite
  hrr_extensions :: "HelloRetryExtension list"

definition HelloRetryRequest_encode :: "HelloRetryRequest \<Rightarrow> bytes \<Rightarrow> bytes" where
  "HelloRetryRequest_encode p bs =
     (let bs = ProtocolVersion_encode (hrr_legacy_version p) bs;
          bs = Random_encode HELLO_RETRY_REQUEST_RANDOM bs;
          bs = SessionID_encode (hrr_session_id p) bs;
          bs = CipherSuite_encode (hrr_cipher_suite p) bs;
          bs = Compression_encode Compression.Null bs
      in encode_vec_u16 HelloRetryExtension_encode (hrr_extensions p) bs)"

definition HelloRetryRequest_read :: "Reader \<Rightarrow> (HelloRetryRequest \<times> Reader) option" where
  "HelloRetryRequest_read r = do {
     (session_id, r) \<leftarrow> SessionID_read r;
     (cipher_suite, r) \<leftarrow> CipherSuite_read r;
     (compression, r) \<leftarrow> Compression_read r;
     if compression \<noteq> Compression.Null then None else do {
       (extensions, r) \<leftarrow> read_vec_u16 HelloRetryExtension_read r;
       Some (\<lparr>hrr_legacy_version = ProtocolVersion.Unknown 0, hrr_session_id = session_id,
         hrr_cipher_suite = cipher_suite, hrr_extensions = extensions\<rparr>, r) } }"

definition HelloRetryRequest_has_duplicate_extension :: "HelloRetryRequest \<Rightarrow> bool" where
  "HelloRetryRequest_has_duplicate_extension p =
     seen_before {} (map (\<lambda>e. ExtensionType_get (HelloRetryExtension_get_type e)) (hrr_extensions p))"

definition HelloRetryRequest_has_unknown_extension :: "HelloRetryRequest \<Rightarrow> bool" where
  "HelloRetryRequest_has_unknown_extension p =
     list_ex (\<lambda>ext. HelloRetryExtension_get_type ext \<noteq> ExtensionType.KeyShare
       \<and> HelloRetryExtension_get_type ext \<noteq> ExtensionType.SupportedVersions
       \<and> HelloRetryExtension_get_type ext \<noteq> ExtensionType.Cookie) (hrr_extensions p)"

definition HelloRetryRequest_find_extension :: "HelloRetryRequest \<Rightarrow> ExtensionType \<Rightarrow> HelloRetryExtension option" where
  "HelloRetryRequest_find_extension p ext = find (\<lambda>x. HelloRetryExtension_get_type x = ext) (hrr_extensions p)"

definition HelloRetryRequest_get_requested_key_share_group :: "HelloRetryRequest \<Rightarrow> NamedGroup option" where
  "HelloRetryRequest_get_requested_key_share_group p = do {
     ext \<leftarrow> HelloRetryRequest_find_extension p ExtensionType.KeyShare;
     (case ext of HelloRetryExtension.KeyShare grp \<Rightarrow> Some grp | _ \<Rightarrow> None) }"

definition HelloRetryRequest_get_cookie :: "HelloRetryRequest \<Rightarrow> PayloadU16 option" where
  "HelloRetryRequest_get_cookie p = do {
     ext \<leftarrow> HelloRetryRequest_find_extension p ExtensionType.Cookie;
     (case ext of HelloRetryExtension.Cookie ck \<Rightarrow> Some ck | _ \<Rightarrow> None) }"

definition HelloRetryRequest_get_supported_versions :: "HelloRetryRequest \<Rightarrow> ProtocolVersion option" where
  "HelloRetryRequest_get_supported_versions p = do {
     ext \<leftarrow> HelloRetryRequest_find_extension p ExtensionType.SupportedVersions;
     (case ext of HelloRetryExtension.SupportedVersions ver \<Rightarrow> Some ver | _ \<Rightarrow> None) }"

subsection \<open>\<open>HasServerExtensions\<close>\<close>

text \<open>The trait's methods, as functions of \<open>get_extensions()\<close>.\<close>

definition ServerExtensions_has_duplicate_extension :: "ServerExtension list \<Rightarrow> bool" where
  "ServerExtensions_has_duplicate_extension exts =
     seen_before {} (map (\<lambda>e. ExtensionType_get (ServerExtension_get_type e)) exts)"

definition ServerExtensions_find_extension :: "ServerExtension list \<Rightarrow> ExtensionType \<Rightarrow> ServerExtension option" where
  "ServerExtensions_find_extension exts ext = find (\<lambda>x. ServerExtension_get_type x = ext) exts"

definition ServerExtensions_get_alpn_protocol :: "ServerExtension list \<Rightarrow> bytes option" where
  "ServerExtensions_get_alpn_protocol exts = do {
     ext \<leftarrow> ServerExtensions_find_extension exts ExtensionType.ALProtocolNegotiation;
     (case ext of ServerExtension.Protocols protos \<Rightarrow> ProtocolNameList_as_single_slice protos | _ \<Rightarrow> None) }"

definition ServerExtensions_get_quic_params_extension :: "ServerExtension list \<Rightarrow> bytes option" where
  "ServerExtensions_get_quic_params_extension exts = do {
     ext \<leftarrow> (case ServerExtensions_find_extension exts ExtensionType.TransportParameters of
        Some e \<Rightarrow> Some e
      | None \<Rightarrow> ServerExtensions_find_extension exts ExtensionType.TransportParametersDraft);
     (case ext of
        ServerExtension.TransportParameters bs \<Rightarrow> Some bs
      | ServerExtension.TransportParametersDraft bs \<Rightarrow> Some bs
      | _ \<Rightarrow> None) }"

definition ServerExtensions_early_data_extension_offered :: "ServerExtension list \<Rightarrow> bool" where
  "ServerExtensions_early_data_extension_offered exts \<longleftrightarrow>
     ServerExtensions_find_extension exts ExtensionType.EarlyData \<noteq> None"

subsection \<open>\<open>ServerHelloPayload\<close>\<close>

record ServerHelloPayload =
  shp_legacy_version :: ProtocolVersion
  shp_random :: Random
  shp_session_id :: SessionID
  shp_cipher_suite :: CipherSuite
  shp_compression_method :: Compression
  shp_extensions :: "ServerExtension list"

definition ServerHelloPayload_encode :: "ServerHelloPayload \<Rightarrow> bytes \<Rightarrow> bytes" where
  "ServerHelloPayload_encode p bs =
     (let bs = ProtocolVersion_encode (shp_legacy_version p) bs;
          bs = Random_encode (shp_random p) bs;
          bs = SessionID_encode (shp_session_id p) bs;
          bs = CipherSuite_encode (shp_cipher_suite p) bs;
          bs = Compression_encode (shp_compression_method p) bs
      in encode_vec_u16 ServerExtension_encode (shp_extensions p) bs)"

definition ServerHelloPayload_read :: "Reader \<Rightarrow> (ServerHelloPayload \<times> Reader) option" where
  "ServerHelloPayload_read r = do {
     (session_id, r) \<leftarrow> SessionID_read r;
     (suite, r) \<leftarrow> CipherSuite_read r;
     (compression, r) \<leftarrow> Compression_read r;
     (extensions, r) \<leftarrow> (if Reader_any_left r then read_vec_u16 ServerExtension_read r else Some ([], r));
     if Reader_any_left r then None
     else Some (\<lparr>shp_legacy_version = ProtocolVersion.Unknown 0, shp_random = ZERO_RANDOM,
       shp_session_id = session_id, shp_cipher_suite = suite, shp_compression_method = compression,
       shp_extensions = extensions\<rparr>, r) }"

definition ServerHelloPayload_get_key_share :: "ServerHelloPayload \<Rightarrow> KeyShareEntry option" where
  "ServerHelloPayload_get_key_share p = do {
     ext \<leftarrow> ServerExtensions_find_extension (shp_extensions p) ExtensionType.KeyShare;
     (case ext of ServerExtension.KeyShare share \<Rightarrow> Some share | _ \<Rightarrow> None) }"

definition ServerHelloPayload_get_psk_index :: "ServerHelloPayload \<Rightarrow> u16 option" where
  "ServerHelloPayload_get_psk_index p = do {
     ext \<leftarrow> ServerExtensions_find_extension (shp_extensions p) ExtensionType.PreSharedKey;
     (case ext of ServerExtension.PresharedKey index \<Rightarrow> Some index | _ \<Rightarrow> None) }"

definition ServerHelloPayload_get_ecpoints_extension :: "ServerHelloPayload \<Rightarrow> ECPointFormatList option" where
  "ServerHelloPayload_get_ecpoints_extension p = do {
     ext \<leftarrow> ServerExtensions_find_extension (shp_extensions p) ExtensionType.ECPointFormats;
     (case ext of ServerExtension.ECPointFormats fmts \<Rightarrow> Some fmts | _ \<Rightarrow> None) }"

definition ServerHelloPayload_ems_support_acked :: "ServerHelloPayload \<Rightarrow> bool" where
  "ServerHelloPayload_ems_support_acked p \<longleftrightarrow>
     ServerExtensions_find_extension (shp_extensions p) ExtensionType.ExtendedMasterSecret \<noteq> None"

definition ServerHelloPayload_get_sct_list :: "ServerHelloPayload \<Rightarrow> SCTList option" where
  "ServerHelloPayload_get_sct_list p = do {
     ext \<leftarrow> ServerExtensions_find_extension (shp_extensions p) ExtensionType.SCT;
     (case ext of ServerExtension.SignedCertificateTimestamp sctl \<Rightarrow> Some sctl | _ \<Rightarrow> None) }"

definition ServerHelloPayload_get_supported_versions :: "ServerHelloPayload \<Rightarrow> ProtocolVersion option" where
  "ServerHelloPayload_get_supported_versions p = do {
     ext \<leftarrow> ServerExtensions_find_extension (shp_extensions p) ExtensionType.SupportedVersions;
     (case ext of ServerExtension.SupportedVersions vers \<Rightarrow> Some vers | _ \<Rightarrow> None) }"

subsection \<open>Contracts\<close>

text \<open>The optional vector of extensions at the end of a hello.\<close>

definition read_optional_exts ::
  "(Reader \<Rightarrow> ('e \<times> Reader) option) \<Rightarrow> Reader \<Rightarrow> ('e list \<times> Reader) option" where
  "read_optional_exts read r = do {
     (exts, r) \<leftarrow> (if Reader_any_left r then read_vec_u16 read r else Some ([], r));
     if Reader_any_left r then None else Some (exts, r) }"

lemma read_optional_exts_decoder:
  assumes "strict_decoder read"
  shows "decoder (read_optional_exts read)"
  by unfold_locales
    (auto simp: read_optional_exts_def split: bind_split_asm if_splits
      dest: strict_decoder.read_moves [OF strict_decoder.vec_strict(2) [OF assms]])

lemma read_optional_exts_vec:
  assumes "codec encode read valid" "vec_fits encode valid 65535 xs" "Reader_ok r"
    "rem r = get_encoding (encode_vec_u16 encode) xs"
  shows "read_optional_exts read r = Some (xs, adv r (length (rem r)))"
  using codec.read_encode [OF codec.vec_u16 [OF assms(1)] assms(2), of r] assms(4)
    codec.encoding_nonempty [OF codec.vec_u16 [OF assms(1)] assms(2)]
  by (simp add: read_optional_exts_def)

lemma optional_exts_skip:
  assumes "codec encode read valid"
  shows "tail_codec (\<lambda>xs bs. if xs \<noteq> [] then encode_vec_u16 encode xs bs else bs)
    (read_optional_exts read) (vec_fits encode valid 65535)"
    (is "tail_codec ?E _ _")
proof (intro tail_codec.intro read_optional_exts_decoder tail_codec_axioms.intro encoder.intro)
  have enc: "encoder encode" and dec: "strict_decoder read" using assms by (auto simp: codec_def)
  show "strict_decoder read" by (rule dec)
  fix xs bs show "?E xs bs = bs @ ?E xs []"
    using encoder.encode_appends [OF encoder.vec_u16_encoder [OF enc], of xs bs] by simp
next
  fix xs r assume v: "vec_fits encode valid 65535 xs" and ok: "Reader_ok r" and rem: "rem r = get_encoding ?E xs"
  show "read_optional_exts read r = Some (xs, adv r (length (get_encoding ?E xs)))"
  proof (cases "xs = []")
    case True
    then show ?thesis using rem by (simp add: read_optional_exts_def get_encoding_def)
  next
    case False
    then have "get_encoding ?E xs = get_encoding (encode_vec_u16 encode) xs" by (simp add: get_encoding_def)
    with read_optional_exts_vec [OF assms v ok] rem show ?thesis by simp
  qed
qed

lemma optional_exts_always:
  assumes "codec encode read valid"
  shows "tail_codec (encode_vec_u16 encode) (read_optional_exts read) (vec_fits encode valid 65535)"
proof (intro tail_codec.intro read_optional_exts_decoder tail_codec_axioms.intro)
  show "encoder (encode_vec_u16 encode)" "strict_decoder read"
    using assms by (auto simp: codec_def intro: encoder.vec_u16_encoder)
qed (use read_optional_exts_vec [OF assms] in simp)

definition ClientHelloPayload_valid :: "(bytes \<Rightarrow> 'd option) \<Rightarrow> 'd ClientHelloPayload \<Rightarrow> bool" where
  "ClientHelloPayload_valid dns p \<longleftrightarrow>
     ProtocolVersion_valid (chp_client_version p) \<and> length (chp_random p) = 32 \<and> SessionID_valid (chp_session_id p)
     \<and> vec_fits CipherSuite_encode (\<lambda>v. CipherSuite_valid v) 65535 (chp_cipher_suites p)
     \<and> vec_fits Compression_encode (\<lambda>v. Compression_valid v) 255 (chp_compression_methods p)
     \<and> vec_fits ClientExtension_encode (ClientExtension_valid dns) 65535 (chp_extensions p)"

interpretation ClientHelloPayload: tail_codec ClientHelloPayload_encode "ClientHelloPayload_read dns"
  "ClientHelloPayload_valid dns" for dns
  by (rule tail_iso [OF tail_pair [OF ProtocolVersion.codec_axioms tail_pair [OF Random.codec_axioms
        tail_pair [OF SessionID.codec_axioms tail_pair [OF CipherSuite.vec_u16 tail_pair [OF Compression.vec_u8
        optional_exts_skip [OF ClientExtension.codec_axioms]]]]]],
      where f = "\<lambda>p. (chp_client_version p, chp_random p, chp_session_id p, chp_cipher_suites p,
          chp_compression_methods p, chp_extensions p)"
        and g = "\<lambda>(v, rnd, sid, cs, cm, exts). \<lparr>chp_client_version = v, chp_random = rnd, chp_session_id = sid,
          chp_cipher_suites = cs, chp_compression_methods = cm, chp_extensions = exts\<rparr>"])
    (auto simp: ClientHelloPayload_encode_def ClientHelloPayload_read_def ClientHelloPayload_valid_def Let_def
      pair_encode_def pair_read_def read_optional_exts_def split: bind_splits)

text \<open>The part of a server hello that \<open>ServerHelloPayload::read\<close> reads, and of a hello retry request.\<close>

definition ServerHelloPayload_tail :: "ServerHelloPayload \<Rightarrow> bytes \<Rightarrow> bytes" where
  "ServerHelloPayload_tail p bs =
     encode_vec_u16 ServerExtension_encode (shp_extensions p) (Compression_encode (shp_compression_method p)
       (CipherSuite_encode (shp_cipher_suite p) (SessionID_encode (shp_session_id p) bs)))"

definition ServerHelloPayload_tail_valid :: "ServerHelloPayload \<Rightarrow> bool" where
  "ServerHelloPayload_tail_valid p \<longleftrightarrow> SessionID_valid (shp_session_id p) \<and> CipherSuite_valid (shp_cipher_suite p)
     \<and> Compression_valid (shp_compression_method p)
     \<and> vec_fits ServerExtension_encode ServerExtension_valid 65535 (shp_extensions p)
     \<and> shp_legacy_version p = ProtocolVersion.Unknown 0 \<and> shp_random p = ZERO_RANDOM"

interpretation ServerHelloPayload: tail_codec ServerHelloPayload_tail ServerHelloPayload_read ServerHelloPayload_tail_valid
  by (rule tail_iso [OF tail_pair [OF SessionID.codec_axioms tail_pair [OF CipherSuite.codec_axioms
        tail_pair [OF Compression.codec_axioms optional_exts_always [OF ServerExtension.codec_axioms]]]],
      where f = "\<lambda>p. (shp_session_id p, shp_cipher_suite p, shp_compression_method p, shp_extensions p)"
        and g = "\<lambda>(sid, cs, cm, exts). \<lparr>shp_legacy_version = ProtocolVersion.Unknown 0, shp_random = ZERO_RANDOM,
          shp_session_id = sid, shp_cipher_suite = cs, shp_compression_method = cm, shp_extensions = exts\<rparr>"])
    (auto simp: ServerHelloPayload_tail_def ServerHelloPayload_read_def ServerHelloPayload_tail_valid_def Let_def
      pair_encode_def pair_read_def read_optional_exts_def split: bind_splits)

definition HelloRetryRequest_tail :: "HelloRetryRequest \<Rightarrow> bytes \<Rightarrow> bytes" where
  "HelloRetryRequest_tail p bs =
     encode_vec_u16 HelloRetryExtension_encode (hrr_extensions p) (Compression_encode Compression.Null
       (CipherSuite_encode (hrr_cipher_suite p) (SessionID_encode (hrr_session_id p) bs)))"

definition HelloRetryRequest_tail_valid :: "HelloRetryRequest \<Rightarrow> bool" where
  "HelloRetryRequest_tail_valid p \<longleftrightarrow> SessionID_valid (hrr_session_id p) \<and> CipherSuite_valid (hrr_cipher_suite p)
     \<and> vec_fits HelloRetryExtension_encode HelloRetryExtension_valid 65535 (hrr_extensions p)
     \<and> hrr_legacy_version p = ProtocolVersion.Unknown 0"

interpretation HelloRetryRequest: codec HelloRetryRequest_tail HelloRetryRequest_read HelloRetryRequest_tail_valid
  by (rule codec_partial [OF codec_pair [OF SessionID.codec_axioms codec_pair [OF CipherSuite.codec_axioms
        codec_pair [OF Compression.codec_axioms HelloRetryExtension.vec_u16]]],
      where f = "\<lambda>p. (hrr_session_id p, hrr_cipher_suite p, Compression.Null, hrr_extensions p)"
        and g = "\<lambda>(sid, cs, cm, exts). if cm = Compression.Null then Some \<lparr>hrr_legacy_version = ProtocolVersion.Unknown 0,
          hrr_session_id = sid, hrr_cipher_suite = cs, hrr_extensions = exts\<rparr> else None"])
    (auto simp: HelloRetryRequest_tail_def HelloRetryRequest_read_def HelloRetryRequest_tail_valid_def Let_def
      pair_encode_def pair_read_def split: bind_splits)

end
