(* ===== verification/Tls_Payloads.thy ===== *)
theory Tls_Payloads
  imports Tls_Hello
begin

text \<open>
  The remaining handshake payloads of \<open>tlspuffin/src/tls/rustls/msgs/handshake.rs\<close>: certificates, key
  exchange, certificate requests and session tickets, with their accessors. Every payload is
  interpreted as a codec, and as a canonical one where its parts are.
\<close>

subsection \<open>Certificates\<close>

type_synonym CertificatePayload = "Certificate list"

definition CertificatePayload_encode :: "CertificatePayload \<Rightarrow> bytes \<Rightarrow> bytes" where
  "CertificatePayload_encode = encode_vec_u24 Certificate_encode"

definition CertificatePayload_read :: "Reader \<Rightarrow> (CertificatePayload \<times> Reader) option" where
  "CertificatePayload_read = read_vec_u24_limited Certificate_read 0x10000"

type_synonym CertificateExtensions = "CertificateExtension list"

definition CertificateExtensions_encode :: "CertificateExtensions \<Rightarrow> bytes \<Rightarrow> bytes" where
  "CertificateExtensions_encode = encode_vec_u16 CertificateExtension_encode"

definition CertificateExtensions_read :: "Reader \<Rightarrow> (CertificateExtensions \<times> Reader) option" where
  "CertificateExtensions_read = read_vec_u16 CertificateExtension_read"

record CertificateEntry =
  ce_cert :: Certificate
  ce_exts :: CertificateExtensions

definition CertificateEntry_encode :: "CertificateEntry \<Rightarrow> bytes \<Rightarrow> bytes" where
  "CertificateEntry_encode e bs =
     (let bs = Certificate_encode (ce_cert e) bs in CertificateExtensions_encode (ce_exts e) bs)"

definition CertificateEntry_read :: "Reader \<Rightarrow> (CertificateEntry \<times> Reader) option" where
  "CertificateEntry_read r = do {
     (cert, r) \<leftarrow> Certificate_read r;
     (exts, r) \<leftarrow> CertificateExtensions_read r;
     Some (\<lparr>ce_cert = cert, ce_exts = exts\<rparr>, r) }"

definition CertificateEntry_has_duplicate_extension :: "CertificateEntry \<Rightarrow> bool" where
  "CertificateEntry_has_duplicate_extension e =
     seen_before {} (map (\<lambda>e. ExtensionType_get (CertificateExtension_get_type e)) (ce_exts e))"

definition CertificateEntry_has_unknown_extension :: "CertificateEntry \<Rightarrow> bool" where
  "CertificateEntry_has_unknown_extension e =
     list_ex (\<lambda>ext. CertificateExtension_get_type ext \<noteq> ExtensionType.StatusRequest
       \<and> CertificateExtension_get_type ext \<noteq> ExtensionType.SCT) (ce_exts e)"

definition CertificateEntry_get_ocsp_response :: "CertificateEntry \<Rightarrow> bytes option" where
  "CertificateEntry_get_ocsp_response e = do {
     ext \<leftarrow> find (\<lambda>ext. CertificateExtension_get_type ext = ExtensionType.StatusRequest) (ce_exts e);
     CertificateExtension_get_cert_status ext }"

definition CertificateEntry_get_scts :: "CertificateEntry \<Rightarrow> SCTList option" where
  "CertificateEntry_get_scts e = do {
     ext \<leftarrow> find (\<lambda>ext. CertificateExtension_get_type ext = ExtensionType.SCT) (ce_exts e);
     CertificateExtension_get_sct_list ext }"

record CertificatePayloadTLS13 =
  cp13_context :: PayloadU8
  cp13_entries :: "CertificateEntry list"

definition CertificatePayloadTLS13_encode :: "CertificatePayloadTLS13 \<Rightarrow> bytes \<Rightarrow> bytes" where
  "CertificatePayloadTLS13_encode p bs =
     (let bs = PayloadU8_encode (cp13_context p) bs in encode_vec_u24 CertificateEntry_encode (cp13_entries p) bs)"

definition CertificatePayloadTLS13_read :: "Reader \<Rightarrow> (CertificatePayloadTLS13 \<times> Reader) option" where
  "CertificatePayloadTLS13_read r = do {
     (context, r) \<leftarrow> PayloadU8_read r;
     (entries, r) \<leftarrow> read_vec_u24_limited CertificateEntry_read 0x10000 r;
     Some (\<lparr>cp13_context = context, cp13_entries = entries\<rparr>, r) }"

definition CertificatePayloadTLS13_any_entry_has_duplicate_extension :: "CertificatePayloadTLS13 \<Rightarrow> bool" where
  "CertificatePayloadTLS13_any_entry_has_duplicate_extension p =
     list_ex CertificateEntry_has_duplicate_extension (cp13_entries p)"

definition CertificatePayloadTLS13_any_entry_has_unknown_extension :: "CertificatePayloadTLS13 \<Rightarrow> bool" where
  "CertificatePayloadTLS13_any_entry_has_unknown_extension p =
     list_ex CertificateEntry_has_unknown_extension (cp13_entries p)"

definition CertificatePayloadTLS13_any_entry_has_extension :: "CertificatePayloadTLS13 \<Rightarrow> bool" where
  "CertificatePayloadTLS13_any_entry_has_extension p = list_ex (\<lambda>e. ce_exts e \<noteq> []) (cp13_entries p)"

definition CertificatePayloadTLS13_get_end_entity_ocsp :: "CertificatePayloadTLS13 \<Rightarrow> bytes" where
  "CertificatePayloadTLS13_get_end_entity_ocsp p =
     (case cp13_entries p of
        [] \<Rightarrow> []
      | e # _ \<Rightarrow> (case CertificateEntry_get_ocsp_response e of None \<Rightarrow> [] | Some v \<Rightarrow> v))"

definition CertificatePayloadTLS13_get_end_entity_scts :: "CertificatePayloadTLS13 \<Rightarrow> SCTList option" where
  "CertificatePayloadTLS13_get_end_entity_scts p =
     (case cp13_entries p of [] \<Rightarrow> None | e # _ \<Rightarrow> CertificateEntry_get_scts e)"

definition CertificatePayloadTLS13_convert :: "CertificatePayloadTLS13 \<Rightarrow> CertificatePayload" where
  "CertificatePayloadTLS13_convert p = map ce_cert (cp13_entries p)"

subsection \<open>Key exchange\<close>

datatype KeyExchangeAlgorithm = BulkOnly | DH | DHE | RSA | ECDH | ECDHE

record ECParameters =
  ecp_curve_type :: ECCurveType
  ecp_named_group :: NamedGroup

definition ECParameters_encode :: "ECParameters \<Rightarrow> bytes \<Rightarrow> bytes" where
  "ECParameters_encode p bs =
     (let bs = ECCurveType_encode (ecp_curve_type p) bs in NamedGroup_encode (ecp_named_group p) bs)"

definition ECParameters_read :: "Reader \<Rightarrow> (ECParameters \<times> Reader) option" where
  "ECParameters_read r = do {
     (ct, r) \<leftarrow> ECCurveType_read r;
     (grp, r) \<leftarrow> NamedGroup_read r;
     Some (\<lparr>ecp_curve_type = ct, ecp_named_group = grp\<rparr>, r) }"

record DigitallySignedStruct =
  dss_scheme :: SignatureScheme
  dss_sig :: PayloadU16

definition DigitallySignedStruct_encode :: "DigitallySignedStruct \<Rightarrow> bytes \<Rightarrow> bytes" where
  "DigitallySignedStruct_encode d bs =
     (let bs = SignatureScheme_encode (dss_scheme d) bs in PayloadU16_encode (dss_sig d) bs)"

definition DigitallySignedStruct_read :: "Reader \<Rightarrow> (DigitallySignedStruct \<times> Reader) option" where
  "DigitallySignedStruct_read r = do {
     (scheme, r) \<leftarrow> SignatureScheme_read r;
     (sig, r) \<leftarrow> PayloadU16_read r;
     Some (\<lparr>dss_scheme = scheme, dss_sig = sig\<rparr>, r) }"

record ClientECDHParams =
  cep_public :: PayloadU8

definition ClientECDHParams_encode :: "ClientECDHParams \<Rightarrow> bytes \<Rightarrow> bytes" where
  "ClientECDHParams_encode p bs = PayloadU8_encode (cep_public p) bs"

definition ClientECDHParams_read :: "Reader \<Rightarrow> (ClientECDHParams \<times> Reader) option" where
  "ClientECDHParams_read r = do { (pb, r) \<leftarrow> PayloadU8_read r; Some (\<lparr>cep_public = pb\<rparr>, r) }"

record ServerECDHParams =
  sep_curve_params :: ECParameters
  sep_public :: PayloadU8

definition ServerECDHParams_new :: "NamedGroup \<Rightarrow> bytes \<Rightarrow> ServerECDHParams" where
  "ServerECDHParams_new named_group pubkey =
     \<lparr>sep_curve_params = \<lparr>ecp_curve_type = ECCurveType.NamedCurve, ecp_named_group = named_group\<rparr>,
      sep_public = pubkey\<rparr>"

definition ServerECDHParams_encode :: "ServerECDHParams \<Rightarrow> bytes \<Rightarrow> bytes" where
  "ServerECDHParams_encode p bs =
     (let bs = ECParameters_encode (sep_curve_params p) bs in PayloadU8_encode (sep_public p) bs)"

definition ServerECDHParams_read :: "Reader \<Rightarrow> (ServerECDHParams \<times> Reader) option" where
  "ServerECDHParams_read r = do {
     (cp, r) \<leftarrow> ECParameters_read r;
     (pb, r) \<leftarrow> PayloadU8_read r;
     Some (\<lparr>sep_curve_params = cp, sep_public = pb\<rparr>, r) }"

record ECDHEServerKeyExchange =
  ske_params :: ServerECDHParams
  ske_dss :: DigitallySignedStruct

definition ECDHEServerKeyExchange_encode :: "ECDHEServerKeyExchange \<Rightarrow> bytes \<Rightarrow> bytes" where
  "ECDHEServerKeyExchange_encode x bs =
     (let bs = ServerECDHParams_encode (ske_params x) bs in DigitallySignedStruct_encode (ske_dss x) bs)"

definition ECDHEServerKeyExchange_read :: "Reader \<Rightarrow> (ECDHEServerKeyExchange \<times> Reader) option" where
  "ECDHEServerKeyExchange_read r = do {
     (params, r) \<leftarrow> ServerECDHParams_read r;
     (dss, r) \<leftarrow> DigitallySignedStruct_read r;
     Some (\<lparr>ske_params = params, ske_dss = dss\<rparr>, r) }"

datatype ServerKeyExchangePayload =
    ECDHE ECDHEServerKeyExchange
  | Unknown Payload

fun ServerKeyExchangePayload_encode :: "ServerKeyExchangePayload \<Rightarrow> bytes \<Rightarrow> bytes" where
  "ServerKeyExchangePayload_encode (ServerKeyExchangePayload.ECDHE x) bs = ECDHEServerKeyExchange_encode x bs"
| "ServerKeyExchangePayload_encode (ServerKeyExchangePayload.Unknown x) bs = Payload_encode x bs"

definition ServerKeyExchangePayload_read :: "Reader \<Rightarrow> (ServerKeyExchangePayload \<times> Reader) option" where
  "ServerKeyExchangePayload_read r =
     (let (p, r) = Payload_read r in Some (ServerKeyExchangePayload.Unknown p, r))"

text \<open>
  The reader is inspected after the attempt, whether it succeeded or not; a failed attempt returns
  \<open>None\<close> on either branch of that test.
\<close>

definition ServerKeyExchangePayload_unwrap_given_kxa ::
  "ServerKeyExchangePayload \<Rightarrow> KeyExchangeAlgorithm \<Rightarrow> ECDHEServerKeyExchange option" where
  "ServerKeyExchangePayload_unwrap_given_kxa p kxa =
     (case p of
        ServerKeyExchangePayload.Unknown unk \<Rightarrow>
          (case kxa of
             KeyExchangeAlgorithm.ECDHE \<Rightarrow> do {
               (x, rd) \<leftarrow> ECDHEServerKeyExchange_read (Reader_init unk);
               if \<not> Reader_any_left rd then Some x else None }
           | _ \<Rightarrow> None)
      | _ \<Rightarrow> None)"

subsection \<open>Certificate requests\<close>

type_synonym EncryptedExtensions = "ServerExtension list"

definition EncryptedExtensions_encode :: "EncryptedExtensions \<Rightarrow> bytes \<Rightarrow> bytes" where
  "EncryptedExtensions_encode = encode_vec_u16 ServerExtension_encode"

definition EncryptedExtensions_read :: "Reader \<Rightarrow> (EncryptedExtensions \<times> Reader) option" where
  "EncryptedExtensions_read = read_vec_u16 ServerExtension_read"

type_synonym ClientCertificateTypes = "ClientCertificateType list"

definition ClientCertificateTypes_encode :: "ClientCertificateTypes \<Rightarrow> bytes \<Rightarrow> bytes" where
  "ClientCertificateTypes_encode = encode_vec_u8 ClientCertificateType_encode"

definition ClientCertificateTypes_read :: "Reader \<Rightarrow> (ClientCertificateTypes \<times> Reader) option" where
  "ClientCertificateTypes_read = read_vec_u8 ClientCertificateType_read"

record CertificateRequestPayload =
  crp_certtypes :: ClientCertificateTypes
  crp_sigschemes :: SupportedSignatureSchemes
  crp_canames :: DistinguishedNames

definition CertificateRequestPayload_encode :: "CertificateRequestPayload \<Rightarrow> bytes \<Rightarrow> bytes" where
  "CertificateRequestPayload_encode p bs =
     (let bs = ClientCertificateTypes_encode (crp_certtypes p) bs;
          bs = SupportedSignatureSchemes_encode (crp_sigschemes p) bs
      in VecU16OfPayloadU16_encode (crp_canames p) bs)"

definition CertificateRequestPayload_read :: "Reader \<Rightarrow> (CertificateRequestPayload \<times> Reader) option" where
  "CertificateRequestPayload_read r = do {
     (certtypes, r) \<leftarrow> ClientCertificateTypes_read r;
     (sigschemes, r) \<leftarrow> SupportedSignatureSchemes_read r;
     (canames, r) \<leftarrow> VecU16OfPayloadU16_read r;
     Some (\<lparr>crp_certtypes = certtypes, crp_sigschemes = sigschemes, crp_canames = canames\<rparr>, r) }"

type_synonym CertReqExtensions = "CertReqExtension list"

definition CertReqExtensions_encode :: "CertReqExtensions \<Rightarrow> bytes \<Rightarrow> bytes" where
  "CertReqExtensions_encode = encode_vec_u16 CertReqExtension_encode"

definition CertReqExtensions_read :: "Reader \<Rightarrow> (CertReqExtensions \<times> Reader) option" where
  "CertReqExtensions_read = read_vec_u16 CertReqExtension_read"

record CertificateRequestPayloadTLS13 =
  crp13_context :: PayloadU8
  crp13_extensions :: CertReqExtensions

definition CertificateRequestPayloadTLS13_encode :: "CertificateRequestPayloadTLS13 \<Rightarrow> bytes \<Rightarrow> bytes" where
  "CertificateRequestPayloadTLS13_encode p bs =
     (let bs = PayloadU8_encode (crp13_context p) bs in CertReqExtensions_encode (crp13_extensions p) bs)"

definition CertificateRequestPayloadTLS13_read :: "Reader \<Rightarrow> (CertificateRequestPayloadTLS13 \<times> Reader) option" where
  "CertificateRequestPayloadTLS13_read r = do {
     (context, r) \<leftarrow> PayloadU8_read r;
     (extensions, r) \<leftarrow> CertReqExtensions_read r;
     Some (\<lparr>crp13_context = context, crp13_extensions = extensions\<rparr>, r) }"

definition CertificateRequestPayloadTLS13_find_extension ::
  "CertificateRequestPayloadTLS13 \<Rightarrow> ExtensionType \<Rightarrow> CertReqExtension option" where
  "CertificateRequestPayloadTLS13_find_extension p ext =
     find (\<lambda>x. CertReqExtension_get_type x = ext) (crp13_extensions p)"

definition CertificateRequestPayloadTLS13_get_sigalgs_extension ::
  "CertificateRequestPayloadTLS13 \<Rightarrow> SupportedSignatureSchemes option" where
  "CertificateRequestPayloadTLS13_get_sigalgs_extension p = do {
     ext \<leftarrow> CertificateRequestPayloadTLS13_find_extension p ExtensionType.SignatureAlgorithms;
     (case ext of CertReqExtension.SignatureAlgorithms sa \<Rightarrow> Some sa | _ \<Rightarrow> None) }"

definition CertificateRequestPayloadTLS13_get_authorities_extension ::
  "CertificateRequestPayloadTLS13 \<Rightarrow> DistinguishedNames option" where
  "CertificateRequestPayloadTLS13_get_authorities_extension p = do {
     ext \<leftarrow> CertificateRequestPayloadTLS13_find_extension p ExtensionType.CertificateAuthorities;
     (case ext of CertReqExtension.AuthorityNames an \<Rightarrow> Some an | _ \<Rightarrow> None) }"

subsection \<open>Session tickets\<close>

record NewSessionTicketPayload =
  nst_lifetime_hint :: u32
  nst_ticket :: PayloadU16

definition NewSessionTicketPayload_encode :: "NewSessionTicketPayload \<Rightarrow> bytes \<Rightarrow> bytes" where
  "NewSessionTicketPayload_encode p bs =
     (let bs = u32_encode (nst_lifetime_hint p) bs in PayloadU16_encode (nst_ticket p) bs)"

definition NewSessionTicketPayload_read :: "Reader \<Rightarrow> (NewSessionTicketPayload \<times> Reader) option" where
  "NewSessionTicketPayload_read r = do {
     (lifetime, r) \<leftarrow> u32_read r;
     (ticket, r) \<leftarrow> PayloadU16_read r;
     Some (\<lparr>nst_lifetime_hint = lifetime, nst_ticket = ticket\<rparr>, r) }"

type_synonym NewSessionTicketExtensions = "NewSessionTicketExtension list"

definition NewSessionTicketExtensions_encode :: "NewSessionTicketExtensions \<Rightarrow> bytes \<Rightarrow> bytes" where
  "NewSessionTicketExtensions_encode = encode_vec_u16 NewSessionTicketExtension_encode"

definition NewSessionTicketExtensions_read :: "Reader \<Rightarrow> (NewSessionTicketExtensions \<times> Reader) option" where
  "NewSessionTicketExtensions_read = read_vec_u16 NewSessionTicketExtension_read"

record NewSessionTicketPayloadTLS13 =
  nst13_lifetime :: u32
  nst13_age_add :: u32
  nst13_nonce :: PayloadU8
  nst13_ticket :: PayloadU16
  nst13_exts :: NewSessionTicketExtensions

definition NewSessionTicketPayloadTLS13_has_duplicate_extension :: "NewSessionTicketPayloadTLS13 \<Rightarrow> bool" where
  "NewSessionTicketPayloadTLS13_has_duplicate_extension p =
     seen_before {} (map (\<lambda>e. ExtensionType_get (NewSessionTicketExtension_get_type e)) (nst13_exts p))"

definition NewSessionTicketPayloadTLS13_find_extension ::
  "NewSessionTicketPayloadTLS13 \<Rightarrow> ExtensionType \<Rightarrow> NewSessionTicketExtension option" where
  "NewSessionTicketPayloadTLS13_find_extension p ext =
     find (\<lambda>x. NewSessionTicketExtension_get_type x = ext) (nst13_exts p)"

definition NewSessionTicketPayloadTLS13_get_max_early_data_size :: "NewSessionTicketPayloadTLS13 \<Rightarrow> u32 option" where
  "NewSessionTicketPayloadTLS13_get_max_early_data_size p = do {
     ext \<leftarrow> NewSessionTicketPayloadTLS13_find_extension p ExtensionType.EarlyData;
     (case ext of NewSessionTicketExtension.EarlyData sz \<Rightarrow> Some sz | _ \<Rightarrow> None) }"

definition NewSessionTicketPayloadTLS13_encode :: "NewSessionTicketPayloadTLS13 \<Rightarrow> bytes \<Rightarrow> bytes" where
  "NewSessionTicketPayloadTLS13_encode p bs =
     (let bs = u32_encode (nst13_lifetime p) bs;
          bs = u32_encode (nst13_age_add p) bs;
          bs = PayloadU8_encode (nst13_nonce p) bs;
          bs = PayloadU16_encode (nst13_ticket p) bs
      in NewSessionTicketExtensions_encode (nst13_exts p) bs)"

definition NewSessionTicketPayloadTLS13_read :: "Reader \<Rightarrow> (NewSessionTicketPayloadTLS13 \<times> Reader) option" where
  "NewSessionTicketPayloadTLS13_read r = do {
     (lifetime, r) \<leftarrow> u32_read r;
     (age_add, r) \<leftarrow> u32_read r;
     (nonce, r) \<leftarrow> PayloadU8_read r;
     (ticket, r) \<leftarrow> PayloadU16_read r;
     (exts, r) \<leftarrow> NewSessionTicketExtensions_read r;
     Some (\<lparr>nst13_lifetime = lifetime, nst13_age_add = age_add, nst13_nonce = nonce,
       nst13_ticket = ticket, nst13_exts = exts\<rparr>, r) }"

subsection \<open>Contracts\<close>

interpretation CertificatePayload: canonical_codec CertificatePayload_encode CertificatePayload_read
  "vec_fits Certificate_encode (\<lambda>c. length c \<le> 16777215) 65536"
  unfolding CertificatePayload_encode_def CertificatePayload_read_def
  using Certificate.vec_u24_canonical [of 65536] by simp

interpretation CertificateExtensions: codec CertificateExtensions_encode CertificateExtensions_read
  "vec_fits CertificateExtension_encode CertificateExtension_valid 65535"
  unfolding CertificateExtensions_encode_def CertificateExtensions_read_def by (rule CertificateExtension.vec_u16)

definition CertificateEntry_valid :: "CertificateEntry \<Rightarrow> bool" where
  "CertificateEntry_valid e \<longleftrightarrow> length (ce_cert e) \<le> 16777215
     \<and> vec_fits CertificateExtension_encode CertificateExtension_valid 65535 (ce_exts e)"

interpretation CertificateEntry: codec CertificateEntry_encode CertificateEntry_read CertificateEntry_valid
  by (rule codec_iso [OF codec_pair [OF Certificate.codec_axioms CertificateExtensions.codec_axioms],
      where f = "\<lambda>k. (ce_cert k, ce_exts k)" and g = "\<lambda>(a, b). \<lparr>ce_cert = a, ce_exts = b\<rparr>"])
    (auto simp: CertificateEntry_encode_def CertificateEntry_read_def CertificateEntry_valid_def
      pair_encode_def pair_read_def split: bind_splits)

definition CertificatePayloadTLS13_valid :: "CertificatePayloadTLS13 \<Rightarrow> bool" where
  "CertificatePayloadTLS13_valid p \<longleftrightarrow> length (cp13_context p) \<le> 255
     \<and> vec_fits CertificateEntry_encode CertificateEntry_valid 65536 (cp13_entries p)"

lemma CertificateEntry_vec: "codec (encode_vec_u24 CertificateEntry_encode)
    (read_vec_u24_limited CertificateEntry_read 0x10000) (vec_fits CertificateEntry_encode CertificateEntry_valid 65536)"
  using CertificateEntry.vec_u24 [of 65536] by simp

interpretation CertificatePayloadTLS13: codec CertificatePayloadTLS13_encode CertificatePayloadTLS13_read
  CertificatePayloadTLS13_valid
  by (rule codec_iso [OF codec_pair [OF PayloadU8.codec_axioms CertificateEntry_vec],
      where f = "\<lambda>k. (cp13_context k, cp13_entries k)" and g = "\<lambda>(a, b). \<lparr>cp13_context = a, cp13_entries = b\<rparr>"])
    (auto simp: CertificatePayloadTLS13_encode_def CertificatePayloadTLS13_read_def CertificatePayloadTLS13_valid_def
      pair_encode_def pair_read_def split: bind_splits)

definition ECParameters_valid :: "ECParameters \<Rightarrow> bool" where
  "ECParameters_valid p \<longleftrightarrow> ECCurveType_valid (ecp_curve_type p) \<and> NamedGroup_valid (ecp_named_group p)"

interpretation ECParameters: canonical_codec ECParameters_encode ECParameters_read ECParameters_valid
  by (rule canonical_iso [OF canonical_pair [OF ECCurveType.canonical_codec_axioms NamedGroup.canonical_codec_axioms],
      where f = "\<lambda>k. (ecp_curve_type k, ecp_named_group k)"
        and g = "\<lambda>(a, b). \<lparr>ecp_curve_type = a, ecp_named_group = b\<rparr>"])
    (auto simp: ECParameters_encode_def ECParameters_read_def ECParameters_valid_def
      pair_encode_def pair_read_def split: bind_splits)

definition DigitallySignedStruct_valid :: "DigitallySignedStruct \<Rightarrow> bool" where
  "DigitallySignedStruct_valid d \<longleftrightarrow> SignatureScheme_valid (dss_scheme d) \<and> length (dss_sig d) \<le> 65535"

interpretation DigitallySignedStruct: canonical_codec DigitallySignedStruct_encode DigitallySignedStruct_read
  DigitallySignedStruct_valid
  by (rule canonical_iso [OF canonical_pair [OF SignatureScheme.canonical_codec_axioms PayloadU16.canonical_codec_axioms],
      where f = "\<lambda>k. (dss_scheme k, dss_sig k)" and g = "\<lambda>(a, b). \<lparr>dss_scheme = a, dss_sig = b\<rparr>"])
    (auto simp: DigitallySignedStruct_encode_def DigitallySignedStruct_read_def DigitallySignedStruct_valid_def
      pair_encode_def pair_read_def split: bind_splits)

interpretation ClientECDHParams: canonical_codec ClientECDHParams_encode ClientECDHParams_read
  "\<lambda>p. length (cep_public p) \<le> 255"
  by (rule canonical_iso [OF PayloadU8.canonical_codec_axioms,
      where f = cep_public and g = "\<lambda>a. \<lparr>cep_public = a\<rparr>"])
    (auto simp: ClientECDHParams_encode_def ClientECDHParams_read_def split: bind_splits)

definition ServerECDHParams_valid :: "ServerECDHParams \<Rightarrow> bool" where
  "ServerECDHParams_valid p \<longleftrightarrow> ECParameters_valid (sep_curve_params p) \<and> length (sep_public p) \<le> 255"

interpretation ServerECDHParams: canonical_codec ServerECDHParams_encode ServerECDHParams_read ServerECDHParams_valid
  by (rule canonical_iso [OF canonical_pair [OF ECParameters.canonical_codec_axioms PayloadU8.canonical_codec_axioms],
      where f = "\<lambda>k. (sep_curve_params k, sep_public k)"
        and g = "\<lambda>(a, b). \<lparr>sep_curve_params = a, sep_public = b\<rparr>"])
    (auto simp: ServerECDHParams_encode_def ServerECDHParams_read_def ServerECDHParams_valid_def
      pair_encode_def pair_read_def split: bind_splits)

definition ECDHEServerKeyExchange_valid :: "ECDHEServerKeyExchange \<Rightarrow> bool" where
  "ECDHEServerKeyExchange_valid x \<longleftrightarrow>
     ServerECDHParams_valid (ske_params x) \<and> DigitallySignedStruct_valid (ske_dss x)"

interpretation ECDHEServerKeyExchange: canonical_codec ECDHEServerKeyExchange_encode ECDHEServerKeyExchange_read
  ECDHEServerKeyExchange_valid
  by (rule canonical_iso [OF canonical_pair [OF ServerECDHParams.canonical_codec_axioms
        DigitallySignedStruct.canonical_codec_axioms],
      where f = "\<lambda>k. (ske_params k, ske_dss k)" and g = "\<lambda>(a, b). \<lparr>ske_params = a, ske_dss = b\<rparr>"])
    (auto simp: ECDHEServerKeyExchange_encode_def ECDHEServerKeyExchange_read_def ECDHEServerKeyExchange_valid_def
      pair_encode_def pair_read_def split: bind_splits)

interpretation EncryptedExtensions: codec EncryptedExtensions_encode EncryptedExtensions_read
  "vec_fits ServerExtension_encode ServerExtension_valid 65535"
  unfolding EncryptedExtensions_encode_def EncryptedExtensions_read_def by (rule ServerExtension.vec_u16)

interpretation ClientCertificateTypes: canonical_codec ClientCertificateTypes_encode ClientCertificateTypes_read
  "vec_fits ClientCertificateType_encode (\<lambda>v. ClientCertificateType_valid v) 255"
  unfolding ClientCertificateTypes_encode_def ClientCertificateTypes_read_def
  by (rule ClientCertificateType.vec_u8_canonical)

definition CertificateRequestPayload_valid :: "CertificateRequestPayload \<Rightarrow> bool" where
  "CertificateRequestPayload_valid p \<longleftrightarrow>
     vec_fits ClientCertificateType_encode (\<lambda>v. ClientCertificateType_valid v) 255 (crp_certtypes p)
     \<and> vec_fits SignatureScheme_encode (\<lambda>v. SignatureScheme_valid v) 65535 (crp_sigschemes p)
     \<and> vec_fits PayloadU16_encode (\<lambda>p. length p \<le> 65535) 65535 (crp_canames p)"

interpretation CertificateRequestPayload: canonical_codec CertificateRequestPayload_encode
  CertificateRequestPayload_read CertificateRequestPayload_valid
  by (rule canonical_iso [OF canonical_pair [OF ClientCertificateTypes.canonical_codec_axioms
        canonical_pair [OF SupportedSignatureSchemes.canonical_codec_axioms VecU16OfPayloadU16.canonical_codec_axioms]],
      where f = "\<lambda>k. (crp_certtypes k, crp_sigschemes k, crp_canames k)"
        and g = "\<lambda>(a, b, c). \<lparr>crp_certtypes = a, crp_sigschemes = b, crp_canames = c\<rparr>"])
    (auto simp: CertificateRequestPayload_encode_def CertificateRequestPayload_read_def
      CertificateRequestPayload_valid_def pair_encode_def pair_read_def split: bind_splits)

interpretation CertReqExtensions: codec CertReqExtensions_encode CertReqExtensions_read
  "vec_fits CertReqExtension_encode CertReqExtension_valid 65535"
  unfolding CertReqExtensions_encode_def CertReqExtensions_read_def by (rule CertReqExtension.vec_u16)

definition CertificateRequestPayloadTLS13_valid :: "CertificateRequestPayloadTLS13 \<Rightarrow> bool" where
  "CertificateRequestPayloadTLS13_valid p \<longleftrightarrow> length (crp13_context p) \<le> 255
     \<and> vec_fits CertReqExtension_encode CertReqExtension_valid 65535 (crp13_extensions p)"

interpretation CertificateRequestPayloadTLS13: codec CertificateRequestPayloadTLS13_encode
  CertificateRequestPayloadTLS13_read CertificateRequestPayloadTLS13_valid
  by (rule codec_iso [OF codec_pair [OF PayloadU8.codec_axioms CertReqExtensions.codec_axioms],
      where f = "\<lambda>k. (crp13_context k, crp13_extensions k)"
        and g = "\<lambda>(a, b). \<lparr>crp13_context = a, crp13_extensions = b\<rparr>"])
    (auto simp: CertificateRequestPayloadTLS13_encode_def CertificateRequestPayloadTLS13_read_def
      CertificateRequestPayloadTLS13_valid_def pair_encode_def pair_read_def split: bind_splits)

interpretation NewSessionTicketPayload: canonical_codec NewSessionTicketPayload_encode NewSessionTicketPayload_read
  "\<lambda>p. length (nst_ticket p) \<le> 65535"
  by (rule canonical_iso [OF canonical_pair [OF u32.canonical_codec_axioms PayloadU16.canonical_codec_axioms],
      where f = "\<lambda>k. (nst_lifetime_hint k, nst_ticket k)"
        and g = "\<lambda>(a, b). \<lparr>nst_lifetime_hint = a, nst_ticket = b\<rparr>"])
    (auto simp: NewSessionTicketPayload_encode_def NewSessionTicketPayload_read_def
      pair_encode_def pair_read_def split: bind_splits)

interpretation NewSessionTicketExtensions: codec NewSessionTicketExtensions_encode NewSessionTicketExtensions_read
  "vec_fits NewSessionTicketExtension_encode NewSessionTicketExtension_valid 65535"
  unfolding NewSessionTicketExtensions_encode_def NewSessionTicketExtensions_read_def
  by (rule NewSessionTicketExtension.vec_u16)

definition NewSessionTicketPayloadTLS13_valid :: "NewSessionTicketPayloadTLS13 \<Rightarrow> bool" where
  "NewSessionTicketPayloadTLS13_valid p \<longleftrightarrow> length (nst13_nonce p) \<le> 255 \<and> length (nst13_ticket p) \<le> 65535
     \<and> vec_fits NewSessionTicketExtension_encode NewSessionTicketExtension_valid 65535 (nst13_exts p)"

interpretation NewSessionTicketPayloadTLS13: codec NewSessionTicketPayloadTLS13_encode
  NewSessionTicketPayloadTLS13_read NewSessionTicketPayloadTLS13_valid
  by (rule codec_iso [OF codec_pair [OF u32.codec_axioms codec_pair [OF u32.codec_axioms
        codec_pair [OF PayloadU8.codec_axioms codec_pair [OF PayloadU16.codec_axioms
        NewSessionTicketExtensions.codec_axioms]]]],
      where f = "\<lambda>k. (nst13_lifetime k, nst13_age_add k, nst13_nonce k, nst13_ticket k, nst13_exts k)"
        and g = "\<lambda>(a, b, c, d, e). \<lparr>nst13_lifetime = a, nst13_age_add = b, nst13_nonce = c,
          nst13_ticket = d, nst13_exts = e\<rparr>"])
    (auto simp: NewSessionTicketPayloadTLS13_encode_def NewSessionTicketPayloadTLS13_read_def
      NewSessionTicketPayloadTLS13_valid_def pair_encode_def pair_read_def split: bind_splits)

text \<open>
  A server key exchange is read as an opaque payload; when the algorithm turns out to be ECDHE the
  parameters that were encoded come out, and only an exact encoding is accepted.
\<close>

lemma unwrap_given_kxa_iff:
  "ServerKeyExchangePayload_unwrap_given_kxa (ServerKeyExchangePayload.Unknown unk) KeyExchangeAlgorithm.ECDHE = Some x
     \<longleftrightarrow> ECDHEServerKeyExchange_valid x \<and> unk = get_encoding ECDHEServerKeyExchange_encode x"
proof
  assume "ServerKeyExchangePayload_unwrap_given_kxa (ServerKeyExchangePayload.Unknown unk) KeyExchangeAlgorithm.ECDHE = Some x"
  then obtain rd where "ECDHEServerKeyExchange_read (Reader_init unk) = Some (x, rd)" "rem rd = []"
    by (auto simp: ServerKeyExchangePayload_unwrap_given_kxa_def split: bind_split_asm if_splits)
  with ECDHEServerKeyExchange.encode_read [OF _ this(1)]
  show "ECDHEServerKeyExchange_valid x \<and> unk = get_encoding ECDHEServerKeyExchange_encode x" by auto
next
  assume "ECDHEServerKeyExchange_valid x \<and> unk = get_encoding ECDHEServerKeyExchange_encode x"
  then show "ServerKeyExchangePayload_unwrap_given_kxa (ServerKeyExchangePayload.Unknown unk)
      KeyExchangeAlgorithm.ECDHE = Some x"
    using ECDHEServerKeyExchange.read_encode [of x "Reader_init unk"]
    by (simp add: ServerKeyExchangePayload_unwrap_given_kxa_def)
qed

end
