(* ===== verification/Tls_Handshake.thy ===== *)
theory Tls_Handshake
  imports Tls_Payloads
begin

text \<open>
  \<open>HandshakePayload\<close> and \<open>HandshakeMessagePayload\<close> of \<open>tlspuffin/src/tls/rustls/msgs/handshake.rs\<close>, with the
  version-dependent decoder \<open>read_version\<close>.

  \<open>HandshakeMessagePayload_valid\<close> ties the payload to the type and the version it is read back with; for
  valid messages \<open>read_version\<close> inverts \<open>encode\<close>. \<open>get_encoding_for_binder_signing\<close> is shown to be exactly the
  encoding without the binders, and to be independent of the binders' values.
\<close>

datatype 'd HandshakePayload =
    HelloRequest
  | ClientHello "'d ClientHelloPayload"
  | ServerHello ServerHelloPayload
  | HelloRetryRequest HelloRetryRequest
  | Certificate CertificatePayload
  | CertificateTLS13 CertificatePayloadTLS13
  | ServerKeyExchange ServerKeyExchangePayload
  | CertificateRequest CertificateRequestPayload
  | CertificateRequestTLS13 CertificateRequestPayloadTLS13
  | CertificateVerify DigitallySignedStruct
  | ServerHelloDone
  | EndOfEarlyData
  | ClientKeyExchange Payload
  | NewSessionTicket NewSessionTicketPayload
  | NewSessionTicketTLS13 NewSessionTicketPayloadTLS13
  | EncryptedExtensions EncryptedExtensions
  | KeyUpdate KeyUpdateRequest
  | Finished Payload
  | CertificateStatus CertificateStatus
  | MessageHash Payload
  | Unknown Payload

fun HandshakePayload_encode :: "'d HandshakePayload \<Rightarrow> bytes \<Rightarrow> bytes" where
  "HandshakePayload_encode HandshakePayload.HelloRequest bs = bs"
| "HandshakePayload_encode HandshakePayload.ServerHelloDone bs = bs"
| "HandshakePayload_encode HandshakePayload.EndOfEarlyData bs = bs"
| "HandshakePayload_encode (HandshakePayload.ClientHello x) bs = ClientHelloPayload_encode x bs"
| "HandshakePayload_encode (HandshakePayload.ServerHello x) bs = ServerHelloPayload_encode x bs"
| "HandshakePayload_encode (HandshakePayload.HelloRetryRequest x) bs = HelloRetryRequest_encode x bs"
| "HandshakePayload_encode (HandshakePayload.Certificate x) bs = CertificatePayload_encode x bs"
| "HandshakePayload_encode (HandshakePayload.CertificateTLS13 x) bs = CertificatePayloadTLS13_encode x bs"
| "HandshakePayload_encode (HandshakePayload.ServerKeyExchange x) bs = ServerKeyExchangePayload_encode x bs"
| "HandshakePayload_encode (HandshakePayload.ClientKeyExchange x) bs = Payload_encode x bs"
| "HandshakePayload_encode (HandshakePayload.CertificateRequest x) bs = CertificateRequestPayload_encode x bs"
| "HandshakePayload_encode (HandshakePayload.CertificateRequestTLS13 x) bs = CertificateRequestPayloadTLS13_encode x bs"
| "HandshakePayload_encode (HandshakePayload.CertificateVerify x) bs = DigitallySignedStruct_encode x bs"
| "HandshakePayload_encode (HandshakePayload.NewSessionTicket x) bs = NewSessionTicketPayload_encode x bs"
| "HandshakePayload_encode (HandshakePayload.NewSessionTicketTLS13 x) bs = NewSessionTicketPayloadTLS13_encode x bs"
| "HandshakePayload_encode (HandshakePayload.EncryptedExtensions x) bs = EncryptedExtensions_encode x bs"
| "HandshakePayload_encode (HandshakePayload.KeyUpdate x) bs = KeyUpdateRequest_encode x bs"
| "HandshakePayload_encode (HandshakePayload.Finished x) bs = Payload_encode x bs"
| "HandshakePayload_encode (HandshakePayload.CertificateStatus x) bs = CertificateStatus_encode x bs"
| "HandshakePayload_encode (HandshakePayload.MessageHash x) bs = Payload_encode x bs"
| "HandshakePayload_encode (HandshakePayload.Unknown x) bs = Payload_encode x bs"

record 'd HandshakeMessagePayload =
  hmp_typ :: HandshakeType
  hmp_payload :: "'d HandshakePayload"

definition HandshakeMessagePayload_encode :: "'d HandshakeMessagePayload \<Rightarrow> bytes \<Rightarrow> bytes" where
  "HandshakeMessagePayload_encode m bs =
     (let sub = HandshakePayload_encode (hmp_payload m) [];
          bs = HandshakeType_encode
            (case hmp_typ m of HandshakeType.HelloRetryRequest \<Rightarrow> HandshakeType.ServerHello | _ \<Rightarrow> hmp_typ m) bs;
          bs = u24_encode (u24 (word_of_nat (length sub))) bs
      in bs @ sub)"

text \<open>
  The match of \<open>read_version\<close>: it returns the type along with the payload, since a server hello may turn
  out to be a hello retry request.
\<close>

definition HandshakePayload_read_server_hello :: "Reader \<Rightarrow> ((HandshakeType \<times> 'd HandshakePayload) \<times> Reader) option" where
  "HandshakePayload_read_server_hello sub = do {
     (version, sub) \<leftarrow> ProtocolVersion_read sub;
     (random, sub) \<leftarrow> Random_read sub;
     if random = HELLO_RETRY_REQUEST_RANDOM then do {
       (hrr, sub) \<leftarrow> HelloRetryRequest_read sub;
       Some ((HandshakeType.HelloRetryRequest,
         HandshakePayload.HelloRetryRequest (hrr\<lparr>hrr_legacy_version := version\<rparr>)), sub) }
     else do {
       (shp, sub) \<leftarrow> ServerHelloPayload_read sub;
       Some ((HandshakeType.ServerHello,
         HandshakePayload.ServerHello (shp\<lparr>shp_legacy_version := version, shp_random := random\<rparr>)), sub) } }"

definition HandshakePayload_read_version ::
  "(bytes \<Rightarrow> 'd option) \<Rightarrow> ProtocolVersion \<Rightarrow> HandshakeType \<Rightarrow> Reader
     \<Rightarrow> ((HandshakeType \<times> 'd HandshakePayload) \<times> Reader) option" where
  "HandshakePayload_read_version dns vers typ sub =
     (let unknown = arm (\<lambda>p. (typ, HandshakePayload.Unknown p)) (Some (Payload_read sub)) in
      case typ of
        HandshakeType.HelloRequest \<Rightarrow>
          if Reader_left sub = 0 then Some ((typ, HandshakePayload.HelloRequest), sub) else unknown
      | HandshakeType.ClientHello \<Rightarrow> arm (\<lambda>p. (typ, HandshakePayload.ClientHello p)) (ClientHelloPayload_read dns sub)
      | HandshakeType.ServerHello \<Rightarrow> HandshakePayload_read_server_hello sub
      | HandshakeType.Certificate \<Rightarrow>
          if vers = ProtocolVersion.TLSv1_3
          then arm (\<lambda>p. (typ, HandshakePayload.CertificateTLS13 p)) (CertificatePayloadTLS13_read sub)
          else arm (\<lambda>p. (typ, HandshakePayload.Certificate p)) (CertificatePayload_read sub)
      | HandshakeType.ServerKeyExchange \<Rightarrow>
          arm (\<lambda>p. (typ, HandshakePayload.ServerKeyExchange p)) (ServerKeyExchangePayload_read sub)
      | HandshakeType.ServerHelloDone \<Rightarrow>
          if Reader_any_left sub then None else Some ((typ, HandshakePayload.ServerHelloDone), sub)
      | HandshakeType.ClientKeyExchange \<Rightarrow>
          arm (\<lambda>p. (typ, HandshakePayload.ClientKeyExchange p)) (Some (Payload_read sub))
      | HandshakeType.CertificateRequest \<Rightarrow>
          if vers = ProtocolVersion.TLSv1_3
          then arm (\<lambda>p. (typ, HandshakePayload.CertificateRequestTLS13 p)) (CertificateRequestPayloadTLS13_read sub)
          else arm (\<lambda>p. (typ, HandshakePayload.CertificateRequest p)) (CertificateRequestPayload_read sub)
      | HandshakeType.CertificateVerify \<Rightarrow>
          arm (\<lambda>p. (typ, HandshakePayload.CertificateVerify p)) (DigitallySignedStruct_read sub)
      | HandshakeType.NewSessionTicket \<Rightarrow>
          if vers = ProtocolVersion.TLSv1_3
          then arm (\<lambda>p. (typ, HandshakePayload.NewSessionTicketTLS13 p)) (NewSessionTicketPayloadTLS13_read sub)
          else arm (\<lambda>p. (typ, HandshakePayload.NewSessionTicket p)) (NewSessionTicketPayload_read sub)
      | HandshakeType.EncryptedExtensions \<Rightarrow>
          arm (\<lambda>p. (typ, HandshakePayload.EncryptedExtensions p)) (EncryptedExtensions_read sub)
      | HandshakeType.KeyUpdate \<Rightarrow> arm (\<lambda>p. (typ, HandshakePayload.KeyUpdate p)) (KeyUpdateRequest_read sub)
      | HandshakeType.EndOfEarlyData \<Rightarrow>
          if Reader_any_left sub then None else Some ((typ, HandshakePayload.EndOfEarlyData), sub)
      | HandshakeType.Finished \<Rightarrow> arm (\<lambda>p. (typ, HandshakePayload.Finished p)) (Some (Payload_read sub))
      | HandshakeType.CertificateStatus \<Rightarrow>
          arm (\<lambda>p. (typ, HandshakePayload.CertificateStatus p)) (CertificateStatus_read sub)
      | HandshakeType.MessageHash \<Rightarrow> None
      | HandshakeType.HelloRetryRequest \<Rightarrow> None
      | _ \<Rightarrow> unknown)"

definition HandshakeMessagePayload_read_version ::
  "(bytes \<Rightarrow> 'd option) \<Rightarrow> Reader \<Rightarrow> ProtocolVersion \<Rightarrow> ('d HandshakeMessagePayload \<times> Reader) option" where
  "HandshakeMessagePayload_read_version dns r vers = do {
     (typ, r) \<leftarrow> HandshakeType_read r;
     (len, r) \<leftarrow> u24_read r;
     (sub, r) \<leftarrow> Reader_sub (unat (u24_val len)) r;
     ((typ, payload), sub) \<leftarrow> HandshakePayload_read_version dns vers typ sub;
     if Reader_any_left sub then None else Some (\<lparr>hmp_typ = typ, hmp_payload = payload\<rparr>, r) }"

definition HandshakeMessagePayload_read ::
  "(bytes \<Rightarrow> 'd option) \<Rightarrow> Reader \<Rightarrow> ('d HandshakeMessagePayload \<times> Reader) option" where
  "HandshakeMessagePayload_read dns r = HandshakeMessagePayload_read_version dns r ProtocolVersion.TLSv1_2"

definition HandshakeMessagePayload_build_key_update_notify :: "'d HandshakeMessagePayload" where
  "HandshakeMessagePayload_build_key_update_notify =
     \<lparr>hmp_typ = HandshakeType.KeyUpdate, hmp_payload = HandshakePayload.KeyUpdate KeyUpdateRequest.UpdateNotRequested\<rparr>"

definition HandshakeMessagePayload_get_encoding_for_binder_signing :: "'d HandshakeMessagePayload \<Rightarrow> bytes" where
  "HandshakeMessagePayload_get_encoding_for_binder_signing m =
     (let ret = get_encoding HandshakeMessagePayload_encode m;
          binder_len =
            (case hmp_payload m of
               HandshakePayload.ClientHello ch \<Rightarrow>
                 (if chp_extensions ch = [] then 0
                  else case last (chp_extensions ch) of
                    ClientExtension.PresharedKey offer \<Rightarrow> length (VecU16OfPayloadU8_encode (pko_binders offer) [])
                  | _ \<Rightarrow> 0)
             | _ \<Rightarrow> 0)
      in take (length ret - binder_len) ret)"

definition HandshakeMessagePayload_build_handshake_hash :: "bytes \<Rightarrow> 'd HandshakeMessagePayload" where
  "HandshakeMessagePayload_build_handshake_hash hash =
     \<lparr>hmp_typ = HandshakeType.MessageHash, hmp_payload = HandshakePayload.MessageHash hash\<rparr>"

subsection \<open>Round trip\<close>

text \<open>The payloads that \<open>read_version\<close> returns under a type and a version.\<close>

definition HandshakePayload_content ::
  "(bytes \<Rightarrow> 'd option) \<Rightarrow> ProtocolVersion \<Rightarrow> HandshakeType \<Rightarrow> 'd HandshakePayload \<Rightarrow> bool" where
  "HandshakePayload_content dns vers typ p \<longleftrightarrow>
     (case p of
        HandshakePayload.HelloRequest \<Rightarrow> typ = HandshakeType.HelloRequest
      | HandshakePayload.ClientHello x \<Rightarrow> typ = HandshakeType.ClientHello \<and> ClientHelloPayload_valid dns x
      | HandshakePayload.ServerHello x \<Rightarrow> typ = HandshakeType.ServerHello
          \<and> ProtocolVersion_valid (shp_legacy_version x) \<and> length (shp_random x) = 32
          \<and> shp_random x \<noteq> HELLO_RETRY_REQUEST_RANDOM
          \<and> ServerHelloPayload_tail_valid (x\<lparr>shp_legacy_version := ProtocolVersion.Unknown 0, shp_random := ZERO_RANDOM\<rparr>)
      | HandshakePayload.HelloRetryRequest x \<Rightarrow> typ = HandshakeType.HelloRetryRequest
          \<and> ProtocolVersion_valid (hrr_legacy_version x)
          \<and> HelloRetryRequest_tail_valid (x\<lparr>hrr_legacy_version := ProtocolVersion.Unknown 0\<rparr>)
      | HandshakePayload.Certificate x \<Rightarrow> typ = HandshakeType.Certificate \<and> vers \<noteq> ProtocolVersion.TLSv1_3
          \<and> vec_fits Certificate_encode (\<lambda>c. length c \<le> 16777215) 65536 x
      | HandshakePayload.CertificateTLS13 x \<Rightarrow> typ = HandshakeType.Certificate \<and> vers = ProtocolVersion.TLSv1_3
          \<and> CertificatePayloadTLS13_valid x
      | HandshakePayload.ServerKeyExchange x \<Rightarrow> typ = HandshakeType.ServerKeyExchange
          \<and> (\<exists>p. x = ServerKeyExchangePayload.Unknown p)
      | HandshakePayload.CertificateRequest x \<Rightarrow> typ = HandshakeType.CertificateRequest
          \<and> vers \<noteq> ProtocolVersion.TLSv1_3 \<and> CertificateRequestPayload_valid x
      | HandshakePayload.CertificateRequestTLS13 x \<Rightarrow> typ = HandshakeType.CertificateRequest
          \<and> vers = ProtocolVersion.TLSv1_3 \<and> CertificateRequestPayloadTLS13_valid x
      | HandshakePayload.CertificateVerify x \<Rightarrow> typ = HandshakeType.CertificateVerify \<and> DigitallySignedStruct_valid x
      | HandshakePayload.ServerHelloDone \<Rightarrow> typ = HandshakeType.ServerHelloDone
      | HandshakePayload.EndOfEarlyData \<Rightarrow> typ = HandshakeType.EndOfEarlyData
      | HandshakePayload.ClientKeyExchange x \<Rightarrow> typ = HandshakeType.ClientKeyExchange
      | HandshakePayload.NewSessionTicket x \<Rightarrow> typ = HandshakeType.NewSessionTicket
          \<and> vers \<noteq> ProtocolVersion.TLSv1_3 \<and> length (nst_ticket x) \<le> 65535
      | HandshakePayload.NewSessionTicketTLS13 x \<Rightarrow> typ = HandshakeType.NewSessionTicket
          \<and> vers = ProtocolVersion.TLSv1_3 \<and> NewSessionTicketPayloadTLS13_valid x
      | HandshakePayload.EncryptedExtensions x \<Rightarrow> typ = HandshakeType.EncryptedExtensions
          \<and> vec_fits ServerExtension_encode ServerExtension_valid 65535 x
      | HandshakePayload.KeyUpdate x \<Rightarrow> typ = HandshakeType.KeyUpdate \<and> KeyUpdateRequest_valid x
      | HandshakePayload.Finished x \<Rightarrow> typ = HandshakeType.Finished
      | HandshakePayload.CertificateStatus x \<Rightarrow> typ = HandshakeType.CertificateStatus \<and> CertificateStatus_valid x
      | HandshakePayload.MessageHash x \<Rightarrow> False
      | HandshakePayload.Unknown x \<Rightarrow> HandshakeType_valid typ \<and>
          (typ = HandshakeType.HelloRequest \<and> x \<noteq> [] \<or> typ = HandshakeType.HelloVerifyRequest
            \<or> typ = HandshakeType.CertificateURL \<or> (\<exists>k. typ = HandshakeType.Unknown k)))"

definition HandshakeMessagePayload_valid ::
  "(bytes \<Rightarrow> 'd option) \<Rightarrow> ProtocolVersion \<Rightarrow> 'd HandshakeMessagePayload \<Rightarrow> bool" where
  "HandshakeMessagePayload_valid dns vers m \<longleftrightarrow>
     HandshakePayload_content dns vers (hmp_typ m) (hmp_payload m)
     \<and> length (HandshakePayload_encode (hmp_payload m) []) < 2 ^ 24"

lemma read_server_hello_encode:
  assumes "HandshakePayload_content dns vers HandshakeType.ServerHello (HandshakePayload.ServerHello x)"
  shows "\<exists>sub. HandshakePayload_read_server_hello (Reader_init (ServerHelloPayload_encode x [])) =
      Some ((HandshakeType.ServerHello, HandshakePayload.ServerHello x), sub) \<and> rem sub = []"
proof -
  let ?y = "x\<lparr>shp_legacy_version := ProtocolVersion.Unknown 0, shp_random := ZERO_RANDOM\<rparr>"
  have v: "ProtocolVersion_valid (shp_legacy_version x)" "length (shp_random x) = 32"
    "shp_random x \<noteq> HELLO_RETRY_REQUEST_RANDOM" "ServerHelloPayload_tail_valid ?y"
    using assms by (auto simp: HandshakePayload_content_def)
  let ?V = "get_encoding ProtocolVersion_encode (shp_legacy_version x)"
  let ?B = "?V @ shp_random x @ get_encoding ServerHelloPayload_tail ?y"
  have b: "ServerHelloPayload_encode x [] = ?B"
    by (simp add: ServerHelloPayload_encode_def get_encoding_def [of ServerHelloPayload_tail]
        ServerHelloPayload_tail_def ProtocolVersion.encode_conv Random.encode_conv SessionID.encode_conv
        CipherSuite.encode_conv Compression.encode_conv encoder.encode_conv [OF ServerExtension.vec_u16_encoder])
  let ?r = "Reader_init ?B"
  have "ProtocolVersion_read ?r = Some (shp_legacy_version x, adv ?r (length ?V))"
    using v by (intro ProtocolVersion.read_encode) simp_all
  moreover have "Random_read (adv ?r (length ?V)) = Some (shp_random x, adv ?r (length ?V + 32))"
    using Random.read_encode [of "shp_random x" "adv ?r (length ?V)"] v by simp
  moreover have "ServerHelloPayload_read (adv ?r (length ?V + 32)) =
      Some (?y, adv (adv ?r (length ?V + 32)) (length (get_encoding ServerHelloPayload_tail ?y)))"
    using v by (intro ServerHelloPayload.read_encode_all) simp_all
  ultimately show ?thesis
    using v by (simp add: b HandshakePayload_read_server_hello_def)
qed

lemma read_hello_retry_request_encode:
  assumes "HandshakePayload_content dns vers HandshakeType.HelloRetryRequest (HandshakePayload.HelloRetryRequest x)"
  shows "\<exists>sub. HandshakePayload_read_server_hello (Reader_init (HelloRetryRequest_encode x [])) =
      Some ((HandshakeType.HelloRetryRequest, HandshakePayload.HelloRetryRequest x), sub) \<and> rem sub = []"
proof -
  let ?y = "x\<lparr>hrr_legacy_version := ProtocolVersion.Unknown 0\<rparr>"
  have v: "ProtocolVersion_valid (hrr_legacy_version x)" "HelloRetryRequest_tail_valid ?y"
    using assms by (auto simp: HandshakePayload_content_def)
  let ?V = "get_encoding ProtocolVersion_encode (hrr_legacy_version x)"
  let ?B = "?V @ HELLO_RETRY_REQUEST_RANDOM @ get_encoding HelloRetryRequest_tail ?y"
  have b: "HelloRetryRequest_encode x [] = ?B"
    by (simp add: HelloRetryRequest_encode_def get_encoding_def [of HelloRetryRequest_tail]
        HelloRetryRequest_tail_def ProtocolVersion.encode_conv Random.encode_conv SessionID.encode_conv
        CipherSuite.encode_conv Compression.encode_conv encoder.encode_conv [OF HelloRetryExtension.vec_u16_encoder])
  have len: "length HELLO_RETRY_REQUEST_RANDOM = 32" by (simp add: HELLO_RETRY_REQUEST_RANDOM_def)
  let ?r = "Reader_init ?B"
  have "ProtocolVersion_read ?r = Some (hrr_legacy_version x, adv ?r (length ?V))"
    using v by (intro ProtocolVersion.read_encode) simp_all
  moreover have "Random_read (adv ?r (length ?V)) = Some (HELLO_RETRY_REQUEST_RANDOM, adv ?r (length ?V + 32))"
    using Random.read_encode [of HELLO_RETRY_REQUEST_RANDOM "adv ?r (length ?V)"] len by simp
  moreover have "HelloRetryRequest_read (adv ?r (length ?V + 32)) =
      Some (?y, adv (adv ?r (length ?V + 32)) (length (get_encoding HelloRetryRequest_tail ?y)))"
    using v len by (intro HelloRetryRequest.read_encode) simp_all
  ultimately show ?thesis
    using len by (simp add: b HandshakePayload_read_server_hello_def)
qed

text \<open>The type under which a message travels.\<close>

definition wire_type :: "HandshakeType \<Rightarrow> HandshakeType" where
  "wire_type typ = (case typ of HandshakeType.HelloRetryRequest \<Rightarrow> HandshakeType.ServerHello | _ \<Rightarrow> typ)"

lemma payload_arm [simp]:
  "arm c (Some (Payload_read (Reader_init bs))) = Some (c bs, adv (Reader_init bs) (length bs))"
  by (simp add: Payload_read_def)

lemma read_payload_encode:
  assumes "HandshakePayload_content dns vers typ p"
  shows "\<exists>sub. HandshakePayload_read_version dns vers (wire_type typ) (Reader_init (HandshakePayload_encode p [])) =
      Some ((typ, p), sub) \<and> rem sub = []"
proof (cases p)
  case (ServerHello x)
  with assms show ?thesis using read_server_hello_encode [of dns vers x]
    by (auto simp: HandshakePayload_read_version_def HandshakePayload_content_def wire_type_def)
next
  case (HelloRetryRequest x)
  with assms show ?thesis using read_hello_retry_request_encode [of dns vers x]
    by (auto simp: HandshakePayload_read_version_def HandshakePayload_content_def wire_type_def)
qed (use assms in \<open>auto simp: HandshakePayload_read_version_def HandshakePayload_content_def wire_type_def
  codec_simps Let_def Payload_encode_def ServerKeyExchangePayload_read_def Payload_read_def Reader_rest_rem\<close>)

lemma content_valid_type:
  "HandshakePayload_content dns vers typ p \<Longrightarrow> HandshakeType_valid (wire_type typ)"
  by (cases p) (auto simp: HandshakePayload_content_def wire_type_def)

interpretation HandshakeMessagePayload: codec HandshakeMessagePayload_encode
  "\<lambda>r. HandshakeMessagePayload_read_version dns r vers" "HandshakeMessagePayload_valid dns vers"
  for dns :: "bytes \<Rightarrow> 'd option" and vers
proof (rule tagged_codec [OF HandshakeType.codec_axioms, where tag = "\<lambda>m. wire_type (hmp_typ m)"
      and eb = "\<lambda>m bs. PayloadU24_encode (HandshakePayload_encode (hmp_payload m) []) bs"])
  show "encoder (\<lambda>m bs. PayloadU24_encode (HandshakePayload_encode (hmp_payload m) []) bs)"
    using PayloadU24.encode_appends by (intro encoder.intro) blast
next
  fix m :: "'d HandshakeMessagePayload" and bs
  show "HandshakeMessagePayload_encode m bs =
      PayloadU24_encode (HandshakePayload_encode (hmp_payload m) []) (HandshakeType_encode (wire_type (hmp_typ m)) bs)"
    by (simp add: HandshakeMessagePayload_encode_def wire_type_def PayloadU24_encode_def Let_def)
next
  fix r show "HandshakeMessagePayload_read_version dns r vers = HandshakeType_read r \<bind> (\<lambda>(typ, r). do {
     (len, r) \<leftarrow> u24_read r;
     (sub, r) \<leftarrow> Reader_sub (unat (u24_val len)) r;
     ((typ, payload), sub) \<leftarrow> HandshakePayload_read_version dns vers typ sub;
     if Reader_any_left sub then None else Some (\<lparr>hmp_typ = typ, hmp_payload = payload\<rparr>, r) })"
    by (simp add: HandshakeMessagePayload_read_version_def)
next
  fix t show "decoder (\<lambda>r. do {
     (len, r) \<leftarrow> u24_read r;
     (sub, r) \<leftarrow> Reader_sub (unat (u24_val len)) r;
     ((typ, payload), sub) \<leftarrow> HandshakePayload_read_version dns vers t sub;
     if Reader_any_left sub then None else Some (\<lparr>hmp_typ = typ, hmp_payload = payload\<rparr>, r) })"
    by (auto simp: decoder_def split: bind_split_asm if_splits dest!: u24.frame Reader_sub_moves)
      (blast intro: moves_trans)
next
  fix m show "HandshakeMessagePayload_valid dns vers m \<Longrightarrow> HandshakeType_valid (wire_type (hmp_typ m))"
    by (auto simp: HandshakeMessagePayload_valid_def intro: content_valid_type)
next
  fix m :: "'d HandshakeMessagePayload" and r
  let ?E = "\<lambda>(m :: 'd HandshakeMessagePayload) bs. PayloadU24_encode (HandshakePayload_encode (hmp_payload m) []) bs"
  let ?b = "HandshakePayload_encode (hmp_payload m) []"
  let ?l = "word_of_nat (length ?b) :: u32"
  assume v: "HandshakeMessagePayload_valid dns vers m" and t: "take (length (get_encoding ?E m)) (rem r) = get_encoding ?E m"
  have b: "get_encoding ?E m = drop 1 (u32_to_be_bytes ?l) @ ?b"
    using payload_bytes(4) [of ?b] by (simp add: get_encoding_def)
  from t obtain post where post: "rem r = (drop 1 (u32_to_be_bytes ?l) @ ?b) @ post"
    unfolding b by (rule take_prefixE)
  from v have small: "length ?b < 2 ^ 24" by (simp add: HandshakeMessagePayload_valid_def)
  have l: "unat ?l = length ?b"
    using small by (intro unat_word_of_nat_small) simp
  have "u24_read r = Some (u24 ?l, adv r 3)"
    using post small l by (intro u24_read_be) simp_all
  moreover obtain sub where "HandshakePayload_read_version dns vers (wire_type (hmp_typ m)) (Reader_init ?b) =
      Some ((hmp_typ m, hmp_payload m), sub)" "rem sub = []"
    using read_payload_encode [of dns vers "hmp_typ m" "hmp_payload m"] v by (auto simp: HandshakeMessagePayload_valid_def)
  ultimately show "do {
     (len, r) \<leftarrow> u24_read r;
     (sub, r) \<leftarrow> Reader_sub (unat (u24_val len)) r;
     ((typ, payload), sub) \<leftarrow> HandshakePayload_read_version dns vers (wire_type (hmp_typ m)) sub;
     if Reader_any_left sub then None else Some (\<lparr>hmp_typ = typ, hmp_payload = payload\<rparr>, r) } =
    Some (m, adv r (length (get_encoding ?E m)))"
    using post l by (simp add: Reader_sub_rem b)
qed

subsection \<open>Binder signing\<close>

text \<open>
  A client hello whose last extension is a pre-shared key offer is a prefix followed by the binders; the prefix
  depends on the binders only through their encoded length.
\<close>

definition binder_prefix ::
  "'d ClientHelloPayload \<Rightarrow> 'd ClientExtension list \<Rightarrow> PresharedKeyIdentities \<Rightarrow> nat \<Rightarrow> bytes" where
  "binder_prefix ch es ids n =
     (let ext_bytes = concat (map (get_encoding ClientExtension_encode) es);
          id_bytes = get_encoding PresharedKeyIdentities_encode ids
      in get_encoding ProtocolVersion_encode (chp_client_version ch) @ chp_random ch
         @ get_encoding SessionID_encode (chp_session_id ch)
         @ get_encoding (encode_vec_u16 CipherSuite_encode) (chp_cipher_suites ch)
         @ get_encoding (encode_vec_u8 Compression_encode) (chp_compression_methods ch)
         @ u16_to_be_bytes (word_of_nat (length ext_bytes + 4 + length id_bytes + n)) @ ext_bytes
         @ get_encoding ExtensionType_encode ExtensionType.PreSharedKey
         @ u16_to_be_bytes (word_of_nat (length id_bytes + n)) @ id_bytes)"

lemma PresharedKey_extension_bytes:
  "get_encoding ClientExtension_encode (ClientExtension.PresharedKey offer) =
     get_encoding ExtensionType_encode ExtensionType.PreSharedKey
     @ u16_to_be_bytes (word_of_nat (length (get_encoding PresharedKeyIdentities_encode (pko_identities offer))
         + length (get_encoding VecU16OfPayloadU8_encode (pko_binders offer))))
     @ get_encoding PresharedKeyIdentities_encode (pko_identities offer)
     @ get_encoding VecU16OfPayloadU8_encode (pko_binders offer)"
  by (simp add: get_encoding_def [of ClientExtension_encode] ClientExtension_encode_def encode_extension_conv(2)
      PresharedKeyOffer_encode_def PresharedKeyIdentities.encode_conv VecU16OfPayloadU8.encode_conv)

lemma client_hello_binders:
  assumes "chp_extensions ch = es @ [ClientExtension.PresharedKey offer]"
  shows "ClientHelloPayload_encode ch [] =
    binder_prefix ch es (pko_identities offer) (length (get_encoding VecU16OfPayloadU8_encode (pko_binders offer)))
    @ get_encoding VecU16OfPayloadU8_encode (pko_binders offer)"
  using assms ExtensionType.enum_bytes [of ExtensionType.PreSharedKey]
  by (simp add: ClientHelloPayload_encode_def binder_prefix_def Let_def ProtocolVersion.encode_conv
      Random.encode_conv SessionID.encode_conv encoder.encode_conv [OF CipherSuite.vec_u16_encoder]
      encoder.encode_conv [OF Compression.vec_u8_encoder] encoder.encode_conv [OF ClientExtension.vec_u16_encoder]
      ClientExtension.vec_u16_bytes PresharedKey_extension_bytes add.commute add.left_commute)

text \<open>The bytes that are signed: header, then the prefix.\<close>

definition binder_header :: "HandshakeType \<Rightarrow> nat \<Rightarrow> bytes" where
  "binder_header typ n =
     get_encoding HandshakeType_encode (wire_type typ) @ drop 1 (u32_to_be_bytes (word_of_nat n))"

lemma message_bytes:
  "get_encoding HandshakeMessagePayload_encode m =
     binder_header (hmp_typ m) (length (HandshakePayload_encode (hmp_payload m) []))
     @ HandshakePayload_encode (hmp_payload m) []"
  by (simp add: get_encoding_def [of HandshakeMessagePayload_encode] HandshakeMessagePayload_encode_def Let_def
      binder_header_def wire_type_def HandshakeType.encode_conv u24.encode_conv)

lemma binder_signing_bytes:
  assumes "hmp_payload m = HandshakePayload.ClientHello ch"
    and "chp_extensions ch = es @ [ClientExtension.PresharedKey offer]"
    and "n = length (get_encoding VecU16OfPayloadU8_encode (pko_binders offer))"
  shows "HandshakeMessagePayload_get_encoding_for_binder_signing m =
    binder_header (hmp_typ m) (length (binder_prefix ch es (pko_identities offer) n) + n)
      @ binder_prefix ch es (pko_identities offer) n"
    and "get_encoding HandshakeMessagePayload_encode m =
    HandshakeMessagePayload_get_encoding_for_binder_signing m
      @ get_encoding VecU16OfPayloadU8_encode (pko_binders offer)"
proof -
  have b: "HandshakePayload_encode (hmp_payload m) [] = binder_prefix ch es (pko_identities offer) n
      @ get_encoding VecU16OfPayloadU8_encode (pko_binders offer)"
    using client_hello_binders [OF assms(2)] assms(1,3) by simp
  then show signed: "HandshakeMessagePayload_get_encoding_for_binder_signing m =
    binder_header (hmp_typ m) (length (binder_prefix ch es (pko_identities offer) n) + n)
      @ binder_prefix ch es (pko_identities offer) n"
    using assms by (simp add: HandshakeMessagePayload_get_encoding_for_binder_signing_def message_bytes
        get_encoding_def [of VecU16OfPayloadU8_encode])
  from b show "get_encoding HandshakeMessagePayload_encode m =
    HandshakeMessagePayload_get_encoding_for_binder_signing m
      @ get_encoding VecU16OfPayloadU8_encode (pko_binders offer)"
    unfolding signed message_bytes using assms(3) by simp
qed

lemma set_psk_binder_last:
  assumes "chp_extensions ch = es @ [ClientExtension.PresharedKey offer]" "pko_binders offer = b # bs"
  shows "ClientHelloPayload_set_psk_binder ch bnd =
    Some (ch\<lparr>chp_extensions := es @ [ClientExtension.PresharedKey (offer\<lparr>pko_binders := bnd # bs\<rparr>)]\<rparr>)"
  using assms by (simp add: ClientHelloPayload_set_psk_binder_def list_update_append)

lemma binder_prefix_update [simp]: "binder_prefix (ch\<lparr>chp_extensions := es'\<rparr>) es ids n = binder_prefix ch es ids n"
  by (simp add: binder_prefix_def)

lemma binder_signing_ignores_binder:
  assumes "hmp_payload m = HandshakePayload.ClientHello ch"
    and "chp_extensions ch = es @ [ClientExtension.PresharedKey offer]" "pko_binders offer = b # bs"
    and "ClientHelloPayload_set_psk_binder ch bnd = Some ch'" "length bnd = length b"
  shows "HandshakeMessagePayload_get_encoding_for_binder_signing (m\<lparr>hmp_payload := HandshakePayload.ClientHello ch'\<rparr>) =
    HandshakeMessagePayload_get_encoding_for_binder_signing m"
proof -
  let ?o = "offer\<lparr>pko_binders := bnd # bs\<rparr>"
  have ch': "ch' = ch\<lparr>chp_extensions := es @ [ClientExtension.PresharedKey ?o]\<rparr>"
    using set_psk_binder_last [OF assms(2,3), of bnd] assms(4) by simp
  have len: "length (get_encoding VecU16OfPayloadU8_encode (bnd # bs)) =
      length (get_encoding VecU16OfPayloadU8_encode (b # bs))"
    using assms(5) by (simp add: VecU16OfPayloadU8_encode_def PayloadU8.vec_u16_bytes)
  have "HandshakeMessagePayload_get_encoding_for_binder_signing (m\<lparr>hmp_payload := HandshakePayload.ClientHello ch'\<rparr>) =
      binder_header (hmp_typ m) (length (binder_prefix ch' es (pko_identities ?o)
        (length (get_encoding VecU16OfPayloadU8_encode (pko_binders ?o))))
        + length (get_encoding VecU16OfPayloadU8_encode (pko_binders ?o)))
      @ binder_prefix ch' es (pko_identities ?o) (length (get_encoding VecU16OfPayloadU8_encode (pko_binders ?o)))"
    using binder_signing_bytes(1) [of "m\<lparr>hmp_payload := HandshakePayload.ClientHello ch'\<rparr>" ch' es ?o, OF _ _ refl]
    by (simp add: ch')
  then show ?thesis
    unfolding binder_signing_bytes(1) [OF assms(1,2) refl] using len assms(3) by (simp add: ch')
qed

end
