(* ===== verification/Tls_Message.thy ===== *)
theory Tls_Message
  imports Tls_Handshake
begin

text \<open>
  TLS frames: \<open>tlspuffin/src/tls/rustls/msgs/message.rs\<close>, \<open>alert.rs\<close>, \<open>ccs.rs\<close>, \<open>heartbeat.rs\<close> and the error
  type of \<open>error.rs\<close>. \<open>OpaqueMessage\<close> is what travels, \<open>PlainMessage\<close> a decrypted frame, \<open>Message\<close> a frame with
  a decoded payload. Fallible functions return a sum, \<open>Inl\<close> the error.

  \<open>OpaqueMessage_read\<close> is interpreted as a canonical codec; its errors are shown to tell apart a prefix of a
  frame (more data may help) from data that no continuation repairs.
\<close>

unbundle bit_operations_syntax

subsection \<open>Errors\<close>

datatype Error =
    InappropriateMessage "ContentType list" ContentType
  | InappropriateHandshakeMessage "HandshakeType list" HandshakeType
  | CorruptMessage
  | CorruptMessagePayload ContentType
  | NoCertificatesPresented
  | UnsupportedNameType
  | DecryptError
  | EncryptError
  | PeerIncompatibleError string
  | PeerMisbehavedError string
  | AlertReceived AlertDescription
  | InvalidCertificateEncoding
  | InvalidCertificateSignatureType
  | InvalidCertificateSignature
  | InvalidCertificateData string
  | InvalidSct string
  | General string
  | FailedToGetCurrentTime
  | FailedToGetRandomBytes
  | HandshakeNotComplete
  | PeerSentOversizedRecord
  | NoApplicationProtocol
  | BadMaxFragmentSize

definition corrupt_message :: "ContentType \<Rightarrow> Error" where
  "corrupt_message kind = CorruptMessagePayload kind"

datatype MessageError =
    TooShortForHeader
  | TooShortForLength
  | IllegalLength
  | IllegalContentType
  | IllegalProtocolVersion

subsection \<open>Alerts, change cipher spec, heartbeats\<close>

record AlertMessagePayload =
  amp_level :: AlertLevel
  amp_description :: AlertDescription

definition AlertMessagePayload_encode :: "AlertMessagePayload \<Rightarrow> bytes \<Rightarrow> bytes" where
  "AlertMessagePayload_encode a bs =
     (let bs = AlertLevel_encode (amp_level a) bs in AlertDescription_encode (amp_description a) bs)"

definition AlertMessagePayload_read :: "Reader \<Rightarrow> (AlertMessagePayload \<times> Reader) option" where
  "AlertMessagePayload_read r = do {
     (level, r) \<leftarrow> AlertLevel_read r;
     (description, r) \<leftarrow> AlertDescription_read r;
     Some (\<lparr>amp_level = level, amp_description = description\<rparr>, r) }"

datatype ChangeCipherSpecPayload = ChangeCipherSpecPayload

definition ChangeCipherSpecPayload_encode :: "ChangeCipherSpecPayload \<Rightarrow> bytes \<Rightarrow> bytes" where
  "ChangeCipherSpecPayload_encode c bs = u8_encode 1 bs"

definition ChangeCipherSpecPayload_read :: "Reader \<Rightarrow> (ChangeCipherSpecPayload \<times> Reader) option" where
  "ChangeCipherSpecPayload_read r = do { (_, r) \<leftarrow> u8_read r; Some (ChangeCipherSpecPayload, r) }"

record HeartbeatPayload =
  hb_typ :: HeartbeatMessageType
  hb_payload :: PayloadU16
  hb_fake_length :: "u16 option"

definition HeartbeatPayload_encode :: "HeartbeatPayload \<Rightarrow> bytes \<Rightarrow> bytes" where
  "HeartbeatPayload_encode h bs =
     (let bs = HeartbeatMessageType_encode (hb_typ h) bs in
      case hb_fake_length h of
        Some fake_length \<Rightarrow> u16_encode fake_length bs @ hb_payload h
      | None \<Rightarrow> PayloadU16_encode (hb_payload h) bs)"

definition HeartbeatPayload_read :: "Reader \<Rightarrow> (HeartbeatPayload \<times> Reader) option" where
  "HeartbeatPayload_read r = do {
     (typ, r) \<leftarrow> HeartbeatMessageType_read r;
     (payload, r) \<leftarrow> PayloadU16_read r;
     Some (\<lparr>hb_typ = typ, hb_payload = payload, hb_fake_length = None\<rparr>, r) }"

subsection \<open>\<open>MessagePayload\<close>\<close>

datatype 'd MessagePayload =
    Alert AlertMessagePayload
  | Handshake "'d HandshakeMessagePayload"
  | TLS12EncryptedHandshake Payload
  | ChangeCipherSpec ChangeCipherSpecPayload
  | ApplicationData Payload
  | Heartbeat HeartbeatPayload

fun MessagePayload_encode :: "'d MessagePayload \<Rightarrow> bytes \<Rightarrow> bytes" where
  "MessagePayload_encode (MessagePayload.Alert x) bs = AlertMessagePayload_encode x bs"
| "MessagePayload_encode (MessagePayload.Handshake x) bs = HandshakeMessagePayload_encode x bs"
| "MessagePayload_encode (MessagePayload.TLS12EncryptedHandshake x) bs = Payload_encode x bs"
| "MessagePayload_encode (MessagePayload.ChangeCipherSpec x) bs = ChangeCipherSpecPayload_encode x bs"
| "MessagePayload_encode (MessagePayload.ApplicationData x) bs = Payload_encode x bs"
| "MessagePayload_encode (MessagePayload.Heartbeat x) bs = HeartbeatPayload_encode x bs"

definition ok_or :: "'e \<Rightarrow> 'a option \<Rightarrow> 'e + 'a" where
  "ok_or e res = (case res of None \<Rightarrow> Inl e | Some x \<Rightarrow> Inr x)"

definition MessagePayload_new ::
  "(bytes \<Rightarrow> 'd option) \<Rightarrow> ContentType \<Rightarrow> ProtocolVersion \<Rightarrow> Payload \<Rightarrow> Error + 'd MessagePayload" where
  "MessagePayload_new dns typ vers payload =
     (let r = Reader_init payload in
      if typ = ContentType.ApplicationData then Inr (MessagePayload.ApplicationData payload)
      else ok_or (corrupt_message typ)
        (case typ of
           ContentType.Alert \<Rightarrow> map_option (\<lambda>(x, _). MessagePayload.Alert x) (AlertMessagePayload_read r)
         | ContentType.Handshake \<Rightarrow>
             (case HandshakeMessagePayload_read_version dns r vers of
                Some (x, _) \<Rightarrow> Some (MessagePayload.Handshake x)
              | None \<Rightarrow> Some (MessagePayload.TLS12EncryptedHandshake payload))
         | ContentType.ChangeCipherSpec \<Rightarrow>
             map_option (\<lambda>(x, _). MessagePayload.ChangeCipherSpec x) (ChangeCipherSpecPayload_read r)
         | ContentType.Heartbeat \<Rightarrow> map_option (\<lambda>(x, _). MessagePayload.Heartbeat x) (HeartbeatPayload_read r)
         | _ \<Rightarrow> None))"

fun MessagePayload_content_type :: "'d MessagePayload \<Rightarrow> ContentType" where
  "MessagePayload_content_type (MessagePayload.Alert _) = ContentType.Alert"
| "MessagePayload_content_type (MessagePayload.Handshake _) = ContentType.Handshake"
| "MessagePayload_content_type (MessagePayload.TLS12EncryptedHandshake _) = ContentType.Handshake"
| "MessagePayload_content_type (MessagePayload.ChangeCipherSpec _) = ContentType.ChangeCipherSpec"
| "MessagePayload_content_type (MessagePayload.ApplicationData _) = ContentType.ApplicationData"
| "MessagePayload_content_type (MessagePayload.Heartbeat _) = ContentType.Heartbeat"

subsection \<open>Frames\<close>

record OpaqueMessage =
  om_typ :: ContentType
  om_version :: ProtocolVersion
  om_payload :: Payload

definition MAX_PAYLOAD :: u16 where
  "MAX_PAYLOAD = 16384 + 2048"

definition HEADER_SIZE :: u16 where
  "HEADER_SIZE = 1 + 2 + 2"

definition MAX_WIRE_SIZE :: nat where
  "MAX_WIRE_SIZE = unat (MAX_PAYLOAD + HEADER_SIZE)"

definition OpaqueMessage_read :: "Reader \<Rightarrow> MessageError + OpaqueMessage \<times> Reader" where
  "OpaqueMessage_read r =
     (case ContentType_read r of None \<Rightarrow> Inl TooShortForHeader | Some (typ, r) \<Rightarrow>
      case ProtocolVersion_read r of None \<Rightarrow> Inl TooShortForHeader | Some (version, r) \<Rightarrow>
      case u16_read r of None \<Rightarrow> Inl TooShortForHeader | Some (len, r) \<Rightarrow>
      if typ \<noteq> ContentType.ApplicationData \<and> len = 0 then Inl IllegalLength
      else if len \<ge> MAX_PAYLOAD then Inl IllegalLength
      else if (case typ of ContentType.Unknown _ \<Rightarrow> True | _ \<Rightarrow> False) then Inl IllegalContentType
      else if (case version of ProtocolVersion.Unknown v \<Rightarrow> v AND 0xff00 \<noteq> 0x0300 | _ \<Rightarrow> False)
        then Inl IllegalProtocolVersion
      else
        case Reader_sub (unat len) r of None \<Rightarrow> Inl TooShortForLength | Some (sub, r) \<Rightarrow>
        let (payload, sub) = Payload_read sub
        in Inr (\<lparr>om_typ = typ, om_version = version, om_payload = payload\<rparr>, r))"

definition OpaqueMessage_encode :: "OpaqueMessage \<Rightarrow> bytes" where
  "OpaqueMessage_encode m =
     (let buf = [];
          buf = ContentType_encode (om_typ m) buf;
          buf = ProtocolVersion_encode (om_version m) buf;
          buf = u16_encode (word_of_nat (length (om_payload m))) buf
      in Payload_encode (om_payload m) buf)"

text \<open>The \<open>Codec\<close> instance.\<close>

definition OpaqueMessage_codec_encode :: "OpaqueMessage \<Rightarrow> bytes \<Rightarrow> bytes" where
  "OpaqueMessage_codec_encode m bs = bs @ OpaqueMessage_encode m"

definition OpaqueMessage_codec_read :: "Reader \<Rightarrow> (OpaqueMessage \<times> Reader) option" where
  "OpaqueMessage_codec_read r = (case OpaqueMessage_read r of Inl _ \<Rightarrow> None | Inr x \<Rightarrow> Some x)"

record PlainMessage =
  pm_typ :: ContentType
  pm_version :: ProtocolVersion
  pm_payload :: Payload

definition into_plain_message :: "OpaqueMessage \<Rightarrow> PlainMessage" where
  "into_plain_message m = \<lparr>pm_typ = om_typ m, pm_version = om_version m, pm_payload = om_payload m\<rparr>"

definition into_unencrypted_opaque :: "PlainMessage \<Rightarrow> OpaqueMessage" where
  "into_unencrypted_opaque m = \<lparr>om_typ = pm_typ m, om_version = pm_version m, om_payload = pm_payload m\<rparr>"

record 'd Message =
  msg_version :: ProtocolVersion
  msg_payload :: "'d MessagePayload"

definition PlainMessage_from :: "'d Message \<Rightarrow> PlainMessage" where
  "PlainMessage_from msg =
     (let typ = MessagePayload_content_type (msg_payload msg);
          payload =
            (case msg_payload msg of
               MessagePayload.ApplicationData payload \<Rightarrow> payload
             | _ \<Rightarrow> MessagePayload_encode (msg_payload msg) [])
      in \<lparr>pm_typ = typ, pm_version = msg_version msg, pm_payload = payload\<rparr>)"

definition Message_is_handshake_type :: "'d Message \<Rightarrow> HandshakeType \<Rightarrow> bool" where
  "Message_is_handshake_type m hstyp =
     (case msg_payload m of MessagePayload.Handshake hsp \<Rightarrow> hmp_typ hsp = hstyp | _ \<Rightarrow> False)"

definition Message_build_alert :: "AlertLevel \<Rightarrow> AlertDescription \<Rightarrow> 'd Message" where
  "Message_build_alert level desc =
     \<lparr>msg_version = ProtocolVersion.TLSv1_2,
      msg_payload = MessagePayload.Alert \<lparr>amp_level = level, amp_description = desc\<rparr>\<rparr>"

definition Message_build_key_update_notify :: "'d Message" where
  "Message_build_key_update_notify =
     \<lparr>msg_version = ProtocolVersion.TLSv1_3,
      msg_payload = MessagePayload.Handshake HandshakeMessagePayload_build_key_update_notify\<rparr>"

definition Message_try_from :: "(bytes \<Rightarrow> 'd option) \<Rightarrow> PlainMessage \<Rightarrow> Error + 'd Message" where
  "Message_try_from dns plain =
     (case MessagePayload_new dns (pm_typ plain) (pm_version plain) (pm_payload plain) of
        Inl e \<Rightarrow> Inl e
      | Inr payload \<Rightarrow> Inr \<lparr>msg_version = pm_version plain, msg_payload = payload\<rparr>)"

definition Message_try_from_opaque :: "(bytes \<Rightarrow> 'd option) \<Rightarrow> OpaqueMessage \<Rightarrow> Error + 'd Message" where
  "Message_try_from_opaque dns m = Message_try_from dns (into_plain_message m)"

subsection \<open>Contracts\<close>

text \<open>The frames a peer may send: what \<open>OpaqueMessage_read\<close> accepts.\<close>

definition version_ok :: "ProtocolVersion \<Rightarrow> bool" where
  "version_ok v \<longleftrightarrow> ProtocolVersion_valid v \<and>
     (case v of ProtocolVersion.Unknown x \<Rightarrow> x AND 0xff00 = 0x0300 | _ \<Rightarrow> True)"

definition type_ok :: "ContentType \<Rightarrow> bool" where
  "type_ok t \<longleftrightarrow> (case t of ContentType.Unknown _ \<Rightarrow> False | _ \<Rightarrow> True)"

definition OpaqueMessage_valid :: "OpaqueMessage \<Rightarrow> bool" where
  "OpaqueMessage_valid m \<longleftrightarrow> type_ok (om_typ m) \<and> version_ok (om_version m)
     \<and> length (om_payload m) < 18432 \<and> (om_typ m = ContentType.ApplicationData \<or> om_payload m \<noteq> [])"

lemma wire_constants [simp]: "unat MAX_PAYLOAD = 18432" "MAX_WIRE_SIZE = 18437"
  by (simp_all add: MAX_PAYLOAD_def MAX_WIRE_SIZE_def HEADER_SIZE_def)

lemma type_ok_valid: "type_ok t \<Longrightarrow> ContentType_valid t"
  by (cases t) (auto simp: type_ok_def)

lemma OpaqueMessage_bytes:
  "OpaqueMessage_encode m = ContentType_get (om_typ m) # u16_to_be_bytes (ProtocolVersion_get (om_version m))
     @ u16_to_be_bytes (word_of_nat (length (om_payload m))) @ om_payload m"
  by (simp add: OpaqueMessage_encode_def Payload_encode_def u16_encode_def ContentType.encode_conv
      ProtocolVersion.encode_conv ContentType.enum_bytes ProtocolVersion.enum_bytes u16.encode_conv put_u16_def)

text \<open>The header, as a function of the bytes in front of the reader.\<close>

definition hdr_typ :: "bytes \<Rightarrow> ContentType" where
  "hdr_typ bs = ContentType_from (hd bs)"

definition hdr_version :: "bytes \<Rightarrow> ProtocolVersion" where
  "hdr_version bs = ProtocolVersion_from (the (u16_from_be_bytes (take 2 (drop 1 bs))))"

definition hdr_len :: "bytes \<Rightarrow> nat" where
  "hdr_len bs = unat (the (u16_from_be_bytes (take 2 (drop 3 bs))))"

definition hdr_error :: "bytes \<Rightarrow> MessageError option" where
  "hdr_error bs =
     (if hdr_typ bs \<noteq> ContentType.ApplicationData \<and> hdr_len bs = 0 then Some IllegalLength
      else if 18432 \<le> hdr_len bs then Some IllegalLength
      else if \<not> type_ok (hdr_typ bs) then Some IllegalContentType
      else if \<not> version_ok (hdr_version bs) then Some IllegalProtocolVersion
      else None)"

lemma u8_read_conv: "u8_read r = (if rem r = [] then None else Some (hd (rem r), adv r 1))"
  by (cases "rem r") (auto simp: u8_read_def Reader_take_rem)

lemma u16_from_be_length: "u16_from_be_bytes bs \<noteq> None \<longleftrightarrow> length bs = 2"
  by (auto simp: from_be_bytes_Some_iff)

lemma u16_read_conv:
  "u16_read r = (if length (rem r) < 2 then None else Some (the (u16_from_be_bytes (take 2 (rem r))), adv r 2))"
  using u16_from_be_length [of "take 2 (rem r)"]
  by (auto simp: u16_read_def Reader_take_rem decode_u16_def split: if_splits)

lemma version_ok_from:
  "version_ok (ProtocolVersion_from x) \<longleftrightarrow>
     (case ProtocolVersion_from x of ProtocolVersion.Unknown v \<Rightarrow> v AND 0xff00 = 0x0300 | _ \<Rightarrow> True)"
  by (simp add: version_ok_def ProtocolVersion.get_from)

lemma OpaqueMessage_read_conv:
  "OpaqueMessage_read r =
     (if length (rem r) < 5 then Inl TooShortForHeader
      else case hdr_error (rem r) of
        Some e \<Rightarrow> Inl e
      | None \<Rightarrow>
          if length (rem r) < 5 + hdr_len (rem r) then Inl TooShortForLength
          else Inr (\<lparr>om_typ = hdr_typ (rem r), om_version = hdr_version (rem r),
            om_payload = take (hdr_len (rem r)) (drop 5 (rem r))\<rparr>, adv r (5 + hdr_len (rem r))))"
proof (cases "length (rem r) < 5")
  case True
  then show ?thesis
    by (auto simp: OpaqueMessage_read_def enum_u8_read_def enum_u16_read_def u8_read_conv u16_read_conv)
next
  case False
  let ?l = "the (u16_from_be_bytes (take 2 (drop 3 (rem r))))"
  have "(?l = 0) = (hdr_len (rem r) = 0)" "(MAX_PAYLOAD \<le> ?l) = (18432 \<le> hdr_len (rem r))"
    by (simp_all add: hdr_len_def unat_eq_zero word_le_nat_alt)
  moreover from False have "ContentType_read r = Some (hdr_typ (rem r), adv r 1)"
    "ProtocolVersion_read (adv r 1) = Some (hdr_version (rem r), adv r 3)"
    "u16_read (adv r 3) = Some (?l, adv r 5)"
    by (auto simp: enum_u8_read_def enum_u16_read_def u8_read_conv u16_read_conv hdr_typ_def hdr_version_def
        eval_nat_numeral)
  moreover have "(case hdr_typ (rem r) of ContentType.Unknown _ \<Rightarrow> True | _ \<Rightarrow> False) = (\<not> type_ok (hdr_typ (rem r)))"
    by (simp add: type_ok_def split: ContentType.split)
  moreover have "(case hdr_version (rem r) of ProtocolVersion.Unknown v \<Rightarrow> v AND 0xff00 \<noteq> 0x0300 | _ \<Rightarrow> False) =
      (\<not> version_ok (hdr_version (rem r)))"
    unfolding hdr_version_def version_ok_from by (simp split: ProtocolVersion.split)
  moreover have "unat ?l = hdr_len (rem r)" by (simp add: hdr_len_def)
  ultimately show ?thesis
    using False
    by (simp add: OpaqueMessage_read_def hdr_error_def Reader_sub_rem Payload_read_def Reader_rest_rem) (auto simp: not_less)?
qed

lemma OpaqueMessage_encode_length [simp]: "length (OpaqueMessage_encode m) = 5 + length (om_payload m)"
  by (simp add: OpaqueMessage_bytes)

lemma hdr_bytes:
  fixes post :: bytes
  assumes "length (om_payload m) < 65536" "type_ok (om_typ m)" "ProtocolVersion_valid (om_version m)"
  shows "hdr_typ (OpaqueMessage_encode m @ post) = om_typ m"
    "hdr_version (OpaqueMessage_encode m @ post) = om_version m"
    "hdr_len (OpaqueMessage_encode m @ post) = length (om_payload m)"
proof -
  have u: "unat (word_of_nat (length (om_payload m)) :: u16) = length (om_payload m)"
    using assms(1) by (intro unat_word_of_nat_small) simp
  show "hdr_typ (OpaqueMessage_encode m @ post) = om_typ m"
    using type_ok_valid [OF assms(2)] by (simp add: hdr_typ_def OpaqueMessage_bytes)
  show "hdr_version (OpaqueMessage_encode m @ post) = om_version m"
    "hdr_len (OpaqueMessage_encode m @ post) = length (om_payload m)"
    using assms(3) u by (simp_all add: hdr_version_def hdr_len_def OpaqueMessage_bytes numeral_3_eq_3)
qed

lemma hdr_error_valid:
  assumes "OpaqueMessage_valid m"
  shows "hdr_error (OpaqueMessage_encode m @ post) = None"
proof -
  have "length (om_payload m) < 65536" "type_ok (om_typ m)" "ProtocolVersion_valid (om_version m)"
    using assms by (auto simp: OpaqueMessage_valid_def version_ok_def)
  from hdr_bytes [OF this, of post] assms show ?thesis
    by (auto simp: hdr_error_def OpaqueMessage_valid_def)
qed

text \<open>A frame at the front of the buffer is read, whatever follows it.\<close>

lemma OpaqueMessage_read_encode:
  assumes "OpaqueMessage_valid m" "rem r = OpaqueMessage_encode m @ post"
  shows "OpaqueMessage_read r = Inr (m, adv r (length (OpaqueMessage_encode m)))"
proof -
  have "length (om_payload m) < 65536" "type_ok (om_typ m)" "ProtocolVersion_valid (om_version m)"
    using assms(1) by (auto simp: OpaqueMessage_valid_def version_ok_def)
  note h = hdr_bytes [OF this, of post]
  have "drop 5 (OpaqueMessage_encode m @ post) = om_payload m @ post"
    by (simp add: OpaqueMessage_bytes eval_nat_numeral u16_to_be_bytes_def)
  then show ?thesis
    using h hdr_error_valid [OF assms(1), of post] by (simp add: OpaqueMessage_read_conv assms(2))
qed

text \<open>Whatever is read is a valid frame, and its encoding is what was consumed.\<close>

lemma OpaqueMessage_encode_read:
  assumes "OpaqueMessage_read r = Inr (m, r')"
  shows "OpaqueMessage_valid m" "take (length (OpaqueMessage_encode m)) (rem r) = OpaqueMessage_encode m"
    "r' = adv r (length (OpaqueMessage_encode m))"
proof -
  let ?b = "rem r" and ?n = "hdr_len (rem r)"
  from assms have ok: "5 \<le> length ?b" "hdr_error ?b = None" "5 + ?n \<le> length ?b"
    and m: "m = \<lparr>om_typ = hdr_typ ?b, om_version = hdr_version ?b, om_payload = take ?n (drop 5 ?b)\<rparr>"
    and r': "r' = adv r (5 + ?n)"
    by (auto simp: OpaqueMessage_read_conv split: if_splits option.splits)
  have len: "length (om_payload m) = ?n" using ok by (simp add: m)
  from ok(2) show "OpaqueMessage_valid m"
    using len by (auto simp: hdr_error_def OpaqueMessage_valid_def m split: if_splits)
  have l5: "length (take 2 (drop 1 ?b)) = 2" "length (take 2 (drop 3 ?b)) = 2" using ok(1) by auto
  then obtain v w where v: "u16_from_be_bytes (take 2 (drop 1 ?b)) = Some v"
    and w: "u16_from_be_bytes (take 2 (drop 3 ?b)) = Some w"
    using u16_from_be_length by blast
  have "ContentType_get (om_typ m) = hd ?b"
    "u16_to_be_bytes (ProtocolVersion_get (om_version m)) = take 2 (drop 1 ?b)"
    "u16_to_be_bytes (word_of_nat (length (om_payload m))) = take 2 (drop 3 ?b)"
    using u16_to_from_be [OF v] u16_to_from_be [OF w] v w len
    by (simp_all add: m hdr_typ_def hdr_version_def hdr_len_def ContentType.get_from ProtocolVersion.get_from)
  then have "OpaqueMessage_encode m = hd ?b # take 2 (drop 1 ?b) @ take 2 (drop 3 ?b) @ take ?n (drop 5 ?b)"
    by (simp add: OpaqueMessage_bytes m)
  also have "\<dots> = take (5 + ?n) ?b"
  proof -
    have n: "5 + ?n = 1 + (2 + (2 + ?n))" by simp
    have "take (5 + ?n) ?b = take 1 ?b @ take 2 (drop 1 ?b) @ take 2 (drop 3 ?b) @ take ?n (drop 5 ?b)"
      unfolding n take_add drop_drop by simp
    moreover have "take 1 ?b = [hd ?b]" using ok(1) by (cases ?b) auto
    ultimately show ?thesis by simp
  qed
  finally have e: "OpaqueMessage_encode m = take (5 + ?n) ?b" .
  then have "length (OpaqueMessage_encode m) = 5 + ?n" using ok(3) by simp
  with e r' show "take (length (OpaqueMessage_encode m)) (rem r) = OpaqueMessage_encode m"
    "r' = adv r (length (OpaqueMessage_encode m))" by simp_all
qed

interpretation OpaqueMessage: canonical_codec OpaqueMessage_codec_encode OpaqueMessage_codec_read OpaqueMessage_valid
proof -
  have b: "get_encoding OpaqueMessage_codec_encode m = OpaqueMessage_encode m" for m
    by (simp add: get_encoding_def OpaqueMessage_codec_encode_def)
  show "canonical_codec OpaqueMessage_codec_encode OpaqueMessage_codec_read OpaqueMessage_valid"
  proof unfold_locales
    fix m bs show "OpaqueMessage_codec_encode m bs = bs @ OpaqueMessage_codec_encode m []"
      by (simp add: OpaqueMessage_codec_encode_def)
  next
    fix r m r' assume "OpaqueMessage_codec_read r = Some (m, r')"
    then show "advances r r'"
      by (auto simp: OpaqueMessage_codec_read_def OpaqueMessage_read_conv split: if_splits option.splits)
  next
    fix m r assume "OpaqueMessage_valid m"
      "take (length (get_encoding OpaqueMessage_codec_encode m)) (rem r) = get_encoding OpaqueMessage_codec_encode m"
    then show "OpaqueMessage_codec_read r = Some (m, adv r (length (get_encoding OpaqueMessage_codec_encode m)))"
      unfolding b OpaqueMessage_codec_read_def by (metis OpaqueMessage_read_encode sum.simps(6) append_take_drop_id)
  next
    fix r m r' assume "OpaqueMessage_codec_read r = Some (m, r')"
    then show "OpaqueMessage_valid m
        \<and> take (length (get_encoding OpaqueMessage_codec_encode m)) (rem r) = get_encoding OpaqueMessage_codec_encode m
        \<and> r' = adv r (length (get_encoding OpaqueMessage_codec_encode m))"
      unfolding b OpaqueMessage_codec_read_def using OpaqueMessage_encode_read [of r m r']
      by (auto split: sum.splits)
  qed
qed

text \<open>The payloads of the small protocols.\<close>

interpretation AlertMessagePayload: canonical_codec AlertMessagePayload_encode AlertMessagePayload_read
  "\<lambda>a. AlertLevel_valid (amp_level a) \<and> AlertDescription_valid (amp_description a)"
  by (rule canonical_iso [OF canonical_pair [OF AlertLevel.canonical_codec_axioms AlertDescription.canonical_codec_axioms],
      where f = "\<lambda>a. (amp_level a, amp_description a)" and g = "\<lambda>(a, b). \<lparr>amp_level = a, amp_description = b\<rparr>"])
    (auto simp: AlertMessagePayload_encode_def AlertMessagePayload_read_def pair_encode_def pair_read_def
      split: bind_splits)

lemma ChangeCipherSpecPayload_unique: "c = ChangeCipherSpecPayload"
  by (cases c) simp

interpretation ChangeCipherSpecPayload: codec ChangeCipherSpecPayload_encode ChangeCipherSpecPayload_read "\<lambda>_. True"
  by (rule codec_iso [OF u8.codec_axioms, where f = "\<lambda>_. 1" and g = "\<lambda>_. ChangeCipherSpecPayload"])
    (auto simp: ChangeCipherSpecPayload_encode_def ChangeCipherSpecPayload_read_def
      intro: ChangeCipherSpecPayload_unique [symmetric] split: bind_splits)

definition HeartbeatPayload_valid :: "HeartbeatPayload \<Rightarrow> bool" where
  "HeartbeatPayload_valid h \<longleftrightarrow>
     HeartbeatMessageType_valid (hb_typ h) \<and> length (hb_payload h) \<le> 65535 \<and> hb_fake_length h = None"

text \<open>A payload with a fake length is an encoder too: the length field is the one that was asked for.\<close>

lemma HeartbeatPayload_bytes:
  "get_encoding HeartbeatPayload_encode h = HeartbeatMessageType_get (hb_typ h) #
     u16_to_be_bytes (case hb_fake_length h of None \<Rightarrow> word_of_nat (length (hb_payload h)) | Some n \<Rightarrow> n) @ hb_payload h"
  by (simp add: get_encoding_def [of HeartbeatPayload_encode] HeartbeatPayload_encode_def
      HeartbeatMessageType.encode_conv HeartbeatMessageType.enum_bytes u16.encode_conv PayloadU16.encode_conv
      split: option.split)

interpretation HeartbeatPayload: codec HeartbeatPayload_encode HeartbeatPayload_read HeartbeatPayload_valid
proof unfold_locales
  fix h bs show "HeartbeatPayload_encode h bs = bs @ HeartbeatPayload_encode h []"
    by (simp add: HeartbeatPayload_encode_def HeartbeatMessageType.encode_conv u16.encode_conv
        PayloadU16.encode_conv Let_def split: option.split)
next
  fix r h r' assume "HeartbeatPayload_read r = Some (h, r')"
  then show "advances r r'"
    by (auto simp: HeartbeatPayload_read_def split: bind_split_asm
        dest!: HeartbeatMessageType.progress PayloadU16.frame) (blast intro: advances_trans)
next
  fix h r assume v: "HeartbeatPayload_valid h"
    and t: "take (length (get_encoding HeartbeatPayload_encode h)) (rem r) = get_encoding HeartbeatPayload_encode h"
  let ?p = "get_encoding PayloadU16_encode (hb_payload h)"
  have b: "get_encoding HeartbeatPayload_encode h = HeartbeatMessageType_get (hb_typ h) # ?p"
    using v by (simp add: HeartbeatPayload_bytes HeartbeatPayload_valid_def)
  from t obtain post where post: "rem r = (HeartbeatMessageType_get (hb_typ h) # ?p) @ post"
    unfolding b by (rule take_prefixE)
  have "HeartbeatMessageType_read r = Some (hb_typ h, adv r 1)"
    using HeartbeatMessageType.read_encode [of "hb_typ h" r] v post
    by (simp add: HeartbeatPayload_valid_def HeartbeatMessageType.enum_bytes)
  moreover have "PayloadU16_read (adv r 1) = Some (hb_payload h, adv (adv r 1) (length ?p))"
    using v post by (intro PayloadU16.read_encode) (simp_all add: HeartbeatPayload_valid_def)
  ultimately show "HeartbeatPayload_read r = Some (h, adv r (length (get_encoding HeartbeatPayload_encode h)))"
    using v by (simp add: HeartbeatPayload_read_def b HeartbeatPayload_valid_def)
qed

subsection \<open>What the errors of \<open>OpaqueMessage::read\<close> mean\<close>

lemma hdr_append:
  assumes "5 \<le> length bs"
  shows "hdr_typ (bs @ ext) = hdr_typ bs" "hdr_version (bs @ ext) = hdr_version bs"
    "hdr_len (bs @ ext) = hdr_len bs" "hdr_error (bs @ ext) = hdr_error bs"
proof -
  show h: "hdr_typ (bs @ ext) = hdr_typ bs" "hdr_version (bs @ ext) = hdr_version bs"
    "hdr_len (bs @ ext) = hdr_len bs"
    using assms by (auto simp: hdr_typ_def hdr_version_def hdr_len_def hd_append)
  then show "hdr_error (bs @ ext) = hdr_error bs" by (simp add: hdr_error_def)
qed

lemma read_illegal_stable:
  assumes "OpaqueMessage_read (Reader_init bs) = Inl e" "e \<noteq> TooShortForHeader" "e \<noteq> TooShortForLength"
  shows "OpaqueMessage_read (Reader_init (bs @ ext)) = Inl e"
  using assms hdr_append [of bs ext] by (auto simp: OpaqueMessage_read_conv split: if_splits option.splits)

lemma read_short_completable:
  assumes "OpaqueMessage_read (Reader_init bs) = Inl TooShortForLength"
  shows "\<exists>ext m. OpaqueMessage_valid m \<and> bs @ ext = OpaqueMessage_encode m"
proof -
  from assms have len: "5 \<le> length bs" and err: "hdr_error bs = None" and short: "length bs < 5 + hdr_len bs"
    by (auto simp: OpaqueMessage_read_conv hdr_error_def split: if_splits option.splits)
  let ?ext = "replicate (5 + hdr_len bs - length bs) 0"
  have "\<exists>m r'. OpaqueMessage_read (Reader_init (bs @ ?ext)) = Inr (m, r') \<and> r' = adv (Reader_init (bs @ ?ext)) (length (bs @ ?ext))"
    using len err short hdr_append [OF len, of ?ext] by (simp add: OpaqueMessage_read_conv)
  then obtain m where rd: "OpaqueMessage_read (Reader_init (bs @ ?ext)) =
      Inr (m, adv (Reader_init (bs @ ?ext)) (length (bs @ ?ext)))" by blast
  from OpaqueMessage_encode_read [OF this] have "OpaqueMessage_valid m"
    "take (length (OpaqueMessage_encode m)) (bs @ ?ext) = OpaqueMessage_encode m"
    "adv (Reader_init (bs @ ?ext)) (length (bs @ ?ext)) = adv (Reader_init (bs @ ?ext)) (length (OpaqueMessage_encode m))"
    by simp_all
  moreover from this(3) have "length (OpaqueMessage_encode m) = length (bs @ ?ext)"
    by (simp add: adv_def Reader_init_def)
  ultimately have "OpaqueMessage_valid m \<and> bs @ ?ext = OpaqueMessage_encode m" by (metis take_all order_refl)
  then show ?thesis by blast
qed

lemma read_proper_prefix:
  assumes "OpaqueMessage_valid m" "bs @ ext = OpaqueMessage_encode m" "ext \<noteq> []"
  shows "OpaqueMessage_read (Reader_init bs) \<in> {Inl TooShortForHeader, Inl TooShortForLength}"
proof (cases "length bs < 5")
  case False
  have v: "length (om_payload m) < 65536" "type_ok (om_typ m)" "ProtocolVersion_valid (om_version m)"
    using assms(1) by (auto simp: OpaqueMessage_valid_def version_ok_def)
  have "hdr_error bs = None" "hdr_len bs = length (om_payload m)"
    using False hdr_append [of bs ext] hdr_error_valid [OF assms(1), of "[]"] hdr_bytes(3) [OF v, of "[]"] assms(2)
    by auto
  moreover have "length bs < 5 + length (om_payload m)"
    using arg_cong [OF assms(2), of length] assms(3) by (cases ext) auto
  ultimately show ?thesis using False by (simp add: OpaqueMessage_read_conv)
qed (simp add: OpaqueMessage_read_conv)

subsection \<open>Payloads round trip\<close>

fun MessagePayload_valid :: "(bytes \<Rightarrow> 'd option) \<Rightarrow> ProtocolVersion \<Rightarrow> 'd MessagePayload \<Rightarrow> bool" where
  "MessagePayload_valid dns vers (MessagePayload.Alert a) \<longleftrightarrow>
     AlertLevel_valid (amp_level a) \<and> AlertDescription_valid (amp_description a)"
| "MessagePayload_valid dns vers (MessagePayload.Handshake h) \<longleftrightarrow> HandshakeMessagePayload_valid dns vers h"
| "MessagePayload_valid dns vers (MessagePayload.TLS12EncryptedHandshake p) \<longleftrightarrow>
     HandshakeMessagePayload_read_version dns (Reader_init p) vers = None"
| "MessagePayload_valid dns vers (MessagePayload.ChangeCipherSpec _) \<longleftrightarrow> True"
| "MessagePayload_valid dns vers (MessagePayload.ApplicationData _) \<longleftrightarrow> True"
| "MessagePayload_valid dns vers (MessagePayload.Heartbeat h) \<longleftrightarrow> HeartbeatPayload_valid h"

lemma Message_try_from_PlainMessage:
  assumes "MessagePayload_valid dns (msg_version m) (msg_payload m)"
  shows "Message_try_from dns (PlainMessage_from m) = Inr m"
  using assms
  by (cases m; cases "msg_payload m")
    (auto simp: Message_try_from_def PlainMessage_from_def MessagePayload_new_def ok_or_def codec_simps Payload_encode_def
      HandshakeMessagePayload.read_init)

end
