(* ===== verification/Tls_Deframer.thy ===== *)
theory Tls_Deframer
  imports Tls_Message
begin

text \<open>
  \<open>MessageDeframer\<close> of \<open>tlspuffin/src/tls/rustls/msgs/deframer.rs\<close>: a fixed buffer of which a prefix is in
  use, and a queue of the frames found so far. \<open>io::Read\<close> is a function from the space that is left to an
  error or the bytes it delivered.

  The specification \<open>deframe\<close> is a function from the whole input to its frames, the incomplete rest and
  whether the input is broken. The inductive relation \<open>feeds\<close> describes any sequence of reads that together
  deliver an input, in pieces of any size; the deframer refines the specification along it, so what it
  outputs does not depend on how the input was cut.
\<close>

record MessageDeframer =
  df_frames :: "OpaqueMessage list"
  df_desynced :: bool
  df_buf :: bytes
  df_used :: nat

datatype BufferContents = Invalid | Partial | Valid

definition MessageDeframer_new :: MessageDeframer where
  "MessageDeframer_new = \<lparr>df_frames = [], df_desynced = False, df_buf = replicate MAX_WIRE_SIZE 0, df_used = 0\<rparr>"

definition buf_consume :: "MessageDeframer \<Rightarrow> nat \<Rightarrow> MessageDeframer" where
  "buf_consume d taken =
     (if taken < df_used d
      then d\<lparr>df_buf := overwrite 0 (drop taken (take (df_used d) (df_buf d))) (df_buf d), df_used := df_used d - taken\<rparr>
      else if taken = df_used d then d\<lparr>df_used := 0\<rparr>
      else d)"

definition try_deframe_one :: "MessageDeframer \<Rightarrow> BufferContents \<times> MessageDeframer" where
  "try_deframe_one d =
     (let rd = Reader_init (take (df_used d) (df_buf d)) in
      case OpaqueMessage_read rd of
        Inr (m, rd) \<Rightarrow>
          let used = Reader_used rd;
              d = d\<lparr>df_frames := df_frames d @ [m]\<rparr>;
              d = buf_consume d used
          in (BufferContents.Valid, d)
      | Inl TooShortForHeader \<Rightarrow> (BufferContents.Partial, d)
      | Inl TooShortForLength \<Rightarrow> (BufferContents.Partial, d)
      | Inl _ \<Rightarrow> (BufferContents.Invalid, d))"

lemma OpaqueMessage_read_consumes:
  assumes "OpaqueMessage_read (Reader_init bs) = Inr (m, r)"
  shows "Reader_used r = length (OpaqueMessage_encode m) \<and> 5 \<le> Reader_used r \<and> Reader_used r \<le> length bs
    \<and> rem r = drop (Reader_used r) bs"
  using OpaqueMessage_encode_read [OF assms] length_take_eq_iff [of "OpaqueMessage_encode m" bs] by simp_all

lemma try_deframe_one_shrinks: "try_deframe_one d = (BufferContents.Valid, d') \<Longrightarrow> df_used d' < df_used d"
  by (auto simp: try_deframe_one_def buf_consume_def Let_def split: sum.splits MessageError.splits if_splits
      dest!: OpaqueMessage_read_consumes)

text \<open>The \<open>loop\<close> of \<open>read\<close>.\<close>

function deframe_loop :: "MessageDeframer \<Rightarrow> MessageDeframer" where
  "deframe_loop d =
     (case try_deframe_one d of
        (BufferContents.Invalid, d) \<Rightarrow> d\<lparr>df_desynced := True\<rparr>
      | (BufferContents.Valid, d) \<Rightarrow> deframe_loop d
      | (BufferContents.Partial, d) \<Rightarrow> d)"
  by pat_completeness auto
termination
  by (relation "measure df_used") (auto dest: try_deframe_one_shrinks [OF sym])

declare deframe_loop.simps [simp del]

definition MessageDeframer_read ::
  "MessageDeframer \<Rightarrow> (nat \<Rightarrow> 'e + bytes) \<Rightarrow> ('e + nat) \<times> MessageDeframer" where
  "MessageDeframer_read d rd =
     (case rd (length (df_buf d) - df_used d) of
        Inl e \<Rightarrow> (Inl e, d)
      | Inr bs \<Rightarrow>
          let new_bytes = length bs;
              d = d\<lparr>df_buf := overwrite (df_used d) bs (df_buf d), df_used := df_used d + new_bytes\<rparr>
          in (Inr new_bytes, deframe_loop d))"

definition has_pending :: "MessageDeframer \<Rightarrow> bool" where
  "has_pending d \<longleftrightarrow> df_frames d \<noteq> [] \<or> df_used d > 0"

subsection \<open>Specification\<close>

function deframe :: "bytes \<Rightarrow> OpaqueMessage list \<times> bytes \<times> bool" where
  "deframe bs =
     (case OpaqueMessage_read (Reader_init bs) of
        Inr (m, r) \<Rightarrow> (case deframe (rem r) of (ms, rest, broken) \<Rightarrow> (m # ms, rest, broken))
      | Inl TooShortForHeader \<Rightarrow> ([], bs, False)
      | Inl TooShortForLength \<Rightarrow> ([], bs, False)
      | Inl _ \<Rightarrow> ([], bs, True))"
  by pat_completeness auto
termination
  by (relation "measure length") (auto dest!: OpaqueMessage_read_consumes)

declare deframe.simps [simp del]

text \<open>The bytes that wait for more, and the type's invariant.\<close>

definition pending :: "MessageDeframer \<Rightarrow> bytes" where
  "pending d = take (df_used d) (df_buf d)"

definition deframer_ok :: "MessageDeframer \<Rightarrow> bool" where
  "deframer_ok d \<longleftrightarrow> length (df_buf d) = MAX_WIRE_SIZE \<and> df_used d \<le> MAX_WIRE_SIZE"

lemma deframe_frame:
  "OpaqueMessage_valid m \<Longrightarrow> deframe (OpaqueMessage_encode m @ bs) =
     (case deframe bs of (ms, rest, broken) \<Rightarrow> (m # ms, rest, broken))"
  using OpaqueMessage_read_encode [of m "Reader_init (OpaqueMessage_encode m @ bs)" bs]
  by (subst deframe.simps) simp

lemma deframe_frames:
  "list_all OpaqueMessage_valid ms \<Longrightarrow>
     deframe (concat (map OpaqueMessage_encode ms)) = (ms, [], False)"
proof (induction ms)
  case Nil
  then show ?case by (subst deframe.simps) (simp add: OpaqueMessage_read_conv)
qed (simp add: deframe_frame)

lemma deframe_error:
  "OpaqueMessage_read (Reader_init bs) = Inl e \<Longrightarrow>
     deframe bs = ([], bs, e \<notin> {TooShortForHeader, TooShortForLength})"
  by (cases e) (simp_all add: deframe.simps [of bs])

text \<open>Input that arrives later only adds frames.\<close>

lemma deframe_append:
  "deframe bs = (ms, rest, broken) \<Longrightarrow>
     deframe (bs @ ext) = (case deframe (rest @ ext) of (ms', rest', broken') \<Rightarrow> (ms @ ms', rest', broken'))
     \<and> (broken \<longrightarrow> deframe (rest @ ext) = ([], rest @ ext, True))"
proof (induction bs arbitrary: ms rule: deframe.induct)
  case (1 bs)
  show ?case
  proof (cases "OpaqueMessage_read (Reader_init bs)")
    case (Inl e)
    with "1.prems" show ?thesis
      using read_illegal_stable [OF Inl, of ext]
      by (cases e) (auto simp: deframe.simps [of bs] deframe.simps [of "rest @ ext"])
  next
    case (Inr x)
    then obtain m r where rd: "OpaqueMessage_read (Reader_init bs) = Inr (m, r)" by (cases x) auto
    from "1.prems" rd obtain ms' where d: "deframe (rem r) = (ms', rest, broken)" and ms: "ms = m # ms'"
      by (auto simp: deframe.simps [of bs] split: prod.splits)
    from OpaqueMessage_encode_read [OF rd]
    have "bs @ ext = OpaqueMessage_encode m @ (rem r @ ext)" "OpaqueMessage_valid m"
      by (simp_all del: append_assoc add: append_assoc [symmetric]) (metis append_take_drop_id)
    with "1.IH" [OF rd refl d] ms show ?thesis
      by (auto simp: deframe_frame split: prod.splits)
  qed
qed

subsection \<open>Refinement\<close>

lemma buf_consume_pending:
  assumes "deframer_ok d" "n \<le> df_used d"
  shows "pending (buf_consume d n) = drop n (pending d)" "deframer_ok (buf_consume d n)"
  using assms by (auto simp: pending_def deframer_ok_def buf_consume_def overwrite_def min_def)

lemma try_deframe_one_cases:
  assumes "deframer_ok d"
  shows "(case OpaqueMessage_read (Reader_init (pending d)) of
      Inr (m, r) \<Rightarrow> \<exists>d'. try_deframe_one d = (BufferContents.Valid, d') \<and> deframer_ok d' \<and> pending d' = rem r
        \<and> df_frames d' = df_frames d @ [m] \<and> df_desynced d' = df_desynced d
    | Inl e \<Rightarrow> try_deframe_one d =
        (if e \<in> {TooShortForHeader, TooShortForLength} then BufferContents.Partial else BufferContents.Invalid, d))"
proof (cases "OpaqueMessage_read (Reader_init (pending d))")
  case (Inl e)
  then show ?thesis by (cases e) (auto simp: try_deframe_one_def pending_def)
next
  case (Inr x)
  then obtain m r where x: "x = (m, r)" by (cases x)
  with OpaqueMessage_read_consumes [of "pending d" m r] Inr
  have u: "Reader_used r \<le> df_used d" "rem r = drop (Reader_used r) (pending d)"
    by (auto simp: pending_def)
  let ?d = "d\<lparr>df_frames := df_frames d @ [m]\<rparr>"
  have "try_deframe_one d = (BufferContents.Valid, buf_consume ?d (Reader_used r))"
    using Inr x by (simp add: try_deframe_one_def pending_def Let_def)
  moreover have "pending ?d = pending d" "deframer_ok ?d"
    using assms by (auto simp: pending_def deframer_ok_def)
  moreover have "df_frames (buf_consume ?d n) = df_frames d @ [m]" "df_desynced (buf_consume ?d n) = df_desynced d" for n
    by (simp_all add: buf_consume_def)
  ultimately show ?thesis
    using buf_consume_pending [of ?d "Reader_used r"] u Inr x by simp
qed

lemma deframe_loop_refines:
  assumes "deframer_ok d" "deframe (pending d) = (ms, rest, broken)"
  shows "deframer_ok (deframe_loop d) \<and> df_frames (deframe_loop d) = df_frames d @ ms
    \<and> pending (deframe_loop d) = rest \<and> df_desynced (deframe_loop d) = (df_desynced d \<or> broken)"
  using assms
proof (induction d arbitrary: ms rule: deframe_loop.induct)
  case (1 d)
  note step = try_deframe_one_cases [OF "1.prems"(1)]
  show ?case
  proof (cases "OpaqueMessage_read (Reader_init (pending d))")
    case (Inl e)
    with "1.prems" step deframe_error [OF Inl] show ?thesis
      by (auto simp: deframe_loop.simps [of d] deframer_ok_def pending_def split: if_splits)
  next
    case (Inr x)
    then obtain m r where rd: "OpaqueMessage_read (Reader_init (pending d)) = Inr (m, r)" by (cases x) auto
    with step obtain d' where d': "try_deframe_one d = (BufferContents.Valid, d')" "deframer_ok d'" "pending d' = rem r"
      "df_frames d' = df_frames d @ [m]" "df_desynced d' = df_desynced d" by auto
    from "1.prems" rd obtain ms' where "deframe (pending d') = (ms', rest, broken)" "ms = m # ms'"
      by (auto simp: deframe.simps [of "pending d"] d' split: prod.splits)
    with "1.IH" [OF d'(1) [symmetric] refl d'(2)] d' show ?thesis
      by (simp add: deframe_loop.simps [of d])
  qed
qed

text \<open>One read: the bytes that arrived are deframed after the ones that waited.\<close>

lemma MessageDeframer_read_refines:
  assumes "deframer_ok d" "rd (MAX_WIRE_SIZE - df_used d) = Inr bs" "length bs \<le> MAX_WIRE_SIZE - df_used d"
    and "deframe (pending d @ bs) = (ms, rest, broken)"
  obtains d' where "MessageDeframer_read d rd = (Inr (length bs), d')" "deframer_ok d'"
    "df_frames d' = df_frames d @ ms" "pending d' = rest" "df_desynced d' = (df_desynced d \<or> broken)"
proof -
  let ?d = "d\<lparr>df_buf := overwrite (df_used d) bs (df_buf d), df_used := df_used d + length bs\<rparr>"
  have "deframer_ok ?d" "pending ?d = pending d @ bs"
    using assms(1,3) by (auto simp: deframer_ok_def pending_def overwrite_def)
  moreover have "MessageDeframer_read d rd = (Inr (length bs), deframe_loop ?d)"
    using assms(1,2) by (simp add: MessageDeframer_read_def deframer_ok_def Let_def)
  ultimately show ?thesis
    using deframe_loop_refines [of ?d ms rest broken] assms(4) that by auto
qed

text \<open>Unless the input is broken, what is left waiting is shorter than any frame: there is space to read into.\<close>

lemma deframe_rest:
  "deframe bs = (ms, rest, broken) \<Longrightarrow> \<not> broken \<Longrightarrow> length rest < MAX_WIRE_SIZE"
proof (induction bs arbitrary: ms rule: deframe.induct)
  case (1 bs)
  show ?case
  proof (cases "OpaqueMessage_read (Reader_init bs)")
    case (Inl e)
    with "1.prems" deframe_error [OF Inl] show ?thesis
      by (auto simp: OpaqueMessage_read_conv hdr_error_def split: if_splits option.splits)
  next
    case (Inr x)
    then obtain m r where "OpaqueMessage_read (Reader_init bs) = Inr (m, r)" by (cases x) auto
    with 1 show ?thesis by (auto simp: deframe.simps [of bs] split: prod.splits)
  qed
qed

subsection \<open>Any sequence of reads\<close>

text \<open>
  \<open>feeds (d, s) (d', s')\<close>: the deframer \<open>d\<close>, with the bytes \<open>s\<close> still to come, reads some of them (as many as the
  transport delivers and the buffer has space for).
\<close>

inductive feeds :: "MessageDeframer \<times> bytes \<Rightarrow> MessageDeframer \<times> bytes \<Rightarrow> bool" where
  feed: "k \<le> length s \<Longrightarrow> k \<le> MAX_WIRE_SIZE - df_used d \<Longrightarrow>
    MessageDeframer_read d (\<lambda>_. Inr (take k s) :: unit + bytes) = (Inr k, d') \<Longrightarrow> feeds (d, s) (d', drop k s)"

inductive_cases feedsE: "feeds (d, s) (d', s')"

text \<open>The meaning of what is buffered and what is still to come.\<close>

definition outcome :: "MessageDeframer \<Rightarrow> bytes \<Rightarrow> OpaqueMessage list \<times> bytes \<times> bool" where
  "outcome d s = (case deframe (pending d @ s) of (ms, rest, broken) \<Rightarrow> (df_frames d @ ms, rest, broken))"

definition feed_inv :: "bytes \<Rightarrow> MessageDeframer \<times> bytes \<Rightarrow> bool" where
  "feed_inv input st \<longleftrightarrow> (case st of (d, s) \<Rightarrow>
     deframer_ok d \<and> outcome d s = deframe input
     \<and> deframe (pending d) = ([], pending d, df_desynced d))"

lemma deframe_rest_stuck: "deframe bs = (ms, rest, broken) \<Longrightarrow> deframe rest = ([], rest, broken)"
proof (induction bs arbitrary: ms rule: deframe.induct)
  case (1 bs)
  show ?case
  proof (cases "OpaqueMessage_read (Reader_init bs)")
    case (Inl e)
    with "1.prems" deframe_error [OF Inl] show ?thesis by auto
  next
    case (Inr x)
    then obtain m r where "OpaqueMessage_read (Reader_init bs) = Inr (m, r)" by (cases x) auto
    with 1 show ?thesis by (auto simp: deframe.simps [of bs] split: prod.splits)
  qed
qed

lemma feed_inv_step:
  assumes "feed_inv input (d, s)" "feeds (d, s) (d', s')"
  shows "feed_inv input (d', s')"
proof -
  obtain k where feed: "s' = drop k s" "k \<le> length s" "k \<le> MAX_WIRE_SIZE - df_used d"
    "MessageDeframer_read d (\<lambda>_. Inr (take k s) :: unit + bytes) = (Inr k, d')"
    using assms(2) by (auto elim: feedsE)
  have ok: "deframer_ok d" and out: "outcome d s = deframe input"
    and stuck: "deframe (pending d) = ([], pending d, df_desynced d)"
    using assms(1) by (auto simp: feed_inv_def)
  obtain ms rest broken where df: "deframe (pending d @ take k s) = (ms, rest, broken)"
    using prod_cases3 by blast
  obtain d'' where d'': "MessageDeframer_read d (\<lambda>_. Inr (take k s) :: unit + bytes) = (Inr (length (take k s)), d'')" "deframer_ok d''"
    "df_frames d'' = df_frames d @ ms" "pending d'' = rest" "df_desynced d'' = (df_desynced d \<or> broken)"
    by (rule MessageDeframer_read_refines [OF ok _ _ df, of "\<lambda>_. Inr (take k s) :: unit + bytes"])
      (use feed(2,3) in auto)
  have d': "d' = d''" using d''(1) feed by simp
  have "df_desynced d \<Longrightarrow> broken"
    using deframe_append [OF stuck, of "take k s"] df by simp
  then have "deframe (pending d') = ([], pending d', df_desynced d')"
    using deframe_rest_stuck [OF df] d'' by (auto simp: d')
  moreover have "outcome d' s' = outcome d s"
    using deframe_append [OF df, of "drop k s"] feed(1) d''
    by (auto simp: outcome_def d' split: prod.splits)
  ultimately show ?thesis using out d''(2) by (simp add: feed_inv_def d')
qed

lemma feed_inv_init: "feed_inv input (MessageDeframer_new, input)"
  using deframe_frames [of "[]"]
  by (simp add: feed_inv_def MessageDeframer_new_def deframer_ok_def outcome_def pending_def split: prod.splits)

lemma feed_inv_reachable:
  assumes "feeds\<^sup>*\<^sup>* (MessageDeframer_new, input) (d, s)"
  shows "feed_inv input (d, s)"
  using assms
proof (induction "(d, s)" arbitrary: d s rule: rtranclp_induct)
  case base
  then show ?case by (metis feed_inv_init)
next
  case (step y)
  then show ?case by (cases y) (metis feed_inv_step)
qed

lemma feed_inv_done: "feed_inv input (d, []) \<Longrightarrow> deframe input = (df_frames d, pending d, df_desynced d)"
  by (auto simp: feed_inv_def outcome_def)

text \<open>As long as the input is not broken, the next byte fits: any input can be read to its end.\<close>

lemma feed_progress:
  assumes inv: "feed_inv input (d, s)" and fine: "\<not> snd (snd (deframe input))" and "s \<noteq> []"
  shows "\<exists>d'. feeds (d, s) (d', tl s)"
proof -
  have ok: "deframer_ok d" and out: "outcome d s = deframe input"
    and stuck: "deframe (pending d) = ([], pending d, df_desynced d)"
    using inv by (auto simp: feed_inv_def)
  have "\<not> df_desynced d"
    using deframe_append [OF stuck, of s] out [symmetric] fine by (auto simp: outcome_def)
  then have "length (pending d) < MAX_WIRE_SIZE" using deframe_rest [OF stuck] by blast
  then have space: "1 \<le> MAX_WIRE_SIZE - df_used d" using ok by (simp add: pending_def deframer_ok_def)
  obtain ms rest broken where df: "deframe (pending d @ take 1 s) = (ms, rest, broken)"
    using prod_cases3 by blast
  obtain d' where "MessageDeframer_read d (\<lambda>_. Inr (take 1 s) :: unit + bytes) = (Inr (length (take 1 s)), d')"
    by (rule MessageDeframer_read_refines [OF ok _ _ df, of "\<lambda>_. Inr (take 1 s) :: unit + bytes"])
      (use space in auto)
  then have "feeds (d, s) (d', drop 1 s)"
    using \<open>s \<noteq> []\<close> space by (intro feed) (auto simp: Suc_le_eq)
  then show ?thesis by (auto simp: drop_Suc)
qed

lemma feeds_complete:
  assumes "feed_inv input (d, s)" "\<not> snd (snd (deframe input))"
  shows "\<exists>d'. feeds\<^sup>*\<^sup>* (d, s) (d', [])"
  using assms(1)
proof (induction s arbitrary: d)
  case (Cons b s)
  then obtain d1 where one: "feeds (d, b # s) (d1, s)"
    using feed_progress [OF Cons.prems assms(2)] by auto
  with Cons feed_inv_step show ?case by (meson converse_rtranclp_into_rtranclp)
qed blast

end
