(* ===== verification/Tls_Fragmenter.thy ===== *)
theory Tls_Fragmenter
  imports Tls_Message
begin

text \<open>
  \<open>MessageFragmenter\<close> of \<open>tlspuffin/src/tls/rustls/msgs/fragmenter.rs\<close> and \<open>HandshakeJoiner\<close> of
  \<open>msgs/hsjoiner.rs\<close>: splitting frames to a maximal size, and joining handshake messages that were split over
  frames or packed into one.

  The joiner's specification is \<open>join_spec\<close> on the bytes of all frames; the joiner refines it one frame at a
  time, so a sequence of handshake messages comes out however it was cut into frames.
\<close>

subsection \<open>Fragmenting\<close>

definition MAX_FRAGMENT_LEN :: nat where
  "MAX_FRAGMENT_LEN = 16384"

definition PACKET_OVERHEAD :: nat where
  "PACKET_OVERHEAD = 1 + 2 + 2"

definition MAX_FRAGMENT_SIZE :: nat where
  "MAX_FRAGMENT_SIZE = MAX_FRAGMENT_LEN + PACKET_OVERHEAD"

record MessageFragmenter =
  max_frag :: nat

definition set_max_fragment_size :: "MessageFragmenter \<Rightarrow> nat option \<Rightarrow> (Error + unit) \<times> MessageFragmenter" where
  "set_max_fragment_size f new =
     (case new of
        Some sz \<Rightarrow>
          if 32 \<le> sz \<and> sz \<le> MAX_FRAGMENT_SIZE then (Inr (), f\<lparr>max_frag := sz - PACKET_OVERHEAD\<rparr>)
          else (Inl BadMaxFragmentSize, f)
      | None \<Rightarrow> (Inr (), f\<lparr>max_frag := MAX_FRAGMENT_LEN\<rparr>))"

definition MessageFragmenter_new :: "nat option \<Rightarrow> Error + MessageFragmenter" where
  "MessageFragmenter_new max_fragment_size =
     (case set_max_fragment_size \<lparr>max_frag = 0\<rparr> max_fragment_size of
        (Inl e, _) \<Rightarrow> Inl e
      | (Inr _, new) \<Rightarrow> Inr new)"

text \<open>\<open>slice::chunks\<close>, which panics on a chunk size of zero; the type's invariant excludes it.\<close>

fun chunks :: "nat \<Rightarrow> 'a list \<Rightarrow> 'a list list" where
  "chunks n xs = (if n = 0 \<or> xs = [] then [] else take n xs # chunks n (drop n xs))"

declare chunks.simps [simp del]

definition fragment :: "MessageFragmenter \<Rightarrow> PlainMessage \<Rightarrow> PlainMessage list \<Rightarrow> PlainMessage list" where
  "fragment f msg out =
     (if length (pm_payload msg) \<le> max_frag f then out @ [msg]
      else fold (\<lambda>chunk out. out @ [\<lparr>pm_typ = pm_typ msg, pm_version = pm_version msg, pm_payload = chunk\<rparr>])
        (chunks (max_frag f) (pm_payload msg)) out)"

definition fragment_borrow ::
  "MessageFragmenter \<Rightarrow> ContentType \<Rightarrow> ProtocolVersion \<Rightarrow> bytes \<Rightarrow> PlainMessage list \<Rightarrow> PlainMessage list" where
  "fragment_borrow f typ version payload out =
     fold (\<lambda>chunk out. out @ [\<lparr>pm_typ = typ, pm_version = version, pm_payload = chunk\<rparr>])
       (chunks (max_frag f) payload) out"

definition MessageFragmenter_ok :: "MessageFragmenter \<Rightarrow> bool" where
  "MessageFragmenter_ok f \<longleftrightarrow> 27 \<le> max_frag f \<and> max_frag f \<le> MAX_FRAGMENT_LEN"

lemma new_ok: "MessageFragmenter_new sz = Inr f \<Longrightarrow> MessageFragmenter_ok f"
  by (auto simp: MessageFragmenter_new_def set_max_fragment_size_def MessageFragmenter_ok_def
      MAX_FRAGMENT_SIZE_def MAX_FRAGMENT_LEN_def PACKET_OVERHEAD_def split: option.splits if_splits)

lemma set_max_fragment_size_ok:
  "MessageFragmenter_ok f \<Longrightarrow> MessageFragmenter_ok (snd (set_max_fragment_size f new))"
  by (auto simp: set_max_fragment_size_def MessageFragmenter_ok_def MAX_FRAGMENT_SIZE_def
      MAX_FRAGMENT_LEN_def PACKET_OVERHEAD_def split: option.splits if_splits)

lemma concat_chunks: "0 < n \<Longrightarrow> concat (chunks n xs) = xs"
  by (induction n xs rule: chunks.induct) (simp add: chunks.simps)

lemma chunks_bounds: "c \<in> set (chunks n xs) \<Longrightarrow> 0 < length c \<and> length c \<le> n"
proof (induction n xs rule: chunks.induct)
  case (1 n xs)
  then show ?case by (auto simp: chunks.simps [of n xs] split: if_splits)
qed

lemma fold_append_map: "fold (\<lambda>x out. out @ [f x]) xs out = out @ map f xs"
  by (induction xs arbitrary: out) auto

text \<open>The fragments of one message, in order.\<close>

definition fragments :: "MessageFragmenter \<Rightarrow> PlainMessage \<Rightarrow> PlainMessage list" where
  "fragments f msg =
     (if length (pm_payload msg) \<le> max_frag f then [msg]
      else map (\<lambda>c. \<lparr>pm_typ = pm_typ msg, pm_version = pm_version msg, pm_payload = c\<rparr>)
        (chunks (max_frag f) (pm_payload msg)))"

lemma fragment_appends: "fragment f msg out = out @ fragments f msg"
  by (simp add: fragment_def fragments_def fold_append_map)

lemma fragment_borrow_appends:
  "fragment_borrow f typ v p out = out @ map (\<lambda>c. \<lparr>pm_typ = typ, pm_version = v, pm_payload = c\<rparr>) (chunks (max_frag f) p)"
  by (simp add: fragment_borrow_def fold_append_map)

lemma fragments_payload: "MessageFragmenter_ok f \<Longrightarrow> concat (map pm_payload (fragments f msg)) = pm_payload msg"
  by (simp add: fragments_def MessageFragmenter_ok_def comp_def concat_chunks)

lemma fragments_shape:
  assumes "MessageFragmenter_ok f" "x \<in> set (fragments f msg)"
  shows "pm_typ x = pm_typ msg" "pm_version x = pm_version msg" "length (pm_payload x) \<le> max_frag f"
    "pm_payload msg \<noteq> [] \<Longrightarrow> pm_payload x \<noteq> []"
  using assms by (auto simp: fragments_def split: if_splits dest: chunks_bounds)

subsection \<open>Joining\<close>

definition HANDSHAKE_HEADER_SIZE :: nat where
  "HANDSHAKE_HEADER_SIZE = 1 + 3"

definition MAX_HANDSHAKE_SIZE :: u32 where
  "MAX_HANDSHAKE_SIZE = 0xffff"

record 'd HandshakeJoiner =
  hj_frames :: "'d Message list"
  hj_buf :: bytes

definition HandshakeJoiner_new :: "'d HandshakeJoiner" where
  "HandshakeJoiner_new = \<lparr>hj_frames = [], hj_buf = []\<rparr>"

datatype BufferState = MessageTooLarge | OneMessage | NeedsMoreData

definition want_message :: "PlainMessage \<Rightarrow> bool" where
  "want_message msg \<longleftrightarrow> pm_typ msg = ContentType.Handshake"

definition HandshakeJoiner_is_empty :: "'d HandshakeJoiner \<Rightarrow> bool" where
  "HandshakeJoiner_is_empty j \<longleftrightarrow> hj_buf j = []"

definition buf_contains_message :: "bytes \<Rightarrow> BufferState" where
  "buf_contains_message buf =
     (if length buf < HANDSHAKE_HEADER_SIZE then NeedsMoreData
      else
        let header = take HANDSHAKE_HEADER_SIZE buf;
            rest = drop HANDSHAKE_HEADER_SIZE buf
        in case u24_decode (drop 1 header) of
             Some len \<Rightarrow>
               if u24_val len > MAX_HANDSHAKE_SIZE then MessageTooLarge
               else if usize_from_u24 len \<le> length rest then OneMessage
               else NeedsMoreData
           | None \<Rightarrow> NeedsMoreData)"

definition deframe_one ::
  "(bytes \<Rightarrow> 'd option) \<Rightarrow> 'd HandshakeJoiner \<Rightarrow> ProtocolVersion \<Rightarrow> bool \<times> 'd HandshakeJoiner" where
  "deframe_one dns j version =
     (case HandshakeMessagePayload_read_version dns (Reader_init (hj_buf j)) version of
        None \<Rightarrow> (False, j)
      | Some (payload, rd) \<Rightarrow>
          let m = \<lparr>msg_version = version, msg_payload = MessagePayload.Handshake payload\<rparr>;
              j = j\<lparr>hj_frames := hj_frames j @ [m]\<rparr>
          in (True, j\<lparr>hj_buf := drop (Reader_used rd) (hj_buf j)\<rparr>))"

lemma read_version_used:
  assumes "HandshakeMessagePayload_read_version dns (Reader_init bs) vers = Some (p, rd)"
  shows "0 < Reader_used rd \<and> Reader_used rd \<le> length bs"
  using HandshakeMessagePayload.progress [OF assms] by (auto simp: advances_def)

lemma deframe_one_shrinks: "deframe_one dns j v = (True, j') \<Longrightarrow> length (hj_buf j') < length (hj_buf j)"
  by (auto simp: deframe_one_def split: option.splits dest!: read_version_used)

function join_loop ::
  "(bytes \<Rightarrow> 'd option) \<Rightarrow> ProtocolVersion \<Rightarrow> nat \<Rightarrow> 'd HandshakeJoiner \<Rightarrow> nat option \<times> 'd HandshakeJoiner" where
  "join_loop dns version count j =
     (case buf_contains_message (hj_buf j) of
        MessageTooLarge \<Rightarrow> (None, j)
      | NeedsMoreData \<Rightarrow> (Some count, j)
      | OneMessage \<Rightarrow>
          (case deframe_one dns j version of
             (False, j) \<Rightarrow> (None, j)
           | (True, j) \<Rightarrow> join_loop dns version (count + 1) j))"
  by pat_completeness auto
termination
  by (relation "measure (\<lambda>(dns, version, count, j). length (hj_buf j))") (auto dest: deframe_one_shrinks [OF sym])

declare join_loop.simps [simp del]

definition take_message ::
  "(bytes \<Rightarrow> 'd option) \<Rightarrow> 'd HandshakeJoiner \<Rightarrow> PlainMessage \<Rightarrow> nat option \<times> 'd HandshakeJoiner" where
  "take_message dns j msg =
     (let j = (if hj_buf j = [] then j\<lparr>hj_buf := pm_payload msg\<rparr> else j\<lparr>hj_buf := hj_buf j @ pm_payload msg\<rparr>)
      in join_loop dns (pm_version msg) 0 j)"

subsection \<open>Specification of joining\<close>

text \<open>The length that a handshake header announces.\<close>

definition hs_len :: "bytes \<Rightarrow> nat" where
  "hs_len bs = unat (u24_val (the (u24_decode (take 3 (drop 1 bs)))))"

lemma u24_decode_length: "u24_decode bs \<noteq> None \<longleftrightarrow> length bs = 3"
proof (induction bs rule: u24_decode.induct)
  case (1 a b c)
  then show ?case using from_be_bytes_Some_iff(2) [of "[0, a, b, c]"] by auto
qed simp_all

lemma u24_read_conv:
  "u24_read r = (if length (rem r) < 3 then None else Some (the (u24_decode (take 3 (rem r))), adv r 3))"
  using u24_decode_length [of "take 3 (rem r)"]
  by (auto simp: u24_read_def Reader_take_rem split: if_splits)

lemma read_version_conv:
  "HandshakeMessagePayload_read_version dns r vers =
     (if length (rem r) < 4 \<or> length (rem r) < 4 + hs_len (rem r) then None
      else do {
        ((typ, payload), sub) \<leftarrow> HandshakePayload_read_version dns vers (HandshakeType_from (hd (rem r)))
          (Reader_init (take (hs_len (rem r)) (drop 4 (rem r))));
        if Reader_any_left sub then None
        else Some (\<lparr>hmp_typ = typ, hmp_payload = payload\<rparr>, adv r (4 + hs_len (rem r))) })"
proof (cases "length (rem r) < 4")
  case True
  then show ?thesis
    by (auto simp: HandshakeMessagePayload_read_version_def enum_u8_read_def u8_read_conv u24_read_conv)
next
  case False
  then have "HandshakeType_read r = Some (HandshakeType_from (hd (rem r)), adv r 1)"
    "u24_read (adv r 1) = Some (the (u24_decode (take 3 (drop 1 (rem r)))), adv r 4)"
    by (auto simp: enum_u8_read_def u8_read_conv u24_read_conv eval_nat_numeral)
  moreover have "unat (u24_val (the (u24_decode (take 3 (drop 1 (rem r)))))) = hs_len (rem r)"
    by (simp add: hs_len_def)
  ultimately show ?thesis
    using False by (simp add: HandshakeMessagePayload_read_version_def Reader_sub_rem) arith
qed

lemma hs_len_append: "4 \<le> length bs \<Longrightarrow> hs_len (bs @ ext) = hs_len bs"
  by (simp add: hs_len_def)

lemma buf_contains_message_conv:
  "buf_contains_message bs =
     (if length bs < 4 then NeedsMoreData
      else if 65535 < hs_len bs then MessageTooLarge
      else if 4 + hs_len bs \<le> length bs then OneMessage
      else NeedsMoreData)"
proof (cases "length bs < 4")
  case False
  have t: "drop 1 (take 4 bs) = take 3 (drop 1 bs)" by (simp add: drop_take)
  from False obtain len where len: "u24_decode (take 3 (drop 1 bs)) = Some len"
    using u24_decode_length [of "take 3 (drop 1 bs)"] by auto
  have "(u24_val len > MAX_HANDSHAKE_SIZE) = (65535 < unat (u24_val len))"
    by (simp add: MAX_HANDSHAKE_SIZE_def word_less_nat_alt)
  with False len t show ?thesis
    by (auto simp: buf_contains_message_def HANDSHAKE_HEADER_SIZE_def hs_len_def usize_from_u24_def Let_def)
qed (simp add: buf_contains_message_def HANDSHAKE_HEADER_SIZE_def)

function join_spec ::
  "(bytes \<Rightarrow> 'd option) \<Rightarrow> ProtocolVersion \<Rightarrow> bytes \<Rightarrow> ('d HandshakeMessagePayload list \<times> bytes) option" where
  "join_spec dns v bs =
     (case buf_contains_message bs of
        MessageTooLarge \<Rightarrow> None
      | NeedsMoreData \<Rightarrow> Some ([], bs)
      | OneMessage \<Rightarrow>
          (case HandshakeMessagePayload_read_version dns (Reader_init bs) v of
             None \<Rightarrow> None
           | Some (p, rd) \<Rightarrow> map_option (\<lambda>(ps, rest). (p # ps, rest)) (join_spec dns v (drop (Reader_used rd) bs))))"
  by pat_completeness auto
termination
  by (relation "measure (\<lambda>(dns, v, bs). length bs)") (auto dest!: read_version_used)

declare join_spec.simps [simp del]

text \<open>How the joiner stores the messages it found.\<close>

abbreviation hs_message :: "ProtocolVersion \<Rightarrow> 'd HandshakeMessagePayload \<Rightarrow> 'd Message" where
  "hs_message v p \<equiv> \<lparr>msg_version = v, msg_payload = MessagePayload.Handshake p\<rparr>"

lemma join_loop_refines:
  "join_spec dns v (hj_buf j) = Some (ps, rest) \<Longrightarrow>
     join_loop dns v count j =
       (Some (count + length ps), j\<lparr>hj_frames := hj_frames j @ map (hs_message v) ps, hj_buf := rest\<rparr>)"
proof (induction dns v count j arbitrary: ps rule: join_loop.induct)
  case (1 dns v count j)
  show ?case
  proof (cases "buf_contains_message (hj_buf j)")
    case OneMessage
    with "1.prems" obtain p rd ps' where rd: "HandshakeMessagePayload_read_version dns (Reader_init (hj_buf j)) v = Some (p, rd)"
      and ps: "ps = p # ps'" "join_spec dns v (drop (Reader_used rd) (hj_buf j)) = Some (ps', rest)"
      by (auto simp: join_spec.simps [of dns v "hj_buf j"] split: option.splits)
    let ?j = "j\<lparr>hj_frames := hj_frames j @ [hs_message v p], hj_buf := drop (Reader_used rd) (hj_buf j)\<rparr>"
    have one: "deframe_one dns j v = (True, ?j)"
      by (simp add: deframe_one_def rd Let_def)
    with "1.IH" [OF OneMessage one [symmetric], of ps'] ps OneMessage show ?thesis
      by (simp add: join_loop.simps [of dns v count j])
  qed (use "1.prems" in \<open>auto simp: join_loop.simps [of dns v count j] join_spec.simps [of dns v "hj_buf j"]\<close>)
qed

lemma join_spec_append:
  "join_spec dns v bs = Some (ps, rest) \<Longrightarrow>
     join_spec dns v (bs @ ext) = map_option (\<lambda>(ps', rest'). (ps @ ps', rest')) (join_spec dns v (rest @ ext))"
proof (induction dns v bs arbitrary: ps rule: join_spec.induct)
  case (1 dns v bs)
  show ?case
  proof (cases "buf_contains_message bs")
    case OneMessage
    with "1.prems" obtain p rd ps' where rd: "HandshakeMessagePayload_read_version dns (Reader_init bs) v = Some (p, rd)"
      and ps: "ps = p # ps'" "join_spec dns v (drop (Reader_used rd) bs) = Some (ps', rest)"
      by (auto simp: join_spec.simps [of dns v bs] split: option.splits)
    have len: "4 + hs_len bs \<le> length bs" "4 \<le> length bs" "hs_len bs \<le> 65535"
      using OneMessage by (auto simp: buf_contains_message_conv split: if_splits)
    have used: "Reader_used rd = 4 + hs_len bs"
      using rd by (auto simp: read_version_conv split: if_splits bind_split_asm)
    have "HandshakeMessagePayload_read_version dns (Reader_init (bs @ ext)) v =
        Some (p, adv (Reader_init (bs @ ext)) (Reader_used rd))"
      using rd len unfolding used
      by (auto simp: read_version_conv hs_len_append hd_append split: if_splits bind_split_asm)
    moreover have "buf_contains_message (bs @ ext) = OneMessage"
      using len by (simp add: buf_contains_message_conv hs_len_append)
    moreover have "drop (Reader_used rd) (bs @ ext) = drop (Reader_used rd) bs @ ext"
      using len used by simp
    ultimately show ?thesis
      using "1.IH" [OF OneMessage rd refl ps(2)] ps(1)
      by (simp add: join_spec.simps [of dns v "bs @ ext"] option.map_comp comp_def split_beta)
  qed (use "1.prems" in \<open>auto simp: join_spec.simps [of dns v bs] option.map_ident_strong\<close>)
qed

lemma join_spec_append_None: "join_spec dns v bs = None \<Longrightarrow> join_spec dns v (bs @ ext) = None"
proof (induction dns v bs rule: join_spec.induct)
  case (1 dns v bs)
  show ?case
  proof (cases "buf_contains_message bs")
    case MessageTooLarge
    then have "buf_contains_message (bs @ ext) = MessageTooLarge"
      by (auto simp: buf_contains_message_conv hs_len_append split: if_splits)
    then show ?thesis by (simp add: join_spec.simps [of dns v "bs @ ext"])
  next
    case NeedsMoreData
    with "1.prems" show ?thesis by (simp add: join_spec.simps [of dns v bs])
  next
    case OneMessage
    then have len: "4 + hs_len bs \<le> length bs" "4 \<le> length bs" "hs_len bs \<le> 65535"
      by (auto simp: buf_contains_message_conv split: if_splits)
    have one: "buf_contains_message (bs @ ext) = OneMessage"
      using len by (simp add: buf_contains_message_conv hs_len_append)
    show ?thesis
    proof (cases "HandshakeMessagePayload_read_version dns (Reader_init bs) v")
      case None
      with len have "HandshakeMessagePayload_read_version dns (Reader_init (bs @ ext)) v = None"
        by (auto simp: read_version_conv hs_len_append hd_append split: bind_splits if_splits)
      with one show ?thesis by (simp add: join_spec.simps [of dns v "bs @ ext"])
    next
      case (Some x)
      then obtain p rd where rd: "HandshakeMessagePayload_read_version dns (Reader_init bs) v = Some (p, rd)" by (cases x) auto
      then have used: "Reader_used rd = 4 + hs_len bs"
        by (auto simp: read_version_conv split: if_splits bind_split_asm)
      have "HandshakeMessagePayload_read_version dns (Reader_init (bs @ ext)) v =
          Some (p, adv (Reader_init (bs @ ext)) (4 + hs_len bs))"
        using rd len by (auto simp: read_version_conv hs_len_append hd_append split: if_splits bind_split_asm)
      moreover have "join_spec dns v (drop (4 + hs_len bs) bs) = None"
        using "1.prems" OneMessage rd used by (simp add: join_spec.simps [of dns v bs])
      ultimately show ?thesis
        using "1.IH" [OF OneMessage rd refl] used len one by (simp add: join_spec.simps [of dns v "bs @ ext"])
    qed
  qed
qed

lemma join_spec_rest: "join_spec dns v bs = Some (ps, rest) \<Longrightarrow> join_spec dns v rest = Some ([], rest)"
proof (induction dns v bs arbitrary: ps rule: join_spec.induct)
  case (1 dns v bs)
  show ?case
  proof (cases "buf_contains_message bs")
    case OneMessage
    with 1 show ?thesis by (auto simp: join_spec.simps [of dns v bs] split: option.splits)
  qed (use "1.prems" in \<open>auto simp: join_spec.simps [of dns v bs] join_spec.simps [of dns v rest]\<close>)
qed

lemma join_spec_Nil [simp]: "join_spec dns v [] = Some ([], [])"
  by (simp add: join_spec.simps buf_contains_message_conv)

text \<open>The messages the joiner accepts: valid, and not longer than \<open>MAX_HANDSHAKE_SIZE\<close>.\<close>

definition joinable :: "(bytes \<Rightarrow> 'd option) \<Rightarrow> ProtocolVersion \<Rightarrow> 'd HandshakeMessagePayload \<Rightarrow> bool" where
  "joinable dns v h \<longleftrightarrow> HandshakeMessagePayload_valid dns v h \<and> length (HandshakePayload_encode (hmp_payload h) []) \<le> 65535"

lemma join_spec_message:
  assumes "joinable dns v h"
  shows "join_spec dns v (get_encoding HandshakeMessagePayload_encode h @ ext) =
    map_option (\<lambda>(ps, rest). (h # ps, rest)) (join_spec dns v ext)"
proof -
  let ?E = "get_encoding HandshakeMessagePayload_encode h" and ?n = "length (HandshakePayload_encode (hmp_payload h) [])"
  have v: "HandshakeMessagePayload_valid dns v h" and n: "?n \<le> 65535" using assms by (auto simp: joinable_def)
  have rd: "HandshakeMessagePayload_read_version dns (Reader_init (?E @ ext)) v =
      Some (h, adv (Reader_init (?E @ ext)) (length ?E))"
    using v by (intro HandshakeMessagePayload.read_encode) simp_all
  have "length ?E = 4 + ?n"
    by (simp add: message_bytes binder_header_def HandshakeType.enum_bytes)
  moreover have "length ?E = 4 + hs_len (?E @ ext)"
    using rd by (auto simp: read_version_conv adv_eq_iff split: if_splits bind_split_asm)
  ultimately have "buf_contains_message (?E @ ext) = OneMessage"
    using n by (simp add: buf_contains_message_conv)
  with rd show ?thesis by (simp add: join_spec.simps [of dns v "?E @ ext"])
qed

lemma join_spec_messages:
  "list_all (joinable dns v) hs \<Longrightarrow>
     join_spec dns v (concat (map (get_encoding HandshakeMessagePayload_encode) hs)) = Some (hs, [])"
  by (induction hs) (simp_all add: join_spec_message)

text \<open>Taking a sequence of frames.\<close>

fun take_messages :: "(bytes \<Rightarrow> 'd option) \<Rightarrow> 'd HandshakeJoiner \<Rightarrow> PlainMessage list \<Rightarrow> 'd HandshakeJoiner option" where
  "take_messages dns j [] = Some j"
| "take_messages dns j (f # fs) =
     (case take_message dns j f of (None, _) \<Rightarrow> None | (Some _, j) \<Rightarrow> take_messages dns j fs)"

lemma take_message_refines:
  assumes "join_spec dns (pm_version f) (hj_buf j @ pm_payload f) = Some (ps, rest)"
  shows "take_message dns j f =
    (Some (length ps), j\<lparr>hj_frames := hj_frames j @ map (hs_message (pm_version f)) ps, hj_buf := rest\<rparr>)"
  using join_loop_refines [of dns "pm_version f" "j\<lparr>hj_buf := hj_buf j @ pm_payload f\<rparr>" ps rest 0] assms
  by (cases "hj_buf j") (simp_all add: take_message_def)

lemma take_messages_refines:
  assumes "\<And>f. f \<in> set fs \<Longrightarrow> pm_version f = v"
    and "join_spec dns v (hj_buf j) = Some ([], hj_buf j)"
    and "join_spec dns v (hj_buf j @ concat (map pm_payload fs)) = Some (ps, rest)"
  shows "take_messages dns j fs = Some (j\<lparr>hj_frames := hj_frames j @ map (hs_message v) ps, hj_buf := rest\<rparr>)"
  using assms
proof (induction fs arbitrary: j ps)
  case Nil
  then show ?case by simp
next
  case (Cons f fs)
  obtain ps1 r1 where one: "join_spec dns v (hj_buf j @ pm_payload f) = Some (ps1, r1)"
    using join_spec_append_None [of dns v "hj_buf j @ pm_payload f" "concat (map pm_payload fs)"] Cons.prems(3)
    by (cases "join_spec dns v (hj_buf j @ pm_payload f)") auto
  then obtain ps2 where two: "join_spec dns v (r1 @ concat (map pm_payload fs)) = Some (ps2, rest)" "ps = ps1 @ ps2"
    using join_spec_append [OF one, of "concat (map pm_payload fs)"] Cons.prems(3) by auto
  let ?j = "j\<lparr>hj_frames := hj_frames j @ map (hs_message v) ps1, hj_buf := r1\<rparr>"
  have "take_messages dns ?j fs = Some (?j\<lparr>hj_frames := hj_frames ?j @ map (hs_message v) ps2, hj_buf := rest\<rparr>)"
    using Cons.prems(1) join_spec_rest [OF one] two by (intro Cons.IH) auto
  with take_message_refines [of dns f j ps1 r1] one two Cons.prems(1) show ?case by simp
qed

end
