(* ===== verification/Tls_Buffers.thy ===== *)
theory Tls_Buffers
  imports Prelude
begin

text \<open>
  The two containers of the bundled rustls: \<open>ChunkVecBuffer\<close> of \<open>tlspuffin/src/tls/rustls/vecbuf.rs\<close>, a byte
  queue stored as a queue of chunks, and \<open>LimitedCache\<close> of \<open>limited_cache.rs\<close>, a map that evicts its oldest
  key.

  The locale \<open>byte_queue\<close> states what a client of a byte buffer relies on (appending adds at the end, reading
  takes from the front, nothing is lost or reordered); the chunked buffer is interpreted as one, with the
  concatenation of its chunks as the abstraction.
\<close>

subsection \<open>\<open>ChunkVecBuffer\<close>\<close>

record ChunkVecBuffer =
  cvb_chunks :: "bytes list"
  cvb_limit :: "nat option"

definition ChunkVecBuffer_new :: "nat option \<Rightarrow> ChunkVecBuffer" where
  "ChunkVecBuffer_new limit = \<lparr>cvb_chunks = [], cvb_limit = limit\<rparr>"

definition set_limit :: "ChunkVecBuffer \<Rightarrow> nat option \<Rightarrow> ChunkVecBuffer" where
  "set_limit b new_limit = b\<lparr>cvb_limit := new_limit\<rparr>"

definition ChunkVecBuffer_is_empty :: "ChunkVecBuffer \<Rightarrow> bool" where
  "ChunkVecBuffer_is_empty b \<longleftrightarrow> cvb_chunks b = []"

definition ChunkVecBuffer_len :: "ChunkVecBuffer \<Rightarrow> nat" where
  "ChunkVecBuffer_len b = fold (\<lambda>ch len. len + length ch) (cvb_chunks b) 0"

definition apply_limit :: "ChunkVecBuffer \<Rightarrow> nat \<Rightarrow> nat" where
  "apply_limit b len =
     (case cvb_limit b of
        Some limit \<Rightarrow> let space = limit - ChunkVecBuffer_len b in min len space
      | None \<Rightarrow> len)"

definition ChunkVecBuffer_append :: "ChunkVecBuffer \<Rightarrow> bytes \<Rightarrow> nat \<times> ChunkVecBuffer" where
  "ChunkVecBuffer_append b bs = (length bs, if bs \<noteq> [] then b\<lparr>cvb_chunks := cvb_chunks b @ [bs]\<rparr> else b)"

definition append_limited_copy :: "ChunkVecBuffer \<Rightarrow> bytes \<Rightarrow> nat \<times> ChunkVecBuffer" where
  "append_limited_copy b bs =
     (let n = apply_limit b (length bs) in (n, snd (ChunkVecBuffer_append b (take n bs))))"

definition ChunkVecBuffer_pop :: "ChunkVecBuffer \<Rightarrow> bytes option \<times> ChunkVecBuffer" where
  "ChunkVecBuffer_pop b =
     (case cvb_chunks b of [] \<Rightarrow> (None, b) | c # cs \<Rightarrow> (Some c, b\<lparr>cvb_chunks := cs\<rparr>))"

fun consume_chunks :: "nat \<Rightarrow> bytes list \<Rightarrow> bytes list" where
  "consume_chunks used [] = []"
| "consume_chunks used (buf # cs) =
     (if used < length buf then drop used buf # cs else consume_chunks (used - length buf) cs)"

definition consume :: "ChunkVecBuffer \<Rightarrow> nat \<Rightarrow> ChunkVecBuffer" where
  "consume b used = b\<lparr>cvb_chunks := consume_chunks used (cvb_chunks b)\<rparr>"

lemma length_consume_chunks: "length (consume_chunks n cs) \<le> length cs"
  by (induction n cs rule: consume_chunks.induct) auto

text \<open>
  \<open>read_loop n\<close> is the \<open>while\<close> loop with \<open>n\<close> bytes of the destination left; \<open><[u8]>::read\<close> copies as much of
  the first chunk as fits.
\<close>

function read_loop :: "nat \<Rightarrow> ChunkVecBuffer \<Rightarrow> bytes \<times> ChunkVecBuffer" where
  "read_loop n b =
     (case cvb_chunks b of
        [] \<Rightarrow> ([], b)
      | c # cs \<Rightarrow>
          if n = 0 then ([], b)
          else
            let used = min (length c) n;
                b = consume b used
            in case read_loop (n - used) b of (out, b) \<Rightarrow> (take used c @ out, b))"
  by pat_completeness auto
termination
proof (relation "measure (\<lambda>(n, b). n + length (cvb_chunks b))")
  fix n b c cs x xa assume "cvb_chunks b = c # cs" "n \<noteq> 0" "x = min (length c) n" "xa = consume b x"
  then show "((n - x, xa), n, b) \<in> measure (\<lambda>(n, b). n + length (cvb_chunks b))"
    using length_consume_chunks [of 0 cs] length_consume_chunks [of "n - length c" cs]
    by (cases "length c = 0") (auto simp: consume_def min_def)
qed simp

declare read_loop.simps [simp del]

definition ChunkVecBuffer_read :: "ChunkVecBuffer \<Rightarrow> nat \<Rightarrow> bytes \<times> ChunkVecBuffer" where
  "ChunkVecBuffer_read b buf_len = read_loop buf_len b"

text \<open>\<open>wr\<close> is \<open>io::Write::write_vectored\<close>: an error, or how many of the bytes it was offered it took.\<close>

definition write_to :: "ChunkVecBuffer \<Rightarrow> (bytes list \<Rightarrow> 'e + nat) \<Rightarrow> ('e + nat) \<times> ChunkVecBuffer" where
  "write_to b wr =
     (if ChunkVecBuffer_is_empty b then (Inr 0, b)
      else
        let len = min 64 (length (cvb_chunks b));
            bufs = take len (cvb_chunks b)
        in case wr bufs of
             Inl e \<Rightarrow> (Inl e, b)
           | Inr used \<Rightarrow> (Inr used, consume b used))"

subsection \<open>The contract of a byte queue\<close>

definition contents :: "ChunkVecBuffer \<Rightarrow> bytes" where
  "contents b = concat (cvb_chunks b)"

definition cvb_ok :: "ChunkVecBuffer \<Rightarrow> bool" where
  "cvb_ok b \<longleftrightarrow> [] \<notin> set (cvb_chunks b)"

locale byte_queue =
  fixes abs :: "'q \<Rightarrow> bytes" and ok :: "'q \<Rightarrow> bool"
    and empty :: "'q" and is_empty :: "'q \<Rightarrow> bool"
    and push :: "'q \<Rightarrow> bytes \<Rightarrow> 'q" and pull :: "'q \<Rightarrow> nat \<Rightarrow> bytes \<times> 'q"
  assumes empty_ok: "ok empty" "abs empty = []"
    and is_empty_iff: "ok q \<Longrightarrow> is_empty q \<longleftrightarrow> abs q = []"
    and push_abs: "ok q \<Longrightarrow> ok (push q bs)" "ok q \<Longrightarrow> abs (push q bs) = abs q @ bs"
    and pull_abs: "ok q \<Longrightarrow> pull q n = (out, q') \<Longrightarrow> ok q' \<and> out = take n (abs q) \<and> abs q' = drop n (abs q)"
begin

text \<open>What is pushed in any number of pieces comes out in order, in pieces of any size.\<close>

fun pulls :: "'q \<Rightarrow> nat list \<Rightarrow> bytes list \<times> 'q" where
  "pulls q [] = ([], q)"
| "pulls q (n # ns) = (case pull q n of (out, q) \<Rightarrow> case pulls q ns of (outs, q) \<Rightarrow> (out # outs, q))"

lemma fold_push: "ok q \<Longrightarrow> ok (fold (\<lambda>bs q. push q bs) bss q) \<and>
    abs (fold (\<lambda>bs q. push q bs) bss q) = abs q @ concat bss"
  by (induction bss arbitrary: q) (auto simp: push_abs)

lemma pulls_abs:
  "ok q \<Longrightarrow> pulls q ns = (outs, q') \<Longrightarrow>
     ok q' \<and> concat outs = take (sum_list ns) (abs q) \<and> abs q' = drop (sum_list ns) (abs q)"
proof (induction ns arbitrary: q outs)
  case (Cons n ns)
  then obtain out q1 outs' where "pull q n = (out, q1)" "pulls q1 ns = (outs', q')" "outs = out # outs'"
    by (auto split: prod.splits)
  with Cons.IH [of q1 outs'] pull_abs [OF Cons.prems(1), of n out q1] show ?case
    by (simp add: take_add add.commute)
qed simp

lemma fifo:
  assumes "pulls (fold (\<lambda>bs q. push q bs) bss empty) ns = (outs, q')" "sum_list ns = length (concat bss)"
  shows "concat outs = concat bss \<and> is_empty q'"
  using pulls_abs [OF _ assms(1)] fold_push [OF empty_ok(1), of bss] empty_ok(2) assms(2) is_empty_iff [of q']
  by simp

end

lemma concat_consume_chunks: "concat (consume_chunks n cs) = drop n (concat cs)"
  by (induction n cs rule: consume_chunks.induct) auto

lemma consume_chunks_ok: "[] \<notin> set cs \<Longrightarrow> [] \<notin> set (consume_chunks n cs)"
  by (induction n cs rule: consume_chunks.induct) auto

lemma consume_contents [simp]: "contents (consume b n) = drop n (contents b)"
  by (simp add: contents_def consume_def concat_consume_chunks)

lemma consume_ok: "cvb_ok b \<Longrightarrow> cvb_ok (consume b n)"
  by (simp add: cvb_ok_def consume_def consume_chunks_ok)

lemma read_loop_contents:
  "read_loop n b = (out, b') \<Longrightarrow>
     out = take n (contents b) \<and> contents b' = drop n (contents b) \<and> (cvb_ok b \<longrightarrow> cvb_ok b')
       \<and> cvb_limit b' = cvb_limit b"
proof (induction n b arbitrary: out b' rule: read_loop.induct)
  case (1 n b)
  show ?case
  proof (cases "cvb_chunks b")
    case Nil
    with "1.prems" show ?thesis by (auto simp: read_loop.simps [of n b] contents_def)
  next
    case (Cons c cs)
    show ?thesis
    proof (cases "n = 0")
      case True
      with "1.prems" Cons show ?thesis by (auto simp: read_loop.simps [of 0 b])
    next
      case False
      let ?u = "min (length c) n" and ?b = "consume b (min (length c) n)"
      obtain out' b'' where rec: "read_loop (n - ?u) ?b = (out', b'')" by (cases "read_loop (n - ?u) ?b")
      with "1.prems" Cons False have out: "out = take ?u c @ out'" "b' = b''"
        by (auto simp: read_loop.simps [of n b] Let_def)
      have "take n (contents b) = take ?u c @ take (n - ?u) (drop ?u (contents b))"
        by (auto simp: contents_def Cons min_def)
      moreover have "cvb_limit ?b = cvb_limit b" by (simp add: consume_def)
      ultimately show ?thesis
        using "1.IH" [OF Cons False refl refl rec] out consume_ok [of b ?u] by auto
    qed
  qed
qed

lemma len_contents: "ChunkVecBuffer_len b = length (contents b)"
proof -
  have "fold (\<lambda>ch len. len + length ch) cs n = n + length (concat cs)" for cs :: "bytes list" and n
    by (induction cs arbitrary: n) auto
  then show ?thesis by (simp add: ChunkVecBuffer_len_def contents_def)
qed

interpretation chunk_buffer: byte_queue contents cvb_ok "ChunkVecBuffer_new limit" ChunkVecBuffer_is_empty
  "\<lambda>b bs. snd (ChunkVecBuffer_append b bs)" ChunkVecBuffer_read for limit
proof unfold_locales
  fix q n out q' assume "cvb_ok q" "ChunkVecBuffer_read q n = (out, q')"
  then show "cvb_ok q' \<and> out = take n (contents q) \<and> contents q' = drop n (contents q)"
    using read_loop_contents [of n q out q'] by (simp add: ChunkVecBuffer_read_def)
next
  fix q assume "cvb_ok q"
  then show "ChunkVecBuffer_is_empty q = (contents q = [])"
    by (cases "cvb_chunks q") (auto simp: ChunkVecBuffer_is_empty_def contents_def cvb_ok_def)
qed (auto simp: ChunkVecBuffer_new_def cvb_ok_def contents_def ChunkVecBuffer_append_def)

lemma append_limited_copy_spec:
  assumes "append_limited_copy b bs = (n, b')"
  shows "contents b' = contents b @ take n bs" "n \<le> length bs"
    "cvb_limit b = Some l \<Longrightarrow> length (contents b) \<le> l \<Longrightarrow> length (contents b') \<le> l"
    "cvb_limit b = None \<Longrightarrow> n = length bs"
  using assms by (auto simp: append_limited_copy_def ChunkVecBuffer_append_def apply_limit_def len_contents contents_def Let_def
      split: option.splits)

subsection \<open>\<open>LimitedCache\<close>\<close>

text \<open>
  \<open>lc_cap\<close> is the capacity of the queue \<open>oldest\<close>. What \<open>VecDeque\<close> allocates is not fixed by its interface: \<open>alloc n\<close> is
  the capacity it has after \<open>with_capacity(n)\<close>, and \<open>grow c\<close> the capacity after a push onto a full queue of capacity \<open>c\<close>.
\<close>

record ('k, 'v) LimitedCache =
  lc_map :: "'k \<Rightarrow> 'v option"
  lc_oldest :: "'k list"
  lc_cap :: nat

definition LimitedCache_new :: "(nat \<Rightarrow> nat) \<Rightarrow> nat \<Rightarrow> ('k, 'v) LimitedCache" where
  "LimitedCache_new alloc capacity_order_of_magnitude =
     \<lparr>lc_map = Map.empty, lc_oldest = [], lc_cap = alloc capacity_order_of_magnitude\<rparr>"

definition push_back :: "(nat \<Rightarrow> nat) \<Rightarrow> 'k \<Rightarrow> ('k, 'v) LimitedCache \<Rightarrow> ('k, 'v) LimitedCache" where
  "push_back grow k c =
     c\<lparr>lc_oldest := lc_oldest c @ [k],
       lc_cap := (if length (lc_oldest c) = lc_cap c then grow (lc_cap c) else lc_cap c)\<rparr>"

definition LimitedCache_insert :: "(nat \<Rightarrow> nat) \<Rightarrow> 'k \<Rightarrow> 'v \<Rightarrow> ('k, 'v) LimitedCache \<Rightarrow> ('k, 'v) LimitedCache" where
  "LimitedCache_insert grow k v c =
     (let (inserted_new_item, c) =
        (case lc_map c k of
           Some _ \<Rightarrow> (False, c\<lparr>lc_map := (lc_map c)(k \<mapsto> v)\<rparr>)
         | None \<Rightarrow> let c = push_back grow k c in (True, c\<lparr>lc_map := (lc_map c)(k \<mapsto> v)\<rparr>))
      in if inserted_new_item \<and> lc_cap c = length (lc_oldest c)
         then case lc_oldest c of
                oldest_key # rest \<Rightarrow> c\<lparr>lc_oldest := rest, lc_map := (lc_map c)(oldest_key := None)\<rparr>
              | [] \<Rightarrow> c
         else c)"

definition LimitedCache_get :: "'k \<Rightarrow> ('k, 'v) LimitedCache \<Rightarrow> 'v option" where
  "LimitedCache_get k c = lc_map c k"

definition LimitedCache_remove :: "'k \<Rightarrow> ('k, 'v) LimitedCache \<Rightarrow> 'v option \<times> ('k, 'v) LimitedCache" where
  "LimitedCache_remove k c =
     (case lc_map c k of
        Some val \<Rightarrow> (Some val, c\<lparr>lc_map := (lc_map c)(k := None), lc_oldest := remove1 k (lc_oldest c)\<rparr>)
      | None \<Rightarrow> (None, c))"

text \<open>The keys in the queue are exactly the keys of the map, and a queue that has a capacity keeps a free slot.\<close>

definition LimitedCache_ok :: "('k, 'v) LimitedCache \<Rightarrow> bool" where
  "LimitedCache_ok c \<longleftrightarrow> distinct (lc_oldest c) \<and> set (lc_oldest c) = dom (lc_map c)
     \<and> (length (lc_oldest c) < lc_cap c \<or> lc_cap c = 0 \<and> lc_oldest c = [])"

lemma LimitedCache_new_ok: "LimitedCache_ok (LimitedCache_new alloc n)"
  by (auto simp: LimitedCache_ok_def LimitedCache_new_def)

lemma LimitedCache_insert_ok:
  assumes "LimitedCache_ok c" "\<And>n. n < grow n"
  shows "LimitedCache_ok (LimitedCache_insert grow k v c)"
proof (cases "lc_map c k")
  case None
  then have k: "k \<notin> set (lc_oldest c)" using assms(1) by (auto simp: LimitedCache_ok_def)
  show ?thesis
    using assms None k
    by (cases "lc_oldest c")
      (auto simp: LimitedCache_ok_def LimitedCache_insert_def push_back_def Let_def less_Suc_eq_le Suc_lessI
        split: if_splits)
next
  case (Some w)
  with assms(1) show ?thesis
    by (auto simp: LimitedCache_ok_def LimitedCache_insert_def)
qed

lemma LimitedCache_remove_ok: "LimitedCache_ok c \<Longrightarrow> LimitedCache_ok (snd (LimitedCache_remove k c))"
  by (auto simp: LimitedCache_ok_def LimitedCache_remove_def set_remove1_eq length_remove1 split: option.splits)

text \<open>
  An insertion into a cache with room for more than one key: the key maps to the value; another key keeps
  its value, or it was the oldest of a full cache and is gone.
\<close>

lemma LimitedCache_get_insert:
  assumes "LimitedCache_ok c" "1 < lc_cap c"
  shows "LimitedCache_get k (LimitedCache_insert grow k v c) = Some v"
    and "k' \<noteq> k \<Longrightarrow> LimitedCache_get k' (LimitedCache_insert grow k v c) =
      (if LimitedCache_get k c = None \<and> length (lc_oldest c) + 1 = lc_cap c \<and> hd (lc_oldest c) = k'
       then None else LimitedCache_get k' c)"
proof -
  have k: "lc_map c k = None \<Longrightarrow> k \<notin> set (lc_oldest c)" and room: "length (lc_oldest c) < lc_cap c"
    using assms by (auto simp: LimitedCache_ok_def)
  show "LimitedCache_get k (LimitedCache_insert grow k v c) = Some v"
    using assms(2) room k
    by (cases "lc_oldest c")
      (auto simp: LimitedCache_get_def LimitedCache_insert_def push_back_def Let_def split: option.splits)
  show "LimitedCache_get k' (LimitedCache_insert grow k v c) =
      (if LimitedCache_get k c = None \<and> length (lc_oldest c) + 1 = lc_cap c \<and> hd (lc_oldest c) = k'
       then None else LimitedCache_get k' c)" if "k' \<noteq> k"
    using assms(2) room k that
    by (cases "lc_oldest c")
      (auto simp: LimitedCache_get_def LimitedCache_insert_def push_back_def Let_def split: option.splits)
qed

lemma LimitedCache_cap_insert:
  "LimitedCache_ok c \<Longrightarrow> 0 < lc_cap c \<Longrightarrow> lc_cap (LimitedCache_insert grow k v c) = lc_cap c"
  by (auto simp: LimitedCache_ok_def LimitedCache_insert_def push_back_def Let_def split: option.splits list.splits)

text \<open>The caches that any sequence of insertions and removals makes of a new one.\<close>

inductive cache_reachable :: "(nat \<Rightarrow> nat) \<Rightarrow> (nat \<Rightarrow> nat) \<Rightarrow> nat \<Rightarrow> ('k, 'v) LimitedCache \<Rightarrow> bool" for alloc grow n where
  new: "cache_reachable alloc grow n (LimitedCache_new alloc n)"
| insert: "cache_reachable alloc grow n c \<Longrightarrow> cache_reachable alloc grow n (LimitedCache_insert grow k v c)"
| remove: "cache_reachable alloc grow n c \<Longrightarrow> cache_reachable alloc grow n (snd (LimitedCache_remove k c))"

lemma LimitedCache_insert_ok_nonempty:
  assumes "LimitedCache_ok c" "0 < lc_cap c"
  shows "LimitedCache_ok (LimitedCache_insert grow k v c)"
proof -
  have "LimitedCache_insert grow k v c = LimitedCache_insert Suc k v c"
    using assms by (auto simp: LimitedCache_ok_def LimitedCache_insert_def push_back_def Let_def split: option.splits)
  with LimitedCache_insert_ok [OF assms(1), of Suc k v] show ?thesis by simp
qed

lemma LimitedCache_cap_remove: "lc_cap (snd (LimitedCache_remove k c)) = lc_cap c"
  by (simp add: LimitedCache_remove_def split: option.splits)

lemma cache_reachable_ok:
  assumes "cache_reachable alloc grow n c" "0 < alloc n"
  shows "LimitedCache_ok c \<and> lc_cap c = alloc n"
  using assms
proof (induction rule: cache_reachable.induct)
  case new
  then show ?case by (simp add: LimitedCache_new_ok) (simp add: LimitedCache_new_def)
qed (auto simp: LimitedCache_insert_ok_nonempty LimitedCache_cap_insert LimitedCache_remove_ok LimitedCache_cap_remove)

end
