(* ===== verification/Tls_Record_Layer.thy ===== *)
theory Tls_Record_Layer
  imports Tls_Message
begin

text \<open>
  \<open>RecordLayer\<close> of \<open>tlspuffin/src/tls/rustls/record_layer.rs\<close> and the nonces and placeholder ciphers of
  \<open>cipher.rs\<close>. The trait objects \<open>MessageEncrypter\<close> and \<open>MessageDecrypter\<close> are functions. An operation that can
  panic (a failed \<open>assert!\<close>, \<open>debug_assert!\<close> or \<open>unwrap\<close>) returns an option, \<open>None\<close> the panic; the
  \<open>debug_assert!\<close>s are those of a debug build.

  The relation \<open>record_step\<close> runs the operations in any order and logs the sequence numbers handed to each
  encrypter. The limit on the write counter keeps it from wrapping, so under one key no sequence number,
  and with \<open>make_nonce_inj\<close> no nonce, is used twice.
\<close>

type_synonym MessageEncrypter = "PlainMessage \<Rightarrow> u64 \<Rightarrow> Error + OpaqueMessage"
type_synonym MessageDecrypter = "OpaqueMessage \<Rightarrow> u64 \<Rightarrow> Error + PlainMessage"

definition InvalidMessageEncrypter :: MessageEncrypter where
  "InvalidMessageEncrypter m seq = Inl (General ''encrypt not yet available'')"

definition InvalidMessageDecrypter :: MessageDecrypter where
  "InvalidMessageDecrypter m seq = Inl DecryptError"

text \<open>\<open>iv\<close> is the array of \<open>NONCE_LEN\<close>, 12, bytes; the sequence number goes into the last eight.\<close>

definition NONCE_LEN :: nat where
  "NONCE_LEN = 12"

definition Iv_copy :: "bytes \<Rightarrow> bytes option" where
  "Iv_copy val = (if length val = NONCE_LEN then Some val else None)"

definition make_nonce :: "bytes \<Rightarrow> u64 \<Rightarrow> bytes" where
  "make_nonce iv seq =
     (let nonce = replicate NONCE_LEN 0;
          nonce = overwrite 4 (the (put_u64 seq (drop 4 nonce))) nonce
      in map2 (\<lambda>n i. n XOR i) nonce iv)"

definition SEQ_SOFT_LIMIT :: u64 where
  "SEQ_SOFT_LIMIT = 0xffffffffffff0000"

definition SEQ_HARD_LIMIT :: u64 where
  "SEQ_HARD_LIMIT = 0xfffffffffffffffe"

datatype DirectionState = Invalid | Prepared | Active

record RecordLayer =
  rl_message_encrypter :: MessageEncrypter
  rl_message_decrypter :: MessageDecrypter
  rl_write_seq :: u64
  rl_read_seq :: u64
  rl_encrypt_state :: DirectionState
  rl_decrypt_state :: DirectionState
  rl_trial_decryption_len :: "nat option"

definition RecordLayer_new :: RecordLayer where
  "RecordLayer_new =
     \<lparr>rl_message_encrypter = InvalidMessageEncrypter, rl_message_decrypter = InvalidMessageDecrypter,
      rl_write_seq = 0, rl_read_seq = 0, rl_encrypt_state = DirectionState.Invalid,
      rl_decrypt_state = DirectionState.Invalid, rl_trial_decryption_len = None\<rparr>"

definition is_encrypting :: "RecordLayer \<Rightarrow> bool" where
  "is_encrypting l \<longleftrightarrow> rl_encrypt_state l = DirectionState.Active"

definition is_decrypting :: "RecordLayer \<Rightarrow> bool" where
  "is_decrypting l \<longleftrightarrow> rl_decrypt_state l = DirectionState.Active"

definition doing_trial_decryption :: "RecordLayer \<Rightarrow> nat \<Rightarrow> bool \<times> RecordLayer" where
  "doing_trial_decryption l requested =
     (case Option.bind (rl_trial_decryption_len l)
        (\<lambda>val. if requested \<le> val then Some (val - requested) else None) of
        Some remaining \<Rightarrow> (True, l\<lparr>rl_trial_decryption_len := Some remaining\<rparr>)
      | None \<Rightarrow> (False, l))"

definition prepare_message_encrypter :: "RecordLayer \<Rightarrow> MessageEncrypter \<Rightarrow> RecordLayer" where
  "prepare_message_encrypter l cipher =
     l\<lparr>rl_message_encrypter := cipher, rl_write_seq := 0, rl_encrypt_state := DirectionState.Prepared\<rparr>"

definition prepare_message_decrypter :: "RecordLayer \<Rightarrow> MessageDecrypter \<Rightarrow> RecordLayer" where
  "prepare_message_decrypter l cipher =
     l\<lparr>rl_message_decrypter := cipher, rl_read_seq := 0, rl_decrypt_state := DirectionState.Prepared\<rparr>"

definition start_encrypting :: "RecordLayer \<Rightarrow> RecordLayer option" where
  "start_encrypting l =
     (if rl_encrypt_state l = DirectionState.Prepared then Some (l\<lparr>rl_encrypt_state := DirectionState.Active\<rparr>) else None)"

definition start_decrypting :: "RecordLayer \<Rightarrow> RecordLayer option" where
  "start_decrypting l =
     (if rl_decrypt_state l = DirectionState.Prepared then Some (l\<lparr>rl_decrypt_state := DirectionState.Active\<rparr>) else None)"

definition set_message_encrypter :: "RecordLayer \<Rightarrow> MessageEncrypter \<Rightarrow> RecordLayer option" where
  "set_message_encrypter l cipher = start_encrypting (prepare_message_encrypter l cipher)"

definition set_message_decrypter :: "RecordLayer \<Rightarrow> MessageDecrypter \<Rightarrow> RecordLayer option" where
  "set_message_decrypter l cipher =
     map_option (\<lambda>l. l\<lparr>rl_trial_decryption_len := None\<rparr>) (start_decrypting (prepare_message_decrypter l cipher))"

definition set_message_decrypter_with_trial_decryption ::
  "RecordLayer \<Rightarrow> MessageDecrypter \<Rightarrow> nat \<Rightarrow> RecordLayer option" where
  "set_message_decrypter_with_trial_decryption l cipher max_length =
     map_option (\<lambda>l. l\<lparr>rl_trial_decryption_len := Some max_length\<rparr>)
       (start_decrypting (prepare_message_decrypter l cipher))"

definition finish_trial_decryption :: "RecordLayer \<Rightarrow> RecordLayer" where
  "finish_trial_decryption l = l\<lparr>rl_trial_decryption_len := None\<rparr>"

definition wants_close_before_decrypt :: "RecordLayer \<Rightarrow> bool" where
  "wants_close_before_decrypt l \<longleftrightarrow> rl_read_seq l = SEQ_SOFT_LIMIT"

definition wants_close_before_encrypt :: "RecordLayer \<Rightarrow> bool" where
  "wants_close_before_encrypt l \<longleftrightarrow> rl_write_seq l = SEQ_SOFT_LIMIT"

definition encrypt_exhausted :: "RecordLayer \<Rightarrow> bool" where
  "encrypt_exhausted l \<longleftrightarrow> rl_write_seq l \<ge> SEQ_HARD_LIMIT"

text \<open>An increment of \<open>read_seq\<close> past \<open>u64::MAX\<close> panics in a debug build.\<close>

definition decrypt_incoming :: "RecordLayer \<Rightarrow> OpaqueMessage \<Rightarrow> ((Error + PlainMessage) \<times> RecordLayer) option" where
  "decrypt_incoming l encr =
     (if \<not> is_decrypting l then None
      else
        let seq = rl_read_seq l in
        case rl_message_decrypter l encr seq of
          Inl e \<Rightarrow> Some (Inl e, l)
        | Inr msg \<Rightarrow> if seq = -1 then None else Some (Inr msg, l\<lparr>rl_read_seq := seq + 1\<rparr>))"

definition encrypt_outgoing :: "RecordLayer \<Rightarrow> PlainMessage \<Rightarrow> (OpaqueMessage \<times> RecordLayer) option" where
  "encrypt_outgoing l plain =
     (if rl_encrypt_state l \<noteq> DirectionState.Active then None
      else if encrypt_exhausted l then None
      else
        let seq = rl_write_seq l;
            l = l\<lparr>rl_write_seq := seq + 1\<rparr>
        in case rl_message_encrypter l plain seq of
             Inl _ \<Rightarrow> None
           | Inr m \<Rightarrow> Some (m, l))"

subsection \<open>Nonces\<close>

lemma make_nonce_bytes:
  "make_nonce iv seq = map2 (\<lambda>n i. n XOR i) (replicate 4 0 @ u64_to_be_bytes seq) iv"
  by (simp add: make_nonce_def NONCE_LEN_def put_u64_def overwrite_def numeral_eq_Suc)

lemma xor_right_cancel: "a XOR c = b XOR c \<longleftrightarrow> a = (b :: 'a::len word)"
proof
  assume "a XOR c = b XOR c"
  then have "(a XOR c) XOR c = (b XOR c) XOR c" by simp
  then show "a = b" by (simp add: xor.assoc)
qed simp

lemma map2_xor_cancel:
  "length xs = length ys \<Longrightarrow> length ys \<le> length iv \<Longrightarrow>
     map2 (\<lambda>n i. n XOR i) xs iv = map2 (\<lambda>n i. n XOR i) ys iv \<Longrightarrow> xs = (ys :: 'a::len word list)"
proof (induction xs ys arbitrary: iv rule: list_induct2)
  case (Cons x xs y ys)
  then obtain i iv' where "iv = i # iv'" by (cases iv) auto
  moreover from this Cons.prems have "x = y"
    by (simp add: xor_right_cancel)
  ultimately show ?case using Cons by auto
qed simp

lemma make_nonce_inj:
  assumes "length iv = 12" "make_nonce iv a = make_nonce iv b"
  shows "a = b"
proof -
  have "replicate 4 0 @ u64_to_be_bytes a = replicate 4 0 @ u64_to_be_bytes b"
    by (rule map2_xor_cancel [OF _ _ assms(2) [unfolded make_nonce_bytes]]) (simp_all add: assms(1))
  then have "u64_from_be_bytes (u64_to_be_bytes a) = u64_from_be_bytes (u64_to_be_bytes b)" by simp
  then show ?thesis by simp
qed

subsection \<open>Sequence numbers\<close>

text \<open>
  A run of the record layer. The log has an entry for every call of an encrypter: the epoch counts the
  encrypters that were installed, so a pair of epoch and sequence number identifies a nonce.
\<close>

record rl_run =
  run_layer :: RecordLayer
  run_epoch :: nat
  run_log :: "(nat \<times> u64) list"

inductive record_step :: "rl_run \<Rightarrow> rl_run \<Rightarrow> bool" where
  encrypt: "encrypt_outgoing (run_layer s) plain = Some (m, l) \<Longrightarrow>
    record_step s (s\<lparr>run_layer := l, run_log := run_log s @ [(run_epoch s, rl_write_seq (run_layer s))]\<rparr>)"
| decrypt: "decrypt_incoming (run_layer s) encr = Some (res, l) \<Longrightarrow> record_step s (s\<lparr>run_layer := l\<rparr>)"
| prepare_encrypter: "record_step s (s\<lparr>run_layer := prepare_message_encrypter (run_layer s) cipher,
    run_epoch := run_epoch s + 1\<rparr>)"
| prepare_decrypter: "record_step s (s\<lparr>run_layer := prepare_message_decrypter (run_layer s) decipher\<rparr>)"
| start_encrypt: "start_encrypting (run_layer s) = Some l \<Longrightarrow> record_step s (s\<lparr>run_layer := l\<rparr>)"
| start_decrypt: "start_decrypting (run_layer s) = Some l \<Longrightarrow> record_step s (s\<lparr>run_layer := l\<rparr>)"
| set_encrypter: "set_message_encrypter (run_layer s) cipher = Some l \<Longrightarrow>
    record_step s (s\<lparr>run_layer := l, run_epoch := run_epoch s + 1\<rparr>)"
| set_decrypter: "set_message_decrypter (run_layer s) decipher = Some l \<Longrightarrow> record_step s (s\<lparr>run_layer := l\<rparr>)"
| set_trial_decrypter: "set_message_decrypter_with_trial_decryption (run_layer s) decipher n = Some l \<Longrightarrow>
    record_step s (s\<lparr>run_layer := l\<rparr>)"
| trial: "doing_trial_decryption (run_layer s) n = (res, l) \<Longrightarrow> record_step s (s\<lparr>run_layer := l\<rparr>)"
| finish_trial: "record_step s (s\<lparr>run_layer := finish_trial_decryption (run_layer s)\<rparr>)"

definition run_init :: rl_run where
  "run_init = \<lparr>run_layer = RecordLayer_new, run_epoch = 0, run_log = []\<rparr>"

text \<open>Every logged number of the current epoch is below the counter, and the counter below the limit.\<close>

definition run_inv :: "rl_run \<Rightarrow> bool" where
  "run_inv s \<longleftrightarrow> distinct (run_log s) \<and> rl_write_seq (run_layer s) \<le> SEQ_HARD_LIMIT
     \<and> (\<forall>(e, n) \<in> set (run_log s). n < SEQ_HARD_LIMIT \<and> (e < run_epoch s \<or> e = run_epoch s \<and> n < rl_write_seq (run_layer s)))"

lemma encrypt_outgoing_seq:
  assumes "encrypt_outgoing l plain = Some (m, l')"
  shows "rl_write_seq l < SEQ_HARD_LIMIT" "rl_write_seq l' = rl_write_seq l + 1" "rl_write_seq l < rl_write_seq l'"
    "rl_write_seq l' \<le> SEQ_HARD_LIMIT" "rl_message_encrypter l plain (rl_write_seq l) = Inr m"
proof -
  show lim: "rl_write_seq l < SEQ_HARD_LIMIT" and suc: "rl_write_seq l' = rl_write_seq l + 1"
    and "rl_message_encrypter l plain (rl_write_seq l) = Inr m"
    using assms by (auto simp: encrypt_outgoing_def encrypt_exhausted_def Let_def split: if_splits sum.splits)
  have "unat (rl_write_seq l + 1) = unat (rl_write_seq l) + 1"
    using lim by (subst unat_add_lem [THEN iffD1]) (simp_all add: SEQ_HARD_LIMIT_def word_less_nat_alt)
  then show "rl_write_seq l < rl_write_seq l'" "rl_write_seq l' \<le> SEQ_HARD_LIMIT"
    using lim by (simp_all add: suc word_less_nat_alt word_le_nat_alt)
qed

lemma layer_seq_frame:
  "decrypt_incoming l encr = Some (res, l') \<Longrightarrow> rl_write_seq l' = rl_write_seq l"
  "start_encrypting l = Some l' \<Longrightarrow> rl_write_seq l' = rl_write_seq l"
  "start_decrypting l = Some l' \<Longrightarrow> rl_write_seq l' = rl_write_seq l"
  "set_message_decrypter l decipher = Some l' \<Longrightarrow> rl_write_seq l' = rl_write_seq l"
  "set_message_decrypter_with_trial_decryption l decipher n = Some l' \<Longrightarrow> rl_write_seq l' = rl_write_seq l"
  "doing_trial_decryption l n = (b, l') \<Longrightarrow> rl_write_seq l' = rl_write_seq l"
  "set_message_encrypter l cipher = Some l' \<Longrightarrow> rl_write_seq l' = 0"
  by (auto simp: decrypt_incoming_def start_encrypting_def start_decrypting_def set_message_decrypter_def
      set_message_decrypter_with_trial_decryption_def doing_trial_decryption_def set_message_encrypter_def
      prepare_message_encrypter_def prepare_message_decrypter_def Let_def split: if_splits sum.splits option.splits)

lemma run_inv_frame:
  "run_inv s \<Longrightarrow> rl_write_seq l = rl_write_seq (run_layer s) \<Longrightarrow> run_inv (s\<lparr>run_layer := l\<rparr>)"
  by (simp add: run_inv_def)

lemma run_inv_epoch:
  "run_inv s \<Longrightarrow> rl_write_seq l = 0 \<Longrightarrow> run_inv (s\<lparr>run_layer := l, run_epoch := Suc (run_epoch s)\<rparr>)"
  by (force simp: run_inv_def)

lemma run_inv_step: "record_step s s' \<Longrightarrow> run_inv s \<Longrightarrow> run_inv s'"
proof (induction rule: record_step.induct)
  case (encrypt s plain m l)
  note seq = encrypt_outgoing_seq [OF encrypt(1)]
  have "(run_epoch s, rl_write_seq (run_layer s)) \<notin> set (run_log s)"
    using encrypt(2) by (auto simp: run_inv_def)
  moreover have "n < rl_write_seq l" if "(run_epoch s, n) \<in> set (run_log s)" for n
    using encrypt(2) that seq(3) by (force simp: run_inv_def)
  ultimately show ?case using encrypt(2) seq by (force simp: run_inv_def)
qed (auto intro!: run_inv_frame run_inv_epoch dest: layer_seq_frame
  simp: prepare_message_encrypter_def prepare_message_decrypter_def finish_trial_decryption_def)

lemma run_inv_init: "run_inv run_init"
  by (simp add: run_inv_def run_init_def RecordLayer_new_def SEQ_HARD_LIMIT_def)

lemma run_inv_reachable: "record_step\<^sup>*\<^sup>* run_init s \<Longrightarrow> run_inv s"
  by (induction rule: rtranclp_induct) (auto intro: run_inv_step run_inv_init)

end
