(* ===== verification/Tls_Results.thy ===== *)
theory Tls_Results
  imports Tls_Deframer Tls_Fragmenter Tls_Buffers Tls_Record_Layer
begin

text \<open>
  What the TLS components promise, stated over their definitions: the wire format of records and handshake
  messages, the deframer, the fragmenter, the handshake joiner, the buffers and the record layer. Each
  property is followed by an instance at a concrete input.
\<close>

subsection \<open>Records\<close>

text \<open>
  C5: \<open>OpaqueMessage::read\<close> succeeds on a buffer exactly when the buffer starts with the encoding of a
  valid record; it returns that record and stops right after its encoding. So decoding inverts encoding
  whatever follows, and no other byte string is accepted.
\<close>

theorem record_read_iff:
  "OpaqueMessage_read (Reader_init bs) = Inr (m, r) \<longleftrightarrow>
     OpaqueMessage_valid m \<and> (\<exists>rest. bs = OpaqueMessage_encode m @ rest)
     \<and> r = \<lparr>rd_buf = bs, rd_offs = length (OpaqueMessage_encode m)\<rparr>"
proof
  assume rd: "OpaqueMessage_read (Reader_init bs) = Inr (m, r)"
  then have "bs = OpaqueMessage_encode m @ drop (length (OpaqueMessage_encode m)) bs"
    using OpaqueMessage_encode_read(2) [OF rd] append_take_drop_id [of "length (OpaqueMessage_encode m)" bs] by simp
  then show "OpaqueMessage_valid m \<and> (\<exists>rest. bs = OpaqueMessage_encode m @ rest)
     \<and> r = \<lparr>rd_buf = bs, rd_offs = length (OpaqueMessage_encode m)\<rparr>"
    using OpaqueMessage_encode_read(1,3) [OF rd] by (auto simp: adv_def Reader_init_def)
next
  assume "OpaqueMessage_valid m \<and> (\<exists>rest. bs = OpaqueMessage_encode m @ rest)
     \<and> r = \<lparr>rd_buf = bs, rd_offs = length (OpaqueMessage_encode m)\<rparr>"
  then show "OpaqueMessage_read (Reader_init bs) = Inr (m, r)"
    using OpaqueMessage_read_encode [of m "Reader_init bs"] by (auto simp: adv_def Reader_init_def rem_def)
qed

text \<open>
  The error \<open>TooShortForLength\<close> means that a complete header arrived and that some continuation of
  the input completes a valid record.
\<close>

lemma record_short_iff:
  "OpaqueMessage_read (Reader_init bs) = Inl TooShortForLength \<longleftrightarrow>
     5 \<le> length bs \<and> (\<exists>ext m. ext \<noteq> [] \<and> OpaqueMessage_valid m \<and> bs @ ext = OpaqueMessage_encode m)"
proof
  assume rd: "OpaqueMessage_read (Reader_init bs) = Inl TooShortForLength"
  then obtain ext m where m: "OpaqueMessage_valid m" "bs @ ext = OpaqueMessage_encode m"
    using read_short_completable by blast
  moreover have "ext \<noteq> []"
    using m rd OpaqueMessage_read_encode [of m "Reader_init bs" "[]"] by auto
  ultimately show "5 \<le> length bs \<and> (\<exists>ext m. ext \<noteq> [] \<and> OpaqueMessage_valid m \<and> bs @ ext = OpaqueMessage_encode m)"
    using rd by (auto simp: OpaqueMessage_read_conv split: if_splits)
next
  assume "5 \<le> length bs \<and> (\<exists>ext m. ext \<noteq> [] \<and> OpaqueMessage_valid m \<and> bs @ ext = OpaqueMessage_encode m)"
  then obtain ext m where "5 \<le> length bs" "ext \<noteq> []" "OpaqueMessage_valid m" "bs @ ext = OpaqueMessage_encode m" by blast
  with read_proper_prefix [of m bs ext] show "OpaqueMessage_read (Reader_init bs) = Inl TooShortForLength"
    by (auto simp: OpaqueMessage_read_conv hdr_error_def split: if_splits option.splits)
qed

text \<open>
  Any other error means that the input is lost for good: a complete header arrived and no continuation
  of the input starts with a valid record.
\<close>

lemma record_broken_iff:
  "(\<exists>e. OpaqueMessage_read (Reader_init bs) = Inl e \<and> e \<noteq> TooShortForHeader \<and> e \<noteq> TooShortForLength) \<longleftrightarrow>
     5 \<le> length bs \<and> \<not> (\<exists>ext m rest. OpaqueMessage_valid m \<and> bs @ ext = OpaqueMessage_encode m @ rest)"
    (is "?broken \<longleftrightarrow> ?lost")
proof
  assume ?broken
  then obtain e where e: "OpaqueMessage_read (Reader_init bs) = Inl e" "e \<noteq> TooShortForHeader" "e \<noteq> TooShortForLength" by blast
  have "5 \<le> length bs" using e by (auto simp: OpaqueMessage_read_conv split: if_splits)
  moreover have False if "OpaqueMessage_valid m" "bs @ ext = OpaqueMessage_encode m @ rest" for ext m rest
    using read_illegal_stable [OF e, of ext] OpaqueMessage_read_encode [OF that(1), of "Reader_init (bs @ ext)" rest] that(2)
    by simp
  ultimately show ?lost by blast
next
  assume lost: ?lost
  then have "OpaqueMessage_read (Reader_init bs) \<noteq> Inr x" for x
    using OpaqueMessage_encode_read(1,2) [of "Reader_init bs" "fst x" "snd x"]
      append_take_drop_id [of "length (OpaqueMessage_encode (fst x))" bs] by (metis append_Nil2 prod.collapse rem_init)
  moreover have "OpaqueMessage_read (Reader_init bs) \<noteq> Inl TooShortForLength"
    using lost read_short_completable [of bs] by (metis append_Nil2)
  moreover have "OpaqueMessage_read (Reader_init bs) \<noteq> Inl TooShortForHeader"
    using lost by (auto simp: OpaqueMessage_read_conv hdr_error_def split: if_splits option.splits)
  ultimately show ?broken by (cases "OpaqueMessage_read (Reader_init bs)") auto
qed

text \<open>
  C6: the errors of \<open>OpaqueMessage::read\<close> mean what the deframer takes them for. After a complete header,
  \<open>TooShortForLength\<close> is returned exactly when some continuation of the input completes a valid record, and one of the
  fatal errors exactly when no continuation of the input starts with a valid record.
\<close>

theorem record_errors_mean:
  "(OpaqueMessage_read (Reader_init bs) = Inl TooShortForLength \<longleftrightarrow>
      5 \<le> length bs \<and> (\<exists>ext m. ext \<noteq> [] \<and> OpaqueMessage_valid m \<and> bs @ ext = OpaqueMessage_encode m))
   \<and> ((\<exists>e. OpaqueMessage_read (Reader_init bs) = Inl e \<and> e \<noteq> TooShortForHeader \<and> e \<noteq> TooShortForLength) \<longleftrightarrow>
      5 \<le> length bs \<and> (\<nexists>ext m rest. OpaqueMessage_valid m \<and> bs @ ext = OpaqueMessage_encode m @ rest))"
  using record_short_iff record_broken_iff by simp

subsection \<open>The deframer\<close>

text \<open>An alert record, and the state that reading its bytes ends in, for the instances below.\<close>

definition example_record :: OpaqueMessage where
  "example_record = \<lparr>om_typ = ContentType.Alert, om_version = ProtocolVersion.TLSv1_2, om_payload = [2, 40]\<rparr>"

lemma example_record_valid: "OpaqueMessage_valid example_record"
  by (simp add: example_record_def OpaqueMessage_valid_def type_ok_def version_ok_def)

lemma example_reads: "\<exists>d. feeds\<^sup>*\<^sup>* (MessageDeframer_new, OpaqueMessage_encode example_record) (d, [])"
  using feeds_complete [OF feed_inv_init] deframe_frames [of "[example_record]"] example_record_valid by simp

text \<open>
  C3: however the transport cuts the input into reads, once all of it has been read the deframer holds
  exactly the frames, the incomplete rest and the verdict that the one-pass specification \<open>deframe\<close>
  computes from the whole input.
\<close>

theorem deframer_refines_deframe:
  assumes "feeds\<^sup>*\<^sup>* (MessageDeframer_new, input) (d, [])"
  shows "deframe input = (df_frames d, pending d, df_desynced d)"
  using assms by (intro feed_inv_done feed_inv_reachable)

theorem deframer_refines_deframe_witness:
  "\<exists>d. feeds\<^sup>*\<^sup>* (MessageDeframer_new, OpaqueMessage_encode example_record) (d, [])
     \<and> deframe (OpaqueMessage_encode example_record) = (df_frames d, pending d, df_desynced d)"
  using example_reads deframer_refines_deframe by blast

text \<open>
  Frames are neither lost, duplicated nor reordered. If the input is the concatenation of the encodings
  of valid records, then after any sequence of reads that delivers it the queue holds those records and
  nothing waits in the buffer.
\<close>

theorem deframer_delivers_frames:
  assumes "list_all OpaqueMessage_valid ms"
    and "feeds\<^sup>*\<^sup>* (MessageDeframer_new, concat (map OpaqueMessage_encode ms)) (d, [])"
  shows "df_frames d = ms \<and> df_used d = 0 \<and> \<not> df_desynced d"
proof -
  have inv: "feed_inv (concat (map OpaqueMessage_encode ms)) (d, [])"
    using assms(2) by (rule feed_inv_reachable)
  then have "(df_frames d, pending d, df_desynced d) = (ms, [], False)"
    using deframe_frames [OF assms(1)] feed_inv_done by metis
  moreover have "pending d = [] \<Longrightarrow> df_used d = 0"
    using inv by (auto simp: pending_def feed_inv_def deframer_ok_def)
  ultimately show ?thesis by simp
qed

theorem deframer_delivers_frames_witness:
  "\<exists>d. feeds\<^sup>*\<^sup>* (MessageDeframer_new, OpaqueMessage_encode example_record) (d, []) \<and> df_frames d = [example_record]"
  using example_reads deframer_delivers_frames [of "[example_record]"] example_record_valid by auto

text \<open>
  C4: the deframer never stalls. Whatever has been read so far of an input that is not broken, there is a
  sequence of further reads that takes in the rest: the buffer always has space for another byte.
\<close>

theorem deframer_never_stalls:
  assumes "feeds\<^sup>*\<^sup>* (MessageDeframer_new, input) (d, s)" and "\<not> snd (snd (deframe input))"
  shows "\<exists>d'. feeds\<^sup>*\<^sup>* (d, s) (d', []) \<and> df_frames d' = fst (deframe input)"
proof -
  obtain d' where d': "feeds\<^sup>*\<^sup>* (d, s) (d', [])"
    using feeds_complete [OF feed_inv_reachable [OF assms(1)] assms(2)] by blast
  with assms(1) have "feed_inv input (d', [])" by (meson feed_inv_reachable rtranclp_trans)
  with d' show ?thesis using feed_inv_done by fastforce
qed

theorem deframer_never_stalls_witness:
  "\<exists>d. feeds\<^sup>*\<^sup>* (MessageDeframer_new, OpaqueMessage_encode example_record) (d, []) \<and> df_frames d = [example_record]"
  using deframer_never_stalls [of "OpaqueMessage_encode example_record" MessageDeframer_new
      "OpaqueMessage_encode example_record"] deframe_frames [of "[example_record]"] example_record_valid by simp

subsection \<open>Handshake messages\<close>


definition example_hello :: "unit HandshakeMessagePayload" where
  "example_hello = \<lparr>hmp_typ = HandshakeType.ClientHello, hmp_payload = HandshakePayload.ClientHello
     \<lparr>chp_client_version = ProtocolVersion.TLSv1_2, chp_random = replicate 32 7, chp_session_id = SessionID_empty,
      chp_cipher_suites = [CipherSuite.Known 0x1301], chp_compression_methods = [Compression.Null],
      chp_extensions = [ClientExtension.NamedGroups [NamedGroup.X25519], ClientExtension.ExtendedMasterSecretRequest]\<rparr>\<rparr>"

lemma example_hello_length: "length (HandshakePayload_encode (hmp_payload example_hello) []) = 55"
  by code_simp

lemma example_extension_lengths:
  "length (get_encoding ClientExtension_encode (ClientExtension.NamedGroups [NamedGroup.X25519] :: unit ClientExtension)) = 8"
  "length (get_encoding ClientExtension_encode (ClientExtension.ExtendedMasterSecretRequest :: unit ClientExtension)) = 4"
  "length (NamedGroups_encode [NamedGroup.X25519] []) = 4"
  by code_simp+

lemma example_hello_valid: "HandshakeMessagePayload_valid dns vers example_hello"
proof -
  have "HandshakePayload_content dns vers (hmp_typ example_hello) (hmp_payload example_hello)"
    by (simp add: example_hello_def HandshakePayload_content_def ClientHelloPayload_valid_def vec_fits_def
        ClientExtension_valid_def example_extension_lengths SessionID_valid_def SessionID_empty_def
        CipherSuite.enum_bytes Compression.enum_bytes NamedGroup.enum_bytes CipherSuite_from_def CipherSuite_ordinals_def)
  then show ?thesis
    by (simp add: HandshakeMessagePayload_valid_def example_hello_length)
qed


subsection \<open>Fragmenting and joining\<close>



text \<open>
  The handshake joiner restores the messages from any fragmentation of their encodings, in order, with
  nothing left in its buffer, for messages of at most \<open>MAX_HANDSHAKE_SIZE\<close> bytes.
\<close>

theorem joiner_restores_messages:
  assumes "list_all (joinable dns v) hs"
    and "concat (map pm_payload fs) = concat (map (get_encoding HandshakeMessagePayload_encode) hs)"
    and "list_all (\<lambda>f. pm_version f = v) fs"
  shows "take_messages dns HandshakeJoiner_new fs = Some \<lparr>hj_frames = map (hs_message v) hs, hj_buf = []\<rparr>"
  using take_messages_refines [of fs v dns HandshakeJoiner_new hs "[]"] join_spec_messages [OF assms(1)] assms(2,3)
  by (simp add: HandshakeJoiner_new_def list_all_iff)

lemma example_hello_joinable: "joinable dns v example_hello"
  by (simp add: joinable_def example_hello_valid example_hello_length)

theorem joiner_restores_messages_witness:
  "take_messages (\<lambda>_. None) HandshakeJoiner_new
     [\<lparr>pm_typ = ContentType.Handshake, pm_version = ProtocolVersion.TLSv1_2,
       pm_payload = take 3 (get_encoding HandshakeMessagePayload_encode example_hello)\<rparr>,
      \<lparr>pm_typ = ContentType.Handshake, pm_version = ProtocolVersion.TLSv1_2,
       pm_payload = drop 3 (get_encoding HandshakeMessagePayload_encode example_hello)\<rparr>] =
     Some \<lparr>hj_frames = [hs_message ProtocolVersion.TLSv1_2 example_hello], hj_buf = []\<rparr>"
  by (subst joiner_restores_messages [of _ "ProtocolVersion.TLSv1_2" "[example_hello]"])
    (simp_all add: example_hello_joinable)

subsection \<open>Binder signing\<close>

text \<open>
  For a client hello whose last extension is a pre-shared key offer, the bytes that are signed for the
  binders are the encoding of the message without exactly its binders.
\<close>

theorem binder_signing_prefix:
  assumes "hmp_payload m = HandshakePayload.ClientHello ch"
    and "chp_extensions ch = es @ [ClientExtension.PresharedKey offer]"
  shows "get_encoding HandshakeMessagePayload_encode m =
    HandshakeMessagePayload_get_encoding_for_binder_signing m @ get_encoding VecU16OfPayloadU8_encode (pko_binders offer)"
  using binder_signing_bytes(2) [OF assms refl] .

definition example_psk :: "bytes \<Rightarrow> unit HandshakeMessagePayload" where
  "example_psk bnd = \<lparr>hmp_typ = HandshakeType.ClientHello, hmp_payload = HandshakePayload.ClientHello
     \<lparr>chp_client_version = ProtocolVersion.TLSv1_2, chp_random = replicate 32 7, chp_session_id = SessionID_empty,
      chp_cipher_suites = [], chp_compression_methods = [],
      chp_extensions = [ClientExtension.PresharedKey \<lparr>pko_identities = [], pko_binders = [bnd]\<rparr>]\<rparr>\<rparr>"

theorem binder_signing_prefix_witness:
  "get_encoding HandshakeMessagePayload_encode (example_psk [9]) =
     HandshakeMessagePayload_get_encoding_for_binder_signing (example_psk [9]) @ [0, 2, 1, 9]"
proof -
  have "get_encoding VecU16OfPayloadU8_encode [[9 :: u8]] = [0, 2, 1, 9]" by code_simp
  then show ?thesis
    using binder_signing_prefix [of "example_psk [9]"
        "case hmp_payload (example_psk [9]) of HandshakePayload.ClientHello ch \<Rightarrow> ch" "[]"
        "\<lparr>pko_identities = [], pko_binders = [[9]]\<rparr>"]
    by (simp add: example_psk_def)
qed

text \<open>
  Filling in the real binder with \<open>set_psk_binder\<close> does not change the bytes that were signed, as long
  as the placeholder had the binder's length.
\<close>

theorem binder_signing_stable:
  assumes "hmp_payload m = HandshakePayload.ClientHello ch"
    and "chp_extensions ch = es @ [ClientExtension.PresharedKey offer]" "pko_binders offer = b # bs"
    and "ClientHelloPayload_set_psk_binder ch bnd = Some ch'" "length bnd = length b"
  shows "HandshakeMessagePayload_get_encoding_for_binder_signing (m\<lparr>hmp_payload := HandshakePayload.ClientHello ch'\<rparr>) =
    HandshakeMessagePayload_get_encoding_for_binder_signing m"
  using assms by (rule binder_signing_ignores_binder)

theorem binder_signing_stable_witness:
  "HandshakeMessagePayload_get_encoding_for_binder_signing (example_psk [0]) =
   HandshakeMessagePayload_get_encoding_for_binder_signing (example_psk [9])"
  using binder_signing_stable [of "example_psk [9]"
      "case hmp_payload (example_psk [9]) of HandshakePayload.ClientHello ch \<Rightarrow> ch" "[]"
      "\<lparr>pko_identities = [], pko_binders = [[9]]\<rparr>" "[9]" "[]" "[0]"
      "case hmp_payload (example_psk [0]) of HandshakePayload.ClientHello ch \<Rightarrow> ch"]
  by (simp add: example_psk_def ClientHelloPayload_set_psk_binder_def)

subsection \<open>The record layer\<close>


text \<open>A run that installs an encrypter and encrypts two records.\<close>

definition example_encrypter :: MessageEncrypter where
  "example_encrypter m seq = Inr (into_unencrypted_opaque m)"

definition example_layer :: "u64 \<Rightarrow> RecordLayer" where
  "example_layer n = RecordLayer_new\<lparr>rl_message_encrypter := example_encrypter, rl_write_seq := n,
     rl_encrypt_state := DirectionState.Active\<rparr>"

lemma example_run:
  "record_step\<^sup>*\<^sup>* run_init \<lparr>run_layer = example_layer 2, run_epoch = 1, run_log = [(1, 0), (1, 1)]\<rparr>"
proof -
  let ?s0 = "\<lparr>run_layer = example_layer 0, run_epoch = 1, run_log = []\<rparr>"
    and ?s1 = "\<lparr>run_layer = example_layer 1, run_epoch = 1, run_log = [(1, 0)]\<rparr>"
    and ?s2 = "\<lparr>run_layer = example_layer 2, run_epoch = 1, run_log = [(1, 0), (1, 1)]\<rparr>"
  have "set_message_encrypter (run_layer run_init) example_encrypter = Some (example_layer 0)"
    by (simp add: set_message_encrypter_def start_encrypting_def prepare_message_encrypter_def run_init_def example_layer_def
        RecordLayer_new_def)
  then have "record_step run_init ?s0"
    using record_step.set_encrypter [of run_init example_encrypter "example_layer 0"] by (simp add: run_init_def)
  moreover have "encrypt_outgoing (example_layer n) msg = Some (into_unencrypted_opaque msg, example_layer (n + 1))"
    if "n < SEQ_HARD_LIMIT" for n msg
    using that by (simp add: encrypt_outgoing_def encrypt_exhausted_def example_layer_def example_encrypter_def)
  then have "record_step ?s0 ?s1" "record_step ?s1 ?s2"
    using record_step.encrypt [of ?s0 _ _ "example_layer 1"] record_step.encrypt [of ?s1 _ _ "example_layer 2"]
    by (fastforce simp: SEQ_HARD_LIMIT_def example_layer_def RecordLayer_new_def)+
  ultimately show ?thesis by (meson converse_rtranclp_into_rtranclp rtranclp.rtrancl_refl)
qed


text \<open>
  C29: the write counter never wraps. In every run it stays at most \<open>SEQ_HARD_LIMIT\<close>, and every record that was
  encrypted had a sequence number strictly below it.
\<close>

theorem write_seq_bounded:
  assumes "record_step\<^sup>*\<^sup>* run_init s"
  shows "rl_write_seq (run_layer s) \<le> SEQ_HARD_LIMIT \<and> list_all (\<lambda>(e, seq). seq < SEQ_HARD_LIMIT) (run_log s)"
  using run_inv_reachable [OF assms] by (auto simp: run_inv_def list_all_iff)

theorem write_seq_bounded_witness:
  "rl_write_seq (example_layer 2) \<le> SEQ_HARD_LIMIT \<and> (1 :: u64) < SEQ_HARD_LIMIT"
  using write_seq_bounded [OF example_run] by simp

subsection \<open>Buffers\<close>

text \<open>
  The chunked buffer is a queue of bytes. Appending to a fresh buffer in any pieces and then reading in pieces of any
  sizes that add up to what was appended returns the same bytes in the same order and leaves the buffer empty.
\<close>

theorem chunk_buffer_fifo:
  assumes "chunk_buffer.pulls (fold (\<lambda>bs b. snd (ChunkVecBuffer_append b bs)) bss (ChunkVecBuffer_new limit)) ns = (outs, b)"
    and "sum_list ns = length (concat bss)"
  shows "concat outs = concat bss \<and> ChunkVecBuffer_is_empty b"
  using assms by (rule chunk_buffer.fifo)

theorem chunk_buffer_fifo_witness:
  "\<exists>outs b. chunk_buffer.pulls (fold (\<lambda>bs b. snd (ChunkVecBuffer_append b bs)) [[1, 2], [], [3]] (ChunkVecBuffer_new None)) [1, 2]
      = (outs, b) \<and> concat outs = [1, 2, 3] \<and> ChunkVecBuffer_is_empty b"
proof -
  obtain outs b where "chunk_buffer.pulls (fold (\<lambda>bs b. snd (ChunkVecBuffer_append b bs)) [[1, 2], [], [3]]
      (ChunkVecBuffer_new None)) [1, 2] = (outs, b)"
    by fastforce
  with chunk_buffer_fifo [of "[[1, 2], [], [3]]" None "[1, 2]" outs b] show ?thesis by auto
qed

text \<open>
  \<open>append_limited_copy\<close> stores a prefix of its input and reports its length; a buffer within its limit stays within
  it, the input is cut only where the limit is reached, and without a limit all of it is stored.
\<close>

theorem append_limited_respects_limit:
  assumes "append_limited_copy b bs = (n, b')"
  shows "contents b' = contents b @ take n bs \<and> n \<le> length bs \<and>
    (case cvb_limit b of
       None \<Rightarrow> n = length bs
     | Some l \<Rightarrow> length (contents b') \<le> max l (length (contents b)) \<and> (n = length bs \<or> l \<le> length (contents b')))"
proof -
  have "n = apply_limit b (length bs)" using assms by (simp add: append_limited_copy_def Let_def)
  then show ?thesis
    using append_limited_copy_spec(1,2) [OF assms] by (auto simp: apply_limit_def len_contents Let_def split: option.splits)
qed

theorem append_limited_respects_limit_witness:
  "contents (snd (append_limited_copy (ChunkVecBuffer_new (Some 2)) [7, 8, 9])) = [7, 8]
   \<and> length (contents (snd (append_limited_copy (ChunkVecBuffer_new (Some 2)) [7, 8, 9]))) \<le> 2"
  using append_limited_respects_limit [of "ChunkVecBuffer_new (Some 2)" "[7, 8, 9]" 2
      "snd (append_limited_copy (ChunkVecBuffer_new (Some 2)) [7, 8, 9])"]
  by (simp add: append_limited_copy_def ChunkVecBuffer_append_def apply_limit_def ChunkVecBuffer_new_def
      ChunkVecBuffer_len_def contents_def Let_def)

subsection \<open>The session cache\<close>

text \<open>
  After any sequence of insertions and removals the queue of a limited cache holds each key of its map exactly
  once, its capacity is the initial one, and it holds fewer entries than the capacity.
\<close>

theorem cache_invariant:
  assumes "cache_reachable alloc grow n c" and "0 < alloc n"
  shows "distinct (lc_oldest c) \<and> set (lc_oldest c) = dom (lc_map c) \<and> lc_cap c = alloc n
    \<and> card (dom (lc_map c)) < alloc n"
proof -
  have "LimitedCache_ok c" "lc_cap c = alloc n" using cache_reachable_ok [OF assms] by auto
  with assms(2) show ?thesis
    by (auto simp: LimitedCache_ok_def dest: distinct_card [symmetric])
qed

theorem cache_invariant_witness:
  "distinct (lc_oldest (LimitedCache_insert Suc (1 :: nat) True (LimitedCache_new id 3)))
   \<and> card (dom (lc_map (LimitedCache_insert Suc (1 :: nat) True (LimitedCache_new id 3)))) < 3"
  using cache_invariant [OF cache_reachable.insert [OF cache_reachable.new, of id Suc 3 "1 :: nat" True]] by simp

text \<open>
  In a reachable cache with room for two or more, a key that was just inserted is found with its value, and
  another key keeps what it had unless the insertion filled the cache and that key was the oldest, which is then
  gone.
\<close>

theorem cache_get_insert:
  assumes "cache_reachable alloc grow n c" and "1 < alloc n"
  shows "LimitedCache_get k' (LimitedCache_insert grow k v c) =
    (if k' = k then Some v
     else if LimitedCache_get k c = None \<and> length (lc_oldest c) + 1 = lc_cap c \<and> hd (lc_oldest c) = k' then None
     else LimitedCache_get k' c)"
proof -
  have "LimitedCache_ok c" "1 < lc_cap c" using cache_reachable_ok [OF assms(1)] assms(2) by auto
  then show ?thesis by (auto simp: LimitedCache_get_insert)
qed

theorem cache_get_insert_witness:
  "LimitedCache_get 1 (LimitedCache_insert Suc 3 True (LimitedCache_insert Suc 2 True
     (LimitedCache_insert Suc (1 :: nat) True (LimitedCache_new id 3)))) = None"
proof -
  let ?c = "LimitedCache_insert Suc 2 True (LimitedCache_insert Suc (1 :: nat) True (LimitedCache_new id 3))"
  have "cache_reachable id Suc 3 ?c" by (intro cache_reachable.intros)
  from cache_get_insert [OF this, of 1 3 True] show ?thesis
    by (simp add: LimitedCache_insert_def LimitedCache_new_def LimitedCache_get_def push_back_def)
qed

subsection \<open>Values that do not survive the wire\<close>

text \<open>
  A vector with an eight-bit length field that holds more than 255 bytes is encoded with its length modulo 256: reading it
  back yields only that many of the items (the check is a \<open>debug_assert!\<close>, absent from a release build).
\<close>

theorem vec_u8_length_wraps:
  "read_bytes (read_vec_u8 u8_read) (get_encoding (encode_vec_u8 u8_encode) xs) = Some (take (length xs mod 256) xs)"
proof -
  let ?k = "length xs mod 256"
  have len: "concat (map (get_encoding u8_encode) ys) = ys" for ys by (induction ys) simp_all
  have "?k \<le> length xs" by simp
  then have "length (take ?k xs) = ?k" by (simp only: length_take min_absorb2)
  moreover have "(word_of_nat ?k :: u8) = word_of_nat (length xs)"
    by (rule word_unat_eq_iff [THEN iffD2]) (simp add: unat_word_of_nat_mod)
  ultimately have "get_encoding (encode_vec_u8 u8_encode) xs = get_encoding (encode_vec_u8 u8_encode) (take ?k xs) @ drop ?k xs"
    by (simp add: u8.vec_u8_bytes len)
  moreover have "vec_fits u8_encode (\<lambda>_. True) 255 (take ?k xs)"
    by (simp add: vec_fits_def len list_all_iff)
  ultimately show ?thesis
    using codec.read_bytes_get_encoding [OF u8.vec_u8, of "take ?k xs" "drop ?k xs"] by simp
qed

text \<open>
  A \<open>ClientExtension::RenegotiationInfo\<close> does not survive a round trip: it is written with a length byte that the
  decoder takes for part of the value.
\<close>

theorem renegotiation_info_grows:
  assumes "length p \<le> 255"
  shows "read_bytes (ClientExtension_read dns) (get_encoding ClientExtension_encode (ClientExtension.RenegotiationInfo p)) =
    Some (ClientExtension.RenegotiationInfo (word_of_nat (length p) # p))"
  using assms by (rule ClientExtension_read_renegotiation_info)

theorem renegotiation_info_grows_witness:
  "read_bytes (ClientExtension_read (\<lambda>_. None :: unit option)) (get_encoding ClientExtension_encode (ClientExtension.RenegotiationInfo [])) =
    Some (ClientExtension.RenegotiationInfo [0])"
  using renegotiation_info_grows [of "[]" "\<lambda>_. None :: unit option"] by simp

end
