(* ===== verification/Tls_Crypto.thy ===== *)
theory Tls_Crypto
  imports Tls_Record_Layer Tls_Fragmenter
begin

text \<open>
  The parts of \<open>tlspuffin/src/tls/rustls/\<close> that stand between the protocol and the crypto library: the transcript
  hash of \<open>hash_hs.rs\<close>, the key exchange groups of \<open>kx.rs\<close>, the cipher suites of \<open>suites.rs\<close> with the constants of
  \<open>tls12/mod.rs\<close> and \<open>tls13/mod.rs\<close>, \<open>versions.rs\<close>, \<open>conn.rs\<close> and the DER helpers of \<open>x509.rs\<close>.

  The library \<open>ring\<close> is the record \<open>Ring\<close>, a parameter of everything that calls it: hashes, HMAC, HKDF, AEAD, key
  agreement and signatures as functions. Its sizes (\<open>output_len\<close>, \<open>key_len\<close>, \<open>tag_len\<close>) are the documented
  constants. A \<open>digest::Context\<close> is its algorithm with the data passed to \<open>update\<close> so far, since \<open>finish\<close> is
  documented to be the digest of all of it.

  The lemmas: the running hash is the hash of the concatenated handshake messages, whenever the algorithm becomes
  known; the choice of a cipher suite is sound, complete and in the order of preference; a DER sequence
  is read back.
\<close>

subsection \<open>ring\<close>

datatype digest_alg = SHA256 | SHA384

fun output_len :: "digest_alg \<Rightarrow> nat" where
  "output_len SHA256 = 32"
| "output_len SHA384 = 48"

lemma output_len_pos [simp]: "0 < output_len alg"
  by (cases alg) simp_all

datatype aead_alg = AES_128_GCM | AES_256_GCM | CHACHA20_POLY1305

fun key_len :: "aead_alg \<Rightarrow> nat" where
  "key_len AES_128_GCM = 16"
| "key_len AES_256_GCM = 32"
| "key_len CHACHA20_POLY1305 = 32"

definition tag_len :: nat where
  "tag_len = 16"

datatype agreement_alg = agree_X25519 | ECDH_P256 | ECDH_P384

text \<open>
  \<open>ring_expand\<close> is \<open>Prk::expand\<close> for an output length that it accepts, \<open>ring_seal\<close> the ciphertext followed by the
  tag. A key is generated from the byte that \<open>FixedByteRandom\<close> repeats. The signatures are those of a key in DER.
\<close>

record Ring =
  ring_digest :: "digest_alg \<Rightarrow> bytes \<Rightarrow> bytes"
  ring_hmac :: "digest_alg \<Rightarrow> bytes \<Rightarrow> bytes \<Rightarrow> bytes"
  ring_extract :: "digest_alg \<Rightarrow> bytes \<Rightarrow> bytes \<Rightarrow> bytes"
  ring_expand :: "digest_alg \<Rightarrow> bytes \<Rightarrow> bytes \<Rightarrow> nat \<Rightarrow> bytes"
  ring_seal :: "aead_alg \<Rightarrow> bytes \<Rightarrow> bytes \<Rightarrow> bytes \<Rightarrow> bytes \<Rightarrow> bytes option"
  ring_open :: "aead_alg \<Rightarrow> bytes \<Rightarrow> bytes \<Rightarrow> bytes \<Rightarrow> bytes \<Rightarrow> bytes option"
  ring_generate :: "agreement_alg \<Rightarrow> u8 \<Rightarrow> bytes option"
  ring_public_key :: "agreement_alg \<Rightarrow> bytes \<Rightarrow> bytes option"
  ring_agree :: "agreement_alg \<Rightarrow> bytes \<Rightarrow> bytes \<Rightarrow> bytes option"

text \<open>What the documentation of ring promises: output sizes, and that opening undoes sealing and nothing else opens.\<close>

definition Ring_ok :: "Ring \<Rightarrow> bool" where
  "Ring_ok R \<longleftrightarrow>
     (\<forall>a d. length (ring_digest R a d) = output_len a)
   \<and> (\<forall>a k d. length (ring_hmac R a k d) = output_len a)
   \<and> (\<forall>a s d. length (ring_extract R a s d) = output_len a)
   \<and> (\<forall>a p i n. length (ring_expand R a p i n) = n)
   \<and> (\<forall>a k n d p c. ring_seal R a k n d p = Some c \<longrightarrow> length c = length p + tag_len \<and> ring_open R a k n d c = Some p)
   \<and> (\<forall>a k n d p c. ring_open R a k n d c = Some p \<longrightarrow> length c = length p + tag_len)"

lemma Ring_okD:
  assumes "Ring_ok R"
  shows "length (ring_digest R a d) = output_len a"
    and "length (ring_hmac R a k d) = output_len a"
    and "length (ring_extract R a k d) = output_len a"
    and "length (ring_expand R a k d n) = n"
    and "ring_seal R b k nc ad p = Some c \<Longrightarrow> length c = length p + tag_len"
    and "ring_seal R b k nc ad p = Some c \<Longrightarrow> ring_open R b k nc ad c = Some p"
    and "ring_open R b k nc ad c = Some p \<Longrightarrow> length c = length p + tag_len"
  using assms by (auto simp: Ring_ok_def)

text \<open>The bytes of a string literal.\<close>

definition ascii :: "string \<Rightarrow> bytes" where
  "ascii s = map of_char s"

subsection \<open>Incremental hashing\<close>

record Context =
  ctx_algorithm :: digest_alg
  ctx_data :: bytes

definition Context_new :: "digest_alg \<Rightarrow> Context" where
  "Context_new alg = \<lparr>ctx_algorithm = alg, ctx_data = []\<rparr>"

definition Context_update :: "Context \<Rightarrow> bytes \<Rightarrow> Context" where
  "Context_update ctx data = ctx\<lparr>ctx_data := ctx_data ctx @ data\<rparr>"

definition Context_finish :: "Ring \<Rightarrow> Context \<Rightarrow> bytes" where
  "Context_finish R ctx = ring_digest R (ctx_algorithm ctx) (ctx_data ctx)"

subsection \<open>The transcript hash\<close>

record HandshakeHashBuffer =
  hhb_buffer :: bytes
  hhb_client_auth_enabled :: bool

record HandshakeHash =
  hh_ctx :: Context
  hh_client_auth :: "bytes option"
  hh_override_buffer :: "bytes option"

definition HandshakeHashBuffer_new :: HandshakeHashBuffer where
  "HandshakeHashBuffer_new = \<lparr>hhb_buffer = [], hhb_client_auth_enabled = False\<rparr>"

definition set_client_auth_enabled :: "HandshakeHashBuffer \<Rightarrow> HandshakeHashBuffer" where
  "set_client_auth_enabled b = b\<lparr>hhb_client_auth_enabled := True\<rparr>"

definition HandshakeHashBuffer_add_message :: "HandshakeHashBuffer \<Rightarrow> 'd Message \<Rightarrow> HandshakeHashBuffer" where
  "HandshakeHashBuffer_add_message b m =
     (case msg_payload m of
        MessagePayload.Handshake hs \<Rightarrow> b\<lparr>hhb_buffer := hhb_buffer b @ HandshakeMessagePayload_encode hs []\<rparr>
      | _ \<Rightarrow> b)"

definition HandshakeHashBuffer_update_raw :: "HandshakeHashBuffer \<Rightarrow> bytes \<Rightarrow> HandshakeHashBuffer" where
  "HandshakeHashBuffer_update_raw b buf = b\<lparr>hhb_buffer := hhb_buffer b @ buf\<rparr>"

definition HandshakeHashBuffer_get_hash_given :: "Ring \<Rightarrow> HandshakeHashBuffer \<Rightarrow> digest_alg \<Rightarrow> bytes \<Rightarrow> bytes" where
  "HandshakeHashBuffer_get_hash_given R b hash extra =
     Context_finish R (Context_update (Context_update (Context_new hash) (hhb_buffer b)) extra)"

definition start_hash :: "HandshakeHashBuffer \<Rightarrow> digest_alg \<Rightarrow> HandshakeHash" where
  "start_hash b alg =
     \<lparr>hh_ctx = Context_update (Context_new alg) (hhb_buffer b),
      hh_client_auth = (if hhb_client_auth_enabled b then Some (hhb_buffer b) else None),
      hh_override_buffer = None\<rparr>"

definition HandshakeHash_new :: "digest_alg \<Rightarrow> HandshakeHash" where
  "HandshakeHash_new alg = \<lparr>hh_ctx = Context_new alg, hh_client_auth = None, hh_override_buffer = None\<rparr>"

definition HandshakeHash_new_override :: "bytes \<Rightarrow> digest_alg \<Rightarrow> HandshakeHash" where
  "HandshakeHash_new_override static_buffer alg =
     \<lparr>hh_ctx = Context_new alg, hh_client_auth = None, hh_override_buffer = Some static_buffer\<rparr>"

definition abandon_client_auth :: "HandshakeHash \<Rightarrow> HandshakeHash" where
  "abandon_client_auth h = h\<lparr>hh_client_auth := None\<rparr>"

definition HandshakeHash_update_raw :: "HandshakeHash \<Rightarrow> bytes \<Rightarrow> HandshakeHash" where
  "HandshakeHash_update_raw h buf =
     h\<lparr>hh_ctx := Context_update (hh_ctx h) buf,
       hh_client_auth := map_option (\<lambda>buffer. buffer @ buf) (hh_client_auth h)\<rparr>"

definition HandshakeHash_add_message :: "HandshakeHash \<Rightarrow> 'd Message \<Rightarrow> HandshakeHash" where
  "HandshakeHash_add_message h m =
     (case msg_payload m of
        MessagePayload.Handshake hs \<Rightarrow> HandshakeHash_update_raw h (HandshakeMessagePayload_encode hs [])
      | _ \<Rightarrow> h)"

definition HandshakeHash_get_hash_given :: "Ring \<Rightarrow> HandshakeHash \<Rightarrow> bytes \<Rightarrow> bytes" where
  "HandshakeHash_get_hash_given R h extra = Context_finish R (Context_update (hh_ctx h) extra)"

definition into_hrr_buffer :: "Ring \<Rightarrow> HandshakeHash \<Rightarrow> HandshakeHashBuffer" where
  "into_hrr_buffer R h =
     (let old_hash = Context_finish R (hh_ctx h);
          old_handshake_hash_msg = HandshakeMessagePayload_build_handshake_hash old_hash :: bytes HandshakeMessagePayload
      in \<lparr>hhb_buffer = HandshakeMessagePayload_encode old_handshake_hash_msg [],
          hhb_client_auth_enabled = (hh_client_auth h \<noteq> None)\<rparr>)"

definition rollup_for_hrr :: "Ring \<Rightarrow> HandshakeHash \<Rightarrow> HandshakeHash" where
  "rollup_for_hrr R h =
     (let old_hash = Context_finish R (hh_ctx h);
          h = h\<lparr>hh_ctx := Context_new (ctx_algorithm (hh_ctx h))\<rparr>;
          old_handshake_hash_msg = HandshakeMessagePayload_build_handshake_hash old_hash :: bytes HandshakeMessagePayload
      in HandshakeHash_update_raw h (HandshakeMessagePayload_encode old_handshake_hash_msg []))"

definition get_current_hash :: "Ring \<Rightarrow> HandshakeHash \<Rightarrow> bytes" where
  "get_current_hash R h = Context_finish R (hh_ctx h)"

definition get_current_hash_raw :: "Ring \<Rightarrow> HandshakeHash \<Rightarrow> bytes" where
  "get_current_hash_raw R h =
     (case hh_override_buffer h of Some static_buffer \<Rightarrow> static_buffer | None \<Rightarrow> get_current_hash R h)"

definition take_handshake_buf :: "HandshakeHash \<Rightarrow> bytes option \<times> HandshakeHash" where
  "take_handshake_buf h = (hh_client_auth h, h\<lparr>hh_client_auth := None\<rparr>)"

definition HandshakeHash_algorithm :: "HandshakeHash \<Rightarrow> digest_alg" where
  "HandshakeHash_algorithm h = ctx_algorithm (hh_ctx h)"

subsection \<open>Key exchange\<close>

record SupportedKxGroup =
  skxg_name :: NamedGroup
  skxg_agreement_algorithm :: agreement_alg

definition kx_X25519 :: SupportedKxGroup where
  "kx_X25519 = \<lparr>skxg_name = NamedGroup.X25519, skxg_agreement_algorithm = agree_X25519\<rparr>"

definition kx_SECP256R1 :: SupportedKxGroup where
  "kx_SECP256R1 = \<lparr>skxg_name = NamedGroup.secp256r1, skxg_agreement_algorithm = ECDH_P256\<rparr>"

definition kx_SECP384R1 :: SupportedKxGroup where
  "kx_SECP384R1 = \<lparr>skxg_name = NamedGroup.secp384r1, skxg_agreement_algorithm = ECDH_P384\<rparr>"

definition ALL_KX_GROUPS :: "SupportedKxGroup list" where
  "ALL_KX_GROUPS = [kx_X25519, kx_SECP256R1, kx_SECP384R1]"

record KeyExchange =
  kx_skxg :: SupportedKxGroup
  kx_privkey :: bytes
  kx_pubkey :: bytes

definition KeyExchange_choose :: "NamedGroup \<Rightarrow> SupportedKxGroup list \<Rightarrow> SupportedKxGroup option" where
  "KeyExchange_choose name supported = find (\<lambda>skxg. skxg_name skxg = name) supported"

text \<open>\<open>random_key\<close> is what the generator makes of the system's randomness.\<close>

definition KeyExchange_start :: "Ring \<Rightarrow> bytes option \<Rightarrow> SupportedKxGroup \<Rightarrow> KeyExchange option" where
  "KeyExchange_start R random_key skxg =
     do {
       ours \<leftarrow> random_key;
       pubkey \<leftarrow> ring_public_key R (skxg_agreement_algorithm skxg) ours;
       Some \<lparr>kx_skxg = skxg, kx_privkey = ours, kx_pubkey = pubkey\<rparr>
     }"

definition KeyExchange_group :: "KeyExchange \<Rightarrow> NamedGroup" where
  "KeyExchange_group kx = skxg_name (kx_skxg kx)"

definition KeyExchange_complete :: "Ring \<Rightarrow> KeyExchange \<Rightarrow> bytes \<Rightarrow> (bytes \<Rightarrow> 'a option) \<Rightarrow> Error + 'a" where
  "KeyExchange_complete R kx peer f =
     ok_or (PeerMisbehavedError ''key agreement failed'')
       (Option.bind (ring_agree R (skxg_agreement_algorithm (kx_skxg kx)) (kx_privkey kx) peer) f)"

subsection \<open>Versions and randoms\<close>

record SupportedProtocolVersion =
  spv_version :: ProtocolVersion

definition TLS12 :: SupportedProtocolVersion where
  "TLS12 = \<lparr>spv_version = ProtocolVersion.TLSv1_2\<rparr>"

definition TLS13 :: SupportedProtocolVersion where
  "TLS13 = \<lparr>spv_version = ProtocolVersion.TLSv1_3\<rparr>"

definition ALL_VERSIONS :: "SupportedProtocolVersion list" where
  "ALL_VERSIONS = [TLS13, TLS12]"

definition DEFAULT_VERSIONS :: "SupportedProtocolVersion list" where
  "DEFAULT_VERSIONS = ALL_VERSIONS"

record EnabledVersions =
  ev_tls12 :: "SupportedProtocolVersion option"
  ev_tls13 :: "SupportedProtocolVersion option"

definition EnabledVersions_new :: "SupportedProtocolVersion list \<Rightarrow> EnabledVersions" where
  "EnabledVersions_new versions =
     fold (\<lambda>v ev. case spv_version v of
         ProtocolVersion.TLSv1_2 \<Rightarrow> ev\<lparr>ev_tls12 := Some v\<rparr>
       | ProtocolVersion.TLSv1_3 \<Rightarrow> ev\<lparr>ev_tls13 := Some v\<rparr>
       | _ \<Rightarrow> ev)
     versions \<lparr>ev_tls12 = None, ev_tls13 = None\<rparr>"

definition EnabledVersions_contains :: "EnabledVersions \<Rightarrow> ProtocolVersion \<Rightarrow> bool" where
  "EnabledVersions_contains ev version =
     (case version of
        ProtocolVersion.TLSv1_2 \<Rightarrow> ev_tls12 ev \<noteq> None
      | ProtocolVersion.TLSv1_3 \<Rightarrow> ev_tls13 ev \<noteq> None
      | _ \<Rightarrow> False)"

record ConnectionRandoms =
  cr_client :: bytes
  cr_server :: bytes

definition ConnectionRandoms_new :: "Random \<Rightarrow> Random \<Rightarrow> ConnectionRandoms" where
  "ConnectionRandoms_new client server = \<lparr>cr_client = client, cr_server = server\<rparr>"

datatype Side = Client | Server

subsection \<open>Cipher suites\<close>

datatype BulkAlgorithm = Aes128Gcm | Aes256Gcm | Chacha20Poly1305

record CipherSuiteCommon =
  csc_suite :: CipherSuite
  csc_bulk :: BulkAlgorithm
  csc_aead_algorithm :: aead_alg

datatype Tls12AeadAlgorithm = AesGcm | ChaCha20Poly1305

record Tls12CipherSuite =
  cs12_common :: CipherSuiteCommon
  cs12_hmac_algorithm :: digest_alg
  cs12_kx :: KeyExchangeAlgorithm
  cs12_sign :: "SignatureScheme list"
  cs12_fixed_iv_len :: nat
  cs12_explicit_nonce_len :: nat
  cs12_aead_alg :: Tls12AeadAlgorithm

record Tls13CipherSuite =
  cs13_common :: CipherSuiteCommon
  cs13_hkdf_algorithm :: digest_alg
  cs13_confidentiality_limit :: u64
  cs13_integrity_limit :: u64

datatype SupportedCipherSuite = Tls12 Tls12CipherSuite | Tls13 Tls13CipherSuite

text \<open>The suites of the enumeration that are supported, by their ordinals.\<close>

abbreviation "CS_TLS13_AES_128_GCM_SHA256 \<equiv> CipherSuite.Known 0x1301"
abbreviation "CS_TLS13_AES_256_GCM_SHA384 \<equiv> CipherSuite.Known 0x1302"
abbreviation "CS_TLS13_CHACHA20_POLY1305_SHA256 \<equiv> CipherSuite.Known 0x1303"
abbreviation "CS_TLS_ECDHE_ECDSA_WITH_AES_128_GCM_SHA256 \<equiv> CipherSuite.Known 0xc02b"
abbreviation "CS_TLS_ECDHE_ECDSA_WITH_AES_256_GCM_SHA384 \<equiv> CipherSuite.Known 0xc02c"
abbreviation "CS_TLS_ECDHE_RSA_WITH_AES_128_GCM_SHA256 \<equiv> CipherSuite.Known 0xc02f"
abbreviation "CS_TLS_ECDHE_RSA_WITH_AES_256_GCM_SHA384 \<equiv> CipherSuite.Known 0xc030"
abbreviation "CS_TLS_ECDHE_RSA_WITH_CHACHA20_POLY1305_SHA256 \<equiv> CipherSuite.Known 0xcca8"
abbreviation "CS_TLS_ECDHE_ECDSA_WITH_CHACHA20_POLY1305_SHA256 \<equiv> CipherSuite.Known 0xcca9"

definition TLS13_CHACHA20_POLY1305_SHA256_INTERNAL :: Tls13CipherSuite where
  "TLS13_CHACHA20_POLY1305_SHA256_INTERNAL =
     \<lparr>cs13_common = \<lparr>csc_suite = CS_TLS13_CHACHA20_POLY1305_SHA256, csc_bulk = Chacha20Poly1305,
        csc_aead_algorithm = CHACHA20_POLY1305\<rparr>,
      cs13_hkdf_algorithm = SHA256, cs13_confidentiality_limit = -1, cs13_integrity_limit = 2 ^ 36\<rparr>"

definition TLS13_CHACHA20_POLY1305_SHA256 :: SupportedCipherSuite where
  "TLS13_CHACHA20_POLY1305_SHA256 = Tls13 TLS13_CHACHA20_POLY1305_SHA256_INTERNAL"

definition TLS13_AES_256_GCM_SHA384 :: SupportedCipherSuite where
  "TLS13_AES_256_GCM_SHA384 = Tls13
     \<lparr>cs13_common = \<lparr>csc_suite = CS_TLS13_AES_256_GCM_SHA384, csc_bulk = Aes256Gcm, csc_aead_algorithm = AES_256_GCM\<rparr>,
      cs13_hkdf_algorithm = SHA384, cs13_confidentiality_limit = 2 ^ 23, cs13_integrity_limit = 2 ^ 52\<rparr>"

definition TLS13_AES_128_GCM_SHA256_INTERNAL :: Tls13CipherSuite where
  "TLS13_AES_128_GCM_SHA256_INTERNAL =
     \<lparr>cs13_common = \<lparr>csc_suite = CS_TLS13_AES_128_GCM_SHA256, csc_bulk = Aes128Gcm, csc_aead_algorithm = AES_128_GCM\<rparr>,
      cs13_hkdf_algorithm = SHA256, cs13_confidentiality_limit = 2 ^ 23, cs13_integrity_limit = 2 ^ 52\<rparr>"

definition TLS13_AES_128_GCM_SHA256 :: SupportedCipherSuite where
  "TLS13_AES_128_GCM_SHA256 = Tls13 TLS13_AES_128_GCM_SHA256_INTERNAL"

definition TLS12_ECDSA_SCHEMES :: "SignatureScheme list" where
  "TLS12_ECDSA_SCHEMES =
     [SignatureScheme.ED25519, SignatureScheme.ECDSA_NISTP521_SHA512, SignatureScheme.ECDSA_NISTP384_SHA384,
      SignatureScheme.ECDSA_NISTP256_SHA256]"

definition TLS12_RSA_SCHEMES :: "SignatureScheme list" where
  "TLS12_RSA_SCHEMES =
     [SignatureScheme.RSA_PSS_SHA512, SignatureScheme.RSA_PSS_SHA384, SignatureScheme.RSA_PSS_SHA256,
      SignatureScheme.RSA_PKCS1_SHA512, SignatureScheme.RSA_PKCS1_SHA384, SignatureScheme.RSA_PKCS1_SHA256]"

definition TLS_ECDHE_ECDSA_WITH_CHACHA20_POLY1305_SHA256 :: SupportedCipherSuite where
  "TLS_ECDHE_ECDSA_WITH_CHACHA20_POLY1305_SHA256 = Tls12
     \<lparr>cs12_common = \<lparr>csc_suite = CS_TLS_ECDHE_ECDSA_WITH_CHACHA20_POLY1305_SHA256, csc_bulk = Chacha20Poly1305,
        csc_aead_algorithm = CHACHA20_POLY1305\<rparr>,
      cs12_hmac_algorithm = SHA256, cs12_kx = KeyExchangeAlgorithm.ECDHE, cs12_sign = TLS12_ECDSA_SCHEMES,
      cs12_fixed_iv_len = 12, cs12_explicit_nonce_len = 0, cs12_aead_alg = ChaCha20Poly1305\<rparr>"

definition TLS_ECDHE_RSA_WITH_CHACHA20_POLY1305_SHA256 :: SupportedCipherSuite where
  "TLS_ECDHE_RSA_WITH_CHACHA20_POLY1305_SHA256 = Tls12
     \<lparr>cs12_common = \<lparr>csc_suite = CS_TLS_ECDHE_RSA_WITH_CHACHA20_POLY1305_SHA256, csc_bulk = Chacha20Poly1305,
        csc_aead_algorithm = CHACHA20_POLY1305\<rparr>,
      cs12_hmac_algorithm = SHA256, cs12_kx = KeyExchangeAlgorithm.ECDHE, cs12_sign = TLS12_RSA_SCHEMES,
      cs12_fixed_iv_len = 12, cs12_explicit_nonce_len = 0, cs12_aead_alg = ChaCha20Poly1305\<rparr>"

definition TLS_ECDHE_RSA_WITH_AES_128_GCM_SHA256 :: SupportedCipherSuite where
  "TLS_ECDHE_RSA_WITH_AES_128_GCM_SHA256 = Tls12
     \<lparr>cs12_common = \<lparr>csc_suite = CS_TLS_ECDHE_RSA_WITH_AES_128_GCM_SHA256, csc_bulk = Aes128Gcm,
        csc_aead_algorithm = AES_128_GCM\<rparr>,
      cs12_hmac_algorithm = SHA256, cs12_kx = KeyExchangeAlgorithm.ECDHE, cs12_sign = TLS12_RSA_SCHEMES,
      cs12_fixed_iv_len = 4, cs12_explicit_nonce_len = 8, cs12_aead_alg = AesGcm\<rparr>"

definition TLS_ECDHE_RSA_WITH_AES_256_GCM_SHA384 :: SupportedCipherSuite where
  "TLS_ECDHE_RSA_WITH_AES_256_GCM_SHA384 = Tls12
     \<lparr>cs12_common = \<lparr>csc_suite = CS_TLS_ECDHE_RSA_WITH_AES_256_GCM_SHA384, csc_bulk = Aes256Gcm,
        csc_aead_algorithm = AES_256_GCM\<rparr>,
      cs12_hmac_algorithm = SHA384, cs12_kx = KeyExchangeAlgorithm.ECDHE, cs12_sign = TLS12_RSA_SCHEMES,
      cs12_fixed_iv_len = 4, cs12_explicit_nonce_len = 8, cs12_aead_alg = AesGcm\<rparr>"

definition TLS_ECDHE_ECDSA_WITH_AES_128_GCM_SHA256 :: SupportedCipherSuite where
  "TLS_ECDHE_ECDSA_WITH_AES_128_GCM_SHA256 = Tls12
     \<lparr>cs12_common = \<lparr>csc_suite = CS_TLS_ECDHE_ECDSA_WITH_AES_128_GCM_SHA256, csc_bulk = Aes128Gcm,
        csc_aead_algorithm = AES_128_GCM\<rparr>,
      cs12_hmac_algorithm = SHA256, cs12_kx = KeyExchangeAlgorithm.ECDHE, cs12_sign = TLS12_ECDSA_SCHEMES,
      cs12_fixed_iv_len = 4, cs12_explicit_nonce_len = 8, cs12_aead_alg = AesGcm\<rparr>"

definition TLS_ECDHE_ECDSA_WITH_AES_256_GCM_SHA384 :: SupportedCipherSuite where
  "TLS_ECDHE_ECDSA_WITH_AES_256_GCM_SHA384 = Tls12
     \<lparr>cs12_common = \<lparr>csc_suite = CS_TLS_ECDHE_ECDSA_WITH_AES_256_GCM_SHA384, csc_bulk = Aes256Gcm,
        csc_aead_algorithm = AES_256_GCM\<rparr>,
      cs12_hmac_algorithm = SHA384, cs12_kx = KeyExchangeAlgorithm.ECDHE, cs12_sign = TLS12_ECDSA_SCHEMES,
      cs12_fixed_iv_len = 4, cs12_explicit_nonce_len = 8, cs12_aead_alg = AesGcm\<rparr>"

definition resolve_sig_schemes :: "Tls12CipherSuite \<Rightarrow> SignatureScheme list \<Rightarrow> SignatureScheme list" where
  "resolve_sig_schemes suite offered = filter (\<lambda>pref. pref \<in> set offered) (cs12_sign suite)"

definition Tls12CipherSuite_hash_algorithm :: "Tls12CipherSuite \<Rightarrow> digest_alg" where
  "Tls12CipherSuite_hash_algorithm suite = cs12_hmac_algorithm suite"

definition Tls13CipherSuite_hash_algorithm :: "Tls13CipherSuite \<Rightarrow> digest_alg" where
  "Tls13CipherSuite_hash_algorithm suite = cs13_hkdf_algorithm suite"

definition can_resume_from :: "Tls13CipherSuite \<Rightarrow> Tls13CipherSuite \<Rightarrow> Tls13CipherSuite option" where
  "can_resume_from suite prev =
     (if Tls13CipherSuite_hash_algorithm prev = Tls13CipherSuite_hash_algorithm suite then Some prev else None)"

definition Tls12CipherSuite_eq :: "Tls12CipherSuite \<Rightarrow> Tls12CipherSuite \<Rightarrow> bool" where
  "Tls12CipherSuite_eq a b \<longleftrightarrow> csc_suite (cs12_common a) = csc_suite (cs12_common b)"

definition Tls13CipherSuite_eq :: "Tls13CipherSuite \<Rightarrow> Tls13CipherSuite \<Rightarrow> bool" where
  "Tls13CipherSuite_eq a b \<longleftrightarrow> csc_suite (cs13_common a) = csc_suite (cs13_common b)"

fun SupportedCipherSuite_hash_algorithm :: "SupportedCipherSuite \<Rightarrow> digest_alg" where
  "SupportedCipherSuite_hash_algorithm (Tls12 inner) = Tls12CipherSuite_hash_algorithm inner"
| "SupportedCipherSuite_hash_algorithm (Tls13 inner) = Tls13CipherSuite_hash_algorithm inner"

fun SupportedCipherSuite_common :: "SupportedCipherSuite \<Rightarrow> CipherSuiteCommon" where
  "SupportedCipherSuite_common (Tls12 inner) = cs12_common inner"
| "SupportedCipherSuite_common (Tls13 inner) = cs13_common inner"

definition SupportedCipherSuite_suite :: "SupportedCipherSuite \<Rightarrow> CipherSuite" where
  "SupportedCipherSuite_suite s = csc_suite (SupportedCipherSuite_common s)"

fun SupportedCipherSuite_tls13 :: "SupportedCipherSuite \<Rightarrow> Tls13CipherSuite option" where
  "SupportedCipherSuite_tls13 (Tls12 _) = None"
| "SupportedCipherSuite_tls13 (Tls13 inner) = Some inner"

fun SupportedCipherSuite_tls12 :: "SupportedCipherSuite \<Rightarrow> Tls12CipherSuite option" where
  "SupportedCipherSuite_tls12 (Tls12 inner) = Some inner"
| "SupportedCipherSuite_tls12 (Tls13 _) = None"

fun SupportedCipherSuite_version :: "SupportedCipherSuite \<Rightarrow> SupportedProtocolVersion" where
  "SupportedCipherSuite_version (Tls12 _) = TLS12"
| "SupportedCipherSuite_version (Tls13 _) = TLS13"

fun usable_for_signature_algorithm :: "SupportedCipherSuite \<Rightarrow> SignatureAlgorithm \<Rightarrow> bool" where
  "usable_for_signature_algorithm (Tls13 _) sig_alg = True"
| "usable_for_signature_algorithm (Tls12 inner) sig_alg =
     list_ex (\<lambda>scheme. SignatureScheme_sign scheme = sig_alg) (cs12_sign inner)"

definition ALL_CIPHER_SUITES :: "SupportedCipherSuite list" where
  "ALL_CIPHER_SUITES =
     [TLS13_AES_256_GCM_SHA384, TLS13_AES_128_GCM_SHA256, TLS13_CHACHA20_POLY1305_SHA256,
      TLS_ECDHE_ECDSA_WITH_AES_256_GCM_SHA384, TLS_ECDHE_ECDSA_WITH_AES_128_GCM_SHA256,
      TLS_ECDHE_ECDSA_WITH_CHACHA20_POLY1305_SHA256, TLS_ECDHE_RSA_WITH_AES_256_GCM_SHA384,
      TLS_ECDHE_RSA_WITH_AES_128_GCM_SHA256, TLS_ECDHE_RSA_WITH_CHACHA20_POLY1305_SHA256]"

definition DEFAULT_CIPHER_SUITES :: "SupportedCipherSuite list" where
  "DEFAULT_CIPHER_SUITES = ALL_CIPHER_SUITES"

fun choose_ciphersuite_preferring_client ::
  "CipherSuite list \<Rightarrow> SupportedCipherSuite list \<Rightarrow> SupportedCipherSuite option" where
  "choose_ciphersuite_preferring_client [] server_suites = None"
| "choose_ciphersuite_preferring_client (client_suite # client_suites) server_suites =
     (case find (\<lambda>x. client_suite = SupportedCipherSuite_suite x) server_suites of
        Some selected \<Rightarrow> Some selected
      | None \<Rightarrow> choose_ciphersuite_preferring_client client_suites server_suites)"

definition choose_ciphersuite_preferring_server ::
  "CipherSuite list \<Rightarrow> SupportedCipherSuite list \<Rightarrow> SupportedCipherSuite option" where
  "choose_ciphersuite_preferring_server client_suites server_suites =
     find (\<lambda>x. SupportedCipherSuite_suite x \<in> set client_suites) server_suites"

definition reduce_given_sigalg :: "SupportedCipherSuite list \<Rightarrow> SignatureAlgorithm \<Rightarrow> SupportedCipherSuite list" where
  "reduce_given_sigalg all sigalg = filter (\<lambda>suite. usable_for_signature_algorithm suite sigalg) all"

definition reduce_given_version :: "SupportedCipherSuite list \<Rightarrow> ProtocolVersion \<Rightarrow> SupportedCipherSuite list" where
  "reduce_given_version all version =
     filter (\<lambda>suite. spv_version (SupportedCipherSuite_version suite) = version) all"

definition compatible_sigscheme_for_suites :: "SignatureScheme \<Rightarrow> SupportedCipherSuite list \<Rightarrow> bool" where
  "compatible_sigscheme_for_suites sigscheme common_suites =
     (let sigalg = SignatureScheme_sign sigscheme
      in list_ex (\<lambda>suite. usable_for_signature_algorithm suite sigalg) common_suites)"

subsection \<open>DER\<close>

text \<open>\<open>bytes.insert(1, byte)\<close> and \<open>bytes[0] += 1\<close>, as long as length bytes are left.\<close>

fun asn1_len_loop :: "nat \<Rightarrow> bytes \<Rightarrow> bytes" where
  "asn1_len_loop left bs =
     (if left = 0 then bs
      else let byte = word_of_nat (left mod 256);
               bs = take 1 bs @ byte # drop 1 bs;
               bs = bs[0 := bs ! 0 + 1]
           in asn1_len_loop (left div 256) bs)"

declare asn1_len_loop.simps [simp del]

definition wrap_in_asn1_len :: "bytes \<Rightarrow> bytes" where
  "wrap_in_asn1_len bs =
     (let len = length bs
      in if len \<le> 0x7f then word_of_nat len # bs else asn1_len_loop len (0x80 # bs))"

definition wrap_in_sequence :: "bytes \<Rightarrow> bytes" where
  "wrap_in_sequence bs = 0x30 # wrap_in_asn1_len bs"

subsection \<open>Transcripts\<close>

text \<open>What a message adds to the transcript, and the contract of a transcript that is filled message by message.\<close>

definition transcript_bytes :: "'d Message \<Rightarrow> bytes" where
  "transcript_bytes m =
     (case msg_payload m of MessagePayload.Handshake hs \<Rightarrow> HandshakeMessagePayload_encode hs [] | _ \<Rightarrow> [])"

locale message_transcript =
  fixes add_message :: "'h \<Rightarrow> 'd Message \<Rightarrow> 'h"
    and update_raw :: "'h \<Rightarrow> bytes \<Rightarrow> 'h"
    and content :: "'h \<Rightarrow> bytes"
  assumes add_message_raw: "add_message h m = update_raw h (transcript_bytes m)"
    and update_append: "update_raw (update_raw h a) b = update_raw h (a @ b)"
    and update_empty: "update_raw h [] = h"
    and content_update: "content (update_raw h b) = content h @ b"
begin

lemma fold_add_message: "fold (\<lambda>m h. add_message h m) ms h = update_raw h (concat (map transcript_bytes ms))"
  by (induction ms arbitrary: h) (simp_all add: update_empty add_message_raw update_append)

lemma content_messages: "content (fold (\<lambda>m h. add_message h m) ms h) = content h @ concat (map transcript_bytes ms)"
  by (simp add: fold_add_message content_update)

end

interpretation hash_buffer: message_transcript HandshakeHashBuffer_add_message HandshakeHashBuffer_update_raw hhb_buffer
  by unfold_locales
    (auto simp: HandshakeHashBuffer_add_message_def HandshakeHashBuffer_update_raw_def transcript_bytes_def
      split: MessagePayload.splits)

interpretation running_hash: message_transcript HandshakeHash_add_message HandshakeHash_update_raw "\<lambda>h. ctx_data (hh_ctx h)"
  by unfold_locales
    (auto simp: HandshakeHash_add_message_def HandshakeHash_update_raw_def Context_update_def transcript_bytes_def
      option.map_comp comp_def option.map_ident split: MessagePayload.splits)

lemma HandshakeHash_update_raw_simps [simp]:
  "ctx_algorithm (hh_ctx (HandshakeHash_update_raw h b)) = ctx_algorithm (hh_ctx h)"
  "hh_override_buffer (HandshakeHash_update_raw h b) = hh_override_buffer h"
  "hh_client_auth (HandshakeHash_update_raw h b) = map_option (\<lambda>buffer. buffer @ b) (hh_client_auth h)"
  by (simp_all add: HandshakeHash_update_raw_def Context_update_def)

lemma start_hash_simps [simp]:
  "ctx_algorithm (hh_ctx (start_hash b alg)) = alg" "ctx_data (hh_ctx (start_hash b alg)) = hhb_buffer b"
  "hh_override_buffer (start_hash b alg) = None"
  "hh_client_auth (start_hash b alg) = (if hhb_client_auth_enabled b then Some (hhb_buffer b) else None)"
  by (simp_all add: start_hash_def Context_update_def Context_new_def)

lemma buffer_client_auth [simp]: "hhb_client_auth_enabled (HandshakeHashBuffer_update_raw b x) = hhb_client_auth_enabled b"
  by (simp add: HandshakeHashBuffer_update_raw_def)

lemma HandshakeHashBuffer_new_simps [simp]:
  "hhb_buffer HandshakeHashBuffer_new = []" "hhb_buffer (set_client_auth_enabled b) = hhb_buffer b"
  "hhb_client_auth_enabled (set_client_auth_enabled b)"
  by (simp_all add: HandshakeHashBuffer_new_def set_client_auth_enabled_def)

subsection \<open>The choice of a cipher suite\<close>

lemma find_None_conv: "find P xs = None \<longleftrightarrow> (\<forall>x \<in> set xs. \<not> P x)"
  by (auto simp: find_None_iff)

lemma choose_client_Some:
  "choose_ciphersuite_preferring_client cs ss = Some x \<Longrightarrow>
     x \<in> set ss \<and> (\<exists>i < length cs. cs ! i = SupportedCipherSuite_suite x \<and>
       (\<forall>j < i. cs ! j \<notin> SupportedCipherSuite_suite ` set ss))"
proof (induction cs)
  case (Cons c cs)
  show ?case
  proof (cases "find (\<lambda>y. c = SupportedCipherSuite_suite y) ss")
    case None
    with Cons obtain i where "x \<in> set ss" "i < length cs" "cs ! i = SupportedCipherSuite_suite x"
      "\<forall>j < i. cs ! j \<notin> SupportedCipherSuite_suite ` set ss" by auto
    moreover have "c \<notin> SupportedCipherSuite_suite ` set ss" using None by (auto simp: find_None_conv)
    ultimately show ?thesis by (intro conjI exI [of _ "Suc i"]) (auto simp: less_Suc_eq_0_disj image_iff)
  next
    case (Some y)
    with Cons.prems show ?thesis by (auto simp: find_Some_iff intro!: exI [of _ 0])
  qed
qed simp

lemma choose_client_None:
  "choose_ciphersuite_preferring_client cs ss = None \<longleftrightarrow> set cs \<inter> SupportedCipherSuite_suite ` set ss = {}"
  by (induction cs) (auto simp: find_None_conv split: option.splits dest: find_Some_iff [THEN iffD1])

lemma choose_server_None:
  "choose_ciphersuite_preferring_server cs ss = None \<longleftrightarrow> set cs \<inter> SupportedCipherSuite_suite ` set ss = {}"
  by (auto simp: choose_ciphersuite_preferring_server_def find_None_conv)

subsection \<open>DER lengths\<close>

text \<open>The shortest big-endian representation, its value, and the reader of a DER sequence.\<close>

fun be_bytes :: "nat \<Rightarrow> bytes" where
  "be_bytes n = (if n = 0 then [] else be_bytes (n div 256) @ [word_of_nat (n mod 256)])"

declare be_bytes.simps [simp del]

definition be_value :: "bytes \<Rightarrow> nat" where
  "be_value bs = fold (\<lambda>b acc. acc * 256 + unat b) bs 0"

definition der_read_sequence :: "bytes \<Rightarrow> (bytes \<times> bytes) option" where
  "der_read_sequence bs =
     (case bs of
        tag # l # bs \<Rightarrow>
          if tag \<noteq> 0x30 then None
          else if l < 0x80 then
            if unat l \<le> length bs then Some (take (unat l) bs, drop (unat l) bs) else None
          else
            let n = unat l - 128; len = be_value (take n bs); bs' = drop n bs
            in if n \<le> length bs \<and> len \<le> length bs' then Some (take len bs', drop len bs') else None
      | _ \<Rightarrow> None)"

lemma be_value_append: "be_value (bs @ [b]) = be_value bs * 256 + unat b"
  by (simp add: be_value_def)

lemma be_value_be_bytes [simp]: "be_value (be_bytes n) = n"
proof (induction n rule: be_bytes.induct)
  case (1 n)
  show ?case
  proof (cases "n = 0")
    case True
    then show ?thesis by (simp add: be_bytes.simps be_value_def)
  next
    case False
    have "unat (word_of_nat (n mod 256) :: u8) = n mod 256" by (simp add: unat_of_nat)
    with False 1 show ?thesis by (subst be_bytes.simps) (simp add: be_value_append)
  qed
qed

lemma length_be_bytes: "n < 256 ^ k \<Longrightarrow> length (be_bytes n) \<le> k"
proof (induction k arbitrary: n)
  case 0
  then show ?case by (simp add: be_bytes.simps)
next
  case (Suc k)
  then have "n div 256 < 256 ^ k" by (simp add: less_mult_imp_div_less mult.commute)
  with Suc.IH [of "n div 256"] show ?case by (subst be_bytes.simps) simp
qed

lemma be_bytes_nonempty: "0 < n \<Longrightarrow> 0 < length (be_bytes n)"
  by (subst be_bytes.simps) simp

lemma asn1_len_loop_conv:
  "asn1_len_loop left (h # bs) = (h + word_of_nat (length (be_bytes left))) # be_bytes left @ bs"
proof (induction left arbitrary: h bs rule: less_induct)
  case (less left)
  show ?case
  proof (cases "left = 0")
    case True
    then show ?thesis by (simp add: asn1_len_loop.simps be_bytes.simps)
  next
    case False
    have "asn1_len_loop left (h # bs) = asn1_len_loop (left div 256) ((h + 1) # word_of_nat (left mod 256) # bs)"
      using False by (subst asn1_len_loop.simps) (simp add: Let_def)
    also have "\<dots> = (h + 1 + word_of_nat (length (be_bytes (left div 256)))) # be_bytes (left div 256)
        @ word_of_nat (left mod 256) # bs"
      using False by (intro less.IH) simp
    also have "\<dots> = (h + word_of_nat (length (be_bytes left))) # be_bytes left @ bs"
      using False by (subst (3 4) be_bytes.simps) simp
    finally show ?thesis .
  qed
qed

lemma der_round_trip:
  assumes "length bs < 2 ^ 64"
  shows "der_read_sequence (wrap_in_sequence bs @ rest) = Some (bs, rest)"
proof (cases "length bs \<le> 0x7f")
  case True
  have "unat (word_of_nat (length bs) :: u8) = length bs" using True by (simp add: unat_of_nat)
  moreover from this True have "(word_of_nat (length bs) :: u8) < 0x80" by (simp add: word_less_nat_alt)
  ultimately show ?thesis using True by (simp add: der_read_sequence_def wrap_in_sequence_def wrap_in_asn1_len_def)
next
  case False
  let ?n = "length (be_bytes (length bs))"
  have "length bs < 256 ^ 8" using assms by simp
  then have n: "?n \<le> 8" by (rule length_be_bytes)
  have pos: "0 < ?n" using False by (intro be_bytes_nonempty) linarith
  have l: "unat (0x80 + word_of_nat ?n :: u8) = 128 + ?n"
    using n by (subst unat_word_ariths) (simp add: unat_of_nat)
  have ge: "\<not> (0x80 + word_of_nat ?n :: u8) < 0x80"
    using l pos by (simp add: word_less_nat_alt)
  have wrap: "wrap_in_sequence bs = 0x30 # (0x80 + word_of_nat ?n) # be_bytes (length bs) @ bs"
    using False by (simp add: wrap_in_sequence_def wrap_in_asn1_len_def asn1_len_loop_conv Let_def)
  show ?thesis by (simp add: der_read_sequence_def wrap l ge)
qed

subsection \<open>Matching ciphers\<close>

text \<open>
  The contract of an encrypter and the decrypter of the peer: a message that may be sent is received, up to what the
  protection changes. Two record layers with such ciphers and equal counters then exchange any sequence of
  messages in order.
\<close>

fun send_all :: "RecordLayer \<Rightarrow> PlainMessage list \<Rightarrow> (OpaqueMessage list \<times> RecordLayer) option" where
  "send_all l [] = Some ([], l)"
| "send_all l (m # ms) =
     do { (c, l) \<leftarrow> encrypt_outgoing l m; (cs, l) \<leftarrow> send_all l ms; Some (c # cs, l) }"

fun receive_all :: "RecordLayer \<Rightarrow> OpaqueMessage list \<Rightarrow> ((Error + PlainMessage) list \<times> RecordLayer) option" where
  "receive_all l [] = Some ([], l)"
| "receive_all l (c # cs) =
     do { (m, l) \<leftarrow> decrypt_incoming l c; (ms, l) \<leftarrow> receive_all l cs; Some (m # ms, l) }"

locale record_cipher =
  fixes enc :: MessageEncrypter and dec :: MessageDecrypter
    and sendable :: "PlainMessage \<Rightarrow> bool" and received :: "PlainMessage \<Rightarrow> PlainMessage"
  assumes decrypts: "sendable m \<Longrightarrow> enc m seq = Inr c \<Longrightarrow> dec c seq = Inr (received m)"
begin

lemma layers_in_step:
  assumes "rl_message_encrypter s = enc" "rl_message_decrypter r = dec" "rl_decrypt_state r = DirectionState.Active"
    and "rl_write_seq s = rl_read_seq r" "\<forall>m \<in> set ms. sendable m" "send_all s ms = Some (cs, s')"
  shows "\<exists>r'. receive_all r cs = Some (map (\<lambda>m. Inr (received m)) ms, r') \<and> rl_write_seq s' = rl_read_seq r'"
  using assms
proof (induction ms arbitrary: s r cs)
  case (Cons m ms)
  then obtain c cs' s1 where c: "encrypt_outgoing s m = Some (c, s1)" and cs: "send_all s1 ms = Some (cs', s')" "cs = c # cs'"
    by (auto split: Option.bind_splits)
  from c have s1: "s1 = s\<lparr>rl_write_seq := rl_write_seq s + 1\<rparr>" and e: "enc m (rl_write_seq s) = Inr c"
    using Cons.prems(1) by (auto simp: encrypt_outgoing_def Let_def split: if_splits sum.splits)
  let ?r1 = "r\<lparr>rl_read_seq := rl_read_seq r + 1\<rparr>"
  have nz: "rl_write_seq s \<noteq> -1"
    using c by (auto simp: encrypt_outgoing_def encrypt_exhausted_def SEQ_HARD_LIMIT_def split: if_splits)
  have d: "decrypt_incoming r c = Some (Inr (received m), ?r1)"
    using decrypts [OF _ e] Cons.prems nz by (auto simp: decrypt_incoming_def is_decrypting_def Let_def)
  have "\<exists>r'. receive_all ?r1 cs' = Some (map (\<lambda>m. Inr (received m)) ms, r') \<and> rl_write_seq s' = rl_read_seq r'"
    using Cons.prems by (intro Cons.IH [OF _ _ _ _ _ cs(1)]) (auto simp: s1)
  with d cs(2) show ?case by auto
qed auto

end

end
