(* ===== verification/Tls_Key_Schedule.thy ===== *)
theory Tls_Key_Schedule
  imports Tls_Crypto
begin

text \<open>
  TLS 1.3: the key schedule of \<open>rustls/tls13/key_schedule.rs\<close> and the record protection of \<open>rustls/tls13/mod.rs\<close>.

  The typestates of the key schedule are records around \<open>KeySchedule\<close>. A \<open>Prk\<close> is the algorithm with the key. The
  types that \<open>hkdf_expand\<close> is instantiated with are the datatype \<open>KeyType\<close>; its \<open>unwrap\<close> fails exactly when the
  output is longer than 255 digests, which no \<open>KeyType\<close> is (\<open>key_type_len_accepted\<close>), so only
  \<open>export_keying_material\<close>, whose length is the caller's, has the panic as a case. Key logging writes the same secret to a
  log and is left out.

  The lemmas: the HKDF label is injective, so the secrets are derived from distinct inputs; a record that is
  encrypted is decrypted to the message under the same secret and sequence number, and what \<open>decrypt\<close> accepts is
  bounded.
\<close>

subsection \<open>HKDF\<close>

datatype Prk = Prk (prk_algorithm: digest_alg) (prk_key: bytes)

datatype KeyType =
    Hkdf_Algorithm digest_alg
  | Hmac_Algorithm digest_alg
  | Aead_Algorithm aead_alg
  | IvLen
  | PayloadU8Len digest_alg

fun key_type_len :: "KeyType \<Rightarrow> nat" where
  "key_type_len (Hkdf_Algorithm a) = output_len a"
| "key_type_len (Hmac_Algorithm a) = output_len a"
| "key_type_len (Aead_Algorithm a) = key_len a"
| "key_type_len IvLen = NONCE_LEN"
| "key_type_len (PayloadU8Len a) = output_len a"

definition expand_accepts :: "digest_alg \<Rightarrow> nat \<Rightarrow> bool" where
  "expand_accepts a n \<longleftrightarrow> n \<le> 255 * output_len a"

lemma ring_len_bounds: "32 \<le> output_len a" "output_len a \<le> 48" "key_len b \<le> 48"
proof -
  show "32 \<le> output_len a" "output_len a \<le> 48" by (cases a; simp)+
  show "key_len b \<le> 48" by (cases b) simp_all
qed

lemma key_type_len_bound: "key_type_len k \<le> 48"
  by (cases k) (simp_all add: ring_len_bounds NONCE_LEN_def)

lemma key_type_len_accepted: "expand_accepts a (key_type_len k)"
  using key_type_len_bound [of k] ring_len_bounds(1) [of a] unfolding expand_accepts_def by linarith

definition LABEL_PREFIX :: bytes where
  "LABEL_PREFIX = ascii ''tls13 ''"

definition hkdf_label :: "nat \<Rightarrow> bytes \<Rightarrow> bytes \<Rightarrow> bytes" where
  "hkdf_label len label context =
     (let output_len = u16_to_be_bytes (word_of_nat len);
          label_len = [word_of_nat (length LABEL_PREFIX + length label) :: u8];
          context_len = [word_of_nat (length context) :: u8]
      in output_len @ label_len @ LABEL_PREFIX @ label @ context_len @ context)"

definition hkdf_expand_info :: "Ring \<Rightarrow> Prk \<Rightarrow> nat \<Rightarrow> bytes \<Rightarrow> bytes \<Rightarrow> bytes option" where
  "hkdf_expand_info R secret n label context =
     (if expand_accepts (prk_algorithm secret) n
      then Some (ring_expand R (prk_algorithm secret) (prk_key secret) (hkdf_label n label context) n)
      else None)"

definition hkdf_expand :: "Ring \<Rightarrow> Prk \<Rightarrow> KeyType \<Rightarrow> bytes \<Rightarrow> bytes \<Rightarrow> bytes" where
  "hkdf_expand R secret key_type label context =
     ring_expand R (prk_algorithm secret) (prk_key secret) (hkdf_label (key_type_len key_type) label context)
       (key_type_len key_type)"

lemma hkdf_expand_unwrap:
  "hkdf_expand_info R secret (key_type_len k) label context = Some (hkdf_expand R secret k label context)"
  by (simp add: hkdf_expand_info_def hkdf_expand_def key_type_len_accepted)

definition derive_traffic_key :: "Ring \<Rightarrow> Prk \<Rightarrow> aead_alg \<Rightarrow> bytes" where
  "derive_traffic_key R secret aead_algorithm = hkdf_expand R secret (Aead_Algorithm aead_algorithm) (ascii ''key'') []"

definition derive_traffic_iv :: "Ring \<Rightarrow> Prk \<Rightarrow> bytes" where
  "derive_traffic_iv R secret = hkdf_expand R secret IvLen (ascii ''iv'') []"

subsection \<open>The key schedule\<close>

datatype SecretKind =
    ResumptionPskBinderKey
  | ClientEarlyTrafficSecret
  | ClientHandshakeTrafficSecret
  | ServerHandshakeTrafficSecret
  | ClientApplicationTrafficSecret
  | ServerApplicationTrafficSecret
  | ExporterMasterSecret
  | ResumptionMasterSecret
  | DerivedSecret

fun SecretKind_to_bytes :: "SecretKind \<Rightarrow> bytes" where
  "SecretKind_to_bytes ResumptionPskBinderKey = ascii ''res binder''"
| "SecretKind_to_bytes ClientEarlyTrafficSecret = ascii ''c e traffic''"
| "SecretKind_to_bytes ClientHandshakeTrafficSecret = ascii ''c hs traffic''"
| "SecretKind_to_bytes ServerHandshakeTrafficSecret = ascii ''s hs traffic''"
| "SecretKind_to_bytes ClientApplicationTrafficSecret = ascii ''c ap traffic''"
| "SecretKind_to_bytes ServerApplicationTrafficSecret = ascii ''s ap traffic''"
| "SecretKind_to_bytes ExporterMasterSecret = ascii ''exp master''"
| "SecretKind_to_bytes ResumptionMasterSecret = ascii ''res master''"
| "SecretKind_to_bytes DerivedSecret = ascii ''derived''"

fun SecretKind_log_label :: "SecretKind \<Rightarrow> string option" where
  "SecretKind_log_label ClientEarlyTrafficSecret = Some ''CLIENT_EARLY_TRAFFIC_SECRET''"
| "SecretKind_log_label ClientHandshakeTrafficSecret = Some ''CLIENT_HANDSHAKE_TRAFFIC_SECRET''"
| "SecretKind_log_label ServerHandshakeTrafficSecret = Some ''SERVER_HANDSHAKE_TRAFFIC_SECRET''"
| "SecretKind_log_label ClientApplicationTrafficSecret = Some ''CLIENT_TRAFFIC_SECRET_0''"
| "SecretKind_log_label ServerApplicationTrafficSecret = Some ''SERVER_TRAFFIC_SECRET_0''"
| "SecretKind_log_label ExporterMasterSecret = Some ''EXPORTER_SECRET''"
| "SecretKind_log_label _ = None"

record KeySchedule =
  ks_current :: Prk
  ks_algorithm :: digest_alg

definition zeroes :: "digest_alg \<Rightarrow> bytes" where
  "zeroes a = replicate (output_len a) 0"

definition KeySchedule_new :: "Ring \<Rightarrow> digest_alg \<Rightarrow> bytes \<Rightarrow> KeySchedule" where
  "KeySchedule_new R algorithm secret =
     \<lparr>ks_current = Prk algorithm (ring_extract R algorithm (zeroes algorithm) secret), ks_algorithm = algorithm\<rparr>"

definition KeySchedule_new_with_empty_secret :: "Ring \<Rightarrow> digest_alg \<Rightarrow> KeySchedule" where
  "KeySchedule_new_with_empty_secret R algorithm = KeySchedule_new R algorithm (zeroes algorithm)"

definition derive :: "Ring \<Rightarrow> KeySchedule \<Rightarrow> KeyType \<Rightarrow> SecretKind \<Rightarrow> bytes \<Rightarrow> bytes" where
  "derive R ks key_type kind hs_hash = hkdf_expand R (ks_current ks) key_type (SecretKind_to_bytes kind) hs_hash"

text \<open>The secrets that are logged are those with a label: the \<open>expect\<close> never fails on the kinds passed here.\<close>

definition derive_logged_secret :: "Ring \<Rightarrow> KeySchedule \<Rightarrow> SecretKind \<Rightarrow> bytes \<Rightarrow> Prk" where
  "derive_logged_secret R ks kind hs_hash =
     Prk (ks_algorithm ks) (derive R ks (Hkdf_Algorithm (ks_algorithm ks)) kind hs_hash)"

definition derive_for_empty_hash :: "Ring \<Rightarrow> KeySchedule \<Rightarrow> SecretKind \<Rightarrow> bytes" where
  "derive_for_empty_hash R ks kind =
     (let empty_hash = ring_digest R (ks_algorithm ks) []
      in derive R ks (Hkdf_Algorithm (ks_algorithm ks)) kind empty_hash)"

definition input_secret :: "Ring \<Rightarrow> KeySchedule \<Rightarrow> bytes \<Rightarrow> KeySchedule" where
  "input_secret R ks secret =
     (let salt = derive_for_empty_hash R ks DerivedSecret
      in ks\<lparr>ks_current := Prk (ks_algorithm ks) (ring_extract R (ks_algorithm ks) salt secret)\<rparr>)"

definition input_empty :: "Ring \<Rightarrow> KeySchedule \<Rightarrow> KeySchedule" where
  "input_empty R ks = input_secret R ks (zeroes (ks_algorithm ks))"

definition sign_verify_data_raw :: "Ring \<Rightarrow> KeySchedule \<Rightarrow> Prk \<Rightarrow> bytes \<Rightarrow> bytes" where
  "sign_verify_data_raw R ks base_key hs_hash =
     (let hmac_key = hkdf_expand R base_key (Hmac_Algorithm (ks_algorithm ks)) (ascii ''finished'') []
      in ring_hmac R (ks_algorithm ks) hmac_key hs_hash)"

definition sign_finish_raw :: "Ring \<Rightarrow> KeySchedule \<Rightarrow> Prk \<Rightarrow> bytes \<Rightarrow> bytes" where
  "sign_finish_raw R ks base_key hs_hash = sign_verify_data_raw R ks base_key hs_hash"

definition derive_next :: "Ring \<Rightarrow> KeySchedule \<Rightarrow> Prk \<Rightarrow> Prk" where
  "derive_next R ks base_key =
     Prk (ks_algorithm ks) (hkdf_expand R base_key (Hkdf_Algorithm (ks_algorithm ks)) (ascii ''traffic upd'') [])"

definition derive_ticket_psk :: "Ring \<Rightarrow> KeySchedule \<Rightarrow> Prk \<Rightarrow> bytes \<Rightarrow> bytes" where
  "derive_ticket_psk R ks rms nonce = hkdf_expand R rms (PayloadU8Len (ks_algorithm ks)) (ascii ''resumption'') nonce"

text \<open>
  \<open>None\<close> is the panic of the \<open>unwrap\<close> in \<open>hkdf_expand_info\<close>; \<open>fill\<close> of an output of the requested length does not
  fail.
\<close>

definition KeySchedule_export_keying_material ::
  "Ring \<Rightarrow> KeySchedule \<Rightarrow> Prk \<Rightarrow> nat \<Rightarrow> bytes \<Rightarrow> bytes option \<Rightarrow> (Error + bytes) option" where
  "KeySchedule_export_keying_material R ks current_exporter_secret out_len label context =
     (let digest_alg = ks_algorithm ks;
          h_empty = ring_digest R digest_alg [];
          secret = Prk (ks_algorithm ks)
            (hkdf_expand R current_exporter_secret (Hkdf_Algorithm (ks_algorithm ks)) label h_empty);
          h_context = ring_digest R digest_alg (case context of Some c \<Rightarrow> c | None \<Rightarrow> [])
      in map_option Inr (hkdf_expand_info R secret out_len (ascii ''exporter'') h_context))"

record KeyScheduleEarly =
  early_ks :: KeySchedule

definition KeyScheduleEarly_new :: "Ring \<Rightarrow> digest_alg \<Rightarrow> bytes \<Rightarrow> KeyScheduleEarly" where
  "KeyScheduleEarly_new R algorithm secret = \<lparr>early_ks = KeySchedule_new R algorithm secret\<rparr>"

definition client_early_traffic_secret :: "Ring \<Rightarrow> KeyScheduleEarly \<Rightarrow> bytes \<Rightarrow> Prk" where
  "client_early_traffic_secret R ks hs_hash = derive_logged_secret R (early_ks ks) ClientEarlyTrafficSecret hs_hash"

definition resumption_psk_binder_key_and_sign_verify_data :: "Ring \<Rightarrow> KeyScheduleEarly \<Rightarrow> bytes \<Rightarrow> bytes" where
  "resumption_psk_binder_key_and_sign_verify_data R ks hs_hash =
     (let resumption_psk_binder_key =
            Prk (ks_algorithm (early_ks ks)) (derive_for_empty_hash R (early_ks ks) ResumptionPskBinderKey)
      in sign_verify_data_raw R (early_ks ks) resumption_psk_binder_key hs_hash)"

record KeySchedulePreHandshake =
  pre_ks :: KeySchedule

definition KeySchedulePreHandshake_new :: "Ring \<Rightarrow> digest_alg \<Rightarrow> KeySchedulePreHandshake" where
  "KeySchedulePreHandshake_new R algorithm = \<lparr>pre_ks = KeySchedule_new_with_empty_secret R algorithm\<rparr>"

definition KeySchedulePreHandshake_from :: "KeyScheduleEarly \<Rightarrow> KeySchedulePreHandshake" where
  "KeySchedulePreHandshake_from early = \<lparr>pre_ks = early_ks early\<rparr>"

record KeyScheduleHandshakeStart =
  start_ks :: KeySchedule

definition into_handshake :: "Ring \<Rightarrow> KeySchedulePreHandshake \<Rightarrow> bytes \<Rightarrow> KeyScheduleHandshakeStart" where
  "into_handshake R ks secret = \<lparr>start_ks = input_secret R (pre_ks ks) secret\<rparr>"

record KeyScheduleHandshake =
  hs_ks :: KeySchedule
  hs_client_handshake_traffic_secret :: Prk
  hs_server_handshake_traffic_secret :: Prk

definition derive_handshake_secrets ::
  "Ring \<Rightarrow> KeyScheduleHandshakeStart \<Rightarrow> bytes \<Rightarrow> KeyScheduleHandshake \<times> Prk \<times> Prk" where
  "derive_handshake_secrets R ks hs_hash =
     (let client_secret = derive_logged_secret R (start_ks ks) ClientHandshakeTrafficSecret hs_hash;
          server_secret = derive_logged_secret R (start_ks ks) ServerHandshakeTrafficSecret hs_hash
      in (\<lparr>hs_ks = start_ks ks, hs_client_handshake_traffic_secret = client_secret,
           hs_server_handshake_traffic_secret = server_secret\<rparr>, client_secret, server_secret))"

definition sign_server_finish_raw :: "Ring \<Rightarrow> KeyScheduleHandshake \<Rightarrow> bytes \<Rightarrow> bytes" where
  "sign_server_finish_raw R ks hs_hash = sign_finish_raw R (hs_ks ks) (hs_server_handshake_traffic_secret ks) hs_hash"

record KeyScheduleTraffic =
  tr_ks :: KeySchedule
  tr_current_client_traffic_secret :: Prk
  tr_current_server_traffic_secret :: Prk
  tr_current_exporter_secret :: Prk

definition KeyScheduleTraffic_new :: "Ring \<Rightarrow> KeySchedule \<Rightarrow> bytes \<Rightarrow> KeyScheduleTraffic" where
  "KeyScheduleTraffic_new R ks hs_hash =
     (let ks = input_empty R ks
      in \<lparr>tr_ks = ks,
          tr_current_client_traffic_secret = derive_logged_secret R ks ClientApplicationTrafficSecret hs_hash,
          tr_current_server_traffic_secret = derive_logged_secret R ks ServerApplicationTrafficSecret hs_hash,
          tr_current_exporter_secret = derive_logged_secret R ks ExporterMasterSecret hs_hash\<rparr>)"

record KeyScheduleTrafficWithClientFinishedPending =
  pend_handshake_client_traffic_secret :: Prk
  pend_traffic :: KeyScheduleTraffic

definition into_traffic_with_client_finished_pending_raw ::
  "Ring \<Rightarrow> KeyScheduleHandshake \<Rightarrow> bytes \<Rightarrow> KeyScheduleTrafficWithClientFinishedPending \<times> Prk \<times> Prk" where
  "into_traffic_with_client_finished_pending_raw R ks hs_hash =
     (let traffic = KeyScheduleTraffic_new R (hs_ks ks) hs_hash;
          client_secret = tr_current_client_traffic_secret traffic;
          server_secret = tr_current_server_traffic_secret traffic
      in (\<lparr>pend_handshake_client_traffic_secret = hs_client_handshake_traffic_secret ks, pend_traffic = traffic\<rparr>,
          client_secret, server_secret))"

definition sign_client_finish_raw ::
  "Ring \<Rightarrow> KeyScheduleTrafficWithClientFinishedPending \<Rightarrow> bytes \<Rightarrow> KeyScheduleTraffic \<times> bytes \<times> Prk" where
  "sign_client_finish_raw R p hs_hash =
     (let tag = sign_finish_raw R (tr_ks (pend_traffic p)) (pend_handshake_client_traffic_secret p) hs_hash;
          client_secret = tr_current_client_traffic_secret (pend_traffic p)
      in (pend_traffic p, tag, client_secret))"

definition next_server_application_traffic_secret :: "Ring \<Rightarrow> KeyScheduleTraffic \<Rightarrow> Prk \<times> KeyScheduleTraffic" where
  "next_server_application_traffic_secret R t =
     (let secret = derive_next R (tr_ks t) (tr_current_server_traffic_secret t)
      in (secret, t\<lparr>tr_current_server_traffic_secret := secret\<rparr>))"

definition next_client_application_traffic_secret :: "Ring \<Rightarrow> KeyScheduleTraffic \<Rightarrow> Prk \<times> KeyScheduleTraffic" where
  "next_client_application_traffic_secret R t =
     (let secret = derive_next R (tr_ks t) (tr_current_client_traffic_secret t)
      in (secret, t\<lparr>tr_current_client_traffic_secret := secret\<rparr>))"

definition resumption_master_secret_and_derive_ticket_psk_raw ::
  "Ring \<Rightarrow> KeyScheduleTraffic \<Rightarrow> bytes \<Rightarrow> bytes \<Rightarrow> bytes" where
  "resumption_master_secret_and_derive_ticket_psk_raw R t hs_hash nonce =
     (let resumption_master_secret =
            Prk (ks_algorithm (tr_ks t))
              (derive R (tr_ks t) (Hkdf_Algorithm (ks_algorithm (tr_ks t))) ResumptionMasterSecret hs_hash)
      in derive_ticket_psk R (tr_ks t) resumption_master_secret nonce)"

definition export_keying_material ::
  "Ring \<Rightarrow> KeyScheduleTraffic \<Rightarrow> nat \<Rightarrow> bytes \<Rightarrow> bytes option \<Rightarrow> (Error + bytes) option" where
  "export_keying_material R t out_len label context =
     KeySchedule_export_keying_material R (tr_ks t) (tr_current_exporter_secret t) out_len label context"

subsection \<open>Record protection\<close>

text \<open>\<open>unpad_tls13\<close> pops bytes off the end of the vector until one is not zero.\<close>

function unpad_tls13 :: "bytes \<Rightarrow> ContentType \<times> bytes" where
  "unpad_tls13 v =
     (if v = [] then (ContentType.Unknown 0, [])
      else if last v = 0 then unpad_tls13 (butlast v)
      else (ContentType_from (last v), butlast v))"
  by auto
termination by (relation "measure length") auto

declare unpad_tls13.simps [simp del]

definition make_tls13_aad :: "nat \<Rightarrow> bytes" where
  "make_tls13_aad len = [0x17, 0x3, 0x3, word_of_nat (len div 256), word_of_nat len]"

definition Tls13MessageEncrypter_encrypt :: "Ring \<Rightarrow> aead_alg \<Rightarrow> bytes \<Rightarrow> bytes \<Rightarrow> MessageEncrypter" where
  "Tls13MessageEncrypter_encrypt R alg enc_key iv msg seq =
     (let total_len = length (pm_payload msg) + 1 + tag_len;
          payload = ContentType_encode (pm_typ msg) (pm_payload msg);
          nonce = make_nonce iv seq;
          aad = make_tls13_aad total_len
      in case ring_seal R alg enc_key nonce aad payload of
           None \<Rightarrow> Inl (General ''encrypt failed'')
         | Some payload \<Rightarrow>
             Inr \<lparr>om_typ = ContentType.ApplicationData, om_version = ProtocolVersion.TLSv1_2, om_payload = payload\<rparr>)"

definition Tls13MessageDecrypter_decrypt :: "Ring \<Rightarrow> aead_alg \<Rightarrow> bytes \<Rightarrow> bytes \<Rightarrow> MessageDecrypter" where
  "Tls13MessageDecrypter_decrypt R alg dec_key iv msg seq =
     (let payload = om_payload msg
      in if length payload < tag_len then Inl DecryptError
         else
           let nonce = make_nonce iv seq;
               aad = make_tls13_aad (length payload)
           in case ring_open R alg dec_key nonce aad payload of
                None \<Rightarrow> Inl DecryptError
              | Some payload \<Rightarrow>
                  if MAX_FRAGMENT_LEN + 1 < length payload then Inl PeerSentOversizedRecord
                  else
                    (case unpad_tls13 payload of (typ, payload) \<Rightarrow>
                       if typ = ContentType.Unknown 0 then Inl (PeerMisbehavedError ''peer sent bad TLSInnerPlaintext'')
                       else if MAX_FRAGMENT_LEN < length payload then Inl PeerSentOversizedRecord
                       else Inr (into_plain_message
                         (msg\<lparr>om_typ := typ, om_version := ProtocolVersion.TLSv1_3, om_payload := payload\<rparr>))))"

definition derive_encrypter :: "Ring \<Rightarrow> Tls13CipherSuite \<Rightarrow> Prk \<Rightarrow> MessageEncrypter" where
  "derive_encrypter R suite secret =
     (let key = derive_traffic_key R secret (csc_aead_algorithm (cs13_common suite));
          iv = derive_traffic_iv R secret
      in Tls13MessageEncrypter_encrypt R (csc_aead_algorithm (cs13_common suite)) key iv)"

definition derive_decrypter :: "Ring \<Rightarrow> Tls13CipherSuite \<Rightarrow> Prk \<Rightarrow> MessageDecrypter" where
  "derive_decrypter R suite secret =
     (let key = derive_traffic_key R secret (csc_aead_algorithm (cs13_common suite));
          iv = derive_traffic_iv R secret
      in Tls13MessageDecrypter_decrypt R (csc_aead_algorithm (cs13_common suite)) key iv)"

subsection \<open>Distinct labels\<close>

text \<open>The label is a length-prefixed encoding, hence injective on what fits its length fields.\<close>

lemma u16_to_be_bytes_eq_iff [simp]: "u16_to_be_bytes v = u16_to_be_bytes w \<longleftrightarrow> v = w"
  by (metis u16_from_to_be option.inject)

lemma word_of_nat_eq_small:
  "m < 2 ^ LENGTH('a) \<Longrightarrow> n < 2 ^ LENGTH('a) \<Longrightarrow> (word_of_nat m :: 'a::len word) = word_of_nat n \<longleftrightarrow> m = n"
  by (metis mod_less unat_of_nat)

lemma hkdf_label_inj:
  assumes "n < 65536" "n' < 65536" "length l < 250" "length l' < 250" "length c < 256" "length c' < 256"
    and eq: "hkdf_label n l c = hkdf_label n' l' c'"
  shows "n = n' \<and> l = l' \<and> c = c'"
proof -
  have pre: "length LABEL_PREFIX = 6" by (simp add: LABEL_PREFIX_def ascii_def)
  have parts: "u16_to_be_bytes (word_of_nat n) = u16_to_be_bytes (word_of_nat n')"
    and lens: "(word_of_nat (6 + length l) :: u8) = word_of_nat (6 + length l')"
    and rest: "l @ word_of_nat (length c) # c = l' @ word_of_nat (length c') # c'"
    using eq by (simp_all add: hkdf_label_def Let_def pre append_eq_append_conv)
  have n: "n = n'" using parts assms word_of_nat_eq_small [of n n', where 'a = 16] by simp
  have l: "length l = length l'"
    using lens assms word_of_nat_eq_small [of "6 + length l" "6 + length l'", where 'a = 8]
    by (simp del: of_nat_add)
  then show ?thesis using n rest by simp
qed

lemma SecretKind_to_bytes_inj: "SecretKind_to_bytes k = SecretKind_to_bytes k' \<longleftrightarrow> k = k'"
  by (cases k; cases k') (simp_all add: ascii_def)

lemma SecretKind_to_bytes_short: "length (SecretKind_to_bytes k) < 250"
  by (cases k) (simp_all add: ascii_def)

subsection \<open>Encryption and decryption\<close>

lemma unpad_tls13_append_zeros:
  assumes "b \<noteq> 0"
  shows "unpad_tls13 (v @ b # replicate n 0) = (ContentType_from b, v)"
proof (induction n)
  case 0
  show ?case using assms by (subst unpad_tls13.simps) simp
next
  case (Suc n)
  have snoc: "v @ b # replicate (Suc n) 0 = (v @ b # replicate n 0) @ [0]"
    by (simp add: replicate_append_same)
  show ?case unfolding snoc using Suc by (subst unpad_tls13.simps) (simp del: append_assoc append_Cons)
qed

lemma unpad_tls13_spec:
  "unpad_tls13 v = (if \<forall>b \<in> set v. b = 0 then (ContentType.Unknown 0, [])
     else let w = rev (dropWhile (\<lambda>b. b = 0) (rev v)) in (ContentType_from (last w), butlast w))"
proof (induction v rule: rev_induct)
  case Nil
  show ?case by (subst unpad_tls13.simps) simp
next
  case (snoc b v)
  show ?case using snoc by (subst unpad_tls13.simps) (auto simp: Let_def)
qed

lemma length_unpad_tls13: "length (snd (unpad_tls13 v)) \<le> length v - 1"
proof (induction v rule: rev_induct)
  case Nil
  show ?case by (subst unpad_tls13.simps) simp
next
  case (snoc b v)
  then show ?case by (subst unpad_tls13.simps) auto
qed

lemma unpad_tls13_type [simp]:
  "ContentType_valid typ \<Longrightarrow> ContentType_get typ \<noteq> 0 \<Longrightarrow> unpad_tls13 (v @ [ContentType_get typ]) = (typ, v)"
  using unpad_tls13_append_zeros [of "ContentType_get typ" v 0] by simp

lemma tls13_decrypt_encrypt:
  assumes "Ring_ok R" "ContentType_valid (pm_typ m)" "ContentType_get (pm_typ m) \<noteq> 0"
    and "length (pm_payload m) \<le> MAX_FRAGMENT_LEN"
    and enc: "Tls13MessageEncrypter_encrypt R alg key iv m seq = Inr c"
  shows "Tls13MessageDecrypter_decrypt R alg key iv c seq = Inr (m\<lparr>pm_version := ProtocolVersion.TLSv1_3\<rparr>)"
proof -
  let ?plain = "pm_payload m @ [ContentType_get (pm_typ m)]"
  let ?aad = "make_tls13_aad (length (pm_payload m) + 1 + tag_len)"
  obtain p where seal: "ring_seal R alg key (make_nonce iv seq) ?aad ?plain = Some p"
    and c: "c = \<lparr>om_typ = ContentType.ApplicationData, om_version = ProtocolVersion.TLSv1_2, om_payload = p\<rparr>"
    using enc by (auto simp: Tls13MessageEncrypter_encrypt_def enum_u8_encode_def u8_encode_def split: option.splits)
  have len: "length p = length (pm_payload m) + 1 + tag_len" using Ring_okD(5) [OF assms(1) seal] by simp
  have opn: "ring_open R alg key (make_nonce iv seq) (make_tls13_aad (length p)) p = Some ?plain"
    using Ring_okD(6) [OF assms(1) seal] len by simp
  have "pm_typ m \<noteq> ContentType.Unknown 0" using assms(3) by (auto simp: ContentType_get.simps)
  then show ?thesis
    using len opn assms(2,3,4) by (simp add: Tls13MessageDecrypter_decrypt_def c into_plain_message_def)
qed

lemma unpad_tls13_inner:
  assumes "unpad_tls13 v = (typ, w)" "typ \<noteq> ContentType.Unknown 0"
  obtains b n where "v = w @ b # replicate n 0" "b \<noteq> 0" "typ = ContentType_from b"
  using assms(1)
proof (induction v arbitrary: thesis rule: rev_induct)
  case Nil
  then show ?case using assms(2) by (subst (asm) unpad_tls13.simps) simp
next
  case (snoc x v)
  show ?case
  proof (cases "x = 0")
    case True
    with snoc.prems(2) have "unpad_tls13 v = (typ, w)" by (subst (asm) unpad_tls13.simps) simp
    then obtain b n where *: "v = w @ b # replicate n 0" "b \<noteq> 0" "typ = ContentType_from b"
      by (rule snoc.IH [rotated])
    have "v @ [x] = w @ b # replicate (Suc n) 0" using * True by (simp add: replicate_append_same)
    with * show ?thesis by (intro snoc.prems(1))
  next
    case False
    with snoc.prems(2) have "typ = ContentType_from x" "w = v" by (subst (asm) unpad_tls13.simps, simp)+
    then show ?thesis using False by (intro snoc.prems(1) [of x 0]) simp_all
  qed
qed

text \<open>What decryption accepts: an authentic record whose plaintext ends with a content type and zero padding.\<close>

lemma tls13_decrypt_Inr:
  assumes "Tls13MessageDecrypter_decrypt R alg key iv c seq = Inr m"
  obtains b n where
    "ring_open R alg key (make_nonce iv seq) (make_tls13_aad (length (om_payload c))) (om_payload c)
       = Some (pm_payload m @ b # replicate n 0)"
    "b \<noteq> 0" "pm_typ m = ContentType_from b" "pm_version m = ProtocolVersion.TLSv1_3"
    "length (pm_payload m) + n \<le> MAX_FRAGMENT_LEN"
proof -
  obtain v t w where opn: "ring_open R alg key (make_nonce iv seq) (make_tls13_aad (length (om_payload c)))
      (om_payload c) = Some v"
    and v: "length v \<le> MAX_FRAGMENT_LEN + 1" "unpad_tls13 v = (t, w)" "t \<noteq> ContentType.Unknown 0"
    and m: "pm_typ m = t" "pm_payload m = w" "pm_version m = ProtocolVersion.TLSv1_3"
    using assms by (auto simp: Tls13MessageDecrypter_decrypt_def into_plain_message_def Let_def
        split: if_splits option.splits prod.splits)
  obtain b n where "v = w @ b # replicate n 0" "b \<noteq> 0" "t = ContentType_from b"
    using unpad_tls13_inner [OF v(2,3)] .
  then show thesis using opn m v(1) by (intro that [of b n]) simp_all
qed

text \<open>The messages that TLS 1.3 protects, and what the peer sees of them.\<close>

definition tls13_sendable :: "Ring \<Rightarrow> PlainMessage \<Rightarrow> bool" where
  "tls13_sendable R m \<longleftrightarrow> Ring_ok R \<and> ContentType_valid (pm_typ m) \<and> ContentType_get (pm_typ m) \<noteq> 0
     \<and> length (pm_payload m) \<le> MAX_FRAGMENT_LEN"

definition tls13_received :: "PlainMessage \<Rightarrow> PlainMessage" where
  "tls13_received m = m\<lparr>pm_version := ProtocolVersion.TLSv1_3\<rparr>"

interpretation tls13_cipher: record_cipher "derive_encrypter R suite secret" "derive_decrypter R suite secret"
  "tls13_sendable R" tls13_received for R suite secret
  by unfold_locales
    (auto simp: derive_encrypter_def derive_decrypter_def Let_def tls13_sendable_def tls13_received_def
      intro: tls13_decrypt_encrypt)

end
