(* ===== verification/Tls_Tls12.thy ===== *)
theory Tls_Tls12
  imports Tls_Crypto
begin

text \<open>
  TLS 1.2: the pseudo-random function of \<open>rustls/tls12/prf.rs\<close>, the record ciphers of \<open>rustls/tls12/cipher.rs\<close> and
  the connection secrets of \<open>rustls/tls12/mod.rs\<close>.

  An output buffer is its length, and the result what it is filled with. \<open>None\<close> is a panic: a slice that is too short to
  be split, a copy between slices of different lengths, a failed \<open>assert!\<close>.

  The lemmas: \<open>prf\<close> is the \<open>P_hash\<close> of RFC 5246; the key block is long enough, so that a cipher pair is always made
  for the supported suites; and what one side encrypts the other side decrypts.
\<close>

subsection \<open>The pseudo-random function\<close>

definition concat_sign :: "Ring \<Rightarrow> digest_alg \<Rightarrow> bytes \<Rightarrow> bytes \<Rightarrow> bytes \<Rightarrow> bytes" where
  "concat_sign R alg key a b = ring_hmac R alg key (a @ b)"

text \<open>The loop of \<open>p\<close> over the chunks of the output, \<open>n\<close> bytes of which are left.\<close>

function p_loop :: "Ring \<Rightarrow> digest_alg \<Rightarrow> bytes \<Rightarrow> bytes \<Rightarrow> bytes \<Rightarrow> nat \<Rightarrow> bytes" where
  "p_loop R alg hmac_key seed current_a n =
     (if n = 0 then []
      else let chunk_len = min (output_len alg) n;
               p_term = concat_sign R alg hmac_key current_a seed;
               current_a = ring_hmac R alg hmac_key current_a
           in take chunk_len p_term @ p_loop R alg hmac_key seed current_a (n - chunk_len))"
  by auto
termination by (relation "measure (\<lambda>(R, alg, k, seed, a, n). n)") auto

declare p_loop.simps [simp del]

definition tls12_p :: "Ring \<Rightarrow> digest_alg \<Rightarrow> nat \<Rightarrow> bytes \<Rightarrow> bytes \<Rightarrow> bytes" where
  "tls12_p R alg out_len secret seed =
     (let current_a = ring_hmac R alg secret seed in p_loop R alg secret seed current_a out_len)"

definition tls12_prf :: "Ring \<Rightarrow> nat \<Rightarrow> digest_alg \<Rightarrow> bytes \<Rightarrow> bytes \<Rightarrow> bytes \<Rightarrow> bytes" where
  "tls12_prf R out_len alg secret label seed =
     (let joined_seed = label @ seed in tls12_p R alg out_len secret joined_seed)"

subsection \<open>Record ciphers\<close>

definition make_tls12_aad :: "u64 \<Rightarrow> ContentType \<Rightarrow> ProtocolVersion \<Rightarrow> nat \<Rightarrow> bytes" where
  "make_tls12_aad seq typ vers len =
     (let out = replicate 13 0;
          out = overwrite 0 (the (put_u64 seq (drop 0 out))) out;
          out = out[8 := ContentType_get typ];
          out = overwrite 9 (the (put_u16 (ProtocolVersion_get vers) (drop 9 out))) out
      in overwrite 11 (the (put_u16 (word_of_nat len) (drop 11 out))) out)"

definition GCM_EXPLICIT_NONCE_LEN :: nat where
  "GCM_EXPLICIT_NONCE_LEN = 8"

definition GCM_OVERHEAD :: nat where
  "GCM_OVERHEAD = GCM_EXPLICIT_NONCE_LEN + 16"

definition CHACHAPOLY1305_OVERHEAD :: nat where
  "CHACHAPOLY1305_OVERHEAD = 16"

definition GcmMessageDecrypter_decrypt :: "Ring \<Rightarrow> aead_alg \<Rightarrow> bytes \<Rightarrow> bytes \<Rightarrow> MessageDecrypter" where
  "GcmMessageDecrypter_decrypt R alg dec_key dec_salt msg seq =
     (let payload = om_payload msg
      in if length payload < GCM_OVERHEAD then Inl DecryptError
         else
           let nonce = dec_salt @ take 8 payload;
               aad = make_tls12_aad seq (om_typ msg) (om_version msg) (length payload - GCM_OVERHEAD)
           in case ring_open R alg dec_key nonce aad (drop GCM_EXPLICIT_NONCE_LEN payload) of
                None \<Rightarrow> Inl DecryptError
              | Some plain \<Rightarrow>
                  if MAX_FRAGMENT_LEN < length plain then Inl PeerSentOversizedRecord
                  else Inr (into_plain_message (msg\<lparr>om_payload := plain\<rparr>)))"

definition GcmMessageEncrypter_encrypt :: "Ring \<Rightarrow> aead_alg \<Rightarrow> bytes \<Rightarrow> bytes \<Rightarrow> MessageEncrypter" where
  "GcmMessageEncrypter_encrypt R alg enc_key iv msg seq =
     (let nonce = make_nonce iv seq;
          aad = make_tls12_aad seq (pm_typ msg) (pm_version msg) (length (pm_payload msg))
      in case ring_seal R alg enc_key nonce aad (pm_payload msg) of
           None \<Rightarrow> Inl (General ''encrypt failed'')
         | Some sealed \<Rightarrow>
             Inr \<lparr>om_typ = pm_typ msg, om_version = pm_version msg, om_payload = drop 4 nonce @ sealed\<rparr>)"

definition ChaCha20Poly1305MessageDecrypter_decrypt :: "Ring \<Rightarrow> aead_alg \<Rightarrow> bytes \<Rightarrow> bytes \<Rightarrow> MessageDecrypter" where
  "ChaCha20Poly1305MessageDecrypter_decrypt R alg dec_key dec_offset msg seq =
     (let payload = om_payload msg
      in if length payload < CHACHAPOLY1305_OVERHEAD then Inl DecryptError
         else
           let nonce = make_nonce dec_offset seq;
               aad = make_tls12_aad seq (om_typ msg) (om_version msg) (length payload - CHACHAPOLY1305_OVERHEAD)
           in case ring_open R alg dec_key nonce aad payload of
                None \<Rightarrow> Inl DecryptError
              | Some plain \<Rightarrow>
                  if MAX_FRAGMENT_LEN < length plain then Inl PeerSentOversizedRecord
                  else Inr (into_plain_message (msg\<lparr>om_payload := plain\<rparr>)))"

definition ChaCha20Poly1305MessageEncrypter_encrypt :: "Ring \<Rightarrow> aead_alg \<Rightarrow> bytes \<Rightarrow> bytes \<Rightarrow> MessageEncrypter" where
  "ChaCha20Poly1305MessageEncrypter_encrypt R alg enc_key enc_offset msg seq =
     (let nonce = make_nonce enc_offset seq;
          aad = make_tls12_aad seq (pm_typ msg) (pm_version msg) (length (pm_payload msg))
      in case ring_seal R alg enc_key nonce aad (pm_payload msg) of
           None \<Rightarrow> Inl (General ''encrypt failed'')
         | Some buf \<Rightarrow> Inr \<lparr>om_typ = pm_typ msg, om_version = pm_version msg, om_payload = buf\<rparr>)"

definition AesGcm_decrypter :: "Ring \<Rightarrow> aead_alg \<Rightarrow> bytes \<Rightarrow> bytes \<Rightarrow> MessageDecrypter option" where
  "AesGcm_decrypter R alg dec_key dec_iv =
     (if length dec_iv = 4 then Some (GcmMessageDecrypter_decrypt R alg dec_key dec_iv) else None)"

definition AesGcm_encrypter :: "Ring \<Rightarrow> aead_alg \<Rightarrow> bytes \<Rightarrow> bytes \<Rightarrow> bytes \<Rightarrow> MessageEncrypter option" where
  "AesGcm_encrypter R alg enc_key write_iv explicit =
     (if length write_iv = 4 \<and> length explicit = 8
      then Some (GcmMessageEncrypter_encrypt R alg enc_key (write_iv @ explicit)) else None)"

definition ChaCha20Poly1305_decrypter :: "Ring \<Rightarrow> aead_alg \<Rightarrow> bytes \<Rightarrow> bytes \<Rightarrow> MessageDecrypter option" where
  "ChaCha20Poly1305_decrypter R alg dec_key iv =
     map_option (ChaCha20Poly1305MessageDecrypter_decrypt R alg dec_key) (Iv_copy iv)"

definition ChaCha20Poly1305_encrypter :: "Ring \<Rightarrow> aead_alg \<Rightarrow> bytes \<Rightarrow> bytes \<Rightarrow> MessageEncrypter option" where
  "ChaCha20Poly1305_encrypter R alg enc_key enc_iv =
     map_option (ChaCha20Poly1305MessageEncrypter_encrypt R alg enc_key) (Iv_copy enc_iv)"

lemmas tls12_aead_defs = AesGcm_decrypter_def AesGcm_encrypter_def ChaCha20Poly1305_decrypter_def ChaCha20Poly1305_encrypter_def

fun Tls12AeadAlgorithm_decrypter ::
  "Ring \<Rightarrow> Tls12AeadAlgorithm \<Rightarrow> aead_alg \<Rightarrow> bytes \<Rightarrow> bytes \<Rightarrow> MessageDecrypter option" where
  "Tls12AeadAlgorithm_decrypter R AesGcm alg dec_key dec_iv = AesGcm_decrypter R alg dec_key dec_iv"
| "Tls12AeadAlgorithm_decrypter R ChaCha20Poly1305 alg dec_key iv = ChaCha20Poly1305_decrypter R alg dec_key iv"

fun Tls12AeadAlgorithm_encrypter ::
  "Ring \<Rightarrow> Tls12AeadAlgorithm \<Rightarrow> aead_alg \<Rightarrow> bytes \<Rightarrow> bytes \<Rightarrow> bytes \<Rightarrow> MessageEncrypter option" where
  "Tls12AeadAlgorithm_encrypter R AesGcm alg enc_key write_iv explicit = AesGcm_encrypter R alg enc_key write_iv explicit"
| "Tls12AeadAlgorithm_encrypter R ChaCha20Poly1305 alg enc_key enc_iv _ = ChaCha20Poly1305_encrypter R alg enc_key enc_iv"

subsection \<open>Connection secrets\<close>

record ConnectionSecrets =
  sec_randoms :: ConnectionRandoms
  sec_suite :: Tls12CipherSuite
  sec_master_secret :: bytes

definition join_randoms :: "bytes \<Rightarrow> bytes \<Rightarrow> bytes" where
  "join_randoms first second = first @ second"

definition from_key_exchange ::
  "Ring \<Rightarrow> KeyExchange \<Rightarrow> bytes \<Rightarrow> bytes option \<Rightarrow> ConnectionRandoms \<Rightarrow> Tls12CipherSuite \<Rightarrow> Error + ConnectionSecrets" where
  "from_key_exchange R kx peer_pub_key ems_seed randoms suite =
     (let (label, seed) =
            (case ems_seed of
               Some seed \<Rightarrow> (''extended master secret'', seed)
             | None \<Rightarrow> (''master secret'', join_randoms (cr_client randoms) (cr_server randoms)))
      in case KeyExchange_complete R kx peer_pub_key
           (\<lambda>secret. Some (tls12_prf R 48 (cs12_hmac_algorithm suite) secret (ascii label) seed)) of
           Inl e \<Rightarrow> Inl e
         | Inr master_secret \<Rightarrow> Inr \<lparr>sec_randoms = randoms, sec_suite = suite, sec_master_secret = master_secret\<rparr>)"

definition new_resume :: "ConnectionRandoms \<Rightarrow> Tls12CipherSuite \<Rightarrow> bytes \<Rightarrow> ConnectionSecrets option" where
  "new_resume randoms suite master_secret =
     (if length master_secret = 48
      then Some \<lparr>sec_randoms = randoms, sec_suite = suite, sec_master_secret = master_secret\<rparr> else None)"

definition make_key_block :: "Ring \<Rightarrow> ConnectionSecrets \<Rightarrow> bytes" where
  "make_key_block R self =
     (let suite = sec_suite self; common = cs12_common suite;
          len = (key_len (csc_aead_algorithm common) + cs12_fixed_iv_len suite) * 2 + cs12_explicit_nonce_len suite;
          randoms = join_randoms (cr_server (sec_randoms self)) (cr_client (sec_randoms self))
      in tls12_prf R len (cs12_hmac_algorithm suite) (sec_master_secret self) (ascii ''key expansion'') randoms)"

definition split_at :: "nat \<Rightarrow> bytes \<Rightarrow> (bytes \<times> bytes) option" where
  "split_at n bs = (if n \<le> length bs then Some (take n bs, drop n bs) else None)"

definition make_cipher_pair :: "Ring \<Rightarrow> ConnectionSecrets \<Rightarrow> Side \<Rightarrow> (MessageDecrypter \<times> MessageEncrypter) option" where
  "make_cipher_pair R self side =
     (let key_block = make_key_block R self;
          suite = sec_suite self;
          alg = csc_aead_algorithm (cs12_common suite)
      in do {
           (client_write_key, key_block) \<leftarrow> split_at (key_len alg) key_block;
           (server_write_key, key_block) \<leftarrow> split_at (key_len alg) key_block;
           (client_write_iv, key_block) \<leftarrow> split_at (cs12_fixed_iv_len suite) key_block;
           (server_write_iv, extra) \<leftarrow> split_at (cs12_fixed_iv_len suite) key_block;
           let (write_key, write_iv, read_key, read_iv) =
             (case side of
                Side.Client \<Rightarrow> (client_write_key, client_write_iv, server_write_key, server_write_iv)
              | Side.Server \<Rightarrow> (server_write_key, server_write_iv, client_write_key, client_write_iv));
           decrypter \<leftarrow> Tls12AeadAlgorithm_decrypter R (cs12_aead_alg suite) alg read_key read_iv;
           encrypter \<leftarrow> Tls12AeadAlgorithm_encrypter R (cs12_aead_alg suite) alg write_key write_iv extra;
           Some (decrypter, encrypter)
         })"

definition get_master_secret :: "ConnectionSecrets \<Rightarrow> bytes" where
  "get_master_secret self = sec_master_secret self"

definition make_verify_data :: "Ring \<Rightarrow> ConnectionSecrets \<Rightarrow> bytes \<Rightarrow> bytes \<Rightarrow> bytes" where
  "make_verify_data R self handshake_hash label =
     tls12_prf R 12 (cs12_hmac_algorithm (sec_suite self)) (sec_master_secret self) label handshake_hash"

definition client_verify_data :: "Ring \<Rightarrow> ConnectionSecrets \<Rightarrow> bytes \<Rightarrow> bytes" where
  "client_verify_data R self handshake_hash = make_verify_data R self handshake_hash (ascii ''client finished'')"

definition server_verify_data :: "Ring \<Rightarrow> ConnectionSecrets \<Rightarrow> bytes \<Rightarrow> bytes" where
  "server_verify_data R self handshake_hash = make_verify_data R self handshake_hash (ascii ''server finished'')"

definition ConnectionSecrets_export_keying_material ::
  "Ring \<Rightarrow> ConnectionSecrets \<Rightarrow> nat \<Rightarrow> bytes \<Rightarrow> bytes option \<Rightarrow> bytes option" where
  "ConnectionSecrets_export_keying_material R self out_len label context =
     (let randoms = cr_client (sec_randoms self) @ cr_server (sec_randoms self)
      in do {
           randoms \<leftarrow>
             (case context of
                None \<Rightarrow> Some randoms
              | Some context \<Rightarrow>
                  if length context \<le> 0xffff
                  then Some (u16_encode (word_of_nat (length context)) randoms @ context) else None);
           Some (tls12_prf R out_len (cs12_hmac_algorithm (sec_suite self)) (sec_master_secret self) label randoms)
         })"

definition decode_ecdh_params :: "(Reader \<Rightarrow> ('a \<times> Reader) option) \<Rightarrow> bytes \<Rightarrow> 'a option" where
  "decode_ecdh_params read kx_params =
     do {
       (ecdh_params, rd) \<leftarrow> read (Reader_init kx_params);
       if Reader_any_left rd then None else Some ecdh_params
     }"

definition DOWNGRADE_SENTINEL :: bytes where
  "DOWNGRADE_SENTINEL = [0x44, 0x4f, 0x57, 0x4e, 0x47, 0x52, 0x44, 0x01]"

subsection \<open>\<open>P_hash\<close>\<close>

text \<open>\<open>A\<close> and \<open>P_hash\<close> of RFC 5246, section 5, as an unbounded list of blocks of which \<open>n\<close> bytes are taken.\<close>

fun P_A :: "Ring \<Rightarrow> digest_alg \<Rightarrow> bytes \<Rightarrow> bytes \<Rightarrow> nat \<Rightarrow> bytes" where
  "P_A R alg secret seed 0 = seed"
| "P_A R alg secret seed (Suc i) = ring_hmac R alg secret (P_A R alg secret seed i)"

definition P_block :: "Ring \<Rightarrow> digest_alg \<Rightarrow> bytes \<Rightarrow> bytes \<Rightarrow> nat \<Rightarrow> bytes" where
  "P_block R alg secret seed i = ring_hmac R alg secret (P_A R alg secret seed (Suc i) @ seed)"

definition P_hash :: "Ring \<Rightarrow> digest_alg \<Rightarrow> bytes \<Rightarrow> bytes \<Rightarrow> nat \<Rightarrow> bytes" where
  "P_hash R alg secret seed n = take n (concat (map (P_block R alg secret seed) [0..<n]))"

lemma length_P_block [simp]: "Ring_ok R \<Longrightarrow> length (P_block R alg secret seed i) = output_len alg"
  by (simp add: P_block_def Ring_okD)

lemma length_P_blocks [simp]:
  "Ring_ok R \<Longrightarrow> length (concat (map (P_block R alg secret seed) [i..<i + k])) = k * output_len alg"
  by (induction k) (simp_all add: algebra_simps)

lemma le_mult_output_len [simp]: "n \<le> n * output_len alg"
  by (cases alg) simp_all

text \<open>Any number of blocks that covers the output gives the same bytes.\<close>

lemma take_P_blocks:
  assumes "Ring_ok R" "n \<le> k * output_len alg" "k \<le> k'"
  shows "take n (concat (map (P_block R alg secret seed) [i..<i + k'])) =
    take n (concat (map (P_block R alg secret seed) [i..<i + k]))"
proof -
  have "[i..<i + k'] = [i..<i + k] @ [i + k..<i + k']"
    using assms(3) by (metis add_left_mono le_add1 le_iff_add upt_add_eq_append)
  then show ?thesis using assms(1,2) by simp
qed

lemma p_loop_blocks:
  assumes ok: "Ring_ok R"
  shows "n \<le> k * output_len alg \<Longrightarrow>
    p_loop R alg secret seed (P_A R alg secret seed (Suc i)) n =
      take n (concat (map (P_block R alg secret seed) [i..<i + k]))"
proof (induction k arbitrary: n i)
  case 0
  then show ?case by (simp add: p_loop.simps)
next
  case (Suc k)
  show ?case
  proof (cases "n = 0")
    case True
    then show ?thesis by (simp add: p_loop.simps)
  next
    case False
    let ?c = "min (output_len alg) n"
    have "n - ?c \<le> k * output_len alg" using Suc.prems by auto
    note IH = Suc.IH [OF this, of "Suc i"]
    have "p_loop R alg secret seed (P_A R alg secret seed (Suc i)) n =
        take ?c (P_block R alg secret seed i) @ p_loop R alg secret seed (P_A R alg secret seed (Suc (Suc i))) (n - ?c)"
      using False by (subst p_loop.simps) (simp add: Let_def concat_sign_def P_block_def)
    also have "\<dots> = take n (P_block R alg secret seed i @ concat (map (P_block R alg secret seed) [Suc i..<Suc i + k]))"
      unfolding IH using ok by (cases "n \<le> output_len alg") (simp_all add: min_def)
    also have "\<dots> = take n (concat (map (P_block R alg secret seed) [i..<i + Suc k]))"
      using upt_rec [of i "i + Suc k"] by simp
    finally show ?thesis .
  qed
qed

lemma prf_P_hash:
  assumes "Ring_ok R"
  shows "tls12_prf R n alg secret label seed = P_hash R alg secret (label @ seed) n"
proof -
  from p_loop_blocks [OF assms le_mult_output_len, of alg secret "label @ seed" 0 n]
  show ?thesis by (simp add: tls12_prf_def tls12_p_def P_hash_def)
qed

lemma length_P_hash [simp]:
  assumes "Ring_ok R"
  shows "length (P_hash R alg secret seed n) = n"
  using length_P_blocks [OF assms, of alg secret seed 0 n] by (simp add: P_hash_def min_absorb2)

lemma length_prf [simp]: "Ring_ok R \<Longrightarrow> length (tls12_prf R n alg secret label seed) = n"
  by (simp add: prf_P_hash)

lemma P_hash_prefix:
  assumes "Ring_ok R" "m \<le> n"
  shows "take m (P_hash R alg secret seed n) = P_hash R alg secret seed m"
  using take_P_blocks [OF assms(1) le_mult_output_len assms(2), of alg secret seed 0] assms(2) by (simp add: P_hash_def min_absorb1)

subsection \<open>Both sides of a connection\<close>

lemma make_tls12_aad_bytes:
  "make_tls12_aad seq t vers len =
     u64_to_be_bytes seq @ ContentType_get t # u16_to_be_bytes (ProtocolVersion_get vers) @ u16_to_be_bytes (word_of_nat len)"
proof -
  let ?s = "u64_to_be_bytes seq" and ?v = "u16_to_be_bytes (ProtocolVersion_get vers)"
  have 1: "overwrite 0 (the (put_u64 seq (drop 0 (replicate 13 0)))) (replicate 13 0) = ?s @ [0, 0, 0, 0, 0]"
    by (simp add: put_u64_def overwrite_def numeral_eq_Suc)
  have 2: "(?s @ [0, 0, 0, 0, 0])[8 := x] = (?s @ [x]) @ [0, 0, 0, 0]" for x
    by (simp add: list_update_append)
  have 3: "overwrite 9 (the (put_u16 w (drop 9 ((?s @ [x]) @ [0, 0, 0, 0])))) ((?s @ [x]) @ [0, 0, 0, 0])
      = (?s @ x # u16_to_be_bytes w) @ [0, 0]" for x w
    by (simp add: put_u16_def overwrite_def)
  have 4: "overwrite 11 (the (put_u16 w (drop 11 ((?s @ x # ?v) @ [0, 0])))) ((?s @ x # ?v) @ [0, 0])
      = ?s @ x # ?v @ u16_to_be_bytes w" for x w
    by (simp add: put_u16_def overwrite_def)
  show ?thesis unfolding make_tls12_aad_def Let_def 1 2 3 4 ..
qed

lemma length_make_nonce [simp]: "length iv = 12 \<Longrightarrow> length (make_nonce iv seq) = 12"
  by (simp add: make_nonce_bytes)

lemma make_nonce_salt:
  assumes "length salt = 4" "length explicit = 8"
  shows "salt @ drop 4 (make_nonce (salt @ explicit) seq) = make_nonce (salt @ explicit) seq"
proof -
  have zero: "map2 (\<lambda>n i. n XOR i) (replicate 4 0) salt = salt"
    using assms(1) by (auto simp: numeral_eq_Suc length_Suc_conv)
  have "make_nonce (salt @ explicit) seq = salt @ map2 (\<lambda>n i. n XOR i) (u64_to_be_bytes seq) explicit"
    using assms zero by (simp add: make_nonce_bytes)
  then show ?thesis using assms by simp
qed

lemma gcm_decrypt_encrypt:
  assumes "Ring_ok R" "length salt = 4" "length explicit = 8" "length (pm_payload m) \<le> MAX_FRAGMENT_LEN"
    and enc: "GcmMessageEncrypter_encrypt R alg key (salt @ explicit) m seq = Inr c"
  shows "GcmMessageDecrypter_decrypt R alg key salt c seq = Inr m"
proof -
  let ?nonce = "make_nonce (salt @ explicit) seq"
  obtain p where seal: "ring_seal R alg key ?nonce (make_tls12_aad seq (pm_typ m) (pm_version m) (length (pm_payload m)))
      (pm_payload m) = Some p"
    and c: "c = \<lparr>om_typ = pm_typ m, om_version = pm_version m, om_payload = drop 4 ?nonce @ p\<rparr>"
    using enc by (auto simp: GcmMessageEncrypter_encrypt_def Let_def split: option.splits)
  have "length p = length (pm_payload m) + 16" using Ring_okD(5) [OF assms(1) seal] by (simp add: tag_len_def)
  moreover have "length (drop 4 ?nonce) = 8" using assms(2,3) by simp
  ultimately show ?thesis
    using Ring_okD(6) [OF assms(1) seal] make_nonce_salt [OF assms(2,3), of seq] assms(4)
    by (simp add: GcmMessageDecrypter_decrypt_def c into_plain_message_def GCM_OVERHEAD_def GCM_EXPLICIT_NONCE_LEN_def)
qed

lemma chacha_decrypt_encrypt:
  assumes "Ring_ok R" "length (pm_payload m) \<le> MAX_FRAGMENT_LEN"
    and enc: "ChaCha20Poly1305MessageEncrypter_encrypt R alg key iv m seq = Inr c"
  shows "ChaCha20Poly1305MessageDecrypter_decrypt R alg key iv c seq = Inr m"
proof -
  obtain p where seal: "ring_seal R alg key (make_nonce iv seq)
      (make_tls12_aad seq (pm_typ m) (pm_version m) (length (pm_payload m))) (pm_payload m) = Some p"
    and c: "c = \<lparr>om_typ = pm_typ m, om_version = pm_version m, om_payload = p\<rparr>"
    using enc by (auto simp: ChaCha20Poly1305MessageEncrypter_encrypt_def Let_def split: option.splits)
  have "length p = length (pm_payload m) + 16" using Ring_okD(5) [OF assms(1) seal] by (simp add: tag_len_def)
  then show ?thesis
    using Ring_okD(6) [OF assms(1) seal] assms(2)
    by (simp add: ChaCha20Poly1305MessageDecrypter_decrypt_def c into_plain_message_def CHACHAPOLY1305_OVERHEAD_def)
qed

text \<open>The nonce sizes of a suite fit its cipher; all supported suites do.\<close>

definition suite12_ok :: "Tls12CipherSuite \<Rightarrow> bool" where
  "suite12_ok suite \<longleftrightarrow>
     (case cs12_aead_alg suite of
        AesGcm \<Rightarrow> cs12_fixed_iv_len suite = 4 \<and> cs12_explicit_nonce_len suite = 8
      | ChaCha20Poly1305 \<Rightarrow> cs12_fixed_iv_len suite = 12 \<and> cs12_explicit_nonce_len suite = 0)"

lemma supported_suites_ok: "Tls12 suite \<in> set ALL_CIPHER_SUITES \<Longrightarrow> suite12_ok suite"
  by (auto simp: ALL_CIPHER_SUITES_def suite12_ok_def TLS13_AES_256_GCM_SHA384_def TLS13_AES_128_GCM_SHA256_def
      TLS13_CHACHA20_POLY1305_SHA256_def TLS_ECDHE_ECDSA_WITH_AES_256_GCM_SHA384_def
      TLS_ECDHE_ECDSA_WITH_AES_128_GCM_SHA256_def TLS_ECDHE_ECDSA_WITH_CHACHA20_POLY1305_SHA256_def
      TLS_ECDHE_RSA_WITH_AES_256_GCM_SHA384_def TLS_ECDHE_RSA_WITH_AES_128_GCM_SHA256_def
      TLS_ECDHE_RSA_WITH_CHACHA20_POLY1305_SHA256_def)

text \<open>The parts of the key block.\<close>

definition kb_part :: "Ring \<Rightarrow> ConnectionSecrets \<Rightarrow> nat \<Rightarrow> nat \<Rightarrow> bytes" where
  "kb_part R s off n = take n (drop off (make_key_block R s))"

abbreviation "kb_key s \<equiv> key_len (csc_aead_algorithm (cs12_common (sec_suite s)))"
abbreviation "kb_iv s \<equiv> cs12_fixed_iv_len (sec_suite s)"

definition write_key :: "Ring \<Rightarrow> ConnectionSecrets \<Rightarrow> Side \<Rightarrow> bytes" where
  "write_key R s side = (case side of Side.Client \<Rightarrow> kb_part R s 0 (kb_key s) | Side.Server \<Rightarrow> kb_part R s (kb_key s) (kb_key s))"

definition write_iv :: "Ring \<Rightarrow> ConnectionSecrets \<Rightarrow> Side \<Rightarrow> bytes" where
  "write_iv R s side =
     (case side of
        Side.Client \<Rightarrow> kb_part R s (2 * kb_key s) (kb_iv s)
      | Side.Server \<Rightarrow> kb_part R s (2 * kb_key s + kb_iv s) (kb_iv s))"

definition explicit_iv :: "Ring \<Rightarrow> ConnectionSecrets \<Rightarrow> bytes" where
  "explicit_iv R s = drop (2 * kb_key s + 2 * kb_iv s) (make_key_block R s)"

fun peer :: "Side \<Rightarrow> Side" where
  "peer Side.Client = Side.Server"
| "peer Side.Server = Side.Client"

definition side_encrypter :: "Ring \<Rightarrow> ConnectionSecrets \<Rightarrow> Side \<Rightarrow> MessageEncrypter" where
  "side_encrypter R s side =
     (let alg = csc_aead_algorithm (cs12_common (sec_suite s))
      in case cs12_aead_alg (sec_suite s) of
           AesGcm \<Rightarrow> GcmMessageEncrypter_encrypt R alg (write_key R s side) (write_iv R s side @ explicit_iv R s)
         | ChaCha20Poly1305 \<Rightarrow> ChaCha20Poly1305MessageEncrypter_encrypt R alg (write_key R s side) (write_iv R s side))"

definition side_decrypter :: "Ring \<Rightarrow> ConnectionSecrets \<Rightarrow> Side \<Rightarrow> MessageDecrypter" where
  "side_decrypter R s side =
     (let alg = csc_aead_algorithm (cs12_common (sec_suite s))
      in case cs12_aead_alg (sec_suite s) of
           AesGcm \<Rightarrow> GcmMessageDecrypter_decrypt R alg (write_key R s (peer side)) (write_iv R s (peer side))
         | ChaCha20Poly1305 \<Rightarrow>
             ChaCha20Poly1305MessageDecrypter_decrypt R alg (write_key R s (peer side)) (write_iv R s (peer side)))"

lemma length_make_key_block:
  "Ring_ok R \<Longrightarrow> length (make_key_block R s) = 2 * kb_key s + 2 * kb_iv s + cs12_explicit_nonce_len (sec_suite s)"
  by (simp add: make_key_block_def Let_def)

lemma length_kb_parts [simp]:
  assumes "Ring_ok R"
  shows "length (write_iv R s side) = kb_iv s" "length (explicit_iv R s) = cs12_explicit_nonce_len (sec_suite s)"
  using assms by (auto simp: write_iv_def explicit_iv_def kb_part_def length_make_key_block split: Side.splits)

lemma split_key_block:
  assumes "length K = k + k + i + i + e"
  shows "split_at k K = Some (take k K, drop k K)" "split_at k (drop k K) = Some (take k (drop k K), drop (2 * k) K)"
    "split_at i (drop (2 * k) K) = Some (take i (drop (2 * k) K), drop (2 * k + i) K)"
    "split_at i (drop (2 * k + i) K) = Some (take i (drop (2 * k + i) K), drop (2 * k + 2 * i) K)"
  using assms by (simp_all add: split_at_def drop_drop add_ac mult_2)

lemma make_cipher_pair_total:
  assumes "Ring_ok R" "suite12_ok (sec_suite s)"
  shows "make_cipher_pair R s side = Some (side_decrypter R s side, side_encrypter R s side)"
proof -
  let ?suite = "sec_suite s"
  have K: "length (make_key_block R s) = kb_key s + kb_key s + kb_iv s + kb_iv s + cs12_explicit_nonce_len ?suite"
    using length_make_key_block [OF assms(1), of s] by simp
  have "make_cipher_pair R s side =
    (let alg = csc_aead_algorithm (cs12_common ?suite) in do {
       decrypter \<leftarrow> Tls12AeadAlgorithm_decrypter R (cs12_aead_alg ?suite) alg (write_key R s (peer side)) (write_iv R s (peer side));
       encrypter \<leftarrow> Tls12AeadAlgorithm_encrypter R (cs12_aead_alg ?suite) alg (write_key R s side) (write_iv R s side) (explicit_iv R s);
       Some (decrypter, encrypter) })"
    by (cases side) (simp_all add: make_cipher_pair_def split_key_block [OF K] write_key_def write_iv_def explicit_iv_def
        kb_part_def Let_def)
  then show ?thesis
    using assms(2) length_kb_parts [OF assms(1), of s]
    by (cases "cs12_aead_alg ?suite")
      (simp_all add: side_encrypter_def side_decrypter_def suite12_ok_def Iv_copy_def NONCE_LEN_def tls12_aead_defs Let_def)
qed

definition tls12_sendable :: "Ring \<Rightarrow> ConnectionSecrets \<Rightarrow> PlainMessage \<Rightarrow> bool" where
  "tls12_sendable R s m \<longleftrightarrow> Ring_ok R \<and> suite12_ok (sec_suite s) \<and> length (pm_payload m) \<le> MAX_FRAGMENT_LEN"

interpretation tls12_cipher: record_cipher "side_encrypter R s side" "side_decrypter R s (peer side)"
  "tls12_sendable R s" "\<lambda>m. m" for R s side
proof (unfold_locales, goal_cases)
  case (1 m seq c)
  have "peer (peer side) = side" by (cases side) simp_all
  with 1 show ?case
    by (auto simp: side_encrypter_def side_decrypter_def tls12_sendable_def suite12_ok_def Let_def
        split: Tls12AeadAlgorithm.splits intro: gcm_decrypt_encrypt [of _ _ "explicit_iv R s"] chacha_decrypt_encrypt)
qed

end
