(* ===== verification/Puffin_Trace.thy ===== *)
theory Puffin_Trace
  imports Puffin_Term "HOL-Library.Sublist"
begin

text \<open>
  Traces and their execution: \<open>puffin/src/trace.rs\<close>, with \<open>agent.rs\<close>, \<open>claims.rs\<close>, \<open>put.rs\<close>, \<open>put_registry.rs\<close>,
  \<open>protocol.rs\<close>, \<open>error.rs\<close> and the evaluation of terms of \<open>algebra/term.rs\<close>.

  The programs under test and the protocol's message types are the record \<open>Protocol\<close> of functions on a PUT
  state \<open>'p\<close>; a PUT may also append to the global claim list, so these functions pass it along. An operation that
  can fail returns \<open>Inl\<close> the error with the context it left behind. The loop of an output action asks the PUT for
  messages until there are none: it is a partial function, \<open>None\<close> when it does not end.

  The lemmas: lookups of variables and claims, knowledge only grows, evaluation of a well-typed term never fails
  because of an argument's type, a successful execution passed the security policy.
\<close>

subsection \<open>Errors, descriptors and claims\<close>

datatype puffin_Error =
    Fn FnError
  | Term string
  | Put string
  | IO string
  | Agent string
  | Stream string
  | Extraction
  | SecurityClaim string

datatype AgentType = Server | Client

datatype TLSVersion = V1_3 | V1_2

record AgentDescriptor =
  ad_name :: AgentName
  ad_tls_version :: TLSVersion
  ad_typ :: AgentType
  ad_try_reuse :: bool
  ad_client_authentication :: bool
  ad_server_authentication :: bool

definition AgentDescriptor_default :: AgentDescriptor where
  "AgentDescriptor_default =
     \<lparr>ad_name = AgentName_first, ad_tls_version = V1_3, ad_typ = Server, ad_try_reuse = False,
      ad_client_authentication = False, ad_server_authentication = True\<rparr>"

definition new_reusable_server :: "AgentName \<Rightarrow> TLSVersion \<Rightarrow> AgentDescriptor" where
  "new_reusable_server name tls_version =
     AgentDescriptor_default\<lparr>ad_name := name, ad_tls_version := tls_version, ad_typ := Server, ad_try_reuse := True\<rparr>"

definition new_reusable_client :: "AgentName \<Rightarrow> TLSVersion \<Rightarrow> AgentDescriptor" where
  "new_reusable_client name tls_version =
     AgentDescriptor_default\<lparr>ad_name := name, ad_tls_version := tls_version, ad_typ := Client, ad_try_reuse := True\<rparr>"

definition new_server :: "AgentName \<Rightarrow> TLSVersion \<Rightarrow> AgentDescriptor" where
  "new_server name tls_version =
     AgentDescriptor_default\<lparr>ad_name := name, ad_tls_version := tls_version, ad_typ := Server\<rparr>"

definition new_client :: "AgentName \<Rightarrow> TLSVersion \<Rightarrow> AgentDescriptor" where
  "new_client name tls_version =
     AgentDescriptor_default\<lparr>ad_name := name, ad_tls_version := tls_version, ad_typ := Client\<rparr>"

type_synonym PutName = string

type_synonym PutOptions = "(string \<times> string) list"

definition get_option :: "PutOptions \<Rightarrow> string \<Rightarrow> string option" where
  "get_option options key = map_option snd (find (\<lambda>(found_key, _). found_key = key) options)"

record PutDescriptor =
  pd_name :: PutName
  pd_options :: PutOptions

text \<open>What the trait \<open>Claim\<close> shows of a claim.\<close>

record 'v Claim =
  claim_agent_name :: AgentName
  claim_id :: TypeShape
  claim_inner :: "'v Any"

definition find_last_claim :: "'v Claim list \<Rightarrow> AgentName \<Rightarrow> TypeShape \<Rightarrow> 'v Claim option" where
  "find_last_claim claims agent_name shape =
     find (\<lambda>claim. TypeShape_eq (claim_id claim) shape \<and> claim_agent_name claim = agent_name) (rev claims)"

definition claim_sized :: "'v Claim list \<Rightarrow> 'v Claim \<Rightarrow> 'v Claim list" where
  "claim_sized claims claim = claims @ [claim]"

subsection \<open>The context\<close>

record ('m, 'v) Knowledge =
  k_agent_name :: AgentName
  k_matcher :: "'m option"
  k_data :: "'v Any"

record 'p Agent =
  ag_name :: AgentName
  ag_put :: 'p
  ag_put_descriptor :: PutDescriptor

record ('m, 'v, 'p) TraceContext =
  tc_knowledge :: "('m, 'v) Knowledge list"
  tc_agents :: "'p Agent list"
  tc_claims :: "'v Claim list"
  tc_put_descriptors :: "AgentName \<Rightarrow> PutDescriptor option"
  tc_deterministic :: bool

record ('m, 'v, 'p) Factory =
  factory_name :: PutName
  factory_create :: "('m, 'v, 'p) TraceContext \<Rightarrow> AgentDescriptor \<Rightarrow> puffin_Error + 'p"

type_synonym ('v, 'p, 'a) put_result = "(puffin_Error + 'a) \<times> 'p \<times> 'v Claim list"

record ('m, 'v, 'p, 'msg, 'o) Protocol =
  pb_matcher :: "'m Matcher"
  pb_dbg :: "'m option \<Rightarrow> string"
  put_add_to_inbound :: "'o \<Rightarrow> 'p \<Rightarrow> 'p"
  put_take_message :: "'p \<Rightarrow> (puffin_Error + ('msg option \<times> 'o) option) \<times> 'p"
  put_progress :: "AgentName \<Rightarrow> 'p \<Rightarrow> 'v Claim list \<Rightarrow> ('v, 'p, unit) put_result"
  put_reset :: "AgentName \<Rightarrow> 'p \<Rightarrow> 'v Claim list \<Rightarrow> ('v, 'p, unit) put_result"
  put_rename_agent :: "AgentName \<Rightarrow> 'p \<Rightarrow> 'v Claim list \<Rightarrow> ('v, 'p, unit) put_result"
  put_set_deterministic :: "'p \<Rightarrow> (puffin_Error + unit) \<times> 'p"
  put_is_state_successful :: "'p \<Rightarrow> bool"
  put_agent_descriptor :: "'p \<Rightarrow> AgentDescriptor"
  pb_factories :: "('m, 'v, 'p) Factory list"
  pb_default_factory :: "('m, 'v, 'p) Factory"
  downcast_message :: "'v Any \<Rightarrow> 'msg option"
  downcast_opaque :: "'v Any \<Rightarrow> 'o option"
  create_opaque :: "'msg \<Rightarrow> 'o"
  message_knowledge :: "'msg \<Rightarrow> puffin_Error + 'v Any list"
  opaque_knowledge :: "'o \<Rightarrow> puffin_Error + 'v Any list"
  matcher_try_from :: "'msg option \<times> 'o \<Rightarrow> puffin_Error + 'm"
  check_violation :: "'v Claim list \<Rightarrow> string option"

definition TraceContext_new :: "('m, 'v, 'p) TraceContext" where
  "TraceContext_new =
     \<lparr>tc_knowledge = [], tc_agents = [], tc_claims = [], tc_put_descriptors = Map.empty, tc_deterministic = False\<rparr>"

definition find_factory :: "('m, 'v, 'p, 'msg, 'o) Protocol \<Rightarrow> PutName \<Rightarrow> ('m, 'v, 'p) Factory option" where
  "find_factory PB put_name = find (\<lambda>f. factory_name f = put_name) (pb_factories PB)"

definition is_reusable_with :: "('m, 'v, 'p, 'msg, 'o) Protocol \<Rightarrow> 'p \<Rightarrow> AgentDescriptor \<Rightarrow> bool" where
  "is_reusable_with PB put other \<longleftrightarrow>
     ad_typ (put_agent_descriptor PB put) = ad_typ other
   \<and> ad_tls_version (put_agent_descriptor PB put) = ad_tls_version other"

definition create_matcher :: "('m, 'v, 'p, 'msg, 'o) Protocol \<Rightarrow> 'msg option \<times> 'o \<Rightarrow> 'm option" where
  "create_matcher PB res = (case matcher_try_from PB res of Inl _ \<Rightarrow> None | Inr m \<Rightarrow> Some m)"

definition MessageResult_extract_knowledge ::
  "('m, 'v, 'p, 'msg, 'o) Protocol \<Rightarrow> 'msg option \<times> 'o \<Rightarrow> puffin_Error + 'v Any list" where
  "MessageResult_extract_knowledge PB res =
     (let opaque = opaque_knowledge PB (snd res) in
      case fst res of
        Some message \<Rightarrow>
          (case opaque of
             Inr ok \<Rightarrow> (case message_knowledge PB message of Inl e \<Rightarrow> Inl e | Inr k \<Rightarrow> Inr (k @ ok))
           | Inl _ \<Rightarrow> message_knowledge PB message)
      | None \<Rightarrow> opaque)"

definition verify_security_violations ::
  "('m, 'v, 'p, 'msg, 'o) Protocol \<Rightarrow> ('m, 'v, 'p) TraceContext \<Rightarrow> puffin_Error + unit" where
  "verify_security_violations PB ctx =
     (case check_violation PB (tc_claims ctx) of Some msg \<Rightarrow> Inl (SecurityClaim msg) | None \<Rightarrow> Inr ())"

definition add_knowledge ::
  "('m, 'v, 'p) TraceContext \<Rightarrow> ('m, 'v) Knowledge \<Rightarrow> ('m, 'v, 'p) TraceContext" where
  "add_knowledge ctx knowledge = ctx\<lparr>tc_knowledge := tc_knowledge ctx @ [knowledge]\<rparr>"

definition number_matching_message ::
  "('m, 'v, 'p) TraceContext \<Rightarrow> AgentName \<Rightarrow> TypeId \<Rightarrow> 'm option \<Rightarrow> nat" where
  "number_matching_message ctx agent type_id tls_message_type =
     length (filter (\<lambda>k. k_agent_name k = agent \<and> k_matcher k = tls_message_type \<and> any_type (k_data k) = type_id)
       (tc_knowledge ctx))"

definition find_claim :: "('m, 'v, 'p) TraceContext \<Rightarrow> AgentName \<Rightarrow> TypeShape \<Rightarrow> 'v Any option" where
  "find_claim ctx agent_name shape = map_option claim_inner (find_last_claim (tc_claims ctx) agent_name shape)"

definition possibilities ::
  "'m Matcher \<Rightarrow> ('m, 'v) Knowledge list \<Rightarrow> TypeShape \<Rightarrow> 'm Query \<Rightarrow> ('m, 'v) Knowledge list" where
  "possibilities M ks shape query =
     filter (\<lambda>k. inner_type_id shape = any_type (k_data k) \<and> q_agent_name query = k_agent_name k
       \<and> Option_matches M (k_matcher k) (q_matcher query)) ks"

definition Knowledge_specificity :: "'m Matcher \<Rightarrow> ('m, 'v) Knowledge \<Rightarrow> u32" where
  "Knowledge_specificity M k = Option_specificity M (k_matcher k)"

definition find_variable ::
  "'m Matcher \<Rightarrow> ('m, 'v, 'p) TraceContext \<Rightarrow> TypeShape \<Rightarrow> 'm Query \<Rightarrow> 'v Any option" where
  "find_variable M ctx shape query =
     (let sorted = sort_key (Knowledge_specificity M) (possibilities M (tc_knowledge ctx) shape query);
          i = unat (q_counter query)
      in if i < length sorted then Some (k_data (sorted ! i)) else None)"

text \<open>\<open>find_agent_mut\<close>: the first agent with the name, to read and to update.\<close>

fun update_first :: "('a \<Rightarrow> bool) \<Rightarrow> ('a \<Rightarrow> 'a) \<Rightarrow> 'a list \<Rightarrow> 'a list" where
  "update_first P f [] = []"
| "update_first P f (x # xs) = (if P x then f x # xs else x # update_first P f xs)"

definition find_agent :: "('m, 'v, 'p) TraceContext \<Rightarrow> AgentName \<Rightarrow> puffin_Error + 'p Agent" where
  "find_agent ctx name =
     (case find (\<lambda>agent. ag_name agent = name) (tc_agents ctx) of
        Some agent \<Rightarrow> Inr agent
      | None \<Rightarrow> Inl (Agent (''Could not find agent '' @ AgentName_fmt name @ ''. Did you forget to call spawn_agents?'')))"

definition set_put :: "('m, 'v, 'p) TraceContext \<Rightarrow> AgentName \<Rightarrow> 'p \<Rightarrow> ('m, 'v, 'p) TraceContext" where
  "set_put ctx name put =
     ctx\<lparr>tc_agents := update_first (\<lambda>agent. ag_name agent = name) (\<lambda>agent. agent\<lparr>ag_put := put\<rparr>) (tc_agents ctx)\<rparr>"

definition add_to_inbound ::
  "('m, 'v, 'p, 'msg, 'o) Protocol \<Rightarrow> AgentName \<Rightarrow> 'o \<Rightarrow> ('m, 'v, 'p) TraceContext
     \<Rightarrow> (puffin_Error + unit) \<times> ('m, 'v, 'p) TraceContext" where
  "add_to_inbound PB name message ctx =
     (case find_agent ctx name of
        Inl e \<Rightarrow> (Inl e, ctx)
      | Inr agent \<Rightarrow> (Inr (), set_put ctx name (put_add_to_inbound PB message (ag_put agent))))"

definition next_state ::
  "('m, 'v, 'p, 'msg, 'o) Protocol \<Rightarrow> AgentName \<Rightarrow> ('m, 'v, 'p) TraceContext
     \<Rightarrow> (puffin_Error + unit) \<times> ('m, 'v, 'p) TraceContext" where
  "next_state PB name ctx =
     (case find_agent ctx name of
        Inl e \<Rightarrow> (Inl e, ctx)
      | Inr agent \<Rightarrow>
          (case put_progress PB name (ag_put agent) (tc_claims ctx) of (res, put, claims) \<Rightarrow>
             (res, (set_put ctx name put)\<lparr>tc_claims := claims\<rparr>)))"

definition take_message_from_outbound ::
  "('m, 'v, 'p, 'msg, 'o) Protocol \<Rightarrow> AgentName \<Rightarrow> ('m, 'v, 'p) TraceContext
     \<Rightarrow> (puffin_Error + ('msg option \<times> 'o) option) \<times> ('m, 'v, 'p) TraceContext" where
  "take_message_from_outbound PB name ctx =
     (case find_agent ctx name of
        Inl e \<Rightarrow> (Inl e, ctx)
      | Inr agent \<Rightarrow>
          (case put_take_message PB (ag_put agent) of (res, put) \<Rightarrow> (res, set_put ctx name put)))"

definition put_descriptor ::
  "('m, 'v, 'p, 'msg, 'o) Protocol \<Rightarrow> ('m, 'v, 'p) TraceContext \<Rightarrow> AgentDescriptor \<Rightarrow> PutDescriptor" where
  "put_descriptor PB ctx descriptor =
     (case tc_put_descriptors ctx (ad_name descriptor) of
        Some d \<Rightarrow> d
      | None \<Rightarrow> \<lparr>pd_name = factory_name (pb_default_factory PB), pd_options = []\<rparr>)"

definition Agent_new ::
  "('m, 'v, 'p, 'msg, 'o) Protocol \<Rightarrow> ('m, 'v, 'p) TraceContext \<Rightarrow> AgentDescriptor \<Rightarrow> puffin_Error + 'p Agent" where
  "Agent_new PB ctx descriptor =
     (let d = put_descriptor PB ctx descriptor in
      case find_factory PB (pd_name d) of
        None \<Rightarrow> Inl (Agent (''unable to find PUT '' @ pd_name d @ '' factory in binary''))
      | Some factory \<Rightarrow>
          (case factory_create factory ctx descriptor of
             Inl e \<Rightarrow> Inl e
           | Inr put \<Rightarrow> Inr \<lparr>ag_name = ad_name descriptor, ag_put = put, ag_put_descriptor = d\<rparr>))"

definition new_agent ::
  "('m, 'v, 'p, 'msg, 'o) Protocol \<Rightarrow> AgentDescriptor \<Rightarrow> ('m, 'v, 'p) TraceContext
     \<Rightarrow> (puffin_Error + AgentName) \<times> ('m, 'v, 'p) TraceContext" where
  "new_agent PB descriptor ctx =
     (case Agent_new PB ctx descriptor of
        Inl e \<Rightarrow> (Inl e, ctx)
      | Inr agent \<Rightarrow> (Inr (ag_name agent), ctx\<lparr>tc_agents := tc_agents ctx @ [agent]\<rparr>))"

definition set_non_default_put ::
  "AgentName \<Rightarrow> PutDescriptor \<Rightarrow> ('m, 'v, 'p) TraceContext \<Rightarrow> ('m, 'v, 'p) TraceContext" where
  "set_non_default_put name d ctx = ctx\<lparr>tc_put_descriptors := (tc_put_descriptors ctx)(name \<mapsto> d)\<rparr>"

definition set_non_default_puts ::
  "(AgentName \<times> PutDescriptor) list \<Rightarrow> ('m, 'v, 'p) TraceContext \<Rightarrow> ('m, 'v, 'p) TraceContext" where
  "set_non_default_puts ds ctx = fold (\<lambda>(name, d). set_non_default_put name d) ds ctx"

fun reset_puts ::
  "('m, 'v, 'p, 'msg, 'o) Protocol \<Rightarrow> 'p Agent list \<Rightarrow> 'v Claim list \<Rightarrow> (puffin_Error + unit) \<times> 'p Agent list \<times> 'v Claim list" where
  "reset_puts PB [] claims = (Inr (), [], claims)"
| "reset_puts PB (agent # agents) claims =
     (case put_reset PB (ag_name agent) (ag_put agent) claims of (res, put, claims) \<Rightarrow>
        let agent = agent\<lparr>ag_put := put\<rparr> in
        case res of
          Inl e \<Rightarrow> (Inl e, agent # agents, claims)
        | Inr _ \<Rightarrow> (case reset_puts PB agents claims of (res, agents, claims) \<Rightarrow> (res, agent # agents, claims)))"

definition reset_agents ::
  "('m, 'v, 'p, 'msg, 'o) Protocol \<Rightarrow> ('m, 'v, 'p) TraceContext \<Rightarrow> (puffin_Error + unit) \<times> ('m, 'v, 'p) TraceContext" where
  "reset_agents PB ctx =
     (case reset_puts PB (tc_agents ctx) (tc_claims ctx) of (res, agents, claims) \<Rightarrow>
        (res, ctx\<lparr>tc_agents := agents, tc_claims := claims\<rparr>))"

definition agents_successful :: "('m, 'v, 'p, 'msg, 'o) Protocol \<Rightarrow> ('m, 'v, 'p) TraceContext \<Rightarrow> bool" where
  "agents_successful PB ctx \<longleftrightarrow> list_all (\<lambda>agent. put_is_state_successful PB (ag_put agent)) (tc_agents ctx)"

definition set_deterministic :: "bool \<Rightarrow> ('m, 'v, 'p) TraceContext \<Rightarrow> ('m, 'v, 'p) TraceContext" where
  "set_deterministic deterministic ctx = ctx\<lparr>tc_deterministic := deterministic\<rparr>"

subsection \<open>Evaluation of terms\<close>

fun evaluate ::
  "('m, 'v, 'p, 'msg, 'o) Protocol \<Rightarrow> ('m, 'v, 'p) TraceContext \<Rightarrow> ('m, 'v) Term \<Rightarrow> puffin_Error + 'v Any"
  and evaluate_args ::
  "('m, 'v, 'p, 'msg, 'o) Protocol \<Rightarrow> ('m, 'v, 'p) TraceContext \<Rightarrow> ('m, 'v) Term list \<Rightarrow> puffin_Error + 'v Any list" where
  "evaluate PB ctx (Term.Variable v) =
     (case find_variable (pb_matcher PB) ctx (var_typ v) (var_query v) of
        Some data \<Rightarrow> Inr data
      | None \<Rightarrow>
          (case find_claim ctx (q_agent_name (var_query v)) (var_typ v) of
             Some data \<Rightarrow> Inr data
           | None \<Rightarrow> Inl (puffin_Error.Term (''Unable to find variable '' @ Variable_fmt (pb_dbg PB) v @ ''!''))))"
| "evaluate PB ctx (Term.Application func args) =
     (case evaluate_args PB ctx args of
        Inl e \<Rightarrow> Inl e
      | Inr dynamic_args \<Rightarrow>
          (case Function_dynamic_fn func dynamic_args of
             Inl e \<Rightarrow> Inl (puffin_Error.Fn e)
           | Inr data \<Rightarrow> Inr data))"
| "evaluate_args PB ctx [] = Inr []"
| "evaluate_args PB ctx (t # ts) =
     (case evaluate PB ctx t of
        Inl e \<Rightarrow> Inl e
      | Inr data \<Rightarrow> (case evaluate_args PB ctx ts of Inl e \<Rightarrow> Inl e | Inr datas \<Rightarrow> Inr (data # datas)))"

subsection \<open>Actions and traces\<close>

datatype ('m, 'v) Action = Input (recipe: "('m, 'v) Term") | Output

record ('m, 'v) Step =
  step_agent :: AgentName
  step_action :: "('m, 'v) Action"

datatype ('m, 'v) Trace =
  Trace (descriptors: "AgentDescriptor list") (steps: "('m, 'v) Step list") (prior_traces: "('m, 'v) Trace list")

definition OutputAction_new_step :: "AgentName \<Rightarrow> ('m, 'v) Step" where
  "OutputAction_new_step agent = \<lparr>step_agent = agent, step_action = Action.Output\<rparr>"

definition InputAction_new_step :: "AgentName \<Rightarrow> ('m, 'v) Term \<Rightarrow> ('m, 'v) Step" where
  "InputAction_new_step agent r = \<lparr>step_agent = agent, step_action = Action.Input r\<rparr>"

type_synonym ('m, 'v, 'p) exec_result = "((puffin_Error + unit) \<times> ('m, 'v, 'p) TraceContext) option"

text \<open>The operator \<open>?\<close> between two operations that may fail, or not end.\<close>

definition and_then ::
  "('m, 'v, 'p) exec_result \<Rightarrow> (('m, 'v, 'p) TraceContext \<Rightarrow> ('m, 'v, 'p) exec_result) \<Rightarrow> ('m, 'v, 'p) exec_result" where
  "and_then x f =
     (case x of
        None \<Rightarrow> None
      | Some (Inl e, ctx) \<Rightarrow> Some (Inl e, ctx)
      | Some (Inr _, ctx) \<Rightarrow> f ctx)"

text \<open>The body of the output loop: what one message adds to the knowledge.\<close>

definition learn ::
  "('m, 'v, 'p, 'msg, 'o) Protocol \<Rightarrow> AgentName \<Rightarrow> 'msg option \<times> 'o \<Rightarrow> ('m, 'v, 'p) TraceContext
     \<Rightarrow> (puffin_Error + unit) \<times> ('m, 'v, 'p) TraceContext" where
  "learn PB agent res ctx =
     (let matcher = create_matcher PB res;
          knowledge =
            (case fst res of
               None \<Rightarrow> []
             | Some message \<Rightarrow> (case message_knowledge PB message of Inl _ \<Rightarrow> [] | Inr ks \<Rightarrow> ks))
      in case opaque_knowledge PB (snd res) of
           Inl e \<Rightarrow> (Inl e, ctx)
         | Inr opaque \<Rightarrow>
             let ctx = fold (\<lambda>x ctx. add_knowledge ctx \<lparr>k_agent_name = agent, k_matcher = matcher, k_data = x\<rparr>) knowledge ctx;
                 ctx = fold (\<lambda>x ctx. add_knowledge ctx \<lparr>k_agent_name = agent, k_matcher = None, k_data = x\<rparr>) opaque ctx
             in (Inr (), ctx))"

partial_function (option) output_loop ::
  "('m, 'v, 'p, 'msg, 'o) Protocol \<Rightarrow> AgentName \<Rightarrow> ('m, 'v, 'p) TraceContext \<Rightarrow> ('m, 'v, 'p) exec_result" where
  "output_loop PB agent ctx =
     (case take_message_from_outbound PB agent ctx of (res, ctx) \<Rightarrow>
        case res of
          Inl e \<Rightarrow> Some (Inl e, ctx)
        | Inr None \<Rightarrow> Some (Inr (), ctx)
        | Inr (Some message_result) \<Rightarrow>
            (case learn PB agent message_result ctx of (res, ctx) \<Rightarrow>
               case res of
                 Inl e \<Rightarrow> Some (Inl e, ctx)
               | Inr _ \<Rightarrow> output_loop PB agent ctx))"

definition output_action ::
  "('m, 'v, 'p, 'msg, 'o) Protocol \<Rightarrow> AgentName \<Rightarrow> ('m, 'v, 'p) TraceContext \<Rightarrow> ('m, 'v, 'p) exec_result" where
  "output_action PB agent ctx = and_then (Some (next_state PB agent ctx)) (output_loop PB agent)"

definition input_action ::
  "('m, 'v, 'p, 'msg, 'o) Protocol \<Rightarrow> ('m, 'v) Term \<Rightarrow> AgentName \<Rightarrow> ('m, 'v, 'p) TraceContext \<Rightarrow> ('m, 'v, 'p) exec_result" where
  "input_action PB r agent ctx =
     (case evaluate PB ctx r of
        Inl e \<Rightarrow> Some (Inl e, ctx)
      | Inr evaluated \<Rightarrow>
          and_then
            (case downcast_message PB evaluated of
               Some msg \<Rightarrow> Some (add_to_inbound PB agent (create_opaque PB msg) ctx)
             | None \<Rightarrow>
                 (case downcast_opaque PB evaluated of
                    Some opaque_message \<Rightarrow> Some (add_to_inbound PB agent opaque_message ctx)
                  | None \<Rightarrow> Some (Inl (puffin_Error.Fn (FnError.Unknown
                      ''Recipe is not a `Message`, `OpaqueMessage` or `MultiMessage`!'')), ctx)))
            (\<lambda>ctx. Some (next_state PB agent ctx)))"

fun execute_action ::
  "('m, 'v, 'p, 'msg, 'o) Protocol \<Rightarrow> ('m, 'v) Action \<Rightarrow> AgentName \<Rightarrow> ('m, 'v, 'p) TraceContext \<Rightarrow> ('m, 'v, 'p) exec_result" where
  "execute_action PB (Action.Input r) agent ctx = input_action PB r agent ctx"
| "execute_action PB Action.Output agent ctx = output_action PB agent ctx"

text \<open>A failure to make an agent deterministic is logged only.\<close>

definition make_deterministic ::
  "('m, 'v, 'p, 'msg, 'o) Protocol \<Rightarrow> AgentName \<Rightarrow> ('m, 'v, 'p) TraceContext \<Rightarrow> ('m, 'v, 'p) TraceContext" where
  "make_deterministic PB name ctx =
     (if tc_deterministic ctx then
        case find_agent ctx name of
          Inl _ \<Rightarrow> ctx
        | Inr agent \<Rightarrow> set_put ctx name (snd (put_set_deterministic PB (ag_put agent)))
      else ctx)"

definition rename_reusable ::
  "('m, 'v, 'p, 'msg, 'o) Protocol \<Rightarrow> AgentDescriptor \<Rightarrow> 'p Agent \<Rightarrow> ('m, 'v, 'p) TraceContext
     \<Rightarrow> (puffin_Error + AgentName) \<times> ('m, 'v, 'p) TraceContext" where
  "rename_reusable PB descriptor reusable ctx =
     (case put_rename_agent PB (ad_name descriptor) (ag_put reusable) (tc_claims ctx) of (res, put, claims) \<Rightarrow>
        ((case res of Inl e \<Rightarrow> Inl e | Inr _ \<Rightarrow> Inr (ad_name descriptor)),
         ctx\<lparr>tc_agents := update_first (\<lambda>a. is_reusable_with PB (ag_put a) descriptor)
               (\<lambda>a. a\<lparr>ag_name := ad_name descriptor, ag_put := put\<rparr>) (tc_agents ctx),
             tc_claims := claims\<rparr>))"

fun spawn_agents ::
  "('m, 'v, 'p, 'msg, 'o) Protocol \<Rightarrow> AgentDescriptor list \<Rightarrow> ('m, 'v, 'p) TraceContext
     \<Rightarrow> (puffin_Error + unit) \<times> ('m, 'v, 'p) TraceContext" where
  "spawn_agents PB [] ctx = (Inr (), ctx)"
| "spawn_agents PB (descriptor # ds) ctx =
     (case (case find (\<lambda>existing. is_reusable_with PB (ag_put existing) descriptor) (tc_agents ctx) of
              Some reusable \<Rightarrow> rename_reusable PB descriptor reusable ctx
            | None \<Rightarrow> new_agent PB descriptor ctx) of (res, ctx) \<Rightarrow>
        case res of
          Inl e \<Rightarrow> (Inl e, ctx)
        | Inr name \<Rightarrow> spawn_agents PB ds (make_deterministic PB name ctx))"

fun execute_steps ::
  "('m, 'v, 'p, 'msg, 'o) Protocol \<Rightarrow> ('m, 'v) Step list \<Rightarrow> ('m, 'v, 'p) TraceContext \<Rightarrow> ('m, 'v, 'p) exec_result" where
  "execute_steps PB [] ctx = Some (Inr (), ctx)"
| "execute_steps PB (step # ss) ctx =
     and_then (execute_action PB (step_action step) (step_agent step) ctx) (\<lambda>ctx.
     and_then
       (case step_action step of
          Action.Input _ \<Rightarrow>
            (let output_step = OutputAction_new_step (step_agent step) :: ('m, 'v) Step
             in execute_action PB (step_action output_step) (step_agent output_step) ctx)
        | Action.Output \<Rightarrow> Some (Inr (), ctx))
       (execute_steps PB ss))"

fun execute ::
  "('m, 'v, 'p, 'msg, 'o) Protocol \<Rightarrow> ('m, 'v) Trace \<Rightarrow> ('m, 'v, 'p) TraceContext \<Rightarrow> ('m, 'v, 'p) exec_result"
  and execute_priors ::
  "('m, 'v, 'p, 'msg, 'o) Protocol \<Rightarrow> ('m, 'v) Trace list \<Rightarrow> ('m, 'v, 'p) TraceContext \<Rightarrow> ('m, 'v, 'p) exec_result" where
  "execute PB (Trace ds ss ps) ctx =
     and_then (execute_priors PB ps ctx) (\<lambda>ctx.
     and_then (Some (spawn_agents PB ds ctx)) (\<lambda>ctx.
     and_then (execute_steps PB ss ctx) (\<lambda>ctx.
       Some (verify_security_violations PB ctx, ctx))))"
| "execute_priors PB [] ctx = Some (Inr (), ctx)"
| "execute_priors PB (t # ts) ctx =
     and_then (Some (spawn_agents PB (descriptors t) ctx)) (\<lambda>ctx.
     and_then (execute PB t ctx) (\<lambda>ctx.
     and_then (Some (reset_agents PB ctx)) (\<lambda>ctx.
       execute_priors PB ts ctx)))"

text \<open>The \<open>unwrap\<close> panics on an error: \<open>Some None\<close>.\<close>

definition execute_unwrap ::
  "('m, 'v, 'p, 'msg, 'o) Protocol \<Rightarrow> ('m, 'v) Trace \<Rightarrow> ('m, 'v, 'p) TraceContext \<Rightarrow> ('m, 'v, 'p) TraceContext option option" where
  "execute_unwrap PB t ctx =
     map_option (\<lambda>(res, ctx). case res of Inl _ \<Rightarrow> None | Inr _ \<Rightarrow> Some ctx) (execute PB t ctx)"

definition execute_deterministic ::
  "('m, 'v, 'p, 'msg, 'o) Protocol \<Rightarrow> ('m, 'v) Trace \<Rightarrow> ('m, 'v, 'p) TraceContext option option" where
  "execute_deterministic PB t = execute_unwrap PB t (set_deterministic True TraceContext_new)"

definition execute_with_puts ::
  "('m, 'v, 'p, 'msg, 'o) Protocol \<Rightarrow> ('m, 'v) Trace \<Rightarrow> (AgentName \<times> PutDescriptor) list
     \<Rightarrow> ('m, 'v, 'p) TraceContext option option" where
  "execute_with_puts PB t ds = execute_unwrap PB t (set_non_default_puts ds TraceContext_new)"

subsection \<open>Lookups\<close>

lemma find_variable_Some:
  assumes "find_variable M ctx shape query = Some data"
  obtains k where "k \<in> set (tc_knowledge ctx)" "data = k_data k" "any_type data = inner_type_id shape"
    "k_agent_name k = q_agent_name query" "Option_matches M (k_matcher k) (q_matcher query)"
proof -
  let ?S = "sort_key (Knowledge_specificity M) (possibilities M (tc_knowledge ctx) shape query)"
  from assms have "unat (q_counter query) < length ?S" "data = k_data (?S ! unat (q_counter query))"
    by (auto simp: find_variable_def Let_def split: if_splits)
  moreover from this have "?S ! unat (q_counter query) \<in> set (possibilities M (tc_knowledge ctx) shape query)"
    using nth_mem [of "unat (q_counter query)" ?S] by simp
  ultimately obtain k where "k \<in> set (possibilities M (tc_knowledge ctx) shape query)" "data = k_data k" by blast
  then show ?thesis using that [of k] by (simp add: possibilities_def)
qed

lemma find_variable_None_iff:
  "find_variable M ctx shape query = None \<longleftrightarrow>
     length (possibilities M (tc_knowledge ctx) shape query) \<le> unat (q_counter query)"
  by (auto simp: find_variable_def Let_def)

text \<open>The answer has the smallest specificity that leaves \<open>counter\<close> candidates before it.\<close>

lemma sort_key_const: "(\<And>x y. x \<in> set xs \<Longrightarrow> y \<in> set xs \<Longrightarrow> f x = f y) \<Longrightarrow> sort_key f xs = xs"
proof (induction xs)
  case (Cons x xs)
  then have "sort_key f xs = xs" by auto
  moreover have "insort_key f x xs = x # xs"
    using Cons.prems [of x "hd xs"] by (cases xs) auto
  ultimately show ?case by simp
qed simp

lemma insort_key_append: "\<forall>y \<in> set ys. f x \<le> f y \<Longrightarrow> insort_key f x (xs @ ys) = insort_key f x xs @ ys"
proof (induction xs)
  case Nil
  then show ?case by (cases ys) auto
qed auto

lemma sort_key_append_later:
  "\<forall>x \<in> set xs. \<forall>y \<in> set ys. f x \<le> f y \<Longrightarrow> sort_key f (xs @ ys) = sort_key f xs @ sort_key f ys"
  by (induction xs) (auto simp: insort_key_append)

text \<open>
  Candidates with one specificity are numbered in the order of their arrival, and later knowledge that is not less
  specific than the present candidates does not change an answer.
\<close>

lemma find_variable_in_order:
  assumes "\<And>a b. a \<in> set ps \<Longrightarrow> b \<in> set ps \<Longrightarrow> Knowledge_specificity M a = Knowledge_specificity M b"
    and "ps = possibilities M (tc_knowledge ctx) shape query" "unat (q_counter query) < length ps"
  shows "find_variable M ctx shape query = Some (k_data (ps ! unat (q_counter query)))"
proof -
  have "sort_key (Knowledge_specificity M) ps = ps" by (rule sort_key_const) (rule assms(1))
  with assms(3) show ?thesis unfolding find_variable_def assms(2) [symmetric] by simp
qed

lemma find_variable_stable:
  assumes "find_variable M ctx shape query = Some data"
    and "\<And>a b. a \<in> set (possibilities M (tc_knowledge ctx) shape query) \<Longrightarrow> b \<in> set ks \<Longrightarrow>
      Knowledge_specificity M a \<le> Knowledge_specificity M b"
  shows "find_variable M (ctx\<lparr>tc_knowledge := tc_knowledge ctx @ ks\<rparr>) shape query = Some data"
proof -
  let ?P = "\<lambda>ks. possibilities M ks shape query"
  have "\<forall>x \<in> set (?P (tc_knowledge ctx)). \<forall>y \<in> set (?P ks). Knowledge_specificity M x \<le> Knowledge_specificity M y"
    using assms(2) by (auto simp: possibilities_def)
  then have "sort_key (Knowledge_specificity M) (?P (tc_knowledge ctx @ ks)) =
      sort_key (Knowledge_specificity M) (?P (tc_knowledge ctx)) @ sort_key (Knowledge_specificity M) (?P ks)"
    by (simp add: sort_key_append_later possibilities_def)
  with assms(1) show ?thesis
    by (auto simp: find_variable_def Let_def nth_append split: if_splits)
qed

context matcher
begin

text \<open>A less specific query has all the candidates of a more specific one.\<close>

lemma possibilities_mono:
  assumes "Option_matches M (q_matcher query) (q_matcher query')" "q_agent_name query' = q_agent_name query"
  shows "set (possibilities M ks shape query) \<subseteq> set (possibilities M ks shape query')"
  using assms by (auto simp: possibilities_def intro: Option_matches_trans)

lemma possibilities_specific:
  "k \<in> set (possibilities M ks shape query) \<Longrightarrow> Option_specificity M (q_matcher query) \<le> Knowledge_specificity M k"
  by (auto simp: possibilities_def Knowledge_specificity_def intro: Option_matches_specificity)

end

lemma find_first: "find P xs = Some x \<longleftrightarrow> (\<exists>i < length xs. x = xs ! i \<and> P x \<and> (\<forall>j < i. \<not> P (xs ! j)))"
  by (auto simp: find_Some_iff)

lemma find_last_claim_Some:
  assumes "find_last_claim claims agent shape = Some c"
  shows "c \<in> set claims" "inner_type_id (claim_id c) = inner_type_id shape" "claim_agent_name c = agent"
proof -
  from assms obtain i where "i < length (rev claims)" "c = rev claims ! i"
    and c: "TypeShape_eq (claim_id c) shape \<and> claim_agent_name c = agent"
    by (auto simp: find_last_claim_def find_Some_iff)
  then show "c \<in> set claims" by (metis nth_mem set_rev)
  from c show "inner_type_id (claim_id c) = inner_type_id shape" "claim_agent_name c = agent"
    by (simp_all add: TypeShape_eq_def)
qed

lemma find_last_claim_push:
  "find_last_claim (claim_sized claims c) agent shape =
     (if TypeShape_eq (claim_id c) shape \<and> claim_agent_name c = agent then Some c
      else find_last_claim claims agent shape)"
  by (simp add: find_last_claim_def claim_sized_def)

subsection \<open>Evaluation is type sound\<close>

text \<open>
  The static functions of a signature, and the symbols made of them. The claims of a protocol box their content at
  the type they are found under.
\<close>

definition dynamic_defs ::
  "(TypeId \<Rightarrow> string) \<Rightarrow> (DynamicFunctionShape \<times> ('v list \<Rightarrow> FnError + 'v)) list \<Rightarrow> 'v FunctionDefinition list" where
  "dynamic_defs hex defs = map (\<lambda>(shape, f). (shape, make_dynamic hex shape f)) defs"

definition symbol_of :: "'v FunctionDefinition list \<Rightarrow> 'v Function \<Rightarrow> bool" where
  "symbol_of defs f \<longleftrightarrow> (Function_shape f, Function_dynamic_fn f) \<in> set defs"

definition claims_typed :: "'v Claim list \<Rightarrow> bool" where
  "claims_typed claims \<longleftrightarrow> list_all (\<lambda>c. any_type (claim_inner c) = inner_type_id (claim_id c)) claims"

text \<open>What evaluation may return for a term of the type \<open>typ\<close>.\<close>

definition eval_ok ::
  "(DynamicFunctionShape \<times> ('v list \<Rightarrow> FnError + 'v)) list \<Rightarrow> TypeShape \<Rightarrow> puffin_Error + 'v Any \<Rightarrow> bool" where
  "eval_ok defs typ res \<longleftrightarrow>
     (case res of
        Inr data \<Rightarrow> any_type data = inner_type_id typ
      | Inl (puffin_Error.Term _) \<Rightarrow> True
      | Inl (puffin_Error.Fn e) \<Rightarrow> (\<exists>(shape, f) \<in> set defs. \<exists>vs. length vs = length (dfs_argument_types shape) \<and> f vs = Inl e)
      | _ \<Rightarrow> False)"

lemma find_claim_typed:
  "claims_typed (tc_claims ctx) \<Longrightarrow> find_claim ctx agent shape = Some data \<Longrightarrow> any_type data = inner_type_id shape"
  using find_last_claim_Some(1,2) by (fastforce simp: claims_typed_def list_all_iff find_claim_def)

lemma eval_ok_Inl: "eval_ok defs typ (Inl e) \<Longrightarrow> eval_ok defs typ' (Inl e)"
  by (simp add: eval_ok_def)

lemma evaluate_args_ok:
  assumes "\<And>t. t \<in> set ts \<Longrightarrow> eval_ok defs (get_type_shape t) (evaluate PB ctx t)"
  shows "case evaluate_args PB ctx ts of
      Inr datas \<Rightarrow> map any_type datas = map (\<lambda>t. inner_type_id (get_type_shape t)) ts
    | Inl e \<Rightarrow> (\<forall>typ. eval_ok defs typ (Inl e))"
  using assms
proof (induction ts)
  case (Cons t ts)
  have t: "eval_ok defs (get_type_shape t) (evaluate PB ctx t)" using Cons.prems by simp
  show ?case
  proof (cases "evaluate PB ctx t")
    case (Inl e)
    with t show ?thesis by (auto intro: eval_ok_Inl)
  next
    case (Inr data)
    with t Cons show ?thesis by (auto simp: eval_ok_def [of _ _ "Inr _"] split: sum.splits)
  qed
qed simp

lemma evaluate_sound:
  assumes "well_typed t" "functions_sat (symbol_of (dynamic_defs hex defs)) t" "claims_typed (tc_claims ctx)"
  shows "eval_ok defs (get_type_shape t) (evaluate PB ctx t)"
  using assms(1,2)
proof (induction t)
  case (Variable v)
  show ?case
    using find_claim_typed [OF assms(3)]
    by (auto simp: eval_ok_def split: option.splits elim: find_variable_Some)
next
  case (Application g ts)
  have "eval_ok defs (get_type_shape t) (evaluate PB ctx t)" if "t \<in> set ts" for t
    using Application that by (auto simp: list_all_iff)
  note args = evaluate_args_ok [of ts defs PB ctx, OF this]
  show ?case
  proof (cases "evaluate_args PB ctx ts")
    case (Inl e)
    with args show ?thesis by simp
  next
    case (Inr datas)
    with args Application.prems
    have types: "map any_type datas = map inner_type_id (dfs_argument_types (Function_shape g))" by simp
    from Application.prems obtain f where f: "(Function_shape g, f) \<in> set defs"
      "Function_dynamic_fn g = make_dynamic hex (Function_shape g) f"
      by (auto simp: symbol_of_def dynamic_defs_def)
    have "length (map any_val datas) = length (dfs_argument_types (Function_shape g))"
      using arg_cong [OF types, of length] by simp
    with f Inr show ?thesis
      by (auto simp: eval_ok_def make_dynamic_typed [OF types] split: sum.splits intro!: bexI [OF _ f(1)]
          exI [of _ "map any_val datas"])
  qed
qed

subsection \<open>Knowledge only grows\<close>

text \<open>What an operation does to the part of the context that no PUT touches.\<close>

definition grows :: "('m, 'v, 'p) TraceContext \<Rightarrow> ('m, 'v, 'p) TraceContext \<Rightarrow> bool" where
  "grows ctx ctx' \<longleftrightarrow> prefix (tc_knowledge ctx) (tc_knowledge ctx')
     \<and> tc_put_descriptors ctx' = tc_put_descriptors ctx \<and> tc_deterministic ctx' = tc_deterministic ctx"

lemma grows_refl [simp]: "grows ctx ctx"
  by (simp add: grows_def)

lemma grows_trans [trans]: "grows a b \<Longrightarrow> grows b c \<Longrightarrow> grows a c"
  by (auto simp: grows_def)

lemma grows_frame:
  "tc_knowledge ctx' = tc_knowledge ctx \<Longrightarrow> tc_put_descriptors ctx' = tc_put_descriptors ctx \<Longrightarrow>
     tc_deterministic ctx' = tc_deterministic ctx \<Longrightarrow> grows ctx ctx'"
  by (simp add: grows_def)

lemma add_to_inbound_grows: "add_to_inbound PB name m ctx = (res, ctx') \<Longrightarrow> grows ctx ctx'"
  by (auto simp: add_to_inbound_def set_put_def intro: grows_frame split: sum.splits)

lemma next_state_grows: "next_state PB name ctx = (res, ctx') \<Longrightarrow> grows ctx ctx'"
  by (auto simp: next_state_def set_put_def intro: grows_frame split: sum.splits prod.splits)

lemma take_message_grows: "take_message_from_outbound PB name ctx = (res, ctx') \<Longrightarrow> grows ctx ctx'"
  by (auto simp: take_message_from_outbound_def set_put_def intro: grows_frame split: sum.splits prod.splits)

lemma make_deterministic_grows: "grows ctx (make_deterministic PB name ctx)"
  by (auto simp: make_deterministic_def set_put_def intro: grows_frame split: sum.splits)

lemma reset_agents_grows: "reset_agents PB ctx = (res, ctx') \<Longrightarrow> grows ctx ctx'"
  by (auto simp: reset_agents_def intro: grows_frame split: prod.splits)

lemma fold_add_knowledge:
  "fold (\<lambda>x ctx. add_knowledge ctx (f x)) xs ctx = ctx\<lparr>tc_knowledge := tc_knowledge ctx @ map f xs\<rparr>"
  by (induction xs arbitrary: ctx) (auto simp: add_knowledge_def)

text \<open>What a message that can be decoded adds: its own knowledge under its matcher, then the opaque message's.\<close>

lemma learn_conv:
  "learn PB agent res ctx =
     (case opaque_knowledge PB (snd res) of
        Inl e \<Rightarrow> (Inl e, ctx)
      | Inr opaque \<Rightarrow>
          (Inr (), ctx\<lparr>tc_knowledge := tc_knowledge ctx
             @ map (\<lambda>x. \<lparr>k_agent_name = agent, k_matcher = create_matcher PB res, k_data = x\<rparr>)
                 (case fst res of None \<Rightarrow> [] | Some m \<Rightarrow> (case message_knowledge PB m of Inl _ \<Rightarrow> [] | Inr ks \<Rightarrow> ks))
             @ map (\<lambda>x. \<lparr>k_agent_name = agent, k_matcher = None, k_data = x\<rparr>) opaque\<rparr>))"
  by (auto simp: learn_def Let_def fold_add_knowledge split: sum.splits)

lemma learn_grows: "learn PB agent res ctx = (r, ctx') \<Longrightarrow> grows ctx ctx'"
  by (auto simp: learn_conv grows_def split: sum.splits)

lemma spawn_step_grows:
  "rename_reusable PB d reusable ctx = (r, ctx') \<Longrightarrow> grows ctx ctx'"
  "new_agent PB d ctx = (r, ctx') \<Longrightarrow> grows ctx ctx'"
  by (auto simp: rename_reusable_def new_agent_def intro: grows_frame split: prod.splits sum.splits)

lemma spawn_agents_grows: "spawn_agents PB ds ctx = (r, ctx') \<Longrightarrow> grows ctx ctx'"
proof (induction PB ds ctx rule: spawn_agents.induct)
  case (2 PB d ds ctx)
  let ?one = "case find (\<lambda>existing. is_reusable_with PB (ag_put existing) d) (tc_agents ctx) of
      Some reusable \<Rightarrow> rename_reusable PB d reusable ctx | None \<Rightarrow> new_agent PB d ctx"
  obtain r1 c1 where one: "?one = (r1, c1)" by (cases ?one)
  then have g: "grows ctx c1" by (auto intro: spawn_step_grows split: option.splits)
  show ?case
  proof (cases r1)
    case (Inl e)
    with 2 one g show ?thesis by simp
  next
    case (Inr name)
    with 2 one have "grows (make_deterministic PB name c1) ctx'" by simp
    with g make_deterministic_grows show ?thesis by (blast intro: grows_trans)
  qed
qed simp

text \<open>An operation that keeps the knowledge, if it ends.\<close>

definition keeps :: "('m, 'v, 'p) TraceContext \<Rightarrow> ('m, 'v, 'p) exec_result \<Rightarrow> bool" where
  "keeps ctx x \<longleftrightarrow> (\<forall>res ctx'. x = Some (res, ctx') \<longrightarrow> grows ctx ctx')"

lemma keeps_Some [simp]: "keeps ctx (Some (res, ctx')) \<longleftrightarrow> grows ctx ctx'"
  by (simp add: keeps_def)

lemma keeps_and_then:
  assumes "keeps ctx x" "\<And>ctx'. x = Some (Inr (), ctx') \<Longrightarrow> keeps ctx' (f ctx')"
  shows "keeps ctx (and_then x f)"
  using assms by (auto simp: keeps_def and_then_def split: option.splits sum.splits intro: grows_trans)

lemma output_loop_keeps:
  assumes "output_loop PB agent ctx = Some y"
  shows "grows ctx (snd y)"
  using assms
proof (rule output_loop.raw_induct [rotated])
  fix rec PB agent ctx and y :: "(puffin_Error + unit) \<times> ('a, 'b, 'c) TraceContext"
  assume IH: "\<And>PB agent ctx y. rec PB agent ctx = Some y \<Longrightarrow> grows ctx (snd y)"
    and body: "(case take_message_from_outbound PB agent ctx of (res, ctx) \<Rightarrow>
      case res of Inl e \<Rightarrow> Some (Inl e, ctx) | Inr None \<Rightarrow> Some (Inr (), ctx)
      | Inr (Some m) \<Rightarrow> (case learn PB agent m ctx of (res, ctx) \<Rightarrow>
          case res of Inl e \<Rightarrow> Some (Inl e, ctx) | Inr _ \<Rightarrow> rec PB agent ctx)) = Some y"
  obtain res ctx1 where t: "take_message_from_outbound PB agent ctx = (res, ctx1)" by fastforce
  note g1 = take_message_grows [OF t]
  show "grows ctx (snd y)"
  proof (cases "\<exists>m. res = Inr (Some m)")
    case False
    with body t g1 show ?thesis by (auto split: sum.splits option.splits)
  next
    case True
    then obtain m where m: "res = Inr (Some m)" by blast
    obtain r ctx2 where l: "learn PB agent m ctx1 = (r, ctx2)" by fastforce
    note g2 = grows_trans [OF g1 learn_grows [OF l]]
    from body t m l g2 show ?thesis
      by (cases r) (auto intro: grows_trans dest: IH)
  qed
qed

lemma output_action_keeps: "keeps ctx (output_action PB agent ctx)"
  unfolding output_action_def
  by (rule keeps_and_then)
    (auto simp: keeps_def intro: next_state_grows dest: output_loop_keeps)

lemma input_action_keeps: "keeps ctx (input_action PB r agent ctx)"
proof (cases "evaluate PB ctx r")
  case (Inr evaluated)
  have "keeps ctx (Some (add_to_inbound PB agent m ctx))" for m
    using add_to_inbound_grows by (force simp: keeps_def)
  moreover have "keeps ctx' (Some (next_state PB agent ctx'))" for ctx'
    using next_state_grows by (force simp: keeps_def)
  ultimately show ?thesis
    unfolding input_action_def Inr by (auto intro!: keeps_and_then split: option.splits)
qed (simp add: input_action_def)

lemma execute_action_keeps: "keeps ctx (execute_action PB action agent ctx)"
  by (cases action) (simp_all add: input_action_keeps output_action_keeps)

lemma execute_steps_keeps: "keeps ctx (execute_steps PB ss ctx)"
proof (induction ss arbitrary: ctx)
  case (Cons step ss)
  show ?case
    unfolding execute_steps.simps
    by (intro keeps_and_then execute_action_keeps)
      (auto simp: Let_def execute_action_keeps Cons.IH split: Action.splits)
qed simp

lemma spawn_agents_keeps: "keeps ctx (Some (spawn_agents PB ds ctx))"
  by (auto simp: keeps_def intro: spawn_agents_grows)

lemma reset_agents_keeps: "keeps ctx (Some (reset_agents PB ctx))"
  by (auto simp: keeps_def intro: reset_agents_grows)

lemma execute_keeps_both:
  fixes PB :: "('m, 'v, 'p, 'msg, 'o) Protocol" and t :: "('m, 'v) Trace" and ts :: "('m, 'v) Trace list"
  shows "keeps ctx (execute PB t ctx)" and "keeps ctx (execute_priors PB ts ctx)"
proof (induction PB t ctx and PB ts ctx rule: execute_execute_priors.induct)
qed (auto intro!: keeps_and_then spawn_agents_keeps reset_agents_keeps execute_steps_keeps)

subsection \<open>The outcome of an execution\<close>

lemma and_then_InrE:
  assumes "and_then x f = Some (Inr (), ctx')"
  obtains ctx where "x = Some (Inr (), ctx)" "f ctx = Some (Inr (), ctx')"
  using assms by (auto simp: and_then_def split: option.splits sum.splits)

lemma execute_no_violation:
  "execute PB t ctx = Some (Inr (), ctx') \<Longrightarrow> check_violation PB (tc_claims ctx') = None"
  by (cases t) (auto simp: verify_security_violations_def elim!: and_then_InrE split: option.splits)

text \<open>The output loop ends when every message taken from a PUT makes a measure of its state smaller.\<close>

lemma find_update_first:
  "find P xs = Some x \<Longrightarrow> P (f x) \<Longrightarrow> find P (update_first P f xs) = Some (f x)"
  by (induction xs) (auto split: if_splits)

lemma find_agent_set_put:
  assumes "find_agent ctx name = Inr agent"
  shows "find_agent (set_put ctx name put) name = Inr (agent\<lparr>ag_put := put\<rparr>)"
proof -
  let ?P = "\<lambda>agent :: 'a Agent. ag_name agent = name" and ?f = "\<lambda>agent :: 'a Agent. agent\<lparr>ag_put := put\<rparr>"
  from assms have f: "find ?P (tc_agents ctx) = Some agent"
    by (auto simp: find_agent_def split: option.splits)
  then have "ag_name agent = name" by (auto simp: find_Some_iff)
  with find_update_first [OF f, of ?f] show ?thesis
    by (simp add: find_agent_def set_put_def)
qed

lemma find_agent_learn: "learn PB agent res ctx = (r, ctx') \<Longrightarrow> find_agent ctx' name = find_agent ctx name"
  by (auto simp: learn_conv find_agent_def split: sum.splits)

lemma output_loop_ends:
  fixes \<mu> :: "'p \<Rightarrow> nat"
  assumes "\<And>put m put'. put_take_message PB put = (Inr (Some m), put') \<Longrightarrow> \<mu> put' < \<mu> put"
  shows "\<exists>y. output_loop PB agent ctx = Some y"
proof (induction "case find_agent ctx agent of Inl _ \<Rightarrow> 0 | Inr a \<Rightarrow> \<mu> (ag_put a)" arbitrary: ctx rule: less_induct)
  case less
  obtain res ctx1 where t: "take_message_from_outbound PB agent ctx = (res, ctx1)" by fastforce
  show ?case
  proof (cases "\<exists>m. res = Inr (Some m)")
    case False
    with t show ?thesis by (subst output_loop.simps) (auto split: sum.splits option.splits)
  next
    case True
    then obtain m where m: "res = Inr (Some m)" by blast
    with t obtain a put where a: "find_agent ctx agent = Inr a" "put_take_message PB (ag_put a) = (Inr (Some m), put)"
      "ctx1 = set_put ctx agent put"
      by (auto simp: take_message_from_outbound_def split: sum.splits prod.splits)
    obtain r ctx2 where l: "learn PB agent m ctx1 = (r, ctx2)" by fastforce
    have "find_agent ctx2 agent = Inr (a\<lparr>ag_put := put\<rparr>)"
      using find_agent_learn [OF l] find_agent_set_put [OF a(1)] a(3) by simp
    then have "\<exists>y. output_loop PB agent ctx2 = Some y"
      using assms [OF a(2)] a(1) by (intro less) simp
    with t m l show ?thesis by (subst output_loop.simps) (auto split: sum.splits)
  qed
qed

text \<open>Then every execution ends: the loop over the steps and the recursion over the prior traces are bounded.\<close>

definition ends :: "'a option \<Rightarrow> bool" where
  "ends x \<longleftrightarrow> (\<exists>y. x = Some y)"

lemma ends_Some [simp]: "ends (Some y)"
  by (simp add: ends_def)

lemma and_then_ends: "ends x \<Longrightarrow> (\<And>ctx. ends (f ctx)) \<Longrightarrow> ends (and_then x f)"
  by (auto simp: ends_def and_then_def split: sum.splits)

lemma action_ends:
  assumes "\<And>agent ctx. ends (output_loop PB agent ctx)"
  shows "ends (execute_action PB a agent ctx)"
proof (cases a)
  case (Input r)
  show ?thesis
    unfolding Input execute_action.simps input_action_def
    by (cases "evaluate PB ctx r") (auto intro!: and_then_ends split: option.splits)
next
  case Output
  then show ?thesis using assms by (auto simp: output_action_def intro!: and_then_ends)
qed

lemma steps_end:
  assumes "\<And>agent ctx. ends (output_loop PB agent ctx)"
  shows "ends (execute_steps PB ss ctx)"
proof (induction ss arbitrary: ctx)
  case (Cons step ss)
  show ?case
    unfolding execute_steps.simps
    by (intro and_then_ends action_ends [OF assms] Cons.IH)
      (auto simp: Let_def action_ends [OF assms] split: Action.splits)
qed simp

lemma execute_ends_both:
  fixes PB :: "('m, 'v, 'p, 'msg, 'o) Protocol" and t :: "('m, 'v) Trace" and ts :: "('m, 'v) Trace list"
  shows "(\<And>agent ctx. ends (output_loop PB agent ctx)) \<Longrightarrow> ends (execute PB t ctx)"
    and "(\<And>agent ctx. ends (output_loop PB agent ctx)) \<Longrightarrow> ends (execute_priors PB ts ctx)"
proof (induction PB t ctx and PB ts ctx rule: execute_execute_priors.induct)
qed (auto intro!: and_then_ends steps_end)

lemma execute_ends:
  fixes \<mu> :: "'p \<Rightarrow> nat"
  assumes "\<And>put m put'. put_take_message PB put = (Inr (Some m), put') \<Longrightarrow> \<mu> put' < \<mu> put"
  shows "\<exists>y. execute PB t ctx = Some y"
  using execute_ends_both(1) [of PB t ctx] output_loop_ends [of PB \<mu>, OF assms] by (simp add: ends_def)

subsection \<open>Spawning\<close>

text \<open>An agent is reused whatever its \<open>try_reuse\<close> says, so two descriptors of one role and version share an agent.\<close>

lemma spawn_reuses:
  assumes "find (\<lambda>a. is_reusable_with PB (ag_put a) d) (tc_agents ctx) = Some a"
    and "put_rename_agent PB (ad_name d) (ag_put a) (tc_claims ctx) = (Inr (), put, claims)"
    and "\<not> tc_deterministic ctx"
  shows "spawn_agents PB [d] ctx = (Inr (), ctx\<lparr>tc_agents := update_first (\<lambda>a. is_reusable_with PB (ag_put a) d)
      (\<lambda>a. a\<lparr>ag_name := ad_name d, ag_put := put\<rparr>) (tc_agents ctx), tc_claims := claims\<rparr>)"
  using assms by (simp add: rename_reusable_def make_deterministic_def)

end
