(* ===== verification/Tls_Protocol.thy ===== *)
theory Tls_Protocol
  imports Puffin_Trace Tls_Message
begin

text \<open>
  What TLS gives to the fuzzer: the query matcher of \<open>tlspuffin/src/query.rs\<close>, the extraction of knowledge of
  \<open>protocol.rs\<close>, the claims of \<open>claims.rs\<close> and the security policy of \<open>tls/violation.rs\<close>.

  The values that are boxed for the attacker are a datatype with a constructor for every Rust type; \<open>shape\<close> gives
  the \<open>TypeShape\<close> of a type. The reference certificates that the policy compares with are parameters.

  The matcher is interpreted as a \<open>matcher\<close>; claims box their content at the type they are found under; and the
  policy is silent on a client and a server only if they agree.
\<close>

subsection \<open>The matcher\<close>

definition HandshakeType_matcher :: "HandshakeType Matcher" where
  "HandshakeType_matcher = \<lparr>matcher_matches = (\<lambda>self m. m = self), matcher_specificity = (\<lambda>_. 1)\<rparr>"

datatype TlsQueryMatcher =
    ChangeCipherSpec
  | Alert
  | Handshake "HandshakeType option"
  | ApplicationData
  | Heartbeat

fun TlsQueryMatcher_matches :: "TlsQueryMatcher \<Rightarrow> TlsQueryMatcher \<Rightarrow> bool" where
  "TlsQueryMatcher_matches self (TlsQueryMatcher.Handshake query_handshake_type) =
     (case self of
        TlsQueryMatcher.Handshake handshake_type \<Rightarrow> Option_matches HandshakeType_matcher handshake_type query_handshake_type
      | _ \<Rightarrow> False)"
| "TlsQueryMatcher_matches self TlsQueryMatcher.ChangeCipherSpec \<longleftrightarrow> self = TlsQueryMatcher.ChangeCipherSpec"
| "TlsQueryMatcher_matches self TlsQueryMatcher.Alert \<longleftrightarrow> self = TlsQueryMatcher.Alert"
| "TlsQueryMatcher_matches self TlsQueryMatcher.Heartbeat \<longleftrightarrow> self = TlsQueryMatcher.Heartbeat"
| "TlsQueryMatcher_matches self TlsQueryMatcher.ApplicationData \<longleftrightarrow> self = TlsQueryMatcher.ApplicationData"

fun TlsQueryMatcher_specificity :: "TlsQueryMatcher \<Rightarrow> u32" where
  "TlsQueryMatcher_specificity (TlsQueryMatcher.Handshake handshake_type) =
     1 + (case handshake_type of None \<Rightarrow> 0 | Some t \<Rightarrow> matcher_specificity HandshakeType_matcher t)"
| "TlsQueryMatcher_specificity _ = 0"

definition TlsQueryMatcher_matcher :: "TlsQueryMatcher Matcher" where
  "TlsQueryMatcher_matcher = \<lparr>matcher_matches = TlsQueryMatcher_matches, matcher_specificity = TlsQueryMatcher_specificity\<rparr>"

definition TlsQueryMatcher_try_from :: "'d Message option \<times> OpaqueMessage \<Rightarrow> puffin_Error + TlsQueryMatcher" where
  "TlsQueryMatcher_try_from message_result =
     (case om_typ (snd message_result) of
        ContentType.Handshake \<Rightarrow>
          (case fst message_result of
             Some message \<Rightarrow>
               (case msg_payload message of
                  MessagePayload.Handshake handshake_payload \<Rightarrow> Inr (TlsQueryMatcher.Handshake (Some (hmp_typ handshake_payload)))
                | MessagePayload.TLS12EncryptedHandshake _ \<Rightarrow> Inr (TlsQueryMatcher.Handshake None)
                | _ \<Rightarrow> Inl Extraction)
           | None \<Rightarrow> Inr (TlsQueryMatcher.Handshake None))
      | ContentType.ApplicationData \<Rightarrow> Inr TlsQueryMatcher.ApplicationData
      | ContentType.Heartbeat \<Rightarrow> Inr TlsQueryMatcher.Heartbeat
      | ContentType.Alert \<Rightarrow> Inr TlsQueryMatcher.Alert
      | ContentType.ChangeCipherSpec \<Rightarrow> Inr TlsQueryMatcher.ChangeCipherSpec
      | ContentType.Unknown _ \<Rightarrow> Inl Extraction)"

interpretation handshake_type_matcher: matcher HandshakeType_matcher 1
  by unfold_locales (simp_all add: HandshakeType_matcher_def)

lemma TlsQueryMatcher_specificity_conv:
  "TlsQueryMatcher_specificity m = (case m of TlsQueryMatcher.Handshake t \<Rightarrow> 1 + Option_specificity HandshakeType_matcher t
     - (case t of None \<Rightarrow> 0 | Some _ \<Rightarrow> 1) | _ \<Rightarrow> 0)"
  by (cases m) (auto simp: HandshakeType_matcher_def split: option.splits)

interpretation tls_matcher: matcher TlsQueryMatcher_matcher 2
proof (unfold_locales, goal_cases)
  case (1 m)
  then show ?case by (cases m) (auto simp: TlsQueryMatcher_matcher_def handshake_type_matcher.Option_matches_refl)
next
  case (2 a b c)
  then show ?case
    by (cases c; cases b) (auto simp: TlsQueryMatcher_matcher_def split: TlsQueryMatcher.splits
        intro: handshake_type_matcher.Option_matches_trans)
next
  case (3 a b)
  then show ?case
    by (cases b) (auto simp: TlsQueryMatcher_matcher_def HandshakeType_matcher_def split: TlsQueryMatcher.splits option.splits)
next
  case (4 m)
  then show ?case
    by (cases m) (auto simp: TlsQueryMatcher_matcher_def HandshakeType_matcher_def split: option.splits)
qed simp

interpretation tls_option: matcher "Option_matcher TlsQueryMatcher_matcher" 3
  using tls_matcher.Option_matcher_axioms by simp

subsection \<open>Knowledge\<close>

definition Message_create_opaque :: "'d Message \<Rightarrow> OpaqueMessage" where
  "Message_create_opaque m = into_unencrypted_opaque (PlainMessage_from m)"

datatype 'd tls_data =
    DMessage "'d Message"
  | DOpaqueMessage OpaqueMessage
  | DAlertDescription AlertDescription
  | DAlertLevel AlertLevel
  | DHandshakeType HandshakeType
  | DRandom Random
  | DSessionID SessionID
  | DProtocolVersion ProtocolVersion
  | DClientExtensions "'d ClientExtension list"
  | DClientExtension "'d ClientExtension"
  | DServerExtensions "ServerExtension list"
  | DServerExtension ServerExtension
  | DCompressions "Compression list"
  | DCompression Compression
  | DCipherSuites "CipherSuite list"
  | DCipherSuite CipherSuite
  | DCertificates "Certificate list"
  | DECDHE ECDHEServerKeyExchange
  | DBytes bytes
  | DU64 u64
  | DPayloadU16 PayloadU16

definition Message_extract_knowledge :: "'d Message \<Rightarrow> puffin_Error + 'd tls_data list" where
  "Message_extract_knowledge self =
     (case msg_payload self of
        MessagePayload.Alert alert \<Rightarrow>
          Inr [DMessage self, DAlertDescription (amp_description alert), DAlertLevel (amp_level alert)]
      | MessagePayload.Handshake hs \<Rightarrow>
          (case hmp_payload hs of
             HandshakePayload.HelloRequest \<Rightarrow> Inr [DMessage self, DHandshakeType (hmp_typ hs)]
           | HandshakePayload.ClientHello ch \<Rightarrow>
               Inr ([DMessage self, DHandshakeType (hmp_typ hs), DRandom (chp_random ch), DSessionID (chp_session_id ch),
                   DProtocolVersion (chp_client_version ch), DClientExtensions (chp_extensions ch),
                   DCompressions (chp_compression_methods ch), DCipherSuites (chp_cipher_suites ch)]
                 @ map DClientExtension (chp_extensions ch) @ map DCompression (chp_compression_methods ch)
                 @ map DCipherSuite (chp_cipher_suites ch))
           | HandshakePayload.ServerHello sh \<Rightarrow>
               Inr ([DMessage self, DHandshakeType (hmp_typ hs), DRandom (shp_random sh), DSessionID (shp_session_id sh),
                   DCipherSuite (shp_cipher_suite sh), DCompression (shp_compression_method sh),
                   DProtocolVersion (shp_legacy_version sh), DServerExtensions (shp_extensions sh)]
                 @ map DServerExtension (shp_extensions sh))
           | HandshakePayload.Certificate c \<Rightarrow> Inr [DMessage self, DCertificates c]
           | HandshakePayload.ServerKeyExchange ske \<Rightarrow>
               (case ske of
                  ServerKeyExchangePayload.ECDHE ecdhe \<Rightarrow> Inr [DMessage self, DECDHE ecdhe]
                | ServerKeyExchangePayload.Unknown unknown \<Rightarrow> Inr [DMessage self, DBytes unknown])
           | HandshakePayload.ServerHelloDone \<Rightarrow> Inr [DMessage self]
           | HandshakePayload.ClientKeyExchange cke \<Rightarrow> Inr [DMessage self, DBytes cke]
           | HandshakePayload.NewSessionTicket ticket \<Rightarrow>
               Inr [DMessage self, DU64 (ucast (nst_lifetime_hint ticket)), DBytes (nst_ticket ticket)]
           | _ \<Rightarrow> Inl Extraction)
      | MessagePayload.ChangeCipherSpec _ \<Rightarrow> Inr []
      | MessagePayload.ApplicationData opaque \<Rightarrow> Inr [DMessage self, DBytes opaque]
      | MessagePayload.Heartbeat h \<Rightarrow> Inr [DMessage self, DPayloadU16 (hb_payload h)]
      | MessagePayload.TLS12EncryptedHandshake tls12encrypted \<Rightarrow> Inr [DMessage self, DBytes tls12encrypted])"

definition OpaqueMessage_extract_knowledge :: "OpaqueMessage \<Rightarrow> puffin_Error + 'd tls_data list" where
  "OpaqueMessage_extract_knowledge m = Inr [DOpaqueMessage m]"

subsection \<open>Claims\<close>

record TlsTranscript =
  tt_bytes :: bytes
  tt_len :: "32 word"

text \<open>The cast sign-extends, so a negative length panics like one above 64: \<open>None\<close>.\<close>

definition Transcript_as_slice :: "TlsTranscript \<Rightarrow> bytes option" where
  "Transcript_as_slice t =
     (let n = sint (tt_len t) in
      if 0 \<le> n \<and> nat n \<le> length (tt_bytes t) then Some (take (nat n) (tt_bytes t)) else None)"

record Finished =
  fin_outbound :: bool
  fin_client_random :: bytes
  fin_server_random :: bytes
  fin_session_id :: bytes
  fin_authenticate_peer :: bool
  fin_peer_certificate :: bytes
  fin_master_secret :: bytes
  fin_chosen_cipher :: u16
  fin_available_ciphers :: "u16 list"
  fin_signature_algorithm :: "32 word"
  fin_peer_signature_algorithm :: "32 word"

datatype ClaimDataTranscript =
    TClientHello TlsTranscript
  | TPartialClientHello TlsTranscript
  | TServerHello TlsTranscript
  | TCertificate TlsTranscript
  | TServerFinished TlsTranscript
  | TClientFinished TlsTranscript

datatype ClaimDataMessage =
    MClientHello
  | MServerHello
  | MCertificate
  | MCertificateVerify
  | MFinished Finished

datatype ClaimData = Transcript ClaimDataTranscript | Message ClaimDataMessage

record TlsClaim =
  tlsc_agent_name :: AgentName
  tlsc_origin :: AgentType
  tlsc_protocol_version :: TLSVersion
  tlsc_data :: ClaimData

text \<open>The types of claims, the values that are boxed, and the type each value is boxed at.\<close>

datatype claim_type =
    ty_ClientHello | ty_ServerHello | ty_Certificate | ty_CertificateVerify | ty_Finished
  | ty_TranscriptClientHello | ty_TranscriptPartialClientHello | ty_TranscriptServerHello
  | ty_TranscriptServerFinished | ty_TranscriptClientFinished | ty_TranscriptCertificate

datatype claim_value =
    val_ClientHello | val_ServerHello | val_Certificate | val_CertificateVerify | val_Finished Finished
  | val_TranscriptClientHello TlsTranscript | val_TranscriptPartialClientHello TlsTranscript
  | val_TranscriptServerHello TlsTranscript | val_TranscriptServerFinished TlsTranscript
  | val_TranscriptClientFinished TlsTranscript | val_TranscriptCertificate TlsTranscript

fun value_type :: "claim_value \<Rightarrow> claim_type" where
  "value_type val_ClientHello = ty_ClientHello"
| "value_type val_ServerHello = ty_ServerHello"
| "value_type val_Certificate = ty_Certificate"
| "value_type val_CertificateVerify = ty_CertificateVerify"
| "value_type (val_Finished _) = ty_Finished"
| "value_type (val_TranscriptClientHello _) = ty_TranscriptClientHello"
| "value_type (val_TranscriptPartialClientHello _) = ty_TranscriptPartialClientHello"
| "value_type (val_TranscriptServerHello _) = ty_TranscriptServerHello"
| "value_type (val_TranscriptServerFinished _) = ty_TranscriptServerFinished"
| "value_type (val_TranscriptClientFinished _) = ty_TranscriptClientFinished"
| "value_type (val_TranscriptCertificate _) = ty_TranscriptCertificate"

definition TlsClaim_id :: "(claim_type \<Rightarrow> TypeShape) \<Rightarrow> TlsClaim \<Rightarrow> TypeShape" where
  "TlsClaim_id shape c =
     (case tlsc_data c of
        ClaimData.Message message \<Rightarrow>
          (case message of
             MClientHello \<Rightarrow> shape ty_ClientHello
           | MServerHello \<Rightarrow> shape ty_ServerHello
           | MCertificate \<Rightarrow> shape ty_Certificate
           | MCertificateVerify \<Rightarrow> shape ty_CertificateVerify
           | MFinished _ \<Rightarrow> shape ty_Finished)
      | ClaimData.Transcript transcript \<Rightarrow>
          (case transcript of
             TClientHello _ \<Rightarrow> shape ty_TranscriptClientHello
           | TPartialClientHello _ \<Rightarrow> shape ty_TranscriptPartialClientHello
           | TServerHello _ \<Rightarrow> shape ty_TranscriptServerHello
           | TServerFinished _ \<Rightarrow> shape ty_TranscriptServerFinished
           | TClientFinished _ \<Rightarrow> shape ty_TranscriptClientFinished
           | TCertificate _ \<Rightarrow> shape ty_TranscriptCertificate))"

definition boxed_any :: "(claim_type \<Rightarrow> TypeShape) \<Rightarrow> claim_value \<Rightarrow> claim_value Any" where
  "boxed_any shape v = \<lparr>any_type = inner_type_id (shape (value_type v)), any_val = v\<rparr>"

definition TlsClaim_inner :: "(claim_type \<Rightarrow> TypeShape) \<Rightarrow> TlsClaim \<Rightarrow> claim_value Any" where
  "TlsClaim_inner shape c =
     (case tlsc_data c of
        ClaimData.Message message \<Rightarrow>
          (case message of
             MClientHello \<Rightarrow> boxed_any shape val_ClientHello
           | MServerHello \<Rightarrow> boxed_any shape val_ServerHello
           | MCertificate \<Rightarrow> boxed_any shape val_Certificate
           | MCertificateVerify \<Rightarrow> boxed_any shape val_CertificateVerify
           | MFinished claim \<Rightarrow> boxed_any shape (val_Finished claim))
      | ClaimData.Transcript transcript \<Rightarrow>
          (case transcript of
             TClientHello claim \<Rightarrow> boxed_any shape (val_TranscriptClientHello claim)
           | TPartialClientHello claim \<Rightarrow> boxed_any shape (val_TranscriptPartialClientHello claim)
           | TServerHello claim \<Rightarrow> boxed_any shape (val_TranscriptServerHello claim)
           | TServerFinished claim \<Rightarrow> boxed_any shape (val_TranscriptServerFinished claim)
           | TClientFinished claim \<Rightarrow> boxed_any shape (val_TranscriptClientFinished claim)
           | TCertificate claim \<Rightarrow> boxed_any shape (val_TranscriptCertificate claim)))"

text \<open>The claim as the trait shows it.\<close>

definition TlsClaim_claim :: "(claim_type \<Rightarrow> TypeShape) \<Rightarrow> TlsClaim \<Rightarrow> claim_value Claim" where
  "TlsClaim_claim shape c =
     \<lparr>claim_agent_name = tlsc_agent_name c, claim_id = TlsClaim_id shape c, claim_inner = TlsClaim_inner shape c\<rparr>"

lemma TlsClaim_typed: "claims_typed (map (TlsClaim_claim shape) cs)"
  by (auto simp: claims_typed_def list_all_iff TlsClaim_claim_def TlsClaim_id_def TlsClaim_inner_def boxed_any_def
      split: ClaimData.splits ClaimDataMessage.splits ClaimDataTranscript.splits)

subsection \<open>The security policy\<close>

text \<open>The closure that both searches for finished claims share: the inbound ones.\<close>

definition inbound_finished :: "TlsClaim \<Rightarrow> (TlsClaim \<times> Finished) option" where
  "inbound_finished claim =
     (case tlsc_data claim of
        ClaimData.Message (MFinished data) \<Rightarrow> if fin_outbound data then None else Some (claim, data)
      | _ \<Rightarrow> None)"

text \<open>\<open>collect_tuple\<close> succeeds on exactly two items.\<close>

definition find_two_finished_messages :: "TlsClaim list \<Rightarrow> ((TlsClaim \<times> Finished) \<times> (TlsClaim \<times> Finished)) option" where
  "find_two_finished_messages claims =
     (case List.map_filter inbound_finished claims of
        [a, b] \<Rightarrow> if tlsc_agent_name (fst a) = tlsc_agent_name (fst b) then None else Some (a, b)
      | _ \<Rightarrow> None)"

definition get_client_server ::
  "TlsClaim \<times> 't \<Rightarrow> TlsClaim \<times> 't \<Rightarrow> ((TlsClaim \<times> 't) \<times> (TlsClaim \<times> 't)) option" where
  "get_client_server a b =
     (case tlsc_origin (fst a) of
        Server \<Rightarrow> (case tlsc_origin (fst b) of Server \<Rightarrow> None | Client \<Rightarrow> Some (b, a))
      | Client \<Rightarrow> (case tlsc_origin (fst b) of Server \<Rightarrow> Some (a, b) | Client \<Rightarrow> None))"

definition best_cipher :: "u16 list \<Rightarrow> u16 list \<Rightarrow> u16 option" where
  "best_cipher server_ciphers client_ciphers = find (\<lambda>c. c \<in> set client_ciphers) server_ciphers"

definition check_version_specific :: "TLSVersion \<Rightarrow> Finished \<Rightarrow> Finished \<Rightarrow> string option" where
  "check_version_specific version client server =
     (case version of
        V1_2 \<Rightarrow>
          if fin_session_id server \<noteq> [] \<and> fin_session_id client \<noteq> fin_session_id server
          then Some ''Mismatching session ids'' else None
      | V1_3 \<Rightarrow>
          if fin_session_id client \<noteq> fin_session_id server then Some ''Mismatching session ids''
          else if fin_available_ciphers client \<noteq> [] \<and> fin_available_ciphers server \<noteq> [] then
            (case best_cipher (fin_available_ciphers server) (fin_available_ciphers client) of
               Some best \<Rightarrow>
                 if best \<noteq> fin_chosen_cipher server then Some ''Not the best cipher choosen''
                 else if best \<noteq> fin_chosen_cipher client then Some ''Not the best cipher choosen''
                 else None
             | None \<Rightarrow> None)
          else None)"

definition check_pair :: "bytes \<Rightarrow> bytes \<Rightarrow> TlsClaim \<times> Finished \<Rightarrow> TlsClaim \<times> Finished \<Rightarrow> string option" where
  "check_pair ALICE_CERT BOB_CERT c s =
     (case (c, s) of ((client_claim, client), (server_claim, server)) \<Rightarrow>
        if tlsc_protocol_version client_claim \<noteq> tlsc_protocol_version server_claim then Some ''Mismatching versions''
        else if fin_master_secret client \<noteq> fin_master_secret server then Some ''Mismatching master secrets''
        else if fin_server_random client \<noteq> fin_server_random server then Some ''Mismatching server random''
        else if fin_client_random client \<noteq> fin_client_random server then Some ''Mismatching client random''
        else if fin_chosen_cipher client \<noteq> fin_chosen_cipher server then Some ''Mismatching ciphers''
        else if fin_signature_algorithm client \<noteq> fin_peer_signature_algorithm server
          \<or> fin_signature_algorithm server \<noteq> fin_peer_signature_algorithm client then Some ''mismatching signature algorithms''
        else if fin_authenticate_peer server \<and> fin_peer_certificate server \<noteq> BOB_CERT then Some ''Authentication bypass''
        else if fin_authenticate_peer client \<and> fin_peer_certificate client \<noteq> ALICE_CERT then Some ''Authentication bypass''
        else check_version_specific (tlsc_protocol_version client_claim) client server)"

definition TlsSecurityViolationPolicy_check_violation :: "bytes \<Rightarrow> bytes \<Rightarrow> TlsClaim list \<Rightarrow> string option" where
  "TlsSecurityViolationPolicy_check_violation ALICE_CERT BOB_CERT claims =
     (case find_two_finished_messages claims of
        Some (claim_a, claim_b) \<Rightarrow>
          (case get_client_server claim_a claim_b of
             Some (c, s) \<Rightarrow> check_pair ALICE_CERT BOB_CERT c s
           | None \<Rightarrow> None)
      | None \<Rightarrow>
          (case List.map_filter inbound_finished claims of
             [] \<Rightarrow> None
           | (claim, finished) # _ \<Rightarrow>
               if fin_authenticate_peer finished \<and>
                 (case tlsc_origin claim of
                    Server \<Rightarrow> fin_peer_certificate finished \<noteq> BOB_CERT
                  | Client \<Rightarrow> fin_peer_certificate finished \<noteq> ALICE_CERT)
               then Some ''Authentication bypass'' else None))"

text \<open>What the policy promises: agreement of the two ends of a session.\<close>

definition agree :: "bytes \<Rightarrow> bytes \<Rightarrow> TlsClaim \<times> Finished \<Rightarrow> TlsClaim \<times> Finished \<Rightarrow> bool" where
  "agree ALICE_CERT BOB_CERT c s \<longleftrightarrow>
     tlsc_protocol_version (fst c) = tlsc_protocol_version (fst s)
   \<and> fin_master_secret (snd c) = fin_master_secret (snd s)
   \<and> fin_server_random (snd c) = fin_server_random (snd s)
   \<and> fin_client_random (snd c) = fin_client_random (snd s)
   \<and> fin_chosen_cipher (snd c) = fin_chosen_cipher (snd s)
   \<and> fin_signature_algorithm (snd c) = fin_peer_signature_algorithm (snd s)
   \<and> fin_signature_algorithm (snd s) = fin_peer_signature_algorithm (snd c)
   \<and> (fin_authenticate_peer (snd s) \<longrightarrow> fin_peer_certificate (snd s) = BOB_CERT)
   \<and> (fin_authenticate_peer (snd c) \<longrightarrow> fin_peer_certificate (snd c) = ALICE_CERT)
   \<and> (tlsc_protocol_version (fst c) = V1_2 \<longrightarrow> fin_session_id (snd s) = [] \<or> fin_session_id (snd c) = fin_session_id (snd s))
   \<and> (tlsc_protocol_version (fst c) = V1_3 \<longrightarrow> fin_session_id (snd c) = fin_session_id (snd s)
       \<and> best_cipher (fin_available_ciphers (snd s)) (fin_available_ciphers (snd c)) \<in> {None, Some (fin_chosen_cipher (snd s))})"

lemma best_cipher_Nil [simp]: "best_cipher [] cs = None" "best_cipher ss [] = None"
  by (simp_all add: best_cipher_def find_None_iff)

lemma check_pair_None_iff: "check_pair A B c s = None \<longleftrightarrow> agree A B c s"
  by (cases c; cases s; cases "tlsc_protocol_version (fst c)")
    (auto simp: check_pair_def agree_def check_version_specific_def split: if_splits option.splits)

lemma find_two_conv:
  "List.map_filter inbound_finished claims = [a, b] \<Longrightarrow> tlsc_agent_name (fst a) \<noteq> tlsc_agent_name (fst b) \<Longrightarrow>
     find_two_finished_messages claims = Some (a, b)"
  by (simp add: find_two_finished_messages_def)

lemma get_client_server_roles:
  "get_client_server a b = Some (c, s) \<longleftrightarrow>
     tlsc_origin (fst c) = Client \<and> tlsc_origin (fst s) = Server \<and> ((c, s) = (a, b) \<or> (c, s) = (b, a))"
  by (cases "tlsc_origin (fst a)"; cases "tlsc_origin (fst b)") (auto simp: get_client_server_def)

end
