(* ===== verification/Tls_Fn_Messages.thy ===== *)
theory Tls_Fn_Messages
  imports Tls_Key_Exchange Tls_Protocol
begin

text \<open>
  Function symbols of the attacker, first part: the constants of \<open>tlspuffin/src/tls/fn_constants.rs\<close> and the message
  constructors of \<open>fn_messages.rs\<close>. A function symbol takes its arguments by reference and returns a \<open>Result\<close>; a vector it
  appends to is copied, so it is a pure function here.
\<close>

type_synonym 'a Fn = "FnError + 'a"

subsection \<open>Constants\<close>

definition fn_true :: "bool Fn" where "fn_true = Inr True"
definition fn_false :: "bool Fn" where "fn_false = Inr False"
definition fn_seq_0 :: "u64 Fn" where "fn_seq_0 = Inr 0"
definition fn_seq_1 :: "u64 Fn" where "fn_seq_1 = Inr 1"
definition fn_seq_2 :: "u64 Fn" where "fn_seq_2 = Inr 2"
definition fn_seq_3 :: "u64 Fn" where "fn_seq_3 = Inr 3"
definition fn_seq_4 :: "u64 Fn" where "fn_seq_4 = Inr 4"
definition fn_seq_5 :: "u64 Fn" where "fn_seq_5 = Inr 5"
definition fn_seq_6 :: "u64 Fn" where "fn_seq_6 = Inr 6"
definition fn_seq_7 :: "u64 Fn" where "fn_seq_7 = Inr 7"
definition fn_seq_8 :: "u64 Fn" where "fn_seq_8 = Inr 8"
definition fn_seq_9 :: "u64 Fn" where "fn_seq_9 = Inr 9"
definition fn_seq_10 :: "u64 Fn" where "fn_seq_10 = Inr 10"
definition fn_seq_11 :: "u64 Fn" where "fn_seq_11 = Inr 11"
definition fn_seq_12 :: "u64 Fn" where "fn_seq_12 = Inr 12"
definition fn_seq_13 :: "u64 Fn" where "fn_seq_13 = Inr 13"
definition fn_seq_14 :: "u64 Fn" where "fn_seq_14 = Inr 14"
definition fn_seq_15 :: "u64 Fn" where "fn_seq_15 = Inr 15"
definition fn_seq_16 :: "u64 Fn" where "fn_seq_16 = Inr 16"

definition fn_large_length :: "u64 Fn" where
  "fn_large_length = Inr 32702"

definition fn_empty_bytes_vec :: "bytes Fn" where
  "fn_empty_bytes_vec = Inr []"

definition fn_large_bytes_vec :: "bytes Fn" where
  "fn_large_bytes_vec = Inr (replicate 700 42)"

subsection \<open>Messages\<close>

text \<open>A message of this module has the version TLS 1.2; most of them are handshake messages.\<close>

definition tls12_message :: "'d MessagePayload \<Rightarrow> 'd Message Fn" where
  "tls12_message p = Inr \<lparr>msg_version = ProtocolVersion.TLSv1_2, msg_payload = p\<rparr>"

definition hs_fn :: "HandshakeType \<Rightarrow> 'd HandshakePayload \<Rightarrow> 'd Message Fn" where
  "hs_fn typ payload = tls12_message (MessagePayload.Handshake \<lparr>hmp_typ = typ, hmp_payload = payload\<rparr>)"

definition fn_opaque_message :: "OpaqueMessage \<Rightarrow> OpaqueMessage Fn" where
  "fn_opaque_message message = Inr message"

definition fn_empty_handshake_message :: "OpaqueMessage Fn" where
  "fn_empty_handshake_message =
     Inr \<lparr>om_typ = ContentType.Handshake, om_version = ProtocolVersion.TLSv1_2, om_payload = []\<rparr>"

definition fn_alert_close_notify :: "'d Message Fn" where
  "fn_alert_close_notify =
     tls12_message (MessagePayload.Alert \<lparr>amp_level = AlertLevel.Warning, amp_description = AlertDescription.CloseNotify\<rparr>)"

definition fn_change_cipher_spec :: "'d Message Fn" where
  "fn_change_cipher_spec = tls12_message (MessagePayload.ChangeCipherSpec ChangeCipherSpecPayload)"

definition fn_application_data :: "bytes \<Rightarrow> 'd Message Fn" where
  "fn_application_data data = tls12_message (MessagePayload.ApplicationData data)"

definition fn_heartbeat_fake_length :: "bytes \<Rightarrow> u64 \<Rightarrow> 'd Message Fn" where
  "fn_heartbeat_fake_length payload fake_length =
     tls12_message (MessagePayload.Heartbeat
       \<lparr>hb_typ = HeartbeatMessageType.Request, hb_payload = payload, hb_fake_length = Some (ucast fake_length)\<rparr>)"

definition fn_heartbeat :: "bytes \<Rightarrow> 'd Message Fn" where
  "fn_heartbeat payload = fn_heartbeat_fake_length payload (word_of_nat (length payload))"

definition fn_hello_request :: "'d Message Fn" where
  "fn_hello_request = hs_fn HandshakeType.HelloRequest HandshakePayload.HelloRequest"

definition fn_client_hello ::
  "ProtocolVersion \<Rightarrow> Random \<Rightarrow> SessionID \<Rightarrow> CipherSuite list \<Rightarrow> Compression list \<Rightarrow> 'd ClientExtension list \<Rightarrow> 'd Message Fn" where
  "fn_client_hello client_version random session_id cipher_suites compression_methods extensions =
     hs_fn HandshakeType.ClientHello (HandshakePayload.ClientHello
       \<lparr>chp_client_version = client_version, chp_random = random, chp_session_id = session_id,
        chp_cipher_suites = cipher_suites, chp_compression_methods = compression_methods, chp_extensions = extensions\<rparr>)"

definition fn_server_hello ::
  "ProtocolVersion \<Rightarrow> Random \<Rightarrow> SessionID \<Rightarrow> CipherSuite \<Rightarrow> Compression \<Rightarrow> ServerExtension list \<Rightarrow> 'd Message Fn" where
  "fn_server_hello legacy_version random session_id cipher_suite compression_method extensions =
     hs_fn HandshakeType.ServerHello (HandshakePayload.ServerHello
       \<lparr>shp_legacy_version = legacy_version, shp_random = random, shp_session_id = session_id,
        shp_cipher_suite = cipher_suite, shp_compression_method = compression_method, shp_extensions = extensions\<rparr>)"

definition fn_new_session_ticket :: "u64 \<Rightarrow> bytes \<Rightarrow> 'd Message Fn" where
  "fn_new_session_ticket lifetime_hint ticket =
     hs_fn HandshakeType.NewSessionTicket (HandshakePayload.NewSessionTicket
       \<lparr>nst_lifetime_hint = ucast lifetime_hint, nst_ticket = ticket\<rparr>)"

definition fn_new_session_ticket13 :: "bytes \<Rightarrow> bytes \<Rightarrow> NewSessionTicketExtension list \<Rightarrow> 'd Message Fn" where
  "fn_new_session_ticket13 nonce ticket extensions =
     hs_fn HandshakeType.NewSessionTicket (HandshakePayload.NewSessionTicketTLS13
       \<lparr>nst13_lifetime = 10, nst13_age_add = 12, nst13_nonce = nonce, nst13_ticket = ticket, nst13_exts = extensions\<rparr>)"

definition fn_hello_retry_request ::
  "ProtocolVersion \<Rightarrow> SessionID \<Rightarrow> CipherSuite \<Rightarrow> HelloRetryExtension list \<Rightarrow> 'd Message Fn" where
  "fn_hello_retry_request legacy_version session_id cipher_suite extensions =
     hs_fn HandshakeType.HelloRetryRequest (HandshakePayload.HelloRetryRequest
       \<lparr>hrr_legacy_version = legacy_version, hrr_session_id = session_id, hrr_cipher_suite = cipher_suite,
        hrr_extensions = extensions\<rparr>)"

definition fn_encrypted_extensions :: "ServerExtension list \<Rightarrow> 'd Message Fn" where
  "fn_encrypted_extensions server_extensions =
     hs_fn HandshakeType.EncryptedExtensions (HandshakePayload.EncryptedExtensions server_extensions)"

definition fn_certificate :: "Certificate list \<Rightarrow> 'd Message Fn" where
  "fn_certificate certs = hs_fn HandshakeType.Certificate (HandshakePayload.Certificate certs)"

definition fn_certificate13 :: "bytes \<Rightarrow> CertificateEntry list \<Rightarrow> 'd Message Fn" where
  "fn_certificate13 context entries =
     hs_fn HandshakeType.Certificate (HandshakePayload.CertificateTLS13 \<lparr>cp13_context = context, cp13_entries = entries\<rparr>)"

definition fn_server_key_exchange :: "bytes \<Rightarrow> 'd Message Fn" where
  "fn_server_key_exchange data =
     hs_fn HandshakeType.ServerKeyExchange (HandshakePayload.ServerKeyExchange (ServerKeyExchangePayload.Unknown data))"

definition fn_certificate_request :: "'d Message Fn" where
  "fn_certificate_request =
     hs_fn HandshakeType.CertificateRequest (HandshakePayload.CertificateRequest
       \<lparr>crp_certtypes = [ClientCertificateType.RSASign], crp_sigschemes = [SignatureScheme.ED25519],
        crp_canames = [ascii ''some ca name?'']\<rparr>)"

definition fn_certificate_request13 :: "bytes \<Rightarrow> CertReqExtension list \<Rightarrow> 'd Message Fn" where
  "fn_certificate_request13 context extensions =
     hs_fn HandshakeType.CertificateRequest (HandshakePayload.CertificateRequestTLS13
       \<lparr>crp13_context = context, crp13_extensions = extensions\<rparr>)"

definition fn_server_hello_done :: "'d Message Fn" where
  "fn_server_hello_done = hs_fn HandshakeType.ServerHelloDone HandshakePayload.ServerHelloDone"

definition fn_certificate_verify :: "SignatureScheme \<Rightarrow> bytes \<Rightarrow> 'd Message Fn" where
  "fn_certificate_verify scheme signature =
     hs_fn HandshakeType.CertificateVerify (HandshakePayload.CertificateVerify \<lparr>dss_scheme = scheme, dss_sig = signature\<rparr>)"

definition fn_client_key_exchange :: "bytes \<Rightarrow> 'd Message Fn" where
  "fn_client_key_exchange encoded_pubkey_data =
     hs_fn HandshakeType.ClientKeyExchange (HandshakePayload.ClientKeyExchange encoded_pubkey_data)"

definition fn_finished :: "bytes \<Rightarrow> 'd Message Fn" where
  "fn_finished verify_data = hs_fn HandshakeType.Finished (HandshakePayload.Finished verify_data)"

definition fn_certificate_status :: "bytes \<Rightarrow> 'd Message Fn" where
  "fn_certificate_status ocsp_response =
     hs_fn HandshakeType.CertificateStatus (HandshakePayload.CertificateStatus \<lparr>cs_ocsp_response = ocsp_response\<rparr>)"

definition fn_key_update :: "'d Message Fn" where
  "fn_key_update = hs_fn HandshakeType.KeyUpdate (HandshakePayload.KeyUpdate KeyUpdateRequest.UpdateRequested)"

definition fn_key_update_not_requested :: "'d Message Fn" where
  "fn_key_update_not_requested =
     hs_fn HandshakeType.KeyUpdate (HandshakePayload.KeyUpdate KeyUpdateRequest.UpdateNotRequested)"

definition fn_message_hash :: "bytes \<Rightarrow> 'd Message Fn" where
  "fn_message_hash hash = hs_fn HandshakeType.MessageHash (HandshakePayload.MessageHash hash)"

end
