(* ===== verification/Tls_Fn_Crypto.thy ===== *)
theory Tls_Fn_Crypto
  imports Tls_Fn_Messages
begin

text \<open>
  Function symbols of the attacker, second part: \<open>fn_fields.rs\<close>, \<open>fn_utils.rs\<close>, \<open>fn_transcript.rs\<close> and \<open>fn_cert.rs\<close> of
  \<open>tlspuffin/src/tls/\<close>. They compute fields of messages, transcripts, keys and signatures with the model of the TLS stack; \<open>R\<close> is
  ring and \<open>W\<close> webpki. The certificates that the program embeds from files are the record \<open>static_certs\<close>.
\<close>

record static_certs =
  BOB_CERT :: bytes
  BOB_PRIVATE_KEY :: bytes
  ALICE_CERT :: bytes
  ALICE_PRIVATE_KEY :: bytes
  EVE_CERT :: bytes
  RANDOM_EC_CERT :: bytes

subsection \<open>Fields\<close>

definition fn_protocol_version13 :: "ProtocolVersion Fn" where
  "fn_protocol_version13 = Inr ProtocolVersion.TLSv1_3"

definition fn_protocol_version12 :: "ProtocolVersion Fn" where
  "fn_protocol_version12 = Inr ProtocolVersion.TLSv1_2"

definition fn_new_session_id :: "SessionID Fn" where
  "fn_new_session_id =
     (let id = 32 # replicate 32 3
      in ok_or (FnError.Unknown ''Failed to create session id'') (map_option fst (SessionID_read (Reader_init id))))"

definition fn_empty_session_id :: "SessionID Fn" where
  "fn_empty_session_id = (let id = [0] in or_panic (map_option fst (SessionID_read (Reader_init id))))"

definition fn_new_random :: "Random Fn" where
  "fn_new_random = (let random_data = replicate 32 1 in Inr random_data)"

definition fn_compressions :: "Compression list Fn" where
  "fn_compressions = Inr [Compression.Null]"

definition fn_compression :: "Compression Fn" where
  "fn_compression = Inr Compression.Null"

definition fn_no_key_share :: "bytes option Fn" where
  "fn_no_key_share = Inr None"

definition fn_get_server_key_share :: "ServerExtension list \<Rightarrow> bytes option Fn" where
  "fn_get_server_key_share server_extensions =
     bind_sum (ok_or (FnError.Unknown ''KeyShare extension not found'')
       (ServerExtensions_find_extension server_extensions ExtensionType.KeyShare)) (\<lambda>server_extension.
       case server_extension of
         ServerExtension.KeyShare keyshare \<Rightarrow> Inr (Some (kse_payload keyshare))
       | _ \<Rightarrow> Inl (FnError.Unknown ''KeyShare extension not found''))"

definition fn_get_client_key_share :: "'d ClientExtension list \<Rightarrow> NamedGroup \<Rightarrow> bytes option Fn" where
  "fn_get_client_key_share client_extensions grp =
     bind_sum (ok_or (FnError.Unknown ''KeyShare extension not found'')
       (find (\<lambda>x. ClientExtension_get_type x = ExtensionType.KeyShare) client_extensions)) (\<lambda>client_extension.
       case client_extension of
         ClientExtension.KeyShare keyshares \<Rightarrow>
           bind_sum (ok_or (FnError.Unknown ''Keyshare not found'') (find (\<lambda>keyshare. kse_group keyshare = grp) keyshares))
             (\<lambda>keyshare. Inr (Some (kse_payload keyshare)))
       | _ \<Rightarrow> Inl (FnError.Unknown ''KeyShare extension not found''))"

definition fn_get_any_client_curve :: "'d ClientExtension list \<Rightarrow> NamedGroup Fn" where
  "fn_get_any_client_curve client_extensions =
     bind_sum (ok_or (FnError.Unknown ''KeyShare extension not found'')
       (find (\<lambda>x. ClientExtension_get_type x = ExtensionType.KeyShare) client_extensions)) (\<lambda>client_extension.
       case client_extension of
         ClientExtension.KeyShare keyshares \<Rightarrow>
           bind_sum (ok_or (FnError.Unknown ''Keyshare not found'')
             (case keyshares of [] \<Rightarrow> None | keyshare # _ \<Rightarrow> Some keyshare)) (\<lambda>keyshare. Inr (kse_group keyshare))
       | _ \<Rightarrow> Inl (FnError.Unknown ''KeyShare extension not found''))"

definition fn_verify_data ::
  "Ring \<Rightarrow> HandshakeHash \<Rightarrow> HandshakeHash \<Rightarrow> bytes option \<Rightarrow> bytes option \<Rightarrow> NamedGroup \<Rightarrow> bytes Fn" where
  "fn_verify_data R server_finished server_hello server_key_share psk grp =
     (let suite = TLS13_AES_128_GCM_SHA256
      in bind_sum (dhe_key_schedule R suite grp server_key_share psk) (\<lambda>key_schedule.
         case derive_handshake_secrets R key_schedule (get_current_hash_raw R server_hello) of (hs, _, _) \<Rightarrow>
         case into_traffic_with_client_finished_pending_raw R hs (get_current_hash_raw R server_hello) of (pending, _, _) \<Rightarrow>
         case sign_client_finish_raw R pending (get_current_hash_raw R server_finished) of (_, tag, _) \<Rightarrow> Inr tag))"

definition fn_verify_data_server ::
  "Ring \<Rightarrow> HandshakeHash \<Rightarrow> HandshakeHash \<Rightarrow> bytes option \<Rightarrow> NamedGroup \<Rightarrow> bytes option \<Rightarrow> bytes Fn" where
  "fn_verify_data_server R server_finished server_hello server_key_share grp psk =
     (let suite = TLS13_AES_128_GCM_SHA256
      in bind_sum (dhe_key_schedule R suite grp server_key_share psk) (\<lambda>key_schedule.
         case derive_handshake_secrets R key_schedule (get_current_hash_raw R server_hello) of (hs, _, _) \<Rightarrow>
           Inr (sign_server_finish_raw R hs (get_current_hash_raw R server_finished))))"

definition fn_sign_transcript :: "Ring \<Rightarrow> Random \<Rightarrow> bytes \<Rightarrow> HandshakeHash \<Rightarrow> NamedGroup \<Rightarrow> bytes Fn" where
  "fn_sign_transcript R server_random server_ecdh_pubkey transcript grp =
     bind_sum (tls12_new_secrets R server_random server_ecdh_pubkey grp) (\<lambda>secrets.
       let vh = get_current_hash R transcript in Inr (client_verify_data R secrets vh))"

definition fn_new_cipher_suites :: "CipherSuite list Fn" where
  "fn_new_cipher_suites = Inr []"

definition fn_append_cipher_suite :: "CipherSuite list \<Rightarrow> CipherSuite \<Rightarrow> CipherSuite list Fn" where
  "fn_append_cipher_suite suites suite = Inr (suites @ [suite])"

definition fn_cipher_suite12 :: "CipherSuite Fn" where
  "fn_cipher_suite12 = Inr CS_TLS_ECDHE_RSA_WITH_AES_128_GCM_SHA256"

definition fn_cipher_suite13_aes_128_gcm_sha256 :: "CipherSuite Fn" where
  "fn_cipher_suite13_aes_128_gcm_sha256 = Inr CS_TLS13_AES_128_GCM_SHA256"

definition fn_cipher_suite13_aes_256_gcm_sha384 :: "CipherSuite Fn" where
  "fn_cipher_suite13_aes_256_gcm_sha384 = Inr CS_TLS13_AES_256_GCM_SHA384"

definition fn_cipher_suite13_aes_128_ccm_sha256 :: "CipherSuite Fn" where
  "fn_cipher_suite13_aes_128_ccm_sha256 = Inr (CipherSuite.Known 0x1304)"

definition fn_weak_export_cipher_suite :: "CipherSuite Fn" where
  "fn_weak_export_cipher_suite = Inr (CipherSuite.Known 0x0008)"

definition fn_secure_rsa_cipher_suite12 :: "CipherSuite Fn" where
  "fn_secure_rsa_cipher_suite12 = Inr (CipherSuite.Known 0x003d)"

subsection \<open>Transcripts and TLS 1.3\<close>

definition fn_new_transcript :: "HandshakeHash Fn" where
  "fn_new_transcript =
     (let suite = TLS13_AES_128_GCM_SHA256 in Inr (HandshakeHash_new (SupportedCipherSuite_hash_algorithm suite)))"

definition fn_append_transcript :: "HandshakeHash \<Rightarrow> 'd Message \<Rightarrow> HandshakeHash Fn" where
  "fn_append_transcript transcript message = Inr (HandshakeHash_add_message transcript message)"

definition fn_decrypt_handshake ::
  "Ring \<Rightarrow> (bytes \<Rightarrow> 'd option) \<Rightarrow> 'd Message \<Rightarrow> HandshakeHash \<Rightarrow> bytes option \<Rightarrow> bytes option \<Rightarrow> NamedGroup \<Rightarrow> bool \<Rightarrow> u64
     \<Rightarrow> 'd Message Fn" where
  "fn_decrypt_handshake R dns application_data server_hello_transcript server_key_share psk grp client seq =
     bind_sum (tls13_handshake_traffic_secret R server_hello_transcript server_key_share psk (\<not> client) grp) (\<lambda>(suite, key, _).
     bind_sum (ok_or (Crypto ''No tls 1.3 suite'') (SupportedCipherSuite_tls13 suite)) (\<lambda>suite.
       let decrypter = derive_decrypter R suite key
       in bind_sum (map_err (\<lambda>_. Crypto ''Failed to decrypt it fn_decrypt_handshake'')
            (decrypter (into_unencrypted_opaque (PlainMessage_from application_data)) seq)) (\<lambda>message.
          map_err (\<lambda>_. Crypto ''Failed to create Message from decrypted data'') (Message_try_from dns message))))"

definition fn_no_psk :: "bytes option Fn" where
  "fn_no_psk = Inr None"

definition fn_psk :: "bytes \<Rightarrow> bytes option Fn" where
  "fn_psk some = Inr (Some some)"

definition fn_decrypt_application ::
  "Ring \<Rightarrow> (bytes \<Rightarrow> 'd option) \<Rightarrow> 'd Message \<Rightarrow> HandshakeHash \<Rightarrow> HandshakeHash \<Rightarrow> bytes option \<Rightarrow> bytes option \<Rightarrow> NamedGroup
     \<Rightarrow> bool \<Rightarrow> u64 \<Rightarrow> 'd Message Fn" where
  "fn_decrypt_application R dns application_data server_hello_transcript server_finished_transcript server_key_share psk grp
       client seq =
     bind_sum (tls13_application_traffic_secret R server_hello_transcript server_finished_transcript server_key_share psk grp
       (\<not> client)) (\<lambda>(suite, key, _).
     bind_sum (ok_or (Crypto ''No tls 1.3 suite'') (SupportedCipherSuite_tls13 suite)) (\<lambda>suite.
       let decrypter = derive_decrypter R suite key
       in bind_sum (map_err (\<lambda>_. Crypto ''Failed to decrypt it fn_decrypt_application'')
            (decrypter (into_unencrypted_opaque (PlainMessage_from application_data)) seq)) (\<lambda>message.
          map_err (\<lambda>_. Crypto ''Failed to create Message from decrypted data'') (Message_try_from dns message))))"

definition fn_encrypt_handshake ::
  "Ring \<Rightarrow> 'd Message \<Rightarrow> HandshakeHash \<Rightarrow> bytes option \<Rightarrow> bytes option \<Rightarrow> NamedGroup \<Rightarrow> bool \<Rightarrow> u64 \<Rightarrow> OpaqueMessage Fn" where
  "fn_encrypt_handshake R some_message server_hello server_key_share psk grp client seq =
     bind_sum (tls13_handshake_traffic_secret R server_hello server_key_share psk client grp) (\<lambda>(suite, key, _).
     bind_sum (ok_or (Crypto ''No tls 1.3 suite'') (SupportedCipherSuite_tls13 suite)) (\<lambda>suite.
       let encrypter = derive_encrypter R suite key
       in map_err (\<lambda>_. Crypto ''Failed to encrypt it fn_encrypt_handshake'')
            (encrypter (PlainMessage_from some_message) seq)))"

definition fn_encrypt_application ::
  "Ring \<Rightarrow> 'd Message \<Rightarrow> HandshakeHash \<Rightarrow> HandshakeHash \<Rightarrow> bytes option \<Rightarrow> bytes option \<Rightarrow> NamedGroup \<Rightarrow> u64 \<Rightarrow> OpaqueMessage Fn" where
  "fn_encrypt_application R some_message server_hello_transcript server_finished_transcript server_key_share psk grp seq =
     bind_sum (tls13_application_traffic_secret R server_hello_transcript server_finished_transcript server_key_share psk grp True)
       (\<lambda>(suite, key, _).
     bind_sum (ok_or (Crypto ''No tls 1.3 suite'') (SupportedCipherSuite_tls13 suite)) (\<lambda>suite.
       let encrypter = derive_encrypter R suite key
       in map_err (\<lambda>_. Crypto ''Failed to encrypt it fn_encrypt_application'')
            (encrypter (PlainMessage_from some_message) seq)))"

definition fn_derive_psk ::
  "Ring \<Rightarrow> HandshakeHash \<Rightarrow> HandshakeHash \<Rightarrow> HandshakeHash \<Rightarrow> bytes option \<Rightarrow> bytes \<Rightarrow> NamedGroup \<Rightarrow> bytes Fn" where
  "fn_derive_psk R server_hello server_finished client_finished server_key_share new_ticket_nonce grp =
     bind_sum (tls13_derive_psk R server_hello server_finished client_finished server_key_share new_ticket_nonce grp) Inr"

definition fn_derive_binder :: "Ring \<Rightarrow> 'd Message \<Rightarrow> bytes \<Rightarrow> bytes Fn" where
  "fn_derive_binder R full_client_hello psk =
     bind_sum (ok_or (FnError.Unknown ''Only can fill binder in HandshakeMessagePayload'')
       (case msg_payload full_client_hello of MessagePayload.Handshake payload \<Rightarrow> Some payload | _ \<Rightarrow> None))
       (\<lambda>client_hello_payload.
     let suite = TLS13_AES_128_GCM_SHA256
     in bind_sum (ok_or (Crypto ''No tls 1.3 suite'') (SupportedCipherSuite_tls13 suite)) (\<lambda>suite13.
          let hkdf_alg = cs13_hkdf_algorithm suite13;
              suite_hash = SupportedCipherSuite_hash_algorithm suite;
              transcript = HandshakeHash_new suite_hash;
              binder_plaintext = HandshakeMessagePayload_get_encoding_for_binder_signing client_hello_payload;
              handshake_hash = HandshakeHash_get_hash_given R transcript binder_plaintext;
              key_schedule = KeyScheduleEarly_new R hkdf_alg psk
          in Inr (resumption_psk_binder_key_and_sign_verify_data R key_schedule handshake_hash)))"

definition fn_fill_binder :: "'d Message \<Rightarrow> bytes \<Rightarrow> 'd Message Fn" where
  "fn_fill_binder full_client_hello bnd =
     (case msg_payload full_client_hello of
        MessagePayload.Handshake payload \<Rightarrow>
          (case hmp_payload payload of
             HandshakePayload.ClientHello payload \<Rightarrow>
               bind_sum (or_panic (ClientHelloPayload_set_psk_binder payload bnd)) (\<lambda>new_payload.
                 Inr \<lparr>msg_version = msg_version full_client_hello,
                   msg_payload = MessagePayload.Handshake
                     \<lparr>hmp_typ = HandshakeType.ClientHello, hmp_payload = HandshakePayload.ClientHello new_payload\<rparr>\<rparr>)
           | _ \<Rightarrow> Inl (FnError.Unknown ''Could not find ticket in message''))
      | _ \<Rightarrow> Inl (FnError.Unknown ''Could not find ticket in message''))"

text \<open>The match that the three readers of a TLS 1.3 ticket share.\<close>

definition ticket13 :: "'d Message \<Rightarrow> NewSessionTicketPayloadTLS13 Fn" where
  "ticket13 new_ticket =
     (case msg_payload new_ticket of
        MessagePayload.Handshake payload \<Rightarrow>
          (case hmp_payload payload of
             HandshakePayload.NewSessionTicketTLS13 payload \<Rightarrow> Inr payload
           | _ \<Rightarrow> Inl (FnError.Unknown ''Could not find ticket in message''))
      | _ \<Rightarrow> Inl (FnError.Unknown ''Could not find ticket in message''))"

definition fn_get_ticket :: "'d Message \<Rightarrow> bytes Fn" where
  "fn_get_ticket new_ticket = bind_sum (ticket13 new_ticket) (\<lambda>payload. Inr (nst13_ticket payload))"

definition fn_get_ticket_age_add :: "'d Message \<Rightarrow> u64 Fn" where
  "fn_get_ticket_age_add new_ticket = bind_sum (ticket13 new_ticket) (\<lambda>payload. Inr (ucast (nst13_age_add payload)))"

definition fn_get_ticket_nonce :: "'d Message \<Rightarrow> bytes Fn" where
  "fn_get_ticket_nonce new_ticket = bind_sum (ticket13 new_ticket) (\<lambda>payload. Inr (nst13_nonce payload))"

subsection \<open>TLS 1.2\<close>

definition fn_new_transcript12 :: "HandshakeHash Fn" where
  "fn_new_transcript12 =
     (let suite = TLS_ECDHE_RSA_WITH_AES_128_GCM_SHA256 in Inr (HandshakeHash_new (SupportedCipherSuite_hash_algorithm suite)))"

definition fn_decode_ecdh_pubkey :: "bytes \<Rightarrow> bytes Fn" where
  "fn_decode_ecdh_pubkey data =
     (let rd = Reader_init data
      in bind_sum (ok_or (FnError.Unknown ''Failed to parse ecdh public key'') (ServerECDHParams_read rd)) (\<lambda>(params, _).
           Inr (sep_public params)))"

definition fn_new_pubkey12 :: "Ring \<Rightarrow> NamedGroup \<Rightarrow> bytes Fn" where
  "fn_new_pubkey12 R grp = bind_sum (tls12_key_exchange R grp) (\<lambda>kx. Inr (kx_pubkey kx))"

definition fn_encode_ec_pubkey12 :: "bytes \<Rightarrow> bytes Fn" where
  "fn_encode_ec_pubkey12 pubkey = (let ecpoint = pubkey in Inr (PayloadU8_encode ecpoint []))"

definition fn_encrypt12 ::
  "Ring \<Rightarrow> 'd Message \<Rightarrow> Random \<Rightarrow> bytes \<Rightarrow> NamedGroup \<Rightarrow> bool \<Rightarrow> u64 \<Rightarrow> OpaqueMessage Fn" where
  "fn_encrypt12 R message server_random server_ecdh_pubkey grp client seq =
     bind_sum (tls12_new_secrets R server_random server_ecdh_pubkey grp) (\<lambda>secrets.
     bind_sum (or_panic (make_cipher_pair R secrets (if client then Side.Client else Side.Server))) (\<lambda>(_, encrypter).
       map_err (\<lambda>_. Crypto ''Failed to encrypt it fn_encrypt12'') (encrypter (PlainMessage_from message) seq)))"

subsection \<open>Certificates\<close>

fun hex_digit :: "char \<Rightarrow> u8 option" where
  "hex_digit c =
     (let n = of_char c :: nat
      in if 48 \<le> n \<and> n \<le> 57 then Some (word_of_nat (n - 48))
         else if 97 \<le> n \<and> n \<le> 102 then Some (word_of_nat (n - 87))
         else if 65 \<le> n \<and> n \<le> 70 then Some (word_of_nat (n - 55))
         else None)"

fun hex_decode :: "string \<Rightarrow> bytes option" where
  "hex_decode [] = Some []"
| "hex_decode [_] = None"
| "hex_decode (a # b # cs) =
     do { h \<leftarrow> hex_digit a; l \<leftarrow> hex_digit b; bs \<leftarrow> hex_decode cs; Some ((16 * h + l) # bs) }"

definition fn_new_certificate :: "Certificate Fn" where
  "fn_new_certificate =
     (let der_cert = hex_decode (
      ''308203473082022fa003020102021406f7fb1d20b39f71b9a222e8f03a0ab0a79ec54d300d06092a864886f70d01010b0500'' @
      ''3033310b30090603550406130241553113301106035504080c0a536f6d652d5374617465310f300d060355040a0c06486163'' @
      ''6b6572301e170d3231303731393135323135355a170d3232303731393135323135355a3033310b3009060355040613024155'' @
      ''3113301106035504080c0a536f6d652d5374617465310f300d060355040a0c064861636b657230820122300d06092a864886'' @
      ''f70d01010105000382010f003082010a0282010100b7e0f550fa3a22d6dea0278b03e806a561f283e9bfc20c2b6cef8ae0c7'' @
      ''c7e665813fda782a7a27745669044fe0e6627ec89fa63914df8017d1a52b85057c318512242ad9416b957d74f06263fab9c7'' @
      ''5c0cb039c2256a4254b41863fa5d8f73114eaa1ccde793d68ddae7254868d38341768104c9f673262b8bc958cab2a4d76354'' @
      ''7d744979adfec46497e5b8daf322c5332a86683abc0a034592436c18321720800baac3c555606ecb1c2aa2b279ddf33f6530'' @
      ''09f6bd41f7e508f5e53613e9543a865934c288ec9558af93d710b093b5f58e053117d3b5a860e489ee5e9cb46ac76b639533'' @
      ''ae06ff2d40f476a7f58a90c139d7c03e17a85ec1426ae1f5b7bbad0203010001a3533051301d0603551d0e04160414f31e25'' @
      ''6fa78c3cc82c01f1bf46c9b2bfb6b39da7301f0603551d23041830168014f31e256fa78c3cc82c01f1bf46c9b2bfb6b39da7'' @
      ''300f0603551d130101ff040530030101ff300d06092a864886f70d01010b05000382010100aacd9f5f166718736c2290f6dc'' @
      ''bec1ff19c2f5ab3390e253fbf6ad3acdcf192a7b8a18f624244b85b68e9bf49dbce18005edb77a271dc6edd7afb427689829'' @
      ''f190385b99f44f58ab901bf269a1b29eb9fc5603dfd67452544ec19fa51c2af29e4ce2667b778262abad12cca57f8c8a6ab1'' @
      ''db573092640eda09ec6a001f48c8fa9996c90f0ae6726b12c69b59e18bc16c9c116a373aabdc4bb62b41c77859d2909eba99'' @
      ''36161df1ba38891e9bddec0f196bdcfc9a8801d4e066d4b258a9c072c6f4f13a80da85c75102b7cecae60987997c6b8c356b'' @
      ''ef671e44bc3aceb6e15590befb11b76efb6ee89c69820b91e1ba9d11d0324e961e9b0cb98e38ea2414ae94'')
      in ok_or (FnError.Unknown ''Failed to load DER certificate'') der_cert)"

definition fn_new_certificates :: "Certificate list Fn" where
  "fn_new_certificates = Inr []"

definition fn_append_certificate :: "Certificate list \<Rightarrow> Certificate \<Rightarrow> Certificate list Fn" where
  "fn_append_certificate certs cert = Inr (certs @ [cert])"

definition fn_new_certificate_entries :: "CertificateEntry list Fn" where
  "fn_new_certificate_entries = Inr []"

definition fn_append_certificate_entry_utils ::
  "CertificateEntry list \<Rightarrow> Certificate \<Rightarrow> CertificateExtension list \<Rightarrow> CertificateEntry list Fn" where
  "fn_append_certificate_entry_utils certs cert extensions = Inr (certs @ [\<lparr>ce_cert = cert, ce_exts = extensions\<rparr>])"

definition fn_named_group_secp384r1 :: "NamedGroup Fn" where
  "fn_named_group_secp384r1 = Inr NamedGroup.secp384r1"

definition fn_named_group_x25519 :: "NamedGroup Fn" where
  "fn_named_group_x25519 = Inr NamedGroup.X25519"

text \<open>A claim's transcript is taken as the hash, whatever is computed otherwise; the slice panics if its length is out of range.\<close>

definition fn_transcript :: "TlsTranscript \<Rightarrow> HandshakeHash Fn" where
  "fn_transcript claim =
     (let algorithm = SupportedCipherSuite_hash_algorithm TLS13_AES_128_GCM_SHA256
      in bind_sum (or_panic (Transcript_as_slice claim)) (\<lambda>slice. Inr (HandshakeHash_new_override slice algorithm)))"

definition fn_server_hello_transcript :: "TlsTranscript \<Rightarrow> HandshakeHash Fn" where
  "fn_server_hello_transcript claim = fn_transcript claim"

definition fn_client_finished_transcript :: "TlsTranscript \<Rightarrow> HandshakeHash Fn" where
  "fn_client_finished_transcript claim = fn_transcript claim"

definition fn_server_finished_transcript :: "TlsTranscript \<Rightarrow> HandshakeHash Fn" where
  "fn_server_finished_transcript claim = fn_transcript claim"

definition fn_certificate_transcript :: "TlsTranscript \<Rightarrow> HandshakeHash Fn" where
  "fn_certificate_transcript claim = fn_transcript claim"

definition fn_bob_cert :: "static_certs \<Rightarrow> bytes Fn" where "fn_bob_cert certs = Inr (BOB_CERT certs)"
definition fn_bob_key :: "static_certs \<Rightarrow> bytes Fn" where "fn_bob_key certs = Inr (BOB_PRIVATE_KEY certs)"
definition fn_alice_cert :: "static_certs \<Rightarrow> bytes Fn" where "fn_alice_cert certs = Inr (ALICE_CERT certs)"
definition fn_alice_key :: "static_certs \<Rightarrow> bytes Fn" where "fn_alice_key certs = Inr (ALICE_PRIVATE_KEY certs)"
definition fn_eve_cert :: "static_certs \<Rightarrow> bytes Fn" where "fn_eve_cert certs = Inr (EVE_CERT certs)"
definition fn_random_ec_cert :: "static_certs \<Rightarrow> bytes Fn" where "fn_random_ec_cert certs = Inr (RANDOM_EC_CERT certs)"

definition fn_certificate_entry :: "bytes \<Rightarrow> CertificateEntry Fn" where
  "fn_certificate_entry cert = Inr \<lparr>ce_cert = cert, ce_exts = []\<rparr>"

definition fn_empty_certificate_chain :: "CertificateEntry list Fn" where
  "fn_empty_certificate_chain = Inr []"

definition fn_append_certificate_entry :: "CertificateEntry \<Rightarrow> CertificateEntry list \<Rightarrow> CertificateEntry list Fn" where
  "fn_append_certificate_entry cert chain = Inr (chain @ [cert])"

definition fn_get_context :: "'d Message \<Rightarrow> bytes Fn" where
  "fn_get_context certificate_request =
     (case msg_payload certificate_request of
        MessagePayload.Handshake payload \<Rightarrow>
          (case hmp_payload payload of
             HandshakePayload.CertificateRequestTLS13 payload \<Rightarrow> Inr (crp13_context payload)
           | _ \<Rightarrow> Inl (FnError.Unknown ''Could not find context in message''))
      | _ \<Rightarrow> Inl (FnError.Unknown ''Could not find context in message''))"

definition fn_eve_pkcs1_signature :: "bytes Fn" where
  "fn_eve_pkcs1_signature =
     Inr [
      78, 243, 129, 112, 207, 119, 126, 103, 15, 194, 242, 254, 105, 174, 85, 77, 148, 45, 90, 108, 6, 195, 126, 192,
      98, 155, 15, 226, 33, 91, 215, 141, 70, 134, 14, 101, 65, 155, 182, 229, 25, 55, 148, 22, 177, 23, 250, 46,
      158, 168, 74, 236, 111, 42, 211, 136, 167, 240, 65, 136, 119, 221, 194, 51, 221, 77, 204, 115, 193, 111, 82,
      171, 177, 79, 173, 135, 229, 63, 103, 222, 181, 84, 123, 233, 212, 77, 47, 241, 199, 157, 46, 114, 141, 33,
      186, 136, 250, 78, 29, 93, 120, 240, 204, 153, 46, 117, 56, 186, 69, 70, 178, 124, 141, 239, 140, 40, 57, 51,
      87, 75, 214, 6, 13, 234, 36, 79, 44, 143, 171, 236, 11, 140, 131, 212, 26, 112, 127, 31, 22, 26, 197, 105, 91,
      159, 100, 160, 133, 120, 131, 84, 180, 191, 226, 66, 178, 9, 141, 41, 61, 62, 36, 190, 101, 191, 174, 144, 142,
      150, 112, 204, 84, 117, 72, 42, 181, 131, 216, 51, 81, 177, 197, 233, 252, 77, 60, 111, 250, 8, 62, 106, 76,
      205, 230, 169, 233, 128, 45, 230, 140, 195, 70, 240, 229, 129, 175, 236, 28, 169, 34, 49, 148, 42, 230, 236,
      89, 176, 199, 197, 229, 235, 251, 151, 190, 208, 73, 165, 179, 229, 131, 201, 3, 147, 51, 1, 46, 110, 30, 62,
      94, 80, 87, 192, 117, 84, 223, 77, 11, 236, 38, 52, 108, 233, 118, 168, 124, 196
     ]"

text \<open>A key that ring rejects is an error; \<open>RsaSigner::new\<close> panics on other schemes, which were excluded before.\<close>

definition fn_rsa_sign :: "('c, 'n) Webpki \<Rightarrow> bytes \<Rightarrow> bytes \<Rightarrow> SignatureScheme \<Rightarrow> bytes Fn" where
  "fn_rsa_sign W message private_key scheme =
     (let invalid_scheme = scheme \<notin>
            {SignatureScheme.RSA_PKCS1_SHA256, SignatureScheme.RSA_PKCS1_SHA384, SignatureScheme.RSA_PKCS1_SHA512,
             SignatureScheme.RSA_PSS_SHA256, SignatureScheme.RSA_PSS_SHA384, SignatureScheme.RSA_PSS_SHA512}
      in if invalid_scheme then Inl (Crypto ''Unknown signature scheme'')
         else
           bind_sum (ok_or (Crypto ''Failed to parse rsa key.'') (rsa_from_der W private_key)) (\<lambda>key.
           bind_sum (or_panic (RsaSigner_new key scheme 43)) (\<lambda>signer.
             map_err (\<lambda>_. Crypto ''Failed to sign using RSA key'') (Signer_sign W signer message))))"

definition fn_rsa_sign_client :: "Ring \<Rightarrow> ('c, 'n) Webpki \<Rightarrow> HandshakeHash \<Rightarrow> bytes \<Rightarrow> SignatureScheme \<Rightarrow> bytes Fn" where
  "fn_rsa_sign_client R W transcript private_key scheme =
     fn_rsa_sign W (construct_tls13_client_verify_message_raw (get_current_hash_raw R transcript)) private_key scheme"

definition fn_rsa_sign_server :: "Ring \<Rightarrow> ('c, 'n) Webpki \<Rightarrow> HandshakeHash \<Rightarrow> bytes \<Rightarrow> SignatureScheme \<Rightarrow> bytes Fn" where
  "fn_rsa_sign_server R W transcript private_key scheme =
     fn_rsa_sign W (construct_tls13_server_verify_message_raw (get_current_hash_raw R transcript)) private_key scheme"

definition fn_ecdsa_sign :: "('c, 'n) Webpki \<Rightarrow> bytes \<Rightarrow> bytes \<Rightarrow> bytes Fn" where
  "fn_ecdsa_sign W message private_key =
     bind_sum (or_panic (EcdsaSigningKey_new W private_key SignatureScheme.ECDSA_NISTP256_SHA256 ECDSA_P256_SHA256_ASN1_SIGNING))
       (\<lambda>parsed.
     bind_sum (ok_or (Crypto ''Failed to parse ecdsa key.'') parsed) (\<lambda>key.
     bind_sum (or_panic (choose_scheme key [SignatureScheme.ECDSA_NISTP256_SHA256] 43)) (\<lambda>chosen.
     bind_sum (ok_or (Crypto ''Failed to find signature scheme.'') chosen) (\<lambda>signer.
       map_err (\<lambda>_. Crypto ''Failed to sign using ECDHE key'') (Signer_sign W signer message)))))"

definition fn_ecdsa_sign_client :: "Ring \<Rightarrow> ('c, 'n) Webpki \<Rightarrow> HandshakeHash \<Rightarrow> bytes \<Rightarrow> bytes Fn" where
  "fn_ecdsa_sign_client R W transcript private_key =
     (let message = construct_tls13_client_verify_message_raw (get_current_hash_raw R transcript)
      in fn_ecdsa_sign W message private_key)"

definition fn_ecdsa_sign_server :: "Ring \<Rightarrow> ('c, 'n) Webpki \<Rightarrow> HandshakeHash \<Rightarrow> bytes \<Rightarrow> bytes Fn" where
  "fn_ecdsa_sign_server R W transcript private_key =
     (let message = construct_tls13_server_verify_message_raw (get_current_hash_raw R transcript)
      in fn_ecdsa_sign W message private_key)"

definition fn_rsa_pss_signature_algorithm :: "SignatureScheme Fn" where
  "fn_rsa_pss_signature_algorithm = Inr SignatureScheme.RSA_PSS_SHA256"

definition fn_rsa_pkcs1_signature_algorithm :: "SignatureScheme Fn" where
  "fn_rsa_pkcs1_signature_algorithm = Inr SignatureScheme.RSA_PKCS1_SHA256"

definition fn_invalid_signature_algorithm :: "SignatureScheme Fn" where
  "fn_invalid_signature_algorithm = Inr (SignatureScheme.Unknown 0x0100)"

definition fn_ecdsa_signature_algorithm :: "SignatureScheme Fn" where
  "fn_ecdsa_signature_algorithm = Inr SignatureScheme.ECDSA_NISTP256_SHA256"

end
