(* ===== verification/Tls_Fn_Extensions.thy ===== *)
theory Tls_Fn_Extensions
  imports Tls_Fn_Crypto
begin

text \<open>
  Function symbols of the attacker, third part: the extensions of \<open>tlspuffin/src/tls/fn_extensions.rs\<close>. A function that
  appends to a list of extensions copies it. The parser of DNS names and the text of its error are parameters.
\<close>

definition fn_client_extensions_new :: "'d ClientExtension list Fn" where
  "fn_client_extensions_new = Inr []"

definition fn_client_extensions_append :: "'d ClientExtension list \<Rightarrow> 'd ClientExtension \<Rightarrow> 'd ClientExtension list Fn" where
  "fn_client_extensions_append extensions ext = Inr (extensions @ [ext])"

definition fn_server_extensions_new :: "ServerExtension list Fn" where
  "fn_server_extensions_new = Inr []"

definition fn_server_extensions_append :: "ServerExtension list \<Rightarrow> ServerExtension \<Rightarrow> ServerExtension list Fn" where
  "fn_server_extensions_append extensions ext = Inr (extensions @ [ext])"

definition fn_hello_retry_extensions_new :: "HelloRetryExtension list Fn" where
  "fn_hello_retry_extensions_new = Inr []"

definition fn_hello_retry_extensions_append :: "HelloRetryExtension list \<Rightarrow> HelloRetryExtension \<Rightarrow> HelloRetryExtension list Fn" where
  "fn_hello_retry_extensions_append extensions ext = Inr (extensions @ [ext])"

definition fn_cert_req_extensions_new :: "CertReqExtension list Fn" where
  "fn_cert_req_extensions_new = Inr []"

definition fn_cert_req_extensions_append :: "CertReqExtension list \<Rightarrow> CertReqExtension \<Rightarrow> CertReqExtension list Fn" where
  "fn_cert_req_extensions_append extensions ext = Inr (extensions @ [ext])"

definition fn_cert_extensions_new :: "CertificateExtension list Fn" where
  "fn_cert_extensions_new = Inr []"

definition fn_cert_extensions_append :: "CertificateExtension list \<Rightarrow> CertificateExtension \<Rightarrow> CertificateExtension list Fn" where
  "fn_cert_extensions_append extensions ext = Inr (extensions @ [ext])"

definition fn_new_session_ticket_extensions_new :: "NewSessionTicketExtension list Fn" where
  "fn_new_session_ticket_extensions_new = Inr []"

definition fn_new_session_ticket_extensions_append :: "NewSessionTicketExtension list \<Rightarrow> NewSessionTicketExtension \<Rightarrow> NewSessionTicketExtension list Fn" where
  "fn_new_session_ticket_extensions_append extensions ext = Inr (extensions @ [ext])"

definition fn_server_name_extension :: "(bytes \<Rightarrow> 'd option) \<Rightarrow> string \<Rightarrow> 'd ClientExtension Fn" where
  "fn_server_name_extension dns dns_error =
     (let dns_name = ascii ''inria.fr''
      in bind_sum (ok_or (FnError.Unknown dns_error) (dns dns_name)) (\<lambda>name.
           Inr (ClientExtension.ServerName
             [\<lparr>sn_typ = ServerNameType.HostName, sn_payload = ServerNamePayload.HostName dns_name name\<rparr>])))"

definition fn_server_name_server_extension :: "ServerExtension Fn" where
  "fn_server_name_server_extension = Inr ServerExtension.ServerNameAck"

definition fn_status_request_extension :: "bytes list \<Rightarrow> bytes \<Rightarrow> 'd ClientExtension Fn" where
  "fn_status_request_extension responder_ids extensions =
     Inr (ClientExtension.CertificateStatusRequest (CertificateStatusRequest.OCSP
       \<lparr>ocsp_responder_ids = responder_ids, ocsp_extensions = extensions\<rparr>))"

definition fn_status_request_server_extension :: "ServerExtension Fn" where
  "fn_status_request_server_extension = Inr ServerExtension.CertificateStatusAck"

definition fn_status_request_certificate_extension :: "bytes \<Rightarrow> CertificateExtension Fn" where
  "fn_status_request_certificate_extension ocsp_response =
     Inr (CertificateExtension.CertificateStatus \<lparr>cs_ocsp_response = ocsp_response\<rparr>)"

definition fn_support_group_extension :: "NamedGroup \<Rightarrow> 'd ClientExtension Fn" where
  "fn_support_group_extension grp = Inr (ClientExtension.NamedGroups [grp])"

definition fn_ec_point_formats_extension :: "'d ClientExtension Fn" where
  "fn_ec_point_formats_extension = Inr (ClientExtension.ECPointFormats [ECPointFormat.Uncompressed])"

definition fn_ec_point_formats_server_extension :: "ServerExtension Fn" where
  "fn_ec_point_formats_server_extension = Inr (ServerExtension.ECPointFormats [ECPointFormat.Uncompressed])"

definition fn_signature_algorithm_extension :: "'d ClientExtension Fn" where
  "fn_signature_algorithm_extension =
     Inr (ClientExtension.SignatureAlgorithms [SignatureScheme.RSA_PKCS1_SHA256, SignatureScheme.RSA_PSS_SHA256])"

definition fn_signature_algorithm_cert_req_extension :: "CertReqExtension Fn" where
  "fn_signature_algorithm_cert_req_extension =
     Inr (CertReqExtension.SignatureAlgorithms [SignatureScheme.RSA_PKCS1_SHA256, SignatureScheme.RSA_PSS_SHA256])"

definition fn_empty_vec_of_vec :: "bytes list Fn" where
  "fn_empty_vec_of_vec = Inr []"

definition fn_append_vec :: "bytes list \<Rightarrow> bytes \<Rightarrow> bytes list Fn" where
  "fn_append_vec vec_of_vec data = Inr (vec_of_vec @ [data])"

definition fn_al_protocol_negotiation :: "bytes list \<Rightarrow> 'd ClientExtension Fn" where
  "fn_al_protocol_negotiation protocol_name_list = Inr (ClientExtension.Protocols protocol_name_list)"

definition fn_al_protocol_server_negotiation :: "bytes list \<Rightarrow> ServerExtension Fn" where
  "fn_al_protocol_server_negotiation protocol_name_list = Inr (ServerExtension.Protocols protocol_name_list)"

definition fn_signed_certificate_timestamp_extension :: "'d ClientExtension Fn" where
  "fn_signed_certificate_timestamp_extension = Inr ClientExtension.SignedCertificateTimestampRequest"

definition fn_signed_certificate_timestamp_server_extension :: "ServerExtension Fn" where
  "fn_signed_certificate_timestamp_server_extension =
     Inr (ServerExtension.SignedCertificateTimestamp [replicate 128 42])"

definition fn_signed_certificate_timestamp_certificate_extension :: "CertificateExtension Fn" where
  "fn_signed_certificate_timestamp_certificate_extension =
     Inr (CertificateExtension.SignedCertificateTimestamp [replicate 128 42])"

definition fn_extended_master_secret_extension :: "'d ClientExtension Fn" where
  "fn_extended_master_secret_extension = Inr ClientExtension.ExtendedMasterSecretRequest"

definition fn_extended_master_secret_server_extension :: "ServerExtension Fn" where
  "fn_extended_master_secret_server_extension = Inr ServerExtension.ExtendedMasterSecretAck"

definition fn_session_ticket_request_extension :: "'d ClientExtension Fn" where
  "fn_session_ticket_request_extension = Inr (ClientExtension.SessionTicket ClientSessionTicket.Request)"

definition fn_session_ticket_offer_extension :: "bytes \<Rightarrow> 'd ClientExtension Fn" where
  "fn_session_ticket_offer_extension ticket = Inr (ClientExtension.SessionTicket (ClientSessionTicket.Offer ticket))"

definition fn_session_ticket_server_extension :: "ServerExtension Fn" where
  "fn_session_ticket_server_extension = Inr ServerExtension.ServerNameAck"

definition fn_new_preshared_key_identity :: "bytes \<Rightarrow> PresharedKeyIdentity Fn" where
  "fn_new_preshared_key_identity identity =
     Inr \<lparr>pki_identity = identity, pki_obfuscated_ticket_age = 10\<rparr>"

definition fn_empty_preshared_keys_identity_vec :: "PresharedKeyIdentity list Fn" where
  "fn_empty_preshared_keys_identity_vec = Inr []"

definition fn_append_preshared_keys_identity :: "PresharedKeyIdentity list \<Rightarrow> PresharedKeyIdentity \<Rightarrow> PresharedKeyIdentity list Fn" where
  "fn_append_preshared_keys_identity identities identify = Inr (identities @ [identify])"

definition fn_preshared_keys_extension_empty_binder :: "'d Message \<Rightarrow> 'd ClientExtension Fn" where
  "fn_preshared_keys_extension_empty_binder new_ticket =
     bind_sum (fn_get_ticket new_ticket) (\<lambda>ticket.
     bind_sum (fn_get_ticket_age_add new_ticket) (\<lambda>age_add.
       let ticket_age_millis = 100 :: u32;
           obfuscated_ticket_age = ticket_age_millis + ucast age_add;
           resuming_suite = TLS13_AES_128_GCM_SHA256;
           binder_len = output_len (SupportedCipherSuite_hash_algorithm resuming_suite);
           bnd = replicate binder_len 0;
           psk_identity = \<lparr>pki_identity = ticket, pki_obfuscated_ticket_age = obfuscated_ticket_age\<rparr>
       in Inr (ClientExtension.PresharedKey (PresharedKeyOffer_new psk_identity bnd))))"

definition fn_preshared_keys_server_extension :: "u64 \<Rightarrow> ServerExtension Fn" where
  "fn_preshared_keys_server_extension identities = Inr (ServerExtension.PresharedKey (ucast identities))"

definition fn_early_data_extension :: "'d ClientExtension Fn" where
  "fn_early_data_extension = Inr ClientExtension.EarlyData"

definition fn_early_data_new_session_ticket_extension :: "u64 \<Rightarrow> NewSessionTicketExtension Fn" where
  "fn_early_data_new_session_ticket_extension early_data =
     Inr (NewSessionTicketExtension.EarlyData (ucast early_data))"

definition fn_early_data_server_extension :: "ServerExtension Fn" where
  "fn_early_data_server_extension = Inr ServerExtension.EarlyData"

definition fn_supported_versions12_extension :: "'d ClientExtension Fn" where
  "fn_supported_versions12_extension = Inr (ClientExtension.SupportedVersions [ProtocolVersion.TLSv1_2])"

definition fn_supported_versions13_extension :: "'d ClientExtension Fn" where
  "fn_supported_versions13_extension = Inr (ClientExtension.SupportedVersions [ProtocolVersion.TLSv1_3])"

definition fn_supported_versions12_hello_retry_extension :: "HelloRetryExtension Fn" where
  "fn_supported_versions12_hello_retry_extension =
     Inr (HelloRetryExtension.SupportedVersions ProtocolVersion.TLSv1_2)"

definition fn_supported_versions13_hello_retry_extension :: "HelloRetryExtension Fn" where
  "fn_supported_versions13_hello_retry_extension =
     Inr (HelloRetryExtension.SupportedVersions ProtocolVersion.TLSv1_3)"

definition fn_supported_versions12_server_extension :: "ServerExtension Fn" where
  "fn_supported_versions12_server_extension = Inr (ServerExtension.SupportedVersions ProtocolVersion.TLSv1_2)"

definition fn_supported_versions13_server_extension :: "ServerExtension Fn" where
  "fn_supported_versions13_server_extension = Inr (ServerExtension.SupportedVersions ProtocolVersion.TLSv1_3)"

definition fn_cookie_extension :: "bytes \<Rightarrow> 'd ClientExtension Fn" where
  "fn_cookie_extension cookie = Inr (ClientExtension.Cookie cookie)"

definition fn_cookie_hello_retry_extension :: "bytes \<Rightarrow> HelloRetryExtension Fn" where
  "fn_cookie_hello_retry_extension cookie = Inr (HelloRetryExtension.Cookie cookie)"

definition fn_psk_exchange_mode_dhe_ke_extension :: "'d ClientExtension Fn" where
  "fn_psk_exchange_mode_dhe_ke_extension = Inr (ClientExtension.PresharedKeyModes [PSKKeyExchangeMode.PSK_DHE_KE])"

definition fn_psk_exchange_mode_ke_extension :: "'d ClientExtension Fn" where
  "fn_psk_exchange_mode_ke_extension = Inr (ClientExtension.PresharedKeyModes [PSKKeyExchangeMode.PSK_KE])"

definition fn_certificate_authorities_extension :: "CertReqExtension Fn" where
  "fn_certificate_authorities_extension =
     Inr (CertReqExtension.AuthorityNames (map (\<lambda>subject. wrap_in_sequence (ascii subject)) [''inria.fr'']))"

definition fn_signature_algorithm_cert_extension :: "'d ClientExtension Fn" where
  "fn_signature_algorithm_cert_extension =
     Inr (ClientExtension.SignatureAlgorithmsCert
       [SignatureScheme.RSA_PKCS1_SHA1, SignatureScheme.ECDSA_SHA1_Legacy, SignatureScheme.ECDSA_NISTP256_SHA256,
        SignatureScheme.RSA_PKCS1_SHA384, SignatureScheme.ECDSA_NISTP384_SHA384, SignatureScheme.RSA_PKCS1_SHA512,
        SignatureScheme.ECDSA_NISTP521_SHA512, SignatureScheme.RSA_PSS_SHA384, SignatureScheme.RSA_PSS_SHA512,
        SignatureScheme.ED25519, SignatureScheme.ED448, SignatureScheme.RSA_PKCS1_SHA256, SignatureScheme.RSA_PSS_SHA256])"

definition fn_key_share_extension :: "bytes \<Rightarrow> NamedGroup \<Rightarrow> 'd ClientExtension Fn" where
  "fn_key_share_extension key_share grp =
     Inr (ClientExtension.KeyShare [\<lparr>kse_group = grp, kse_payload = key_share\<rparr>])"

definition fn_key_share_deterministic_extension :: "Ring \<Rightarrow> NamedGroup \<Rightarrow> 'd ClientExtension Fn" where
  "fn_key_share_deterministic_extension R grp =
     bind_sum (deterministic_key_share R grp) (\<lambda>key_share. fn_key_share_extension key_share grp)"

definition fn_key_share_server_extension :: "bytes \<Rightarrow> NamedGroup \<Rightarrow> ServerExtension Fn" where
  "fn_key_share_server_extension key_share grp =
     Inr (ServerExtension.KeyShare \<lparr>kse_group = grp, kse_payload = key_share\<rparr>)"

definition fn_key_share_deterministic_server_extension :: "Ring \<Rightarrow> NamedGroup \<Rightarrow> ServerExtension Fn" where
  "fn_key_share_deterministic_server_extension R grp =
     bind_sum (deterministic_key_share R grp) (\<lambda>key_share. fn_key_share_server_extension key_share grp)"

definition fn_key_share_hello_retry_extension :: "NamedGroup \<Rightarrow> HelloRetryExtension Fn" where
  "fn_key_share_hello_retry_extension grp = Inr (HelloRetryExtension.KeyShare grp)"

definition fn_transport_parameters_extension :: "bytes \<Rightarrow> 'd ClientExtension Fn" where
  "fn_transport_parameters_extension parameters = Inr (ClientExtension.TransportParameters parameters)"

definition fn_transport_parameters_server_extension :: "bytes \<Rightarrow> ServerExtension Fn" where
  "fn_transport_parameters_server_extension parameters = Inr (ServerExtension.TransportParameters parameters)"

definition fn_renegotiation_info_extension :: "bytes \<Rightarrow> 'd ClientExtension Fn" where
  "fn_renegotiation_info_extension data = Inr (ClientExtension.RenegotiationInfo data)"

definition fn_renegotiation_info_server_extension :: "bytes \<Rightarrow> ServerExtension Fn" where
  "fn_renegotiation_info_server_extension data = Inr (ServerExtension.RenegotiationInfo data)"

definition fn_transport_parameters_draft_extension :: "bytes \<Rightarrow> 'd ClientExtension Fn" where
  "fn_transport_parameters_draft_extension parameters = Inr (ClientExtension.TransportParametersDraft parameters)"

definition fn_transport_parameters_draft_server_extension :: "bytes \<Rightarrow> ServerExtension Fn" where
  "fn_transport_parameters_draft_server_extension parameters =
     Inr (ServerExtension.TransportParametersDraft parameters)"

definition fn_unknown_client_extension :: "'d ClientExtension Fn" where
  "fn_unknown_client_extension =
     Inr (ClientExtension.Unknown \<lparr>ue_typ = ExtensionType.Unknown 0xFFFF, ue_payload = replicate 7000 42\<rparr>)"

definition fn_unknown_server_extension :: "ServerExtension Fn" where
  "fn_unknown_server_extension =
     Inr (ServerExtension.Unknown \<lparr>ue_typ = ExtensionType.Unknown 0xFFFF, ue_payload = replicate 7000 42\<rparr>)"

definition fn_unknown_hello_retry_extension :: "HelloRetryExtension Fn" where
  "fn_unknown_hello_retry_extension =
     Inr (HelloRetryExtension.Unknown \<lparr>ue_typ = ExtensionType.Unknown 0xFFFF, ue_payload = replicate 7000 42\<rparr>)"

definition fn_unknown_cert_request_extension :: "CertReqExtension Fn" where
  "fn_unknown_cert_request_extension =
     Inr (CertReqExtension.Unknown \<lparr>ue_typ = ExtensionType.Unknown 0xFFFF, ue_payload = replicate 7000 42\<rparr>)"

definition fn_unknown_new_session_ticket_extension :: "NewSessionTicketExtension Fn" where
  "fn_unknown_new_session_ticket_extension =
     Inr (NewSessionTicketExtension.Unknown \<lparr>ue_typ = ExtensionType.Unknown 0xFFFF, ue_payload = replicate 7000 42\<rparr>)"

definition fn_unknown_certificate_extension :: "CertificateExtension Fn" where
  "fn_unknown_certificate_extension =
     Inr (CertificateExtension.Unknown \<lparr>ue_typ = ExtensionType.Unknown 0xFFFF, ue_payload = replicate 7000 42\<rparr>)"

end
