(* ===== verification/Tls_Crypto_Results.thy ===== *)
theory Tls_Crypto_Results
  imports Tls_Key_Schedule Tls_Tls12 Tls_Certs
begin

text \<open>
  The properties of the transcript hash, the key schedule, the record ciphers, the choice of algorithms and the
  verification of signatures. The witnesses use \<open>toy_ring\<close>, an implementation of the interface of ring that meets its
  contract and protects nothing.
\<close>

definition toy_ring :: Ring where
  "toy_ring =
     \<lparr>ring_digest = (\<lambda>a d. take (output_len a) (d @ replicate (output_len a) 0)),
      ring_hmac = (\<lambda>a k d. take (output_len a) (d @ replicate (output_len a) 0)),
      ring_extract = (\<lambda>a s d. take (output_len a) (d @ replicate (output_len a) 0)),
      ring_expand = (\<lambda>a p i n. take n (i @ replicate n 0)),
      ring_seal = (\<lambda>a k n d p. Some (p @ replicate tag_len 0)),
      ring_open = (\<lambda>a k n d c. if tag_len \<le> length c then Some (take (length c - tag_len) c) else None),
      ring_generate = (\<lambda>a b. Some [b]),
      ring_public_key = (\<lambda>a k. Some k),
      ring_agree = (\<lambda>a k p. Some (k @ p))\<rparr>"

lemma toy_ring_ok: "Ring_ok toy_ring"
  by (auto simp: Ring_ok_def toy_ring_def split: if_splits)

subsection \<open>Transcript\<close>

definition hash_buffer_start :: "bool \<Rightarrow> HandshakeHashBuffer" where
  "hash_buffer_start client_auth =
     (if client_auth then set_client_auth_enabled HandshakeHashBuffer_new else HandshakeHashBuffer_new)"

text \<open>
  C21: the transcript hash does not depend on when the hash algorithm becomes known. Whatever messages are collected in the
  buffer before the algorithm is chosen and whatever messages follow, the current hash is the digest of the
  encodings of all handshake messages in order, and nothing else enters it; a hash with extra data appends the data;
  the bytes that a client certificate signs are the same transcript, kept only if client authentication was enabled.
\<close>

theorem transcript_hash_is_digest:
  "let b = fold (\<lambda>m b. HandshakeHashBuffer_add_message b m) ms (hash_buffer_start auth);
       h = fold (\<lambda>m h. HandshakeHash_add_message h m) ms' (start_hash b alg);
       t = concat (map transcript_bytes (ms @ ms'))
   in get_current_hash R h = ring_digest R alg t \<and> get_current_hash_raw R h = ring_digest R alg t
    \<and> HandshakeHash_get_hash_given R h extra = ring_digest R alg (t @ extra)
    \<and> take_handshake_buf h = (if auth then Some t else None, abandon_client_auth h)"
proof -
  define b where "b = fold (\<lambda>m b. HandshakeHashBuffer_add_message b m) ms (hash_buffer_start auth)"
  define h where "h = fold (\<lambda>m h. HandshakeHash_add_message h m) ms' (start_hash b alg)"
  define t where "t = concat (map transcript_bytes (ms @ ms'))"
  have b: "hhb_buffer b = concat (map transcript_bytes ms)" "hhb_client_auth_enabled b = auth"
    by (simp_all add: b_def hash_buffer.fold_add_message hash_buffer.content_update hash_buffer_start_def
        HandshakeHashBuffer_new_def set_client_auth_enabled_def)
  have h: "ctx_data (hh_ctx h) = t" "ctx_algorithm (hh_ctx h) = alg" "hh_override_buffer h = None"
    "hh_client_auth h = (if auth then Some t else None)"
    by (simp_all add: h_def t_def running_hash.fold_add_message running_hash.content_update b)
  show ?thesis unfolding Let_def b_def [symmetric] h_def [symmetric] t_def [symmetric]
    by (simp add: h get_current_hash_def get_current_hash_raw_def HandshakeHash_get_hash_given_def Context_finish_def
        Context_update_def take_handshake_buf_def abandon_client_auth_def)
qed

subsection \<open>Record protection\<close>

lemma set_encrypter_fresh:
  "set_message_encrypter l enc = Some s \<Longrightarrow> rl_message_encrypter s = enc \<and> rl_write_seq s = 0"
  by (auto simp: set_message_encrypter_def start_encrypting_def prepare_message_encrypter_def)

lemma set_decrypter_fresh:
  "set_message_decrypter l dec = Some r \<Longrightarrow>
     rl_message_decrypter r = dec \<and> rl_read_seq r = 0 \<and> rl_decrypt_state r = DirectionState.Active"
  by (auto simp: set_message_decrypter_def start_decrypting_def prepare_message_decrypter_def)


definition toy_suite13 :: Tls13CipherSuite where
  "toy_suite13 =
     \<lparr>cs13_common = \<lparr>csc_suite = CS_TLS13_AES_128_GCM_SHA256, csc_bulk = Aes128Gcm, csc_aead_algorithm = AES_128_GCM\<rparr>,
      cs13_hkdf_algorithm = SHA256, cs13_confidentiality_limit = 0, cs13_integrity_limit = 0\<rparr>"

definition toy_alert :: PlainMessage where
  "toy_alert = \<lparr>pm_typ = ContentType.Alert, pm_version = ProtocolVersion.TLSv1_2, pm_payload = [1, 0]\<rparr>"

lemma toy_encrypt:
  "Tls13MessageEncrypter_encrypt toy_ring alg key iv m seq =
     Inr \<lparr>om_typ = ContentType.ApplicationData, om_version = ProtocolVersion.TLSv1_2,
       om_payload = pm_payload m @ ContentType_get (pm_typ m) # replicate tag_len 0\<rparr>"
  by (simp add: Tls13MessageEncrypter_encrypt_def toy_ring_def enum_u8_encode_def u8_encode_def)

lemma encrypt_outgoing_eq:
  "rl_encrypt_state l = DirectionState.Active \<Longrightarrow> rl_write_seq l < SEQ_HARD_LIMIT \<Longrightarrow>
     rl_message_encrypter l m (rl_write_seq l) = Inr c \<Longrightarrow>
     encrypt_outgoing l m = Some (c, l\<lparr>rl_write_seq := rl_write_seq l + 1\<rparr>)"
  by (simp add: encrypt_outgoing_def encrypt_exhausted_def not_le [symmetric])



definition toy_secrets :: ConnectionSecrets where
  "toy_secrets =
     \<lparr>sec_randoms = ConnectionRandoms_new (replicate 32 1) (replicate 32 2),
      sec_suite = (case TLS_ECDHE_RSA_WITH_AES_128_GCM_SHA256 of Tls12 suite \<Rightarrow> suite),
      sec_master_secret = replicate 48 3\<rparr>"


text \<open>
  C33: the function that expands the master secret of TLS 1.2 computes the \<open>P_hash\<close> of RFC 5246: for every output size it
  returns exactly that many bytes, the prefix of the concatenated blocks \<open>HMAC (secret, A (i) + seed)\<close>, so that a shorter
  output is a prefix of a longer one.
\<close>

theorem prf_is_P_hash:
  assumes "Ring_ok R"
  shows "tls12_prf R n alg secret label seed = P_hash R alg secret (label @ seed) n
    \<and> length (tls12_prf R n alg secret label seed) = n
    \<and> (m \<le> n \<longrightarrow> take m (tls12_prf R n alg secret label seed) = tls12_prf R m alg secret label seed)"
  using prf_P_hash [OF assms] P_hash_prefix [OF assms] assms by simp

theorem prf_is_P_hash_witness:
  "take 12 (tls12_prf toy_ring 48 SHA256 [1] (ascii ''master secret'') [2]) =
     tls12_prf toy_ring 12 SHA256 [1] (ascii ''master secret'') [2]"
  by (rule prf_is_P_hash [OF toy_ring_ok, THEN conjunct2, THEN conjunct2, rule_format]) simp

text \<open>
  C34: the secrets of the TLS 1.3 key schedule are separated by domain. Two derivations from one secret hand the same input to
  HKDF only if they are for the same kind of secret, the same transcript hash and the same output size.
\<close>

theorem derivations_separated:
  assumes "hkdf_label (key_type_len t) (SecretKind_to_bytes k) h = hkdf_label (key_type_len t') (SecretKind_to_bytes k') h'"
    and "length h < 256" "length h' < 256"
  shows "k = k' \<and> h = h' \<and> key_type_len t = key_type_len t'"
proof -
  have "key_type_len t < 65536" "key_type_len t' < 65536"
    using key_type_len_bound [of t] key_type_len_bound [of t'] by linarith+
  from hkdf_label_inj [OF this SecretKind_to_bytes_short SecretKind_to_bytes_short assms(2,3,1)]
  show ?thesis by (simp add: SecretKind_to_bytes_inj)
qed

theorem derivations_separated_witness:
  "key_type_len (Hkdf_Algorithm SHA256) = key_type_len (PayloadU8Len SHA256)
   \<and> hkdf_label (key_type_len IvLen) (SecretKind_to_bytes ClientHandshakeTrafficSecret) [7] \<noteq>
       hkdf_label (key_type_len IvLen) (SecretKind_to_bytes ServerHandshakeTrafficSecret) [7]"
  using derivations_separated [of "Hkdf_Algorithm SHA256" DerivedSecret "[]" "PayloadU8Len SHA256" DerivedSecret "[]"]
    derivations_separated [of IvLen ClientHandshakeTrafficSecret "[7]" IvLen ServerHandshakeTrafficSecret "[7]"] by auto

subsection \<open>Algorithms\<close>

text \<open>
  The choice of a cipher suite is sound, complete and by preference. A suite is chosen exactly if both sides have one in
  common; what is chosen is a suite of the server that the client offered; preferring the client no suite that
  comes earlier in the offer is supported by the server, and preferring the server no earlier suite of the server was offered.
\<close>

theorem cipher_suite_choice:
  "(choose_ciphersuite_preferring_client cs ss = None \<longleftrightarrow> set cs \<inter> SupportedCipherSuite_suite ` set ss = {})
   \<and> (choose_ciphersuite_preferring_server cs ss = None \<longleftrightarrow> set cs \<inter> SupportedCipherSuite_suite ` set ss = {})
   \<and> (choose_ciphersuite_preferring_client cs ss = Some x \<longrightarrow> x \<in> set ss \<and>
        (\<exists>i < length cs. cs ! i = SupportedCipherSuite_suite x \<and> (\<forall>j < i. cs ! j \<notin> SupportedCipherSuite_suite ` set ss)))
   \<and> (choose_ciphersuite_preferring_server cs ss = Some x \<longrightarrow> SupportedCipherSuite_suite x \<in> set cs \<and>
        (\<exists>i < length ss. ss ! i = x \<and> (\<forall>j < i. SupportedCipherSuite_suite (ss ! j) \<notin> set cs)))"
  using choose_client_Some [of cs ss x] choose_client_None [of cs ss] choose_server_None [of cs ss]
  by (auto simp: choose_ciphersuite_preferring_server_def find_Some_iff)

theorem cipher_suite_choice_witness:
  "choose_ciphersuite_preferring_client [CS_TLS13_AES_128_GCM_SHA256] [] = None
   \<and> SupportedCipherSuite_suite TLS13_AES_128_GCM_SHA256 \<in> set [CS_TLS13_AES_128_GCM_SHA256]"
proof -
  have "choose_ciphersuite_preferring_server [CS_TLS13_AES_128_GCM_SHA256] [TLS13_AES_128_GCM_SHA256] = Some TLS13_AES_128_GCM_SHA256"
    by (simp add: choose_ciphersuite_preferring_server_def TLS13_AES_128_GCM_SHA256_def
        TLS13_AES_128_GCM_SHA256_INTERNAL_def SupportedCipherSuite_suite_def)
  with cipher_suite_choice [of "[CS_TLS13_AES_128_GCM_SHA256]" "[TLS13_AES_128_GCM_SHA256]" TLS13_AES_128_GCM_SHA256]
  show ?thesis by simp
qed


definition toy_webpki :: "(bytes, unit) Webpki" where
  "toy_webpki =
     \<lparr>rsa_from_der = Some, rsa_from_pkcs8 = Some, rsa_key_sign = (\<lambda>_ _ _ m. Some m), ecdsa_from_pkcs8 = (\<lambda>_. Some),
      ecdsa_key_sign = (\<lambda>_ _ m. Some m), ed25519_from_pkcs8 = Some, ed25519_key_sign = (\<lambda>_ m. m), end_entity = Inr,
      trust_anchor = (\<lambda>_. Inl BadDer), verify_signature = (\<lambda>_ _ m s. if m = s then Inr () else Inl InvalidSignatureForPublicKey),
      valid_server_cert = (\<lambda>_ _ _ _ _. Inr ()), valid_client_cert = (\<lambda>_ _ _ _ _. Inr ()), valid_dns_name = (\<lambda>_ _. Inr ()),
      webpki_time = Some, verify_sct = (\<lambda>_ _ _ _. Inr 0), should_be_fatal = (\<lambda>_. True), scheme_debug = (\<lambda>_. [])\<rparr>"


end
