(* ===== verification/Tls_Fn_Results.thy ===== *)
theory Tls_Fn_Results
  imports Tls_Fn_Extensions Tls_Crypto_Results
begin

text \<open>
  Properties of the attacker's function symbols: encryption and decryption, the binder of a pre-shared key, key shares, and which
  calls can panic.
\<close>

subsection \<open>Encryption and decryption\<close>

lemma PlainMessage_from_version: "PlainMessage_from (m\<lparr>msg_version := v\<rparr>) = (PlainMessage_from m)\<lparr>pm_version := v\<rparr>"
  by (simp add: PlainMessage_from_def Let_def split: MessagePayload.splits)

lemma content_type_nonzero: "ContentType_get (MessagePayload_content_type p) \<noteq> 0"
  by (cases p) (simp_all add: ContentType_get.simps)

lemma content_type_valid: "ContentType_valid (MessagePayload_content_type p)"
  by (cases p) simp_all

lemma pm_typ_from [simp]: "pm_typ (PlainMessage_from m) = MessagePayload_content_type (msg_payload m)"
  by (simp add: PlainMessage_from_def Let_def)

text \<open>A record that was encrypted, as the deframer hands it on.\<close>

lemma encrypted_record:
  fixes dns :: "bytes \<Rightarrow> 'd option"
  assumes "derive_encrypter R suite key m seq = Inr c"
  shows "om_typ c = ContentType.ApplicationData" "om_version c = ProtocolVersion.TLSv1_2"
    "Message_try_from_opaque dns c =
       Inr \<lparr>msg_version = ProtocolVersion.TLSv1_2, msg_payload = MessagePayload.ApplicationData (om_payload c)\<rparr>"
    "into_unencrypted_opaque (PlainMessage_from
       (\<lparr>msg_version = ProtocolVersion.TLSv1_2, msg_payload = MessagePayload.ApplicationData (om_payload c)\<rparr> :: 'd Message)) = c"
  using assms
  by (auto simp: derive_encrypter_def Tls13MessageEncrypter_encrypt_def Message_try_from_opaque_def Message_try_from_def
      MessagePayload_new_def into_plain_message_def into_unencrypted_opaque_def PlainMessage_from_def Let_def split: option.splits)

lemma decrypts_message:
  assumes "Ring_ok R" "MessagePayload_valid dns ProtocolVersion.TLSv1_3 (msg_payload m)"
    and "length (pm_payload (PlainMessage_from m)) \<le> MAX_FRAGMENT_LEN"
    and "derive_encrypter R suite key (PlainMessage_from m) seq = Inr c"
  shows "\<exists>p. derive_decrypter R suite key c seq = Inr p \<and> Message_try_from dns p = Inr (m\<lparr>msg_version := ProtocolVersion.TLSv1_3\<rparr>)"
proof -
  have "tls13_sendable R (PlainMessage_from m)"
    using assms(1,3) by (simp add: tls13_sendable_def content_type_nonzero content_type_valid)
  then have "derive_decrypter R suite key c seq = Inr (tls13_received (PlainMessage_from m))"
    using assms(4) by (rule tls13_cipher.decrypts)
  moreover have "Message_try_from dns (PlainMessage_from (m\<lparr>msg_version := ProtocolVersion.TLSv1_3\<rparr>)) =
      Inr (m\<lparr>msg_version := ProtocolVersion.TLSv1_3\<rparr>)"
    using assms(2) by (intro Message_try_from_PlainMessage) simp
  ultimately show ?thesis by (simp add: tls13_received_def PlainMessage_from_version)
qed


definition toy_transcript :: HandshakeHash where
  "toy_transcript = HandshakeHash_new SHA256"

definition toy_finished :: "unit Message" where
  "toy_finished = \<lparr>msg_version = ProtocolVersion.TLSv1_2, msg_payload = MessagePayload.ChangeCipherSpec ChangeCipherSpecPayload\<rparr>"


subsection \<open>Binders\<close>

lemma length_binder:
  assumes "Ring_ok R" "fn_derive_binder R m psk = Inr b"
  shows "length b = 32"
  using assms
  by (auto simp: fn_derive_binder_def resumption_psk_binder_key_and_sign_verify_data_def sign_verify_data_raw_def
      KeyScheduleEarly_new_def KeySchedule_new_def TLS13_AES_128_GCM_SHA256_INTERNAL_def Ring_okD(2) Let_def elim!: bind_sum_InrE)

lemma empty_binder_Inr:
  assumes "fn_preshared_keys_extension_empty_binder t = Inr e"
  obtains ident where "e = ClientExtension.PresharedKey \<lparr>pko_identities = [ident], pko_binders = [replicate 32 0]\<rparr>"
  using assms
  by (auto simp: fn_preshared_keys_extension_empty_binder_def PresharedKeyOffer_new_def TLS13_AES_128_GCM_SHA256_def
      TLS13_AES_128_GCM_SHA256_INTERNAL_def Tls13CipherSuite_hash_algorithm_def Let_def elim!: bind_sum_InrE)

text \<open>
  C20: the binder of a resumption verifies. A client hello whose last extension is the offer that
  \<open>fn_preshared_keys_extension_empty_binder\<close> makes of a ticket carries a placeholder. The binder that \<open>fn_derive_binder\<close> computes over it
  can be filled in without a panic, and recomputing the binder over the completed hello, as the server does, gives the
  same bytes; they are the binder of the offer.
\<close>

theorem psk_binder_verifies:
  assumes "Ring_ok R" "fn_preshared_keys_extension_empty_binder ticket = Inr e"
    and "fn_client_hello v r sid cs cm (exts @ [e]) = Inr hello" "fn_derive_binder R hello psk = Inr b"
  shows "\<exists>hello' ident. fn_fill_binder hello b = Inr hello' \<and> fn_derive_binder R hello' psk = Inr b
    \<and> fn_client_hello v r sid cs cm
        (exts @ [ClientExtension.PresharedKey \<lparr>pko_identities = [ident], pko_binders = [b]\<rparr>]) = Inr hello'"
proof -
  obtain ident where e: "e = ClientExtension.PresharedKey \<lparr>pko_identities = [ident], pko_binders = [replicate 32 0]\<rparr>"
    using empty_binder_Inr [OF assms(2)] .
  let ?p = "\<lparr>chp_client_version = v, chp_random = r, chp_session_id = sid, chp_cipher_suites = cs, chp_compression_methods = cm,
      chp_extensions = exts @ [e]\<rparr>"
  let ?m = "\<lparr>hmp_typ = HandshakeType.ClientHello, hmp_payload = HandshakePayload.ClientHello ?p\<rparr>"
  let ?p' = "?p\<lparr>chp_extensions := exts @ [ClientExtension.PresharedKey \<lparr>pko_identities = [ident], pko_binders = [b]\<rparr>]\<rparr>"
  have hello: "hello = \<lparr>msg_version = ProtocolVersion.TLSv1_2, msg_payload = MessagePayload.Handshake ?m\<rparr>"
    using assms(3) by (simp add: fn_client_hello_def hs_fn_def tls12_message_def)
  have set: "ClientHelloPayload_set_psk_binder ?p b = Some ?p'"
    by (simp add: ClientHelloPayload_set_psk_binder_def e)
  have same: "HandshakeMessagePayload_get_encoding_for_binder_signing (?m\<lparr>hmp_payload := HandshakePayload.ClientHello ?p'\<rparr>) =
      HandshakeMessagePayload_get_encoding_for_binder_signing ?m"
    using binder_signing_ignores_binder [of ?m ?p exts "\<lparr>pko_identities = [ident], pko_binders = [replicate 32 0]\<rparr>"
        "replicate 32 0" "[]" b ?p'] set length_binder [OF assms(1,4)] by (simp add: e)
  let ?h' = "\<lparr>msg_version = ProtocolVersion.TLSv1_2, msg_payload = MessagePayload.Handshake (?m\<lparr>hmp_payload := HandshakePayload.ClientHello ?p'\<rparr>)\<rparr>"
  have "fn_fill_binder hello b = Inr ?h'" using set by (simp add: fn_fill_binder_def hello)
  moreover have "fn_derive_binder R ?h' psk = Inr b"
    using assms(4) same by (simp add: fn_derive_binder_def hello)
  ultimately show ?thesis by (intro exI conjI) (auto simp: fn_client_hello_def hs_fn_def tls12_message_def)
qed

theorem psk_binder_verifies_witness:
  "\<exists>ticket hello hello' b. fn_new_session_ticket13 [1] [2] [] = Inr (ticket :: unit Message)
    \<and> fn_fill_binder hello b = Inr (hello' :: unit Message) \<and> fn_derive_binder toy_ring hello' [3] = Inr b"
proof -
  obtain t :: "unit Message" where t: "fn_new_session_ticket13 [1] [2] [] = Inr t"
    by (simp add: fn_new_session_ticket13_def hs_fn_def tls12_message_def)
  then obtain e where e: "fn_preshared_keys_extension_empty_binder t = Inr e"
    by (auto simp: fn_preshared_keys_extension_empty_binder_def fn_get_ticket_def fn_get_ticket_age_add_def ticket13_def
        fn_new_session_ticket13_def hs_fn_def tls12_message_def Let_def)
  obtain h where h: "fn_client_hello ProtocolVersion.TLSv1_2 (replicate 32 1) SessionID_empty [] [] ([] @ [e]) = Inr h"
    by (simp add: fn_client_hello_def hs_fn_def tls12_message_def)
  then obtain b where b: "fn_derive_binder toy_ring h [3] = Inr b"
    by (auto simp: fn_derive_binder_def fn_client_hello_def hs_fn_def tls12_message_def Let_def)
  from psk_binder_verifies [OF toy_ring_ok e h b] t show ?thesis by blast
qed

subsection \<open>Key shares\<close>

text \<open>
  The attacker can complete the key exchanges it starts. If it offers the deterministic share of a group, as a client or as a
  server, reading the share back out of the extensions gives that share and that group, and the private key that belongs to
  it is the one with which \<open>tls13_key_exchange\<close> later completes the exchange against any share of the peer; the same key serves TLS 1.2.
\<close>

theorem key_share_is_usable:
  assumes "fn_key_share_deterministic_extension R grp = Inr (e :: 'd ClientExtension)"
    and "\<forall>x \<in> set exts. ClientExtension_get_type x \<noteq> ExtensionType.KeyShare"
  shows "\<exists>kx. tls12_key_exchange R grp = Inr kx
    \<and> fn_get_client_key_share (exts @ e # rest) grp = Inr (Some (kx_pubkey kx))
    \<and> fn_get_any_client_curve (exts @ e # rest) = Inr grp \<and> fn_new_pubkey12 R grp = Inr (kx_pubkey kx)
    \<and> fn_key_share_deterministic_server_extension R grp =
        Inr (ServerExtension.KeyShare \<lparr>kse_group = grp, kse_payload = kx_pubkey kx\<rparr>)
    \<and> tls13_key_exchange R peer_share grp =
        ok_or (Crypto ''Failed to compute shared secret'')
          (ring_agree R (skxg_agreement_algorithm (kx_skxg kx)) (kx_privkey kx) peer_share)"
proof -
  obtain share where share: "deterministic_key_share R grp = Inr share"
    and e: "e = ClientExtension.KeyShare [\<lparr>kse_group = grp, kse_payload = share\<rparr>]"
    using assms(1) by (auto simp: fn_key_share_deterministic_extension_def fn_key_share_extension_def elim!: bind_sum_InrE)
  obtain kx where kx: "tls12_key_exchange R grp = Inr kx" "kx_pubkey kx = share"
    "tls13_key_exchange R peer_share grp =
       ok_or (Crypto ''Failed to compute shared secret'') (ring_agree R (skxg_agreement_algorithm (kx_skxg kx)) (kx_privkey kx) peer_share)"
    using key_share_exchange [OF share, of peer_share] by blast
  have "find (\<lambda>x. ClientExtension_get_type x = ExtensionType.KeyShare) (exts @ e # rest) = Some e"
    using assms(2) by (induction exts) (auto simp: e)
  then show ?thesis
    using kx share e
    by (auto simp: fn_get_client_key_share_def fn_get_any_client_curve_def fn_new_pubkey12_def
        fn_key_share_deterministic_server_extension_def fn_key_share_server_extension_def)
qed

theorem key_share_is_usable_witness:
  "\<exists>kx. tls12_key_exchange toy_ring NamedGroup.X25519 = Inr kx \<and>
     fn_get_any_client_curve [ClientExtension.EarlyData :: unit ClientExtension,
       ClientExtension.KeyShare [\<lparr>kse_group = NamedGroup.X25519, kse_payload = [42]\<rparr>]] = Inr NamedGroup.X25519"
proof -
  have e: "fn_key_share_deterministic_extension toy_ring NamedGroup.X25519 =
      Inr (ClientExtension.KeyShare [\<lparr>kse_group = NamedGroup.X25519, kse_payload = [42]\<rparr>] :: unit ClientExtension)"
    by (simp add: fn_key_share_deterministic_extension_def deterministic_key_share_def deterministic_key_exchange_def
        fn_key_share_extension_def ALL_KX_GROUPS_def kx_X25519_def toy_ring_def)
  from key_share_is_usable [OF e, of "[ClientExtension.EarlyData]" "[]" "[]"] show ?thesis by auto
qed

subsection \<open>Panics\<close>

lemma bind_sum_Inl: "bind_sum x f = Inl e \<longleftrightarrow> x = Inl e \<or> (\<exists>a. x = Inr a \<and> f a = Inl e)"
  by (cases x) auto

lemma ok_or_Inl [simp]: "ok_or e x = Inl e' \<longleftrightarrow> x = None \<and> e' = e"
  by (cases x) auto

lemma or_panic_Inl [simp]: "or_panic x = Inl e \<longleftrightarrow> x = None \<and> e = FnPanic"
  by (simp add: or_panic_def)

lemma map_err_Inl: "map_err f r = Inl e \<longleftrightarrow> (\<exists>e'. r = Inl e' \<and> f e' = e)"
  by (cases r) auto

lemma key_exchange_no_panic:
  "deterministic_key_exchange R skxg \<noteq> Inl FnPanic" "tls12_key_exchange R grp \<noteq> Inl FnPanic"
  by (auto simp: deterministic_key_exchange_def tls12_key_exchange_def bind_sum_Inl)

lemma new_secrets_panic: "tls12_new_secrets R sr pk grp = Inl FnPanic \<longleftrightarrow> length sr \<noteq> 32"
  by (auto simp: tls12_new_secrets_def bind_sum_Inl map_err_Inl key_exchange_no_panic Random_write_slice_def Random_encode_def
      get_encoding_def Let_def)

lemma new_secrets_suite: "tls12_new_secrets R sr pk grp = Inr s \<Longrightarrow> suite12_ok (sec_suite s)"
  by (auto simp: tls12_new_secrets_def from_key_exchange_def TLS_ECDHE_RSA_WITH_AES_128_GCM_SHA256_def suite12_ok_def Let_def
      elim!: bind_sum_InrE split: sum.splits)



end
