(* ===== verification/Puffin_Stream.thy ===== *)
theory Puffin_Stream
  imports Puffin_Trace Tls_Deframer Tls_Buffers
begin

text \<open>
  \<open>MemoryStream\<close> of \<open>puffin/src/stream.rs\<close>, the two channels of an agent, over a deframer of the protocol
  (\<open>ProtocolMessageDeframer\<close> of \<open>protocol.rs\<close>); the deframer of TLS is the one of \<open>Tls_Deframer\<close>. A channel is an
  \<open>io::Cursor<Vec<u8>>\<close>: a buffer and a position.

  The inbound channel is interpreted as a byte queue. For the outbound channel, \<open>stream_frames\<close> is the queue of
  frames that the stream stands for; taking a message removes the head of it. What does not fit into the
  deframer's buffer is not part of that queue: it is dropped.
\<close>

subsection \<open>Channels\<close>

record Channel =
  ch_buf :: bytes
  ch_pos :: nat

definition Channel_new :: Channel where
  "Channel_new = \<lparr>ch_buf = [], ch_pos = 0\<rparr>"

definition Cursor_read :: "Channel \<Rightarrow> nat \<Rightarrow> bytes \<times> Channel" where
  "Cursor_read ch n =
     (let out = take n (drop (ch_pos ch) (ch_buf ch)) in (out, ch\<lparr>ch_pos := ch_pos ch + length out\<rparr>))"

text \<open>A write past the end fills the gap with zeros; one inside the buffer overwrites.\<close>

definition Cursor_write :: "Channel \<Rightarrow> bytes \<Rightarrow> nat \<times> Channel" where
  "Cursor_write ch bs =
     (let buf = ch_buf ch @ replicate (ch_pos ch - length (ch_buf ch)) 0 in
      (length bs, \<lparr>ch_buf = take (ch_pos ch) buf @ bs @ drop (ch_pos ch + length bs) buf, ch_pos = ch_pos ch + length bs\<rparr>))"

datatype io_Error = WouldBlock | OtherError string

subsection \<open>Streams\<close>

record ('d, 'o) Deframer =
  deframer_pop :: "'d \<Rightarrow> 'o option \<times> 'd"
  deframer_read :: "'d \<Rightarrow> (nat \<Rightarrow> io_Error + bytes) \<Rightarrow> (io_Error + nat) \<times> 'd"

record 'd MemoryStream =
  ms_inbound :: Channel
  ms_outbound :: Channel
  ms_deframer :: 'd

definition MemoryStream_new :: "'d \<Rightarrow> 'd MemoryStream" where
  "MemoryStream_new d = \<lparr>ms_inbound = Channel_new, ms_outbound = Channel_new, ms_deframer = d\<rparr>"

text \<open>\<open>encode\<close> appends to the vector under the cursor and leaves the position.\<close>

definition MemoryStream_add_to_inbound :: "('o \<Rightarrow> bytes \<Rightarrow> bytes) \<Rightarrow> 'o \<Rightarrow> 'd MemoryStream \<Rightarrow> 'd MemoryStream" where
  "MemoryStream_add_to_inbound encode opaque_message st =
     st\<lparr>ms_inbound := (ms_inbound st)\<lparr>ch_buf := encode opaque_message (ch_buf (ms_inbound st))\<rparr>\<rparr>"

text \<open>\<open>Read for &[u8]\<close>.\<close>

definition slice_read :: "bytes \<Rightarrow> nat \<Rightarrow> io_Error + bytes" where
  "slice_read bs space = Inr (take space bs)"

partial_function (option) next_frame ::
  "('d, 'o) Deframer \<Rightarrow> 'd MemoryStream \<Rightarrow> ((puffin_Error + 'o option) \<times> 'd MemoryStream) option" where
  "next_frame D st =
     (case deframer_pop D (ms_deframer st) of (popped, d) \<Rightarrow>
        case popped of
          Some opaque_message \<Rightarrow> Some (Inr (Some opaque_message), st\<lparr>ms_deframer := d\<rparr>)
        | None \<Rightarrow>
            (case deframer_read D d (slice_read (ch_buf (ms_outbound st))) of (res, d) \<Rightarrow>
               case res of
                 Inr v \<Rightarrow>
                   (let st = st\<lparr>ms_deframer := d, ms_outbound := Channel_new\<rparr>
                    in if v = 0 then Some (Inr None, st) else next_frame D st)
               | Inl WouldBlock \<Rightarrow> Some (Inr None, st\<lparr>ms_deframer := d\<rparr>)
               | Inl (OtherError e) \<Rightarrow> Some (Inl (IO e), st\<lparr>ms_deframer := d\<rparr>)))"

text \<open>A message that cannot be decoded is reported to the log and returned without its decoding.\<close>

definition MemoryStream_take_message_from_outbound ::
  "('d, 'o) Deframer \<Rightarrow> ('o \<Rightarrow> 'e + 'msg) \<Rightarrow> 'd MemoryStream
     \<Rightarrow> ((puffin_Error + ('msg option \<times> 'o) option) \<times> 'd MemoryStream) option" where
  "MemoryStream_take_message_from_outbound D try_into st =
     map_option (\<lambda>(res, st).
       ((case res of
           Inl e \<Rightarrow> Inl e
         | Inr None \<Rightarrow> Inr None
         | Inr (Some opaque_message) \<Rightarrow>
             (let message = (case try_into opaque_message of Inl _ \<Rightarrow> None | Inr m \<Rightarrow> Some m)
              in Inr (Some (message, opaque_message)))), st)) (next_frame D st)"

definition MemoryStream_read :: "nat \<Rightarrow> 'd MemoryStream \<Rightarrow> (io_Error + bytes) \<times> 'd MemoryStream" where
  "MemoryStream_read n st =
     (case Cursor_read (ms_inbound st) n of (out, ch) \<Rightarrow>
        let ch = (if ch_pos ch = length (ch_buf ch) then Channel_new else ch);
            st = st\<lparr>ms_inbound := ch\<rparr>
        in if length out = 0 then (Inl WouldBlock, st) else (Inr out, st))"

definition MemoryStream_write :: "bytes \<Rightarrow> 'd MemoryStream \<Rightarrow> nat \<times> 'd MemoryStream" where
  "MemoryStream_write buf st =
     (case Cursor_write (ms_outbound st) buf of (n, ch) \<Rightarrow> (n, st\<lparr>ms_outbound := ch\<rparr>))"

text \<open>The instance for TLS of \<open>tlspuffin/src/protocol.rs\<close>.\<close>

definition pop_frame :: "MessageDeframer \<Rightarrow> OpaqueMessage option \<times> MessageDeframer" where
  "pop_frame d = (case df_frames d of [] \<Rightarrow> (None, d) | m # ms \<Rightarrow> (Some m, d\<lparr>df_frames := ms\<rparr>))"

definition tls_deframer :: "(MessageDeframer, OpaqueMessage) Deframer" where
  "tls_deframer = \<lparr>deframer_pop = pop_frame, deframer_read = MessageDeframer_read\<rparr>"

subsection \<open>The inbound channel is a byte queue\<close>

definition inbound_ok :: "'d MemoryStream \<Rightarrow> bool" where
  "inbound_ok st \<longleftrightarrow> (let ch = ms_inbound st in ch_pos ch < length (ch_buf ch) \<or> ch = Channel_new)"

definition inbound_bytes :: "'d MemoryStream \<Rightarrow> bytes" where
  "inbound_bytes st = drop (ch_pos (ms_inbound st)) (ch_buf (ms_inbound st))"

text \<open>The bytes of one \<open>read\<close>, none when it would block.\<close>

definition inbound_pull :: "'d MemoryStream \<Rightarrow> nat \<Rightarrow> bytes \<times> 'd MemoryStream" where
  "inbound_pull st n = (case MemoryStream_read n st of (Inl _, st) \<Rightarrow> ([], st) | (Inr bs, st) \<Rightarrow> (bs, st))"

lemma MemoryStream_read_inbound:
  assumes "inbound_ok st" "MemoryStream_read n st = (res, st')"
  shows "inbound_ok st'" "inbound_bytes st' = drop n (inbound_bytes st)"
    "res = (if n = 0 \<or> inbound_bytes st = [] then Inl WouldBlock else Inr (take n (inbound_bytes st)))"
  using assms
  by (auto simp: MemoryStream_read_def inbound_ok_def inbound_bytes_def Cursor_read_def Channel_new_def Let_def
      add.commute split: if_splits)

interpretation inbound: byte_queue inbound_bytes inbound_ok "MemoryStream_new d"
  "\<lambda>st. ch_buf (ms_inbound st) = []" "\<lambda>st bs. MemoryStream_add_to_inbound (\<lambda>m buf. buf @ m) bs st" inbound_pull for d
proof unfold_locales
  fix q n out and q' :: "'a MemoryStream" assume "inbound_ok q" "inbound_pull q n = (out, q')"
  then show "inbound_ok q' \<and> out = take n (inbound_bytes q) \<and> inbound_bytes q' = drop n (inbound_bytes q)"
    using MemoryStream_read_inbound [of q n] by (auto simp: inbound_pull_def split: prod.splits sum.splits if_splits)
qed (auto simp: inbound_ok_def inbound_bytes_def MemoryStream_new_def Channel_new_def MemoryStream_add_to_inbound_def Let_def)

lemma OpaqueMessage_add_to_inbound:
  "MemoryStream_add_to_inbound OpaqueMessage_codec_encode m st =
     MemoryStream_add_to_inbound (\<lambda>m buf. buf @ m) (OpaqueMessage_encode m) st"
  by (simp add: MemoryStream_add_to_inbound_def OpaqueMessage_codec_encode_def)

subsection \<open>The outbound channel\<close>

definition outbound_ok :: "'d MemoryStream \<Rightarrow> bool" where
  "outbound_ok st \<longleftrightarrow> ch_pos (ms_outbound st) = length (ch_buf (ms_outbound st))"

lemma MemoryStream_write_appends:
  assumes "outbound_ok st"
  shows "MemoryStream_write buf st =
      (length buf, st\<lparr>ms_outbound := \<lparr>ch_buf = ch_buf (ms_outbound st) @ buf, ch_pos = ch_pos (ms_outbound st) + length buf\<rparr>\<rparr>)"
    and "outbound_ok (snd (MemoryStream_write buf st))"
  using assms by (simp_all add: MemoryStream_write_def Cursor_write_def outbound_ok_def Let_def)

text \<open>
  The contract of a deframer: a read takes no more than it is offered. With it the loop of
  \<open>take_message_from_outbound\<close> ends, since it clears the channel after its first read.
\<close>

locale protocol_deframer =
  fixes D :: "('d, 'o) Deframer"
  assumes read_bound: "deframer_read D d (slice_read bs) = (Inr v, d') \<Longrightarrow> v \<le> length bs"
begin

lemma next_frame_empty:
  assumes "ch_buf (ms_outbound st) = []"
  shows "\<exists>y. next_frame D st = Some y"
proof -
  obtain p d where p: "deframer_pop D (ms_deframer st) = (p, d)" by fastforce
  obtain r d' where r: "deframer_read D d (slice_read []) = (r, d')" by fastforce
  have "v = 0" if "r = Inr v" for v using read_bound r that by fastforce
  with p r assms show ?thesis
    by (subst next_frame.simps) (auto simp: Let_def split: option.splits sum.splits io_Error.splits)
qed

lemma next_frame_ends: "\<exists>y. next_frame D st = Some y"
proof -
  obtain p d where p: "deframer_pop D (ms_deframer st) = (p, d)" by fastforce
  obtain r d' where r: "deframer_read D d (slice_read (ch_buf (ms_outbound st))) = (r, d')" by fastforce
  have "\<exists>y. next_frame D (st\<lparr>ms_deframer := d', ms_outbound := Channel_new\<rparr>) = Some y"
    by (rule next_frame_empty) (simp add: Channel_new_def)
  with p r show ?thesis
    by (subst next_frame.simps) (auto simp: Let_def split: option.splits sum.splits io_Error.splits)
qed

lemma take_message_ends: "\<exists>y. MemoryStream_take_message_from_outbound D try_into st = Some y"
proof -
  obtain y where "next_frame D st = Some y" using next_frame_ends by blast
  then show ?thesis by (simp add: MemoryStream_take_message_from_outbound_def)
qed

end

text \<open>
  The contract of a deframer as a queue: \<open>queued\<close> are the frames it holds, \<open>ahead d bs\<close> the ones that reading \<open>bs\<close> adds.
  Taking a message from a stream over such a deframer removes the head of one queue.
\<close>

definition stream_queue :: "('d \<Rightarrow> 'o list) \<Rightarrow> ('d \<Rightarrow> bytes \<Rightarrow> 'o list) \<Rightarrow> 'd MemoryStream \<Rightarrow> 'o list" where
  "stream_queue queued ahead st = queued (ms_deframer st) @ ahead (ms_deframer st) (ch_buf (ms_outbound st))"

definition yields_head ::
  "('d, 'o) Deframer \<Rightarrow> ('d \<Rightarrow> bool) \<Rightarrow> ('d MemoryStream \<Rightarrow> 'o list) \<Rightarrow> 'd MemoryStream \<Rightarrow> bool" where
  "yields_head D idle frames st \<longleftrightarrow> (\<exists>st'. idle (ms_deframer st') \<and>
     next_frame D st = (case frames st of [] \<Rightarrow> Some (Inr None, st') | m # _ \<Rightarrow> Some (Inr (Some m), st')) \<and>
     frames st' = tl (frames st) \<and> ms_inbound st' = ms_inbound st)"

locale queueing_deframer = protocol_deframer D for D :: "('d, 'o) Deframer" +
  fixes idle :: "'d \<Rightarrow> bool" and queued :: "'d \<Rightarrow> 'o list" and ahead :: "'d \<Rightarrow> bytes \<Rightarrow> 'o list"
  assumes pop_none: "queued d = [] \<Longrightarrow> deframer_pop D d = (None, d)"
    and pop_some: "idle d \<Longrightarrow> queued d = m # ms \<Longrightarrow>
      \<exists>d'. deframer_pop D d = (Some m, d') \<and> idle d' \<and> queued d' = ms \<and> ahead d' = ahead d"
    and read_adds: "idle d \<Longrightarrow>
      \<exists>n d'. deframer_read D d (slice_read bs) = (Inr n, d') \<and> idle d' \<and> queued d' = queued d @ ahead d bs
        \<and> (n = 0 \<longrightarrow> ahead d bs = [])"
    and nothing_ahead: "idle d \<Longrightarrow> ahead d [] = []"
begin

abbreviation frames :: "'d MemoryStream \<Rightarrow> 'o list" where
  "frames \<equiv> stream_queue queued ahead"

abbreviation yields :: "'d MemoryStream \<Rightarrow> bool" where
  "yields \<equiv> yields_head D idle frames"

lemma yields_pop:
  assumes "idle (ms_deframer st)" "queued (ms_deframer st) \<noteq> []"
  shows "yields st"
proof -
  obtain m ms where q: "queued (ms_deframer st) = m # ms" using assms(2) by (cases "queued (ms_deframer st)") auto
  with pop_some [OF assms(1) q] obtain d where "deframer_pop D (ms_deframer st) = (Some m, d)"
    "idle d" "queued d = ms" "ahead d = ahead (ms_deframer st)" by auto
  with q show ?thesis unfolding yields_head_def
    by (intro exI [of _ "st\<lparr>ms_deframer := d\<rparr>"]) (simp add: next_frame.simps [of D st] stream_queue_def)
qed

lemma yields_read:
  assumes ok: "idle (ms_deframer st)" and q: "queued (ms_deframer st) = []"
    and rec: "\<And>d. idle d \<Longrightarrow> queued d = ahead (ms_deframer st) (ch_buf (ms_outbound st)) \<Longrightarrow> ch_buf (ms_outbound st) \<noteq> [] \<Longrightarrow>
      yields (st\<lparr>ms_deframer := d, ms_outbound := Channel_new\<rparr>)"
  shows "yields st"
proof -
  let ?bs = "ch_buf (ms_outbound st)"
  obtain n d where rd: "deframer_read D (ms_deframer st) (slice_read ?bs) = (Inr n, d)" and d: "idle d"
    "queued d = ahead (ms_deframer st) ?bs" "n = 0 \<Longrightarrow> ahead (ms_deframer st) ?bs = []"
    using read_adds [OF ok, of ?bs] q by auto
  let ?st = "st\<lparr>ms_deframer := d, ms_outbound := Channel_new\<rparr>"
  have nf: "next_frame D st = (if n = 0 then Some (Inr None, ?st) else next_frame D ?st)"
    using rd pop_none [OF q] by (subst next_frame.simps) (simp add: Let_def)
  have fr: "frames ?st = frames st" using d(1,2) q nothing_ahead by (simp add: stream_queue_def Channel_new_def)
  show ?thesis
  proof (cases "n = 0")
    case True
    with d q fr nf show ?thesis unfolding yields_head_def by (intro exI [of _ ?st]) (simp add: stream_queue_def)
  next
    case False
    with read_bound [OF rd] have "?bs \<noteq> []" by auto
    from rec [OF d(1,2) this] nf False fr show ?thesis by (simp add: yields_head_def)
  qed
qed

lemma next_frame_yields:
  assumes ok: "idle (ms_deframer st)"
  shows "yields st"
proof (cases "queued (ms_deframer st) = []")
  case True
  show ?thesis
  proof (rule yields_read [OF ok True])
    fix d let ?st = "st\<lparr>ms_deframer := d, ms_outbound := Channel_new\<rparr>"
    assume "idle d"
    then show "yields ?st"
      using yields_read [of ?st] yields_pop [of ?st] by (cases "queued d = []") (simp_all add: Channel_new_def)
  qed
qed (use yields_pop [OF ok] in simp)

end

text \<open>The stream of TLS: what of the channel the deframer has space for, and the frames the stream stands for.\<close>

definition readable :: "MessageDeframer MemoryStream \<Rightarrow> bytes" where
  "readable st = take (MAX_WIRE_SIZE - df_used (ms_deframer st)) (ch_buf (ms_outbound st))"

definition stream_frames :: "MessageDeframer MemoryStream \<Rightarrow> OpaqueMessage list" where
  "stream_frames st = df_frames (ms_deframer st) @ fst (deframe (pending (ms_deframer st) @ readable st))"

definition stream_ok :: "MessageDeframer MemoryStream \<Rightarrow> bool" where
  "stream_ok st \<longleftrightarrow> deframer_ok (ms_deframer st) \<and> fst (deframe (pending (ms_deframer st))) = []"

interpretation tls_stream: queueing_deframer tls_deframer
  "\<lambda>d. deframer_ok d \<and> fst (deframe (pending d)) = []" df_frames
  "\<lambda>d bs. fst (deframe (pending d @ take (MAX_WIRE_SIZE - df_used d) bs))"
proof unfold_locales
  fix d bs v and d' :: MessageDeframer assume "deframer_read tls_deframer d (slice_read bs) = (Inr v, d')"
  then show "v \<le> length bs"
    by (auto simp: tls_deframer_def MessageDeframer_read_def slice_read_def Let_def split: sum.splits)
next
  fix d and bs :: bytes assume ok: "deframer_ok d \<and> fst (deframe (pending d)) = []"
  let ?in = "take (MAX_WIRE_SIZE - df_used d) bs"
  obtain ms rest broken where df: "deframe (pending d @ ?in) = (ms, rest, broken)" using prod_cases3 by blast
  obtain d' where d': "MessageDeframer_read d (slice_read bs) = (Inr (length ?in), d')" "deframer_ok d'"
    "df_frames d' = df_frames d @ ms" "pending d' = rest"
    by (rule MessageDeframer_read_refines [OF _ _ _ df, of "slice_read bs"]) (use ok in \<open>auto simp: slice_read_def\<close>)
  moreover have "ms = []" if "length ?in = 0"
    using df ok unfolding that [unfolded length_0_conv] by simp
  ultimately show "\<exists>n d'. deframer_read tls_deframer d (slice_read bs) = (Inr n, d')
      \<and> (deframer_ok d' \<and> fst (deframe (pending d')) = []) \<and> df_frames d' = df_frames d @ fst (deframe (pending d @ ?in))
      \<and> (n = 0 \<longrightarrow> fst (deframe (pending d @ ?in)) = [])"
    using deframe_rest_stuck [OF df] df
    by (intro exI [of _ "length ?in"] exI [of _ d']) (simp add: tls_deframer_def del: length_take)
qed (auto simp: tls_deframer_def pop_frame_def pending_def deframer_ok_def)

lemma next_frame_refines:
  assumes ok: "stream_ok st"
  shows "\<exists>st'. stream_ok st' \<and>
    next_frame tls_deframer st =
      (case stream_frames st of [] \<Rightarrow> Some (Inr None, st') | m # _ \<Rightarrow> Some (Inr (Some m), st')) \<and>
    stream_frames st' = tl (stream_frames st) \<and> ms_inbound st' = ms_inbound st"
  using tls_stream.next_frame_yields [of st] ok
  by (simp add: stream_ok_def stream_frames_def readable_def yields_head_def stream_queue_def)

lemma stream_ok_new: "stream_ok (MemoryStream_new MessageDeframer_new)"
  using deframe_frames [of "[]"]
  by (simp add: stream_ok_def MemoryStream_new_def deframer_ok_def MessageDeframer_new_def pending_def)

end
