(* ===== verification/Puffin_Mutations.thy ===== *)
theory Puffin_Mutations
  imports Puffin_Trace
begin

text \<open>
  The mutators of \<open>puffin/src/fuzzer/mutations.rs\<close> and the term zoo of \<open>fuzzer/term_zoo.rs\<close>. A mutable reference
  to a subterm is its path: it is read with \<open>find_term\<close> and written through with \<open>set_term\<close>. The work stack of
  \<open>reservoir_sample\<close> is a list with its top first. A mutator returns whether it mutated, the trace and the state of
  the random numbers.

  The lemmas: a sampled path leads to the sampled term; writing a term of the same type keeps a trace well typed;
  so do all mutators, with one exception that is stated for \<open>SwapMutator\<close>; the zoo's terms are closed, well
  typed and at most \<open>MAX_DEPTH\<close> deep.
\<close>

subsection \<open>Choosing\<close>

record TermConstraints =
  min_term_size :: nat
  max_term_size :: nat

definition TermConstraints_default :: TermConstraints where
  "TermConstraints_default = \<lparr>min_term_size = 0, max_term_size = 9000\<rparr>"

definition get_nth :: "'a list \<Rightarrow> nat \<Rightarrow> 'a option" where
  "get_nth xs i = (if i < length xs then Some (xs ! i) else None)"

definition choose_filtered :: "'r Rand \<Rightarrow> ('a \<Rightarrow> bool) \<Rightarrow> 'a list \<Rightarrow> 'r \<Rightarrow> 'a option \<times> 'r" where
  "choose_filtered R flt xs s =
     (let filtered = filter flt xs; n = length filtered in
      if n = 0 then (None, s)
      else case rand_below R n s of (index, s) \<Rightarrow> (get_nth filtered index, s))"

definition choose_vec :: "'r Rand \<Rightarrow> 'a list \<Rightarrow> 'r \<Rightarrow> 'a option \<times> 'r" where
  "choose_vec R xs s =
     (let n = length xs in
      if n = 0 then (None, s)
      else case rand_below R n s of (index, s) \<Rightarrow> (get_nth xs index, s))"

definition choose_iter :: "'r Rand \<Rightarrow> 'a list \<Rightarrow> 'r \<Rightarrow> 'a option \<times> 'r" where
  "choose_iter R xs s =
     (let n = length xs in
      if n = 0 then (None, s)
      else case rand_below R n s of (index, s) \<Rightarrow> (get_nth xs index, s))"

type_synonym TermPath = "nat list"
type_synonym TracePath = "nat \<times> TermPath"

type_synonym ('m, 'v, 'r) reservoir = "(('m, 'v) Term \<times> TracePath) option \<times> nat \<times> 'r"

text \<open>The block under \<open>if filter(term)\<close>.\<close>

fun consider_term :: "'r Rand \<Rightarrow> ('m, 'v) Term \<times> TracePath \<Rightarrow> ('m, 'v, 'r) reservoir \<Rightarrow> ('m, 'v, 'r) reservoir" where
  "consider_term R x (None, visited, s) = (Some x, visited + 1, s)"
| "consider_term R x (Some y, visited, s) =
     (case rand_between R 1 (visited + 1) s of (i, s) \<Rightarrow> (if i = 1 then Some x else Some y, visited + 1, s))"

fun push_subterms :: "('m, 'v) Term \<Rightarrow> TracePath \<Rightarrow> (('m, 'v) Term \<times> TracePath) list \<Rightarrow> (('m, 'v) Term \<times> TracePath) list" where
  "push_subterms (Term.Variable _) path stack = stack"
| "push_subterms (Term.Application _ subterms) path stack =
     fold (\<lambda>(path_index, sub) stack. (sub, (fst path, snd path @ [path_index])) # stack) (enumerate 0 subterms) stack"

abbreviation stack_size :: "(('m, 'v) Term \<times> TracePath) list \<Rightarrow> nat" where
  "stack_size stack \<equiv> sum_list (map (\<lambda>(t, _). Term_size t) stack)"

lemma stack_size_fold:
  "stack_size (fold (\<lambda>(i, sub) stack. (sub, (k, p @ [i])) # stack) (enumerate n ts) stack) =
     sum_list (map Term_size ts) + stack_size stack"
  by (induction ts arbitrary: n stack) auto

lemma push_subterms_size: "stack_size (push_subterms t path stack) + 1 = Term_size t + stack_size stack"
  by (cases t) (auto simp: stack_size_fold)

function sample_stack ::
  "'r Rand \<Rightarrow> (('m, 'v) Term \<Rightarrow> bool) \<Rightarrow> (('m, 'v) Term \<times> TracePath) list \<Rightarrow> ('m, 'v, 'r) reservoir \<Rightarrow> ('m, 'v, 'r) reservoir" where
  "sample_stack R flt [] acc = acc"
| "sample_stack R flt ((t, path) # stack) acc =
     (let stack = push_subterms t path stack;
          acc = (if flt t then consider_term R (t, path) acc else acc)
      in sample_stack R flt stack acc)"
  by pat_completeness auto
termination
proof (relation "measure (\<lambda>(R, flt, stack, acc). stack_size stack)")
  fix R flt t path stack acc x and xa :: "('b, 'c, 'a) reservoir"
  assume "x = push_subterms (t :: ('b, 'c) Term) path stack"
  with push_subterms_size [of t path stack]
  show "((R :: 'a Rand, flt, x, xa), R, flt, (t, path) # stack, acc) \<in> measure (\<lambda>(R, flt, stack, acc). stack_size stack)"
    by simp
qed simp

declare sample_stack.simps(2) [simp del]

fun sample_steps ::
  "'r Rand \<Rightarrow> (('m, 'v) Term \<Rightarrow> bool) \<Rightarrow> TermConstraints \<Rightarrow> nat \<Rightarrow> ('m, 'v) Step list \<Rightarrow> ('m, 'v, 'r) reservoir
     \<Rightarrow> ('m, 'v, 'r) reservoir" where
  "sample_steps R flt c step_index [] acc = acc"
| "sample_steps R flt c step_index (step # ss) acc =
     (let acc =
        (case step_action step of
           Action.Input r \<Rightarrow>
             if Term_size r \<le> min_term_size c \<or> Term_size r \<ge> max_term_size c then acc
             else sample_stack R flt [(r, (step_index, []))] acc
         | Action.Output \<Rightarrow> acc)
      in sample_steps R flt c (step_index + 1) ss acc)"

definition reservoir_sample ::
  "'r Rand \<Rightarrow> (('m, 'v) Term \<Rightarrow> bool) \<Rightarrow> TermConstraints \<Rightarrow> ('m, 'v) Trace \<Rightarrow> 'r \<Rightarrow> (('m, 'v) Term \<times> TracePath) option \<times> 'r" where
  "reservoir_sample R flt c trace s =
     (case sample_steps R flt c 0 (steps trace) (None, 0, s) of (reservoir, visited, s) \<Rightarrow> (reservoir, s))"

subsection \<open>Subterms by path\<close>

fun find_term_by_term_path :: "('m, 'v) Term \<Rightarrow> TermPath \<Rightarrow> ('m, 'v) Term option" where
  "find_term_by_term_path t [] = Some t"
| "find_term_by_term_path (Term.Variable _) (subterm_index # path) = None"
| "find_term_by_term_path (Term.Application _ subterms) (subterm_index # path) =
     (if subterm_index < length subterms then find_term_by_term_path (subterms ! subterm_index) path else None)"

fun set_term_by_term_path :: "('m, 'v) Term \<Rightarrow> TermPath \<Rightarrow> ('m, 'v) Term \<Rightarrow> ('m, 'v) Term" where
  "set_term_by_term_path t [] u = Term_mutate t u"
| "set_term_by_term_path (Term.Variable v) (subterm_index # path) u = Term.Variable v"
| "set_term_by_term_path (Term.Application f subterms) (subterm_index # path) u =
     (if subterm_index < length subterms
      then Term.Application f (subterms[subterm_index := set_term_by_term_path (subterms ! subterm_index) path u])
      else Term.Application f subterms)"

fun set_steps :: "('m, 'v) Trace \<Rightarrow> ('m, 'v) Step list \<Rightarrow> ('m, 'v) Trace" where
  "set_steps (Trace ds _ ps) ss = Trace ds ss ps"

definition find_term :: "('m, 'v) Trace \<Rightarrow> TracePath \<Rightarrow> ('m, 'v) Term option" where
  "find_term trace path =
     (if fst path < length (steps trace) then
        case step_action (steps trace ! fst path) of
          Action.Input r \<Rightarrow> find_term_by_term_path r (snd path)
        | Action.Output \<Rightarrow> None
      else None)"

definition set_term :: "('m, 'v) Trace \<Rightarrow> TracePath \<Rightarrow> ('m, 'v) Term \<Rightarrow> ('m, 'v) Trace" where
  "set_term trace path u =
     (if fst path < length (steps trace) then
        case step_action (steps trace ! fst path) of
          Action.Input r \<Rightarrow>
            set_steps trace ((steps trace)[fst path :=
              (steps trace ! fst path)\<lparr>step_action := Action.Input (set_term_by_term_path r (snd path) u)\<rparr>])
        | Action.Output \<Rightarrow> trace
      else trace)"

definition choose_any ::
  "'r Rand \<Rightarrow> TermConstraints \<Rightarrow> ('m, 'v) Trace \<Rightarrow> 'r \<Rightarrow> (('m, 'v) Term \<times> TracePath) option \<times> 'r" where
  "choose_any R c trace s = reservoir_sample R (\<lambda>_. True) c trace s"

definition choose_term :: "'r Rand \<Rightarrow> TermConstraints \<Rightarrow> ('m, 'v) Trace \<Rightarrow> 'r \<Rightarrow> ('m, 'v) Term option \<times> 'r" where
  "choose_term R c trace s =
     (case reservoir_sample R (\<lambda>_. True) c trace s of (ret, s) \<Rightarrow> (map_option fst ret, s))"

definition choose_term_path_filtered ::
  "'r Rand \<Rightarrow> (('m, 'v) Term \<Rightarrow> bool) \<Rightarrow> TermConstraints \<Rightarrow> ('m, 'v) Trace \<Rightarrow> 'r \<Rightarrow> TracePath option \<times> 'r" where
  "choose_term_path_filtered R flt c trace s =
     (case reservoir_sample R flt c trace s of (ret, s) \<Rightarrow> (map_option snd ret, s))"

definition choose_term_path :: "'r Rand \<Rightarrow> TermConstraints \<Rightarrow> ('m, 'v) Trace \<Rightarrow> 'r \<Rightarrow> TracePath option \<times> 'r" where
  "choose_term_path R c trace s = choose_term_path_filtered R (\<lambda>_. True) c trace s"

text \<open>The references returned by \<open>choose_term_filtered_mut\<close> and \<open>choose_term_mut\<close>: the path and the term there.\<close>

definition choose_term_filtered_mut ::
  "'r Rand \<Rightarrow> (('m, 'v) Term \<Rightarrow> bool) \<Rightarrow> TermConstraints \<Rightarrow> ('m, 'v) Trace \<Rightarrow> 'r \<Rightarrow> (TracePath \<times> ('m, 'v) Term) option \<times> 'r" where
  "choose_term_filtered_mut R flt c trace s =
     (case choose_term_path_filtered R flt c trace s of
        (Some path, s) \<Rightarrow> (map_option (Pair path) (find_term trace path), s)
      | (None, s) \<Rightarrow> (None, s))"

definition choose_term_mut ::
  "'r Rand \<Rightarrow> TermConstraints \<Rightarrow> ('m, 'v) Trace \<Rightarrow> 'r \<Rightarrow> (TracePath \<times> ('m, 'v) Term) option \<times> 'r" where
  "choose_term_mut R c trace s = choose_term_filtered_mut R (\<lambda>_. True) c trace s"

subsection \<open>The mutators\<close>

datatype MutationResult = Mutated | Skipped

type_synonym ('m, 'v, 'r) mutation = "MutationResult \<times> ('m, 'v) Trace \<times> 'r"

definition same_type :: "('m, 'v) Term \<Rightarrow> ('m, 'v) Term \<Rightarrow> bool" where
  "same_type t u \<longleftrightarrow> TypeShape_eq (get_type_shape t) (get_type_shape u)"

text \<open>The part of the swap after both places are chosen.\<close>

definition swap_terms ::
  "'r Rand \<Rightarrow> ('m, 'v) Term \<Rightarrow> TracePath \<Rightarrow> TracePath \<Rightarrow> ('m, 'v) Trace \<Rightarrow> 'r \<Rightarrow> ('m, 'v, 'r) mutation" where
  "swap_terms R term_a path_a path_b trace s =
     (case Term_clone R term_a s of (a, s) \<Rightarrow>
      case find_term trace path_b of
        None \<Rightarrow> (Skipped, trace, s)
      | Some term_b \<Rightarrow>
          (case Term_clone R term_b s of (b, s) \<Rightarrow>
             let trace = set_term trace path_b a in
             case find_term trace path_a of
               None \<Rightarrow> (Mutated, trace, s)
             | Some _ \<Rightarrow> (Mutated, set_term trace path_a b, s)))"

definition SwapMutator_mutate ::
  "TermConstraints \<Rightarrow> 'r Rand \<Rightarrow> ('m, 'v) Trace \<Rightarrow> 'r \<Rightarrow> ('m, 'v, 'r) mutation" where
  "SwapMutator_mutate c R trace s =
     (case choose_any R c trace s of
        (None, s) \<Rightarrow> (Skipped, trace, s)
      | (Some (term_a, path_a), s) \<Rightarrow>
          (case choose_term_path_filtered R (\<lambda>t. same_type t term_a) c trace s of
             (None, s) \<Rightarrow> (Skipped, trace, s)
           | (Some path_b, s) \<Rightarrow> swap_terms R term_a path_a path_b trace s))"

text \<open>\<open>Vec::swap_remove\<close>; its index is in range here.\<close>

definition swap_remove :: "'a list \<Rightarrow> nat \<Rightarrow> 'a list" where
  "swap_remove xs i = butlast (xs[i := last xs])"

fun liftable :: "('m, 'v) Term \<Rightarrow> bool" where
  "liftable (Term.Variable _) = False"
| "liftable (Term.Application _ subterms) =
     (find_subterm (\<lambda>sub.
        case sub of
          Term.Variable _ \<Rightarrow> False
        | Term.Application _ grand_subterms \<Rightarrow> find_subterm_same_shape sub grand_subterms \<noteq> None) subterms \<noteq> None)"

definition RemoveAndLiftMutator_mutate ::
  "TermConstraints \<Rightarrow> 'r Rand \<Rightarrow> ('m, 'v) Trace \<Rightarrow> 'r \<Rightarrow> ('m, 'v, 'r) mutation" where
  "RemoveAndLiftMutator_mutate c R trace s =
     (case choose_term_filtered_mut R liftable c trace s of
        (None, s) \<Rightarrow> (Skipped, trace, s)
      | (Some (path, Term.Variable _), s) \<Rightarrow> (Skipped, trace, s)
      | (Some (path, Term.Application f subterms), s) \<Rightarrow>
          (case choose_iter R (filter_grand_subterms same_type subterms) s of
             (None, s) \<Rightarrow> (Skipped, trace, s)
           | (Some ((subterm_index, _), grand_subterm), s) \<Rightarrow>
               (case Term_clone R grand_subterm s of (grand, s) \<Rightarrow>
                  (Mutated, set_term trace path (Term.Application f (swap_remove (subterms @ [grand]) subterm_index)), s))))"

definition ReplaceMatchMutator_mutate ::
  "TermConstraints \<Rightarrow> 'v Signature \<Rightarrow> 'r Rand \<Rightarrow> ('m, 'v) Trace \<Rightarrow> 'r \<Rightarrow> ('m, 'v, 'r) mutation" where
  "ReplaceMatchMutator_mutate c sig R trace s =
     (case choose_term_mut R c trace s of
        (None, s) \<Rightarrow> (Skipped, trace, s)
      | (Some (path, Term.Variable variable), s) \<Rightarrow>
          (case choose_filtered R (\<lambda>(shape, _).
               TypeShape_eq (var_typ variable) (dfs_return_type shape) \<and> DynamicFunctionShape_is_constant shape)
               (sig_functions sig) s of
             (None, s) \<Rightarrow> (Skipped, trace, s)
           | (Some (shape, dynamic_fn), s) \<Rightarrow>
               (case Function_new R shape dynamic_fn s of (f, s) \<Rightarrow>
                  (Mutated, set_term trace path (Term.Application f []), s)))
      | (Some (path, Term.Application func args), s) \<Rightarrow>
          (case choose_filtered R (\<lambda>(shape, _).
               \<not> DynamicFunctionShape_eq (Function_shape func) shape
             \<and> TypeShape_eq (dfs_return_type (Function_shape func)) (dfs_return_type shape)
             \<and> map inner_type_id (dfs_argument_types (Function_shape func)) = map inner_type_id (dfs_argument_types shape))
               (sig_functions sig) s of
             (None, s) \<Rightarrow> (Skipped, trace, s)
           | (Some (shape, dynamic_fn), s) \<Rightarrow>
               (Mutated, set_term trace path (Term.Application (change_function func shape dynamic_fn) args), s)))"

definition ReplaceReuseMutator_mutate ::
  "TermConstraints \<Rightarrow> 'r Rand \<Rightarrow> ('m, 'v) Trace \<Rightarrow> 'r \<Rightarrow> ('m, 'v, 'r) mutation" where
  "ReplaceReuseMutator_mutate c R trace s =
     (case choose_term R c trace s of
        (None, s) \<Rightarrow> (Skipped, trace, s)
      | (Some chosen, s) \<Rightarrow>
          (case Term_clone R chosen s of (replacement, s) \<Rightarrow>
           case choose_term_filtered_mut R (\<lambda>t. same_type t replacement) c trace s of
             (None, s) \<Rightarrow> (Skipped, trace, s)
           | (Some (path, to_replace), s) \<Rightarrow> (Mutated, set_term trace path replacement, s)))"

text \<open>\<open>Vec::remove\<close> and \<open>Vec::insert\<close>.\<close>

definition vec_remove :: "'a list \<Rightarrow> nat \<Rightarrow> 'a list" where
  "vec_remove xs i = take i xs @ drop (i + 1) xs"

definition vec_insert :: "'a list \<Rightarrow> nat \<Rightarrow> 'a \<Rightarrow> 'a list" where
  "vec_insert xs i x = take i xs @ x # drop i xs"

definition SkipMutator_mutate ::
  "nat \<Rightarrow> 'r Rand \<Rightarrow> ('m, 'v) Trace \<Rightarrow> 'r \<Rightarrow> ('m, 'v, 'r) mutation" where
  "SkipMutator_mutate min_trace_length R trace s =
     (let len = length (steps trace) in
      if len \<le> min_trace_length then (Skipped, trace, s)
      else if len = 0 then (Skipped, trace, s)
      else case rand_between R 0 (len - 1) s of (remove_index, s) \<Rightarrow>
        (Mutated, set_steps trace (vec_remove (steps trace) remove_index), s))"

fun Step_clone :: "'r Rand \<Rightarrow> ('m, 'v) Step \<Rightarrow> 'r \<Rightarrow> ('m, 'v) Step \<times> 'r" where
  "Step_clone R step s =
     (case step_action step of
        Action.Input r \<Rightarrow> (case Term_clone R r s of (r, s) \<Rightarrow> (step\<lparr>step_action := Action.Input r\<rparr>, s))
      | Action.Output \<Rightarrow> (step, s))"

definition RepeatMutator_mutate ::
  "nat \<Rightarrow> 'r Rand \<Rightarrow> ('m, 'v) Trace \<Rightarrow> 'r \<Rightarrow> ('m, 'v, 'r) mutation" where
  "RepeatMutator_mutate max_trace_length R trace s =
     (let len = length (steps trace) in
      if len \<ge> max_trace_length then (Skipped, trace, s)
      else if len = 0 then (Skipped, trace, s)
      else case rand_between R 0 len s of (insert_index, s) \<Rightarrow>
        case rand_choose R len s of (i, s) \<Rightarrow>
        case Step_clone R (steps trace ! i) s of (step, s) \<Rightarrow>
        (Mutated, set_steps trace (vec_insert (steps trace) insert_index step), s))"

subsection \<open>The term zoo\<close>

definition MAX_DEPTH :: nat where
  "MAX_DEPTH = 8"

definition MAX_TRIES :: nat where
  "MAX_TRIES = 100"

function generate_term ::
  "'r Rand \<Rightarrow> 'v Signature \<Rightarrow> 'v FunctionDefinition \<Rightarrow> nat \<Rightarrow> 'r \<Rightarrow> ('m, 'v) Term option \<times> 'r"
  and generate_subterms ::
  "'r Rand \<Rightarrow> 'v Signature \<Rightarrow> TypeShape list \<Rightarrow> nat \<Rightarrow> 'r \<Rightarrow> ('m, 'v) Term list option \<times> 'r" where
  "generate_term R sig def 0 s = (None, s)"
| "generate_term R sig def (Suc depth) s =
     (case generate_subterms R sig (dfs_argument_types (fst def)) depth s of
        (None, s) \<Rightarrow> (None, s)
      | (Some subterms, s) \<Rightarrow>
          (case Function_new R (fst def) (snd def) s of (f, s) \<Rightarrow> (Some (Term.Application f subterms), s)))"
| "generate_subterms R sig [] depth s = (Some [], s)"
| "generate_subterms R sig (typ # types) depth s =
     (case functions_by_typ sig (inner_type_id typ) of
        None \<Rightarrow> (None, s)
      | Some defs \<Rightarrow>
          (case choose_vec R defs s of
             (None, s) \<Rightarrow> (None, s)
           | (Some possibility, s) \<Rightarrow>
               (case generate_term R sig possibility depth s of
                  (None, s) \<Rightarrow> (None, s)
                | (Some subterm, s) \<Rightarrow>
                    (case generate_subterms R sig types depth s of
                       (None, s) \<Rightarrow> (None, s)
                     | (Some subterms, s) \<Rightarrow> (Some (subterm # subterms), s)))))"
  by pat_completeness auto
termination
  by (relation "measures [\<lambda>x. case x of Inl (R, sig, def, depth, s) \<Rightarrow> 2 * depth
        | Inr (R, sig, types, depth, s) \<Rightarrow> 2 * depth + 1,
      \<lambda>x. case x of Inl _ \<Rightarrow> 0 | Inr (R, sig, types, depth, s) \<Rightarrow> length types]") auto

fun try_generate ::
  "'r Rand \<Rightarrow> 'v Signature \<Rightarrow> 'v FunctionDefinition \<Rightarrow> nat \<Rightarrow> 'r \<Rightarrow> ('m, 'v) Term option \<times> 'r" where
  "try_generate R sig def 0 s = (None, s)"
| "try_generate R sig def (Suc counter) s =
     (case generate_term R sig def MAX_DEPTH s of
        (Some t, s) \<Rightarrow> (Some t, s)
      | (None, s) \<Rightarrow> try_generate R sig def counter s)"

fun generate_all ::
  "'r Rand \<Rightarrow> 'v Signature \<Rightarrow> 'v FunctionDefinition list \<Rightarrow> 'r \<Rightarrow> ('m, 'v) Term list \<times> 'r" where
  "generate_all R sig [] s = ([], s)"
| "generate_all R sig (def # defs) s =
     (case try_generate R sig def MAX_TRIES s of (res, s) \<Rightarrow>
      case generate_all R sig defs s of (ts, s) \<Rightarrow>
        (case res of None \<Rightarrow> (ts, s) | Some t \<Rightarrow> (t # ts, s)))"

definition TermZoo_generate :: "'r Rand \<Rightarrow> 'v Signature \<Rightarrow> 'r \<Rightarrow> ('m, 'v) Term list \<times> 'r" where
  "TermZoo_generate R sig s = generate_all R sig (sig_functions sig) s"

text \<open>The mutator that has a state of its own.\<close>

record ('m, 'v) GenerateMutator =
  gm_mutation_counter :: u64
  gm_refresh_zoo_after :: u64
  gm_constraints :: TermConstraints
  gm_zoo :: "('m, 'v) Term list option"
  gm_signature :: "'v Signature"

definition current_zoo :: "('m, 'v) GenerateMutator \<Rightarrow> 'r Rand \<Rightarrow> 'r \<Rightarrow> ('m, 'v) Term list \<times> 'r" where
  "current_zoo g R s =
     (if gm_mutation_counter g mod gm_refresh_zoo_after g = 0 then TermZoo_generate R (gm_signature g) s
      else case gm_zoo g of Some zoo \<Rightarrow> (zoo, s) | None \<Rightarrow> TermZoo_generate R (gm_signature g) s)"

text \<open>\<open>None\<close>: the panic of an overflow of the counter or of a division by zero.\<close>

definition GenerateMutator_mutate ::
  "('m, 'v) GenerateMutator \<Rightarrow> 'r Rand \<Rightarrow> ('m, 'v) Trace \<Rightarrow> 'r \<Rightarrow> (('m, 'v, 'r) mutation \<times> ('m, 'v) GenerateMutator) option" where
  "GenerateMutator_mutate g R trace s =
     (case choose_term_mut R (gm_constraints g) trace s of
        (None, s) \<Rightarrow> Some ((Skipped, trace, s), g)
      | (Some (path, to_mutate), s) \<Rightarrow>
          if gm_mutation_counter g = -1 \<or> gm_refresh_zoo_after g = 0 then None
          else
            let g = g\<lparr>gm_mutation_counter := gm_mutation_counter g + 1\<rparr> in
            case current_zoo g R s of (zoo, s) \<Rightarrow>
            let g = g\<lparr>gm_zoo := Some zoo\<rparr> in
            case choose_filtered R (same_type to_mutate) zoo s of
              (None, s) \<Rightarrow> Some ((Skipped, trace, s), g)
            | (Some t, s) \<Rightarrow>
                (case Term_clone R t s of (t, s) \<Rightarrow> Some ((Mutated, set_term trace path t, s), g)))"

subsection \<open>Choices are members\<close>

lemma get_nth_SomeD: "get_nth xs i = Some x \<Longrightarrow> x \<in> set xs"
  by (auto simp: get_nth_def split: if_splits)

lemma choose_filtered_SomeD: "choose_filtered R P xs s = (Some x, s') \<Longrightarrow> x \<in> set xs \<and> P x"
  by (auto simp: choose_filtered_def Let_def split: if_splits prod.splits dest!: get_nth_SomeD)

lemma choose_vec_SomeD: "choose_vec R xs s = (Some x, s') \<Longrightarrow> x \<in> set xs"
  by (auto simp: choose_vec_def Let_def split: if_splits prod.splits dest!: get_nth_SomeD)

lemma choose_iter_SomeD: "choose_iter R xs s = (Some x, s') \<Longrightarrow> x \<in> set xs"
  by (auto simp: choose_iter_def Let_def split: if_splits prod.splits dest!: get_nth_SomeD)

text \<open>With a generator that keeps its bounds, a choice fails only if there is nothing to choose.\<close>

lemma choose_filtered_None:
  assumes "Rand_ok R" "choose_filtered R P xs s = (None, s')"
  shows "\<forall>x \<in> set xs. \<not> P x"
proof (cases "filter P xs = []")
  case False
  obtain i s1 where r: "rand_below R (length (filter P xs)) s = (i, s1)" by fastforce
  with Rand_okD(1) [OF assms(1) _ r] False assms(2) show ?thesis
    by (simp add: choose_filtered_def Let_def get_nth_def)
qed (simp add: filter_empty_conv)

subsection \<open>Reading and writing subterms\<close>

lemma set_find_path: "find_term_by_term_path t p = Some u \<Longrightarrow> find_term_by_term_path (set_term_by_term_path t p v) p = Some v"
  by (induction t p v rule: set_term_by_term_path.induct) (auto simp: Term_mutate_def split: if_splits)

lemma find_path_append:
  "find_term_by_term_path t (p @ q) = Option.bind (find_term_by_term_path t p) (\<lambda>u. find_term_by_term_path u q)"
  by (induction t p rule: find_term_by_term_path.induct) auto

lemma set_path_self: "find_term_by_term_path t p = Some u \<Longrightarrow> set_term_by_term_path t p u = t"
  by (induction t p u rule: set_term_by_term_path.induct) (auto simp: Term_mutate_def split: if_splits)

text \<open>Places on different branches do not affect each other.\<close>

lemma find_set_parallel:
  "\<not> prefix p q \<Longrightarrow> \<not> prefix q p \<Longrightarrow>
     find_term_by_term_path (set_term_by_term_path t p u) q = find_term_by_term_path t q"
proof (induction t p u arbitrary: q rule: set_term_by_term_path.induct)
  case (3 f ts i p u)
  then obtain j q' where q: "q = j # q'" by (cases q) auto
  with 3 show ?case by (cases "i = j") auto
qed (auto simp: Term_mutate_def)

text \<open>The invariant of a trace: recipes are well typed and made of the signature's functions.\<close>

definition term_ok :: "'v FunctionDefinition list \<Rightarrow> ('m, 'v) Term \<Rightarrow> bool" where
  "term_ok defs t \<longleftrightarrow> well_typed t \<and> functions_sat (symbol_of defs) t"

definition step_ok :: "'v FunctionDefinition list \<Rightarrow> ('m, 'v) Step \<Rightarrow> bool" where
  "step_ok defs step \<longleftrightarrow> (case step_action step of Action.Input r \<Rightarrow> term_ok defs r | Action.Output \<Rightarrow> True)"

definition trace_ok :: "'v FunctionDefinition list \<Rightarrow> ('m, 'v) Trace \<Rightarrow> bool" where
  "trace_ok defs trace \<longleftrightarrow> list_all (step_ok defs) (steps trace)"

abbreviation type_of :: "('m, 'v) Term \<Rightarrow> TypeId" where
  "type_of t \<equiv> inner_type_id (get_type_shape t)"

lemma same_type_iff: "same_type t u \<longleftrightarrow> type_of t = type_of u"
  by (simp add: same_type_def TypeShape_eq_def)

lemma term_ok_App:
  "term_ok defs (Term.Application f ts) \<longleftrightarrow>
     map type_of ts = map inner_type_id (dfs_argument_types (Function_shape f)) \<and> symbol_of defs f \<and> list_all (term_ok defs) ts"
  by (auto simp: term_ok_def list_all_iff)

lemma erase_symbols: "functions_sat (symbol_of defs) (erase_ids t) = functions_sat (symbol_of defs) t"
  by (induction t) (auto simp: symbol_of_def Function_shape_def Function_dynamic_fn_def list_all_iff)

lemma clone_ok:
  assumes "Term_clone R t s = (t', s')"
  shows "term_ok defs t' = term_ok defs t" "type_of t' = type_of t"
proof -
  have "functions_sat (symbol_of defs) t' = functions_sat (symbol_of defs) t"
    using clone_erase [OF assms] by (metis erase_symbols)
  then show "term_ok defs t' = term_ok defs t" "type_of t' = type_of t"
    using clone_typed [OF assms] by (simp_all add: term_ok_def)
qed

lemma find_path_ok: "find_term_by_term_path t p = Some u \<Longrightarrow> term_ok defs t \<Longrightarrow> term_ok defs u"
  by (induction t p rule: find_term_by_term_path.induct) (auto simp: term_ok_App list_all_iff split: if_splits)

lemma set_path_ok:
  "find_term_by_term_path t p = Some u \<Longrightarrow> type_of u = type_of v \<Longrightarrow> term_ok defs v \<Longrightarrow> term_ok defs t \<Longrightarrow>
     term_ok defs (set_term_by_term_path t p v) \<and> type_of (set_term_by_term_path t p v) = type_of t"
proof (induction t p v rule: set_term_by_term_path.induct)
  case (3 f ts i p v)
  then have i: "i < length ts" and IH: "term_ok defs (set_term_by_term_path (ts ! i) p v)"
    "type_of (set_term_by_term_path (ts ! i) p v) = type_of (ts ! i)"
    by (auto simp: term_ok_App list_all_iff split: if_splits)
  have "map type_of (ts[i := set_term_by_term_path (ts ! i) p v]) = map type_of ts"
    using i IH(2) by (simp add: map_update list_update_same_conv)
  moreover have "list_all (term_ok defs) (ts[i := set_term_by_term_path (ts ! i) p v])"
    using 3 IH(1) by (auto simp: term_ok_App list_all_iff dest!: set_update_subset_insert [THEN subsetD])
  ultimately show ?case using 3 i by (simp add: term_ok_App)
qed (auto simp: Term_mutate_def)

lemma steps_set_steps [simp]: "steps (set_steps t ss) = ss"
  by (cases t) simp

lemma find_term_ok: "find_term trace path = Some u \<Longrightarrow> trace_ok defs trace \<Longrightarrow> term_ok defs u"
  by (auto simp: find_term_def trace_ok_def step_ok_def list_all_length intro: find_path_ok
      split: if_splits Action.splits)

lemma set_term_ok:
  assumes "find_term trace path = Some u" "type_of u = type_of v" "term_ok defs v" "trace_ok defs trace"
  shows "trace_ok defs (set_term trace path v)"
proof -
  from assms(1) obtain r where r: "fst path < length (steps trace)" "step_action (steps trace ! fst path) = Action.Input r"
    "find_term_by_term_path r (snd path) = Some u"
    by (auto simp: find_term_def split: if_splits Action.splits)
  then have "term_ok defs r"
    using assms(4) by (auto simp: trace_ok_def list_all_length step_ok_def split: Action.splits)
  with set_path_ok [OF r(3) assms(2,3)] have "term_ok defs (set_term_by_term_path r (snd path) v)" by blast
  then have "list_all (step_ok defs) ((steps trace)[fst path := (steps trace ! fst path)
      \<lparr>step_action := Action.Input (set_term_by_term_path r (snd path) v)\<rparr>])"
    using assms(4) by (auto simp: trace_ok_def list_all_iff step_ok_def dest!: set_update_subset_insert [THEN subsetD])
  then show ?thesis using r by (simp add: set_term_def trace_ok_def)
qed

lemma find_term_set_term: "find_term trace path = Some u \<Longrightarrow> find_term (set_term trace path v) path = Some v"
  by (auto simp: find_term_def set_term_def split: if_splits Action.splits intro: set_find_path)

lemma length_set_term [simp]: "length (steps (set_term trace path v)) = length (steps trace)"
  by (auto simp: set_term_def split: Action.splits)

subsection \<open>Sampling\<close>

text \<open>
  The invariant of the sampling loops over the steps of \<open>trace\<close>: what the reservoir holds passes the filter and
  is found at its path in a recipe that meets the constraints; so is what the stack holds.
\<close>

definition eligible :: "TermConstraints \<Rightarrow> ('m, 'v) Trace \<Rightarrow> nat \<Rightarrow> bool" where
  "eligible c trace i \<longleftrightarrow> i < length (steps trace) \<and>
     (case step_action (steps trace ! i) of
        Action.Input r \<Rightarrow> min_term_size c < Term_size r \<and> Term_size r < max_term_size c
      | Action.Output \<Rightarrow> False)"

definition sampled :: "(('m, 'v) Term \<Rightarrow> bool) \<Rightarrow> TermConstraints \<Rightarrow> ('m, 'v) Trace \<Rightarrow> ('m, 'v) Term \<times> TracePath \<Rightarrow> bool" where
  "sampled flt c trace x \<longleftrightarrow> find_term trace (snd x) = Some (fst x) \<and> flt (fst x) \<and> eligible c trace (fst (snd x))"

lemma fold_push_subterms: "fold (\<lambda>(i, sub) stack. (sub, (k, p @ [i])) # stack) (enumerate n ts) stack =
    rev (map (\<lambda>(i, sub). (sub, (k, p @ [i]))) (enumerate n ts)) @ stack"
  by (induction ts arbitrary: n stack) auto

lemma push_subterms_set:
  "set (push_subterms t path stack) =
     set stack \<union> (case t of Term.Variable _ \<Rightarrow> {} | Term.Application _ ts \<Rightarrow>
       {(ts ! i, (fst path, snd path @ [i])) | i. i < length ts})"
proof (cases t)
  case (Application f ts)
  have "set (enumerate 0 ts) = {(i, ts ! i) | i. i < length ts}"
    by (auto simp: in_set_enumerate_eq)
  then have "(\<lambda>(i, sub). (sub, (fst path, snd path @ [i]))) ` set (enumerate 0 ts) =
      {(ts ! i, (fst path, snd path @ [i])) | i. i < length ts}"
    by auto
  then show ?thesis by (auto simp: Application fold_push_subterms)
qed simp

lemma find_term_child:
  "find_term trace path = Some (Term.Application f ts) \<Longrightarrow> i < length ts \<Longrightarrow>
     find_term trace (fst path, snd path @ [i]) = Some (ts ! i)"
  by (auto simp: find_term_def find_path_append split: if_splits Action.splits)

lemma consider_term_fst: "fst (consider_term R x acc) = Some x \<or> fst (consider_term R x acc) = fst acc \<and> fst acc \<noteq> None"
  by (cases acc rule: consider_term.cases [of "(R, x, acc)" for acc]) (auto split: prod.splits)

definition placed :: "TermConstraints \<Rightarrow> ('m, 'v) Trace \<Rightarrow> ('m, 'v) Term \<times> TracePath \<Rightarrow> bool" where
  "placed c trace x \<longleftrightarrow> find_term trace (snd x) = Some (fst x) \<and> eligible c trace (fst (snd x))"

lemma push_subterms_placed:
  assumes "placed c trace (t, path)" "\<And>x. x \<in> set stack \<Longrightarrow> placed c trace x" "y \<in> set (push_subterms t path stack)"
  shows "placed c trace y"
proof (cases "y \<in> set stack")
  case False
  with assms(3) obtain f ts i where "t = Term.Application f ts" "i < length ts" "y = (ts ! i, (fst path, snd path @ [i]))"
    unfolding push_subterms_set by (auto split: Term.splits)
  with assms(1) show ?thesis by (auto simp: placed_def intro: find_term_child)
qed (use assms in blast)

lemma sample_stack_sound:
  assumes "\<And>y. y \<in> set stack \<Longrightarrow> placed c trace y"
    and "\<And>x. fst acc = Some x \<Longrightarrow> sampled flt c trace x"
    and "fst (sample_stack R flt stack acc) = Some x"
  shows "sampled flt c trace x"
  using assms
proof (induction R flt stack acc rule: sample_stack.induct)
  case (2 R flt t path stack acc)
  let ?acc = "if flt t then consider_term R (t, path) acc else acc"
  have t: "placed c trace (t, path)" using "2.prems"(1) by simp
  show ?case
  proof (rule "2.IH" [OF refl refl])
    fix y assume "y \<in> set (push_subterms t path stack)"
    then show "placed c trace y"
      by (rule push_subterms_placed [OF t, rotated]) (rule "2.prems"(1), simp)
  next
    fix y assume "fst ?acc = Some y"
    with t "2.prems"(2) consider_term_fst [of R "(t, path)" acc] show "sampled flt c trace y"
      by (auto simp: sampled_def placed_def split: if_splits)
  next
    show "fst (sample_stack R flt (push_subterms t path stack) ?acc) = Some x"
      using "2.prems"(3) by (simp add: sample_stack.simps Let_def)
  qed
qed simp

lemma sample_stack_None:
  "fst (sample_stack R flt stack acc) = None \<Longrightarrow>
     fst acc = None \<and> (\<forall>(t, path) \<in> set stack. \<forall>u \<in> set (Term_into_iter t). \<not> flt u)"
proof (induction R flt stack acc rule: sample_stack.induct)
  case (2 R flt t path stack acc)
  let ?acc = "if flt t then consider_term R (t, path) acc else acc"
  have IH: "fst ?acc = None" "\<forall>(t, path) \<in> set (push_subterms t path stack). \<forall>u \<in> set (Term_into_iter t). \<not> flt u"
    using "2.IH" [OF refl refl] "2.prems" by (simp_all add: sample_stack.simps Let_def)
  then have "\<not> flt t" "fst acc = None"
    using consider_term_fst [of R "(t, path)" acc] by (auto split: if_splits)
  moreover have "\<not> flt u" if "u \<in> set (Term_into_iter t)" for u
  proof (cases t)
    case (Application f ts)
    with that consider "u = t" | w where "w \<in> set ts" "u \<in> set (Term_into_iter w)" by auto
    then consider "u = t" | i where "i < length ts" "u \<in> set (Term_into_iter (ts ! i))"
      by cases (auto simp: in_set_conv_nth [of _ ts])
    then show ?thesis
    proof cases
      case 1
      with \<open>\<not> flt t\<close> show ?thesis by simp
    next
      case (2 i)
      then have "(ts ! i, (fst path, snd path @ [i])) \<in> set (push_subterms t path stack)"
        unfolding push_subterms_set using Application by auto
      with IH(2) 2(2) show ?thesis by blast
    qed
  qed (use that \<open>\<not> flt t\<close> in auto)
  moreover have "\<forall>(t, path) \<in> set stack. \<forall>u \<in> set (Term_into_iter t). \<not> flt u"
    using IH(2) by (auto simp: push_subterms_set)
  ultimately show ?case by auto
qed simp

lemma sample_steps_sound:
  assumes "k + length ss = length (steps trace)" "drop k (steps trace) = ss"
    and "\<And>x. fst acc = Some x \<Longrightarrow> sampled flt c trace x"
    and "fst (sample_steps R flt c k ss acc) = Some x"
  shows "sampled flt c trace x"
  using assms
proof (induction ss arbitrary: k acc)
  case (Cons step ss)
  have k: "k < length (steps trace)" "steps trace ! k = step" "drop (k + 1) (steps trace) = ss"
    using Cons.prems(1,2) by (auto simp: nth_via_drop drop_Suc dest: arg_cong [of _ _ tl] simp flip: tl_drop)
  let ?acc = "case step_action step of Action.Input r \<Rightarrow>
      if Term_size r \<le> min_term_size c \<or> Term_size r \<ge> max_term_size c then acc
      else sample_stack R flt [(r, (k, []))] acc | Action.Output \<Rightarrow> acc"
  have one: "sampled flt c trace y" if y: "fst ?acc = Some y" for y
  proof (cases "\<exists>r. step_action step = Action.Input r \<and> min_term_size c < Term_size r \<and> Term_size r < max_term_size c")
    case True
    then obtain r where r: "step_action step = Action.Input r" "min_term_size c < Term_size r" "Term_size r < max_term_size c"
      by blast
    then have "find_term trace (k, []) = Some r \<and> eligible c trace k"
      using k by (simp add: find_term_def eligible_def)
    with r y show ?thesis
      by (intro sample_stack_sound [of "[(r, (k, []))]" c trace acc flt R y] Cons.prems(3)) (auto simp: placed_def)
  next
    case False
    with y show ?thesis by (intro Cons.prems(3)) (auto split: Action.splits if_splits)
  qed
  show ?case
    using Cons.prems k one by (intro Cons.IH [of "k + 1" ?acc]) simp_all
qed simp

lemma reservoir_sample_sound:
  assumes "reservoir_sample R flt c trace s = (Some x, s')"
  shows "sampled flt c trace x"
  using assms sample_steps_sound [of 0 "steps trace" trace "(None, 0, s)" flt c R x]
  by (auto simp: reservoir_sample_def split: prod.splits)

lemma sample_steps_None:
  "fst (sample_steps R flt c k ss acc) = None \<Longrightarrow>
     fst acc = None \<and> (\<forall>step \<in> set ss. \<forall>r. step_action step = Action.Input r \<longrightarrow>
       min_term_size c < Term_size r \<longrightarrow> Term_size r < max_term_size c \<longrightarrow> (\<forall>u \<in> set (Term_into_iter r). \<not> flt u))"
proof (induction R flt c k ss acc rule: sample_steps.induct)
  case (2 R flt c k step ss acc)
  then show ?case
    by (auto simp: Let_def split: Action.splits if_splits dest!: sample_stack_None)
qed simp

text \<open>The same for the functions that choose with it.\<close>

lemma choose_term_path_filtered_SomeD:
  assumes "choose_term_path_filtered R flt c trace s = (Some path, s')"
  obtains t where "find_term trace path = Some t" "flt t"
  using assms reservoir_sample_sound [of R flt c trace s]
  by (auto simp: choose_term_path_filtered_def sampled_def split: prod.splits)

lemma choose_term_filtered_mut_SomeD:
  "choose_term_filtered_mut R flt c trace s = (Some (path, t), s') \<Longrightarrow> find_term trace path = Some t \<and> flt t"
  by (auto simp: choose_term_filtered_mut_def split: prod.splits option.splits elim: choose_term_path_filtered_SomeD)

lemma choose_term_mut_SomeD: "choose_term_mut R c trace s = (Some (path, t), s') \<Longrightarrow> find_term trace path = Some t"
  by (auto simp: choose_term_mut_def dest: choose_term_filtered_mut_SomeD)

lemma choose_term_SomeD:
  assumes "choose_term R c trace s = (Some t, s')"
  obtains path where "find_term trace path = Some t"
  using assms reservoir_sample_sound [of R "\<lambda>_. True" c trace s]
  by (auto simp: choose_term_def sampled_def split: prod.splits)

subsection \<open>The contract of a mutator\<close>

text \<open>
  A mutator that skips leaves the trace alone, and one that mutates keeps the recipes well typed and within the
  signature. The length of a trace stays within the bounds the mutators were configured with.
\<close>

locale mutator =
  fixes mutate :: "'r Rand \<Rightarrow> ('m, 'v) Trace \<Rightarrow> 'r \<Rightarrow> ('m, 'v, 'r) mutation"
    and defs :: "'v FunctionDefinition list" and lo hi :: nat
  assumes keeps_ok: "Rand_ok R \<Longrightarrow> mutate R trace s = (res, trace', s') \<Longrightarrow> trace_ok defs trace \<Longrightarrow> trace_ok defs trace'"
    and skipped: "mutate R trace s = (Skipped, trace', s') \<Longrightarrow> trace' = trace"
    and keeps_length: "Rand_ok R \<Longrightarrow> mutate R trace s = (res, trace', s') \<Longrightarrow> lo \<le> length (steps trace) \<Longrightarrow>
      length (steps trace) \<le> hi \<Longrightarrow> lo \<le> length (steps trace') \<and> length (steps trace') \<le> hi"
begin

text \<open>Any number of applications.\<close>

primrec iterate :: "'r Rand \<Rightarrow> nat \<Rightarrow> ('m, 'v) Trace \<Rightarrow> 'r \<Rightarrow> ('m, 'v) Trace \<times> 'r" where
  "iterate R 0 trace s = (trace, s)"
| "iterate R (Suc n) trace s = (case mutate R trace s of (_, trace, s) \<Rightarrow> iterate R n trace s)"

lemma iterate_ok:
  assumes "Rand_ok R" "trace_ok defs trace" "lo \<le> length (steps trace)" "length (steps trace) \<le> hi"
    and "iterate R n trace s = (trace', s')"
  shows "trace_ok defs trace' \<and> lo \<le> length (steps trace') \<and> length (steps trace') \<le> hi"
  using assms
proof (induction n arbitrary: trace s)
  case (Suc n)
  obtain res t1 s1 where m: "mutate R trace s = (res, t1, s1)" by (cases "mutate R trace s") auto
  with Suc keeps_ok [OF Suc.prems(1) m] keeps_length [OF Suc.prems(1) m] show ?case by simp
qed simp

end

lemma vec_remove_set: "set (vec_remove xs i) \<subseteq> set xs"
  by (auto simp: vec_remove_def dest: in_set_takeD in_set_dropD)

lemma length_vec_remove: "i < length xs \<Longrightarrow> length (vec_remove xs i) = length xs - 1"
  by (auto simp: vec_remove_def)

lemma vec_insert_set: "set (vec_insert xs i x) = insert x (set xs)"
  by (simp add: vec_insert_def) (metis Un_commute append_take_drop_id insert_def set_append Un_insert_right)

lemma length_vec_insert: "i \<le> length xs \<Longrightarrow> length (vec_insert xs i x) = length xs + 1"
  by (auto simp: vec_insert_def)

lemma Skip_cases:
  assumes "Rand_ok R" "SkipMutator_mutate lo R trace s = (res, trace', s')"
  obtains "res = Skipped" "trace' = trace"
  | i where "res = Mutated" "trace' = set_steps trace (vec_remove (steps trace) i)" "i < length (steps trace)" "lo < length (steps trace)"
proof (cases "length (steps trace) \<le> lo \<or> length (steps trace) = 0")
  case True
  with assms(2) that(1) show ?thesis by (auto simp: SkipMutator_mutate_def Let_def split: if_splits)
next
  case False
  obtain i s1 where r: "rand_between R 0 (length (steps trace) - 1) s = (i, s1)" by fastforce
  with Rand_okD(2) [OF assms(1) _ r] False assms(2) that(2) [of i] show ?thesis
    by (auto simp: SkipMutator_mutate_def Let_def)
qed

lemma Skip_ok:
  assumes "Rand_ok R" "SkipMutator_mutate lo R trace s = (res, trace', s')" "trace_ok defs trace"
  shows "trace_ok defs trace'"
  using assms(1,2)
proof (cases rule: Skip_cases)
  case (2 i)
  with assms(3) vec_remove_set [of "steps trace" i] show ?thesis by (auto simp: trace_ok_def list_all_iff)
qed (use assms in simp)

lemma Skip_length:
  assumes "Rand_ok R" "SkipMutator_mutate lo R trace s = (res, trace', s')"
    and "lo \<le> length (steps trace)" "length (steps trace) \<le> hi"
  shows "lo \<le> length (steps trace') \<and> length (steps trace') \<le> hi"
  using assms(1,2)
proof (cases rule: Skip_cases)
  case (2 i)
  with assms(3,4) show ?thesis by (simp add: length_vec_remove) linarith
qed (use assms in simp)

lemma Skip_skipped: "SkipMutator_mutate lo R trace s = (Skipped, trace', s') \<Longrightarrow> trace' = trace"
  by (auto simp: SkipMutator_mutate_def Let_def split: if_splits prod.splits)

interpretation skip_mutator: mutator "SkipMutator_mutate lo" defs lo hi for defs lo hi
  by (rule mutator.intro) (rule Skip_ok Skip_skipped Skip_length; assumption)+

lemma Step_clone_ok: "Step_clone R step s = (step', s') \<Longrightarrow> step_ok defs step' = step_ok defs step"
  by (auto simp: step_ok_def clone_ok split: Action.splits prod.splits)

lemma Repeat_cases:
  assumes "Rand_ok R" "RepeatMutator_mutate hi R trace s = (res, trace', s')"
  obtains "res = Skipped" "trace' = trace"
  | i j step s1 s2 where "res = Mutated" "trace' = set_steps trace (vec_insert (steps trace) j step)"
      "i < length (steps trace)" "Step_clone R (steps trace ! i) s1 = (step, s2)" "j \<le> length (steps trace)" "length (steps trace) < hi"
proof (cases "length (steps trace) \<ge> hi \<or> length (steps trace) = 0")
  case True
  with assms(2) that(1) show ?thesis by (auto simp: RepeatMutator_mutate_def Let_def split: if_splits)
next
  case False
  obtain j s1 where r: "rand_between R 0 (length (steps trace)) s = (j, s1)" by fastforce
  obtain i s2 where q: "rand_choose R (length (steps trace)) s1 = (i, s2)" by fastforce
  obtain step s3 where c: "Step_clone R (steps trace ! i) s2 = (step, s3)" by fastforce
  from Rand_okD(2) [OF assms(1) _ r] Rand_okD(3) [OF assms(1) _ q] r q c False assms(2) that(2) [of j step i s2 s3] show ?thesis
    by (auto simp: RepeatMutator_mutate_def Let_def simp del: Step_clone.simps)
qed

lemma Repeat_ok:
  assumes "Rand_ok R" "RepeatMutator_mutate hi R trace s = (res, trace', s')" "trace_ok defs trace"
  shows "trace_ok defs trace'"
  using assms(1,2)
proof (cases rule: Repeat_cases)
  case (2 i j step s1 s2)
  have "step_ok defs step"
    using Step_clone_ok [OF 2(4), of defs] 2(3) assms(3) by (simp add: trace_ok_def list_all_length)
  with assms(3) 2(2) show ?thesis by (simp add: trace_ok_def list_all_iff vec_insert_set)
qed (use assms in simp)

lemma Repeat_length:
  assumes "Rand_ok R" "RepeatMutator_mutate hi R trace s = (res, trace', s')"
    and "lo \<le> length (steps trace)" "length (steps trace) \<le> hi"
  shows "lo \<le> length (steps trace') \<and> length (steps trace') \<le> hi"
  using assms(1,2)
proof (cases rule: Repeat_cases)
  case (2 i j step s1 s2)
  with assms(3,4) show ?thesis by (simp add: length_vec_insert)
qed (use assms in simp)

lemma Repeat_skipped: "RepeatMutator_mutate hi R trace s = (Skipped, trace', s') \<Longrightarrow> trace' = trace"
  by (auto simp: RepeatMutator_mutate_def Let_def split: if_splits prod.splits simp del: Step_clone.simps)

interpretation repeat_mutator: mutator "RepeatMutator_mutate hi" defs lo hi for defs lo hi
  by (rule mutator.intro) (rule Repeat_ok Repeat_skipped Repeat_length; assumption)+

text \<open>
  The mutators of terms write a term of the same type to a place that was found, or skip. The following rule
  leaves the term to be shown well typed.
\<close>

definition writes ::
  "'v FunctionDefinition list \<Rightarrow> ('m, 'v) Trace \<Rightarrow> ('m, 'v, 'r) mutation \<Rightarrow> bool" where
  "writes defs trace m \<longleftrightarrow> (case m of (res, trace', s) \<Rightarrow> (res = Skipped \<and> trace' = trace) \<or>
     (res = Mutated \<and> (\<exists>path u v. find_term trace path = Some u \<and> trace' = set_term trace path v \<and>
       (trace_ok defs trace \<longrightarrow> term_ok defs v \<and> type_of u = type_of v))))"

lemma writes_Skipped [simp]: "writes defs trace (Skipped, trace, s)"
  by (simp add: writes_def)

lemma writesI:
  "find_term trace path = Some u \<Longrightarrow> (trace_ok defs trace \<Longrightarrow> term_ok defs v \<and> type_of u = type_of v) \<Longrightarrow>
     writes defs trace (Mutated, set_term trace path v, s)"
  unfolding writes_def prod.case by blast

lemma writes_mutator:
  assumes "\<And>R trace s. writes defs trace (mutate R trace s)"
  shows "mutator mutate defs lo hi"
proof
  fix R trace s res trace' s'
  assume m: "mutate R trace s = (res, trace', s')"
  note w = assms [of trace R s, unfolded m writes_def prod.case]
  show "trace_ok defs trace \<Longrightarrow> trace_ok defs trace'"
    using w set_term_ok by blast
  show "lo \<le> length (steps trace) \<Longrightarrow> length (steps trace) \<le> hi \<Longrightarrow> lo \<le> length (steps trace') \<and> length (steps trace') \<le> hi"
    using w by auto
next
  fix R trace s trace' s'
  assume m: "mutate R trace s = (Skipped, trace', s')"
  show "trace' = trace" using assms [of trace R s, unfolded m writes_def prod.case] by auto
qed

lemma ReplaceReuse_writes: "writes defs trace (ReplaceReuseMutator_mutate c R trace s)"
proof -
  obtain x s1 where x: "choose_term R c trace s = (x, s1)" by fastforce
  show ?thesis
  proof (cases x)
    case (Some chosen)
    obtain r s2 where r: "Term_clone R chosen s1 = (r, s2)" by fastforce
    obtain y s3 where y: "choose_term_filtered_mut R (\<lambda>t. same_type t r) c trace s2 = (y, s3)" by fastforce
    show ?thesis
    proof (cases y)
      case (Some z)
      then obtain path u where z: "y = Some (path, u)" by (cases z) auto
      have u: "find_term trace path = Some u" "same_type u r"
        using choose_term_filtered_mut_SomeD [OF y [unfolded z]] by auto
      obtain q where q: "find_term trace q = Some chosen"
        using choose_term_SomeD [of R c trace s chosen s1] x \<open>x = Some chosen\<close> by auto
      have "writes defs trace (Mutated, set_term trace path r, s3)"
        using u(2) clone_ok [OF r] find_term_ok [OF q] by (intro writesI [OF u(1)]) (auto simp: same_type_iff)
      with x \<open>x = Some chosen\<close> r y z show ?thesis by (simp add: ReplaceReuseMutator_mutate_def)
    qed (use x Some r y in \<open>simp add: ReplaceReuseMutator_mutate_def\<close>)
  qed (use x in \<open>simp add: ReplaceReuseMutator_mutate_def\<close>)
qed

interpretation replace_reuse_mutator: mutator "ReplaceReuseMutator_mutate c" defs lo hi for c defs lo hi
  by (rule writes_mutator) (rule ReplaceReuse_writes)

lemma replaced_ok:
  assumes "term_ok defs (Term.Application f ts)" "(shape, dynamic_fn) \<in> set defs"
    and "map inner_type_id (dfs_argument_types (Function_shape f)) = map inner_type_id (dfs_argument_types shape)"
  shows "term_ok defs (Term.Application (change_function f shape dynamic_fn) ts)"
  using assms by (simp add: term_ok_App symbol_of_def Function_shape_def Function_dynamic_fn_def change_function_def)

lemma constant_ok:
  assumes "(shape, dynamic_fn) \<in> set defs" "dfs_argument_types shape = []" "Function_new R shape dynamic_fn s = (f, s')"
  shows "term_ok defs (Term.Application f [])" "type_of (Term.Application f []) = inner_type_id (dfs_return_type shape)"
  using assms by (auto simp: term_ok_App symbol_of_def Function_new_def Function_shape_def Function_dynamic_fn_def
      split: prod.splits)

text \<open>No function has \<open>2 ^ 16\<close> arguments, so an arity of zero means none.\<close>

definition arities_ok :: "'v FunctionDefinition list \<Rightarrow> bool" where
  "arities_ok defs \<longleftrightarrow> list_all (\<lambda>(shape, _). length (dfs_argument_types shape) < 65536) defs"

lemma is_constant_iff:
  "arities_ok defs \<Longrightarrow> (shape, f) \<in> set defs \<Longrightarrow> DynamicFunctionShape_is_constant shape \<longleftrightarrow> dfs_argument_types shape = []"
  by (auto simp: arities_ok_def list_all_iff DynamicFunctionShape_is_constant_def DynamicFunctionShape_arity_def
      word_of_nat_eq_0_iff dest!: nat_dvd_not_less [rotated] split: if_splits)

lemma ReplaceMatch_writes:
  assumes "arities_ok (sig_functions sig)"
  shows "writes (sig_functions sig) trace (ReplaceMatchMutator_mutate c sig R trace s)"
proof -
  let ?defs = "sig_functions sig"
  obtain x s1 where x: "choose_term_mut R c trace s = (x, s1)" by fastforce
  show ?thesis
  proof (cases x)
    case (Some z)
    then obtain path u where z: "x = Some (path, u)" by (cases z) auto
    have u: "find_term trace path = Some u" using choose_term_mut_SomeD [OF x [unfolded z]] .
    show ?thesis
    proof (cases u)
      case (Variable v)
      let ?P = "\<lambda>(shape, _). TypeShape_eq (var_typ v) (dfs_return_type shape) \<and> DynamicFunctionShape_is_constant shape"
      obtain d s2 where d: "choose_filtered R ?P ?defs s1 = (d, s2)" by fastforce
      show ?thesis
      proof (cases d)
        case (Some e)
        obtain shape df where e: "e = (shape, df)" by (cases e)
        obtain f s3 where f: "Function_new R shape df s2 = (f, s3)" by fastforce
        have mem: "(shape, df) \<in> set ?defs" "TypeShape_eq (var_typ v) (dfs_return_type shape)" "DynamicFunctionShape_is_constant shape"
          using choose_filtered_SomeD [OF d [unfolded Some e]] by auto
        note const = constant_ok [OF mem(1) _ f] is_constant_iff [OF assms mem(1)]
        have "writes ?defs trace (Mutated, set_term trace path (Term.Application f []), s3)"
          using const mem Variable by (intro writesI [OF u]) (auto simp: TypeShape_eq_def)
        with x z Variable d Some e f show ?thesis by (simp add: ReplaceMatchMutator_mutate_def)
      qed (use x z Variable d in \<open>simp add: ReplaceMatchMutator_mutate_def\<close>)
    next
      case (Application g ts)
      let ?P = "\<lambda>(shape, _). \<not> DynamicFunctionShape_eq (Function_shape g) shape
             \<and> TypeShape_eq (dfs_return_type (Function_shape g)) (dfs_return_type shape)
             \<and> map inner_type_id (dfs_argument_types (Function_shape g)) = map inner_type_id (dfs_argument_types shape)"
      obtain d s2 where d: "choose_filtered R ?P ?defs s1 = (d, s2)" by fastforce
      show ?thesis
      proof (cases d)
        case (Some e)
        obtain shape df where e: "e = (shape, df)" by (cases e)
        have mem: "(shape, df) \<in> set ?defs" "TypeShape_eq (dfs_return_type (Function_shape g)) (dfs_return_type shape)"
          "map inner_type_id (dfs_argument_types (Function_shape g)) = map inner_type_id (dfs_argument_types shape)"
          using choose_filtered_SomeD [OF d [unfolded Some e]] by auto
        have "writes ?defs trace (Mutated, set_term trace path (Term.Application (change_function g shape df) ts), s2)"
          using Application mem replaced_ok [OF _ mem(1,3)] find_term_ok [OF u]
          by (intro writesI [OF u]) (auto simp: TypeShape_eq_def change_function_def Function_shape_def)
        with x z Application d Some e show ?thesis by (simp add: ReplaceMatchMutator_mutate_def)
      qed (use x z Application d in \<open>simp add: ReplaceMatchMutator_mutate_def\<close>)
    qed
  qed (use x in \<open>simp add: ReplaceMatchMutator_mutate_def\<close>)
qed

lemma replace_match_mutator:
  "arities_ok (sig_functions sig) \<Longrightarrow> mutator (ReplaceMatchMutator_mutate c sig) (sig_functions sig) lo hi"
  by (intro writes_mutator ReplaceMatch_writes)

text \<open>\<open>push\<close> followed by \<open>swap_remove\<close> replaces the element at the index.\<close>

lemma swap_remove_push: "i < length xs \<Longrightarrow> swap_remove (xs @ [x]) i = xs[i := x]"
  by (simp add: swap_remove_def list_update_append1)

lemma filter_grand_subtermsD:
  assumes "((i, sub), grand) \<in> set (filter_grand_subterms P ts)"
  obtains f us where "i < length ts" "ts ! i = sub" "sub = Term.Application f us" "grand \<in> set us" "P sub grand"
proof -
  from assms obtain j w where "(j, w) \<in> set (enumerate 0 ts)" and
    w: "((i, sub), grand) \<in> set (case w of Term.Variable _ \<Rightarrow> [] | Term.Application _ us \<Rightarrow>
      map (\<lambda>grand. ((j, w), grand)) (filter (\<lambda>grand. P w grand) us))"
    by (auto simp: filter_grand_subterms_def)
  then have "j < length ts" "ts ! j = w" by (auto simp: in_set_enumerate_eq)
  with w that show ?thesis by (cases w) auto
qed

lemma lifted_ok:
  assumes "term_ok defs (Term.Application f ts)" "i < length ts" "term_ok defs g" "type_of (ts ! i) = type_of g"
  shows "term_ok defs (Term.Application f (ts[i := g]))"
  using set_path_ok [of "Term.Application f ts" "[i]" "ts ! i" g defs] assms by (simp add: Term_mutate_def)

lemma RemoveAndLift_writes: "writes defs trace (RemoveAndLiftMutator_mutate c R trace s)"
proof -
  obtain x s1 where x: "choose_term_filtered_mut R liftable c trace s = (x, s1)" by fastforce
  show ?thesis
  proof (cases "\<exists>path f ts. x = Some (path, Term.Application f ts)")
    case True
    then obtain path f ts where z: "x = Some (path, Term.Application f ts)" by blast
    have u: "find_term trace path = Some (Term.Application f ts)"
      using choose_term_filtered_mut_SomeD [OF x [unfolded z]] by blast
    obtain y s2 where y: "choose_iter R (filter_grand_subterms same_type ts) s1 = (y, s2)" by fastforce
    show ?thesis
    proof (cases y)
      case (Some w)
      obtain i sub g where w: "w = ((i, sub), g)" by (cases w) auto
      obtain g' s3 where g': "Term_clone R g s2 = (g', s3)" by fastforce
      obtain h us where sub: "i < length ts" "ts ! i = sub" "sub = Term.Application h us" "g \<in> set us" "same_type sub g"
        using choose_iter_SomeD [OF y [unfolded Some w]] by (rule filter_grand_subtermsD)
      have "term_ok defs (Term.Application f (ts[i := g'])) \<and>
          type_of (Term.Application f ts) = type_of (Term.Application f (ts[i := g']))"
        if "trace_ok defs trace"
      proof -
        have ok: "term_ok defs (Term.Application f ts)" using find_term_ok [OF u that] .
        then have "term_ok defs (ts ! i)" using sub(1) by (auto simp: term_ok_App list_all_length)
        then have "term_ok defs g" unfolding sub(2,3) using sub(4) by (auto simp: term_ok_App list_all_iff)
        with lifted_ok [OF ok sub(1)] sub(2,5) clone_ok [OF g'] show ?thesis by (simp add: same_type_iff)
      qed
      then have "writes defs trace (Mutated, set_term trace path (Term.Application f (ts[i := g'])), s3)"
        by (rule writesI [OF u])
      with x z y Some w g' sub(1) show ?thesis
        by (simp add: RemoveAndLiftMutator_mutate_def swap_remove_push)
    qed (use x z y in \<open>simp add: RemoveAndLiftMutator_mutate_def\<close>)
  qed (use x in \<open>auto simp: RemoveAndLiftMutator_mutate_def split: option.splits Term.splits\<close>)
qed

interpretation remove_and_lift_mutator: mutator "RemoveAndLiftMutator_mutate c" defs lo hi for c defs lo hi
  by (rule writes_mutator) (rule RemoveAndLift_writes)

subsection \<open>The zoo\<close>

fun closed :: "('m, 'v) Term \<Rightarrow> bool" where
  "closed (Term.Variable _) = False"
| "closed (Term.Application _ ts) = list_all closed ts"

fun term_depth :: "('m, 'v) Term \<Rightarrow> nat" where
  "term_depth (Term.Variable _) = 1"
| "term_depth (Term.Application _ ts) = Suc (fold max (map term_depth ts) 0)"

lemma fold_max_le: "fold max xs (m :: nat) \<le> d \<longleftrightarrow> m \<le> d \<and> (\<forall>x \<in> set xs. x \<le> d)"
  by (induction xs arbitrary: m) auto

definition zoo_term :: "'v FunctionDefinition list \<Rightarrow> nat \<Rightarrow> ('m, 'v) Term \<Rightarrow> bool" where
  "zoo_term defs d t \<longleftrightarrow> term_ok defs t \<and> closed t \<and> term_depth t \<le> d"

lemma zoo_term_App:
  assumes "Function_new R shape dynamic_fn s = (f, s')" "(shape, dynamic_fn) \<in> set defs"
    and "map type_of ts = map inner_type_id (dfs_argument_types shape)" "list_all (zoo_term defs d) ts"
  shows "zoo_term defs (Suc d) (Term.Application f ts)" "dfs_return_type (Function_shape f) = dfs_return_type shape"
  using assms by (auto simp: zoo_term_def term_ok_App list_all_iff fold_max_le Function_new_def Function_shape_def
      Function_dynamic_fn_def symbol_of_def split: prod.splits)

lemma generate_both:
  fixes R :: "'r Rand" and defs :: "'v FunctionDefinition list" and sig :: "'v Signature"
  shows "sig = Signature_new defs \<longrightarrow> (\<forall>(t :: ('m, 'v) Term) s'. generate_term R sig fd d s = (Some t, s') \<longrightarrow> fd \<in> set defs \<longrightarrow>
      zoo_term defs d t \<and> type_of t = inner_type_id (dfs_return_type (fst fd)))"
    and "sig = Signature_new defs \<longrightarrow> (\<forall>(ts :: ('m, 'v) Term list) s'. generate_subterms R sig tys d s = (Some ts, s') \<longrightarrow>
      map type_of ts = map inner_type_id tys \<and> list_all (zoo_term defs d) ts)"
proof (induction R sig fd d s and R sig tys d s rule: generate_term_generate_subterms.induct [where ?'c = 'm])
  case (2 R sig fd depth s)
  show ?case
  proof (intro impI allI)
    fix t :: "('m, 'v) Term" and s'
    assume sig: "sig = Signature_new defs" and gen: "generate_term R sig fd (Suc depth) s = (Some t, s')" and fd: "fd \<in> set defs"
    from gen obtain subs s1 f where subs: "generate_subterms R sig (dfs_argument_types (fst fd)) depth s = (Some subs, s1)"
      and f: "Function_new R (fst fd) (snd fd) s1 = (f, s')" "t = Term.Application f subs"
      by (auto split: prod.splits option.splits)
    have args: "map type_of subs = map inner_type_id (dfs_argument_types (fst fd))" "list_all (zoo_term defs depth) subs"
      using 2 sig subs by blast+
    have "(fst fd, snd fd) \<in> set defs" using fd by simp
    from zoo_term_App [OF f(1) this args] f(2)
    show "zoo_term defs (Suc depth) t \<and> type_of t = inner_type_id (dfs_return_type (fst fd))" by simp
  qed
next
  case (4 R sig ty tys depth s)
  show ?case
  proof (intro impI allI)
    fix ts :: "('m, 'v) Term list" and s'
    assume sig: "sig = Signature_new defs" and gen: "generate_subterms R sig (ty # tys) depth s = (Some ts, s')"
    from gen obtain ds p s1 u s2 us where ds: "functions_by_typ sig (inner_type_id ty) = Some ds"
      and p: "choose_vec R ds s = (Some p, s1)" and u: "generate_term R sig p depth s1 = (Some u, s2)"
      and us: "generate_subterms R sig tys depth s2 = (Some us, s')" and ts: "ts = u # us"
      by (auto split: prod.splits option.splits)
    have mem: "p \<in> set defs" "inner_type_id (dfs_return_type (fst p)) = inner_type_id ty"
      using choose_vec_SomeD [OF p] ds by (auto simp: sig functions_by_typ_Some)
    have "zoo_term defs depth u \<and> type_of u = inner_type_id (dfs_return_type (fst p))"
      using "4.IH"(1) [OF ds p [symmetric] refl] sig u mem(1) by blast
    moreover have "map type_of us = map inner_type_id tys \<and> list_all (zoo_term defs depth) us"
      using "4.IH"(2) [OF ds p [symmetric] refl u [symmetric] refl] sig us by blast
    ultimately show "map type_of ts = map inner_type_id (ty # tys) \<and> list_all (zoo_term defs depth) ts"
      using ts mem(2) by simp
  qed
qed simp_all

lemma generate_term_ok:
  "generate_term R (Signature_new defs) fd d s = (Some t, s') \<Longrightarrow> fd \<in> set defs \<Longrightarrow>
     zoo_term defs d t \<and> type_of t = inner_type_id (dfs_return_type (fst fd))"
  using generate_both(1) [of "Signature_new defs" defs R fd d s] by blast

lemma try_generate_ok:
  "try_generate R (Signature_new defs) def n s = (Some t, s') \<Longrightarrow> def \<in> set defs \<Longrightarrow>
     zoo_term defs MAX_DEPTH t \<and> type_of t = inner_type_id (dfs_return_type (fst def))"
proof (induction n arbitrary: s)
  case (Suc n)
  then show ?case by (auto split: prod.splits option.splits dest: generate_term_ok)
qed simp

lemma generate_all_ok:
  fixes ts :: "('a, 'b) Term list"
  shows "generate_all R (Signature_new defs) ds s = (ts, s') \<Longrightarrow> set ds \<subseteq> set defs \<Longrightarrow>
     list_all (zoo_term defs MAX_DEPTH) ts \<and> length ts \<le> length ds"
proof (induction ds arbitrary: s ts s')
  case (Cons d ds)
  obtain x :: "('a, 'b) Term option" and s1 where x: "try_generate R (Signature_new defs) d MAX_TRIES s = (x, s1)" by fastforce
  obtain us :: "('a, 'b) Term list" and s2 where us: "generate_all R (Signature_new defs) ds s1 = (us, s2)" by fastforce
  from Cons.IH [OF us] Cons.prems(2) have "list_all (zoo_term defs MAX_DEPTH) us \<and> length us \<le> length ds" by simp
  with x us Cons.prems show ?case
    by (cases x) (auto dest: try_generate_ok)
qed simp

lemma TermZoo_ok:
  "TermZoo_generate R (Signature_new defs) s = (ts, s') \<Longrightarrow> list_all (zoo_term defs MAX_DEPTH) ts \<and> length ts \<le> length defs"
  using generate_all_ok [of R defs defs] by (simp add: TermZoo_generate_def Signature_new_def)

text \<open>The state of the generating mutator: its zoo, if it has one, is a zoo of its signature.\<close>

definition gm_ok :: "'v FunctionDefinition list \<Rightarrow> ('m, 'v) GenerateMutator \<Rightarrow> bool" where
  "gm_ok defs g \<longleftrightarrow> gm_signature g = Signature_new defs \<and>
     (case gm_zoo g of None \<Rightarrow> True | Some zoo \<Rightarrow> list_all (zoo_term defs MAX_DEPTH) zoo)"

lemma Generate_ok:
  assumes "gm_ok defs g" "GenerateMutator_mutate g R trace s = Some (m, g')"
  shows "gm_ok defs g' \<and> writes defs trace m"
proof -
  obtain x s1 where x: "choose_term_mut R (gm_constraints g) trace s = (x, s1)" by fastforce
  show ?thesis
  proof (cases x)
    case None
    with assms x show ?thesis by (auto simp: GenerateMutator_mutate_def)
  next
    case (Some z)
    then obtain path u where z: "x = Some (path, u)" by (cases z) auto
    have u: "find_term trace path = Some u" using choose_term_mut_SomeD [OF x [unfolded z]] .
    let ?g = "g\<lparr>gm_mutation_counter := gm_mutation_counter g + 1\<rparr>"
    obtain zoo s2 where zoo: "current_zoo ?g R s1 = (zoo, s2)" by fastforce
    have zoo_ok: "list_all (zoo_term defs MAX_DEPTH) zoo"
      using zoo assms(1) by (auto simp: current_zoo_def gm_ok_def dest: TermZoo_ok split: if_splits option.splits)
    obtain y s3 where y: "choose_filtered R (same_type u) zoo s2 = (y, s3)" by fastforce
    have g': "g' = ?g\<lparr>gm_zoo := Some zoo\<rparr>"
      using assms(2) x z zoo y
      by (auto simp: GenerateMutator_mutate_def Let_def split: if_splits option.splits prod.splits)
    have "writes defs trace m"
    proof (cases y)
      case None
      with assms(2) x z zoo y show ?thesis
        by (auto simp: GenerateMutator_mutate_def Let_def split: if_splits)
    next
      case (Some t)
      obtain t' s4 where t': "Term_clone R t s3 = (t', s4)" by fastforce
      have t: "zoo_term defs MAX_DEPTH t" "same_type u t"
        using choose_filtered_SomeD [OF y [unfolded Some]] zoo_ok by (auto simp: list_all_iff)
      have "m = (Mutated, set_term trace path t', s4)"
        using assms(2) x z zoo y Some t' by (auto simp: GenerateMutator_mutate_def Let_def split: if_splits)
      with t clone_ok [OF t'] show ?thesis
        by (auto intro!: writesI [OF u] simp: zoo_term_def same_type_iff)
    qed
    with g' zoo_ok assms(1) show ?thesis by (simp add: gm_ok_def)
  qed
qed

subsection \<open>Swapping\<close>

lemma find_set_above:
  "find_term_by_term_path t p = Some u \<Longrightarrow>
     find_term_by_term_path (set_term_by_term_path t (p @ q) v) p = Some (set_term_by_term_path u q v)"
  by (induction t p arbitrary: u rule: find_term_by_term_path.induct) (auto split: if_splits)

text \<open>\<open>above p q\<close>: the place \<open>q\<close> lies strictly inside the place \<open>p\<close>.\<close>

definition above :: "TracePath \<Rightarrow> TracePath \<Rightarrow> bool" where
  "above p q \<longleftrightarrow> fst p = fst q \<and> strict_prefix (snd p) (snd q)"

lemma find_term_other:
  assumes "\<not> (fst p = fst q \<and> (prefix (snd p) (snd q) \<or> prefix (snd q) (snd p)))"
  shows "find_term (set_term trace p u) q = find_term trace q"
  using assms find_set_parallel [of "snd p" "snd q"]
  by (cases "fst p = fst q") (auto simp: find_term_def set_term_def split: Action.splits)

lemma find_term_inside:
  assumes "find_term trace q = Some a" "fst p = fst q" "snd p = snd q @ r"
  shows "find_term (set_term trace p u) q = Some (set_term_by_term_path a r u)"
  using assms find_set_above by (auto simp: find_term_def set_term_def split: if_splits Action.splits)

lemma swap_ok:
  assumes a: "find_term trace path_a = Some term_a" and b: "find_term trace path_b = Some term_b"
    and same: "same_type term_b term_a" and outside: "\<not> above path_b path_a" and ok: "trace_ok defs trace"
    and swap: "swap_terms R term_a path_a path_b trace s = (res, trace', s')"
  shows "trace_ok defs trace'"
proof -
  obtain a' s1 where a': "Term_clone R term_a s = (a', s1)" by fastforce
  obtain b' s2 where b': "Term_clone R term_b s1 = (b', s2)" by fastforce
  let ?t = "set_term trace path_b a'"
  note ok_a = find_term_ok [OF a ok] clone_ok [OF a'] and ok_b = find_term_ok [OF b ok] clone_ok [OF b']
  have types: "type_of term_b = type_of term_a" using same by (simp add: same_type_iff)
  have t: "trace_ok defs ?t" using set_term_ok [OF b _ _ ok, of a'] ok_a types by simp
  obtain a1 where a1: "find_term ?t path_a = Some a1" "type_of a1 = type_of term_a"
  proof (cases "fst path_b = fst path_a \<and> prefix (snd path_a) (snd path_b)")
    case True
    then obtain r where r: "snd path_b = snd path_a @ r" by (auto simp: prefix_def)
    have "find_term_by_term_path term_a r = Some term_b"
      using a b True r by (auto simp: find_term_def find_path_append split: if_splits Action.splits)
    then have "type_of (set_term_by_term_path term_a r a') = type_of term_a"
      using set_path_ok [of term_a r term_b a' defs] ok_a types by simp
    with find_term_inside [OF a _ r] True that show ?thesis by blast
  next
    case False
    have "\<not> (fst path_b = fst path_a \<and> (prefix (snd path_b) (snd path_a) \<or> prefix (snd path_a) (snd path_b)))"
      using False outside by (auto simp: above_def strict_prefix_def)
    with find_term_other a that show ?thesis by metis
  qed
  have "trace' = set_term ?t path_a b'"
    using swap a' b' b a1(1) by (simp add: swap_terms_def)
  then show ?thesis using set_term_ok [OF a1(1) _ _ t, of b'] ok_b types a1(2) by simp
qed

text \<open>On separate places the two terms, up to the ids of the clones, have changed places.\<close>

lemma swap_exchanges:
  assumes a: "find_term trace path_a = Some term_a" and b: "find_term trace path_b = Some term_b"
    and sep: "\<not> (fst path_b = fst path_a \<and> (prefix (snd path_b) (snd path_a) \<or> prefix (snd path_a) (snd path_b)))"
    and swap: "swap_terms R term_a path_a path_b trace s = (res, trace', s')"
  shows "res = Mutated \<and> (\<exists>a' b'. find_term trace' path_a = Some b' \<and> find_term trace' path_b = Some a'
    \<and> Term_eq a' term_a \<and> Term_eq b' term_b)"
proof -
  obtain a' s1 where a': "Term_clone R term_a s = (a', s1)" by fastforce
  obtain b' s2 where b': "Term_clone R term_b s1 = (b', s2)" by fastforce
  let ?t = "set_term trace path_b a'"
  have fa: "find_term ?t path_a = Some term_a" using a by (simp add: find_term_other [OF sep])
  have trace': "trace' = set_term ?t path_a b'" "res = Mutated"
    using swap a' b' b fa by (simp_all add: swap_terms_def)
  have "find_term trace' path_b = find_term ?t path_b"
    unfolding trace' using sep by (intro find_term_other) auto
  then have "find_term trace' path_b = Some a'" using find_term_set_term [OF b] by simp
  moreover have "find_term trace' path_a = Some b'" unfolding trace' using find_term_set_term [OF fa] .
  moreover have "Term_eq a' term_a" "Term_eq b' term_b"
    using clone_erase [OF a'] clone_erase [OF b'] by (simp_all add: erase_imp_eq)
  ultimately show ?thesis using trace'(2) by blast
qed

subsection \<open>Schedules of mutations\<close>

text \<open>
  The mutators in the order of the tuple that \<open>trace_mutations\<close> returns, applied in any sequence, as the fuzzer's
  scheduler does. \<open>None\<close> is the panic of the generating mutator.
\<close>

datatype trace_mutator =
    RepeatMutator | SkipMutator | ReplaceReuseMutator | ReplaceMatchMutator | RemoveAndLiftMutator
  | GenerateMutator | SwapMutator

record 'v mutation_config =
  mc_min_trace_length :: nat
  mc_max_trace_length :: nat
  mc_constraints :: TermConstraints
  mc_fresh_zoo_after :: u64
  mc_signature :: "'v Signature"

definition GenerateMutator_new ::
  "u64 \<Rightarrow> u64 \<Rightarrow> TermConstraints \<Rightarrow> ('m, 'v) Term list option \<Rightarrow> 'v Signature \<Rightarrow> ('m, 'v) GenerateMutator" where
  "GenerateMutator_new mutation_counter refresh_zoo_after c zoo sig =
     \<lparr>gm_mutation_counter = mutation_counter, gm_refresh_zoo_after = refresh_zoo_after, gm_constraints = c,
      gm_zoo = zoo, gm_signature = sig\<rparr>"

fun apply_mutator ::
  "'v mutation_config \<Rightarrow> 'r Rand \<Rightarrow> trace_mutator \<Rightarrow> ('m, 'v) Trace \<Rightarrow> ('m, 'v) GenerateMutator \<Rightarrow> 'r
     \<Rightarrow> (('m, 'v, 'r) mutation \<times> ('m, 'v) GenerateMutator) option" where
  "apply_mutator cfg R RepeatMutator trace g s = Some (RepeatMutator_mutate (mc_max_trace_length cfg) R trace s, g)"
| "apply_mutator cfg R SkipMutator trace g s = Some (SkipMutator_mutate (mc_min_trace_length cfg) R trace s, g)"
| "apply_mutator cfg R ReplaceReuseMutator trace g s = Some (ReplaceReuseMutator_mutate (mc_constraints cfg) R trace s, g)"
| "apply_mutator cfg R ReplaceMatchMutator trace g s =
     Some (ReplaceMatchMutator_mutate (mc_constraints cfg) (mc_signature cfg) R trace s, g)"
| "apply_mutator cfg R RemoveAndLiftMutator trace g s = Some (RemoveAndLiftMutator_mutate (mc_constraints cfg) R trace s, g)"
| "apply_mutator cfg R GenerateMutator trace g s = GenerateMutator_mutate g R trace s"
| "apply_mutator cfg R SwapMutator trace g s = Some (SwapMutator_mutate (mc_constraints cfg) R trace s, g)"

definition trace_mutations :: "'v mutation_config \<Rightarrow> trace_mutator list \<times> ('m, 'v) GenerateMutator" where
  "trace_mutations cfg =
     ([RepeatMutator, SkipMutator, ReplaceReuseMutator, ReplaceMatchMutator, RemoveAndLiftMutator, GenerateMutator, SwapMutator],
      GenerateMutator_new 0 (mc_fresh_zoo_after cfg) (mc_constraints cfg) None (mc_signature cfg))"

fun run_mutators ::
  "'v mutation_config \<Rightarrow> 'r Rand \<Rightarrow> trace_mutator list \<Rightarrow> ('m, 'v) Trace \<Rightarrow> ('m, 'v) GenerateMutator \<Rightarrow> 'r \<Rightarrow> ('m, 'v) Trace option" where
  "run_mutators cfg R [] trace g s = Some trace"
| "run_mutators cfg R (m # ms) trace g s =
     (case apply_mutator cfg R m trace g s of
        None \<Rightarrow> None
      | Some ((_, trace, s), g) \<Rightarrow> run_mutators cfg R ms trace g s)"

lemma swap_length: "swap_terms R a p q trace s = (res, trace', s') \<Longrightarrow> length (steps trace') = length (steps trace)"
  by (auto simp: swap_terms_def Let_def split: prod.splits option.splits)

lemma Swap_length:
  "SwapMutator_mutate c R trace s = (res, trace', s') \<Longrightarrow> length (steps trace') = length (steps trace)"
  by (auto simp: SwapMutator_mutate_def split: prod.splits option.splits dest: swap_length)

text \<open>The generating mutator keeps its configuration, and it panics only without a period or at the end of its counter.\<close>

lemma Generate_frame:
  assumes "GenerateMutator_mutate g R trace s = Some (m, g')"
  shows "gm_refresh_zoo_after g' = gm_refresh_zoo_after g" "gm_constraints g' = gm_constraints g"
    "gm_mutation_counter g' = gm_mutation_counter g \<or>
       gm_mutation_counter g \<noteq> -1 \<and> gm_mutation_counter g' = gm_mutation_counter g + 1"
  using assms by (auto simp: GenerateMutator_mutate_def Let_def split: prod.splits option.splits if_splits)

lemma Generate_returns:
  "gm_refresh_zoo_after g \<noteq> 0 \<Longrightarrow> gm_mutation_counter g \<noteq> -1 \<Longrightarrow> GenerateMutator_mutate g R trace s \<noteq> None"
  by (auto simp: GenerateMutator_mutate_def Let_def split: prod.splits option.splits)

lemma u64_Suc: "(w :: u64) \<noteq> -1 \<Longrightarrow> unat (w + 1) = Suc (unat w)"
  by (metis add.commute add_eq_0_iff unatSuc)

lemma u64_max: "unat (-1 :: u64) = 2 ^ 64 - 1"
  by (simp add: unsigned_minus_1_eq_mask mask_eq_exp_minus_1)

lemma apply_mutator_returns:
  assumes "gm_refresh_zoo_after g \<noteq> 0" "unat (gm_mutation_counter g) < 2 ^ 64 - 1"
  obtains res trace' s' g' where "apply_mutator cfg R m trace g s = Some ((res, trace', s'), g')"
    "gm_refresh_zoo_after g' = gm_refresh_zoo_after g" "unat (gm_mutation_counter g') \<le> Suc (unat (gm_mutation_counter g))"
proof (cases "m = GenerateMutator")
  case True
  have "gm_mutation_counter g \<noteq> -1" using assms(2) u64_max by auto
  with Generate_returns assms(1) obtain y where y: "GenerateMutator_mutate g R trace s = Some y" by fastforce
  obtain res trace' s' g' where yy: "y = ((res, trace', s'), g')" by (metis prod.collapse)
  note frame = Generate_frame [OF y [unfolded yy]]
  have "unat (gm_mutation_counter g') \<le> Suc (unat (gm_mutation_counter g))"
    using frame(3) u64_Suc [of "gm_mutation_counter g"] by (elim disjE) simp_all
  with that [of res trace' s' g'] frame(1) y yy True show ?thesis by simp
next
  case False
  then obtain mu where "apply_mutator cfg R m trace g s = Some (mu, g)" by (cases m) auto
  then show ?thesis using that by (cases mu) auto
qed

lemma replacing_length:
  "ReplaceMatchMutator_mutate c sig R trace s = (res, trace', s') \<Longrightarrow> length (steps trace') = length (steps trace)"
  "GenerateMutator_mutate g R trace s = Some ((res, trace', s'), g') \<Longrightarrow> length (steps trace') = length (steps trace)"
  by (auto simp: ReplaceMatchMutator_mutate_def GenerateMutator_mutate_def Let_def
      split: prod.splits option.splits Term.splits if_splits)

text \<open>The bounds on the number of steps.\<close>

lemma apply_mutator_bounds:
  assumes "Rand_ok R" "apply_mutator cfg R m trace g s = Some ((res, trace', s'), g')"
    and "mc_min_trace_length cfg \<le> length (steps trace)" "length (steps trace) \<le> mc_max_trace_length cfg"
  shows "mc_min_trace_length cfg \<le> length (steps trace') \<and> length (steps trace') \<le> mc_max_trace_length cfg"
  using assms(2)
  by (cases m)
    (auto simp: assms(3,4) replacing_length Swap_length
      dest: repeat_mutator.keeps_length [OF assms(1) _ assms(3,4)] skip_mutator.keeps_length [OF assms(1) _ assms(3,4)]
        replace_reuse_mutator.keeps_length [OF assms(1) _ assms(3,4)]
        remove_and_lift_mutator.keeps_length [OF assms(1) _ assms(3,4)])

lemma run_mutators_bounds:
  assumes "Rand_ok R" "run_mutators cfg R ms trace g s = Some trace'"
    and "mc_min_trace_length cfg \<le> length (steps trace)" "length (steps trace) \<le> mc_max_trace_length cfg"
  shows "mc_min_trace_length cfg \<le> length (steps trace') \<and> length (steps trace') \<le> mc_max_trace_length cfg"
  using assms(2-)
proof (induction ms arbitrary: trace g s)
  case (Cons m ms)
  from Cons.prems(1) obtain res t1 s1 g1 where one: "apply_mutator cfg R m trace g s = Some ((res, t1, s1), g1)"
    "run_mutators cfg R ms t1 g1 s1 = Some trace'"
    by (auto split: option.splits prod.splits)
  with apply_mutator_bounds [OF assms(1) one(1) Cons.prems(2,3)] show ?case using Cons.IH by blast
qed simp

text \<open>Typing; the swap is the exception.\<close>

lemma sig_functions_new [simp]: "sig_functions (Signature_new defs) = defs"
  by (simp add: Signature_new_def)

lemma apply_mutator_ok:
  assumes "Rand_ok R" "mc_signature cfg = Signature_new defs" "arities_ok defs" "gm_ok defs g" "trace_ok defs trace"
    and "apply_mutator cfg R m trace g s = Some ((res, trace', s'), g')" "m \<noteq> SwapMutator"
  shows "trace_ok defs trace' \<and> gm_ok defs g'"
proof (cases m)
  case ReplaceMatchMutator
  have "mutator (ReplaceMatchMutator_mutate (mc_constraints cfg) (mc_signature cfg)) defs 0 0"
    using replace_match_mutator [of "mc_signature cfg"] assms(2,3) by simp
  from mutator.keeps_ok [OF this assms(1)] assms(4-) ReplaceMatchMutator show ?thesis by auto
next
  case GenerateMutator
  with assms(4-) Generate_ok [OF assms(4)] show ?thesis
    by (fastforce simp: writes_def intro: set_term_ok)
next
  case RepeatMutator
  with assms(4-) repeat_mutator.keeps_ok [OF assms(1)] show ?thesis by auto
next
  case SkipMutator
  with assms(4-) skip_mutator.keeps_ok [OF assms(1)] show ?thesis by auto
next
  case ReplaceReuseMutator
  with assms(4-) replace_reuse_mutator.keeps_ok [OF assms(1)] show ?thesis by auto
next
  case RemoveAndLiftMutator
  with assms(4-) remove_and_lift_mutator.keeps_ok [OF assms(1)] show ?thesis by auto
qed (use assms(7) in blast)

lemma run_mutators_ok:
  assumes "Rand_ok R" "mc_signature cfg = Signature_new defs" "arities_ok defs" "gm_ok defs g" "trace_ok defs trace"
    and "run_mutators cfg R ms trace g s = Some trace'" "SwapMutator \<notin> set ms"
  shows "trace_ok defs trace'"
  using assms(4-)
proof (induction ms arbitrary: trace g s)
  case (Cons m ms)
  from Cons.prems(3) obtain res t1 s1 g1 where one: "apply_mutator cfg R m trace g s = Some ((res, t1, s1), g1)"
    "run_mutators cfg R ms t1 g1 s1 = Some trace'"
    by (auto split: option.splits prod.splits)
  with apply_mutator_ok [OF assms(1-3) Cons.prems(1,2) one(1)] Cons.prems(4) show ?case using Cons.IH by auto
qed simp

lemma gm_ok_new: "gm_ok defs (GenerateMutator_new n k c None (Signature_new defs))"
  by (simp add: gm_ok_def GenerateMutator_new_def)

text \<open>A schedule that is shorter than the counter ends without a panic.\<close>

lemma run_mutators_returns:
  assumes "gm_refresh_zoo_after g \<noteq> 0" "unat (gm_mutation_counter g) + length ms < 2 ^ 64"
  shows "run_mutators cfg R ms trace g s \<noteq> None"
  using assms
proof (induction ms arbitrary: trace g s)
  case (Cons m ms)
  from Cons.prems(2) have lt: "unat (gm_mutation_counter g) < 2 ^ 64 - 1" by simp
  obtain res t1 s1 g1 where
    one: "apply_mutator cfg R m trace g s = Some ((res, t1, s1), g1)"
    "gm_refresh_zoo_after g1 = gm_refresh_zoo_after g" "unat (gm_mutation_counter g1) \<le> Suc (unat (gm_mutation_counter g))"
    by (rule apply_mutator_returns [OF Cons.prems(1) lt])
  have "run_mutators cfg R ms t1 g1 s1 \<noteq> None"
  proof (rule Cons.IH)
    show "gm_refresh_zoo_after g1 \<noteq> 0" unfolding one(2) by (rule Cons.prems(1))
    have "unat (gm_mutation_counter g1) + length ms \<le> unat (gm_mutation_counter g) + length (m # ms)"
      using one(3) by simp
    also note Cons.prems(2)
    finally show "unat (gm_mutation_counter g1) + length ms < 2 ^ 64" .
  qed
  with one(1) show ?case by simp
qed simp

subsection \<open>A generator for examples\<close>

text \<open>Random numbers from a list, forced into the documented bounds.\<close>

definition scripted :: "nat list Rand" where
  "scripted =
     \<lparr>rand_below = (\<lambda>n s. (min (case s of [] \<Rightarrow> 0 | x # _ \<Rightarrow> x) (n - 1), tl s)),
      rand_between = (\<lambda>a b s. (max a (min b (case s of [] \<Rightarrow> 0 | x # _ \<Rightarrow> x)), tl s)),
      rand_choose = (\<lambda>n s. (min (case s of [] \<Rightarrow> 0 | x # _ \<Rightarrow> x) (n - 1), tl s)),
      rand_random = (\<lambda>s. (0, s))\<rparr>"

lemma scripted_ok: "Rand_ok scripted"
  by (auto simp: Rand_ok_def scripted_def min_def max_def split: list.splits)

text \<open>Types \<open>T\<close> and \<open>U\<close>; functions \<open>h : T \<rightarrow> T\<close>, \<open>k : U \<rightarrow> T\<close> and the constant \<open>c : U\<close>; the recipe \<open>h (k c)\<close>.\<close>

definition example_T :: TypeShape where "example_T = \<lparr>inner_type_id = 1, ts_name = ''T''\<rparr>"
definition example_U :: TypeShape where "example_U = \<lparr>inner_type_id = 2, ts_name = ''U''\<rparr>"

definition example_defs :: "nat FunctionDefinition list" where
  "example_defs =
     [(\<lparr>dfs_name = ''h'', dfs_argument_types = [example_T], dfs_return_type = example_T\<rparr>,
       \<lambda>args. Inr \<lparr>any_type = 1, any_val = 0\<rparr>),
      (\<lparr>dfs_name = ''k'', dfs_argument_types = [example_U], dfs_return_type = example_T\<rparr>,
       \<lambda>args. Inr \<lparr>any_type = 1, any_val = 1\<rparr>),
      (\<lparr>dfs_name = ''c'', dfs_argument_types = [], dfs_return_type = example_U\<rparr>,
       \<lambda>args. Inr \<lparr>any_type = 2, any_val = 2\<rparr>)]"

definition example_fun :: "nat \<Rightarrow> nat Function" where
  "example_fun i = \<lparr>fun_unique_id = 0, fun_resistant_id = 0,
     fun_container = \<lparr>fnc_shape = fst (example_defs ! i), fnc_dynamic_fn = snd (example_defs ! i)\<rparr>\<rparr>"

definition example_term :: "(unit, nat) Term" where
  "example_term = Term.Application (example_fun 0) [Term.Application (example_fun 1) [Term.Application (example_fun 2) []]]"

definition example_trace :: "(unit, nat) Trace" where
  "example_trace = Trace [] [\<lparr>step_agent = AgentName 0, step_action = Action.Input example_term\<rparr>] []"

lemmas example_simps = example_trace_def example_term_def example_fun_def example_defs_def example_T_def example_U_def

end
