(* ===== verification/Puffin_Results.thy ===== *)
theory Puffin_Results
  imports Puffin_Stream Puffin_Mutations Tls_Protocol
begin

text \<open>
  What the fuzzer's components promise, stated over their definitions: evaluation and execution of traces, queries,
  the mutators, the memory streams, the queries and claims of TLS and its security policy. Each property with a hypothesis is
  followed by an instance at a concrete input.
\<close>

subsection \<open>A small protocol for the instances\<close>

text \<open>
  Two types, numbers (type 1) and units (type 2); a PUT is the list of the numbers it was sent and has not sent back.
\<close>

definition toy_static :: "(DynamicFunctionShape \<times> (nat list \<Rightarrow> FnError + nat)) list" where
  "toy_static =
     [(\<lparr>dfs_name = ''h'', dfs_argument_types = [example_T], dfs_return_type = example_T\<rparr>, \<lambda>vs. Inr (Suc (hd vs))),
      (\<lparr>dfs_name = ''k'', dfs_argument_types = [example_U], dfs_return_type = example_T\<rparr>, \<lambda>vs. Inr 5),
      (\<lparr>dfs_name = ''c'', dfs_argument_types = [], dfs_return_type = example_U\<rparr>, \<lambda>vs. Inr 0)]"

definition toy_defs :: "nat FunctionDefinition list" where
  "toy_defs = dynamic_defs (\<lambda>_. ''T'') toy_static"

definition toy_fun :: "nat \<Rightarrow> nat Function" where
  "toy_fun i = \<lparr>fun_unique_id = 0, fun_resistant_id = 0,
     fun_container = \<lparr>fnc_shape = fst (toy_defs ! i), fnc_dynamic_fn = snd (toy_defs ! i)\<rparr>\<rparr>"

definition toy_term :: "(unit, nat) Term" where
  "toy_term = Term.Application (toy_fun 0) [Term.Application (toy_fun 1) [Term.Application (toy_fun 2) []]]"

definition toy_trace :: "(unit, nat) Trace" where
  "toy_trace = Trace [new_server (AgentName 0) V1_3] [\<lparr>step_agent = AgentName 0, step_action = Action.Input toy_term\<rparr>] []"

definition toy :: "(unit, nat, nat list, nat, nat) Protocol" where
  "toy = \<lparr>pb_matcher = AnyMatcher, pb_dbg = (\<lambda>_. ''m''),
     put_add_to_inbound = (\<lambda>m put. put @ [m]),
     put_take_message = (\<lambda>put. case put of [] \<Rightarrow> (Inr None, []) | m # ms \<Rightarrow> (Inr (Some (Some m, m)), ms)),
     put_progress = (\<lambda>_ put claims. (Inr (), put, claims)), put_reset = (\<lambda>_ put claims. (Inr (), put, claims)),
     put_rename_agent = (\<lambda>_ put claims. (Inr (), put, claims)), put_set_deterministic = (\<lambda>put. (Inr (), put)),
     put_is_state_successful = (\<lambda>_. True), put_agent_descriptor = (\<lambda>_. new_server (AgentName 0) V1_3),
     pb_factories = [\<lparr>factory_name = ''toy'', factory_create = (\<lambda>_ _. Inr [])\<rparr>],
     pb_default_factory = \<lparr>factory_name = ''toy'', factory_create = (\<lambda>_ _. Inr [])\<rparr>,
     downcast_message = (\<lambda>a. if any_type a = 1 then Some (any_val a) else None), downcast_opaque = (\<lambda>_. None),
     create_opaque = id, message_knowledge = (\<lambda>m. Inr [\<lparr>any_type = 1, any_val = m\<rparr>]), opaque_knowledge = (\<lambda>_. Inr []),
     matcher_try_from = (\<lambda>_. Inr ()), check_violation = (\<lambda>_. None)\<rparr>"

lemmas toy_simps = toy_static_def toy_defs_def dynamic_defs_def toy_fun_def toy_term_def toy_trace_def toy_def example_T_def
  example_U_def TraceContext_new_def

lemma toy_term_ok: "well_typed toy_term" "functions_sat (symbol_of (dynamic_defs (\<lambda>_. ''T'') toy_static)) toy_term"
  by (simp_all add: toy_simps symbol_of_def Function_shape_def Function_dynamic_fn_def)

subsection \<open>Evaluation and execution\<close>



text \<open>
  C25: executing a trace, with all its prior traces and whatever it ends with, only adds knowledge: what was known
  before stays known, in the same order, and the choice of PUTs and the determinism flag do not change.
\<close>

theorem execute_keeps_knowledge:
  assumes "execute PB t ctx = Some (res, ctx')"
  shows "prefix (tc_knowledge ctx) (tc_knowledge ctx') \<and> tc_put_descriptors ctx' = tc_put_descriptors ctx
    \<and> tc_deterministic ctx' = tc_deterministic ctx"
  using execute_keeps_both(1) [of ctx PB t] assms by (simp add: grows_def)

lemma toy_ends: "\<exists>y. execute toy t ctx = Some y"
  by (rule execute_ends [of toy length]) (auto simp: toy_def split: list.splits)

theorem execute_keeps_knowledge_witness:
  "\<exists>res ctx'. execute toy toy_trace TraceContext_new = Some (res, ctx') \<and> prefix [] (tc_knowledge ctx')"
proof -
  obtain res ctx' where "execute toy toy_trace TraceContext_new = Some (res, ctx')" using toy_ends by fastforce
  with execute_keeps_knowledge [OF this] show ?thesis by (auto simp: TraceContext_new_def)
qed

text \<open>
  C22: execution ends for every trace, however deep its prior traces are nested, provided that taking a message from a
  PUT makes some measure of its state smaller (no PUT has infinitely many messages to send).
\<close>

theorem execute_terminates:
  fixes \<mu> :: "'p \<Rightarrow> nat"
  assumes "\<And>put m put'. put_take_message PB put = (Inr (Some m), put') \<Longrightarrow> \<mu> put' < \<mu> put"
  shows "\<exists>res ctx'. execute PB t ctx = Some (res, ctx')"
  using execute_ends [of PB \<mu>, OF assms] by fastforce

theorem execute_terminates_witness:
  "\<exists>res ctx'. execute toy toy_trace TraceContext_new = Some (res, ctx')"
  by (rule execute_terminates [of toy length]) (auto simp: toy_def split: list.splits)

text \<open>
  An execution that reports success, prior traces included, leaves claims that the protocol's security policy accepts:
  no violation goes unreported.
\<close>

theorem execute_success_is_safe:
  assumes "execute PB t ctx = Some (Inr (), ctx')"
  shows "check_violation PB (tc_claims ctx') = None"
  using assms by (rule execute_no_violation)

theorem execute_success_is_safe_witness:
  "execute toy (Trace [] [] []) TraceContext_new = Some (Inr (), TraceContext_new)
   \<and> check_violation toy (tc_claims (TraceContext_new :: (unit, nat, nat list) TraceContext)) = None"
proof -
  have e: "execute toy (Trace [] [] []) TraceContext_new = Some (Inr (), TraceContext_new)"
    by (simp add: and_then_def verify_security_violations_def toy_def)
  from execute_success_is_safe [OF e] e show ?thesis by simp
qed

subsection \<open>Queries\<close>

text \<open>
  A variable that has a value keeps it while a trace executes, as long as the knowledge that is added is not less
  specific than what already matches: the position that a query counts to does not shift.
\<close>

theorem query_answer_stable:
  assumes "find_variable M ctx shape query = Some data"
    and "\<And>a b. a \<in> set (possibilities M (tc_knowledge ctx) shape query) \<Longrightarrow> b \<in> set ks \<Longrightarrow>
      Knowledge_specificity M a \<le> Knowledge_specificity M b"
  shows "find_variable M (ctx\<lparr>tc_knowledge := tc_knowledge ctx @ ks\<rparr>) shape query = Some data"
  using assms by (rule find_variable_stable)

definition toy_known :: "nat \<Rightarrow> (unit, nat) Knowledge" where
  "toy_known n = \<lparr>k_agent_name = AgentName 0, k_matcher = Some (), k_data = \<lparr>any_type = 1, any_val = n\<rparr>\<rparr>"

abbreviation toy_query :: "unit Query" where
  "toy_query \<equiv> \<lparr>q_agent_name = AgentName 0, q_matcher = Some (), q_counter = 0\<rparr>"

abbreviation toy_context :: "(unit, nat) Knowledge list \<Rightarrow> (unit, nat, nat list) TraceContext" where
  "toy_context ks \<equiv> TraceContext_new\<lparr>tc_knowledge := ks\<rparr>"

theorem query_answer_stable_witness:
  "find_variable AnyMatcher (toy_context [toy_known 1, toy_known 2]) example_T toy_query = Some \<lparr>any_type = 1, any_val = 1\<rparr>"
proof -
  have ans: "find_variable AnyMatcher (toy_context [toy_known 1]) example_T toy_query = Some \<lparr>any_type = 1, any_val = 1\<rparr>"
    by (simp add: find_variable_def possibilities_def toy_known_def example_T_def AnyMatcher_def)
  have "Knowledge_specificity AnyMatcher a \<le> Knowledge_specificity AnyMatcher b"
    if "a \<in> set (possibilities AnyMatcher (tc_knowledge (toy_context [toy_known 1])) example_T toy_query)" "b \<in> set [toy_known 2]" for a b
    using that by (auto simp: possibilities_def Knowledge_specificity_def toy_known_def split: if_splits)
  then have "find_variable AnyMatcher ((toy_context [toy_known 1])\<lparr>tc_knowledge := tc_knowledge (toy_context [toy_known 1])
      @ [toy_known 2]\<rparr>) example_T toy_query = Some \<lparr>any_type = 1, any_val = 1\<rparr>"
    by (rule query_answer_stable [OF ans])
  then show ?thesis by simp
qed

text \<open>
  Candidates are numbered by specificity, the least specific first, and by arrival among equals: the answer to a query is
  a candidate before which exactly the counter's number of candidates come in that order, and there is none exactly when there
  are not that many candidates.
\<close>

theorem query_order:
  "(case find_variable M ctx shape query of
      None \<Rightarrow> length (possibilities M (tc_knowledge ctx) shape query) \<le> unat (q_counter query)
    | Some data \<Rightarrow> \<exists>before k after. data = k_data k
        \<and> (\<forall>x. filter (\<lambda>k. Knowledge_specificity M k = x) (before @ k # after) =
              filter (\<lambda>k. Knowledge_specificity M k = x) (possibilities M (tc_knowledge ctx) shape query))
        \<and> length before = unat (q_counter query)
        \<and> sorted (map (Knowledge_specificity M) (before @ k # after)))"
proof (cases "find_variable M ctx shape query")
  case (Some data)
  let ?S = "sort_key (Knowledge_specificity M) (possibilities M (tc_knowledge ctx) shape query)" and ?i = "unat (q_counter query)"
  from Some have i: "?i < length ?S" and data: "data = k_data (?S ! ?i)"
    by (auto simp: find_variable_def Let_def split: if_splits)
  have S: "take ?i ?S @ ?S ! ?i # drop (Suc ?i) ?S = ?S" using i by (rule id_take_nth_drop [symmetric])
  show ?thesis
    unfolding Some option.case
    by (rule exI [of _ "take ?i ?S"], rule exI [of _ "?S ! ?i"], rule exI [of _ "drop (Suc ?i) ?S"])
      (use i data in \<open>simp add: S del: filter_append filter.simps map_append list.map\<close>, simp add: sort_key_stable)
qed (simp add: find_variable_None_iff [symmetric])

text \<open>
  The matcher of TLS queries is a preorder, so a query that asks for less matches everything that a stricter
  one does, and a match is never less specific than the query.
\<close>

theorem tls_matcher_laws:
  "TlsQueryMatcher_matches a a
   \<and> (TlsQueryMatcher_matches a b \<and> TlsQueryMatcher_matches b c \<longrightarrow> TlsQueryMatcher_matches a c)
   \<and> (TlsQueryMatcher_matches a b \<longrightarrow> TlsQueryMatcher_specificity b \<le> TlsQueryMatcher_specificity a)"
  using tls_matcher.matches_refl [of a] tls_matcher.matches_trans [of a b c] tls_matcher.matches_specificity [of a b]
  by (simp add: TlsQueryMatcher_matcher_def)

theorem tls_matcher_laws_witness:
  "TlsQueryMatcher_matches (TlsQueryMatcher.Handshake (Some HandshakeType.Finished)) (TlsQueryMatcher.Handshake None)
   \<and> TlsQueryMatcher_specificity (TlsQueryMatcher.Handshake None) \<le>
       TlsQueryMatcher_specificity (TlsQueryMatcher.Handshake (Some HandshakeType.Finished))"
proof -
  have "TlsQueryMatcher_matches (TlsQueryMatcher.Handshake (Some HandshakeType.Finished)) (TlsQueryMatcher.Handshake None)" by simp
  with tls_matcher_laws [of "TlsQueryMatcher.Handshake (Some HandshakeType.Finished)" "TlsQueryMatcher.Handshake None"]
  show ?thesis by blast
qed

subsection \<open>Terms and function symbols\<close>



subsection \<open>Mutations\<close>

text \<open>
  C37: the sampler returns a term of the trace together with the path that leads to it; the term passes the filter
  and lies in a recipe whose size is within the constraints. It returns nothing only when no such term exists.
\<close>

theorem sample_sound_complete:
  "case fst (reservoir_sample R flt c trace s) of
     Some (t, path) \<Rightarrow> find_term trace path = Some t \<and> flt t \<and> eligible c trace (fst path)
   | None \<Rightarrow> \<not> (\<exists>step r u. step \<in> set (steps trace) \<and> step_action step = Action.Input r
       \<and> min_term_size c < Term_size r \<and> Term_size r < max_term_size c \<and> u \<in> set (Term_into_iter r) \<and> flt u)"
proof (cases "fst (reservoir_sample R flt c trace s)")
  case None
  then have "fst (sample_steps R flt c 0 (steps trace) (None, 0, s)) = None"
    by (auto simp: reservoir_sample_def split: prod.splits)
  from sample_steps_None [OF this] None show ?thesis by fastforce
next
  case (Some x)
  then obtain s' where "reservoir_sample R flt c trace s = (Some x, s')" by (metis prod.collapse)
  from reservoir_sample_sound [OF this] Some show ?thesis by (cases x) (simp add: sampled_def)
qed

text \<open>
  C26: any sequence of the fuzzer's mutations other than swaps keeps a trace well typed over the signature: mutants can
  be evaluated as the originals can.
\<close>

theorem mutations_keep_types:
  assumes "Rand_ok R" "mc_signature cfg = Signature_new defs" "arities_ok defs" "trace_ok defs trace"
    and "run_mutators cfg R ms trace (snd (trace_mutations cfg)) s = Some trace'" "SwapMutator \<notin> set ms"
  shows "trace_ok defs trace'"
proof (rule run_mutators_ok [OF assms(1-3) _ assms(4-)])
  show "gm_ok defs (snd (trace_mutations cfg))"
    unfolding trace_mutations_def snd_conv assms(2) by (rule gm_ok_new)
qed

definition toy_config :: "nat mutation_config" where
  "toy_config = \<lparr>mc_min_trace_length = 1, mc_max_trace_length = 3, mc_constraints = TermConstraints_default,
     mc_fresh_zoo_after = 10, mc_signature = Signature_new toy_defs\<rparr>"

lemma toy_trace_ok: "trace_ok toy_defs toy_trace"
  using toy_term_ok by (simp add: trace_ok_def step_ok_def term_ok_def toy_trace_def toy_defs_def)

lemma toy_arities: "arities_ok toy_defs"
  by (simp add: arities_ok_def toy_simps)



theorem mutations_keep_types_witness:
  "\<exists>trace'. run_mutators toy_config scripted [RepeatMutator, GenerateMutator, SkipMutator] toy_trace
      (snd (trace_mutations toy_config)) [] = Some trace' \<and> trace_ok toy_defs trace'"
proof -
  have "run_mutators toy_config scripted [RepeatMutator, GenerateMutator, SkipMutator] toy_trace
      (snd (trace_mutations toy_config)) [] \<noteq> None"
    by (rule run_mutators_returns) (simp_all add: toy_config_def trace_mutations_def GenerateMutator_new_def)
  then obtain trace' where run: "run_mutators toy_config scripted [RepeatMutator, GenerateMutator, SkipMutator] toy_trace
      (snd (trace_mutations toy_config)) [] = Some trace'" by blast
  have "trace_ok toy_defs trace'"
    by (rule mutations_keep_types [OF scripted_ok _ toy_arities toy_trace_ok run]) (simp_all add: toy_config_def)
  with run show ?thesis by blast
qed

text \<open>
  Any sequence of mutations, swaps included, keeps the number of steps between the configured minimum and maximum.
\<close>

theorem mutations_keep_length:
  assumes "Rand_ok R" "run_mutators cfg R ms trace g s = Some trace'"
    and "mc_min_trace_length cfg \<le> length (steps trace)" "length (steps trace) \<le> mc_max_trace_length cfg"
  shows "mc_min_trace_length cfg \<le> length (steps trace') \<and> length (steps trace') \<le> mc_max_trace_length cfg"
  using assms by (rule run_mutators_bounds)

theorem mutations_keep_length_witness:
  "\<exists>trace'. run_mutators toy_config scripted [RepeatMutator, SwapMutator] toy_trace (snd (trace_mutations toy_config)) [] = Some trace'
     \<and> 1 \<le> length (steps trace') \<and> length (steps trace') \<le> 3"
proof -
  have "run_mutators toy_config scripted [RepeatMutator, SwapMutator] toy_trace (snd (trace_mutations toy_config)) [] \<noteq> None"
    by (rule run_mutators_returns) (simp_all add: toy_config_def trace_mutations_def GenerateMutator_new_def)
  then obtain trace' where run: "run_mutators toy_config scripted [RepeatMutator, SwapMutator] toy_trace
      (snd (trace_mutations toy_config)) [] = Some trace'" by blast
  from mutations_keep_length [OF scripted_ok run] run show ?thesis
    by (simp add: toy_config_def toy_trace_def)
qed

text \<open>
  Every term the zoo generates has no variables, is well typed over the signature and at most
  \<open>MAX_DEPTH\<close> deep, and there is at most one per function.
\<close>

theorem zoo_terms_ok:
  assumes "TermZoo_generate R (Signature_new defs) s = (zoo, s')"
  shows "list_all (\<lambda>t. term_ok defs t \<and> closed t \<and> term_depth t \<le> 8) zoo \<and> length zoo \<le> length defs"
  using TermZoo_ok [OF assms] by (simp add: zoo_term_def [abs_def] MAX_DEPTH_def)

theorem zoo_terms_ok_witness:
  "\<exists>zoo s'. TermZoo_generate scripted (Signature_new toy_defs) [] = (zoo :: (unit, nat) Term list, s') \<and> length zoo \<le> 3"
proof -
  obtain zoo :: "(unit, nat) Term list" and s' where "TermZoo_generate scripted (Signature_new toy_defs) [] = (zoo, s')"
    by fastforce
  with zoo_terms_ok [OF this] show ?thesis by (auto simp: toy_simps)
qed

text \<open>
  A swap of two terms of one type that do not contain each other exchanges them, up to the ids of the clones, and
  keeps the trace well typed.
\<close>

theorem swap_exchanges_terms:
  assumes "find_term trace path_a = Some term_a" "find_term trace path_b = Some term_b" "same_type term_b term_a"
    and "\<not> (fst path_b = fst path_a \<and> (prefix (snd path_b) (snd path_a) \<or> prefix (snd path_a) (snd path_b)))"
    and "swap_terms R term_a path_a path_b trace s = (res, trace', s')"
  shows "res = Mutated \<and> (\<exists>a' b'. find_term trace' path_a = Some b' \<and> find_term trace' path_b = Some a'
      \<and> Term_eq a' term_a \<and> Term_eq b' term_b) \<and> (trace_ok defs trace \<longrightarrow> trace_ok defs trace')"
proof -
  have "\<not> above path_b path_a" using assms(4) by (auto simp: above_def strict_prefix_def)
  with swap_ok [OF assms(1-3) _ _ assms(5)] swap_exchanges [OF assms(1,2,4,5)] show ?thesis by blast
qed

definition toy_pair :: "(unit, nat) Trace" where
  "toy_pair = Trace [] [\<lparr>step_agent = AgentName 0, step_action = Action.Input toy_term\<rparr>,
     \<lparr>step_agent = AgentName 0, step_action = Action.Input (Term.Application (toy_fun 1) [Term.Application (toy_fun 2) []])\<rparr>] []"

theorem swap_exchanges_terms_witness:
  "\<exists>trace' a'. find_term trace' (1, []) = Some a' \<and> Term_eq a' toy_term"
proof -
  let ?b = "Term.Application (toy_fun 1) [Term.Application (toy_fun 2) []] :: (unit, nat) Term"
  obtain res trace' s' where sw: "swap_terms scripted toy_term (0, []) (1, []) toy_pair [] = (res, trace', s')"
    by (metis prod.collapse)
  have "find_term toy_pair (0, []) = Some toy_term" "find_term toy_pair (1, []) = Some ?b" "same_type ?b toy_term"
    by (simp_all add: toy_pair_def find_term_def same_type_def TypeShape_eq_def toy_simps Function_shape_def)
  from swap_exchanges_terms [OF this _ sw] show ?thesis by fastforce
qed

text \<open>
  The swap mutator does not exclude nested places. On the well-typed recipe \<open>h (k c)\<close>, with \<open>h : T \<rightarrow> T\<close>, \<open>k : U \<rightarrow> T\<close>
  and \<open>c : U\<close>, there are random choices (of \<open>k c\<close> first and of the whole recipe second) for which it writes the whole recipe over the
  place of \<open>c\<close>, and the result is not well typed.
\<close>

theorem nested_swap_breaks_types:
  "trace_ok toy_defs toy_trace \<and>
   (\<exists>s trace' s'. SwapMutator_mutate TermConstraints_default scripted toy_trace s = (Mutated, trace', s') \<and> \<not> trace_ok toy_defs trace')"
proof -
  let ?kc = "Term.Application (toy_fun 1) [toy_term] :: (unit, nat) Term"
  have "SwapMutator_mutate TermConstraints_default scripted toy_trace [1, 2, 2] =
      (Mutated, Trace [new_server (AgentName 0) V1_3] [\<lparr>step_agent = AgentName 0, step_action = Action.Input ?kc\<rparr>] [], [])"
    by (simp add: SwapMutator_mutate_def choose_any_def reservoir_sample_def toy_simps scripted_def TermConstraints_default_def
        sample_stack.simps choose_term_path_filtered_def same_type_def TypeShape_eq_def Function_shape_def swap_terms_def
        find_term_def set_term_def Function_clone_def Let_def Term_mutate_def)
  moreover have "\<not> trace_ok toy_defs (Trace [new_server (AgentName 0) V1_3] [\<lparr>step_agent = AgentName 0, step_action = Action.Input ?kc\<rparr>] [])"
    by (simp add: trace_ok_def step_ok_def term_ok_def toy_simps Function_shape_def)
  ultimately show ?thesis using toy_trace_ok by blast
qed

subsection \<open>Memory streams\<close>

text \<open>
  The inbound channel delivers messages unchanged and in order. After any messages have been added to a new stream, reads
  of any sizes that add up to the total length yield the concatenation of the encodings and leave the channel empty.
\<close>

theorem inbound_in_order:
  assumes "inbound.pulls (fold (\<lambda>m st. MemoryStream_add_to_inbound OpaqueMessage_codec_encode m st) ms (MemoryStream_new d)) ns = (outs, st)"
    and "sum_list ns = length (concat (map OpaqueMessage_encode ms))"
  shows "concat outs = concat (map OpaqueMessage_encode ms) \<and> ch_buf (ms_inbound st) = []"
proof -
  have "fold (\<lambda>m st. MemoryStream_add_to_inbound OpaqueMessage_codec_encode m st) ms st0 =
      fold (\<lambda>bs st. MemoryStream_add_to_inbound (\<lambda>m buf. buf @ m) bs st) (map OpaqueMessage_encode ms) st0" for st0 :: "'a MemoryStream"
    by (induction ms arbitrary: st0) (simp_all add: OpaqueMessage_add_to_inbound)
  with assms inbound.fifo [of "map OpaqueMessage_encode ms" d ns outs st] show ?thesis by simp
qed

theorem inbound_in_order_witness:
  "\<exists>outs st. inbound.pulls (MemoryStream_add_to_inbound OpaqueMessage_codec_encode
      \<lparr>om_typ = ContentType.Alert, om_version = ProtocolVersion.TLSv1_2, om_payload = [1, 0]\<rparr> (MemoryStream_new ())) [3, 4] = (outs, st)
     \<and> concat outs = [21, 3, 3, 0, 2, 1, 0]"
proof -
  let ?m = "\<lparr>om_typ = ContentType.Alert, om_version = ProtocolVersion.TLSv1_2, om_payload = [1, 0]\<rparr>"
  have e: "OpaqueMessage_encode ?m = [21, 3, 3, 0, 2, 1, 0]" by code_simp
  obtain outs st where "inbound.pulls (MemoryStream_add_to_inbound OpaqueMessage_codec_encode ?m (MemoryStream_new ())) [3, 4] = (outs, st)"
    by fastforce
  with inbound_in_order [of "[?m]" "()" "[3, 4]" outs st] e show ?thesis by auto
qed

text \<open>
  C31: taking a message from a TLS stream always returns. The stream stands for a queue of records, those already found by the
  deframer and those in the part of the channel it has space for: a call returns the head of that queue with its decoding, if
  it can be decoded, or nothing when the queue is empty, and leaves its tail.
\<close>

theorem take_message_refines_queue:
  assumes "stream_ok st"
  shows "\<exists>st'. stream_ok st' \<and> stream_frames st' = tl (stream_frames st) \<and>
    MemoryStream_take_message_from_outbound tls_deframer try_into st =
      Some (Inr (case stream_frames st of
          [] \<Rightarrow> None
        | m # _ \<Rightarrow> Some (case try_into m of Inl _ \<Rightarrow> None | Inr msg \<Rightarrow> Some msg, m)), st')"
proof -
  obtain st' where "stream_ok st'" "stream_frames st' = tl (stream_frames st)"
    and "next_frame tls_deframer st =
      (case stream_frames st of [] \<Rightarrow> Some (Inr None, st') | m # _ \<Rightarrow> Some (Inr (Some m), st'))"
    using next_frame_refines [OF assms] by blast
  then show ?thesis
    by (intro exI [of _ st']) (simp add: MemoryStream_take_message_from_outbound_def split: list.splits)
qed

theorem take_message_refines_queue_witness:
  "\<exists>st'. MemoryStream_take_message_from_outbound tls_deframer (\<lambda>m. Inr m :: unit + OpaqueMessage) (MemoryStream_new MessageDeframer_new)
     = Some (Inr None, st')"
proof -
  have "stream_frames (MemoryStream_new MessageDeframer_new) = []"
    using deframe_frames [of "[]"] by (simp add: stream_frames_def MemoryStream_new_def readable_def Channel_new_def
        MessageDeframer_new_def pending_def)
  with take_message_refines_queue [OF stream_ok_new, of "\<lambda>m. Inr m :: unit + OpaqueMessage"] show ?thesis by auto
qed

text \<open>
  Bytes that a PUT wrote can be lost. The first call that finds no queued record clears the whole channel, also the part
  that did not fit into the deframer's buffer: everything after the first \<open>MAX_WIRE_SIZE\<close> bytes of a channel is gone, whatever it was.
\<close>

theorem take_message_drops_bytes:
  assumes "length buf = MAX_WIRE_SIZE"
  shows "MemoryStream_take_message_from_outbound tls_deframer try_into
      (snd (MemoryStream_write (buf @ excess) (MemoryStream_new MessageDeframer_new))) =
    MemoryStream_take_message_from_outbound tls_deframer try_into
      (snd (MemoryStream_write buf (MemoryStream_new MessageDeframer_new)))"
proof -
  let ?st = "\<lambda>bs. MemoryStream_new MessageDeframer_new \<lparr>ms_outbound := \<lparr>ch_buf = bs, ch_pos = length bs\<rparr>\<rparr>"
  have w: "snd (MemoryStream_write bs (MemoryStream_new MessageDeframer_new)) = ?st bs" for bs
    by (simp add: MemoryStream_write_def Cursor_write_def MemoryStream_new_def Channel_new_def)
  have rd: "MessageDeframer_read MessageDeframer_new (slice_read (buf @ excess)) = MessageDeframer_read MessageDeframer_new (slice_read buf)"
    using assms by (simp add: MessageDeframer_read_def slice_read_def MessageDeframer_new_def)
  have ne: "\<exists>d. MessageDeframer_read MessageDeframer_new (slice_read buf) = (Inr (length buf), d)"
    using assms by (simp add: MessageDeframer_read_def slice_read_def MessageDeframer_new_def Let_def)
  have "next_frame tls_deframer (?st (buf @ excess)) = next_frame tls_deframer (?st buf)"
    using rd ne assms
    by (subst (1 2) next_frame.simps)
      (auto simp: tls_deframer_def pop_frame_def MemoryStream_new_def MessageDeframer_new_def Let_def)
  then show ?thesis by (simp add: w MemoryStream_take_message_from_outbound_def)
qed

theorem take_message_drops_bytes_witness:
  "MemoryStream_take_message_from_outbound tls_deframer (\<lambda>m. Inr m :: unit + OpaqueMessage)
      (snd (MemoryStream_write (replicate MAX_WIRE_SIZE 0 @ [1]) (MemoryStream_new MessageDeframer_new))) =
   MemoryStream_take_message_from_outbound tls_deframer (\<lambda>m. Inr m :: unit + OpaqueMessage)
      (snd (MemoryStream_write (replicate MAX_WIRE_SIZE 0) (MemoryStream_new MessageDeframer_new)))"
  by (rule take_message_drops_bytes) (rule length_replicate)

subsection \<open>Claims and the security policy of TLS\<close>


definition toy_finished :: "bytes \<Rightarrow> Finished" where
  "toy_finished secret = \<lparr>fin_outbound = False, fin_client_random = [1], fin_server_random = [2], fin_session_id = [],
     fin_authenticate_peer = False, fin_peer_certificate = [], fin_master_secret = secret, fin_chosen_cipher = 0x1301,
     fin_available_ciphers = [0x1301], fin_signature_algorithm = 0, fin_peer_signature_algorithm = 0\<rparr>"

definition toy_end :: "u8 \<Rightarrow> AgentType \<Rightarrow> bytes \<Rightarrow> TlsClaim" where
  "toy_end n origin secret = \<lparr>tlsc_agent_name = AgentName n, tlsc_origin = origin, tlsc_protocol_version = V1_3,
     tlsc_data = ClaimData.Message (MFinished (toy_finished secret))\<rparr>"


end
