(* ===== verification/Tls_Signature.thy ===== *)
theory Tls_Signature
  imports Tls_Fn_Extensions Puffin_Results Tls_Protocol
begin

text \<open>
  The signature of TLS: \<open>define_signature!\<close> in \<open>tlspuffin/src/tls/mod.rs\<close> over the functions of \<open>tls/fn_*.rs\<close>.

  A value of the attacker is a \<open>tls_value\<close>, with one constructor for each Rust type; \<open>tls_value_type\<close> is the type it would be boxed
  at. An \<open>Embed\<close> moves values of one HOL type into that universe and back; the locale \<open>embedding\<close> is what that has to satisfy.
  As the macro \<open>dynamic_fn!\<close> is written once per arity over any argument types, \<open>takes\<close> and \<open>returns\<close> build the wrapper of a
  static function from the embeddings of its argument and result types, and each symbol is given by its types and the function it
  names. The symbols of each Rust module are a datatype.

  Parameters (\<open>tls_env\<close>): ring, webpki, the DNS-name parser and its error, the certificates read from files, and what
  \<open>std::any\<close> says of types and functions.

  The lemmas: each symbol is total on values of its argument types and returns a value of its result type; so evaluating a
  recipe never reaches a function with a value of a type it does not take.
\<close>

subsection \<open>Values and types\<close>

datatype tls_type =
    T_Bool
  | T_U64
  | T_Bytes
  | T_OptBytes
  | T_BytesVec
  | T_Message
  | T_OpaqueMessage
  | T_HandshakeHash
  | T_ProtocolVersion
  | T_SessionID
  | T_Random
  | T_Compression
  | T_Compressions
  | T_CipherSuite
  | T_CipherSuites
  | T_ClientExtension
  | T_ClientExtensions
  | T_ServerExtension
  | T_ServerExtensions
  | T_NamedGroup
  | T_SignatureScheme
  | T_Certificate
  | T_Certificates
  | T_HelloRetryExtension
  | T_HelloRetryExtensions
  | T_CertReqExtension
  | T_CertReqExtensions
  | T_CertificateExtension
  | T_CertificateExtensions
  | T_NewSessionTicketExtension
  | T_NewSessionTicketExtensions
  | T_CertificateEntry
  | T_CertificateEntries
  | T_PresharedKeyIdentity
  | T_PresharedKeyIdentities
  | T_AlertDescription
  | T_AlertLevel
  | T_HandshakeType
  | T_ECDHE
  | T_PayloadU16
  | T_Claim claim_type

datatype 'd tls_value =
    VData "'d tls_data"
  | VClaim claim_value
  | VBool bool
  | VOptBytes "bytes option"
  | VBytesVec "bytes list"
  | VHandshakeHash HandshakeHash
  | VNamedGroup NamedGroup
  | VSignatureScheme SignatureScheme
  | VCertificate Certificate
  | VHelloRetryExtension HelloRetryExtension
  | VHelloRetryExtensions "HelloRetryExtension list"
  | VCertReqExtension CertReqExtension
  | VCertReqExtensions "CertReqExtension list"
  | VCertificateExtension CertificateExtension
  | VCertificateExtensions "CertificateExtension list"
  | VNewSessionTicketExtension NewSessionTicketExtension
  | VNewSessionTicketExtensions "NewSessionTicketExtension list"
  | VCertificateEntry CertificateEntry
  | VCertificateEntries "CertificateEntry list"
  | VPresharedKeyIdentity PresharedKeyIdentity
  | VPresharedKeyIdentities "PresharedKeyIdentity list"

primrec data_type :: "'d tls_data \<Rightarrow> tls_type" where
  "data_type (DU64 _) = T_U64"
| "data_type (DBytes _) = T_Bytes"
| "data_type (DMessage _) = T_Message"
| "data_type (DOpaqueMessage _) = T_OpaqueMessage"
| "data_type (DProtocolVersion _) = T_ProtocolVersion"
| "data_type (DSessionID _) = T_SessionID"
| "data_type (DRandom _) = T_Random"
| "data_type (DCompression _) = T_Compression"
| "data_type (DCompressions _) = T_Compressions"
| "data_type (DCipherSuite _) = T_CipherSuite"
| "data_type (DCipherSuites _) = T_CipherSuites"
| "data_type (DClientExtension _) = T_ClientExtension"
| "data_type (DClientExtensions _) = T_ClientExtensions"
| "data_type (DServerExtension _) = T_ServerExtension"
| "data_type (DServerExtensions _) = T_ServerExtensions"
| "data_type (DCertificates _) = T_Certificates"
| "data_type (DAlertDescription _) = T_AlertDescription"
| "data_type (DAlertLevel _) = T_AlertLevel"
| "data_type (DHandshakeType _) = T_HandshakeType"
| "data_type (DECDHE _) = T_ECDHE"
| "data_type (DPayloadU16 _) = T_PayloadU16"

primrec tls_value_type :: "'d tls_value \<Rightarrow> tls_type" where
  "tls_value_type (VData d) = data_type d"
| "tls_value_type (VClaim c) = T_Claim (value_type c)"
| "tls_value_type (VBool _) = T_Bool"
| "tls_value_type (VOptBytes _) = T_OptBytes"
| "tls_value_type (VBytesVec _) = T_BytesVec"
| "tls_value_type (VHandshakeHash _) = T_HandshakeHash"
| "tls_value_type (VNamedGroup _) = T_NamedGroup"
| "tls_value_type (VSignatureScheme _) = T_SignatureScheme"
| "tls_value_type (VCertificate _) = T_Certificate"
| "tls_value_type (VHelloRetryExtension _) = T_HelloRetryExtension"
| "tls_value_type (VHelloRetryExtensions _) = T_HelloRetryExtensions"
| "tls_value_type (VCertReqExtension _) = T_CertReqExtension"
| "tls_value_type (VCertReqExtensions _) = T_CertReqExtensions"
| "tls_value_type (VCertificateExtension _) = T_CertificateExtension"
| "tls_value_type (VCertificateExtensions _) = T_CertificateExtensions"
| "tls_value_type (VNewSessionTicketExtension _) = T_NewSessionTicketExtension"
| "tls_value_type (VNewSessionTicketExtensions _) = T_NewSessionTicketExtensions"
| "tls_value_type (VCertificateEntry _) = T_CertificateEntry"
| "tls_value_type (VCertificateEntries _) = T_CertificateEntries"
| "tls_value_type (VPresharedKeyIdentity _) = T_PresharedKeyIdentity"
| "tls_value_type (VPresharedKeyIdentities _) = T_PresharedKeyIdentities"

lemma data_type_neq [simp]:
  "data_type d \<noteq> T_Bool"
  "data_type d \<noteq> T_OptBytes"
  "data_type d \<noteq> T_BytesVec"
  "data_type d \<noteq> T_HandshakeHash"
  "data_type d \<noteq> T_NamedGroup"
  "data_type d \<noteq> T_SignatureScheme"
  "data_type d \<noteq> T_Certificate"
  "data_type d \<noteq> T_HelloRetryExtension"
  "data_type d \<noteq> T_HelloRetryExtensions"
  "data_type d \<noteq> T_CertReqExtension"
  "data_type d \<noteq> T_CertReqExtensions"
  "data_type d \<noteq> T_CertificateExtension"
  "data_type d \<noteq> T_CertificateExtensions"
  "data_type d \<noteq> T_NewSessionTicketExtension"
  "data_type d \<noteq> T_NewSessionTicketExtensions"
  "data_type d \<noteq> T_CertificateEntry"
  "data_type d \<noteq> T_CertificateEntries"
  "data_type d \<noteq> T_PresharedKeyIdentity"
  "data_type d \<noteq> T_PresharedKeyIdentities"
  "data_type d \<noteq> T_Claim c"
  by (cases d; simp)+

subsection \<open>Embeddings\<close>

record ('d, 'a) Embed =
  em_type :: tls_type
  em_inj :: "'a \<Rightarrow> 'd tls_value"
  em_prj :: "'d tls_value \<Rightarrow> 'a option"

text \<open>A type is embedded when its values are those of its tag, and are recovered.\<close>

locale embedding =
  fixes T :: "('d, 'a) Embed"
  assumes type_inj: "tls_value_type (em_inj T x) = em_type T"
    and prj_iff: "em_prj T v = Some x \<longleftrightarrow> v = em_inj T x"
    and prj_None: "em_prj T v = None \<longleftrightarrow> tls_value_type v \<noteq> em_type T"
begin

lemma prj_inj: "em_prj T (em_inj T x) = Some x"
  by (simp add: prj_iff)

lemma typed_cases:
  assumes "tls_value_type v = em_type T"
  obtains x where "v = em_inj T x" "em_prj T v = Some x"
  using assms prj_None prj_iff by (metis option.exhaust)

end

definition t_Bool :: "('d, bool) Embed" where
  "t_Bool = \<lparr>em_type = T_Bool, em_inj = (\<lambda>x. VBool x),
     em_prj = (\<lambda>v. case v of VBool x \<Rightarrow> Some x | _ \<Rightarrow> None)\<rparr>"

definition t_U64 :: "('d, u64) Embed" where
  "t_U64 = \<lparr>em_type = T_U64, em_inj = (\<lambda>x. VData (DU64 x)),
     em_prj = (\<lambda>v. case v of VData d \<Rightarrow> (case d of DU64 x \<Rightarrow> Some x | _ \<Rightarrow> None) | _ \<Rightarrow> None)\<rparr>"

definition t_Bytes :: "('d, bytes) Embed" where
  "t_Bytes = \<lparr>em_type = T_Bytes, em_inj = (\<lambda>x. VData (DBytes x)),
     em_prj = (\<lambda>v. case v of VData d \<Rightarrow> (case d of DBytes x \<Rightarrow> Some x | _ \<Rightarrow> None) | _ \<Rightarrow> None)\<rparr>"

definition t_OptBytes :: "('d, bytes option) Embed" where
  "t_OptBytes = \<lparr>em_type = T_OptBytes, em_inj = (\<lambda>x. VOptBytes x),
     em_prj = (\<lambda>v. case v of VOptBytes x \<Rightarrow> Some x | _ \<Rightarrow> None)\<rparr>"

definition t_BytesVec :: "('d, bytes list) Embed" where
  "t_BytesVec = \<lparr>em_type = T_BytesVec, em_inj = (\<lambda>x. VBytesVec x),
     em_prj = (\<lambda>v. case v of VBytesVec x \<Rightarrow> Some x | _ \<Rightarrow> None)\<rparr>"

definition t_Message :: "('d, 'd Message) Embed" where
  "t_Message = \<lparr>em_type = T_Message, em_inj = (\<lambda>x. VData (DMessage x)),
     em_prj = (\<lambda>v. case v of VData d \<Rightarrow> (case d of DMessage x \<Rightarrow> Some x | _ \<Rightarrow> None) | _ \<Rightarrow> None)\<rparr>"

definition t_OpaqueMessage :: "('d, OpaqueMessage) Embed" where
  "t_OpaqueMessage = \<lparr>em_type = T_OpaqueMessage, em_inj = (\<lambda>x. VData (DOpaqueMessage x)),
     em_prj = (\<lambda>v. case v of VData d \<Rightarrow> (case d of DOpaqueMessage x \<Rightarrow> Some x | _ \<Rightarrow> None) | _ \<Rightarrow> None)\<rparr>"

definition t_HandshakeHash :: "('d, HandshakeHash) Embed" where
  "t_HandshakeHash = \<lparr>em_type = T_HandshakeHash, em_inj = (\<lambda>x. VHandshakeHash x),
     em_prj = (\<lambda>v. case v of VHandshakeHash x \<Rightarrow> Some x | _ \<Rightarrow> None)\<rparr>"

definition t_ProtocolVersion :: "('d, ProtocolVersion) Embed" where
  "t_ProtocolVersion = \<lparr>em_type = T_ProtocolVersion, em_inj = (\<lambda>x. VData (DProtocolVersion x)),
     em_prj = (\<lambda>v. case v of VData d \<Rightarrow> (case d of DProtocolVersion x \<Rightarrow> Some x | _ \<Rightarrow> None) | _ \<Rightarrow> None)\<rparr>"

definition t_SessionID :: "('d, SessionID) Embed" where
  "t_SessionID = \<lparr>em_type = T_SessionID, em_inj = (\<lambda>x. VData (DSessionID x)),
     em_prj = (\<lambda>v. case v of VData d \<Rightarrow> (case d of DSessionID x \<Rightarrow> Some x | _ \<Rightarrow> None) | _ \<Rightarrow> None)\<rparr>"

definition t_Random :: "('d, Random) Embed" where
  "t_Random = \<lparr>em_type = T_Random, em_inj = (\<lambda>x. VData (DRandom x)),
     em_prj = (\<lambda>v. case v of VData d \<Rightarrow> (case d of DRandom x \<Rightarrow> Some x | _ \<Rightarrow> None) | _ \<Rightarrow> None)\<rparr>"

definition t_Compression :: "('d, Compression) Embed" where
  "t_Compression = \<lparr>em_type = T_Compression, em_inj = (\<lambda>x. VData (DCompression x)),
     em_prj = (\<lambda>v. case v of VData d \<Rightarrow> (case d of DCompression x \<Rightarrow> Some x | _ \<Rightarrow> None) | _ \<Rightarrow> None)\<rparr>"

definition t_Compressions :: "('d, Compression list) Embed" where
  "t_Compressions = \<lparr>em_type = T_Compressions, em_inj = (\<lambda>x. VData (DCompressions x)),
     em_prj = (\<lambda>v. case v of VData d \<Rightarrow> (case d of DCompressions x \<Rightarrow> Some x | _ \<Rightarrow> None) | _ \<Rightarrow> None)\<rparr>"

definition t_CipherSuite :: "('d, CipherSuite) Embed" where
  "t_CipherSuite = \<lparr>em_type = T_CipherSuite, em_inj = (\<lambda>x. VData (DCipherSuite x)),
     em_prj = (\<lambda>v. case v of VData d \<Rightarrow> (case d of DCipherSuite x \<Rightarrow> Some x | _ \<Rightarrow> None) | _ \<Rightarrow> None)\<rparr>"

definition t_CipherSuites :: "('d, CipherSuite list) Embed" where
  "t_CipherSuites = \<lparr>em_type = T_CipherSuites, em_inj = (\<lambda>x. VData (DCipherSuites x)),
     em_prj = (\<lambda>v. case v of VData d \<Rightarrow> (case d of DCipherSuites x \<Rightarrow> Some x | _ \<Rightarrow> None) | _ \<Rightarrow> None)\<rparr>"

definition t_ClientExtension :: "('d, 'd ClientExtension) Embed" where
  "t_ClientExtension = \<lparr>em_type = T_ClientExtension, em_inj = (\<lambda>x. VData (DClientExtension x)),
     em_prj = (\<lambda>v. case v of VData d \<Rightarrow> (case d of DClientExtension x \<Rightarrow> Some x | _ \<Rightarrow> None) | _ \<Rightarrow> None)\<rparr>"

definition t_ClientExtensions :: "('d, 'd ClientExtension list) Embed" where
  "t_ClientExtensions = \<lparr>em_type = T_ClientExtensions, em_inj = (\<lambda>x. VData (DClientExtensions x)),
     em_prj = (\<lambda>v. case v of VData d \<Rightarrow> (case d of DClientExtensions x \<Rightarrow> Some x | _ \<Rightarrow> None) | _ \<Rightarrow> None)\<rparr>"

definition t_ServerExtension :: "('d, ServerExtension) Embed" where
  "t_ServerExtension = \<lparr>em_type = T_ServerExtension, em_inj = (\<lambda>x. VData (DServerExtension x)),
     em_prj = (\<lambda>v. case v of VData d \<Rightarrow> (case d of DServerExtension x \<Rightarrow> Some x | _ \<Rightarrow> None) | _ \<Rightarrow> None)\<rparr>"

definition t_ServerExtensions :: "('d, ServerExtension list) Embed" where
  "t_ServerExtensions = \<lparr>em_type = T_ServerExtensions, em_inj = (\<lambda>x. VData (DServerExtensions x)),
     em_prj = (\<lambda>v. case v of VData d \<Rightarrow> (case d of DServerExtensions x \<Rightarrow> Some x | _ \<Rightarrow> None) | _ \<Rightarrow> None)\<rparr>"

definition t_NamedGroup :: "('d, NamedGroup) Embed" where
  "t_NamedGroup = \<lparr>em_type = T_NamedGroup, em_inj = (\<lambda>x. VNamedGroup x),
     em_prj = (\<lambda>v. case v of VNamedGroup x \<Rightarrow> Some x | _ \<Rightarrow> None)\<rparr>"

definition t_SignatureScheme :: "('d, SignatureScheme) Embed" where
  "t_SignatureScheme = \<lparr>em_type = T_SignatureScheme, em_inj = (\<lambda>x. VSignatureScheme x),
     em_prj = (\<lambda>v. case v of VSignatureScheme x \<Rightarrow> Some x | _ \<Rightarrow> None)\<rparr>"

definition t_Certificate :: "('d, Certificate) Embed" where
  "t_Certificate = \<lparr>em_type = T_Certificate, em_inj = (\<lambda>x. VCertificate x),
     em_prj = (\<lambda>v. case v of VCertificate x \<Rightarrow> Some x | _ \<Rightarrow> None)\<rparr>"

definition t_Certificates :: "('d, Certificate list) Embed" where
  "t_Certificates = \<lparr>em_type = T_Certificates, em_inj = (\<lambda>x. VData (DCertificates x)),
     em_prj = (\<lambda>v. case v of VData d \<Rightarrow> (case d of DCertificates x \<Rightarrow> Some x | _ \<Rightarrow> None) | _ \<Rightarrow> None)\<rparr>"

definition t_HelloRetryExtension :: "('d, HelloRetryExtension) Embed" where
  "t_HelloRetryExtension = \<lparr>em_type = T_HelloRetryExtension, em_inj = (\<lambda>x. VHelloRetryExtension x),
     em_prj = (\<lambda>v. case v of VHelloRetryExtension x \<Rightarrow> Some x | _ \<Rightarrow> None)\<rparr>"

definition t_HelloRetryExtensions :: "('d, HelloRetryExtension list) Embed" where
  "t_HelloRetryExtensions = \<lparr>em_type = T_HelloRetryExtensions, em_inj = (\<lambda>x. VHelloRetryExtensions x),
     em_prj = (\<lambda>v. case v of VHelloRetryExtensions x \<Rightarrow> Some x | _ \<Rightarrow> None)\<rparr>"

definition t_CertReqExtension :: "('d, CertReqExtension) Embed" where
  "t_CertReqExtension = \<lparr>em_type = T_CertReqExtension, em_inj = (\<lambda>x. VCertReqExtension x),
     em_prj = (\<lambda>v. case v of VCertReqExtension x \<Rightarrow> Some x | _ \<Rightarrow> None)\<rparr>"

definition t_CertReqExtensions :: "('d, CertReqExtension list) Embed" where
  "t_CertReqExtensions = \<lparr>em_type = T_CertReqExtensions, em_inj = (\<lambda>x. VCertReqExtensions x),
     em_prj = (\<lambda>v. case v of VCertReqExtensions x \<Rightarrow> Some x | _ \<Rightarrow> None)\<rparr>"

definition t_CertificateExtension :: "('d, CertificateExtension) Embed" where
  "t_CertificateExtension = \<lparr>em_type = T_CertificateExtension, em_inj = (\<lambda>x. VCertificateExtension x),
     em_prj = (\<lambda>v. case v of VCertificateExtension x \<Rightarrow> Some x | _ \<Rightarrow> None)\<rparr>"

definition t_CertificateExtensions :: "('d, CertificateExtension list) Embed" where
  "t_CertificateExtensions = \<lparr>em_type = T_CertificateExtensions, em_inj = (\<lambda>x. VCertificateExtensions x),
     em_prj = (\<lambda>v. case v of VCertificateExtensions x \<Rightarrow> Some x | _ \<Rightarrow> None)\<rparr>"

definition t_NewSessionTicketExtension :: "('d, NewSessionTicketExtension) Embed" where
  "t_NewSessionTicketExtension = \<lparr>em_type = T_NewSessionTicketExtension, em_inj = (\<lambda>x. VNewSessionTicketExtension x),
     em_prj = (\<lambda>v. case v of VNewSessionTicketExtension x \<Rightarrow> Some x | _ \<Rightarrow> None)\<rparr>"

definition t_NewSessionTicketExtensions :: "('d, NewSessionTicketExtension list) Embed" where
  "t_NewSessionTicketExtensions = \<lparr>em_type = T_NewSessionTicketExtensions, em_inj = (\<lambda>x. VNewSessionTicketExtensions x),
     em_prj = (\<lambda>v. case v of VNewSessionTicketExtensions x \<Rightarrow> Some x | _ \<Rightarrow> None)\<rparr>"

definition t_CertificateEntry :: "('d, CertificateEntry) Embed" where
  "t_CertificateEntry = \<lparr>em_type = T_CertificateEntry, em_inj = (\<lambda>x. VCertificateEntry x),
     em_prj = (\<lambda>v. case v of VCertificateEntry x \<Rightarrow> Some x | _ \<Rightarrow> None)\<rparr>"

definition t_CertificateEntries :: "('d, CertificateEntry list) Embed" where
  "t_CertificateEntries = \<lparr>em_type = T_CertificateEntries, em_inj = (\<lambda>x. VCertificateEntries x),
     em_prj = (\<lambda>v. case v of VCertificateEntries x \<Rightarrow> Some x | _ \<Rightarrow> None)\<rparr>"

definition t_PresharedKeyIdentity :: "('d, PresharedKeyIdentity) Embed" where
  "t_PresharedKeyIdentity = \<lparr>em_type = T_PresharedKeyIdentity, em_inj = (\<lambda>x. VPresharedKeyIdentity x),
     em_prj = (\<lambda>v. case v of VPresharedKeyIdentity x \<Rightarrow> Some x | _ \<Rightarrow> None)\<rparr>"

definition t_PresharedKeyIdentities :: "('d, PresharedKeyIdentity list) Embed" where
  "t_PresharedKeyIdentities = \<lparr>em_type = T_PresharedKeyIdentities, em_inj = (\<lambda>x. VPresharedKeyIdentities x),
     em_prj = (\<lambda>v. case v of VPresharedKeyIdentities x \<Rightarrow> Some x | _ \<Rightarrow> None)\<rparr>"

definition t_TranscriptCertificate :: "('d, TlsTranscript) Embed" where
  "t_TranscriptCertificate = \<lparr>em_type = T_Claim ty_TranscriptCertificate, em_inj = (\<lambda>x. VClaim (val_TranscriptCertificate x)),
     em_prj = (\<lambda>v. case v of VClaim c \<Rightarrow> (case c of val_TranscriptCertificate x \<Rightarrow> Some x | _ \<Rightarrow> None) | _ \<Rightarrow> None)\<rparr>"

definition t_TranscriptClientFinished :: "('d, TlsTranscript) Embed" where
  "t_TranscriptClientFinished = \<lparr>em_type = T_Claim ty_TranscriptClientFinished, em_inj = (\<lambda>x. VClaim (val_TranscriptClientFinished x)),
     em_prj = (\<lambda>v. case v of VClaim c \<Rightarrow> (case c of val_TranscriptClientFinished x \<Rightarrow> Some x | _ \<Rightarrow> None) | _ \<Rightarrow> None)\<rparr>"

definition t_TranscriptServerFinished :: "('d, TlsTranscript) Embed" where
  "t_TranscriptServerFinished = \<lparr>em_type = T_Claim ty_TranscriptServerFinished, em_inj = (\<lambda>x. VClaim (val_TranscriptServerFinished x)),
     em_prj = (\<lambda>v. case v of VClaim c \<Rightarrow> (case c of val_TranscriptServerFinished x \<Rightarrow> Some x | _ \<Rightarrow> None) | _ \<Rightarrow> None)\<rparr>"

definition t_TranscriptServerHello :: "('d, TlsTranscript) Embed" where
  "t_TranscriptServerHello = \<lparr>em_type = T_Claim ty_TranscriptServerHello, em_inj = (\<lambda>x. VClaim (val_TranscriptServerHello x)),
     em_prj = (\<lambda>v. case v of VClaim c \<Rightarrow> (case c of val_TranscriptServerHello x \<Rightarrow> Some x | _ \<Rightarrow> None) | _ \<Rightarrow> None)\<rparr>"

interpretation t_Bool: embedding t_Bool
  by unfold_locales (auto simp: t_Bool_def split: tls_value.splits)

interpretation t_U64: embedding t_U64
  by unfold_locales (auto simp: t_U64_def split: tls_value.splits tls_data.splits)

interpretation t_Bytes: embedding t_Bytes
  by unfold_locales (auto simp: t_Bytes_def split: tls_value.splits tls_data.splits)

interpretation t_OptBytes: embedding t_OptBytes
  by unfold_locales (auto simp: t_OptBytes_def split: tls_value.splits)

interpretation t_BytesVec: embedding t_BytesVec
  by unfold_locales (auto simp: t_BytesVec_def split: tls_value.splits)

interpretation t_Message: embedding t_Message
  by unfold_locales (auto simp: t_Message_def split: tls_value.splits tls_data.splits)

interpretation t_OpaqueMessage: embedding t_OpaqueMessage
  by unfold_locales (auto simp: t_OpaqueMessage_def split: tls_value.splits tls_data.splits)

interpretation t_HandshakeHash: embedding t_HandshakeHash
  by unfold_locales (auto simp: t_HandshakeHash_def split: tls_value.splits)

interpretation t_ProtocolVersion: embedding t_ProtocolVersion
  by unfold_locales (auto simp: t_ProtocolVersion_def split: tls_value.splits tls_data.splits)

interpretation t_SessionID: embedding t_SessionID
  by unfold_locales (auto simp: t_SessionID_def split: tls_value.splits tls_data.splits)

interpretation t_Random: embedding t_Random
  by unfold_locales (auto simp: t_Random_def split: tls_value.splits tls_data.splits)

interpretation t_Compression: embedding t_Compression
  by unfold_locales (auto simp: t_Compression_def split: tls_value.splits tls_data.splits)

interpretation t_Compressions: embedding t_Compressions
  by unfold_locales (auto simp: t_Compressions_def split: tls_value.splits tls_data.splits)

interpretation t_CipherSuite: embedding t_CipherSuite
  by unfold_locales (auto simp: t_CipherSuite_def split: tls_value.splits tls_data.splits)

interpretation t_CipherSuites: embedding t_CipherSuites
  by unfold_locales (auto simp: t_CipherSuites_def split: tls_value.splits tls_data.splits)

interpretation t_ClientExtension: embedding t_ClientExtension
  by unfold_locales (auto simp: t_ClientExtension_def split: tls_value.splits tls_data.splits)

interpretation t_ClientExtensions: embedding t_ClientExtensions
  by unfold_locales (auto simp: t_ClientExtensions_def split: tls_value.splits tls_data.splits)

interpretation t_ServerExtension: embedding t_ServerExtension
  by unfold_locales (auto simp: t_ServerExtension_def split: tls_value.splits tls_data.splits)

interpretation t_ServerExtensions: embedding t_ServerExtensions
  by unfold_locales (auto simp: t_ServerExtensions_def split: tls_value.splits tls_data.splits)

interpretation t_NamedGroup: embedding t_NamedGroup
  by unfold_locales (auto simp: t_NamedGroup_def split: tls_value.splits)

interpretation t_SignatureScheme: embedding t_SignatureScheme
  by unfold_locales (auto simp: t_SignatureScheme_def split: tls_value.splits)

interpretation t_Certificate: embedding t_Certificate
  by unfold_locales (auto simp: t_Certificate_def split: tls_value.splits)

interpretation t_Certificates: embedding t_Certificates
  by unfold_locales (auto simp: t_Certificates_def split: tls_value.splits tls_data.splits)

interpretation t_HelloRetryExtension: embedding t_HelloRetryExtension
  by unfold_locales (auto simp: t_HelloRetryExtension_def split: tls_value.splits)

interpretation t_HelloRetryExtensions: embedding t_HelloRetryExtensions
  by unfold_locales (auto simp: t_HelloRetryExtensions_def split: tls_value.splits)

interpretation t_CertReqExtension: embedding t_CertReqExtension
  by unfold_locales (auto simp: t_CertReqExtension_def split: tls_value.splits)

interpretation t_CertReqExtensions: embedding t_CertReqExtensions
  by unfold_locales (auto simp: t_CertReqExtensions_def split: tls_value.splits)

interpretation t_CertificateExtension: embedding t_CertificateExtension
  by unfold_locales (auto simp: t_CertificateExtension_def split: tls_value.splits)

interpretation t_CertificateExtensions: embedding t_CertificateExtensions
  by unfold_locales (auto simp: t_CertificateExtensions_def split: tls_value.splits)

interpretation t_NewSessionTicketExtension: embedding t_NewSessionTicketExtension
  by unfold_locales (auto simp: t_NewSessionTicketExtension_def split: tls_value.splits)

interpretation t_NewSessionTicketExtensions: embedding t_NewSessionTicketExtensions
  by unfold_locales (auto simp: t_NewSessionTicketExtensions_def split: tls_value.splits)

interpretation t_CertificateEntry: embedding t_CertificateEntry
  by unfold_locales (auto simp: t_CertificateEntry_def split: tls_value.splits)

interpretation t_CertificateEntries: embedding t_CertificateEntries
  by unfold_locales (auto simp: t_CertificateEntries_def split: tls_value.splits)

interpretation t_PresharedKeyIdentity: embedding t_PresharedKeyIdentity
  by unfold_locales (auto simp: t_PresharedKeyIdentity_def split: tls_value.splits)

interpretation t_PresharedKeyIdentities: embedding t_PresharedKeyIdentities
  by unfold_locales (auto simp: t_PresharedKeyIdentities_def split: tls_value.splits)

interpretation t_TranscriptCertificate: embedding t_TranscriptCertificate
  by unfold_locales (auto simp: t_TranscriptCertificate_def split: tls_value.splits claim_value.splits)

interpretation t_TranscriptClientFinished: embedding t_TranscriptClientFinished
  by unfold_locales (auto simp: t_TranscriptClientFinished_def split: tls_value.splits claim_value.splits)

interpretation t_TranscriptServerFinished: embedding t_TranscriptServerFinished
  by unfold_locales (auto simp: t_TranscriptServerFinished_def split: tls_value.splits claim_value.splits)

interpretation t_TranscriptServerHello: embedding t_TranscriptServerHello
  by unfold_locales (auto simp: t_TranscriptServerHello_def split: tls_value.splits claim_value.splits)

lemma embed_type [simp]:
  "em_type t_Bool = T_Bool"
  "em_type t_U64 = T_U64"
  "em_type t_Bytes = T_Bytes"
  "em_type t_OptBytes = T_OptBytes"
  "em_type t_BytesVec = T_BytesVec"
  "em_type t_Message = T_Message"
  "em_type t_OpaqueMessage = T_OpaqueMessage"
  "em_type t_HandshakeHash = T_HandshakeHash"
  "em_type t_ProtocolVersion = T_ProtocolVersion"
  "em_type t_SessionID = T_SessionID"
  "em_type t_Random = T_Random"
  "em_type t_Compression = T_Compression"
  "em_type t_Compressions = T_Compressions"
  "em_type t_CipherSuite = T_CipherSuite"
  "em_type t_CipherSuites = T_CipherSuites"
  "em_type t_ClientExtension = T_ClientExtension"
  "em_type t_ClientExtensions = T_ClientExtensions"
  "em_type t_ServerExtension = T_ServerExtension"
  "em_type t_ServerExtensions = T_ServerExtensions"
  "em_type t_NamedGroup = T_NamedGroup"
  "em_type t_SignatureScheme = T_SignatureScheme"
  "em_type t_Certificate = T_Certificate"
  "em_type t_Certificates = T_Certificates"
  "em_type t_HelloRetryExtension = T_HelloRetryExtension"
  "em_type t_HelloRetryExtensions = T_HelloRetryExtensions"
  "em_type t_CertReqExtension = T_CertReqExtension"
  "em_type t_CertReqExtensions = T_CertReqExtensions"
  "em_type t_CertificateExtension = T_CertificateExtension"
  "em_type t_CertificateExtensions = T_CertificateExtensions"
  "em_type t_NewSessionTicketExtension = T_NewSessionTicketExtension"
  "em_type t_NewSessionTicketExtensions = T_NewSessionTicketExtensions"
  "em_type t_CertificateEntry = T_CertificateEntry"
  "em_type t_CertificateEntries = T_CertificateEntries"
  "em_type t_PresharedKeyIdentity = T_PresharedKeyIdentity"
  "em_type t_PresharedKeyIdentities = T_PresharedKeyIdentities"
  "em_type t_TranscriptCertificate = T_Claim ty_TranscriptCertificate"
  "em_type t_TranscriptClientFinished = T_Claim ty_TranscriptClientFinished"
  "em_type t_TranscriptServerFinished = T_Claim ty_TranscriptServerFinished"
  "em_type t_TranscriptServerHello = T_Claim ty_TranscriptServerHello"
  by (simp_all add: t_Bool_def t_U64_def t_Bytes_def t_OptBytes_def t_BytesVec_def t_Message_def t_OpaqueMessage_def t_HandshakeHash_def t_ProtocolVersion_def t_SessionID_def t_Random_def t_Compression_def t_Compressions_def t_CipherSuite_def t_CipherSuites_def t_ClientExtension_def t_ClientExtensions_def t_ServerExtension_def t_ServerExtensions_def t_NamedGroup_def t_SignatureScheme_def t_Certificate_def t_Certificates_def t_HelloRetryExtension_def t_HelloRetryExtensions_def t_CertReqExtension_def t_CertReqExtensions_def t_CertificateExtension_def t_CertificateExtensions_def t_NewSessionTicketExtension_def t_NewSessionTicketExtensions_def t_CertificateEntry_def t_CertificateEntries_def t_PresharedKeyIdentity_def t_PresharedKeyIdentities_def t_TranscriptCertificate_def t_TranscriptClientFinished_def t_TranscriptServerFinished_def t_TranscriptServerHello_def)

subsection \<open>The symbols\<close>

text \<open>
  The symbols of \<open>fn_constants.rs\<close>, \<open>fn_messages.rs\<close>, \<open>fn_extensions.rs\<close> (in two parts), \<open>fn_fields.rs\<close>, \<open>fn_utils.rs\<close>,
  \<open>fn_transcript.rs\<close> and \<open>fn_cert.rs\<close>, in the order of the signature.
\<close>

datatype constant_fn =
    Fn_true | Fn_false | Fn_seq_0 | Fn_seq_1 | Fn_seq_2 | Fn_seq_3 | Fn_seq_4 | Fn_seq_5 | Fn_seq_6 | Fn_seq_7 | Fn_seq_8
  | Fn_seq_9 | Fn_seq_10 | Fn_seq_11 | Fn_seq_12 | Fn_seq_13 | Fn_seq_14 | Fn_seq_15 | Fn_seq_16 | Fn_large_length
  | Fn_empty_bytes_vec | Fn_large_bytes_vec

datatype message_fn =
    Fn_alert_close_notify | Fn_application_data | Fn_certificate | Fn_certificate13 | Fn_certificate_request
  | Fn_certificate_request13 | Fn_certificate_status | Fn_certificate_verify | Fn_change_cipher_spec | Fn_client_hello
  | Fn_client_key_exchange | Fn_empty_handshake_message | Fn_encrypted_extensions | Fn_finished | Fn_heartbeat
  | Fn_heartbeat_fake_length | Fn_hello_request | Fn_hello_retry_request | Fn_key_update | Fn_key_update_not_requested
  | Fn_message_hash | Fn_new_session_ticket | Fn_new_session_ticket13 | Fn_opaque_message | Fn_server_hello
  | Fn_server_hello_done | Fn_server_key_exchange

datatype extension_fn =
    Fn_client_extensions_new | Fn_client_extensions_append | Fn_server_extensions_new | Fn_server_extensions_append
  | Fn_hello_retry_extensions_new | Fn_hello_retry_extensions_append | Fn_cert_req_extensions_new | Fn_cert_req_extensions_append
  | Fn_cert_extensions_new | Fn_cert_extensions_append | Fn_new_session_ticket_extensions_new
  | Fn_new_session_ticket_extensions_append | Fn_server_name_extension | Fn_server_name_server_extension
  | Fn_status_request_extension | Fn_status_request_server_extension | Fn_status_request_certificate_extension
  | Fn_support_group_extension | Fn_ec_point_formats_extension | Fn_ec_point_formats_server_extension
  | Fn_signature_algorithm_extension | Fn_signature_algorithm_cert_req_extension | Fn_empty_vec_of_vec | Fn_append_vec
  | Fn_al_protocol_negotiation | Fn_al_protocol_server_negotiation | Fn_signed_certificate_timestamp_extension
  | Fn_signed_certificate_timestamp_server_extension | Fn_signed_certificate_timestamp_certificate_extension
  | Fn_extended_master_secret_extension | Fn_extended_master_secret_server_extension | Fn_session_ticket_request_extension
  | Fn_session_ticket_offer_extension | Fn_session_ticket_server_extension

datatype extension2_fn =
    Fn_new_preshared_key_identity | Fn_empty_preshared_keys_identity_vec | Fn_append_preshared_keys_identity
  | Fn_preshared_keys_extension_empty_binder | Fn_preshared_keys_server_extension | Fn_early_data_extension
  | Fn_early_data_new_session_ticket_extension | Fn_early_data_server_extension | Fn_supported_versions12_extension
  | Fn_supported_versions13_extension | Fn_supported_versions12_hello_retry_extension
  | Fn_supported_versions13_hello_retry_extension | Fn_supported_versions12_server_extension
  | Fn_supported_versions13_server_extension | Fn_cookie_extension | Fn_cookie_hello_retry_extension
  | Fn_psk_exchange_mode_dhe_ke_extension | Fn_psk_exchange_mode_ke_extension | Fn_certificate_authorities_extension
  | Fn_signature_algorithm_cert_extension | Fn_key_share_deterministic_extension | Fn_key_share_extension
  | Fn_key_share_deterministic_server_extension | Fn_key_share_server_extension | Fn_key_share_hello_retry_extension
  | Fn_transport_parameters_extension | Fn_transport_parameters_server_extension | Fn_renegotiation_info_extension
  | Fn_renegotiation_info_server_extension | Fn_transport_parameters_draft_extension
  | Fn_transport_parameters_draft_server_extension | Fn_unknown_client_extension | Fn_unknown_server_extension
  | Fn_unknown_hello_retry_extension | Fn_unknown_cert_request_extension | Fn_unknown_new_session_ticket_extension
  | Fn_unknown_certificate_extension

datatype field_fn =
    Fn_protocol_version13 | Fn_protocol_version12 | Fn_new_session_id | Fn_empty_session_id | Fn_new_random | Fn_compressions
  | Fn_compression | Fn_no_key_share | Fn_get_server_key_share | Fn_get_client_key_share | Fn_get_any_client_curve
  | Fn_verify_data | Fn_verify_data_server | Fn_sign_transcript | Fn_new_cipher_suites | Fn_append_cipher_suite
  | Fn_cipher_suite12 | Fn_cipher_suite13_aes_128_gcm_sha256 | Fn_cipher_suite13_aes_256_gcm_sha384
  | Fn_cipher_suite13_aes_128_ccm_sha256 | Fn_weak_export_cipher_suite | Fn_secure_rsa_cipher_suite12

datatype util_fn =
    Fn_new_transcript | Fn_append_transcript | Fn_decrypt_handshake | Fn_no_psk | Fn_psk | Fn_decrypt_application
  | Fn_encrypt_handshake | Fn_encrypt_application | Fn_derive_psk | Fn_derive_binder | Fn_fill_binder | Fn_get_ticket
  | Fn_get_ticket_age_add | Fn_get_ticket_nonce | Fn_new_transcript12 | Fn_decode_ecdh_pubkey | Fn_encode_ec_pubkey12
  | Fn_new_pubkey12 | Fn_encrypt12 | Fn_new_certificate | Fn_new_certificates | Fn_append_certificate
  | Fn_new_certificate_entries | Fn_named_group_secp384r1 | Fn_named_group_x25519

datatype transcript_fn =
    Fn_server_hello_transcript | Fn_client_finished_transcript | Fn_server_finished_transcript | Fn_certificate_transcript

datatype cert_fn =
    Fn_bob_cert | Fn_bob_key | Fn_alice_cert | Fn_alice_key | Fn_eve_cert | Fn_random_ec_cert | Fn_certificate_entry
  | Fn_empty_certificate_chain | Fn_append_certificate_entry | Fn_get_context | Fn_eve_pkcs1_signature | Fn_rsa_sign_client
  | Fn_rsa_sign_server | Fn_ecdsa_sign_client | Fn_ecdsa_sign_server | Fn_rsa_pss_signature_algorithm
  | Fn_rsa_pkcs1_signature_algorithm | Fn_invalid_signature_algorithm | Fn_ecdsa_signature_algorithm

datatype tls_fn =
    F_Constant constant_fn
  | F_Msg message_fn
  | F_Ext extension_fn
  | F_Ext2 extension2_fn
  | F_Field field_fn
  | F_Util util_fn
  | F_Trans transcript_fn
  | F_Cert cert_fn

record ('c, 'd) tls_env =
  env_ring :: Ring
  env_webpki :: "('c, 'd) Webpki"
  env_dns :: "bytes \<Rightarrow> 'd option"
  env_dns_error :: string
  env_certs :: static_certs
  env_type_shape :: "tls_type \<Rightarrow> TypeShape"
  env_fn_name :: "tls_fn \<Rightarrow> string"

subsection \<open>Static functions as symbols\<close>

record ('d, 'f) fn_type =
  ft_args :: "tls_type list"
  ft_ret :: tls_type
  ft_call :: "'f \<Rightarrow> 'd tls_value list \<Rightarrow> 'd tls_value Fn option"

text \<open>A call with values of other types, which the dynamic wrapper rules out, is \<open>None\<close>.\<close>

definition returns :: "('d, 'a) Embed \<Rightarrow> ('d, 'a Fn) fn_type" where
  "returns T =
     \<lparr>ft_args = [], ft_ret = em_type T,
      ft_call = (\<lambda>f vs. case vs of [] \<Rightarrow> Some (map_sum id (em_inj T) f) | _ \<Rightarrow> None)\<rparr>"

definition takes :: "('d, 'a) Embed \<Rightarrow> ('d, 'f) fn_type \<Rightarrow> ('d, 'a \<Rightarrow> 'f) fn_type" where
  "takes T F =
     \<lparr>ft_args = em_type T # ft_args F, ft_ret = ft_ret F,
      ft_call = (\<lambda>f vs. case vs of
          [] \<Rightarrow> None
        | v # vs \<Rightarrow> (case em_prj T v of None \<Rightarrow> None | Some x \<Rightarrow> ft_call F (f x) vs))\<rparr>"

record 'd tls_symbol =
  sym_args :: "tls_type list"
  sym_ret :: tls_type
  sym_call :: "'d tls_value list \<Rightarrow> 'd tls_value Fn option"

definition static_fn :: "('d, 'f) fn_type \<Rightarrow> 'f \<Rightarrow> 'd tls_symbol" where
  "static_fn F f = \<lparr>sym_args = ft_args F, sym_ret = ft_ret F, sym_call = ft_call F f\<rparr>"


primrec constant_table :: "('c, 'd) tls_env \<Rightarrow> constant_fn \<Rightarrow> 'd tls_symbol" where
  "constant_table E Fn_true = static_fn (returns t_Bool) fn_true"
| "constant_table E Fn_false = static_fn (returns t_Bool) fn_false"
| "constant_table E Fn_seq_0 = static_fn (returns t_U64) fn_seq_0"
| "constant_table E Fn_seq_1 = static_fn (returns t_U64) fn_seq_1"
| "constant_table E Fn_seq_2 = static_fn (returns t_U64) fn_seq_2"
| "constant_table E Fn_seq_3 = static_fn (returns t_U64) fn_seq_3"
| "constant_table E Fn_seq_4 = static_fn (returns t_U64) fn_seq_4"
| "constant_table E Fn_seq_5 = static_fn (returns t_U64) fn_seq_5"
| "constant_table E Fn_seq_6 = static_fn (returns t_U64) fn_seq_6"
| "constant_table E Fn_seq_7 = static_fn (returns t_U64) fn_seq_7"
| "constant_table E Fn_seq_8 = static_fn (returns t_U64) fn_seq_8"
| "constant_table E Fn_seq_9 = static_fn (returns t_U64) fn_seq_9"
| "constant_table E Fn_seq_10 = static_fn (returns t_U64) fn_seq_10"
| "constant_table E Fn_seq_11 = static_fn (returns t_U64) fn_seq_11"
| "constant_table E Fn_seq_12 = static_fn (returns t_U64) fn_seq_12"
| "constant_table E Fn_seq_13 = static_fn (returns t_U64) fn_seq_13"
| "constant_table E Fn_seq_14 = static_fn (returns t_U64) fn_seq_14"
| "constant_table E Fn_seq_15 = static_fn (returns t_U64) fn_seq_15"
| "constant_table E Fn_seq_16 = static_fn (returns t_U64) fn_seq_16"
| "constant_table E Fn_large_length = static_fn (returns t_U64) fn_large_length"
| "constant_table E Fn_empty_bytes_vec = static_fn (returns t_Bytes) fn_empty_bytes_vec"
| "constant_table E Fn_large_bytes_vec = static_fn (returns t_Bytes) fn_large_bytes_vec"

primrec message_table :: "('c, 'd) tls_env \<Rightarrow> message_fn \<Rightarrow> 'd tls_symbol" where
  "message_table E Fn_alert_close_notify = static_fn (returns t_Message) fn_alert_close_notify"
| "message_table E Fn_application_data = static_fn (takes t_Bytes (returns t_Message)) fn_application_data"
| "message_table E Fn_certificate = static_fn (takes t_Certificates (returns t_Message)) fn_certificate"
| "message_table E Fn_certificate13 = static_fn (takes t_Bytes (takes t_CertificateEntries (returns t_Message))) fn_certificate13"
| "message_table E Fn_certificate_request = static_fn (returns t_Message) fn_certificate_request"
| "message_table E Fn_certificate_request13 = static_fn (takes t_Bytes (takes t_CertReqExtensions (returns t_Message))) fn_certificate_request13"
| "message_table E Fn_certificate_status = static_fn (takes t_Bytes (returns t_Message)) fn_certificate_status"
| "message_table E Fn_certificate_verify = static_fn (takes t_SignatureScheme (takes t_Bytes (returns t_Message))) fn_certificate_verify"
| "message_table E Fn_change_cipher_spec = static_fn (returns t_Message) fn_change_cipher_spec"
| "message_table E Fn_client_hello = static_fn (takes t_ProtocolVersion (takes t_Random (takes t_SessionID (takes t_CipherSuites (takes t_Compressions (takes t_ClientExtensions (returns t_Message))))))) fn_client_hello"
| "message_table E Fn_client_key_exchange = static_fn (takes t_Bytes (returns t_Message)) fn_client_key_exchange"
| "message_table E Fn_empty_handshake_message = static_fn (returns t_OpaqueMessage) fn_empty_handshake_message"
| "message_table E Fn_encrypted_extensions = static_fn (takes t_ServerExtensions (returns t_Message)) fn_encrypted_extensions"
| "message_table E Fn_finished = static_fn (takes t_Bytes (returns t_Message)) fn_finished"
| "message_table E Fn_heartbeat = static_fn (takes t_Bytes (returns t_Message)) fn_heartbeat"
| "message_table E Fn_heartbeat_fake_length = static_fn (takes t_Bytes (takes t_U64 (returns t_Message))) fn_heartbeat_fake_length"
| "message_table E Fn_hello_request = static_fn (returns t_Message) fn_hello_request"
| "message_table E Fn_hello_retry_request = static_fn (takes t_ProtocolVersion (takes t_SessionID (takes t_CipherSuite (takes t_HelloRetryExtensions (returns t_Message))))) fn_hello_retry_request"
| "message_table E Fn_key_update = static_fn (returns t_Message) fn_key_update"
| "message_table E Fn_key_update_not_requested = static_fn (returns t_Message) fn_key_update_not_requested"
| "message_table E Fn_message_hash = static_fn (takes t_Bytes (returns t_Message)) fn_message_hash"
| "message_table E Fn_new_session_ticket = static_fn (takes t_U64 (takes t_Bytes (returns t_Message))) fn_new_session_ticket"
| "message_table E Fn_new_session_ticket13 = static_fn (takes t_Bytes (takes t_Bytes (takes t_NewSessionTicketExtensions (returns t_Message)))) fn_new_session_ticket13"
| "message_table E Fn_opaque_message = static_fn (takes t_OpaqueMessage (returns t_OpaqueMessage)) fn_opaque_message"
| "message_table E Fn_server_hello = static_fn (takes t_ProtocolVersion (takes t_Random (takes t_SessionID (takes t_CipherSuite (takes t_Compression (takes t_ServerExtensions (returns t_Message))))))) fn_server_hello"
| "message_table E Fn_server_hello_done = static_fn (returns t_Message) fn_server_hello_done"
| "message_table E Fn_server_key_exchange = static_fn (takes t_Bytes (returns t_Message)) fn_server_key_exchange"

primrec extension_table :: "('c, 'd) tls_env \<Rightarrow> extension_fn \<Rightarrow> 'd tls_symbol" where
  "extension_table E Fn_client_extensions_new = static_fn (returns t_ClientExtensions) fn_client_extensions_new"
| "extension_table E Fn_client_extensions_append = static_fn (takes t_ClientExtensions (takes t_ClientExtension (returns t_ClientExtensions))) fn_client_extensions_append"
| "extension_table E Fn_server_extensions_new = static_fn (returns t_ServerExtensions) fn_server_extensions_new"
| "extension_table E Fn_server_extensions_append = static_fn (takes t_ServerExtensions (takes t_ServerExtension (returns t_ServerExtensions))) fn_server_extensions_append"
| "extension_table E Fn_hello_retry_extensions_new = static_fn (returns t_HelloRetryExtensions) fn_hello_retry_extensions_new"
| "extension_table E Fn_hello_retry_extensions_append = static_fn (takes t_HelloRetryExtensions (takes t_HelloRetryExtension (returns t_HelloRetryExtensions))) fn_hello_retry_extensions_append"
| "extension_table E Fn_cert_req_extensions_new = static_fn (returns t_CertReqExtensions) fn_cert_req_extensions_new"
| "extension_table E Fn_cert_req_extensions_append = static_fn (takes t_CertReqExtensions (takes t_CertReqExtension (returns t_CertReqExtensions))) fn_cert_req_extensions_append"
| "extension_table E Fn_cert_extensions_new = static_fn (returns t_CertificateExtensions) fn_cert_extensions_new"
| "extension_table E Fn_cert_extensions_append = static_fn (takes t_CertificateExtensions (takes t_CertificateExtension (returns t_CertificateExtensions))) fn_cert_extensions_append"
| "extension_table E Fn_new_session_ticket_extensions_new = static_fn (returns t_NewSessionTicketExtensions) fn_new_session_ticket_extensions_new"
| "extension_table E Fn_new_session_ticket_extensions_append = static_fn (takes t_NewSessionTicketExtensions (takes t_NewSessionTicketExtension (returns t_NewSessionTicketExtensions))) fn_new_session_ticket_extensions_append"
| "extension_table E Fn_server_name_extension = static_fn (returns t_ClientExtension) (fn_server_name_extension (env_dns E) (env_dns_error E))"
| "extension_table E Fn_server_name_server_extension = static_fn (returns t_ServerExtension) fn_server_name_server_extension"
| "extension_table E Fn_status_request_extension = static_fn (takes t_BytesVec (takes t_Bytes (returns t_ClientExtension))) fn_status_request_extension"
| "extension_table E Fn_status_request_server_extension = static_fn (returns t_ServerExtension) fn_status_request_server_extension"
| "extension_table E Fn_status_request_certificate_extension = static_fn (takes t_Bytes (returns t_CertificateExtension)) fn_status_request_certificate_extension"
| "extension_table E Fn_support_group_extension = static_fn (takes t_NamedGroup (returns t_ClientExtension)) fn_support_group_extension"
| "extension_table E Fn_ec_point_formats_extension = static_fn (returns t_ClientExtension) fn_ec_point_formats_extension"
| "extension_table E Fn_ec_point_formats_server_extension = static_fn (returns t_ServerExtension) fn_ec_point_formats_server_extension"
| "extension_table E Fn_signature_algorithm_extension = static_fn (returns t_ClientExtension) fn_signature_algorithm_extension"
| "extension_table E Fn_signature_algorithm_cert_req_extension = static_fn (returns t_CertReqExtension) fn_signature_algorithm_cert_req_extension"
| "extension_table E Fn_empty_vec_of_vec = static_fn (returns t_BytesVec) fn_empty_vec_of_vec"
| "extension_table E Fn_append_vec = static_fn (takes t_BytesVec (takes t_Bytes (returns t_BytesVec))) fn_append_vec"
| "extension_table E Fn_al_protocol_negotiation = static_fn (takes t_BytesVec (returns t_ClientExtension)) fn_al_protocol_negotiation"
| "extension_table E Fn_al_protocol_server_negotiation = static_fn (takes t_BytesVec (returns t_ServerExtension)) fn_al_protocol_server_negotiation"
| "extension_table E Fn_signed_certificate_timestamp_extension = static_fn (returns t_ClientExtension) fn_signed_certificate_timestamp_extension"
| "extension_table E Fn_signed_certificate_timestamp_server_extension = static_fn (returns t_ServerExtension) fn_signed_certificate_timestamp_server_extension"
| "extension_table E Fn_signed_certificate_timestamp_certificate_extension = static_fn (returns t_CertificateExtension) fn_signed_certificate_timestamp_certificate_extension"
| "extension_table E Fn_extended_master_secret_extension = static_fn (returns t_ClientExtension) fn_extended_master_secret_extension"
| "extension_table E Fn_extended_master_secret_server_extension = static_fn (returns t_ServerExtension) fn_extended_master_secret_server_extension"
| "extension_table E Fn_session_ticket_request_extension = static_fn (returns t_ClientExtension) fn_session_ticket_request_extension"
| "extension_table E Fn_session_ticket_offer_extension = static_fn (takes t_Bytes (returns t_ClientExtension)) fn_session_ticket_offer_extension"
| "extension_table E Fn_session_ticket_server_extension = static_fn (returns t_ServerExtension) fn_session_ticket_server_extension"

primrec extension2_table :: "('c, 'd) tls_env \<Rightarrow> extension2_fn \<Rightarrow> 'd tls_symbol" where
  "extension2_table E Fn_new_preshared_key_identity = static_fn (takes t_Bytes (returns t_PresharedKeyIdentity)) fn_new_preshared_key_identity"
| "extension2_table E Fn_empty_preshared_keys_identity_vec = static_fn (returns t_PresharedKeyIdentities) fn_empty_preshared_keys_identity_vec"
| "extension2_table E Fn_append_preshared_keys_identity = static_fn (takes t_PresharedKeyIdentities (takes t_PresharedKeyIdentity (returns t_PresharedKeyIdentities))) fn_append_preshared_keys_identity"
| "extension2_table E Fn_preshared_keys_extension_empty_binder = static_fn (takes t_Message (returns t_ClientExtension)) fn_preshared_keys_extension_empty_binder"
| "extension2_table E Fn_preshared_keys_server_extension = static_fn (takes t_U64 (returns t_ServerExtension)) fn_preshared_keys_server_extension"
| "extension2_table E Fn_early_data_extension = static_fn (returns t_ClientExtension) fn_early_data_extension"
| "extension2_table E Fn_early_data_new_session_ticket_extension = static_fn (takes t_U64 (returns t_NewSessionTicketExtension)) fn_early_data_new_session_ticket_extension"
| "extension2_table E Fn_early_data_server_extension = static_fn (returns t_ServerExtension) fn_early_data_server_extension"
| "extension2_table E Fn_supported_versions12_extension = static_fn (returns t_ClientExtension) fn_supported_versions12_extension"
| "extension2_table E Fn_supported_versions13_extension = static_fn (returns t_ClientExtension) fn_supported_versions13_extension"
| "extension2_table E Fn_supported_versions12_hello_retry_extension = static_fn (returns t_HelloRetryExtension) fn_supported_versions12_hello_retry_extension"
| "extension2_table E Fn_supported_versions13_hello_retry_extension = static_fn (returns t_HelloRetryExtension) fn_supported_versions13_hello_retry_extension"
| "extension2_table E Fn_supported_versions12_server_extension = static_fn (returns t_ServerExtension) fn_supported_versions12_server_extension"
| "extension2_table E Fn_supported_versions13_server_extension = static_fn (returns t_ServerExtension) fn_supported_versions13_server_extension"
| "extension2_table E Fn_cookie_extension = static_fn (takes t_Bytes (returns t_ClientExtension)) fn_cookie_extension"
| "extension2_table E Fn_cookie_hello_retry_extension = static_fn (takes t_Bytes (returns t_HelloRetryExtension)) fn_cookie_hello_retry_extension"
| "extension2_table E Fn_psk_exchange_mode_dhe_ke_extension = static_fn (returns t_ClientExtension) fn_psk_exchange_mode_dhe_ke_extension"
| "extension2_table E Fn_psk_exchange_mode_ke_extension = static_fn (returns t_ClientExtension) fn_psk_exchange_mode_ke_extension"
| "extension2_table E Fn_certificate_authorities_extension = static_fn (returns t_CertReqExtension) fn_certificate_authorities_extension"
| "extension2_table E Fn_signature_algorithm_cert_extension = static_fn (returns t_ClientExtension) fn_signature_algorithm_cert_extension"
| "extension2_table E Fn_key_share_deterministic_extension = static_fn (takes t_NamedGroup (returns t_ClientExtension)) (fn_key_share_deterministic_extension (env_ring E))"
| "extension2_table E Fn_key_share_extension = static_fn (takes t_Bytes (takes t_NamedGroup (returns t_ClientExtension))) fn_key_share_extension"
| "extension2_table E Fn_key_share_deterministic_server_extension = static_fn (takes t_NamedGroup (returns t_ServerExtension)) (fn_key_share_deterministic_server_extension (env_ring E))"
| "extension2_table E Fn_key_share_server_extension = static_fn (takes t_Bytes (takes t_NamedGroup (returns t_ServerExtension))) fn_key_share_server_extension"
| "extension2_table E Fn_key_share_hello_retry_extension = static_fn (takes t_NamedGroup (returns t_HelloRetryExtension)) fn_key_share_hello_retry_extension"
| "extension2_table E Fn_transport_parameters_extension = static_fn (takes t_Bytes (returns t_ClientExtension)) fn_transport_parameters_extension"
| "extension2_table E Fn_transport_parameters_server_extension = static_fn (takes t_Bytes (returns t_ServerExtension)) fn_transport_parameters_server_extension"
| "extension2_table E Fn_renegotiation_info_extension = static_fn (takes t_Bytes (returns t_ClientExtension)) fn_renegotiation_info_extension"
| "extension2_table E Fn_renegotiation_info_server_extension = static_fn (takes t_Bytes (returns t_ServerExtension)) fn_renegotiation_info_server_extension"
| "extension2_table E Fn_transport_parameters_draft_extension = static_fn (takes t_Bytes (returns t_ClientExtension)) fn_transport_parameters_draft_extension"
| "extension2_table E Fn_transport_parameters_draft_server_extension = static_fn (takes t_Bytes (returns t_ServerExtension)) fn_transport_parameters_draft_server_extension"
| "extension2_table E Fn_unknown_client_extension = static_fn (returns t_ClientExtension) fn_unknown_client_extension"
| "extension2_table E Fn_unknown_server_extension = static_fn (returns t_ServerExtension) fn_unknown_server_extension"
| "extension2_table E Fn_unknown_hello_retry_extension = static_fn (returns t_HelloRetryExtension) fn_unknown_hello_retry_extension"
| "extension2_table E Fn_unknown_cert_request_extension = static_fn (returns t_CertReqExtension) fn_unknown_cert_request_extension"
| "extension2_table E Fn_unknown_new_session_ticket_extension = static_fn (returns t_NewSessionTicketExtension) fn_unknown_new_session_ticket_extension"
| "extension2_table E Fn_unknown_certificate_extension = static_fn (returns t_CertificateExtension) fn_unknown_certificate_extension"

primrec field_table :: "('c, 'd) tls_env \<Rightarrow> field_fn \<Rightarrow> 'd tls_symbol" where
  "field_table E Fn_protocol_version13 = static_fn (returns t_ProtocolVersion) fn_protocol_version13"
| "field_table E Fn_protocol_version12 = static_fn (returns t_ProtocolVersion) fn_protocol_version12"
| "field_table E Fn_new_session_id = static_fn (returns t_SessionID) fn_new_session_id"
| "field_table E Fn_empty_session_id = static_fn (returns t_SessionID) fn_empty_session_id"
| "field_table E Fn_new_random = static_fn (returns t_Random) fn_new_random"
| "field_table E Fn_compressions = static_fn (returns t_Compressions) fn_compressions"
| "field_table E Fn_compression = static_fn (returns t_Compression) fn_compression"
| "field_table E Fn_no_key_share = static_fn (returns t_OptBytes) fn_no_key_share"
| "field_table E Fn_get_server_key_share = static_fn (takes t_ServerExtensions (returns t_OptBytes)) fn_get_server_key_share"
| "field_table E Fn_get_client_key_share = static_fn (takes t_ClientExtensions (takes t_NamedGroup (returns t_OptBytes))) fn_get_client_key_share"
| "field_table E Fn_get_any_client_curve = static_fn (takes t_ClientExtensions (returns t_NamedGroup)) fn_get_any_client_curve"
| "field_table E Fn_verify_data = static_fn (takes t_HandshakeHash (takes t_HandshakeHash (takes t_OptBytes (takes t_OptBytes (takes t_NamedGroup (returns t_Bytes)))))) (fn_verify_data (env_ring E))"
| "field_table E Fn_verify_data_server = static_fn (takes t_HandshakeHash (takes t_HandshakeHash (takes t_OptBytes (takes t_NamedGroup (takes t_OptBytes (returns t_Bytes)))))) (fn_verify_data_server (env_ring E))"
| "field_table E Fn_sign_transcript = static_fn (takes t_Random (takes t_Bytes (takes t_HandshakeHash (takes t_NamedGroup (returns t_Bytes))))) (fn_sign_transcript (env_ring E))"
| "field_table E Fn_new_cipher_suites = static_fn (returns t_CipherSuites) fn_new_cipher_suites"
| "field_table E Fn_append_cipher_suite = static_fn (takes t_CipherSuites (takes t_CipherSuite (returns t_CipherSuites))) fn_append_cipher_suite"
| "field_table E Fn_cipher_suite12 = static_fn (returns t_CipherSuite) fn_cipher_suite12"
| "field_table E Fn_cipher_suite13_aes_128_gcm_sha256 = static_fn (returns t_CipherSuite) fn_cipher_suite13_aes_128_gcm_sha256"
| "field_table E Fn_cipher_suite13_aes_256_gcm_sha384 = static_fn (returns t_CipherSuite) fn_cipher_suite13_aes_256_gcm_sha384"
| "field_table E Fn_cipher_suite13_aes_128_ccm_sha256 = static_fn (returns t_CipherSuite) fn_cipher_suite13_aes_128_ccm_sha256"
| "field_table E Fn_weak_export_cipher_suite = static_fn (returns t_CipherSuite) fn_weak_export_cipher_suite"
| "field_table E Fn_secure_rsa_cipher_suite12 = static_fn (returns t_CipherSuite) fn_secure_rsa_cipher_suite12"

primrec util_table :: "('c, 'd) tls_env \<Rightarrow> util_fn \<Rightarrow> 'd tls_symbol" where
  "util_table E Fn_new_transcript = static_fn (returns t_HandshakeHash) fn_new_transcript"
| "util_table E Fn_append_transcript = static_fn (takes t_HandshakeHash (takes t_Message (returns t_HandshakeHash))) fn_append_transcript"
| "util_table E Fn_decrypt_handshake = static_fn (takes t_Message (takes t_HandshakeHash (takes t_OptBytes (takes t_OptBytes (takes t_NamedGroup (takes t_Bool (takes t_U64 (returns t_Message)))))))) (fn_decrypt_handshake (env_ring E) (env_dns E))"
| "util_table E Fn_no_psk = static_fn (returns t_OptBytes) fn_no_psk"
| "util_table E Fn_psk = static_fn (takes t_Bytes (returns t_OptBytes)) fn_psk"
| "util_table E Fn_decrypt_application = static_fn (takes t_Message (takes t_HandshakeHash (takes t_HandshakeHash (takes t_OptBytes (takes t_OptBytes (takes t_NamedGroup (takes t_Bool (takes t_U64 (returns t_Message))))))))) (fn_decrypt_application (env_ring E) (env_dns E))"
| "util_table E Fn_encrypt_handshake = static_fn (takes t_Message (takes t_HandshakeHash (takes t_OptBytes (takes t_OptBytes (takes t_NamedGroup (takes t_Bool (takes t_U64 (returns t_OpaqueMessage)))))))) (fn_encrypt_handshake (env_ring E))"
| "util_table E Fn_encrypt_application = static_fn (takes t_Message (takes t_HandshakeHash (takes t_HandshakeHash (takes t_OptBytes (takes t_OptBytes (takes t_NamedGroup (takes t_U64 (returns t_OpaqueMessage)))))))) (fn_encrypt_application (env_ring E))"
| "util_table E Fn_derive_psk = static_fn (takes t_HandshakeHash (takes t_HandshakeHash (takes t_HandshakeHash (takes t_OptBytes (takes t_Bytes (takes t_NamedGroup (returns t_Bytes))))))) (fn_derive_psk (env_ring E))"
| "util_table E Fn_derive_binder = static_fn (takes t_Message (takes t_Bytes (returns t_Bytes))) (fn_derive_binder (env_ring E))"
| "util_table E Fn_fill_binder = static_fn (takes t_Message (takes t_Bytes (returns t_Message))) fn_fill_binder"
| "util_table E Fn_get_ticket = static_fn (takes t_Message (returns t_Bytes)) fn_get_ticket"
| "util_table E Fn_get_ticket_age_add = static_fn (takes t_Message (returns t_U64)) fn_get_ticket_age_add"
| "util_table E Fn_get_ticket_nonce = static_fn (takes t_Message (returns t_Bytes)) fn_get_ticket_nonce"
| "util_table E Fn_new_transcript12 = static_fn (returns t_HandshakeHash) fn_new_transcript12"
| "util_table E Fn_decode_ecdh_pubkey = static_fn (takes t_Bytes (returns t_Bytes)) fn_decode_ecdh_pubkey"
| "util_table E Fn_encode_ec_pubkey12 = static_fn (takes t_Bytes (returns t_Bytes)) fn_encode_ec_pubkey12"
| "util_table E Fn_new_pubkey12 = static_fn (takes t_NamedGroup (returns t_Bytes)) (fn_new_pubkey12 (env_ring E))"
| "util_table E Fn_encrypt12 = static_fn (takes t_Message (takes t_Random (takes t_Bytes (takes t_NamedGroup (takes t_Bool (takes t_U64 (returns t_OpaqueMessage))))))) (fn_encrypt12 (env_ring E))"
| "util_table E Fn_new_certificate = static_fn (returns t_Certificate) fn_new_certificate"
| "util_table E Fn_new_certificates = static_fn (returns t_Certificates) fn_new_certificates"
| "util_table E Fn_append_certificate = static_fn (takes t_Certificates (takes t_Certificate (returns t_Certificates))) fn_append_certificate"
| "util_table E Fn_new_certificate_entries = static_fn (returns t_CertificateEntries) fn_new_certificate_entries"
| "util_table E Fn_named_group_secp384r1 = static_fn (returns t_NamedGroup) fn_named_group_secp384r1"
| "util_table E Fn_named_group_x25519 = static_fn (returns t_NamedGroup) fn_named_group_x25519"

primrec transcript_table :: "('c, 'd) tls_env \<Rightarrow> transcript_fn \<Rightarrow> 'd tls_symbol" where
  "transcript_table E Fn_server_hello_transcript = static_fn (takes t_TranscriptServerHello (returns t_HandshakeHash)) fn_server_hello_transcript"
| "transcript_table E Fn_client_finished_transcript = static_fn (takes t_TranscriptClientFinished (returns t_HandshakeHash)) fn_client_finished_transcript"
| "transcript_table E Fn_server_finished_transcript = static_fn (takes t_TranscriptServerFinished (returns t_HandshakeHash)) fn_server_finished_transcript"
| "transcript_table E Fn_certificate_transcript = static_fn (takes t_TranscriptCertificate (returns t_HandshakeHash)) fn_certificate_transcript"

primrec cert_table :: "('c, 'd) tls_env \<Rightarrow> cert_fn \<Rightarrow> 'd tls_symbol" where
  "cert_table E Fn_bob_cert = static_fn (returns t_Bytes) (fn_bob_cert (env_certs E))"
| "cert_table E Fn_bob_key = static_fn (returns t_Bytes) (fn_bob_key (env_certs E))"
| "cert_table E Fn_alice_cert = static_fn (returns t_Bytes) (fn_alice_cert (env_certs E))"
| "cert_table E Fn_alice_key = static_fn (returns t_Bytes) (fn_alice_key (env_certs E))"
| "cert_table E Fn_eve_cert = static_fn (returns t_Bytes) (fn_eve_cert (env_certs E))"
| "cert_table E Fn_random_ec_cert = static_fn (returns t_Bytes) (fn_random_ec_cert (env_certs E))"
| "cert_table E Fn_certificate_entry = static_fn (takes t_Bytes (returns t_CertificateEntry)) fn_certificate_entry"
| "cert_table E Fn_empty_certificate_chain = static_fn (returns t_CertificateEntries) fn_empty_certificate_chain"
| "cert_table E Fn_append_certificate_entry = static_fn (takes t_CertificateEntry (takes t_CertificateEntries (returns t_CertificateEntries))) fn_append_certificate_entry"
| "cert_table E Fn_get_context = static_fn (takes t_Message (returns t_Bytes)) fn_get_context"
| "cert_table E Fn_eve_pkcs1_signature = static_fn (returns t_Bytes) fn_eve_pkcs1_signature"
| "cert_table E Fn_rsa_sign_client = static_fn (takes t_HandshakeHash (takes t_Bytes (takes t_SignatureScheme (returns t_Bytes)))) (fn_rsa_sign_client (env_ring E) (env_webpki E))"
| "cert_table E Fn_rsa_sign_server = static_fn (takes t_HandshakeHash (takes t_Bytes (takes t_SignatureScheme (returns t_Bytes)))) (fn_rsa_sign_server (env_ring E) (env_webpki E))"
| "cert_table E Fn_ecdsa_sign_client = static_fn (takes t_HandshakeHash (takes t_Bytes (returns t_Bytes))) (fn_ecdsa_sign_client (env_ring E) (env_webpki E))"
| "cert_table E Fn_ecdsa_sign_server = static_fn (takes t_HandshakeHash (takes t_Bytes (returns t_Bytes))) (fn_ecdsa_sign_server (env_ring E) (env_webpki E))"
| "cert_table E Fn_rsa_pss_signature_algorithm = static_fn (returns t_SignatureScheme) fn_rsa_pss_signature_algorithm"
| "cert_table E Fn_rsa_pkcs1_signature_algorithm = static_fn (returns t_SignatureScheme) fn_rsa_pkcs1_signature_algorithm"
| "cert_table E Fn_invalid_signature_algorithm = static_fn (returns t_SignatureScheme) fn_invalid_signature_algorithm"
| "cert_table E Fn_ecdsa_signature_algorithm = static_fn (returns t_SignatureScheme) fn_ecdsa_signature_algorithm"

primrec tls_table :: "('c, 'd) tls_env \<Rightarrow> tls_fn \<Rightarrow> 'd tls_symbol" where
  "tls_table E (F_Constant f) = constant_table E f"
| "tls_table E (F_Msg f) = message_table E f"
| "tls_table E (F_Ext f) = extension_table E f"
| "tls_table E (F_Ext2 f) = extension2_table E f"
| "tls_table E (F_Field f) = field_table E f"
| "tls_table E (F_Util f) = util_table E f"
| "tls_table E (F_Trans f) = transcript_table E f"
| "tls_table E (F_Cert f) = cert_table E f"

definition TLS_SIGNATURE_symbols :: "tls_fn list" where
  "TLS_SIGNATURE_symbols =
     [F_Constant Fn_true, F_Constant Fn_false, F_Constant Fn_seq_0, F_Constant Fn_seq_1, F_Constant Fn_seq_2, F_Constant Fn_seq_3,
      F_Constant Fn_seq_4, F_Constant Fn_seq_5, F_Constant Fn_seq_6, F_Constant Fn_seq_7, F_Constant Fn_seq_8, F_Constant Fn_seq_9,
      F_Constant Fn_seq_10, F_Constant Fn_seq_11, F_Constant Fn_seq_12, F_Constant Fn_seq_13, F_Constant Fn_seq_14, F_Constant Fn_seq_15,
      F_Constant Fn_seq_16, F_Constant Fn_large_length, F_Constant Fn_empty_bytes_vec, F_Constant Fn_large_bytes_vec,
      F_Msg Fn_alert_close_notify, F_Msg Fn_application_data, F_Msg Fn_certificate, F_Msg Fn_certificate13, F_Msg Fn_certificate_request,
      F_Msg Fn_certificate_request13, F_Msg Fn_certificate_status, F_Msg Fn_certificate_verify, F_Msg Fn_change_cipher_spec,
      F_Msg Fn_client_hello, F_Msg Fn_client_key_exchange, F_Msg Fn_empty_handshake_message, F_Msg Fn_encrypted_extensions,
      F_Msg Fn_finished, F_Msg Fn_heartbeat, F_Msg Fn_heartbeat_fake_length, F_Msg Fn_hello_request, F_Msg Fn_hello_retry_request,
      F_Msg Fn_key_update, F_Msg Fn_key_update_not_requested, F_Msg Fn_message_hash, F_Msg Fn_new_session_ticket,
      F_Msg Fn_new_session_ticket13, F_Msg Fn_opaque_message, F_Msg Fn_server_hello, F_Msg Fn_server_hello_done,
      F_Msg Fn_server_key_exchange, F_Ext Fn_client_extensions_new, F_Ext Fn_client_extensions_append, F_Ext Fn_server_extensions_new,
      F_Ext Fn_server_extensions_append, F_Ext Fn_hello_retry_extensions_new, F_Ext Fn_hello_retry_extensions_append,
      F_Ext Fn_cert_req_extensions_new, F_Ext Fn_cert_req_extensions_append, F_Ext Fn_cert_extensions_new,
      F_Ext Fn_cert_extensions_append, F_Ext Fn_new_session_ticket_extensions_new, F_Ext Fn_new_session_ticket_extensions_append,
      F_Ext Fn_server_name_extension, F_Ext Fn_server_name_server_extension, F_Ext Fn_status_request_extension,
      F_Ext Fn_status_request_server_extension, F_Ext Fn_status_request_certificate_extension, F_Ext Fn_support_group_extension,
      F_Ext Fn_ec_point_formats_extension, F_Ext Fn_ec_point_formats_server_extension, F_Ext Fn_signature_algorithm_extension,
      F_Ext Fn_signature_algorithm_cert_req_extension, F_Ext Fn_empty_vec_of_vec, F_Ext Fn_append_vec, F_Ext Fn_al_protocol_negotiation,
      F_Ext Fn_al_protocol_server_negotiation, F_Ext Fn_signed_certificate_timestamp_extension,
      F_Ext Fn_signed_certificate_timestamp_server_extension, F_Ext Fn_signed_certificate_timestamp_certificate_extension,
      F_Ext Fn_extended_master_secret_extension, F_Ext Fn_extended_master_secret_server_extension,
      F_Ext Fn_session_ticket_request_extension, F_Ext Fn_session_ticket_offer_extension, F_Ext Fn_session_ticket_server_extension,
      F_Ext2 Fn_new_preshared_key_identity, F_Ext2 Fn_empty_preshared_keys_identity_vec, F_Ext2 Fn_append_preshared_keys_identity,
      F_Ext2 Fn_preshared_keys_extension_empty_binder, F_Ext2 Fn_preshared_keys_server_extension, F_Ext2 Fn_early_data_extension,
      F_Ext2 Fn_early_data_new_session_ticket_extension, F_Ext2 Fn_early_data_server_extension, F_Ext2 Fn_supported_versions12_extension,
      F_Ext2 Fn_supported_versions13_extension, F_Ext2 Fn_supported_versions12_hello_retry_extension,
      F_Ext2 Fn_supported_versions13_hello_retry_extension, F_Ext2 Fn_supported_versions12_server_extension,
      F_Ext2 Fn_supported_versions13_server_extension, F_Ext2 Fn_cookie_extension, F_Ext2 Fn_cookie_hello_retry_extension,
      F_Ext2 Fn_psk_exchange_mode_dhe_ke_extension, F_Ext2 Fn_psk_exchange_mode_ke_extension,
      F_Ext2 Fn_certificate_authorities_extension, F_Ext2 Fn_signature_algorithm_cert_extension,
      F_Ext2 Fn_key_share_deterministic_extension, F_Ext2 Fn_key_share_extension, F_Ext2 Fn_key_share_deterministic_server_extension,
      F_Ext2 Fn_key_share_server_extension, F_Ext2 Fn_key_share_hello_retry_extension, F_Ext2 Fn_transport_parameters_extension,
      F_Ext2 Fn_transport_parameters_server_extension, F_Ext2 Fn_renegotiation_info_extension,
      F_Ext2 Fn_renegotiation_info_server_extension, F_Ext2 Fn_transport_parameters_draft_extension,
      F_Ext2 Fn_transport_parameters_draft_server_extension, F_Ext2 Fn_unknown_client_extension, F_Ext2 Fn_unknown_server_extension,
      F_Ext2 Fn_unknown_hello_retry_extension, F_Ext2 Fn_unknown_cert_request_extension, F_Ext2 Fn_unknown_new_session_ticket_extension,
      F_Ext2 Fn_unknown_certificate_extension, F_Field Fn_protocol_version13, F_Field Fn_protocol_version12, F_Field Fn_new_session_id,
      F_Field Fn_empty_session_id, F_Field Fn_new_random, F_Field Fn_compressions, F_Field Fn_compression, F_Field Fn_no_key_share,
      F_Field Fn_get_server_key_share, F_Field Fn_get_client_key_share, F_Field Fn_get_any_client_curve, F_Field Fn_verify_data,
      F_Field Fn_verify_data_server, F_Field Fn_sign_transcript, F_Field Fn_new_cipher_suites, F_Field Fn_append_cipher_suite,
      F_Field Fn_cipher_suite12, F_Field Fn_cipher_suite13_aes_128_gcm_sha256, F_Field Fn_cipher_suite13_aes_256_gcm_sha384,
      F_Field Fn_cipher_suite13_aes_128_ccm_sha256, F_Field Fn_weak_export_cipher_suite, F_Field Fn_secure_rsa_cipher_suite12,
      F_Util Fn_new_transcript, F_Util Fn_append_transcript, F_Util Fn_decrypt_handshake, F_Util Fn_no_psk, F_Util Fn_psk,
      F_Util Fn_decrypt_application, F_Util Fn_encrypt_handshake, F_Util Fn_encrypt_application, F_Util Fn_derive_psk,
      F_Util Fn_derive_binder, F_Util Fn_fill_binder, F_Util Fn_get_ticket, F_Util Fn_get_ticket_age_add, F_Util Fn_get_ticket_nonce,
      F_Util Fn_new_transcript12, F_Util Fn_decode_ecdh_pubkey, F_Util Fn_encode_ec_pubkey12, F_Util Fn_new_pubkey12,
      F_Util Fn_encrypt12, F_Util Fn_new_certificate, F_Util Fn_new_certificates, F_Util Fn_append_certificate,
      F_Util Fn_new_certificate_entries, F_Cert Fn_append_certificate_entry, F_Util Fn_named_group_secp384r1,
      F_Util Fn_named_group_x25519, F_Trans Fn_server_hello_transcript, F_Trans Fn_client_finished_transcript,
      F_Trans Fn_server_finished_transcript, F_Trans Fn_certificate_transcript, F_Cert Fn_bob_cert, F_Cert Fn_bob_key,
      F_Cert Fn_alice_cert, F_Cert Fn_alice_key, F_Cert Fn_eve_cert, F_Cert Fn_random_ec_cert, F_Cert Fn_certificate_entry,
      F_Cert Fn_empty_certificate_chain, F_Cert Fn_append_certificate_entry, F_Cert Fn_get_context, F_Cert Fn_eve_pkcs1_signature,
      F_Cert Fn_rsa_sign_client, F_Cert Fn_rsa_sign_server, F_Cert Fn_ecdsa_sign_client, F_Cert Fn_ecdsa_sign_server,
      F_Cert Fn_rsa_pss_signature_algorithm, F_Cert Fn_rsa_pkcs1_signature_algorithm, F_Cert Fn_invalid_signature_algorithm,
      F_Cert Fn_ecdsa_signature_algorithm]"

subsection \<open>Every symbol is total on its types\<close>

definition fn_type_ok :: "('d, 'f) fn_type \<Rightarrow> bool" where
  "fn_type_ok F \<longleftrightarrow>
     (\<forall>f vs. (ft_call F f vs = None \<longleftrightarrow> map tls_value_type vs \<noteq> ft_args F)
        \<and> (\<forall>v. ft_call F f vs = Some (Inr v) \<longrightarrow> tls_value_type v = ft_ret F))"

lemma fn_type_sel [simp]:
  "ft_args (returns T) = []" "ft_ret (returns T) = em_type T"
  "ft_args (takes T F) = em_type T # ft_args F" "ft_ret (takes T F) = ft_ret F"
  "sym_args (static_fn F f) = ft_args F" "sym_ret (static_fn F f) = ft_ret F" "sym_call (static_fn F f) = ft_call F f"
  by (simp_all add: returns_def takes_def static_fn_def)

lemma fn_type_call [simp]:
  "ft_call (returns T) r [] = Some (map_sum id (em_inj T) r)"
  "ft_call (takes T F) f (v # vs) = (case em_prj T v of None \<Rightarrow> None | Some x \<Rightarrow> ft_call F (f x) vs)"
  by (simp_all add: returns_def takes_def)

context embedding begin

lemma returns_ok: "fn_type_ok (returns T)"
  by (auto simp: fn_type_ok_def returns_def type_inj map_sum_def split: sum.splits list.splits)

lemma takes_ok: "fn_type_ok F \<Longrightarrow> fn_type_ok (takes T F)"
  unfolding fn_type_ok_def takes_def by (auto simp: prj_iff prj_None type_inj split: list.splits option.splits)

end

definition symbol_ok :: "'d tls_symbol \<Rightarrow> bool" where
  "symbol_ok d \<longleftrightarrow>
     (\<forall>vs. (sym_call d vs = None \<longleftrightarrow> map tls_value_type vs \<noteq> sym_args d)
        \<and> (\<forall>v. sym_call d vs = Some (Inr v) \<longrightarrow> tls_value_type v = sym_ret d))"

lemma symbol_ok_static_fn: "fn_type_ok F \<Longrightarrow> symbol_ok (static_fn F f)"
  by (auto simp: symbol_ok_def fn_type_ok_def)

lemmas embed_prj_inj [simp] = t_Bool.prj_inj t_U64.prj_inj t_Bytes.prj_inj t_OptBytes.prj_inj t_BytesVec.prj_inj t_Message.prj_inj
  t_OpaqueMessage.prj_inj t_HandshakeHash.prj_inj t_ProtocolVersion.prj_inj t_SessionID.prj_inj t_Random.prj_inj
  t_Compression.prj_inj t_Compressions.prj_inj t_CipherSuite.prj_inj t_CipherSuites.prj_inj t_ClientExtension.prj_inj
  t_ClientExtensions.prj_inj t_ServerExtension.prj_inj t_ServerExtensions.prj_inj t_NamedGroup.prj_inj t_SignatureScheme.prj_inj
  t_Certificate.prj_inj t_Certificates.prj_inj t_HelloRetryExtension.prj_inj t_HelloRetryExtensions.prj_inj
  t_CertReqExtension.prj_inj t_CertReqExtensions.prj_inj t_CertificateExtension.prj_inj t_CertificateExtensions.prj_inj
  t_NewSessionTicketExtension.prj_inj t_NewSessionTicketExtensions.prj_inj t_CertificateEntry.prj_inj t_CertificateEntries.prj_inj
  t_PresharedKeyIdentity.prj_inj t_PresharedKeyIdentities.prj_inj t_TranscriptCertificate.prj_inj
  t_TranscriptClientFinished.prj_inj t_TranscriptServerFinished.prj_inj t_TranscriptServerHello.prj_inj

lemmas takes_rules = t_Bool.takes_ok t_U64.takes_ok t_Bytes.takes_ok t_OptBytes.takes_ok t_BytesVec.takes_ok t_Message.takes_ok
  t_OpaqueMessage.takes_ok t_HandshakeHash.takes_ok t_ProtocolVersion.takes_ok t_SessionID.takes_ok t_Random.takes_ok
  t_Compression.takes_ok t_Compressions.takes_ok t_CipherSuite.takes_ok t_CipherSuites.takes_ok t_ClientExtension.takes_ok
  t_ClientExtensions.takes_ok t_ServerExtension.takes_ok t_ServerExtensions.takes_ok t_NamedGroup.takes_ok t_SignatureScheme.takes_ok
  t_Certificate.takes_ok t_Certificates.takes_ok t_HelloRetryExtension.takes_ok t_HelloRetryExtensions.takes_ok
  t_CertReqExtension.takes_ok t_CertReqExtensions.takes_ok t_CertificateExtension.takes_ok t_CertificateExtensions.takes_ok
  t_NewSessionTicketExtension.takes_ok t_NewSessionTicketExtensions.takes_ok t_CertificateEntry.takes_ok t_CertificateEntries.takes_ok
  t_PresharedKeyIdentity.takes_ok t_PresharedKeyIdentities.takes_ok t_TranscriptCertificate.takes_ok
  t_TranscriptClientFinished.takes_ok t_TranscriptServerFinished.takes_ok t_TranscriptServerHello.takes_ok

lemmas returns_rules = t_Bool.returns_ok t_U64.returns_ok t_Bytes.returns_ok t_OptBytes.returns_ok t_BytesVec.returns_ok
  t_Message.returns_ok t_OpaqueMessage.returns_ok t_HandshakeHash.returns_ok t_ProtocolVersion.returns_ok t_SessionID.returns_ok
  t_Random.returns_ok t_Compression.returns_ok t_Compressions.returns_ok t_CipherSuite.returns_ok t_CipherSuites.returns_ok
  t_ClientExtension.returns_ok t_ClientExtensions.returns_ok t_ServerExtension.returns_ok t_ServerExtensions.returns_ok
  t_NamedGroup.returns_ok t_SignatureScheme.returns_ok t_Certificate.returns_ok t_Certificates.returns_ok
  t_HelloRetryExtension.returns_ok t_HelloRetryExtensions.returns_ok t_CertReqExtension.returns_ok t_CertReqExtensions.returns_ok
  t_CertificateExtension.returns_ok t_CertificateExtensions.returns_ok t_NewSessionTicketExtension.returns_ok
  t_NewSessionTicketExtensions.returns_ok t_CertificateEntry.returns_ok t_CertificateEntries.returns_ok
  t_PresharedKeyIdentity.returns_ok t_PresharedKeyIdentities.returns_ok t_TranscriptCertificate.returns_ok
  t_TranscriptClientFinished.returns_ok t_TranscriptServerFinished.returns_ok t_TranscriptServerHello.returns_ok


lemma constant_table_ok: "symbol_ok (constant_table E f)"
  by (cases f; simp only: constant_table.simps) (intro symbol_ok_static_fn takes_rules returns_rules)+

lemma message_table_ok: "symbol_ok (message_table E f)"
  by (cases f; simp only: message_table.simps) (intro symbol_ok_static_fn takes_rules returns_rules)+

lemma extension_table_ok: "symbol_ok (extension_table E f)"
  by (cases f; simp only: extension_table.simps) (intro symbol_ok_static_fn takes_rules returns_rules)+

lemma extension2_table_ok: "symbol_ok (extension2_table E f)"
  by (cases f; simp only: extension2_table.simps) (intro symbol_ok_static_fn takes_rules returns_rules)+

lemma field_table_ok: "symbol_ok (field_table E f)"
  by (cases f; simp only: field_table.simps) (intro symbol_ok_static_fn takes_rules returns_rules)+

lemma util_table_ok: "symbol_ok (util_table E f)"
  by (cases f; simp only: util_table.simps) (intro symbol_ok_static_fn takes_rules returns_rules)+

lemma transcript_table_ok: "symbol_ok (transcript_table E f)"
  by (cases f; simp only: transcript_table.simps) (intro symbol_ok_static_fn takes_rules returns_rules)+

lemma cert_table_ok: "symbol_ok (cert_table E f)"
  by (cases f; simp only: cert_table.simps) (intro symbol_ok_static_fn takes_rules returns_rules)+

lemma tls_table_ok: "symbol_ok (tls_table E f)"
  by (cases f) (simp_all add: constant_table_ok message_table_ok extension_table_ok extension2_table_ok field_table_ok util_table_ok transcript_table_ok cert_table_ok)

lemma symbol_listed: "f \<in> set TLS_SIGNATURE_symbols"
proof (cases f)
  case (F_Constant g)
  then show ?thesis by (cases g) (simp_all add: TLS_SIGNATURE_symbols_def)
next
  case (F_Msg g)
  then show ?thesis by (cases g) (simp_all add: TLS_SIGNATURE_symbols_def)
next
  case (F_Ext g)
  then show ?thesis by (cases g) (simp_all add: TLS_SIGNATURE_symbols_def)
next
  case (F_Ext2 g)
  then show ?thesis by (cases g) (simp_all add: TLS_SIGNATURE_symbols_def)
next
  case (F_Field g)
  then show ?thesis by (cases g) (simp_all add: TLS_SIGNATURE_symbols_def)
next
  case (F_Util g)
  then show ?thesis by (cases g) (simp_all add: TLS_SIGNATURE_symbols_def)
next
  case (F_Trans g)
  then show ?thesis by (cases g) (simp_all add: TLS_SIGNATURE_symbols_def)
next
  case (F_Cert g)
  then show ?thesis by (cases g) (simp_all add: TLS_SIGNATURE_symbols_def)
qed

lemma constant_arity: "length (sym_args (constant_table E f)) \<le> 9"
  by (cases f) simp_all

lemma message_arity: "length (sym_args (message_table E f)) \<le> 9"
  by (cases f) simp_all

lemma extension_arity: "length (sym_args (extension_table E f)) \<le> 9"
  by (cases f) simp_all

lemma extension2_arity: "length (sym_args (extension2_table E f)) \<le> 9"
  by (cases f) simp_all

lemma field_arity: "length (sym_args (field_table E f)) \<le> 9"
  by (cases f) simp_all

lemma util_arity: "length (sym_args (util_table E f)) \<le> 9"
  by (cases f) simp_all

lemma transcript_arity: "length (sym_args (transcript_table E f)) \<le> 9"
  by (cases f) simp_all

lemma cert_arity: "length (sym_args (cert_table E f)) \<le> 9"
  by (cases f) simp_all

lemma tls_arity: "length (sym_args (tls_table E f)) \<le> 9"
  by (cases f) (simp_all add: constant_arity message_arity extension_arity extension2_arity field_arity util_arity transcript_arity cert_arity)


end
