(* ===== verification/Tls_Typing.thy ===== *)
theory Tls_Typing
  imports Tls_Signature
begin

text \<open>
  The signature of TLS as the fuzzer uses it, and the types of the values an execution handles.

  \<open>tls_functions\<close> lists the symbols with the shapes \<open>std::any\<close> reports; \<open>TLS_SIGNATURE\<close> is the signature built from their dynamic
  wrappers. \<open>tls_behavior\<close> is \<open>TLSProtocolBehavior\<close> of \<open>tlspuffin/src/protocol.rs\<close>: it fills in the protocol's side of the record
  \<open>Protocol\<close>; PUTs and policy stay as given.

  A boxed value is sound when its type id is that of its value. Evaluation keeps this, and so does the execution of any trace;
  hence a function symbol is only ever called with values of its argument types.
\<close>

subsection \<open>Boxed values\<close>

definition tls_box :: "('c, 'd) tls_env \<Rightarrow> 'd tls_value \<Rightarrow> 'd tls_value Any" where
  "tls_box E v = \<lparr>any_type = inner_type_id (env_type_shape E (tls_value_type v)), any_val = v\<rparr>"

definition any_ok :: "('c, 'd) tls_env \<Rightarrow> 'd tls_value Any \<Rightarrow> bool" where
  "any_ok E a \<longleftrightarrow> any_type a = inner_type_id (env_type_shape E (tls_value_type (any_val a)))"

text \<open>\<open>TypeId\<close>: different types have different ids.\<close>

definition type_ids_distinct :: "('c, 'd) tls_env \<Rightarrow> bool" where
  "type_ids_distinct E \<longleftrightarrow> inj (\<lambda>T. inner_type_id (env_type_shape E T))"

lemma any_ok_box [simp]: "any_ok E (tls_box E v)"
  by (simp add: any_ok_def tls_box_def)

lemma any_ok_type:
  "type_ids_distinct E \<Longrightarrow> any_ok E a \<Longrightarrow> any_type a = inner_type_id (env_type_shape E T) \<longleftrightarrow> tls_value_type (any_val a) = T"
  by (auto simp: any_ok_def type_ids_distinct_def dest: injD)

subsection \<open>The signature\<close>

definition symbol_shape :: "('c, 'd) tls_env \<Rightarrow> tls_fn \<Rightarrow> DynamicFunctionShape" where
  "symbol_shape E f =
     \<lparr>dfs_name = env_fn_name E f,
      dfs_argument_types = map (env_type_shape E) (sym_args (tls_table E f)),
      dfs_return_type = env_type_shape E (sym_ret (tls_table E f))\<rparr>"

definition symbol_call :: "('c, 'd) tls_env \<Rightarrow> tls_fn \<Rightarrow> 'd tls_value list \<Rightarrow> FnError + 'd tls_value" where
  "symbol_call E f vs = (case sym_call (tls_table E f) vs of Some r \<Rightarrow> r | None \<Rightarrow> Inl FnPanic)"

definition tls_functions :: "('c, 'd) tls_env \<Rightarrow> (DynamicFunctionShape \<times> ('d tls_value list \<Rightarrow> FnError + 'd tls_value)) list" where
  "tls_functions E = map (\<lambda>f. (symbol_shape E f, symbol_call E f)) TLS_SIGNATURE_symbols"

definition symbol_dynamic :: "(TypeId \<Rightarrow> string) \<Rightarrow> ('c, 'd) tls_env \<Rightarrow> tls_fn \<Rightarrow> 'd tls_value DynamicFunction" where
  "symbol_dynamic hex E f = make_dynamic hex (symbol_shape E f) (symbol_call E f)"

definition TLS_SIGNATURE :: "(TypeId \<Rightarrow> string) \<Rightarrow> ('c, 'd) tls_env \<Rightarrow> 'd tls_value Signature" where
  "TLS_SIGNATURE hex E = Signature_new (dynamic_defs hex (tls_functions E))"

abbreviation tls_defs :: "(TypeId \<Rightarrow> string) \<Rightarrow> ('c, 'd) tls_env \<Rightarrow> 'd tls_value FunctionDefinition list" where
  "tls_defs hex E \<equiv> dynamic_defs hex (tls_functions E)"

lemma tls_defs_iff: "(shape, g) \<in> set (tls_defs hex E) \<longleftrightarrow> (\<exists>f. shape = symbol_shape E f \<and> g = symbol_dynamic hex E f)"
  using symbol_listed by (auto simp: dynamic_defs_def tls_functions_def symbol_dynamic_def image_iff)

lemma tls_arities_ok: "arities_ok (tls_defs hex E)"
proof -
  have "length (dfs_argument_types (symbol_shape E f)) < 65536" for f
    using tls_arity [of E f] by (simp add: symbol_shape_def)
  then show ?thesis by (auto simp: arities_ok_def list_all_iff tls_defs_iff)
qed

lemma symbol_shape_ret [simp]: "dfs_return_type (symbol_shape E f) = env_type_shape E (sym_ret (tls_table E f))"
  by (simp add: symbol_shape_def)

lemma symbol_call_typed:
  assumes "map tls_value_type vs = sym_args (tls_table E f)"
  shows "sym_call (tls_table E f) vs = Some (symbol_call E f vs)"
    and "symbol_call E f vs = Inr v \<Longrightarrow> tls_value_type v = sym_ret (tls_table E f)"
  using assms tls_table_ok [of E f] by (auto simp: symbol_ok_def symbol_call_def)

subsection \<open>Evaluation\<close>

definition context_ok :: "('c, 'd) tls_env \<Rightarrow> ('m, 'd tls_value, 'p) TraceContext \<Rightarrow> bool" where
  "context_ok E ctx \<longleftrightarrow>
     list_all (\<lambda>k. any_ok E (k_data k)) (tc_knowledge ctx) \<and> list_all (\<lambda>c. any_ok E (claim_inner c)) (tc_claims ctx)
   \<and> claims_typed (tc_claims ctx)"

text \<open>
  What evaluating a recipe of the type \<open>typ\<close> may return: a sound value of that type, the absence of a variable's value, or the error
  of a symbol on values of its argument types.
\<close>

definition tls_eval_ok :: "('c, 'd) tls_env \<Rightarrow> TypeShape \<Rightarrow> puffin_Error + 'd tls_value Any \<Rightarrow> bool" where
  "tls_eval_ok E typ res \<longleftrightarrow>
     (case res of
        Inr a \<Rightarrow> any_ok E a \<and> any_type a = inner_type_id typ
      | Inl (puffin_Error.Term _) \<Rightarrow> True
      | Inl (puffin_Error.Fn e) \<Rightarrow>
          (\<exists>f vs. map tls_value_type vs = sym_args (tls_table E f) \<and> sym_call (tls_table E f) vs = Some (Inl e))
      | _ \<Rightarrow> False)"

lemma tls_eval_ok_simps [simp]:
  "tls_eval_ok E typ (Inr a) \<longleftrightarrow> any_ok E a \<and> any_type a = inner_type_id typ"
  "tls_eval_ok E typ (Inl (puffin_Error.Term m))"
  "tls_eval_ok E typ (Inl (puffin_Error.Fn e)) \<longleftrightarrow>
     (\<exists>f vs. map tls_value_type vs = sym_args (tls_table E f) \<and> sym_call (tls_table E f) vs = Some (Inl e))"
  by (simp_all add: tls_eval_ok_def)

lemma tls_eval_ok_Inl: "tls_eval_ok E typ (Inl e) \<Longrightarrow> tls_eval_ok E typ' (Inl e)"
  by (simp add: tls_eval_ok_def)

lemma variable_typed:
  assumes "context_ok E ctx"
  shows "find_variable M ctx shape query = Some a \<Longrightarrow> any_ok E a \<and> any_type a = inner_type_id shape"
    and "find_claim ctx agent shape = Some a \<Longrightarrow> any_ok E a \<and> any_type a = inner_type_id shape"
proof -
  assume "find_variable M ctx shape query = Some a"
  from find_variable_Some [OF this] assms show "any_ok E a \<and> any_type a = inner_type_id shape"
    by (auto simp: context_ok_def list_all_iff)
next
  assume *: "find_claim ctx agent shape = Some a"
  then obtain c where "c \<in> set (tc_claims ctx)" "a = claim_inner c"
    using find_last_claim_Some by (fastforce simp: find_claim_def)
  with * assms find_claim_typed [of ctx] show "any_ok E a \<and> any_type a = inner_type_id shape"
    by (auto simp: context_ok_def list_all_iff)
qed

lemma tls_evaluate_args_ok:
  assumes "\<And>t. t \<in> set ts \<Longrightarrow> tls_eval_ok E (get_type_shape t) (evaluate PB ctx t)"
  shows "case evaluate_args PB ctx ts of
      Inr as \<Rightarrow> list_all (any_ok E) as \<and> map any_type as = map (\<lambda>t. inner_type_id (get_type_shape t)) ts
    | Inl e \<Rightarrow> (\<forall>typ. tls_eval_ok E typ (Inl e))"
  using assms
proof (induction ts)
  case (Cons t ts)
  have t: "tls_eval_ok E (get_type_shape t) (evaluate PB ctx t)" using Cons.prems by simp
  show ?case
  proof (cases "evaluate PB ctx t")
    case (Inl e)
    with t show ?thesis by (auto intro: tls_eval_ok_Inl)
  next
    case (Inr data)
    with t Cons show ?thesis by (auto split: sum.splits)
  qed
qed simp

lemma tls_evaluate_ok:
  assumes "type_ids_distinct E" "context_ok E ctx" "term_ok (tls_defs hex E) t"
  shows "tls_eval_ok E (get_type_shape t) (evaluate PB ctx t)"
  using assms(3)
proof (induction t)
  case (Variable v)
  show ?case by (auto dest: variable_typed [OF assms(2)] split: option.splits)
next
  case (Application g ts)
  from Application.prems have ts: "list_all (term_ok (tls_defs hex E)) ts"
    and types: "map (\<lambda>t. inner_type_id (get_type_shape t)) ts = map inner_type_id (dfs_argument_types (Function_shape g))"
    by (simp_all add: term_ok_App)
  from Application.prems obtain f where f: "Function_shape g = symbol_shape E f" "Function_dynamic_fn g = symbol_dynamic hex E f"
    by (auto simp: term_ok_App symbol_of_def tls_defs_iff)
  have "tls_eval_ok E (get_type_shape t) (evaluate PB ctx t)" if "t \<in> set ts" for t
    using Application.IH that ts by (auto simp: list_all_iff)
  note args = tls_evaluate_args_ok [of ts E PB ctx, OF this]
  show ?case
  proof (cases "evaluate_args PB ctx ts")
    case (Inl e)
    with args show ?thesis by simp
  next
    case (Inr as)
    with args types have ok: "list_all (any_ok E) as"
      and as: "map any_type as = map inner_type_id (dfs_argument_types (symbol_shape E f))" by (simp_all add: f)
    have vs: "map tls_value_type (map any_val as) = sym_args (tls_table E f)"
      using ok as any_ok_type [OF assms(1)]
      by (auto simp: symbol_shape_def list_eq_iff_nth_eq list_all_length)
    show ?thesis
      using Inr symbol_call_typed [OF vs]
      by (auto simp: f symbol_dynamic_def make_dynamic_typed [OF as] any_ok_def intro!: exI [of _ f]
          exI [of _ "map any_val as"] vs split: sum.splits)
  qed
qed

subsection \<open>The TLS instance\<close>

definition tls_downcast :: "('c, 'd) tls_env \<Rightarrow> ('d, 'a) Embed \<Rightarrow> 'd tls_value Any \<Rightarrow> 'a option" where
  "tls_downcast E T a = (if any_type a = inner_type_id (env_type_shape E (em_type T)) then em_prj T (any_val a) else None)"

definition box_knowledge ::
  "('c, 'd) tls_env \<Rightarrow> puffin_Error + 'd tls_data list \<Rightarrow> puffin_Error + 'd tls_value Any list" where
  "box_knowledge E r = map_sum id (map (\<lambda>d. tls_box E (VData d))) r"

definition tls_behavior ::
  "('c, 'd) tls_env \<Rightarrow> (TlsQueryMatcher, 'd tls_value, 'p, 'd Message, OpaqueMessage) Protocol
     \<Rightarrow> (TlsQueryMatcher, 'd tls_value, 'p, 'd Message, OpaqueMessage) Protocol" where
  "tls_behavior E P =
     P\<lparr>pb_matcher := TlsQueryMatcher_matcher,
       downcast_message := tls_downcast E t_Message,
       downcast_opaque := tls_downcast E t_OpaqueMessage,
       create_opaque := Message_create_opaque,
       message_knowledge := (\<lambda>m. box_knowledge E (Message_extract_knowledge m)),
       opaque_knowledge := (\<lambda>m. box_knowledge E (OpaqueMessage_extract_knowledge m)),
       matcher_try_from := TlsQueryMatcher_try_from\<rparr>"

text \<open>A claim of TLS, as the trait shows it: its content is boxed at the type it is found under.\<close>

definition tls_claim :: "('c, 'd) tls_env \<Rightarrow> TlsClaim \<Rightarrow> 'd tls_value Claim" where
  "tls_claim E c =
     \<lparr>claim_agent_name = tlsc_agent_name c, claim_id = TlsClaim_id (\<lambda>t. env_type_shape E (T_Claim t)) c,
      claim_inner = tls_box E (VClaim (any_val (TlsClaim_inner (\<lambda>t. env_type_shape E (T_Claim t)) c)))\<rparr>"

lemma tls_claim_ok: "any_ok E (claim_inner (tls_claim E c)) \<and> any_type (claim_inner (tls_claim E c)) = inner_type_id (claim_id (tls_claim E c))"
  by (auto simp: tls_claim_def TlsClaim_id_def TlsClaim_inner_def boxed_any_def tls_box_def any_ok_def
      split: ClaimData.splits ClaimDataMessage.splits ClaimDataTranscript.splits)

text \<open>A PUT adds claims of TLS only.\<close>

definition claims_of_tls :: "('c, 'd) tls_env \<Rightarrow> 'd tls_value Claim list \<Rightarrow> bool" where
  "claims_of_tls E cs \<longleftrightarrow> set cs \<subseteq> range (tls_claim E)"

definition puts_claim_tls ::
  "('c, 'd) tls_env \<Rightarrow> ('m, 'd tls_value, 'p, 'msg, 'o) Protocol \<Rightarrow> bool" where
  "puts_claim_tls E PB \<longleftrightarrow>
     (\<forall>name put cs. claims_of_tls E cs \<longrightarrow> claims_of_tls E (snd (snd (put_progress PB name put cs)))
        \<and> claims_of_tls E (snd (snd (put_reset PB name put cs))) \<and> claims_of_tls E (snd (snd (put_rename_agent PB name put cs))))"

subsection \<open>Execution keeps values sound\<close>

definition learnt_ok :: "('c, 'd) tls_env \<Rightarrow> ('m, 'd tls_value, 'p) TraceContext \<Rightarrow> bool" where
  "learnt_ok E ctx \<longleftrightarrow> list_all (\<lambda>k. any_ok E (k_data k)) (tc_knowledge ctx) \<and> claims_of_tls E (tc_claims ctx)"

lemma learnt_ok_context: "learnt_ok E ctx \<Longrightarrow> context_ok E ctx"
  using tls_claim_ok by (fastforce simp: learnt_ok_def context_ok_def claims_of_tls_def claims_typed_def list_all_iff)

lemma learnt_ok_frame:
  "learnt_ok E ctx \<Longrightarrow> tc_knowledge ctx' = tc_knowledge ctx \<Longrightarrow> tc_claims ctx' = tc_claims ctx \<Longrightarrow> learnt_ok E ctx'"
  by (simp add: learnt_ok_def)

definition result_ok :: "('c, 'd) tls_env \<Rightarrow> ('m, 'd tls_value, 'p) exec_result \<Rightarrow> bool" where
  "result_ok E x \<longleftrightarrow> (\<forall>res ctx. x = Some (res, ctx) \<longrightarrow> learnt_ok E ctx)"

lemma result_ok_Some [simp]: "result_ok E (Some y) \<longleftrightarrow> learnt_ok E (snd y)"
  by (cases y) (simp add: result_ok_def)

lemma result_ok_and_then:
  assumes "result_ok E x" "\<And>ctx. learnt_ok E ctx \<Longrightarrow> result_ok E (f ctx)"
  shows "result_ok E (and_then x f)"
  using assms by (auto simp: result_ok_def and_then_def split: option.splits sum.splits)

lemma box_knowledge_ok: "box_knowledge E r = Inr as \<Longrightarrow> a \<in> set as \<Longrightarrow> any_ok E a"
  by (cases r) (auto simp: box_knowledge_def)

lemma learn_ok: "learnt_ok E ctx \<Longrightarrow> learnt_ok E (snd (learn (tls_behavior E P) agent res ctx))"
  by (auto simp: learn_conv learnt_ok_def tls_behavior_def list_all_iff dest: box_knowledge_ok dest!: sym [of "Inr _"] split: sum.splits option.splits)

lemma add_to_inbound_ok: "learnt_ok E ctx \<Longrightarrow> learnt_ok E (snd (add_to_inbound PB agent m ctx))"
  by (auto simp: add_to_inbound_def set_put_def intro: learnt_ok_frame split: sum.splits)

lemma take_message_ok: "learnt_ok E ctx \<Longrightarrow> learnt_ok E (snd (take_message_from_outbound PB agent ctx))"
  by (auto simp: take_message_from_outbound_def set_put_def intro: learnt_ok_frame split: sum.splits prod.splits)

lemma make_deterministic_ok: "learnt_ok E ctx \<Longrightarrow> learnt_ok E (make_deterministic PB name ctx)"
  by (auto simp: make_deterministic_def set_put_def intro: learnt_ok_frame split: sum.splits)

lemma next_state_ok: "puts_claim_tls E PB \<Longrightarrow> learnt_ok E ctx \<Longrightarrow> learnt_ok E (snd (next_state PB agent ctx))"
  unfolding puts_claim_tls_def next_state_def learnt_ok_def
  by (auto simp: set_put_def split: sum.splits prod.splits) (metis snd_conv)

lemma spawn_one_ok:
  assumes "puts_claim_tls E PB" "learnt_ok E ctx"
  shows "learnt_ok E (snd (rename_reusable PB d a ctx))" "learnt_ok E (snd (new_agent PB d ctx))"
proof -
  show "learnt_ok E (snd (rename_reusable PB d a ctx))"
    using assms unfolding puts_claim_tls_def rename_reusable_def learnt_ok_def
    by (auto split: prod.splits) (metis snd_conv)
  show "learnt_ok E (snd (new_agent PB d ctx))"
    using assms(2) by (auto simp: new_agent_def intro: learnt_ok_frame split: sum.splits)
qed

lemma spawn_agents_ok: "puts_claim_tls E PB \<Longrightarrow> learnt_ok E ctx \<Longrightarrow> learnt_ok E (snd (spawn_agents PB ds ctx))"
proof (induction PB ds ctx rule: spawn_agents.induct)
  case (2 PB d ds ctx)
  let ?one = "case find (\<lambda>existing. is_reusable_with PB (ag_put existing) d) (tc_agents ctx) of
      Some reusable \<Rightarrow> rename_reusable PB d reusable ctx | None \<Rightarrow> new_agent PB d ctx"
  have one: "learnt_ok E (snd ?one)" using spawn_one_ok [OF 2(2,3)] by (simp split: option.splits)
  obtain r c where rc: "?one = (r, c)" by (cases ?one)
  with one 2 show ?case by (cases r) (simp_all add: make_deterministic_ok)
qed simp

lemma reset_puts_ok:
  "puts_claim_tls E PB \<Longrightarrow> claims_of_tls E cs \<Longrightarrow> claims_of_tls E (snd (snd (reset_puts PB as cs)))"
proof (induction PB as cs rule: reset_puts.induct)
  case (2 PB a as cs)
  obtain r p cs' where x: "put_reset PB (ag_name a) (ag_put a) cs = (r, p, cs')" by (cases "put_reset PB (ag_name a) (ag_put a) cs")
  with 2(2,3) have "claims_of_tls E cs'" unfolding puts_claim_tls_def by (metis snd_conv)
  with 2 x show ?case by (cases r) (auto split: prod.splits)
qed simp

lemma reset_agents_ok: "puts_claim_tls E PB \<Longrightarrow> learnt_ok E ctx \<Longrightarrow> learnt_ok E (snd (reset_agents PB ctx))"
  using reset_puts_ok [of E PB "tc_claims ctx" "tc_agents ctx"]
  by (auto simp: reset_agents_def learnt_ok_def split: prod.splits)

lemma output_loop_ok:
  assumes "output_loop PB agent ctx = Some y" "PB = tls_behavior E P" "learnt_ok E ctx"
  shows "learnt_ok E (snd y)"
  using assms
proof (induction rule: output_loop.raw_induct [rotated, consumes 1])
  case (1 rec PB agent ctx y)
  obtain res c1 where t: "take_message_from_outbound PB agent ctx = (res, c1)" by fastforce
  with take_message_ok [OF 1(4), of PB agent] have c1: "learnt_ok E c1" by simp
  show ?case
  proof (cases "\<exists>m. res = Inr (Some m)")
    case False
    with 1 t c1 show ?thesis by (auto split: sum.splits option.splits)
  next
    case True
    then obtain m where m: "res = Inr (Some m)" by blast
    obtain r c2 where l: "learn PB agent m c1 = (r, c2)" by fastforce
    with learn_ok [OF c1, of P agent m] 1(3) have c2: "learnt_ok E c2" by simp
    with 1 t m l show ?thesis by (cases r) auto
  qed
qed

lemma execute_action_ok:
  assumes "puts_claim_tls E P" "learnt_ok E ctx"
  shows "result_ok E (execute_action (tls_behavior E P) action agent ctx)"
proof -
  let ?PB = "tls_behavior E P"
  have puts: "puts_claim_tls E ?PB" using assms(1) by (simp add: puts_claim_tls_def tls_behavior_def)
  note ok = result_ok_and_then next_state_ok [OF puts] add_to_inbound_ok
  show ?thesis
  proof (cases action)
    case (Input r)
    then show ?thesis using assms(2)
      by (auto simp: input_action_def intro!: ok split: sum.splits option.splits)
  next
    case Output
    have "result_ok E (output_loop ?PB agent c)" if "learnt_ok E c" for c
      using output_loop_ok that by (fastforce simp: result_ok_def)
    with Output assms(2) show ?thesis by (auto simp: output_action_def intro!: ok)
  qed
qed

lemma execute_steps_ok:
  assumes "puts_claim_tls E P" "learnt_ok E ctx"
  shows "result_ok E (execute_steps (tls_behavior E P) ss ctx)"
  using assms(2)
proof (induction ss arbitrary: ctx)
  case (Cons step ss)
  have "result_ok E (output_action (tls_behavior E P) agent c)" if "learnt_ok E c" for agent c
    using execute_action_ok [OF assms(1) that, of Action.Output agent] by simp
  with Cons show ?case
    by (auto simp: Let_def OutputAction_new_step_def intro!: result_ok_and_then execute_action_ok [OF assms(1)] split: Action.splits)
qed simp

lemma execute_ok:
  assumes "puts_claim_tls E P"
  shows "learnt_ok E ctx \<Longrightarrow> result_ok E (execute (tls_behavior E P) t ctx)"
    and "learnt_ok E ctx \<Longrightarrow> result_ok E (execute_priors (tls_behavior E P) ts ctx)"
proof (induction "tls_behavior E P" t ctx and "tls_behavior E P" ts ctx rule: execute_execute_priors.induct)
  have puts: "puts_claim_tls E (tls_behavior E P)" using assms by (simp add: puts_claim_tls_def tls_behavior_def)
  note ok = result_ok_and_then spawn_agents_ok [OF puts] execute_steps_ok [OF assms] reset_agents_ok [OF puts]
  {
    case (1 ds ss ps ctx)
    then show ?case by (auto intro!: ok)
  next
    case (2 ctx)
    then show ?case by simp
  next
    case (3 t ts ctx)
    then show ?case by (auto intro!: ok)
  }
qed

end
