(* ===== verification/Tls_Term_Macro.thy ===== *)
theory Tls_Term_Macro
  imports Tls_Typing
begin

text \<open>
  The language of seed traces: the macros \<open>term!\<close> and \<open>term_arg!\<close> of \<open>puffin/src/algebra/macros.rs\<close>, and building a \<open>Trace\<close> from steps.

  The code that builds a trace draws ids for each atom it makes and may panic, so it is a function on the state of the random
  numbers with an optional result (\<open>build\<close>). A \<open>sterm\<close> is the body of a \<open>term!\<close>: a query with the type it may name, a
  symbol with its arguments, or \<open>@x\<close> for a term built before. The macro gives a query without a type the argument type of the function
  around it; it does not look at the types of anything else, nor for missing arguments.

  \<open>has_type\<close> is the check that the macro leaves out; the rules for \<open>builds\<close> carry it through the code of a seed, so that a seed is
  known to build, and to build a trace that can be run.
\<close>

subsection \<open>Code that may panic\<close>

type_synonym ('r, 'a) build = "'r \<Rightarrow> ('a \<times> 'r) option"

definition build_return :: "'a \<Rightarrow> ('r, 'a) build" where
  "build_return x s = Some (x, s)"

definition build_panic :: "('r, 'a) build" where
  "build_panic s = None"

definition build_bind :: "('r, 'a) build \<Rightarrow> ('a \<Rightarrow> ('r, 'b) build) \<Rightarrow> ('r, 'b) build" where
  "build_bind m f s = (case m s of None \<Rightarrow> None | Some (x, s) \<Rightarrow> f x s)"

definition build_rand :: "('r \<Rightarrow> 'a \<times> 'r) \<Rightarrow> ('r, 'a) build" where
  "build_rand f s = Some (f s)"

text \<open>\<open>for _ in 0..n\<close> over one variable.\<close>

primrec build_repeat :: "nat \<Rightarrow> ('a \<Rightarrow> ('r, 'a) build) \<Rightarrow> 'a \<Rightarrow> ('r, 'a) build" where
  "build_repeat 0 f x = build_return x"
| "build_repeat (Suc n) f x = build_bind (f x) (build_repeat n f)"

subsection \<open>Terms\<close>

type_synonym 'd tls_term = "(TlsQueryMatcher, 'd tls_value) Term"

type_synonym 'd tls_trace = "(TlsQueryMatcher, 'd tls_value) Trace"

type_synonym 'd tls_step = "(TlsQueryMatcher, 'd tls_value) Step"

datatype 'd sterm =
    SVar AgentName u16 "TlsQueryMatcher option" "tls_type option"
  | SApp tls_fn "'d sterm list"
  | SRef "'d tls_term"

text \<open>The cargo features that seeds depend on.\<close>

record features =
  wolfssl430 :: bool
  tls13 :: bool
  tls12_session_resumption :: bool
  tls13_session_resumption :: bool
  client_authentication_transcript_extraction :: bool

record ('c, 'd, 'r) builder =
  bl_hex :: "TypeId \<Rightarrow> string"
  bl_env :: "('c, 'd) tls_env"
  bl_rand :: "'r Rand"
  bl_features :: features
  bl_type_name :: "string \<Rightarrow> string"

definition new_var :: "'r Rand \<Rightarrow> TypeShape \<Rightarrow> AgentName \<Rightarrow> 'm option \<Rightarrow> u16 \<Rightarrow> 'r \<Rightarrow> 'm Variable \<times> 'r" where
  "new_var R type_shape agent_name m counter s =
     Variable_new R type_shape \<lparr>q_agent_name = agent_name, q_matcher = m, q_counter = counter\<rparr> s"

definition new_function :: "('c, 'd, 'r) builder \<Rightarrow> tls_fn \<Rightarrow> 'r \<Rightarrow> 'd tls_value Function \<times> 'r" where
  "new_function B f s =
     Function_new (bl_rand B) (symbol_shape (bl_env B) f) (symbol_dynamic (bl_hex B) (bl_env B) f) s"

text \<open>A query with no type to take is no Rust program; it is a panic here.\<close>

fun term_macro :: "('c, 'd, 'r) builder \<Rightarrow> 'd sterm \<Rightarrow> TypeShape option \<Rightarrow> ('r, 'd tls_term) build"
  and term_args :: "('c, 'd, 'r) builder \<Rightarrow> 'd sterm list \<Rightarrow> TypeShape list \<Rightarrow> ('r, 'd tls_term list) build" where
  "term_macro B (SVar agent counter m typ) req_type =
     (case (case typ of Some T \<Rightarrow> Some (env_type_shape (bl_env B) T) | None \<Rightarrow> req_type) of
        None \<Rightarrow> build_panic
      | Some shape \<Rightarrow>
          build_bind (build_rand (new_var (bl_rand B) shape agent m counter)) (\<lambda>var.
          build_return (Term.Variable var)))"
| "term_macro B (SApp f args) req_type =
     build_bind (build_rand (new_function B f)) (\<lambda>func.
     build_bind (term_args B args (dfs_argument_types (Function_shape func))) (\<lambda>arguments.
     build_return (Term.Application func arguments)))"
| "term_macro B (SRef t) req_type = build_rand (Term_clone (bl_rand B) t)"
| "term_args B [] Ts = build_return []"
| "term_args B (a # as) [] = build_panic"
| "term_args B (a # as) (argument # Ts) =
     build_bind (term_macro B a (Some argument)) (\<lambda>t.
     build_bind (term_args B as Ts) (\<lambda>ts.
     build_return (t # ts)))"

abbreviation build_let :: "('c, 'd, 'r) builder \<Rightarrow> 'd sterm \<Rightarrow> ('d tls_term \<Rightarrow> ('r, 'a) build) \<Rightarrow> ('r, 'a) build" where
  "build_let B t f \<equiv> build_bind (term_macro B t None) f"

subsection \<open>Traces\<close>

text \<open>Steps as they are written: \<open>IN\<close> with a \<open>term!\<close> as recipe, \<open>MOVE\<close> with a term that is moved there, \<open>OUT\<close>.\<close>

datatype 'd sstep = OUT AgentName | IN AgentName "'d sterm" | MOVE AgentName "'d tls_term"

primrec build_step :: "('c, 'd, 'r) builder \<Rightarrow> 'd sstep \<Rightarrow> ('r, 'd tls_step) build" where
  "build_step B (OUT agent) = build_return (OutputAction_new_step agent)"
| "build_step B (IN agent t) = build_bind (term_macro B t None) (\<lambda>r. build_return (InputAction_new_step agent r))"
| "build_step B (MOVE agent r) = build_return (InputAction_new_step agent r)"

primrec build_steps :: "('c, 'd, 'r) builder \<Rightarrow> 'd sstep list \<Rightarrow> ('r, 'd tls_step list) build" where
  "build_steps B [] = build_return []"
| "build_steps B (x # xs) =
     build_bind (build_step B x) (\<lambda>step. build_bind (build_steps B xs) (\<lambda>ss. build_return (step # ss)))"

definition make_trace ::
  "('c, 'd, 'r) builder \<Rightarrow> 'd tls_trace list \<Rightarrow> AgentDescriptor list \<Rightarrow> 'd sstep list \<Rightarrow> ('r, 'd tls_trace) build" where
  "make_trace B ps ds xs = build_bind (build_steps B xs) (\<lambda>ss. build_return (Trace ds ss ps))"

text \<open>\<open>insert\<close> and assignment to an index panic beyond the end.\<close>

definition steps_insert :: "('c, 'd, 'r) builder \<Rightarrow> 'd tls_trace \<Rightarrow> nat \<Rightarrow> 'd sstep \<Rightarrow> ('r, 'd tls_trace) build" where
  "steps_insert B trace i x =
     build_bind (build_step B x) (\<lambda>step.
       if i \<le> length (steps trace) then build_return (set_steps trace (vec_insert (steps trace) i step)) else build_panic)"

definition steps_assign :: "('c, 'd, 'r) builder \<Rightarrow> 'd tls_trace \<Rightarrow> nat \<Rightarrow> 'd sstep \<Rightarrow> ('r, 'd tls_trace) build" where
  "steps_assign B trace i x =
     build_bind (build_step B x) (\<lambda>step.
       if i < length (steps trace) then build_return (set_steps trace ((steps trace)[i := step])) else build_panic)"

definition steps_push :: "('c, 'd, 'r) builder \<Rightarrow> 'd tls_trace \<Rightarrow> 'd sstep \<Rightarrow> ('r, 'd tls_trace) build" where
  "steps_push B trace x =
     build_bind (build_step B x) (\<lambda>step. build_return (set_steps trace (steps trace @ [step])))"

subsection \<open>Well-formed traces\<close>

fun query_agents :: "('m, 'v) Term \<Rightarrow> AgentName set" where
  "query_agents (Term.Variable v) = {q_agent_name (var_query v)}"
| "query_agents (Term.Application _ ts) = \<Union> (query_agents ` set ts)"

text \<open>A term of the type \<open>T\<close> over the symbols of TLS that asks for knowledge of the agents \<open>A\<close>.\<close>

definition typed_term :: "('c, 'd, 'r) builder \<Rightarrow> AgentName set \<Rightarrow> tls_type \<Rightarrow> 'd tls_term \<Rightarrow> bool" where
  "typed_term B A T t \<longleftrightarrow>
     term_ok (tls_defs (bl_hex B) (bl_env B)) t \<and> get_type_shape t = env_type_shape (bl_env B) T \<and> query_agents t \<subseteq> A"

text \<open>
  A step that can be run by a trace whose agents are \<open>own\<close>: the agent is one of them, and a recipe is well typed, gives a message that can
  be sent, and asks for knowledge of \<open>A\<close>.
\<close>

definition runnable_step :: "('c, 'd, 'r) builder \<Rightarrow> AgentName set \<Rightarrow> AgentName set \<Rightarrow> 'd tls_step \<Rightarrow> bool" where
  "runnable_step B own A step \<longleftrightarrow>
     step_agent step \<in> own \<and>
     (case step_action step of
        Action.Input r \<Rightarrow> typed_term B A T_Message r \<or> typed_term B A T_OpaqueMessage r
      | Action.Output \<Rightarrow> True)"

fun trace_agents :: "('m, 'v) Trace \<Rightarrow> AgentName set" where
  "trace_agents (Trace ds ss ps) = ad_name ` set ds \<union> \<Union> (trace_agents ` set ps)"

fun runnable :: "('c, 'd, 'r) builder \<Rightarrow> 'd tls_trace \<Rightarrow> bool" where
  "runnable B (Trace ds ss ps) \<longleftrightarrow>
     list_all (runnable_step B (ad_name ` set ds) (trace_agents (Trace ds ss ps))) ss \<and> list_all (runnable B) ps"

fun has_type :: "('c, 'd, 'r) builder \<Rightarrow> AgentName set \<Rightarrow> 'd sterm \<Rightarrow> tls_type \<Rightarrow> bool"
  and have_types :: "('c, 'd, 'r) builder \<Rightarrow> AgentName set \<Rightarrow> 'd sterm list \<Rightarrow> tls_type list \<Rightarrow> bool" where
  "has_type B A (SVar agent counter m typ) T \<longleftrightarrow> agent \<in> A \<and> (case typ of None \<Rightarrow> True | Some T' \<Rightarrow> T' = T)"
| "has_type B A (SApp f args) T \<longleftrightarrow>
     sym_ret (tls_table (bl_env B) f) = T \<and> have_types B A args (sym_args (tls_table (bl_env B) f))"
| "has_type B A (SRef t) T \<longleftrightarrow> typed_term B A T t"
| "have_types B A [] Ts \<longleftrightarrow> Ts = []"
| "have_types B A (a # as) [] \<longleftrightarrow> False"
| "have_types B A (a # as) (T # Ts) \<longleftrightarrow> has_type B A a T \<and> have_types B A as Ts"

primrec names_type :: "'d sterm \<Rightarrow> bool" where
  "names_type (SVar agent counter m typ) \<longleftrightarrow> typ \<noteq> None"
| "names_type (SApp f args) \<longleftrightarrow> True"
| "names_type (SRef t) \<longleftrightarrow> True"

subsection \<open>Rules for building\<close>

definition builds :: "('a \<Rightarrow> bool) \<Rightarrow> ('r, 'a) build \<Rightarrow> bool" where
  "builds P m \<longleftrightarrow> (\<forall>s. \<exists>x s'. m s = Some (x, s') \<and> P x)"

lemma builds_return: "P x \<Longrightarrow> builds P (build_return x)"
  by (simp add: builds_def build_return_def)

lemma builds_rand: "(\<And>s x s'. f s = (x, s') \<Longrightarrow> P x) \<Longrightarrow> builds P (build_rand f)"
  unfolding builds_def build_rand_def by (metis surj_pair)

lemma builds_bind: "builds P m \<Longrightarrow> (\<And>x. P x \<Longrightarrow> builds Q (f x)) \<Longrightarrow> builds Q (build_bind m f)"
  unfolding builds_def build_bind_def by (metis (no_types, lifting) case_prod_conv option.simps(5))

lemma builds_repeat: "P x \<Longrightarrow> (\<And>x. P x \<Longrightarrow> builds P (f x)) \<Longrightarrow> builds P (build_repeat n f x)"
  by (induction n arbitrary: x) (auto intro: builds_return builds_bind)

lemma builds_mono: "builds P m \<Longrightarrow> (\<And>x. P x \<Longrightarrow> Q x) \<Longrightarrow> builds Q m"
  unfolding builds_def by meson

lemma builds_result: "builds P m \<Longrightarrow> m s = Some (x, s') \<Longrightarrow> P x"
  unfolding builds_def by (metis Pair_inject option.inject)

lemma builds_conj: "builds P m \<Longrightarrow> (\<And>s x s'. m s = Some (x, s') \<Longrightarrow> Q x) \<Longrightarrow> builds (\<lambda>x. P x \<and> Q x) m"
  unfolding builds_def by blast

lemma query_agents_erase: "query_agents (erase_ids t) = query_agents t"
  by (induction t) auto

lemma clone_typed_term: "Term_clone R t s = (t', s') \<Longrightarrow> typed_term B A T t' = typed_term B A T t"
  using clone_erase clone_ok clone_typed query_agents_erase unfolding typed_term_def by metis

lemma builds_macro_both:
  fixes B :: "('c, 'd, 'r) builder"
  shows "has_type B A t T \<Longrightarrow> req = Some (env_type_shape (bl_env B) T) \<or> names_type t \<Longrightarrow>
      builds (typed_term B A T) (term_macro B t req)"
    and "have_types B A ts Ts \<Longrightarrow>
      builds (\<lambda>us. list_all2 (typed_term B A) Ts us) (term_args B ts (map (env_type_shape (bl_env B)) Ts))"
proof (induction B A t T and B A ts Ts arbitrary: req rule: has_type_have_types.induct)
  case (1 B A agent counter m ty T)
  then show ?case
    by (auto simp: typed_term_def term_ok_def new_var_def Variable_new_def
        intro!: builds_bind [OF builds_rand [where P = "\<lambda>v. q_agent_name (var_query v) = agent \<and> var_typ v = env_type_shape (bl_env B) T"]]
        builds_return split: option.splits prod.splits)
next
  case (2 B A f args T)
  let ?f = "\<lambda>g. Function_shape g = symbol_shape (bl_env B) f \<and> Function_dynamic_fn g = symbol_dynamic (bl_hex B) (bl_env B) f"
  have args: "dfs_argument_types (symbol_shape (bl_env B) f) = map (env_type_shape (bl_env B)) (sym_args (tls_table (bl_env B) f))"
    by (simp add: symbol_shape_def)
  have app: "typed_term B A T (Term.Application g us)"
    if "?f g" "list_all2 (typed_term B A) (sym_args (tls_table (bl_env B) f)) us" for g us
  proof -
    from that(2) have "map get_type_shape us = map (env_type_shape (bl_env B)) (sym_args (tls_table (bl_env B) f))"
      "list_all (term_ok (tls_defs (bl_hex B) (bl_env B))) us" "\<Union> (query_agents ` set us) \<subseteq> A"
      by (induction rule: list_all2_induct) (auto simp: typed_term_def)
    with that(1) 2(2) args show ?thesis
      by (auto simp: typed_term_def term_ok_App symbol_of_def tls_defs_iff list_all_iff comp_def dest!: arg_cong [of _ _ "map inner_type_id"])
  qed
  show ?case
    unfolding term_macro.simps
  proof (rule builds_bind [where P = ?f])
    show "builds ?f (build_rand (new_function B f))"
      by (rule builds_rand) (auto simp: new_function_def Function_new_def Function_shape_def Function_dynamic_fn_def split: prod.splits)
    show "builds (typed_term B A T) (build_bind (term_args B args (dfs_argument_types (Function_shape g)))
        (\<lambda>as. build_return (Term.Application g as)))" if "?f g" for g
      using that 2 app by (auto simp: args intro!: builds_bind [OF 2(1)] builds_return)
  qed
next
  case (3 B A t T)
  then show ?case by (auto simp: clone_typed_term intro!: builds_rand)
next
  case (6 B A a as T Ts)
  then show ?case by (auto intro!: builds_bind [OF 6(1)] builds_bind [OF 6(2)] builds_return)
qed (auto intro: builds_return)

lemma builds_macro: "has_type B A t T \<Longrightarrow> names_type t \<Longrightarrow> builds (typed_term B A T) (term_macro B t None)"
  by (rule builds_macro_both) auto

subsection \<open>Rules for traces\<close>

text \<open>A trace with the agents \<open>own\<close> and \<open>n\<close> steps that asks for knowledge of the agents \<open>A\<close>.\<close>

definition seed_trace :: "('c, 'd, 'r) builder \<Rightarrow> AgentName set \<Rightarrow> AgentName set \<Rightarrow> nat \<Rightarrow> 'd tls_trace \<Rightarrow> bool" where
  "seed_trace B own A n trace \<longleftrightarrow>
     runnable B trace \<and> ad_name ` set (descriptors trace) = own \<and> trace_agents trace = A \<and> length (steps trace) = n"

primrec step_checked :: "('c, 'd, 'r) builder \<Rightarrow> AgentName set \<Rightarrow> AgentName set \<Rightarrow> 'd sstep \<Rightarrow> bool" where
  "step_checked B own A (OUT agent) \<longleftrightarrow> agent \<in> own"
| "step_checked B own A (IN agent t) \<longleftrightarrow>
     agent \<in> own \<and> names_type t \<and> (has_type B A t T_Message \<or> has_type B A t T_OpaqueMessage)"
| "step_checked B own A (MOVE agent r) \<longleftrightarrow>
     agent \<in> own \<and> (typed_term B A T_Message r \<or> typed_term B A T_OpaqueMessage r)"

lemma builds_step:
  assumes "step_checked B own A x"
  shows "builds (runnable_step B own A) (build_step B x)"
proof (cases x)
  case (IN agent t)
  with assms obtain T where "has_type B A t T" "names_type t" "T = T_Message \<or> T = T_OpaqueMessage" "agent \<in> own" by auto
  with builds_macro [of B A t T] show ?thesis
    by (auto simp: IN runnable_step_def InputAction_new_step_def intro!: builds_bind [of "typed_term B A T"] builds_return)
qed (use assms in \<open>auto simp: runnable_step_def OutputAction_new_step_def InputAction_new_step_def intro!: builds_return\<close>)

lemma builds_steps:
  "list_all (step_checked B own A) xs \<Longrightarrow>
     builds (\<lambda>ss. list_all (runnable_step B own A) ss \<and> length ss = length xs) (build_steps B xs)"
proof (induction xs)
  case (Cons x xs)
  then show ?case by (auto intro!: builds_bind [OF builds_step] builds_bind [OF Cons.IH] builds_return)
qed (simp add: builds_return)

lemma builds_trace:
  assumes "own = ad_name ` set ds" "A = own \<union> \<Union> (trace_agents ` set ps)" "n = length xs"
    and "list_all (runnable B) ps" "list_all (step_checked B own A) xs"
  shows "builds (seed_trace B own A n) (make_trace B ps ds xs)"
  unfolding make_trace_def
  by (rule builds_bind [OF builds_steps [OF assms(5)]]) (use assms(1-4) in \<open>auto simp: seed_trace_def intro!: builds_return\<close>)

lemma seed_trace_set_steps:
  assumes "seed_trace B own A n trace" "list_all (runnable_step B own A) ss"
  shows "seed_trace B own A (length ss) (set_steps trace ss)"
  using assms by (cases trace) (auto simp: seed_trace_def)

lemma seed_trace_steps: "seed_trace B own A n trace \<Longrightarrow> list_all (runnable_step B own A) (steps trace) \<and> length (steps trace) = n"
  by (cases trace) (auto simp: seed_trace_def)

lemma builds_insert:
  assumes "seed_trace B own A n trace" "i \<le> n" "step_checked B own A x" "n' = Suc n"
  shows "builds (seed_trace B own A n') (steps_insert B trace i x)"
  unfolding steps_insert_def assms(4)
proof (rule builds_bind [OF builds_step [OF assms(3)]])
  fix step
  assume "runnable_step B own A step"
  with seed_trace_steps [OF assms(1)]
  have "list_all (runnable_step B own A) (vec_insert (steps trace) i step)" by (auto simp: list_all_iff vec_insert_set)
  from seed_trace_set_steps [OF assms(1) this] seed_trace_steps [OF assms(1)] assms(2)
  show "builds (seed_trace B own A (Suc n)) (if i \<le> length (steps trace) then build_return (set_steps trace (vec_insert (steps trace) i step)) else build_panic)"
    by (auto simp: length_vec_insert intro!: builds_return)
qed

lemma builds_assign:
  assumes "seed_trace B own A n trace" "i < n" "step_checked B own A x" "n' = n"
  shows "builds (seed_trace B own A n') (steps_assign B trace i x)"
  unfolding steps_assign_def assms(4)
proof (rule builds_bind [OF builds_step [OF assms(3)]])
  fix step
  assume "runnable_step B own A step"
  with seed_trace_steps [OF assms(1)]
  have "list_all (runnable_step B own A) ((steps trace)[i := step])" by (auto simp: list_all_iff dest: set_update_subset_insert [THEN subsetD])
  from seed_trace_set_steps [OF assms(1) this] seed_trace_steps [OF assms(1)] assms(2)
  show "builds (seed_trace B own A n) (if i < length (steps trace) then build_return (set_steps trace ((steps trace)[i := step])) else build_panic)"
    by (auto intro!: builds_return)
qed

lemma builds_push:
  assumes "seed_trace B own A n trace" "step_checked B own A x" "n' = Suc n"
  shows "builds (seed_trace B own A n') (steps_push B trace x)"
  unfolding steps_push_def assms(3)
proof (rule builds_bind [OF builds_step [OF assms(2)]])
  fix step
  assume "runnable_step B own A step"
  with seed_trace_steps [OF assms(1)] have "list_all (runnable_step B own A) (steps trace @ [step])" by auto
  from seed_trace_set_steps [OF assms(1) this] seed_trace_steps [OF assms(1)]
  show "builds (seed_trace B own A (Suc n)) (build_return (set_steps trace (steps trace @ [step])))"
    by (auto intro!: builds_return)
qed

text \<open>A let-bound \<open>term!\<close> of a symbol has the type the symbol returns.\<close>

lemma builds_let:
  assumes "have_types B A args (sym_args (tls_table (bl_env B) f))"
    and "\<And>t. typed_term B A (sym_ret (tls_table (bl_env B) f)) t \<Longrightarrow> builds Q (k t)"
  shows "builds Q (build_let B (SApp f args) k)"
  by (rule builds_bind [OF builds_macro]) (use assms in auto)

lemma builds_repeat_let:
  assumes "typed_term B A T x" "\<And>x. typed_term B A T x \<Longrightarrow> has_type B A (f x) T" "\<And>x. names_type (f x)"
    and "\<And>t. typed_term B A T t \<Longrightarrow> builds Q (k t)"
  shows "builds Q (build_bind (build_repeat n (\<lambda>x. term_macro B (f x) None) x) k)"
proof (rule builds_bind [OF builds_repeat])
  show "typed_term B A T x" by fact
  show "builds (typed_term B A T) (term_macro B (f y) None)" if "typed_term B A T y" for y
    using that assms(2,3) by (blast intro: builds_macro)
qed (rule assms(4))

lemma build_bind_return [simp]: "build_bind m build_return = m"
  by (rule ext) (auto simp: build_bind_def build_return_def split: option.splits)

lemma descriptor_name [simp]: "ad_name (new_client a v) = a" "ad_name (new_server a v) = a"
  by (simp_all add: new_client_def new_server_def)

lemma typed_term_mono: "typed_term B A T t \<Longrightarrow> A \<subseteq> A' \<Longrightarrow> typed_term B A' T t"
  by (auto simp: typed_term_def)

text \<open>The matcher of a handshake message of one type, as seeds write it.\<close>

abbreviation on_hs :: "HandshakeType \<Rightarrow> TlsQueryMatcher option" where
  "on_hs t \<equiv> Some (TlsQueryMatcher.Handshake (Some t))"

lemma runnable_trace_ok: "runnable B trace \<Longrightarrow> trace_ok (tls_defs (bl_hex B) (bl_env B)) trace"
  by (cases trace)
    (fastforce simp: trace_ok_def step_ok_def list_all_iff runnable_step_def typed_term_def split: Action.splits)

lemma seed_traceD: "seed_trace B own A n trace \<Longrightarrow> runnable B trace \<and> trace_agents trace = A"
  by (simp add: seed_trace_def)

end
