(* ===== verification/Tls_Seeds.thy ===== *)
theory Tls_Seeds
  imports Tls_Term_Macro
begin

text \<open>
  The seed traces of \<open>tlspuffin/src/tls/seeds.rs\<close>, \<open>build_trace\<close> of \<open>tls/trace_helper.rs\<close> and the initial corpus.

  Each \<open>seed_*\<close> is the code of the Rust function: the let-bound terms in their order, then the trace, or the changes made to the
  trace of another seed. A function that returns terms beside its trace (\<open>_seed_*\<close>) has the suffix \<open>_terms\<close>. Loops over a term
  are \<open>build_repeat\<close>.

  The lemma \<open>*_builds\<close> of a seed says, for every agent name and every state of the random numbers, that the seed does not panic and that
  the trace it builds is runnable, with the agents it spawns, the agents it asks for knowledge of, and the number of its steps.
\<close>

subsection \<open>The seeds\<close>

definition seed_successful_client_auth :: "('c, 'd, 'r) builder \<Rightarrow> AgentName \<Rightarrow> AgentName \<Rightarrow> ('r, 'd tls_trace) build" where
  "seed_successful_client_auth B client server =
     make_trace B []
       [AgentDescriptor_default\<lparr>ad_name := client, ad_tls_version := V1_3, ad_typ := AgentType.Client, ad_client_authentication := True\<rparr>,
        AgentDescriptor_default\<lparr>ad_name := server, ad_tls_version := V1_3, ad_typ := AgentType.Server, ad_client_authentication := True\<rparr>]
       [OUT client,
        IN server
          (SApp (F_Msg Fn_client_hello) [
             SVar client 0 None None,
             SVar client 0 None None,
             SVar client 0 None None,
             SVar client 0 None None,
             SVar client 0 None None,
             SVar client 0 None None]),
        IN client
          (SApp (F_Msg Fn_server_hello) [
             SVar server 0 (on_hs HandshakeType.ServerHello) (Some T_ProtocolVersion),
             SVar server 0 (on_hs HandshakeType.ServerHello) (Some T_Random),
             SVar server 0 (on_hs HandshakeType.ServerHello) (Some T_SessionID),
             SVar server 0 (on_hs HandshakeType.ServerHello) (Some T_CipherSuite),
             SVar server 0 (on_hs HandshakeType.ServerHello) (Some T_Compression),
             SVar server 0 (on_hs HandshakeType.ServerHello) (Some T_ServerExtensions)]),
        IN client (SApp (F_Msg Fn_application_data) [SVar server 0 (Some TlsQueryMatcher.ApplicationData) (Some T_Bytes)]),
        IN client (SApp (F_Msg Fn_application_data) [SVar server 1 (Some TlsQueryMatcher.ApplicationData) (Some T_Bytes)]),
        IN client (SApp (F_Msg Fn_application_data) [SVar server 2 (Some TlsQueryMatcher.ApplicationData) (Some T_Bytes)]),
        IN client (SApp (F_Msg Fn_application_data) [SVar server 3 (Some TlsQueryMatcher.ApplicationData) (Some T_Bytes)]),
        IN client (SApp (F_Msg Fn_application_data) [SVar server 4 (Some TlsQueryMatcher.ApplicationData) (Some T_Bytes)]),
        IN server (SApp (F_Msg Fn_application_data) [SVar client 0 (Some TlsQueryMatcher.ApplicationData) (Some T_Bytes)]),
        IN server (SApp (F_Msg Fn_application_data) [SVar client 1 (Some TlsQueryMatcher.ApplicationData) (Some T_Bytes)]),
        IN server (SApp (F_Msg Fn_application_data) [SVar client 2 (Some TlsQueryMatcher.ApplicationData) (Some T_Bytes)])]"

definition seed_successful :: "('c, 'd, 'r) builder \<Rightarrow> AgentName \<Rightarrow> AgentName \<Rightarrow> ('r, 'd tls_trace) build" where
  "seed_successful B client server =
     make_trace B []
       [new_client client V1_3,
        new_server server V1_3]
       [OUT client,
        IN server
          (SApp (F_Msg Fn_client_hello) [
             SVar client 0 None None,
             SVar client 0 None None,
             SVar client 0 None None,
             SVar client 0 None None,
             SVar client 0 None None,
             SVar client 0 None None]),
        IN client
          (SApp (F_Msg Fn_server_hello) [
             SVar server 0 (on_hs HandshakeType.ServerHello) (Some T_ProtocolVersion),
             SVar server 0 (on_hs HandshakeType.ServerHello) (Some T_Random),
             SVar server 0 (on_hs HandshakeType.ServerHello) (Some T_SessionID),
             SVar server 0 (on_hs HandshakeType.ServerHello) (Some T_CipherSuite),
             SVar server 0 (on_hs HandshakeType.ServerHello) (Some T_Compression),
             SVar server 0 (on_hs HandshakeType.ServerHello) (Some T_ServerExtensions)]),
        IN client (SApp (F_Msg Fn_application_data) [SVar server 0 (Some TlsQueryMatcher.ApplicationData) (Some T_Bytes)]),
        IN client (SApp (F_Msg Fn_application_data) [SVar server 1 (Some TlsQueryMatcher.ApplicationData) (Some T_Bytes)]),
        IN client (SApp (F_Msg Fn_application_data) [SVar server 2 (Some TlsQueryMatcher.ApplicationData) (Some T_Bytes)]),
        IN client (SApp (F_Msg Fn_application_data) [SVar server 3 (Some TlsQueryMatcher.ApplicationData) (Some T_Bytes)]),
        IN server (SApp (F_Msg Fn_application_data) [SVar client 0 (Some TlsQueryMatcher.ApplicationData) (Some T_Bytes)])]"

definition seed_successful_mitm :: "('c, 'd, 'r) builder \<Rightarrow> AgentName \<Rightarrow> AgentName \<Rightarrow> ('r, 'd tls_trace) build" where
  "seed_successful_mitm B client server =
     make_trace B []
       [new_client client V1_3,
        new_server server V1_3]
       [OUT client,
        IN server
          (SApp (F_Msg Fn_client_hello) [
             SVar client 0 None None,
             SVar client 0 None None,
             SVar client 0 None None,
             SApp (F_Field Fn_append_cipher_suite) [
               SApp (F_Field Fn_new_cipher_suites) [],
               SApp (F_Field Fn_cipher_suite13_aes_128_gcm_sha256) []],
             SVar client 0 None None,
             SVar client 0 None None]),
        IN client
          (SApp (F_Msg Fn_server_hello) [
             SVar server 0 None None,
             SVar server 0 None None,
             SVar server 0 None None,
             SVar server 0 None None,
             SVar server 0 None None,
             SVar server 0 None None]),
        IN client (SApp (F_Msg Fn_application_data) [SVar server 0 (Some TlsQueryMatcher.ApplicationData) (Some T_Bytes)]),
        IN client (SApp (F_Msg Fn_application_data) [SVar server 1 (Some TlsQueryMatcher.ApplicationData) (Some T_Bytes)]),
        IN client (SApp (F_Msg Fn_application_data) [SVar server 2 (Some TlsQueryMatcher.ApplicationData) (Some T_Bytes)]),
        IN client (SApp (F_Msg Fn_application_data) [SVar server 3 (Some TlsQueryMatcher.ApplicationData) (Some T_Bytes)]),
        IN server (SApp (F_Msg Fn_application_data) [SVar client 0 (Some TlsQueryMatcher.ApplicationData) (Some T_Bytes)])]"

definition seed_successful12 :: "('c, 'd, 'r) builder \<Rightarrow> AgentName \<Rightarrow> AgentName \<Rightarrow> ('r, 'd tls_trace) build" where
  "seed_successful12 B client server =
     make_trace B []
       [new_client client V1_2,
        new_server server V1_2]
       [OUT client,
        IN server
          (SApp (F_Msg Fn_client_hello) [
             SVar client 0 None None,
             SVar client 0 None None,
             SVar client 0 None None,
             SVar client 0 None None,
             SVar client 0 None None,
             SVar client 0 None None]),
        IN client
          (SApp (F_Msg Fn_server_hello) [
             SVar server 0 None None,
             SVar server 0 None None,
             SVar server 0 None None,
             SVar server 0 None None,
             SVar server 0 None None,
             SVar server 0 None None]),
        IN client (SApp (F_Msg Fn_certificate) [SVar server 0 None None]),
        IN client (SApp (F_Msg Fn_server_key_exchange) [SVar server 0 (on_hs HandshakeType.ServerKeyExchange) (Some T_Bytes)]),
        IN client (SApp (F_Msg Fn_server_hello_done) []),
        IN server (SApp (F_Msg Fn_client_key_exchange) [SVar client 0 (on_hs HandshakeType.ClientKeyExchange) (Some T_Bytes)]),
        IN server (SApp (F_Msg Fn_change_cipher_spec) []),
        IN server (SApp (F_Msg Fn_opaque_message) [SVar client 3 None None]),
        IN client (SApp (F_Msg Fn_change_cipher_spec) []),
        IN client (SApp (F_Msg Fn_opaque_message) [SVar server 5 None None])]"

definition seed_successful12_with_tickets :: "('c, 'd, 'r) builder \<Rightarrow> AgentName \<Rightarrow> AgentName \<Rightarrow> ('r, 'd tls_trace) build" where
  "seed_successful12_with_tickets B client server =
     build_bind (seed_successful12 B client server) (\<lambda>trace.
     build_bind (steps_insert B trace 9
       (IN client
          (SApp (F_Msg Fn_new_session_ticket) [
             SVar server 0 None (Some T_U64),
             SVar server 0 (on_hs HandshakeType.NewSessionTicket) (Some T_Bytes)]))) (\<lambda>trace.
     build_bind (steps_assign B trace 11
       (IN client (SApp (F_Msg Fn_opaque_message) [SVar server 6 None None]))) (\<lambda>trace.
     build_return trace)))"

definition seed_successful_with_ccs :: "('c, 'd, 'r) builder \<Rightarrow> AgentName \<Rightarrow> AgentName \<Rightarrow> ('r, 'd tls_trace) build" where
  "seed_successful_with_ccs B client server =
     build_bind (seed_successful B client server) (\<lambda>trace.
     build_bind (steps_insert B trace 3
       (IN client (SApp (F_Msg Fn_change_cipher_spec) []))) (\<lambda>trace.
     build_bind (steps_insert B trace 8
       (IN server (SApp (F_Msg Fn_change_cipher_spec) []))) (\<lambda>trace.
     build_return trace)))"

definition seed_successful_with_tickets :: "('c, 'd, 'r) builder \<Rightarrow> AgentName \<Rightarrow> AgentName \<Rightarrow> ('r, 'd tls_trace) build" where
  "seed_successful_with_tickets B client server =
     build_bind (seed_successful_with_ccs B client server) (\<lambda>trace.
     build_bind (steps_push B trace
       (OUT server)) (\<lambda>trace.
     build_bind (steps_push B trace
       (IN client (SApp (F_Msg Fn_application_data) [SVar server 4 (Some TlsQueryMatcher.ApplicationData) (Some T_Bytes)]))) (\<lambda>trace.
     build_bind (if wolfssl430 (bl_features B) then build_return trace else steps_push B trace
       (IN client (SApp (F_Msg Fn_application_data) [SVar server 5 (Some TlsQueryMatcher.ApplicationData) (Some T_Bytes)]))) (\<lambda>trace.
     build_return trace))))"

definition seed_server_attacker_full :: "('c, 'd, 'r) builder \<Rightarrow> AgentName \<Rightarrow> ('r, 'd tls_trace) build" where
  "seed_server_attacker_full B client =
     build_let B (SApp (F_Field Fn_get_any_client_curve) [SVar client 0 (on_hs HandshakeType.ClientHello) None]) (\<lambda>curve.
     build_let B
       (SApp (F_Msg Fn_server_hello) [
          SApp (F_Field Fn_protocol_version12) [],
          SApp (F_Field Fn_new_random) [],
          SVar client 0 (on_hs HandshakeType.ClientHello) None,
          SApp (F_Field Fn_cipher_suite13_aes_128_gcm_sha256) [],
          SApp (F_Field Fn_compression) [],
          SApp (F_Ext Fn_server_extensions_append) [
            SApp (F_Ext Fn_server_extensions_append) [
              SApp (F_Ext Fn_server_extensions_new) [],
              SApp (F_Ext2 Fn_key_share_deterministic_server_extension) [SRef curve]],
            SApp (F_Ext2 Fn_supported_versions13_server_extension) []]]) (\<lambda>server_hello.
     build_let B
       (SApp (F_Util Fn_append_transcript) [
          SApp (F_Util Fn_append_transcript) [
            SApp (F_Util Fn_new_transcript) [],
            SVar client 0 (on_hs HandshakeType.ClientHello) None],
          SRef server_hello]) (\<lambda>server_hello_transcript.
     build_let B (SApp (F_Msg Fn_encrypted_extensions) [SApp (F_Ext Fn_server_extensions_new) []]) (\<lambda>encrypted_extensions.
     build_let B
       (SApp (F_Msg Fn_certificate13) [
          SApp (F_Constant Fn_empty_bytes_vec) [],
          SApp (F_Cert Fn_append_certificate_entry) [
            SApp (F_Cert Fn_certificate_entry) [SApp (F_Cert Fn_alice_cert) []],
            SApp (F_Cert Fn_empty_certificate_chain) []]]) (\<lambda>certificate.
     build_let B (SApp (F_Util Fn_append_transcript) [SRef server_hello_transcript, SRef encrypted_extensions]) (\<lambda>encrypted_extensions_transcript.
     build_let B (SApp (F_Util Fn_append_transcript) [SRef encrypted_extensions_transcript, SRef certificate]) (\<lambda>certificate_transcript.
     build_let B
       (SApp (F_Msg Fn_certificate_verify) [
          SApp (F_Cert Fn_rsa_pss_signature_algorithm) [],
          SApp (F_Cert Fn_rsa_sign_server) [
            SRef certificate_transcript,
            SApp (F_Cert Fn_alice_key) [],
            SApp (F_Cert Fn_rsa_pss_signature_algorithm) []]]) (\<lambda>certificate_verify.
     build_let B (SApp (F_Util Fn_append_transcript) [SRef certificate_transcript, SRef certificate_verify]) (\<lambda>certificate_verify_transcript.
     build_let B
       (SApp (F_Msg Fn_finished) [
          SApp (F_Field Fn_verify_data_server) [
            SRef certificate_verify_transcript,
            SRef server_hello_transcript,
            SApp (F_Field Fn_get_client_key_share) [SVar client 0 None None, SRef curve],
            SRef curve,
            SApp (F_Util Fn_no_psk) []]]) (\<lambda>server_finished.
     build_bind
       (make_trace B []
          [AgentDescriptor_default\<lparr>ad_name := client, ad_tls_version := V1_3, ad_typ := AgentType.Client\<rparr>]
          [OUT client,
           MOVE client server_hello,
           IN client
             (SApp (F_Util Fn_encrypt_handshake) [
                SRef encrypted_extensions,
                SRef server_hello_transcript,
                SApp (F_Field Fn_get_client_key_share) [SVar client 0 None None, SRef curve],
                SApp (F_Util Fn_no_psk) [],
                SRef curve,
                SApp (F_Constant Fn_false) [],
                SApp (F_Constant Fn_seq_0) []]),
           IN client
             (SApp (F_Util Fn_encrypt_handshake) [
                SRef certificate,
                SRef server_hello_transcript,
                SApp (F_Field Fn_get_client_key_share) [SVar client 0 None None, SRef curve],
                SApp (F_Util Fn_no_psk) [],
                SRef curve,
                SApp (F_Constant Fn_false) [],
                SApp (F_Constant Fn_seq_1) []]),
           IN client
             (SApp (F_Util Fn_encrypt_handshake) [
                SRef certificate_verify,
                SRef server_hello_transcript,
                SApp (F_Field Fn_get_client_key_share) [SVar client 0 None None, SRef curve],
                SApp (F_Util Fn_no_psk) [],
                SRef curve,
                SApp (F_Constant Fn_false) [],
                SApp (F_Constant Fn_seq_2) []]),
           IN client
             (SApp (F_Util Fn_encrypt_handshake) [
                SRef server_finished,
                SRef server_hello_transcript,
                SApp (F_Field Fn_get_client_key_share) [SVar client 0 None None, SRef curve],
                SApp (F_Util Fn_no_psk) [],
                SRef curve,
                SApp (F_Constant Fn_false) [],
                SApp (F_Constant Fn_seq_3) []])]) (\<lambda>trace.
     build_return trace)))))))))))"

definition seed_client_attacker_auth :: "('c, 'd, 'r) builder \<Rightarrow> AgentName \<Rightarrow> ('r, 'd tls_trace) build" where
  "seed_client_attacker_auth B server =
     build_let B
       (SApp (F_Msg Fn_client_hello) [
          SApp (F_Field Fn_protocol_version12) [],
          SApp (F_Field Fn_new_random) [],
          SApp (F_Field Fn_new_session_id) [],
          SApp (F_Field Fn_append_cipher_suite) [
            SApp (F_Field Fn_new_cipher_suites) [],
            SApp (F_Field Fn_cipher_suite13_aes_128_gcm_sha256) []],
          SApp (F_Field Fn_compressions) [],
          SApp (F_Ext Fn_client_extensions_append) [
            SApp (F_Ext Fn_client_extensions_append) [
              SApp (F_Ext Fn_client_extensions_append) [
                SApp (F_Ext Fn_client_extensions_append) [
                  SApp (F_Ext Fn_client_extensions_new) [],
                  SApp (F_Ext Fn_support_group_extension) [SApp (F_Util Fn_named_group_secp384r1) []]],
                SApp (F_Ext Fn_signature_algorithm_extension) []],
              SApp (F_Ext2 Fn_key_share_deterministic_extension) [SApp (F_Util Fn_named_group_secp384r1) []]],
            SApp (F_Ext2 Fn_supported_versions13_extension) []]]) (\<lambda>client_hello.
     build_let B
       (SApp (F_Util Fn_decrypt_handshake) [
          SVar server 1 (Some TlsQueryMatcher.ApplicationData) None,
          SApp (F_Trans Fn_server_hello_transcript) [SVar server 0 None None],
          SApp (F_Field Fn_get_server_key_share) [SVar server 0 None None],
          SApp (F_Util Fn_no_psk) [],
          SApp (F_Util Fn_named_group_secp384r1) [],
          SApp (F_Constant Fn_true) [],
          SApp (F_Constant Fn_seq_1) []]) (\<lambda>certificate_request_message.
     build_let B
       (SApp (F_Msg Fn_certificate13) [
          SApp (F_Cert Fn_get_context) [SRef certificate_request_message],
          SApp (F_Cert Fn_append_certificate_entry) [
            SApp (F_Cert Fn_certificate_entry) [SApp (F_Cert Fn_bob_cert) []],
            SApp (F_Cert Fn_empty_certificate_chain) []]]) (\<lambda>certificate.
     build_let B
       (SApp (F_Msg Fn_certificate_verify) [
          SApp (F_Cert Fn_rsa_pss_signature_algorithm) [],
          SApp (F_Cert Fn_rsa_sign_client) [
            SApp (F_Trans Fn_certificate_transcript) [SVar server 0 None None],
            SApp (F_Cert Fn_bob_key) [],
            SApp (F_Cert Fn_rsa_pss_signature_algorithm) []]]) (\<lambda>certificate_verify.
     build_let B
       (SApp (F_Msg Fn_finished) [
          SApp (F_Field Fn_verify_data) [
            SApp (F_Trans Fn_server_finished_transcript) [SVar server 0 None None],
            SApp (F_Trans Fn_server_hello_transcript) [SVar server 0 None None],
            SApp (F_Field Fn_get_server_key_share) [SVar server 0 None None],
            SApp (F_Util Fn_no_psk) [],
            SApp (F_Util Fn_named_group_secp384r1) []]]) (\<lambda>client_finished.
     build_bind
       (make_trace B []
          [AgentDescriptor_default\<lparr>ad_name := server, ad_tls_version := V1_3, ad_typ := AgentType.Server, ad_client_authentication := True\<rparr>]
          [IN server (SRef client_hello),
           IN server
             (SApp (F_Util Fn_encrypt_handshake) [
                SRef certificate,
                SApp (F_Trans Fn_server_hello_transcript) [SVar server 0 None None],
                SApp (F_Field Fn_get_server_key_share) [SVar server 0 None None],
                SApp (F_Util Fn_no_psk) [],
                SApp (F_Util Fn_named_group_secp384r1) [],
                SApp (F_Constant Fn_true) [],
                SApp (F_Constant Fn_seq_0) []]),
           IN server
             (SApp (F_Util Fn_encrypt_handshake) [
                SRef certificate_verify,
                SApp (F_Trans Fn_server_hello_transcript) [SVar server 0 None None],
                SApp (F_Field Fn_get_server_key_share) [SVar server 0 None None],
                SApp (F_Util Fn_no_psk) [],
                SApp (F_Util Fn_named_group_secp384r1) [],
                SApp (F_Constant Fn_true) [],
                SApp (F_Constant Fn_seq_1) []]),
           IN server
             (SApp (F_Util Fn_encrypt_handshake) [
                SRef client_finished,
                SApp (F_Trans Fn_server_hello_transcript) [SVar server 0 None None],
                SApp (F_Field Fn_get_server_key_share) [SVar server 0 None None],
                SApp (F_Util Fn_no_psk) [],
                SApp (F_Util Fn_named_group_secp384r1) [],
                SApp (F_Constant Fn_true) [],
                SApp (F_Constant Fn_seq_2) []])]) (\<lambda>trace.
     build_return trace))))))"

definition seed_client_attacker :: "('c, 'd, 'r) builder \<Rightarrow> AgentName \<Rightarrow> ('r, 'd tls_trace) build" where
  "seed_client_attacker B server =
     build_let B
       (SApp (F_Msg Fn_client_hello) [
          SApp (F_Field Fn_protocol_version12) [],
          SApp (F_Field Fn_new_random) [],
          SApp (F_Field Fn_new_session_id) [],
          SApp (F_Field Fn_append_cipher_suite) [
            SApp (F_Field Fn_new_cipher_suites) [],
            SApp (F_Field Fn_cipher_suite13_aes_128_gcm_sha256) []],
          SApp (F_Field Fn_compressions) [],
          SApp (F_Ext Fn_client_extensions_append) [
            SApp (F_Ext Fn_client_extensions_append) [
              SApp (F_Ext Fn_client_extensions_append) [
                SApp (F_Ext Fn_client_extensions_append) [
                  SApp (F_Ext Fn_client_extensions_new) [],
                  SApp (F_Ext Fn_support_group_extension) [SApp (F_Util Fn_named_group_secp384r1) []]],
                SApp (F_Ext Fn_signature_algorithm_extension) []],
              SApp (F_Ext2 Fn_key_share_deterministic_extension) [SApp (F_Util Fn_named_group_secp384r1) []]],
            SApp (F_Ext2 Fn_supported_versions13_extension) []]]) (\<lambda>client_hello.
     build_let B
       (SApp (F_Msg Fn_finished) [
          SApp (F_Field Fn_verify_data) [
            SApp (F_Trans Fn_server_finished_transcript) [SVar server 0 None None],
            SApp (F_Trans Fn_server_hello_transcript) [SVar server 0 None None],
            SApp (F_Field Fn_get_server_key_share) [SVar server 0 None None],
            SApp (F_Util Fn_no_psk) [],
            SApp (F_Util Fn_named_group_secp384r1) []]]) (\<lambda>client_finished.
     build_bind
       (make_trace B []
          [new_server server V1_3]
          [IN server (SRef client_hello),
           IN server
             (SApp (F_Util Fn_encrypt_handshake) [
                SRef client_finished,
                SApp (F_Trans Fn_server_hello_transcript) [SVar server 0 None None],
                SApp (F_Field Fn_get_server_key_share) [SVar server 0 None None],
                SApp (F_Util Fn_no_psk) [],
                SApp (F_Util Fn_named_group_secp384r1) [],
                SApp (F_Constant Fn_true) [],
                SApp (F_Constant Fn_seq_0) []]),
           OUT server]) (\<lambda>trace.
     build_return trace)))"

definition seed_client_attacker12_terms :: "('c, 'd, 'r) builder \<Rightarrow> AgentName \<Rightarrow> ('r, 'd tls_trace \<times> 'd tls_term) build" where
  "seed_client_attacker12_terms B server =
     build_let B
       (SApp (F_Msg Fn_client_hello) [
          SApp (F_Field Fn_protocol_version12) [],
          SApp (F_Field Fn_new_random) [],
          SApp (F_Field Fn_new_session_id) [],
          SApp (F_Field Fn_append_cipher_suite) [
            SApp (F_Field Fn_new_cipher_suites) [],
            SApp (F_Field Fn_cipher_suite12) []],
          SApp (F_Field Fn_compressions) [],
          SApp (F_Ext Fn_client_extensions_append) [
            SApp (F_Ext Fn_client_extensions_append) [
              SApp (F_Ext Fn_client_extensions_append) [
                SApp (F_Ext Fn_client_extensions_append) [
                  SApp (F_Ext Fn_client_extensions_append) [
                    SApp (F_Ext Fn_client_extensions_append) [
                      SApp (F_Ext Fn_client_extensions_new) [],
                      SApp (F_Ext Fn_support_group_extension) [SApp (F_Util Fn_named_group_secp384r1) []]],
                    SApp (F_Ext Fn_signature_algorithm_extension) []],
                  SApp (F_Ext Fn_ec_point_formats_extension) []],
                SApp (F_Ext Fn_signed_certificate_timestamp_extension) []],
              SApp (F_Ext2 Fn_renegotiation_info_extension) [SApp (F_Constant Fn_empty_bytes_vec) []]],
            SApp (F_Ext2 Fn_signature_algorithm_cert_extension) []]]) (\<lambda>client_hello.
     build_let B
       (SApp (F_Util Fn_append_transcript) [
          SApp (F_Util Fn_append_transcript) [SApp (F_Util Fn_new_transcript12) [], SRef client_hello],
          SVar server 0 (on_hs HandshakeType.ServerHello) None]) (\<lambda>server_hello_transcript.
     build_let B
       (SApp (F_Util Fn_append_transcript) [
          SRef server_hello_transcript,
          SVar server 0 (on_hs HandshakeType.Certificate) None]) (\<lambda>certificate_transcript.
     build_let B
       (SApp (F_Util Fn_append_transcript) [
          SRef certificate_transcript,
          SVar server 0 (on_hs HandshakeType.ServerKeyExchange) None]) (\<lambda>server_key_exchange_transcript.
     build_let B
       (SApp (F_Util Fn_append_transcript) [
          SRef server_key_exchange_transcript,
          SVar server 0 (on_hs HandshakeType.ServerHelloDone) None]) (\<lambda>server_hello_done_transcript.
     build_let B
       (SApp (F_Msg Fn_client_key_exchange) [
          SApp (F_Util Fn_encode_ec_pubkey12) [SApp (F_Util Fn_new_pubkey12) [SApp (F_Util Fn_named_group_secp384r1) []]]]) (\<lambda>client_key_exchange.
     build_let B (SApp (F_Util Fn_append_transcript) [SRef server_hello_done_transcript, SRef client_key_exchange]) (\<lambda>client_key_exchange_transcript.
     build_let B
       (SApp (F_Field Fn_sign_transcript) [
          SVar server 0 None None,
          SApp (F_Util Fn_decode_ecdh_pubkey) [SVar server 0 (on_hs HandshakeType.ServerKeyExchange) (Some T_Bytes)],
          SRef client_key_exchange_transcript,
          SApp (F_Util Fn_named_group_secp384r1) []]) (\<lambda>client_verify_data.
     build_bind
       (make_trace B []
          [new_server server V1_2]
          [MOVE server client_hello,
           MOVE server client_key_exchange,
           IN server (SApp (F_Msg Fn_change_cipher_spec) []),
           IN server
             (SApp (F_Util Fn_encrypt12) [
                SApp (F_Msg Fn_finished) [SRef client_verify_data],
                SVar server 0 None None,
                SApp (F_Util Fn_decode_ecdh_pubkey) [SVar server 0 (on_hs HandshakeType.ServerKeyExchange) (Some T_Bytes)],
                SApp (F_Util Fn_named_group_secp384r1) [],
                SApp (F_Constant Fn_true) [],
                SApp (F_Constant Fn_seq_0) []])]) (\<lambda>trace.
     build_return (trace, client_verify_data))))))))))"

definition seed_client_attacker12 :: "('c, 'd, 'r) builder \<Rightarrow> AgentName \<Rightarrow> ('r, 'd tls_trace) build" where
  "seed_client_attacker12 B server =
     build_bind (seed_client_attacker12_terms B server) (\<lambda>r. build_return (fst r))"

definition seed_session_resumption_dhe :: "('c, 'd, 'r) builder \<Rightarrow> AgentName \<Rightarrow> AgentName \<Rightarrow> ('r, 'd tls_trace) build" where
  "seed_session_resumption_dhe B initial_server server =
     build_bind (seed_client_attacker B initial_server) (\<lambda>initial_handshake.
     build_let B
       (SApp (F_Util Fn_decrypt_application) [
          SVar initial_server 4 (Some TlsQueryMatcher.ApplicationData) None,
          SApp (F_Trans Fn_server_hello_transcript) [SVar initial_server 0 None None],
          SApp (F_Trans Fn_server_finished_transcript) [SVar initial_server 0 None None],
          SApp (F_Field Fn_get_server_key_share) [SVar initial_server 0 None None],
          SApp (F_Util Fn_no_psk) [],
          SApp (F_Util Fn_named_group_secp384r1) [],
          SApp (F_Constant Fn_true) [],
          SApp (F_Constant Fn_seq_0) []]) (\<lambda>new_ticket_message.
     build_let B
       (SApp (F_Msg Fn_client_hello) [
          SApp (F_Field Fn_protocol_version12) [],
          SApp (F_Field Fn_new_random) [],
          SApp (F_Field Fn_new_session_id) [],
          SApp (F_Field Fn_append_cipher_suite) [
            SApp (F_Field Fn_new_cipher_suites) [],
            SApp (F_Field Fn_cipher_suite13_aes_128_gcm_sha256) []],
          SApp (F_Field Fn_compressions) [],
          SApp (F_Ext Fn_client_extensions_append) [
            SApp (F_Ext Fn_client_extensions_append) [
              SApp (F_Ext Fn_client_extensions_append) [
                SApp (F_Ext Fn_client_extensions_append) [
                  SApp (F_Ext Fn_client_extensions_append) [
                    SApp (F_Ext Fn_client_extensions_append) [
                      SApp (F_Ext Fn_client_extensions_new) [],
                      SApp (F_Ext Fn_support_group_extension) [SApp (F_Util Fn_named_group_secp384r1) []]],
                    SApp (F_Ext Fn_signature_algorithm_extension) []],
                  SApp (F_Ext2 Fn_supported_versions13_extension) []],
                SApp (F_Ext2 Fn_key_share_deterministic_extension) [SApp (F_Util Fn_named_group_secp384r1) []]],
              SApp (F_Ext2 Fn_psk_exchange_mode_dhe_ke_extension) []],
            SApp (F_Ext2 Fn_preshared_keys_extension_empty_binder) [SRef new_ticket_message]]]) (\<lambda>client_hello.
     build_let B
       (SApp (F_Util Fn_derive_psk) [
          SApp (F_Trans Fn_server_hello_transcript) [SVar initial_server 0 None None],
          SApp (F_Trans Fn_server_finished_transcript) [SVar initial_server 0 None None],
          SApp (F_Trans Fn_client_finished_transcript) [SVar initial_server 0 None None],
          SApp (F_Field Fn_get_server_key_share) [SVar initial_server 0 (on_hs HandshakeType.ServerHello) None],
          SApp (F_Util Fn_get_ticket_nonce) [SRef new_ticket_message],
          SApp (F_Util Fn_named_group_secp384r1) []]) (\<lambda>psk.
     build_let B (SApp (F_Util Fn_derive_binder) [SRef client_hello, SRef psk]) (\<lambda>binder.
     build_let B (SApp (F_Util Fn_fill_binder) [SRef client_hello, SRef binder]) (\<lambda>full_client_hello.
     build_let B
       (SApp (F_Msg Fn_finished) [
          SApp (F_Field Fn_verify_data) [
            SApp (F_Trans Fn_server_finished_transcript) [SVar server 0 None None],
            SApp (F_Trans Fn_server_hello_transcript) [SVar server 0 None None],
            SApp (F_Field Fn_get_server_key_share) [SVar server 0 (on_hs HandshakeType.ServerHello) None],
            SApp (F_Util Fn_psk) [SRef psk],
            SApp (F_Util Fn_named_group_secp384r1) []]]) (\<lambda>resumption_client_finished.
     build_bind
       (make_trace B [initial_handshake]
          [new_server server V1_3]
          [IN server (SRef full_client_hello),
           IN server
             (SApp (F_Util Fn_encrypt_handshake) [
                SRef resumption_client_finished,
                SApp (F_Trans Fn_server_hello_transcript) [SVar server 0 None None],
                SApp (F_Field Fn_get_server_key_share) [SVar server 0 (on_hs HandshakeType.ServerHello) None],
                SApp (F_Util Fn_psk) [SRef psk],
                SApp (F_Util Fn_named_group_secp384r1) [],
                SApp (F_Constant Fn_true) [],
                SApp (F_Constant Fn_seq_0) []])]) (\<lambda>trace.
     build_return trace))))))))"

definition seed_session_resumption_ke :: "('c, 'd, 'r) builder \<Rightarrow> AgentName \<Rightarrow> AgentName \<Rightarrow> ('r, 'd tls_trace) build" where
  "seed_session_resumption_ke B initial_server server =
     build_bind (seed_client_attacker B initial_server) (\<lambda>initial_handshake.
     build_let B
       (SApp (F_Util Fn_decrypt_application) [
          SVar initial_server 4 (Some TlsQueryMatcher.ApplicationData) None,
          SApp (F_Trans Fn_server_hello_transcript) [SVar initial_server 0 None None],
          SApp (F_Trans Fn_server_finished_transcript) [SVar initial_server 0 None None],
          SApp (F_Field Fn_get_server_key_share) [SVar initial_server 0 None None],
          SApp (F_Util Fn_no_psk) [],
          SApp (F_Util Fn_named_group_secp384r1) [],
          SApp (F_Constant Fn_true) [],
          SApp (F_Constant Fn_seq_0) []]) (\<lambda>new_ticket_message.
     build_let B
       (SApp (F_Msg Fn_client_hello) [
          SApp (F_Field Fn_protocol_version12) [],
          SApp (F_Field Fn_new_random) [],
          SApp (F_Field Fn_new_session_id) [],
          SApp (F_Field Fn_append_cipher_suite) [
            SApp (F_Field Fn_new_cipher_suites) [],
            SApp (F_Field Fn_cipher_suite13_aes_128_gcm_sha256) []],
          SApp (F_Field Fn_compressions) [],
          SApp (F_Ext Fn_client_extensions_append) [
            SApp (F_Ext Fn_client_extensions_append) [
              SApp (F_Ext Fn_client_extensions_append) [
                SApp (F_Ext Fn_client_extensions_append) [
                  SApp (F_Ext Fn_client_extensions_append) [
                    SApp (F_Ext Fn_client_extensions_append) [
                      SApp (F_Ext Fn_client_extensions_new) [],
                      SApp (F_Ext Fn_support_group_extension) [SApp (F_Util Fn_named_group_secp384r1) []]],
                    SApp (F_Ext Fn_signature_algorithm_extension) []],
                  SApp (F_Ext2 Fn_supported_versions13_extension) []],
                SApp (F_Ext2 Fn_key_share_deterministic_extension) [SApp (F_Util Fn_named_group_secp384r1) []]],
              SApp (F_Ext2 Fn_psk_exchange_mode_ke_extension) []],
            SApp (F_Ext2 Fn_preshared_keys_extension_empty_binder) [SRef new_ticket_message]]]) (\<lambda>client_hello.
     build_let B
       (SApp (F_Util Fn_derive_psk) [
          SApp (F_Trans Fn_server_hello_transcript) [SVar initial_server 0 None None],
          SApp (F_Trans Fn_server_finished_transcript) [SVar initial_server 0 None None],
          SApp (F_Trans Fn_client_finished_transcript) [SVar initial_server 0 None None],
          SApp (F_Field Fn_get_server_key_share) [SVar initial_server 0 (on_hs HandshakeType.ServerHello) None],
          SApp (F_Util Fn_get_ticket_nonce) [SRef new_ticket_message],
          SApp (F_Util Fn_named_group_secp384r1) []]) (\<lambda>psk.
     build_let B (SApp (F_Util Fn_derive_binder) [SRef client_hello, SRef psk]) (\<lambda>binder.
     build_let B (SApp (F_Util Fn_fill_binder) [SRef client_hello, SRef binder]) (\<lambda>full_client_hello.
     build_let B
       (SApp (F_Msg Fn_finished) [
          SApp (F_Field Fn_verify_data) [
            SApp (F_Trans Fn_server_finished_transcript) [SVar server 0 None None],
            SApp (F_Trans Fn_server_hello_transcript) [SVar server 0 None None],
            SApp (F_Field Fn_no_key_share) [],
            SApp (F_Util Fn_psk) [SRef psk],
            SApp (F_Util Fn_named_group_secp384r1) []]]) (\<lambda>resumption_client_finished.
     build_bind
       (make_trace B [initial_handshake]
          [new_server server V1_3]
          [IN server (SRef full_client_hello),
           IN server
             (SApp (F_Util Fn_encrypt_handshake) [
                SRef resumption_client_finished,
                SApp (F_Trans Fn_server_hello_transcript) [SVar server 0 None None],
                SApp (F_Field Fn_no_key_share) [],
                SApp (F_Util Fn_psk) [SRef psk],
                SApp (F_Util Fn_named_group_secp384r1) [],
                SApp (F_Constant Fn_true) [],
                SApp (F_Constant Fn_seq_0) []])]) (\<lambda>trace.
     build_return trace))))))))"

definition seed_client_attacker_full_terms :: "('c, 'd, 'r) builder \<Rightarrow> AgentName \<Rightarrow> ('r, 'd tls_trace \<times> 'd tls_term \<times> 'd tls_term \<times> 'd tls_term) build" where
  "seed_client_attacker_full_terms B server =
     build_let B
       (SApp (F_Msg Fn_client_hello) [
          SApp (F_Field Fn_protocol_version12) [],
          SApp (F_Field Fn_new_random) [],
          SApp (F_Field Fn_new_session_id) [],
          SApp (F_Field Fn_append_cipher_suite) [
            SApp (F_Field Fn_new_cipher_suites) [],
            SApp (F_Field Fn_cipher_suite13_aes_128_gcm_sha256) []],
          SApp (F_Field Fn_compressions) [],
          SApp (F_Ext Fn_client_extensions_append) [
            SApp (F_Ext Fn_client_extensions_append) [
              SApp (F_Ext Fn_client_extensions_append) [
                SApp (F_Ext Fn_client_extensions_append) [
                  SApp (F_Ext Fn_client_extensions_new) [],
                  SApp (F_Ext Fn_support_group_extension) [SApp (F_Util Fn_named_group_secp384r1) []]],
                SApp (F_Ext Fn_signature_algorithm_extension) []],
              SApp (F_Ext2 Fn_key_share_deterministic_extension) [SApp (F_Util Fn_named_group_secp384r1) []]],
            SApp (F_Ext2 Fn_supported_versions13_extension) []]]) (\<lambda>client_hello.
     build_let B
       (SApp (F_Util Fn_append_transcript) [
          SApp (F_Util Fn_append_transcript) [SApp (F_Util Fn_new_transcript) [], SRef client_hello],
          SVar server 0 (on_hs HandshakeType.ServerHello) None]) (\<lambda>server_hello_transcript.
     build_let B
       (SApp (F_Util Fn_decrypt_handshake) [
          SVar server 0 (Some TlsQueryMatcher.ApplicationData) None,
          SRef server_hello_transcript,
          SApp (F_Field Fn_get_server_key_share) [SVar server 0 (on_hs HandshakeType.ServerHello) None],
          SApp (F_Util Fn_no_psk) [],
          SApp (F_Util Fn_named_group_secp384r1) [],
          SApp (F_Constant Fn_true) [],
          SApp (F_Constant Fn_seq_0) []]) (\<lambda>encrypted_extensions.
     build_let B (SApp (F_Util Fn_append_transcript) [SRef server_hello_transcript, SRef encrypted_extensions]) (\<lambda>encrypted_extension_transcript.
     build_let B
       (SApp (F_Util Fn_decrypt_handshake) [
          SVar server 1 (Some TlsQueryMatcher.ApplicationData) None,
          SRef server_hello_transcript,
          SApp (F_Field Fn_get_server_key_share) [SVar server 0 None None],
          SApp (F_Util Fn_no_psk) [],
          SApp (F_Util Fn_named_group_secp384r1) [],
          SApp (F_Constant Fn_true) [],
          SApp (F_Constant Fn_seq_1) []]) (\<lambda>server_certificate.
     build_let B (SApp (F_Util Fn_append_transcript) [SRef encrypted_extension_transcript, SRef server_certificate]) (\<lambda>server_certificate_transcript.
     build_let B
       (SApp (F_Util Fn_decrypt_handshake) [
          SVar server 2 (Some TlsQueryMatcher.ApplicationData) None,
          SRef server_hello_transcript,
          SApp (F_Field Fn_get_server_key_share) [SVar server 0 None None],
          SApp (F_Util Fn_no_psk) [],
          SApp (F_Util Fn_named_group_secp384r1) [],
          SApp (F_Constant Fn_true) [],
          SApp (F_Constant Fn_seq_2) []]) (\<lambda>server_certificate_verify.
     build_let B (SApp (F_Util Fn_append_transcript) [SRef server_certificate_transcript, SRef server_certificate_verify]) (\<lambda>server_certificate_verify_transcript.
     build_let B
       (SApp (F_Util Fn_decrypt_handshake) [
          SVar server 3 (Some TlsQueryMatcher.ApplicationData) None,
          SRef server_hello_transcript,
          SApp (F_Field Fn_get_server_key_share) [SVar server 0 None None],
          SApp (F_Util Fn_no_psk) [],
          SApp (F_Util Fn_named_group_secp384r1) [],
          SApp (F_Constant Fn_true) [],
          SApp (F_Constant Fn_seq_3) []]) (\<lambda>server_finished.
     build_let B (SApp (F_Util Fn_append_transcript) [SRef server_certificate_verify_transcript, SRef server_finished]) (\<lambda>server_finished_transcript.
     build_let B
       (SApp (F_Msg Fn_finished) [
          SApp (F_Field Fn_verify_data) [
            SRef server_finished_transcript,
            SRef server_hello_transcript,
            SApp (F_Field Fn_get_server_key_share) [SVar server 0 None None],
            SApp (F_Util Fn_no_psk) [],
            SApp (F_Util Fn_named_group_secp384r1) []]]) (\<lambda>client_finished.
     build_let B (SApp (F_Util Fn_append_transcript) [SRef server_finished_transcript, SRef client_finished]) (\<lambda>client_finished_transcript.
     build_bind
       (make_trace B []
          [new_server server V1_3]
          [IN server (SRef client_hello),
           OUT server,
           IN server
             (SApp (F_Util Fn_encrypt_handshake) [
                SRef client_finished,
                SRef server_hello_transcript,
                SApp (F_Field Fn_get_server_key_share) [SVar server 0 None None],
                SApp (F_Util Fn_no_psk) [],
                SApp (F_Util Fn_named_group_secp384r1) [],
                SApp (F_Constant Fn_true) [],
                SApp (F_Constant Fn_seq_0) []]),
           OUT server]) (\<lambda>trace.
     build_return (trace, server_hello_transcript, server_finished_transcript, client_finished_transcript))))))))))))))"

definition seed_client_attacker_full :: "('c, 'd, 'r) builder \<Rightarrow> AgentName \<Rightarrow> ('r, 'd tls_trace) build" where
  "seed_client_attacker_full B server =
     build_bind (seed_client_attacker_full_terms B server) (\<lambda>r. build_return (fst r))"

definition seed_session_resumption_dhe_full :: "('c, 'd, 'r) builder \<Rightarrow> AgentName \<Rightarrow> AgentName \<Rightarrow> ('r, 'd tls_trace) build" where
  "seed_session_resumption_dhe_full B initial_server server =
     build_bind (seed_client_attacker_full_terms B initial_server) (\<lambda>(initial_handshake, server_hello_transcript, server_finished_transcript, client_finished_transcript).
     build_let B
       (SApp (F_Util Fn_decrypt_application) [
          SVar initial_server 4 (Some TlsQueryMatcher.ApplicationData) None,
          SRef server_hello_transcript,
          SRef server_finished_transcript,
          SApp (F_Field Fn_get_server_key_share) [SVar initial_server 0 None None],
          SApp (F_Util Fn_no_psk) [],
          SApp (F_Util Fn_named_group_secp384r1) [],
          SApp (F_Constant Fn_true) [],
          SApp (F_Constant Fn_seq_0) []]) (\<lambda>new_ticket_message.
     build_let B
       (SApp (F_Msg Fn_client_hello) [
          SApp (F_Field Fn_protocol_version12) [],
          SApp (F_Field Fn_new_random) [],
          SApp (F_Field Fn_new_session_id) [],
          SApp (F_Field Fn_append_cipher_suite) [
            SApp (F_Field Fn_new_cipher_suites) [],
            SApp (F_Field Fn_cipher_suite13_aes_128_gcm_sha256) []],
          SApp (F_Field Fn_compressions) [],
          SApp (F_Ext Fn_client_extensions_append) [
            SApp (F_Ext Fn_client_extensions_append) [
              SApp (F_Ext Fn_client_extensions_append) [
                SApp (F_Ext Fn_client_extensions_append) [
                  SApp (F_Ext Fn_client_extensions_append) [
                    SApp (F_Ext Fn_client_extensions_append) [
                      SApp (F_Ext Fn_client_extensions_new) [],
                      SApp (F_Ext Fn_support_group_extension) [SApp (F_Util Fn_named_group_secp384r1) []]],
                    SApp (F_Ext Fn_signature_algorithm_extension) []],
                  SApp (F_Ext2 Fn_supported_versions13_extension) []],
                SApp (F_Ext2 Fn_key_share_deterministic_extension) [SApp (F_Util Fn_named_group_secp384r1) []]],
              SApp (F_Ext2 Fn_psk_exchange_mode_dhe_ke_extension) []],
            SApp (F_Ext2 Fn_preshared_keys_extension_empty_binder) [SRef new_ticket_message]]]) (\<lambda>client_hello.
     build_let B
       (SApp (F_Util Fn_derive_psk) [
          SRef server_hello_transcript,
          SRef server_finished_transcript,
          SRef client_finished_transcript,
          SApp (F_Field Fn_get_server_key_share) [SVar initial_server 0 (on_hs HandshakeType.ServerHello) None],
          SApp (F_Util Fn_get_ticket_nonce) [SRef new_ticket_message],
          SApp (F_Util Fn_named_group_secp384r1) []]) (\<lambda>psk.
     build_let B (SApp (F_Util Fn_derive_binder) [SRef client_hello, SRef psk]) (\<lambda>binder.
     build_let B (SApp (F_Util Fn_fill_binder) [SRef client_hello, SRef binder]) (\<lambda>full_client_hello.
     build_let B
       (SApp (F_Util Fn_append_transcript) [
          SApp (F_Util Fn_append_transcript) [SApp (F_Util Fn_new_transcript) [], SRef full_client_hello],
          SVar server 0 (on_hs HandshakeType.ServerHello) None]) (\<lambda>resumption_server_hello_transcript.
     build_let B
       (SApp (F_Util Fn_decrypt_handshake) [
          SVar server 0 (Some TlsQueryMatcher.ApplicationData) None,
          SRef resumption_server_hello_transcript,
          SApp (F_Field Fn_get_server_key_share) [SVar server 0 (on_hs HandshakeType.ServerHello) None],
          SApp (F_Util Fn_psk) [SRef psk],
          SApp (F_Util Fn_named_group_secp384r1) [],
          SApp (F_Constant Fn_true) [],
          SApp (F_Constant Fn_seq_0) []]) (\<lambda>resumption_encrypted_extensions.
     build_let B (SApp (F_Util Fn_append_transcript) [SRef resumption_server_hello_transcript, SRef resumption_encrypted_extensions]) (\<lambda>resumption_encrypted_extension_transcript.
     build_let B
       (SApp (F_Util Fn_decrypt_handshake) [
          SVar server 1 (Some TlsQueryMatcher.ApplicationData) None,
          SRef resumption_server_hello_transcript,
          SApp (F_Field Fn_get_server_key_share) [SVar server 0 (on_hs HandshakeType.ServerHello) None],
          SApp (F_Util Fn_psk) [SRef psk],
          SApp (F_Util Fn_named_group_secp384r1) [],
          SApp (F_Constant Fn_true) [],
          SApp (F_Constant Fn_seq_1) []]) (\<lambda>resumption_server_finished.
     build_let B
       (SApp (F_Util Fn_append_transcript) [
          SRef resumption_encrypted_extension_transcript,
          SRef resumption_server_finished]) (\<lambda>resumption_server_finished_transcript.
     build_let B
       (SApp (F_Msg Fn_finished) [
          SApp (F_Field Fn_verify_data) [
            SRef resumption_server_finished_transcript,
            SRef resumption_server_hello_transcript,
            SApp (F_Field Fn_get_server_key_share) [SVar server 0 (on_hs HandshakeType.ServerHello) None],
            SApp (F_Util Fn_psk) [SRef psk],
            SApp (F_Util Fn_named_group_secp384r1) []]]) (\<lambda>resumption_client_finished.
     build_bind
       (make_trace B [initial_handshake]
          [new_server server V1_3]
          [IN server (SRef full_client_hello),
           IN server
             (SApp (F_Util Fn_encrypt_handshake) [
                SRef resumption_client_finished,
                SRef resumption_server_hello_transcript,
                SApp (F_Field Fn_get_server_key_share) [SVar server 0 (on_hs HandshakeType.ServerHello) None],
                SApp (F_Util Fn_psk) [SRef psk],
                SApp (F_Util Fn_named_group_secp384r1) [],
                SApp (F_Constant Fn_true) [],
                SApp (F_Constant Fn_seq_0) []])]) (\<lambda>trace.
     build_return trace)))))))))))))"

subsection \<open>They build\<close>

lemma seed_successful_client_auth_builds:
  "builds (seed_trace B {client, server} {client, server} 11) (seed_successful_client_auth B client server)"
  unfolding seed_successful_client_auth_def build_bind_return
  by (rule builds_trace) (auto dest: seed_traceD)

lemma seed_successful_builds: "builds (seed_trace B {client, server} {client, server} 8) (seed_successful B client server)"
  unfolding seed_successful_def build_bind_return
  by (rule builds_trace) (auto dest: seed_traceD)

lemma seed_successful_mitm_builds: "builds (seed_trace B {client, server} {client, server} 8) (seed_successful_mitm B client server)"
  unfolding seed_successful_mitm_def build_bind_return
  by (rule builds_trace) (auto dest: seed_traceD)

lemma seed_successful12_builds: "builds (seed_trace B {client, server} {client, server} 11) (seed_successful12 B client server)"
  unfolding seed_successful12_def build_bind_return
  by (rule builds_trace) (auto dest: seed_traceD)

lemma seed_successful12_with_tickets_builds:
  "builds (seed_trace B {client, server} {client, server} 12) (seed_successful12_with_tickets B client server)"
  unfolding seed_successful12_with_tickets_def build_bind_return
  by (rule builds_bind [OF seed_successful12_builds], rule builds_bind [OF builds_insert], assumption, simp, simp, rule refl,
      rule builds_assign, assumption, simp, simp, simp)

lemma seed_successful_with_ccs_builds:
  "builds (seed_trace B {client, server} {client, server} 10) (seed_successful_with_ccs B client server)"
  unfolding seed_successful_with_ccs_def build_bind_return
  by (rule builds_bind [OF seed_successful_builds], rule builds_bind [OF builds_insert], assumption, simp, simp, rule refl,
      rule builds_insert, assumption, simp, simp, simp)

lemma seed_successful_with_tickets_builds:
  "builds (seed_trace B {client, server} {client, server} (if wolfssl430 (bl_features B) then 12 else 13)) (seed_successful_with_tickets B client server)"
  unfolding seed_successful_with_tickets_def build_bind_return
  by (rule builds_bind [OF seed_successful_with_ccs_builds], rule builds_bind [OF builds_push], assumption, simp, rule refl,
      rule builds_bind [OF builds_push], assumption, simp, rule refl) (auto intro!: builds_return builds_push)

lemma seed_server_attacker_full_builds: "builds (seed_trace B {client} {client} 6) (seed_server_attacker_full B client)"
  unfolding seed_server_attacker_full_def build_bind_return
  by ((rule builds_let [where A = "{client}"], simp)+, rule builds_trace) (auto dest: seed_traceD)

lemma seed_client_attacker_auth_builds: "builds (seed_trace B {server} {server} 4) (seed_client_attacker_auth B server)"
  unfolding seed_client_attacker_auth_def build_bind_return
  by ((rule builds_let [where A = "{server}"], simp)+, rule builds_trace) (auto dest: seed_traceD)

lemma seed_client_attacker_builds: "builds (seed_trace B {server} {server} 3) (seed_client_attacker B server)"
  unfolding seed_client_attacker_def build_bind_return
  by ((rule builds_let [where A = "{server}"], simp)+, rule builds_trace) (auto dest: seed_traceD)

lemma seed_client_attacker12_terms_builds:
  "builds (\<lambda>(trace, client_verify_data).
     seed_trace B {server} {server} 4 trace \<and> typed_term B {server} T_Bytes client_verify_data)
     (seed_client_attacker12_terms B server)"
  unfolding seed_client_attacker12_terms_def build_bind_return
  by ((rule builds_let [where A = "{server}"], simp)+, rule builds_bind [OF builds_trace [where n = 4]]) (auto intro: builds_return)

lemma seed_client_attacker12_terms_mono:
  "server \<in> A \<Longrightarrow> builds (\<lambda>(trace, client_verify_data).
     seed_trace B {server} {server} 4 trace \<and> typed_term B A T_Bytes client_verify_data)
     (seed_client_attacker12_terms B server)"
  by (rule builds_mono [OF seed_client_attacker12_terms_builds]) (auto intro: typed_term_mono)

lemma seed_client_attacker12_builds: "builds (seed_trace B {server} {server} 4) (seed_client_attacker12 B server)"
  unfolding seed_client_attacker12_def
  by (rule builds_bind [OF seed_client_attacker12_terms_builds]) (auto intro: builds_return)

lemma seed_session_resumption_dhe_builds:
  "builds (seed_trace B {server} {server, initial_server} 2) (seed_session_resumption_dhe B initial_server server)"
  unfolding seed_session_resumption_dhe_def build_bind_return
  by (rule builds_bind [OF seed_client_attacker_builds], (rule builds_let [where A = "{server, initial_server}"], simp)+,
      rule builds_trace) (auto dest: seed_traceD)

lemma seed_session_resumption_ke_builds:
  "builds (seed_trace B {server} {server, initial_server} 2) (seed_session_resumption_ke B initial_server server)"
  unfolding seed_session_resumption_ke_def build_bind_return
  by (rule builds_bind [OF seed_client_attacker_builds], (rule builds_let [where A = "{server, initial_server}"], simp)+,
      rule builds_trace) (auto dest: seed_traceD)

lemma seed_client_attacker_full_terms_builds:
  "builds (\<lambda>(trace, server_hello_transcript, server_finished_transcript, client_finished_transcript).
     seed_trace B {server} {server} 4 trace \<and>
     typed_term B {server} T_HandshakeHash server_hello_transcript \<and> typed_term B {server} T_HandshakeHash server_finished_transcript \<and> typed_term B {server} T_HandshakeHash client_finished_transcript)
     (seed_client_attacker_full_terms B server)"
  unfolding seed_client_attacker_full_terms_def build_bind_return
  by ((rule builds_let [where A = "{server}"], simp)+, rule builds_bind [OF builds_trace [where n = 4]]) (auto intro: builds_return)

lemma seed_client_attacker_full_terms_mono:
  "server \<in> A \<Longrightarrow> builds (\<lambda>(trace, server_hello_transcript, server_finished_transcript, client_finished_transcript).
     seed_trace B {server} {server} 4 trace \<and>
     typed_term B A T_HandshakeHash server_hello_transcript \<and> typed_term B A T_HandshakeHash server_finished_transcript \<and> typed_term B A T_HandshakeHash client_finished_transcript)
     (seed_client_attacker_full_terms B server)"
  by (rule builds_mono [OF seed_client_attacker_full_terms_builds]) (auto intro: typed_term_mono)

lemma seed_client_attacker_full_builds: "builds (seed_trace B {server} {server} 4) (seed_client_attacker_full B server)"
  unfolding seed_client_attacker_full_def
  by (rule builds_bind [OF seed_client_attacker_full_terms_builds]) (auto intro: builds_return)

lemma seed_session_resumption_dhe_full_builds:
  "builds (seed_trace B {server} {server, initial_server} 2) (seed_session_resumption_dhe_full B initial_server server)"
  unfolding seed_session_resumption_dhe_full_def build_bind_return
  by (rule builds_bind [OF seed_client_attacker_full_terms_mono [where A = "{server, initial_server}"]], simp, clarify,
      (rule builds_let [where A = "{server, initial_server}"], simp)+, rule builds_trace) (auto dest: seed_traceD)

subsection \<open>The corpus\<close>

text \<open>\<open>build_trace\<close> of a seed for two agents, and for one.\<close>

definition build_trace_pair :: "(AgentName \<Rightarrow> AgentName \<Rightarrow> ('r, 'd tls_trace) build) \<Rightarrow> ('r, 'd tls_trace) build" where
  "build_trace_pair seed =
     (let agent_a = AgentName_first
      in case AgentName_next agent_a of None \<Rightarrow> build_panic | Some agent_b \<Rightarrow> seed agent_a agent_b)"

definition build_trace_single :: "(AgentName \<Rightarrow> ('r, 'd tls_trace) build) \<Rightarrow> ('r, 'd tls_trace) build" where
  "build_trace_single seed = seed AgentName_first"

definition execute_trace ::
  "(TlsQueryMatcher, 'd tls_value, 'p, 'msg, 'o) Protocol \<Rightarrow> ('r, 'd tls_trace) build
     \<Rightarrow> ('r, (TlsQueryMatcher, 'd tls_value, 'p) TraceContext option option) build" where
  "execute_trace PB b = build_bind b (\<lambda>trace. build_return (execute_deterministic PB trace))"

text \<open>The macro \<open>corpus!\<close>: a seed is pushed when its \<open>cfg\<close> holds, with the name of its function.\<close>

primrec corpus ::
  "('c, 'd, 'r) builder \<Rightarrow> (bool \<times> ('r, 'd tls_trace) build \<times> string) list \<Rightarrow> ('r, ('d tls_trace \<times> string) list) build" where
  "corpus B [] = build_return []"
| "corpus B (x # xs) =
     (case x of (enabled, seed, name) \<Rightarrow>
        if enabled then
          build_bind seed (\<lambda>trace. build_bind (corpus B xs) (\<lambda>rest. build_return ((trace, bl_type_name B name) # rest)))
        else corpus B xs)"

definition create_corpus :: "('c, 'd, 'r) builder \<Rightarrow> ('r, ('d tls_trace \<times> string) list) build" where
  "create_corpus B =
     (let F = bl_features B in
      corpus B
        [(tls13 F, build_trace_pair (seed_successful B), ''seed_successful''),
         (tls13 F, build_trace_pair (seed_successful_with_ccs B), ''seed_successful_with_ccs''),
         (tls13 F, build_trace_pair (seed_successful_with_tickets B), ''seed_successful_with_tickets''),
         (\<not> tls12_session_resumption F, build_trace_pair (seed_successful12 B), ''seed_successful12''),
         (tls12_session_resumption F, build_trace_pair (seed_successful12_with_tickets B), ''seed_successful12_with_tickets''),
         (tls13 F, build_trace_single (seed_client_attacker B), ''seed_client_attacker''),
         (tls13 F \<and> client_authentication_transcript_extraction F, build_trace_single (seed_client_attacker_auth B),
          ''seed_client_attacker_auth''),
         (tls13 F, build_trace_single (seed_client_attacker12 B), ''seed_client_attacker12''),
         (tls13 F \<and> tls13_session_resumption F, build_trace_pair (seed_session_resumption_dhe B), ''seed_session_resumption_dhe''),
         (tls13 F \<and> tls13_session_resumption F, build_trace_pair (seed_session_resumption_ke B), ''seed_session_resumption_ke''),
         (tls13 F, build_trace_single (seed_server_attacker_full B), ''seed_server_attacker_full'')])"

lemma builds_pair: "(\<And>a b. builds P (seed a b)) \<Longrightarrow> builds P (build_trace_pair seed)"
  by (simp add: build_trace_pair_def AgentName_first_def)

lemma builds_single: "(\<And>a. builds P (seed a)) \<Longrightarrow> builds P (build_trace_single seed)"
  by (simp add: build_trace_single_def)

lemma builds_corpus:
  "list_all (\<lambda>(enabled, seed, name). builds P seed) xs \<Longrightarrow> builds (list_all (\<lambda>(t, name). P t)) (corpus B xs)"
proof (induction xs)
  case (Cons x xs)
  then show ?case by (cases x) (auto intro!: builds_bind [of P] builds_bind [OF Cons.IH] builds_return)
qed (simp add: builds_return)

lemmas corpus_seed_builds =
  seed_successful_builds seed_successful_with_ccs_builds seed_successful_with_tickets_builds seed_successful12_builds
  seed_successful12_with_tickets_builds seed_client_attacker_builds seed_client_attacker_auth_builds seed_client_attacker12_builds
  seed_session_resumption_dhe_builds seed_session_resumption_ke_builds seed_server_attacker_full_builds

lemmas corpus_seed_runnable = corpus_seed_builds [THEN builds_mono, OF seed_traceD [THEN conjunct1]]

lemma create_corpus_runnable: "builds (list_all (\<lambda>(t, name). runnable B t)) (create_corpus B)"
  unfolding create_corpus_def Let_def
  by (rule builds_corpus) (simp add: builds_pair builds_single corpus_seed_runnable)

end
