(* ===== verification/Tls_Seed_Results.thy ===== *)
theory Tls_Seed_Results
  imports Tls_Vulnerabilities Tls_Fn_Results
begin

text \<open>
  The properties of the TLS signature, the execution of TLS traces, the corpus and the attack traces.

  \<open>seval\<close> is the meaning of a \<open>term!\<close> without the ids that building it draws; the evaluation of the term that the macro builds is that
  meaning. With it, what an attack trace sends is computed from its source.
\<close>

subsection \<open>A concrete environment\<close>

definition all_types :: "tls_type list" where
  "all_types =
     [T_Bool, T_U64, T_Bytes, T_OptBytes, T_BytesVec, T_Message, T_OpaqueMessage, T_HandshakeHash, T_ProtocolVersion, T_SessionID,
      T_Random, T_Compression, T_Compressions, T_CipherSuite, T_CipherSuites, T_ClientExtension, T_ClientExtensions, T_ServerExtension,
      T_ServerExtensions, T_NamedGroup, T_SignatureScheme, T_Certificate, T_Certificates, T_HelloRetryExtension, T_HelloRetryExtensions,
      T_CertReqExtension, T_CertReqExtensions, T_CertificateExtension, T_CertificateExtensions, T_NewSessionTicketExtension,
      T_NewSessionTicketExtensions, T_CertificateEntry, T_CertificateEntries, T_PresharedKeyIdentity, T_PresharedKeyIdentities,
      T_AlertDescription, T_AlertLevel, T_HandshakeType, T_ECDHE, T_PayloadU16, T_Claim ty_ClientHello, T_Claim ty_ServerHello,
      T_Claim ty_Certificate, T_Claim ty_CertificateVerify, T_Claim ty_Finished, T_Claim ty_TranscriptClientHello,
      T_Claim ty_TranscriptPartialClientHello, T_Claim ty_TranscriptServerHello, T_Claim ty_TranscriptServerFinished,
      T_Claim ty_TranscriptClientFinished, T_Claim ty_TranscriptCertificate]"

definition type_number :: "tls_type \<Rightarrow> nat" where
  "type_number T = length (takeWhile (\<lambda>U. U \<noteq> T) all_types)"

definition toy_env :: "(bytes, unit) tls_env" where
  "toy_env =
     \<lparr>env_ring = toy_ring, env_webpki = toy_webpki, env_dns = (\<lambda>_. Some ()), env_dns_error = [],
      env_certs = \<lparr>BOB_CERT = [1], BOB_PRIVATE_KEY = [2], ALICE_CERT = [3], ALICE_PRIVATE_KEY = [4], EVE_CERT = [5], RANDOM_EC_CERT = [6]\<rparr>,
      env_type_shape = (\<lambda>T. \<lparr>inner_type_id = word_of_nat (type_number T), ts_name = ''T''\<rparr>),
      env_fn_name = (\<lambda>_. ''f'')\<rparr>"

lemma all_types_complete: "T \<in> set all_types"
proof (cases T)
  case (T_Claim c)
  then show ?thesis by (cases c) (simp_all add: all_types_def)
qed (simp_all add: all_types_def)

lemma takeWhile_neq_less: "x \<in> set xs \<Longrightarrow> length (takeWhile (\<lambda>y. y \<noteq> x) xs) < length xs"
  by (induction xs) auto

lemma type_number: "type_number T < 64" "all_types ! type_number T = T"
proof -
  have len: "length all_types = 51" by (simp add: all_types_def)
  have lt: "type_number T < length all_types"
    unfolding type_number_def by (rule takeWhile_neq_less [OF all_types_complete])
  then show "type_number T < 64" by (simp add: len)
  show "all_types ! type_number T = T" using nth_length_takeWhile [OF lt [unfolded type_number_def]] by (simp add: type_number_def)
qed

lemma toy_types_distinct: "type_ids_distinct toy_env"
proof -
  have "T = U" if "(word_of_nat (type_number T) :: u64) = word_of_nat (type_number U)" for T U
  proof -
    have small: "unat (word_of_nat (type_number V) :: u64) = type_number V" for V
      using type_number(1) [of V] by (intro unat_word_of_nat_small) (rule less_trans, assumption, simp)
    have "type_number T = unat (word_of_nat (type_number T) :: u64)" by (rule small [symmetric])
    also have "\<dots> = unat (word_of_nat (type_number U) :: u64)" by (rule arg_cong [OF that])
    also have "\<dots> = type_number U" by (rule small)
    finally have "type_number T = type_number U" .
    then have "all_types ! type_number T = all_types ! type_number U" by (rule arg_cong)
    then show ?thesis unfolding type_number(2) .
  qed
  then show ?thesis by (auto simp: type_ids_distinct_def toy_env_def intro!: injI)
qed

definition idle_put :: "(TlsQueryMatcher, unit tls_value, unit, unit Message, OpaqueMessage) Protocol" where
  "idle_put =
     \<lparr>pb_matcher = TlsQueryMatcher_matcher, pb_dbg = (\<lambda>_. []), put_add_to_inbound = (\<lambda>_ p. p), put_take_message = (\<lambda>p. (Inr None, p)),
      put_progress = (\<lambda>_ p cs. (Inr (), p, cs)), put_reset = (\<lambda>_ p cs. (Inr (), p, cs)), put_rename_agent = (\<lambda>_ p cs. (Inr (), p, cs)),
      put_set_deterministic = (\<lambda>p. (Inr (), p)), put_is_state_successful = (\<lambda>_. True),
      put_agent_descriptor = (\<lambda>_. AgentDescriptor_default), pb_factories = [],
      pb_default_factory = \<lparr>factory_name = ''idle'', factory_create = (\<lambda>_ _. Inr ())\<rparr>,
      downcast_message = (\<lambda>_. None), downcast_opaque = (\<lambda>_. None), create_opaque = Message_create_opaque,
      message_knowledge = (\<lambda>_. Inr []), opaque_knowledge = (\<lambda>_. Inr []), matcher_try_from = TlsQueryMatcher_try_from,
      check_violation = (\<lambda>_. None)\<rparr>"

definition toy_builder :: "(bytes, unit, nat list) builder" where
  "toy_builder =
     \<lparr>bl_hex = (\<lambda>_. ''T''), bl_env = toy_env, bl_rand = scripted,
      bl_features = \<lparr>wolfssl430 = False, tls13 = True, tls12_session_resumption = False, tls13_session_resumption = True,
        client_authentication_transcript_extraction = True\<rparr>,
      bl_type_name = (\<lambda>n. n)\<rparr>"

definition toy_tls_config :: "unit tls_value mutation_config" where
  "toy_tls_config = \<lparr>mc_min_trace_length = 1, mc_max_trace_length = 20, mc_constraints = TermConstraints_default,
     mc_fresh_zoo_after = 10, mc_signature = TLS_SIGNATURE (\<lambda>_. ''T'') toy_env\<rparr>"

lemma idle_puts: "puts_claim_tls E idle_put"
  by (simp add: puts_claim_tls_def idle_put_def)

lemma learnt_ok_new: "learnt_ok E TraceContext_new"
  by (simp add: learnt_ok_def TraceContext_new_def claims_of_tls_def)

subsection \<open>Type safety\<close>


definition constant_term :: "tls_fn \<Rightarrow> unit tls_term" where
  "constant_term f =
     Term.Application
       \<lparr>fun_unique_id = 0, fun_resistant_id = 0,
        fun_container = \<lparr>fnc_shape = symbol_shape toy_env f, fnc_dynamic_fn = symbol_dynamic (\<lambda>_. ''T'') toy_env f\<rparr>\<rparr> []"




subsection \<open>Seeds and attacks\<close>

text \<open>
  C15: the corpus can be created and run with every combination of features: no seed panics while it is built, every recipe applies its
  function symbols to arguments of the types they take and gives a message that can be sent, every step names an agent that
  its trace spawns, and every query asks for knowledge of an agent that the trace or a prior trace spawns.
\<close>

theorem corpus_can_be_run:
  "\<exists>seeds s'. create_corpus B s = Some (seeds, s') \<and> list_all (\<lambda>(trace, name). runnable B trace) seeds"
  using create_corpus_runnable [of B] unfolding builds_def by blast

text \<open>
  C16: the same holds of the attack traces, for any agents they are built for; and a trace spawns exactly the agents it is given, or the second
  of them when it resumes a session of a prior trace.
\<close>

theorem attacks_can_be_run:
  "builds (seed_trace B {server} {server} 4) (seed_cve_2022_25638 B server)
 \<and> builds (seed_trace B {server} {server} 3) (seed_cve_2022_25640 B server)
 \<and> builds (seed_trace B {server} {server} 5) (seed_cve_2021_3449 B server)
 \<and> builds (seed_trace B {client, server} {client, server} 2) (seed_heartbleed B client server)
 \<and> builds (seed_trace B {client, server} {client, server} 8) (seed_freak B client server)
 \<and> builds (seed_trace B {server} {server} 2) (seed_cve_2022_25640_simple B server)
 \<and> builds (seed_trace B {client, server} {client, server} 10) (seed_cve_2022_38153 B client server)
 \<and> builds (seed_trace B {server} {server, client} 2) (seed_cve_2022_39173 B client server)
 \<and> builds (seed_trace B {server} {server, client} 2) (seed_cve_2022_39173_full B client server)
 \<and> builds (seed_trace B {server} {server} 2) (seed_cve_2022_39173_minimized B server)"
  by (intro conjI seed_cve_2022_25638_builds seed_cve_2022_25640_builds seed_cve_2021_3449_builds seed_heartbleed_builds
      seed_freak_builds seed_cve_2022_25640_simple_builds seed_cve_2022_38153_builds seed_cve_2022_39173_builds
      seed_cve_2022_39173_full_builds seed_cve_2022_39173_minimized_builds)

subsection \<open>What a \<open>term!\<close> evaluates to\<close>

fun seval ::
  "(TlsQueryMatcher, 'd tls_value, 'p, 'msg, 'o) Protocol \<Rightarrow> (TlsQueryMatcher, 'd tls_value, 'p) TraceContext
     \<Rightarrow> ('c, 'd, 'r) builder \<Rightarrow> 'd sterm \<Rightarrow> TypeShape option \<Rightarrow> puffin_Error + 'd tls_value Any"
  and sevals ::
  "(TlsQueryMatcher, 'd tls_value, 'p, 'msg, 'o) Protocol \<Rightarrow> (TlsQueryMatcher, 'd tls_value, 'p) TraceContext
     \<Rightarrow> ('c, 'd, 'r) builder \<Rightarrow> 'd sterm list \<Rightarrow> TypeShape list \<Rightarrow> puffin_Error + 'd tls_value Any list" where
  "seval PB ctx B (SVar agent counter m ty) req =
     evaluate PB ctx (Term.Variable \<lparr>var_unique_id = 0, var_resistant_id = 0,
       var_typ = (case ty of Some T \<Rightarrow> env_type_shape (bl_env B) T | None \<Rightarrow> the req),
       var_query = \<lparr>q_agent_name = agent, q_matcher = m, q_counter = counter\<rparr>\<rparr>)"
| "seval PB ctx B (SApp f args) req =
     (case sevals PB ctx B args (map (env_type_shape (bl_env B)) (sym_args (tls_table (bl_env B) f))) of
        Inl e \<Rightarrow> Inl e
      | Inr as \<Rightarrow> (case symbol_dynamic (bl_hex B) (bl_env B) f as of Inl e \<Rightarrow> Inl (puffin_Error.Fn e) | Inr a \<Rightarrow> Inr a))"
| "seval PB ctx B (SRef t) req = evaluate PB ctx t"
| "sevals PB ctx B (a # as) (T # Ts) =
     (case seval PB ctx B a (Some T) of
        Inl e \<Rightarrow> Inl e
      | Inr x \<Rightarrow> (case sevals PB ctx B as Ts of Inl e \<Rightarrow> Inl e | Inr xs \<Rightarrow> Inr (x # xs)))"
| "sevals PB ctx B _ _ = Inr []"

lemma build_bind_Some: "build_bind m f s = Some y \<longleftrightarrow> (\<exists>x s1. m s = Some (x, s1) \<and> f x s1 = Some y)"
  by (auto simp: build_bind_def split: option.splits)

lemma build_simps [simp]:
  "build_return x s = Some y \<longleftrightarrow> y = (x, s)" "build_rand f s = Some y \<longleftrightarrow> y = f s" "build_panic s \<noteq> Some y"
  by (auto simp: build_return_def build_rand_def build_panic_def)

lemma evaluate_erase:
  fixes PB :: "('m, 'v, 'p, 'msg, 'o) Protocol"
  shows "evaluate PB ctx (erase_ids t) = evaluate PB ctx t"
    and "evaluate_args PB ctx (map erase_ids ts) = evaluate_args PB ctx ts"
  by (induction PB ctx t and PB ctx ts rule: evaluate_evaluate_args.induct)
    (auto simp: Variable_fmt_def Function_dynamic_fn_def split: option.splits sum.splits)

lemma evaluate_clone: "Term_clone R t s = (t', s') \<Longrightarrow> evaluate PB ctx t' = evaluate PB ctx t"
  by (metis clone_erase evaluate_erase(1))

lemma seval_macro:
  fixes B :: "('c, 'd, 'r) builder"
  shows "term_macro B t req s = Some (u, s') \<Longrightarrow> evaluate PB ctx u = seval PB ctx B t req"
    and "term_args B ts Ts s = Some (us, s') \<Longrightarrow> evaluate_args PB ctx us = sevals PB ctx B ts Ts"
proof (induction B t req and B ts Ts arbitrary: s u s' and s us s' rule: term_macro_term_args.induct)
  case (1 B agent counter m ty req)
  then show ?case
    by (auto simp: build_bind_Some new_var_def Variable_new_def Variable_fmt_def split: option.splits prod.splits)
next
  case (2 B f args req)
  from 2(2) obtain g us s1 s2 where g: "new_function B f s = (g, s1)"
    "term_args B args (dfs_argument_types (Function_shape g)) s1 = Some (us, s2)" "u = Term.Application g us"
    by (auto simp: build_bind_Some) (metis surj_pair)
  then have "Function_shape g = symbol_shape (bl_env B) f" "Function_dynamic_fn g = symbol_dynamic (bl_hex B) (bl_env B) f"
    by (auto simp: new_function_def Function_new_def Function_shape_def Function_dynamic_fn_def split: prod.splits)
  with 2(1) [OF g(2)] g(3) show ?case by (simp add: symbol_shape_def split: sum.splits)
next
  case (3 B t req)
  then have "Term_clone (bl_rand B) t s = (u, s')" by simp
  then show ?case by (simp add: evaluate_clone)
next
  case (6 B a as argument Ts)
  from 6(3) obtain t s1 ts where t: "term_macro B a (Some argument) s = Some (t, s1)" "term_args B as Ts s1 = Some (ts, s')"
    and us: "us = t # ts"
    by (auto simp: build_bind_Some)
  show ?case unfolding us evaluate_args.simps sevals.simps 6(1) [OF t(1)] 6(2) [OF t(2)] ..
qed (auto simp: build_bind_Some)

text \<open>The value of a \<open>term!\<close> that asks for no knowledge and whose functions report no error.\<close>

fun sval ::
  "(TlsQueryMatcher, 'd tls_value, 'p, 'msg, 'o) Protocol \<Rightarrow> (TlsQueryMatcher, 'd tls_value, 'p) TraceContext
     \<Rightarrow> ('c, 'd) tls_env \<Rightarrow> 'd sterm \<Rightarrow> 'd tls_value option"
  and svals ::
  "(TlsQueryMatcher, 'd tls_value, 'p, 'msg, 'o) Protocol \<Rightarrow> (TlsQueryMatcher, 'd tls_value, 'p) TraceContext
     \<Rightarrow> ('c, 'd) tls_env \<Rightarrow> 'd sterm list \<Rightarrow> 'd tls_value list option" where
  "sval PB ctx E (SVar agent counter m ty) = None"
| "sval PB ctx E (SApp f args) =
     (case svals PB ctx E args of
        None \<Rightarrow> None
      | Some vs \<Rightarrow> (case sym_call (tls_table E f) vs of Some (Inr v) \<Rightarrow> Some v | _ \<Rightarrow> None))"
| "sval PB ctx E (SRef t) =
     (case evaluate PB ctx t of Inr a \<Rightarrow> if any_ok E a then Some (any_val a) else None | Inl _ \<Rightarrow> None)"
| "svals PB ctx E [] = Some []"
| "svals PB ctx E (a # as) =
     (case sval PB ctx E a of None \<Rightarrow> None | Some v \<Rightarrow> (case svals PB ctx E as of None \<Rightarrow> None | Some vs \<Rightarrow> Some (v # vs)))"

lemma any_ok_box_val: "any_ok E a \<Longrightarrow> a = tls_box E (any_val a)"
  by (simp add: any_ok_def tls_box_def)

lemma symbol_dynamic_box:
  assumes "sym_call (tls_table E f) vs = Some (Inr v)"
  shows "symbol_dynamic hex E f (map (tls_box E) vs) = Inr (tls_box E v)" "length vs = length (sym_args (tls_table E f))"
proof -
  have vs: "map tls_value_type vs = sym_args (tls_table E f)" "tls_value_type v = sym_ret (tls_table E f)"
    using tls_table_ok [of E f] assms unfolding symbol_ok_def by (metis option.distinct(1), blast)
  then have types: "map any_type (map (tls_box E) vs) = map inner_type_id (dfs_argument_types (symbol_shape E f))"
    by (simp add: symbol_shape_def tls_box_def comp_def flip: vs(1))
  show "symbol_dynamic hex E f (map (tls_box E) vs) = Inr (tls_box E v)"
    unfolding symbol_dynamic_def make_dynamic_typed [OF types]
    using symbol_call_typed(1) [OF vs(1)] assms vs(2) by (auto simp: comp_def tls_box_def split: sum.splits)
  show "length vs = length (sym_args (tls_table E f))" using arg_cong [OF vs(1), of length] by simp
qed

lemma seval_sval:
  fixes PB :: "(TlsQueryMatcher, 'd tls_value, 'p, 'msg, 'o) Protocol"
  shows "sval PB ctx (bl_env B) t = Some v \<Longrightarrow> seval PB ctx B t req = Inr (tls_box (bl_env B) v)"
    and "svals PB ctx (bl_env B) ts = Some vs \<Longrightarrow> length Ts = length vs \<Longrightarrow> sevals PB ctx B ts Ts = Inr (map (tls_box (bl_env B)) vs)"
proof (induction PB ctx "bl_env B" t and PB ctx "bl_env B" ts arbitrary: v req and vs Ts rule: sval_svals.induct)
  case (2 PB ctx f args)
  then obtain vs where vs: "svals PB ctx (bl_env B) args = Some vs" "sym_call (tls_table (bl_env B) f) vs = Some (Inr v)"
    by (auto split: option.splits sum.splits)
  from 2(1) [OF vs(1), of "map (env_type_shape (bl_env B)) (sym_args (tls_table (bl_env B) f))"] symbol_dynamic_box [OF vs(2)]
  show ?case by simp
next
  case (3 PB ctx t)
  then show ?case by (auto dest: any_ok_box_val split: sum.splits if_splits)
next
  case (5 PB ctx a as)
  then show ?case by (cases Ts) (auto split: option.splits)
qed auto

lemma macro_value:
  assumes "term_macro B t req s = Some (u, s')" "sval PB ctx (bl_env B) t = Some v"
  shows "evaluate PB ctx u = Inr (tls_box (bl_env B) v)"
  using seval_macro(1) [OF assms(1)] seval_sval(1) [OF assms(2)] by metis

subsection \<open>What attacks send\<close>

definition heartbeat_request :: "'d Message" where
  "heartbeat_request =
     \<lparr>msg_version = ProtocolVersion.TLSv1_2,
      msg_payload = MessagePayload.Heartbeat \<lparr>hb_typ = HeartbeatMessageType.Request, hb_payload = [], hb_fake_length = Some 32702\<rparr>\<rparr>"

lemma box_sel [simp]: "any_val (tls_box E v) = v"
  by (simp add: tls_box_def)

lemma heartbeat_value:
  "sval PB ctx E (SApp (F_Msg Fn_heartbeat_fake_length) [SApp (F_Constant Fn_empty_bytes_vec) [], SApp (F_Constant Fn_large_length) []]) =
     Some (em_inj t_Message heartbeat_request)"
  by (simp add: fn_empty_bytes_vec_def fn_large_length_def fn_heartbeat_fake_length_def tls12_message_def heartbeat_request_def)

text \<open>
  C17: in every context, the second step of the heartbleed trace sends the server a record of eight bytes: a heartbeat request that claims
  a payload of 32702 bytes and carries none. A reader that believes the length field reads past its end; the message layer
  rejects the record.
\<close>

theorem heartbleed_claims_missing_payload:
  fixes PB :: "(TlsQueryMatcher, 'd tls_value, 'p, 'msg, 'o) Protocol"
  shows "\<exists>trace s' r. seed_heartbleed B client server s = Some (trace, s') \<and> steps trace ! 1 = InputAction_new_step server r
     \<and> evaluate PB ctx r = Inr (tls_box (bl_env B) (em_inj t_Message (heartbeat_request :: 'd Message)))
     \<and> OpaqueMessage_encode (Message_create_opaque (heartbeat_request :: 'd Message)) = [24, 3, 3, 0, 3, 1, 127, 190]
     \<and> MessagePayload_new dns ContentType.Heartbeat ProtocolVersion.TLSv1_2 (drop 5 [24, 3, 3, 0, 3, 1, 127, 190]) =
         (Inl (corrupt_message ContentType.Heartbeat) :: Error + 'd MessagePayload)"
proof -
  obtain trace s' where b: "seed_heartbleed B client server s = Some (trace, s')"
    using seed_heartbleed_builds [of B client server] unfolding builds_def by blast
  then obtain r s1 s2 where r: "steps trace ! 1 = InputAction_new_step server r"
    "term_macro B (SApp (F_Msg Fn_heartbeat_fake_length) [SApp (F_Constant Fn_empty_bytes_vec) [], SApp (F_Constant Fn_large_length) []])
       None s1 = Some (r, s2)"
    unfolding seed_heartbleed_def make_trace_def build_bind_return
    by (auto simp only: build_bind_Some build_steps.simps build_step.simps build_simps Pair_inject) auto
  have w: "OpaqueMessage_encode (Message_create_opaque (heartbeat_request :: 'd Message)) = [24, 3, 3, 0, 3, 1, 127, 190]"
    by code_simp
  have p: "MessagePayload_new dns ContentType.Heartbeat ProtocolVersion.TLSv1_2 (drop 5 [24, 3, 3, 0, 3, 1, 127, 190]) =
         (Inl (corrupt_message ContentType.Heartbeat) :: Error + 'd MessagePayload)"
  proof -
    let ?r = "\<lambda>n. \<lparr>rd_buf = [1, 127, 190], rd_offs = n\<rparr>"
    have "HeartbeatMessageType_read (Reader_init [1, 127, 190]) = Some (HeartbeatMessageType.Request, ?r 1)"
      "u16_read (?r 1) = Some (32702, ?r 3)" by code_simp+
    moreover have "Reader_sub (unat (32702 :: u16)) (?r 3) = None" by (simp add: Reader_sub_def Reader_take_def Reader_left_def rem_def)
    ultimately have "HeartbeatPayload_read (Reader_init [1, 127, 190]) = None"
      by (simp add: HeartbeatPayload_read_def PayloadU16_read_def)
    then show ?thesis by (simp add: MessagePayload_new_def Let_def ok_or_def)
  qed
  from macro_value [OF r(2) heartbeat_value] b r(1) w p show ?thesis by blast
qed

text \<open>The loop of CVE-2022-39173: \<open>n\<close> rounds append \<open>n\<close> cipher suites.\<close>

lemma append_suite_value:
  assumes "evaluate PB ctx t = Inr (tls_box E (em_inj t_CipherSuites cs))"
    and "sym_call (tls_table E (F_Field c)) [] = Some (Inr (em_inj t_CipherSuite suite))"
  shows "sval PB ctx E (SApp (F_Field Fn_append_cipher_suite) [SRef t, SApp (F_Field c) []]) = Some (em_inj t_CipherSuites (cs @ [suite]))"
  using assms by (simp add: fn_append_cipher_suite_def)

lemma repeat_suites:
  assumes "build_repeat n (\<lambda>x. term_macro B (SApp (F_Field Fn_append_cipher_suite) [SRef x, SApp (F_Field c) []]) None) t s = Some (t', s')"
    and "evaluate PB ctx t = Inr (tls_box (bl_env B) (em_inj t_CipherSuites cs))"
    and "sym_call (tls_table (bl_env B) (F_Field c)) [] = Some (Inr (em_inj t_CipherSuite suite))"
  shows "evaluate PB ctx t' = Inr (tls_box (bl_env B) (em_inj t_CipherSuites (cs @ replicate n suite)))"
  using assms(1,2)
proof (induction n arbitrary: t s cs)
  case (Suc n)
  from Suc.prems(1) obtain u s1 where u: "term_macro B (SApp (F_Field Fn_append_cipher_suite) [SRef t, SApp (F_Field c) []]) None s = Some (u, s1)"
    "build_repeat n (\<lambda>x. term_macro B (SApp (F_Field Fn_append_cipher_suite) [SRef x, SApp (F_Field c) []]) None) u s1 = Some (t', s')"
    unfolding build_repeat.simps build_bind_Some by blast
  from Suc.IH [OF u(2) macro_value [OF u(1) append_suite_value [OF Suc.prems(2) assms(3)]]] show ?case by simp
qed simp

lemma builds_let_value:
  assumes "have_types B A args (sym_args (tls_table (bl_env B) f))" "sval PB ctx (bl_env B) (SApp f args) = Some v"
    and "\<And>t. typed_term B A (sym_ret (tls_table (bl_env B) f)) t \<Longrightarrow> evaluate PB ctx t = Inr (tls_box (bl_env B) v) \<Longrightarrow> builds Q (k t)"
  shows "builds Q (build_let B (SApp f args) k)"
proof (rule builds_bind)
  show "builds (\<lambda>t. typed_term B A (sym_ret (tls_table (bl_env B) f)) t \<and> evaluate PB ctx t = Inr (tls_box (bl_env B) v))
      (term_macro B (SApp f args) None)"
    using assms(1) by (intro builds_conj builds_macro) (auto intro: macro_value [OF _ assms(2)])
qed (use assms(3) in blast)

lemma builds_repeat_suites:
  assumes "typed_term B A T_CipherSuites t" "evaluate PB ctx t = Inr (tls_box (bl_env B) (em_inj t_CipherSuites cs))"
    and "sym_call (tls_table (bl_env B) (F_Field c)) [] = Some (Inr (em_inj t_CipherSuite suite))"
      "sym_args (tls_table (bl_env B) (F_Field c)) = []" "sym_ret (tls_table (bl_env B) (F_Field c)) = T_CipherSuite"
    and "\<And>t. typed_term B A T_CipherSuites t \<Longrightarrow>
      evaluate PB ctx t = Inr (tls_box (bl_env B) (em_inj t_CipherSuites (cs @ replicate n suite))) \<Longrightarrow> builds Q (k t)"
  shows "builds Q (build_bind
     (build_repeat n (\<lambda>x. term_macro B (SApp (F_Field Fn_append_cipher_suite) [SRef x, SApp (F_Field c) []]) None) t) k)"
proof (rule builds_bind)
  let ?m = "build_repeat n (\<lambda>x. term_macro B (SApp (F_Field Fn_append_cipher_suite) [SRef x, SApp (F_Field c) []]) None) t"
  have "builds (typed_term B A T_CipherSuites) ?m"
    by (rule builds_repeat [where P = "typed_term B A T_CipherSuites", OF assms(1)], rule builds_macro) (use assms(4,5) in simp_all)
  then show "builds (\<lambda>t. typed_term B A T_CipherSuites t \<and>
      evaluate PB ctx t = Inr (tls_box (bl_env B) (em_inj t_CipherSuites (cs @ replicate n suite)))) ?m"
    by (rule builds_conj) (rule repeat_suites [OF _ assms(2,3)])
qed (use assms(6) in blast)

lemma build_return_bind: "build_bind (build_return x) f = f x"
  by (rule ext) (simp add: build_bind_def build_return_def)

lemma builds_return_iff: "builds P (build_return x) \<longleftrightarrow> P x"
  by (simp add: builds_def build_return_def)

lemma builds_same_inputs:
  assumes "\<And>r r'. evaluate PB ctx r = evaluate PB ctx t \<Longrightarrow> evaluate PB ctx r' = evaluate PB ctx t \<Longrightarrow>
      Q (Trace ds [InputAction_new_step a r, InputAction_new_step a r'] ps)"
  shows "builds Q (make_trace B ps ds [IN a (SRef t), IN a (SRef t)])"
proof -
  have "builds (\<lambda>r. evaluate PB ctx r = evaluate PB ctx t) (term_macro B (SRef t) None)"
    by (auto intro: builds_rand evaluate_clone)
  then have "builds (\<lambda>x. \<exists>r. evaluate PB ctx r = evaluate PB ctx t \<and> x = InputAction_new_step a r) (build_step B (IN a (SRef t)))"
    unfolding build_step.simps by (rule builds_bind) (auto intro: builds_return)
  note step = builds_bind [OF this]
  show ?thesis
    unfolding make_trace_def build_steps.simps
    by (rule builds_bind, rule step, rule builds_bind, rule step) (auto simp: build_return_bind builds_return_iff intro!: assms)
qed

lemma replicate_149: "replicate 149 c @ [c] = replicate 150 c"
  by (simp only: replicate_append_same replicate_Suc [symmetric]) simp

lemma builds_same_hello:
  assumes "evaluate PB ctx t = Inr (tls_box E (em_inj t_Message (hs_message v
      \<lparr>hmp_typ = HandshakeType.ClientHello, hmp_payload = HandshakePayload.ClientHello ch\<rparr>)))" "P (chp_cipher_suites ch)" "Q ch"
  shows "builds (\<lambda>trace. \<exists>r r'. steps trace = [InputAction_new_step a r, InputAction_new_step a r']
      \<and> (\<exists>ch. evaluate PB ctx r = Inr (tls_box E (em_inj t_Message (hs_message v
           \<lparr>hmp_typ = HandshakeType.ClientHello, hmp_payload = HandshakePayload.ClientHello ch\<rparr>))) \<and> P (chp_cipher_suites ch) \<and> Q ch)
      \<and> evaluate PB ctx r' = evaluate PB ctx r) (make_trace B ps ds [IN a (SRef t), IN a (SRef t)])"
  by (rule builds_same_inputs [where PB = PB and ctx = ctx]) (metis Trace.sel(2) assms)

lemmas value_simps =
  fn_new_session_ticket13_def fn_alice_cert_def fn_new_session_ticket_extensions_new_def fn_new_cipher_suites_def
  fn_cipher_suite13_aes_256_gcm_sha384_def fn_client_hello_def fn_protocol_version12_def fn_new_random_def
  fn_append_cipher_suite_def fn_compressions_def fn_client_extensions_append_def fn_client_extensions_new_def
  fn_signature_algorithm_extension_def fn_supported_versions13_extension_def fn_key_share_deterministic_extension_def
  fn_key_share_extension_def fn_named_group_secp384r1_def fn_psk_exchange_mode_dhe_ke_extension_def
  fn_preshared_keys_extension_empty_binder_def fn_get_ticket_def fn_get_ticket_age_add_def ticket13_def hs_fn_def tls12_message_def

text \<open>
  C18: in every context, both steps of the minimized trace of CVE-2022-39173 send the server the same ClientHello: it lists one cipher
  suite 150 times, 149 of them from the loop, and has no supported-groups extension, which is what makes the server ask for another
  one. This holds if ring can compute the attacker's key share.
\<close>

theorem cve_2022_39173_repeats_suite:
  fixes PB :: "(TlsQueryMatcher, 'd tls_value, 'p, 'msg, 'o) Protocol"
  assumes "deterministic_key_share (env_ring (bl_env B)) NamedGroup.secp384r1 = Inr share"
  shows "\<exists>trace s' r r' ch. seed_cve_2022_39173_minimized B server s = Some (trace, s')
     \<and> steps trace = [InputAction_new_step server r, InputAction_new_step server r']
     \<and> evaluate PB ctx r = Inr (tls_box (bl_env B) (em_inj t_Message (hs_message ProtocolVersion.TLSv1_2
           \<lparr>hmp_typ = HandshakeType.ClientHello, hmp_payload = HandshakePayload.ClientHello ch\<rparr>)))
     \<and> evaluate PB ctx r' = evaluate PB ctx r
     \<and> chp_cipher_suites ch = replicate 150 CS_TLS13_AES_256_GCM_SHA384
     \<and> ClientHelloPayload_get_namedgroups_extension ch = None"
proof -
  let ?hello = "\<lambda>a. \<exists>ch. a = Inr (tls_box (bl_env B) (em_inj t_Message (hs_message ProtocolVersion.TLSv1_2
           \<lparr>hmp_typ = HandshakeType.ClientHello, hmp_payload = HandshakePayload.ClientHello ch\<rparr>)))
     \<and> chp_cipher_suites ch = replicate 150 CS_TLS13_AES_256_GCM_SHA384 \<and> ClientHelloPayload_get_namedgroups_extension ch = None"
  have "\<not> isl fn_new_session_id" by code_simp
  then obtain sid where sid: "fn_new_session_id = Inr sid" by (metis sum.collapse(2))
  have "builds (\<lambda>trace. \<exists>r r'. steps trace = [InputAction_new_step server r, InputAction_new_step server r']
      \<and> ?hello (evaluate PB ctx r) \<and> evaluate PB ctx r' = evaluate PB ctx r) (seed_cve_2022_39173_minimized B server)"
    unfolding seed_cve_2022_39173_minimized_def build_bind_return
    by ((rule builds_let_value [where A = "{server}" and PB = PB and ctx = ctx], simp, simp add: value_simps)+,
        rule builds_repeat_suites, simp, simp, simp add: value_simps, simp, simp,
        rule builds_let_value [where A = "{server}" and PB = PB and ctx = ctx], simp, simp add: value_simps sid assms,
        rule builds_same_hello, assumption)
      (simp_all add: replicate_149 ClientHelloPayload_get_namedgroups_extension_def ClientHelloPayload_find_extension_def)
  then show ?thesis unfolding builds_def by blast
qed

theorem cve_2022_39173_repeats_suite_witness:
  "\<exists>trace s' r r' ch. seed_cve_2022_39173_minimized toy_builder (AgentName 0) [] = Some (trace, s')
     \<and> steps trace = [InputAction_new_step (AgentName 0) r, InputAction_new_step (AgentName 0) r']
     \<and> evaluate idle_put TraceContext_new r = Inr (tls_box toy_env (em_inj t_Message (hs_message ProtocolVersion.TLSv1_2
           \<lparr>hmp_typ = HandshakeType.ClientHello, hmp_payload = HandshakePayload.ClientHello ch\<rparr>)))
     \<and> length (chp_cipher_suites ch) = 150"
proof -
  have toy_builder_env: "bl_env toy_builder = toy_env" by (simp add: toy_builder_def)
  have "\<not> isl (deterministic_key_share toy_ring NamedGroup.secp384r1)" by code_simp
  then have "\<not> isl (deterministic_key_share (env_ring (bl_env toy_builder)) NamedGroup.secp384r1)"
    by (simp add: toy_builder_def toy_env_def)
  then obtain share where "deterministic_key_share (env_ring (bl_env toy_builder)) NamedGroup.secp384r1 = Inr share"
    by (metis sum.collapse(2))
  from cve_2022_39173_repeats_suite [OF this, of "AgentName 0" "[]" idle_put TraceContext_new] show ?thesis
    unfolding toy_builder_env by (metis length_replicate)
qed

end
