(* ===== verification/Ssh_Messages.thy ===== *)
theory Ssh_Messages
  imports Puffin_Codec Puffin_Term
begin

text \<open>
  The messages of \<open>sshpuffin/src/ssh/message.rs\<close>: the binary packets of the transport, name lists, the key exchange messages, and
  the raw messages of the wire (the banner, a packet, or bytes that are neither).

  A Rust \<open>String\<close> is its UTF-8 bytes; \<open>utf8\<close> is the check of \<open>std::str::from_utf8\<close>. The comma of a name list is an ASCII byte, which no
  longer sequence contains, so splitting the bytes is splitting the characters. The subtraction in \<open>BinaryPacket::read\<close> wraps
  at 64 bits, as a release build does (a debug build panics); \<open>packet_length_underflows\<close> says when.

  Every type is a codec in the sense of \<open>Puffin_Codec\<close>. A packet is also decoded canonically: what is read re-encodes to the bytes
  it was read from, which is what the deframer needs.
\<close>

subsection \<open>Strings\<close>

type_synonym String = bytes

abbreviation continuation :: "u8 \<Rightarrow> bool" where
  "continuation b \<equiv> 0x80 \<le> b \<and> b \<le> 0xBF"

text \<open>Well-formed UTF-8: no overlong form, no surrogate, nothing above U+10FFFF.\<close>

definition utf8_second :: "u8 \<Rightarrow> u8 \<Rightarrow> bool" where
  "utf8_second a b \<longleftrightarrow>
     (if a = 0xE0 then 0xA0 \<le> b \<and> b \<le> 0xBF
      else if a = 0xED then 0x80 \<le> b \<and> b \<le> 0x9F
      else if a = 0xF0 then 0x90 \<le> b \<and> b \<le> 0xBF
      else if a = 0xF4 then 0x80 \<le> b \<and> b \<le> 0x8F
      else continuation b)"

definition utf8_width :: "u8 \<Rightarrow> nat" where
  "utf8_width a =
     (if a < 0x80 then 1
      else if 0xC2 \<le> a \<and> a \<le> 0xDF then 2
      else if 0xE0 \<le> a \<and> a \<le> 0xEF then 3
      else if 0xF0 \<le> a \<and> a \<le> 0xF4 then 4
      else 0)"

fun utf8_rest :: "u8 \<Rightarrow> bytes \<Rightarrow> bool" where
  "utf8_rest a [] = True"
| "utf8_rest a (b # bs) = (utf8_second a b \<and> list_all (\<lambda>c. continuation c) bs)"

fun utf8_char :: "bytes \<Rightarrow> nat" where
  "utf8_char [] = 0"
| "utf8_char (a # bs) =
     (let n = utf8_width a - 1 in if n \<le> length bs \<and> utf8_rest a (take n bs) then utf8_width a else 0)"

function utf8 :: "bytes \<Rightarrow> bool" where
  "utf8 bs = (if bs = [] then True else if utf8_char bs = 0 then False else utf8 (drop (utf8_char bs) bs))"
  by pat_completeness auto
termination
  by (relation "measure length") auto

declare utf8.simps [simp del]

definition from_utf8 :: "bytes \<Rightarrow> String option" where
  "from_utf8 bs = (if utf8 bs then Some bs else None)"

subsection \<open>Packets\<close>

datatype OnWireData = OnWireData bytes

record BinaryPacket =
  bp_payload :: bytes
  bp_random_padding :: bytes
  bp_mac :: bytes

datatype RawSshMessage =
    Banner String
  | Packet BinaryPacket
  | OnWire OnWireData

definition BinaryPacket_encode :: "BinaryPacket \<Rightarrow> bytes \<Rightarrow> bytes" where
  "BinaryPacket_encode p bs =
     (let padding_length = length (bp_random_padding p);
          payload_length = length (bp_payload p);
          packet_length = payload_length + padding_length + 1;
          bs = u32_encode (word_of_nat packet_length) bs;
          bs = u8_encode (word_of_nat padding_length) bs;
          bs = bs @ bp_payload p;
          bs = bs @ bp_random_padding p
      in bs @ bp_mac p)"

definition BinaryPacket_read :: "Reader \<Rightarrow> (BinaryPacket \<times> Reader) option" where
  "BinaryPacket_read r = do {
     (packet_length, r) \<leftarrow> u32_read r;
     (padding_length, r) \<leftarrow> u8_read r;
     let payload_length = unat (ucast packet_length - ucast padding_length - 1 :: u64);
     (payload, r) \<leftarrow> Reader_take payload_length r;
     (random_padding, r) \<leftarrow> Reader_take (unat padding_length) r;
     (mac, r) \<leftarrow> Reader_take 0 r;
     Some (\<lparr>bp_payload = payload, bp_random_padding = random_padding, bp_mac = mac\<rparr>, r) }"

subsection \<open>Name lists\<close>

record NameList =
  nl_names :: "String list"

definition NameList_empty :: NameList where
  "NameList_empty = \<lparr>nl_names = []\<rparr>"

definition NameList_encode :: "NameList \<Rightarrow> bytes \<Rightarrow> bytes" where
  "NameList_encode l bs =
     (let names_bytes = join [0x2C] (nl_names l);
          bs = u32_encode (word_of_nat (length names_bytes)) bs
      in bs @ names_bytes)"

definition NameList_read :: "Reader \<Rightarrow> (NameList \<times> Reader) option" where
  "NameList_read r = do {
     (len, r) \<leftarrow> u32_read r;
     (names, r) \<leftarrow>
       (if len > 0 then do {
          (bs, r) \<leftarrow> Reader_take (unat len) r;
          names \<leftarrow> from_utf8 bs;
          Some (split_on 0x2C names, r) }
        else Some ([], r));
     Some (\<lparr>nl_names = names\<rparr>, r) }"

text \<open>\<open>declare_name_list!\<close>.\<close>

datatype KexAlgorithms = KexAlgorithms NameList
datatype SignatureSchemes = SignatureSchemes NameList
datatype EncryptionAlgorithms = EncryptionAlgorithms NameList
datatype MacAlgorithms = MacAlgorithms NameList
datatype CompressionAlgorithms = CompressionAlgorithms NameList

primrec KexAlgorithms_encode :: "KexAlgorithms \<Rightarrow> bytes \<Rightarrow> bytes" where
  "KexAlgorithms_encode (KexAlgorithms l) bs = NameList_encode l bs"

definition KexAlgorithms_read :: "Reader \<Rightarrow> (KexAlgorithms \<times> Reader) option" where
  "KexAlgorithms_read r = do { (l, r) \<leftarrow> NameList_read r; Some (KexAlgorithms l, r) }"

primrec SignatureSchemes_encode :: "SignatureSchemes \<Rightarrow> bytes \<Rightarrow> bytes" where
  "SignatureSchemes_encode (SignatureSchemes l) bs = NameList_encode l bs"

definition SignatureSchemes_read :: "Reader \<Rightarrow> (SignatureSchemes \<times> Reader) option" where
  "SignatureSchemes_read r = do { (l, r) \<leftarrow> NameList_read r; Some (SignatureSchemes l, r) }"

primrec EncryptionAlgorithms_encode :: "EncryptionAlgorithms \<Rightarrow> bytes \<Rightarrow> bytes" where
  "EncryptionAlgorithms_encode (EncryptionAlgorithms l) bs = NameList_encode l bs"

definition EncryptionAlgorithms_read :: "Reader \<Rightarrow> (EncryptionAlgorithms \<times> Reader) option" where
  "EncryptionAlgorithms_read r = do { (l, r) \<leftarrow> NameList_read r; Some (EncryptionAlgorithms l, r) }"

primrec MacAlgorithms_encode :: "MacAlgorithms \<Rightarrow> bytes \<Rightarrow> bytes" where
  "MacAlgorithms_encode (MacAlgorithms l) bs = NameList_encode l bs"

definition MacAlgorithms_read :: "Reader \<Rightarrow> (MacAlgorithms \<times> Reader) option" where
  "MacAlgorithms_read r = do { (l, r) \<leftarrow> NameList_read r; Some (MacAlgorithms l, r) }"

primrec CompressionAlgorithms_encode :: "CompressionAlgorithms \<Rightarrow> bytes \<Rightarrow> bytes" where
  "CompressionAlgorithms_encode (CompressionAlgorithms l) bs = NameList_encode l bs"

definition CompressionAlgorithms_read :: "Reader \<Rightarrow> (CompressionAlgorithms \<times> Reader) option" where
  "CompressionAlgorithms_read r = do { (l, r) \<leftarrow> NameList_read r; Some (CompressionAlgorithms l, r) }"

subsection \<open>Key exchange messages\<close>

text \<open>The cookie is an array of 16 bytes.\<close>

record KexInitMessage =
  ki_cookie :: bytes
  ki_kex_algorithms :: KexAlgorithms
  ki_server_host_key_algorithms :: SignatureSchemes
  ki_encryption_algorithms_server_to_client :: EncryptionAlgorithms
  ki_encryption_algorithms_client_to_server :: EncryptionAlgorithms
  ki_mac_algorithms_client_to_server :: MacAlgorithms
  ki_mac_algorithms_server_to_client :: MacAlgorithms
  ki_compression_algorithms_client_to_server :: CompressionAlgorithms
  ki_compression_algorithms_server_to_client :: CompressionAlgorithms
  ki_languages_client_to_server :: NameList
  ki_languages_server_to_client :: NameList
  ki_first_kex_packet_follows :: bool

definition KexInitMessage_encode :: "KexInitMessage \<Rightarrow> bytes \<Rightarrow> bytes" where
  "KexInitMessage_encode m bs =
     (let bs = bs @ ki_cookie m;
          bs = KexAlgorithms_encode (ki_kex_algorithms m) bs;
          bs = SignatureSchemes_encode (ki_server_host_key_algorithms m) bs;
          bs = EncryptionAlgorithms_encode (ki_encryption_algorithms_server_to_client m) bs;
          bs = EncryptionAlgorithms_encode (ki_encryption_algorithms_client_to_server m) bs;
          bs = MacAlgorithms_encode (ki_mac_algorithms_client_to_server m) bs;
          bs = MacAlgorithms_encode (ki_mac_algorithms_server_to_client m) bs;
          bs = CompressionAlgorithms_encode (ki_compression_algorithms_client_to_server m) bs;
          bs = CompressionAlgorithms_encode (ki_compression_algorithms_server_to_client m) bs;
          bs = NameList_encode (ki_languages_client_to_server m) bs;
          bs = NameList_encode (ki_languages_server_to_client m) bs;
          bs = u8_encode (of_bool (ki_first_kex_packet_follows m)) bs
      in u32_encode 0 bs)"

definition KexInitMessage_read :: "Reader \<Rightarrow> (KexInitMessage \<times> Reader) option" where
  "KexInitMessage_read r = do {
     (cookie, r) \<leftarrow> Reader_take 16 r;
     (kex, r) \<leftarrow> KexAlgorithms_read r;
     (host_key, r) \<leftarrow> SignatureSchemes_read r;
     (enc_sc, r) \<leftarrow> EncryptionAlgorithms_read r;
     (enc_cs, r) \<leftarrow> EncryptionAlgorithms_read r;
     (mac_cs, r) \<leftarrow> MacAlgorithms_read r;
     (mac_sc, r) \<leftarrow> MacAlgorithms_read r;
     (comp_cs, r) \<leftarrow> CompressionAlgorithms_read r;
     (comp_sc, r) \<leftarrow> CompressionAlgorithms_read r;
     (lang_cs, r) \<leftarrow> NameList_read r;
     (lang_sc, r) \<leftarrow> NameList_read r;
     (follows, r) \<leftarrow> u8_read r;
     let message = \<lparr>ki_cookie = cookie, ki_kex_algorithms = kex, ki_server_host_key_algorithms = host_key,
       ki_encryption_algorithms_server_to_client = enc_sc, ki_encryption_algorithms_client_to_server = enc_cs,
       ki_mac_algorithms_client_to_server = mac_cs, ki_mac_algorithms_server_to_client = mac_sc,
       ki_compression_algorithms_client_to_server = comp_cs, ki_compression_algorithms_server_to_client = comp_sc,
       ki_languages_client_to_server = lang_cs, ki_languages_server_to_client = lang_sc,
       ki_first_kex_packet_follows = (follows \<noteq> 0)\<rparr>;
     (_, r) \<leftarrow> u32_read r;
     Some (message, r) }"

record KexEcdhInitMessage =
  ke_ephemeral_public_key :: bytes

definition KexEcdhInitMessage_encode :: "KexEcdhInitMessage \<Rightarrow> bytes \<Rightarrow> bytes" where
  "KexEcdhInitMessage_encode m bs =
     (let bs = u32_encode (word_of_nat (length (ke_ephemeral_public_key m))) bs
      in bs @ ke_ephemeral_public_key m)"

definition KexEcdhInitMessage_read :: "Reader \<Rightarrow> (KexEcdhInitMessage \<times> Reader) option" where
  "KexEcdhInitMessage_read r = do {
     (len, r) \<leftarrow> u32_read r;
     (ephemeral_public_key, r) \<leftarrow> Reader_take (unat len) r;
     Some (\<lparr>ke_ephemeral_public_key = ephemeral_public_key\<rparr>, r) }"

record KexEcdhReplyMessage =
  kr_public_host_key :: bytes
  kr_ephemeral_public_key :: bytes
  kr_signature :: bytes

definition KexEcdhReplyMessage_encode :: "KexEcdhReplyMessage \<Rightarrow> bytes \<Rightarrow> bytes" where
  "KexEcdhReplyMessage_encode m bs =
     (let bs = u32_encode (word_of_nat (length (kr_public_host_key m))) bs;
          bs = bs @ kr_public_host_key m;
          bs = u32_encode (word_of_nat (length (kr_ephemeral_public_key m))) bs;
          bs = bs @ kr_ephemeral_public_key m;
          bs = u32_encode (word_of_nat (length (kr_signature m))) bs
      in bs @ kr_signature m)"

definition KexEcdhReplyMessage_read :: "Reader \<Rightarrow> (KexEcdhReplyMessage \<times> Reader) option" where
  "KexEcdhReplyMessage_read r = do {
     (len, r) \<leftarrow> u32_read r;
     (public_host_key, r) \<leftarrow> Reader_take (unat len) r;
     (len, r) \<leftarrow> u32_read r;
     (ephemeral_public_key, r) \<leftarrow> Reader_take (unat len) r;
     (len, r) \<leftarrow> u32_read r;
     (signature, r) \<leftarrow> Reader_take (unat len) r;
     Some (\<lparr>kr_public_host_key = public_host_key, kr_ephemeral_public_key = ephemeral_public_key,
       kr_signature = signature\<rparr>, r) }"

datatype SshMessage =
    KexInit KexInitMessage
  | KexEcdhInit KexEcdhInitMessage
  | KexEcdhReply KexEcdhReplyMessage
  | NewKeys

fun SshMessage_encode :: "SshMessage \<Rightarrow> bytes \<Rightarrow> bytes" where
  "SshMessage_encode (KexInit inner) bs = KexInitMessage_encode inner (u8_encode 20 bs)"
| "SshMessage_encode NewKeys bs = u8_encode 21 bs"
| "SshMessage_encode (KexEcdhInit inner) bs = KexEcdhInitMessage_encode inner (u8_encode 30 bs)"
| "SshMessage_encode (KexEcdhReply inner) bs = KexEcdhReplyMessage_encode inner (u8_encode 31 bs)"

definition SshMessage_read :: "Reader \<Rightarrow> (SshMessage \<times> Reader) option" where
  "SshMessage_read r = do {
     (tag, r) \<leftarrow> u8_read r;
     if tag = 20 then do { (m, r) \<leftarrow> KexInitMessage_read r; Some (KexInit m, r) }
     else if tag = 21 then Some (NewKeys, r)
     else if tag = 30 then do { (m, r) \<leftarrow> KexEcdhInitMessage_read r; Some (KexEcdhInit m, r) }
     else if tag = 31 then do { (m, r) \<leftarrow> KexEcdhReplyMessage_read r; Some (KexEcdhReply m, r) }
     else None }"

definition SshMessage_try_from :: "BinaryPacket \<Rightarrow> string + SshMessage" where
  "SshMessage_try_from packet =
     (case SshMessage_read (Reader_init (bp_payload packet)) of
        Some (m, _) \<Rightarrow> Inr m
      | None \<Rightarrow> Inl ''Can not parse payload'')"

definition SshMessage_create_opaque :: "SshMessage \<Rightarrow> RawSshMessage" where
  "SshMessage_create_opaque m =
     (let payload = SshMessage_encode m [];
          random_padding = replicate 7 0
      in Packet \<lparr>bp_payload = payload, bp_random_padding = random_padding, bp_mac = []\<rparr>)"

subsection \<open>Raw messages\<close>

primrec RawSshMessage_encode :: "RawSshMessage \<Rightarrow> bytes \<Rightarrow> bytes" where
  "RawSshMessage_encode (Banner banner) bs = bs @ banner"
| "RawSshMessage_encode (Packet packet) bs = BinaryPacket_encode packet bs"
| "RawSshMessage_encode (OnWire data) bs = (case data of OnWireData d \<Rightarrow> bs @ d)"

definition libssh_banner :: String where
  "libssh_banner = map of_char (''SSH-2.0-libssh_0.10.90'' @ [CHR 0x0D, CHR 0x0A])"

definition RawSshMessage_read :: "Reader \<Rightarrow> (RawSshMessage \<times> Reader) option" where
  "RawSshMessage_read r =
     (let is_banner = (case Reader_peek (length libssh_banner) r of
            Some received \<Rightarrow> received = libssh_banner | None \<Rightarrow> False)
      in if is_banner then do {
           (_, r) \<leftarrow> Reader_take (length libssh_banner) r;
           Some (Banner libssh_banner, r) }
         else do {
           (packet, r) \<leftarrow> BinaryPacket_read r;
           Some (Packet packet, r) })"

subsection \<open>Knowledge\<close>

text \<open>The values an attacker handles, one constructor for each Rust type.\<close>

datatype ssh_value =
    SBool bool
  | SU64 u64
  | SBytes bytes
  | SString String
  | SCookie bytes
  | SNameList NameList
  | SKexAlgorithms KexAlgorithms
  | SSignatureSchemes SignatureSchemes
  | SEncryptionAlgorithms EncryptionAlgorithms
  | SMacAlgorithms MacAlgorithms
  | SCompressionAlgorithms CompressionAlgorithms
  | SOnWireData OnWireData
  | SRawMessage RawSshMessage
  | SMessage SshMessage

fun SshMessage_extract_knowledge :: "SshMessage \<Rightarrow> ssh_value list" where
  "SshMessage_extract_knowledge (KexInit m) =
     [SCookie (ki_cookie m),
      SKexAlgorithms (ki_kex_algorithms m),
      SSignatureSchemes (ki_server_host_key_algorithms m),
      SEncryptionAlgorithms (ki_encryption_algorithms_server_to_client m),
      SEncryptionAlgorithms (ki_encryption_algorithms_client_to_server m),
      SMacAlgorithms (ki_mac_algorithms_client_to_server m),
      SMacAlgorithms (ki_mac_algorithms_server_to_client m),
      SCompressionAlgorithms (ki_compression_algorithms_client_to_server m),
      SCompressionAlgorithms (ki_compression_algorithms_server_to_client m),
      SNameList (ki_languages_client_to_server m),
      SNameList (ki_languages_server_to_client m),
      SBool (ki_first_kex_packet_follows m)]"
| "SshMessage_extract_knowledge (KexEcdhInit m) = [SBytes (ke_ephemeral_public_key m)]"
| "SshMessage_extract_knowledge (KexEcdhReply m) =
     [SBytes (kr_public_host_key m), SBytes (kr_ephemeral_public_key m), SBytes (kr_signature m)]"
| "SshMessage_extract_knowledge NewKeys = []"

fun RawSshMessage_extract_knowledge :: "RawSshMessage \<Rightarrow> ssh_value list" where
  "RawSshMessage_extract_knowledge (Banner banner) = [SRawMessage (Banner banner), SString banner]"
| "RawSshMessage_extract_knowledge (Packet packet) = [SRawMessage (Packet packet)]"
| "RawSshMessage_extract_knowledge (OnWire onwire) = [SRawMessage (OnWire onwire), SOnWireData onwire]"

subsection \<open>Strings that are joined\<close>

lemma utf8_char_le: "utf8_char bs \<le> length bs"
  by (cases bs) (auto simp: Let_def)

lemma utf8_char_append: "utf8_char bs \<noteq> 0 \<Longrightarrow> utf8_char (bs @ cs) = utf8_char bs"
  by (cases bs) (auto simp: Let_def)

lemma utf8_append: "utf8 a \<Longrightarrow> utf8 b \<Longrightarrow> utf8 (a @ b)"
proof (induction a rule: utf8.induct)
  case (1 a)
  show ?case
  proof (cases "a = []")
    case False
    with "1.prems"(1) have a: "utf8_char a \<noteq> 0" "utf8 (drop (utf8_char a) a)"
      by (simp_all add: utf8.simps [of a] split: if_splits)
    with "1.IH" False "1.prems"(2) have "utf8 (drop (utf8_char a) a @ b)" by blast
    with a utf8_char_le [of a] False show ?thesis by (simp add: utf8.simps [of "a @ b"] utf8_char_append)
  qed (simp add: "1.prems")
qed

lemma utf8_ascii: "\<forall>b\<in>set bs. b < 0x80 \<Longrightarrow> utf8 bs"
proof (induction bs)
  case (Cons b bs)
  then show ?case by (simp add: utf8.simps [of "b # bs"] utf8_width_def)
qed (simp add: utf8.simps)

lemma utf8_join: "list_all utf8 names \<Longrightarrow> utf8 (join [0x2C] names)"
proof (induction "[0x2C :: u8]" names rule: join.induct)
  case (3 x y xs)
  then have "utf8 ([0x2C] @ join [0x2C] (y # xs))" by (intro utf8_append) (auto simp: utf8_ascii)
  with 3 show ?case by (auto intro!: utf8_append)
qed (auto simp: utf8_ascii)

subsection \<open>Contracts\<close>

text \<open>A vector of bytes behind a length field of 32 bits: the form that name lists, keys and signatures share.\<close>

definition opaque_encode :: "bytes \<Rightarrow> bytes \<Rightarrow> bytes" where
  "opaque_encode v bs = u32_encode (word_of_nat (length v)) bs @ v"

definition opaque_read :: "Reader \<Rightarrow> (bytes \<times> Reader) option" where
  "opaque_read r = do { (len, r) \<leftarrow> u32_read r; Reader_take (unat len) r }"

lemma opaque_bytes [enc_simps]: "get_encoding opaque_encode v = u32_to_be_bytes (word_of_nat (length v)) @ v"
  by (simp add: get_encoding_def opaque_encode_def u32_encode_def)

lemma u32_read_be:
  "take 4 (rem r) = u32_to_be_bytes v \<Longrightarrow> u32_read r = Some (v, adv r 4)"
  using u32.read_encode [of v r] by simp

interpretation opaque: canonical_codec opaque_encode opaque_read "\<lambda>v. length v < 2 ^ 32"
proof unfold_locales
  fix x bs show "opaque_encode x bs = bs @ opaque_encode x []" by (simp add: opaque_encode_def u32_encode_def)
next
  fix r x r' assume "opaque_read r = Some (x, r')"
  then show "advances r r'"
    by (auto simp: opaque_read_def split: bind_split_asm
        intro: advances_trans u32.progress dest: Reader_take_moves)
next
  fix x :: bytes and r assume len: "length x < 2 ^ 32"
    and t: "take (length (get_encoding opaque_encode x)) (rem r) = get_encoding opaque_encode x"
  then obtain post where post: "rem r = (u32_to_be_bytes (word_of_nat (length x)) @ x) @ post"
    unfolding opaque_bytes by (blast elim: take_prefixE)
  then have "u32_read r = Some (word_of_nat (length x), adv r 4)" by (intro u32_read_be) simp
  with post len show "opaque_read r = Some (x, adv r (length (get_encoding opaque_encode x)))"
    by (simp add: opaque_read_def Reader_take_rem unat_of_nat enc_simps)
next
  fix r x r' assume ok: "Reader_ok r" and "opaque_read r = Some (x, r')"
  then obtain len s where len: "u32_read r = Some (len, s)" and x: "Reader_take (unat len) s = Some (x, r')"
    by (auto simp: opaque_read_def split: bind_split_asm)
  from u32.encode_read [OF ok len] have s: "take 4 (rem r) = u32_to_be_bytes len" "s = adv r 4" by auto
  from x have x': "x = take (unat len) (drop 4 (rem r))" "r' = adv r (4 + unat len)" "length x = unat len"
    by (auto simp: Reader_take_rem s split: if_splits)
  with unsigned_less [of len] s show "length x < 2 ^ 32
      \<and> take (length (get_encoding opaque_encode x)) (rem r) = get_encoding opaque_encode x
      \<and> r' = adv r (length (get_encoding opaque_encode x))"
    by (simp add: enc_simps take_add)
qed

text \<open>
  A name list that survives the wire: no name contains a comma, it is not the list of one empty name (which is
  written like the empty list), and it fits the length field.
\<close>

definition NameList_valid :: "NameList \<Rightarrow> bool" where
  "NameList_valid l \<longleftrightarrow>
     list_all (\<lambda>name. 0x2C \<notin> set name) (nl_names l) \<and> nl_names l \<noteq> [[]]
     \<and> utf8 (join [0x2C] (nl_names l)) \<and> length (join [0x2C] (nl_names l)) < 2 ^ 32"

definition names_of :: "bytes \<Rightarrow> NameList option" where
  "names_of bs = (if bs = [] then Some \<lparr>nl_names = []\<rparr> else map_option (\<lambda>s. \<lparr>nl_names = split_on 0x2C s\<rparr>) (from_utf8 bs))"

lemma join_eq_Nil: "join [c] ps = [] \<longleftrightarrow> ps = [] \<or> ps = [[]]"
  by (cases "([c], ps)" rule: join.cases) auto

lemma names_of_join: "NameList_valid l \<Longrightarrow> names_of (join [0x2C] (nl_names l)) = Some l"
  by (auto simp: NameList_valid_def names_of_def from_utf8_def join_eq_Nil split_on_join list_all_iff)

lemma names_of_valid:
  "length bs < 2 ^ 32 \<Longrightarrow> names_of bs = Some l \<Longrightarrow> NameList_valid l \<and> join [0x2C] (nl_names l) = bs"
  using join_eq_Nil [of "0x2C" "split_on 0x2C bs"] utf8_ascii [of "[]"]
  by (auto simp: names_of_def NameList_valid_def from_utf8_def join_split_on list_all_iff
      dest: split_on_parts split: if_splits)

lemma NameList_read_opaque:
  "NameList_read r = do { (bs, r) \<leftarrow> opaque_read r; l \<leftarrow> names_of bs; Some (l, r) }"
  by (auto simp: NameList_read_def opaque_read_def names_of_def from_utf8_def word_gt_0 unat_eq_zero Reader_take_rem
      split: bind_splits if_splits)

interpretation NameList: canonical_codec NameList_encode NameList_read NameList_valid
  by (rule canonical_partial [OF opaque.canonical_codec_axioms, where f = "\<lambda>l. join [0x2C] (nl_names l)" and g = names_of])
    (use names_of_valid in \<open>auto simp: NameList_encode_def opaque_encode_def NameList_read_opaque names_of_join Let_def
      NameList_valid_def\<close>)

primrec KexAlgorithms_valid :: "KexAlgorithms \<Rightarrow> bool" where
  "KexAlgorithms_valid (KexAlgorithms l) = NameList_valid l"

primrec SignatureSchemes_valid :: "SignatureSchemes \<Rightarrow> bool" where
  "SignatureSchemes_valid (SignatureSchemes l) = NameList_valid l"

primrec EncryptionAlgorithms_valid :: "EncryptionAlgorithms \<Rightarrow> bool" where
  "EncryptionAlgorithms_valid (EncryptionAlgorithms l) = NameList_valid l"

primrec MacAlgorithms_valid :: "MacAlgorithms \<Rightarrow> bool" where
  "MacAlgorithms_valid (MacAlgorithms l) = NameList_valid l"

primrec CompressionAlgorithms_valid :: "CompressionAlgorithms \<Rightarrow> bool" where
  "CompressionAlgorithms_valid (CompressionAlgorithms l) = NameList_valid l"

interpretation KexAlgorithms: canonical_codec KexAlgorithms_encode KexAlgorithms_read KexAlgorithms_valid
  by (rule canonical_iso [OF NameList.canonical_codec_axioms, where f = "case_KexAlgorithms id" and g = KexAlgorithms])
    (auto simp: KexAlgorithms_read_def map_option_case split: KexAlgorithms.split bind_splits option.splits elim: KexAlgorithms.exhaust)

interpretation SignatureSchemes: canonical_codec SignatureSchemes_encode SignatureSchemes_read SignatureSchemes_valid
  by (rule canonical_iso [OF NameList.canonical_codec_axioms, where f = "case_SignatureSchemes id" and g = SignatureSchemes])
    (auto simp: SignatureSchemes_read_def map_option_case split: SignatureSchemes.split bind_splits option.splits elim: SignatureSchemes.exhaust)

interpretation EncryptionAlgorithms: canonical_codec EncryptionAlgorithms_encode EncryptionAlgorithms_read EncryptionAlgorithms_valid
  by (rule canonical_iso [OF NameList.canonical_codec_axioms, where f = "case_EncryptionAlgorithms id" and g = EncryptionAlgorithms])
    (auto simp: EncryptionAlgorithms_read_def map_option_case split: EncryptionAlgorithms.split bind_splits option.splits elim: EncryptionAlgorithms.exhaust)

interpretation MacAlgorithms: canonical_codec MacAlgorithms_encode MacAlgorithms_read MacAlgorithms_valid
  by (rule canonical_iso [OF NameList.canonical_codec_axioms, where f = "case_MacAlgorithms id" and g = MacAlgorithms])
    (auto simp: MacAlgorithms_read_def map_option_case split: MacAlgorithms.split bind_splits option.splits elim: MacAlgorithms.exhaust)

interpretation CompressionAlgorithms: canonical_codec CompressionAlgorithms_encode CompressionAlgorithms_read CompressionAlgorithms_valid
  by (rule canonical_iso [OF NameList.canonical_codec_axioms, where f = "case_CompressionAlgorithms id" and g = CompressionAlgorithms])
    (auto simp: CompressionAlgorithms_read_def map_option_case split: CompressionAlgorithms.split bind_splits option.splits elim: CompressionAlgorithms.exhaust)

text \<open>The cookie, and the flag: any byte but 0 is read as true.\<close>

definition cookie_encode :: "bytes \<Rightarrow> bytes \<Rightarrow> bytes" where
  "cookie_encode v bs = bs @ v"

interpretation cookie: canonical_codec cookie_encode "Reader_take 16" "\<lambda>v. length v = 16"
  by unfold_locales
    (auto simp: cookie_encode_def Reader_take_rem get_encoding_def split: if_splits dest: length_take_eq_iff)

definition KexInitMessage_valid :: "KexInitMessage \<Rightarrow> bool" where
  "KexInitMessage_valid m \<longleftrightarrow> length (ki_cookie m) = 16
     \<and> KexAlgorithms_valid (ki_kex_algorithms m)
     \<and> SignatureSchemes_valid (ki_server_host_key_algorithms m)
     \<and> EncryptionAlgorithms_valid (ki_encryption_algorithms_server_to_client m)
     \<and> EncryptionAlgorithms_valid (ki_encryption_algorithms_client_to_server m)
     \<and> MacAlgorithms_valid (ki_mac_algorithms_client_to_server m)
     \<and> MacAlgorithms_valid (ki_mac_algorithms_server_to_client m)
     \<and> CompressionAlgorithms_valid (ki_compression_algorithms_client_to_server m)
     \<and> CompressionAlgorithms_valid (ki_compression_algorithms_server_to_client m)
     \<and> NameList_valid (ki_languages_client_to_server m)
     \<and> NameList_valid (ki_languages_server_to_client m)"

lemmas KexInit_fields =
  codec_pair [OF cookie.codec_axioms codec_pair [OF KexAlgorithms.codec_axioms codec_pair [OF SignatureSchemes.codec_axioms
  codec_pair [OF EncryptionAlgorithms.codec_axioms codec_pair [OF EncryptionAlgorithms.codec_axioms
  codec_pair [OF MacAlgorithms.codec_axioms codec_pair [OF MacAlgorithms.codec_axioms
  codec_pair [OF CompressionAlgorithms.codec_axioms codec_pair [OF CompressionAlgorithms.codec_axioms
  codec_pair [OF NameList.codec_axioms codec_pair [OF NameList.codec_axioms
  codec_pair [OF u8.codec_axioms u32.codec_axioms]]]]]]]]]]]]

interpretation KexInitMessage: codec KexInitMessage_encode KexInitMessage_read KexInitMessage_valid
  by (rule codec_iso [OF KexInit_fields,
      where f = "\<lambda>m. (ki_cookie m, ki_kex_algorithms m, ki_server_host_key_algorithms m,
          ki_encryption_algorithms_server_to_client m, ki_encryption_algorithms_client_to_server m,
          ki_mac_algorithms_client_to_server m, ki_mac_algorithms_server_to_client m,
          ki_compression_algorithms_client_to_server m, ki_compression_algorithms_server_to_client m,
          ki_languages_client_to_server m, ki_languages_server_to_client m, of_bool (ki_first_kex_packet_follows m), 0)"
        and g = "\<lambda>(c, kex, hk, e1, e2, m1, m2, c1, c2, l1, l2, follows, _).
          \<lparr>ki_cookie = c, ki_kex_algorithms = kex, ki_server_host_key_algorithms = hk,
           ki_encryption_algorithms_server_to_client = e1, ki_encryption_algorithms_client_to_server = e2,
           ki_mac_algorithms_client_to_server = m1, ki_mac_algorithms_server_to_client = m2,
           ki_compression_algorithms_client_to_server = c1, ki_compression_algorithms_server_to_client = c2,
           ki_languages_client_to_server = l1, ki_languages_server_to_client = l2,
           ki_first_kex_packet_follows = (follows \<noteq> 0)\<rparr>"])
    (simp_all add: KexInitMessage_encode_def KexInitMessage_read_def KexInitMessage_valid_def cookie_encode_def
      Let_def pair_encode_def pair_read_def map_option_case option.case_distrib split: bind_splits)

definition KexEcdhInitMessage_valid :: "KexEcdhInitMessage \<Rightarrow> bool" where
  "KexEcdhInitMessage_valid m \<longleftrightarrow> length (ke_ephemeral_public_key m) < 2 ^ 32"

interpretation KexEcdhInitMessage: canonical_codec KexEcdhInitMessage_encode KexEcdhInitMessage_read KexEcdhInitMessage_valid
  by (rule canonical_iso [OF opaque.canonical_codec_axioms, where f = ke_ephemeral_public_key
        and g = "\<lambda>k. \<lparr>ke_ephemeral_public_key = k\<rparr>"])
    (auto simp: KexEcdhInitMessage_encode_def KexEcdhInitMessage_read_def KexEcdhInitMessage_valid_def opaque_encode_def
      opaque_read_def Let_def split: bind_splits)

definition KexEcdhReplyMessage_valid :: "KexEcdhReplyMessage \<Rightarrow> bool" where
  "KexEcdhReplyMessage_valid m \<longleftrightarrow> length (kr_public_host_key m) < 2 ^ 32
     \<and> length (kr_ephemeral_public_key m) < 2 ^ 32 \<and> length (kr_signature m) < 2 ^ 32"

interpretation KexEcdhReplyMessage: canonical_codec KexEcdhReplyMessage_encode KexEcdhReplyMessage_read KexEcdhReplyMessage_valid
  by (rule canonical_iso [OF canonical_pair [OF opaque.canonical_codec_axioms
        canonical_pair [OF opaque.canonical_codec_axioms opaque.canonical_codec_axioms]],
      where f = "\<lambda>m. (kr_public_host_key m, kr_ephemeral_public_key m, kr_signature m)"
        and g = "\<lambda>(a, b, c). \<lparr>kr_public_host_key = a, kr_ephemeral_public_key = b, kr_signature = c\<rparr>"])
    (auto simp: KexEcdhReplyMessage_encode_def KexEcdhReplyMessage_read_def KexEcdhReplyMessage_valid_def opaque_encode_def
      opaque_read_def pair_encode_def pair_read_def Let_def split: bind_splits)

primrec SshMessage_tag :: "SshMessage \<Rightarrow> u8" where
  "SshMessage_tag (KexInit _) = 20"
| "SshMessage_tag NewKeys = 21"
| "SshMessage_tag (KexEcdhInit _) = 30"
| "SshMessage_tag (KexEcdhReply _) = 31"

primrec SshMessage_body :: "SshMessage \<Rightarrow> bytes \<Rightarrow> bytes" where
  "SshMessage_body (KexInit m) = KexInitMessage_encode m"
| "SshMessage_body NewKeys = (\<lambda>bs. bs)"
| "SshMessage_body (KexEcdhInit m) = KexEcdhInitMessage_encode m"
| "SshMessage_body (KexEcdhReply m) = KexEcdhReplyMessage_encode m"

definition SshMessage_read_body :: "u8 \<Rightarrow> Reader \<Rightarrow> (SshMessage \<times> Reader) option" where
  "SshMessage_read_body tag r =
     (if tag = 20 then do { (m, r) \<leftarrow> KexInitMessage_read r; Some (KexInit m, r) }
      else if tag = 21 then Some (NewKeys, r)
      else if tag = 30 then do { (m, r) \<leftarrow> KexEcdhInitMessage_read r; Some (KexEcdhInit m, r) }
      else if tag = 31 then do { (m, r) \<leftarrow> KexEcdhReplyMessage_read r; Some (KexEcdhReply m, r) }
      else None)"

primrec SshMessage_valid :: "SshMessage \<Rightarrow> bool" where
  "SshMessage_valid (KexInit m) = KexInitMessage_valid m"
| "SshMessage_valid NewKeys = True"
| "SshMessage_valid (KexEcdhInit m) = KexEcdhInitMessage_valid m"
| "SshMessage_valid (KexEcdhReply m) = KexEcdhReplyMessage_valid m"

lemma SshMessage_body_bytes [enc_simps]:
  "get_encoding SshMessage_body m = (case m of
     KexInit k \<Rightarrow> get_encoding KexInitMessage_encode k | NewKeys \<Rightarrow> []
   | KexEcdhInit k \<Rightarrow> get_encoding KexEcdhInitMessage_encode k | KexEcdhReply k \<Rightarrow> get_encoding KexEcdhReplyMessage_encode k)"
  by (cases m) (simp_all add: get_encoding_def)

interpretation SshMessage: codec SshMessage_encode SshMessage_read SshMessage_valid
proof (rule tagged_codec [OF u8.codec_axioms, where eb = SshMessage_body and tag = SshMessage_tag and rd = SshMessage_read_body])
  have "SshMessage_body m bs = bs @ SshMessage_body m []" for m bs
    by (cases m) (simp_all add: KexInitMessage.encode_conv KexEcdhInitMessage.encode_conv KexEcdhReplyMessage.encode_conv)
  then show "encoder SshMessage_body" by unfold_locales
  show "SshMessage_encode x bs = SshMessage_body x (u8_encode (SshMessage_tag x) bs)" for x bs by (cases x) simp_all
  show "SshMessage_read r = u8_read r \<bind> (\<lambda>(t, r). SshMessage_read_body t r)" for r
    by (simp add: SshMessage_read_def SshMessage_read_body_def)
  show "decoder (SshMessage_read_body t)" for t
    by unfold_locales
      (auto simp: SshMessage_read_body_def split: bind_split_asm if_splits
        intro: KexInitMessage.frame KexEcdhInitMessage.frame KexEcdhReplyMessage.frame)
  show "SshMessage_read_body (SshMessage_tag x) r = Some (x, adv r (length (get_encoding SshMessage_body x)))"
    if "SshMessage_valid x" "take (length (get_encoding SshMessage_body x)) (rem r) = get_encoding SshMessage_body x" for x r
    using that by (cases x)
      (simp_all add: SshMessage_read_body_def SshMessage_body_bytes KexInitMessage.read_encode
        KexEcdhInitMessage.read_encode KexEcdhReplyMessage.read_encode)
qed simp

subsection \<open>Contracts of packets and raw messages\<close>

definition bp_length :: "BinaryPacket \<Rightarrow> nat" where
  "bp_length p = length (bp_payload p) + length (bp_random_padding p) + 1"

definition BinaryPacket_valid :: "BinaryPacket \<Rightarrow> bool" where
  "BinaryPacket_valid p \<longleftrightarrow> bp_mac p = [] \<and> length (bp_random_padding p) < 256 \<and> bp_length p < 2 ^ 32"

lemma BinaryPacket_bytes [enc_simps]:
  "get_encoding BinaryPacket_encode p = u32_to_be_bytes (word_of_nat (bp_length p))
     @ word_of_nat (length (bp_random_padding p)) # bp_payload p @ bp_random_padding p @ bp_mac p"
  by (simp add: get_encoding_def BinaryPacket_encode_def Let_def u32_encode_def u8_encode_def bp_length_def)

text \<open>The subtraction that computes the length of the payload, and when it underflows.\<close>

definition packet_length_underflows :: "u32 \<Rightarrow> u8 \<Rightarrow> bool" where
  "packet_length_underflows packet_length padding_length \<longleftrightarrow> unat packet_length < unat padding_length + 1"

lemma unat_ucast_u64: "unat (ucast (v :: u32) :: u64) = unat v" "unat (ucast (w :: u8) :: u64) = unat w"
  by (simp_all add: unsigned_ucast_eq take_bit_nat_eq_self unsigned_less [THEN less_trans])

lemma payload_length_wraps:
  "unat (ucast (pl :: u32) - ucast (pad :: u8) - 1 :: u64) =
     (if packet_length_underflows pl pad then 2 ^ 64 + unat pl - unat pad - 1 else unat pl - unat pad - 1)"
  using unsigned_less [of pl]
  by (auto simp: unat_sub_if' unat_ucast_u64 packet_length_underflows_def) (use unat_u8_less [of pad] in linarith)+

lemma BinaryPacket_read_fields:
  "BinaryPacket_read r = do {
     ((pl, pad), r) \<leftarrow> pair_read u32_read u8_read r;
     let n = unat (ucast pl - ucast pad - 1 :: u64);
     if length (rem r) < n + unat pad then None
     else Some (\<lparr>bp_payload = take n (rem r), bp_random_padding = take (unat pad) (drop n (rem r)), bp_mac = []\<rparr>,
       adv r (n + unat pad)) }"
  by (auto simp: BinaryPacket_read_def pair_read_def Let_def Reader_take_rem split: bind_splits)

lemmas packet_header = canonical_pair [OF u32.canonical_codec_axioms u8.canonical_codec_axioms]

interpretation packet_header: canonical_codec "pair_encode u32_encode u8_encode" "pair_read u32_read u8_read" "\<lambda>_. True"
  using packet_header by (simp add: case_prod_unfold)

lemma packet_header_bytes [enc_simps]: "get_encoding (pair_encode u32_encode u8_encode) (a, b) = u32_to_be_bytes a @ [b]"
  by (simp add: pair_bytes u32.encoder_axioms u8.encoder_axioms)

interpretation BinaryPacket: codec BinaryPacket_encode BinaryPacket_read BinaryPacket_valid
proof unfold_locales
  fix p bs show "BinaryPacket_encode p bs = bs @ BinaryPacket_encode p []"
    by (simp add: BinaryPacket_encode_def Let_def u32_encode_def u8_encode_def)
next
  fix r p r' assume "BinaryPacket_read r = Some (p, r')"
  then show "advances r r'"
    by (auto simp: BinaryPacket_read_fields Let_def split: bind_split_asm if_splits
        dest!: packet_header.progress)
      (erule advances_trans, rule moves_adv, simp)
next
  fix p r assume v: "BinaryPacket_valid p"
    and t: "take (length (get_encoding BinaryPacket_encode p)) (rem r) = get_encoding BinaryPacket_encode p"
  let ?pl = "word_of_nat (bp_length p) :: u32" and ?pad = "word_of_nat (length (bp_random_padding p)) :: u8"
  from t obtain post where post: "rem r = get_encoding BinaryPacket_encode p @ post" by (blast elim: take_prefixE)
  have "pair_read u32_read u8_read r = Some ((?pl, ?pad), adv r 5)"
    using packet_header.read_encode [of "(?pl, ?pad)" r] post by (simp add: enc_simps)
  moreover have "unat ?pad = length (bp_random_padding p)" "unat ?pl = bp_length p"
    using v by (simp_all add: BinaryPacket_valid_def unat_of_nat)
  moreover from this have "unat (ucast ?pl - ucast ?pad - 1 :: u64) = length (bp_payload p)"
    by (simp add: payload_length_wraps packet_length_underflows_def bp_length_def)
  moreover have "rem (adv r 5) = bp_payload p @ bp_random_padding p @ post"
    using post v by (simp add: enc_simps BinaryPacket_valid_def)
  ultimately show "BinaryPacket_read r = Some (p, adv r (length (get_encoding BinaryPacket_encode p)))"
    using v by (simp add: BinaryPacket_read_fields Let_def enc_simps BinaryPacket_valid_def)
qed

text \<open>A packet that was read is valid and re-encodes to the bytes it was read from, as long as memory is smaller than 2^63 bytes.\<close>

lemma BinaryPacket_encode_read:
  assumes ok: "Reader_ok r" and small: "length (rem r) < 2 ^ 63" and rd: "BinaryPacket_read r = Some (p, r')"
  shows "BinaryPacket_valid p \<and> take (length (get_encoding BinaryPacket_encode p)) (rem r) = get_encoding BinaryPacket_encode p
    \<and> r' = adv r (length (get_encoding BinaryPacket_encode p))"
proof -
  obtain pl pad s where hdr: "pair_read u32_read u8_read r = Some ((pl, pad), s)"
    using rd by (auto simp: BinaryPacket_read_fields split: bind_split_asm)
  from packet_header.encode_read [OF ok hdr]
  have s: "take 5 (rem r) = u32_to_be_bytes pl @ [pad]" "s = adv r 5" by (simp_all add: enc_simps)
  let ?n = "unat (ucast pl - ucast pad - 1 :: u64)"
  from rd hdr have n: "?n + unat pad \<le> length (rem s)" "r' = adv s (?n + unat pad)"
    and p: "p = \<lparr>bp_payload = take ?n (rem s), bp_random_padding = take (unat pad) (drop ?n (rem s)), bp_mac = []\<rparr>"
    by (auto simp: BinaryPacket_read_fields Let_def split: if_splits)
  have "\<not> packet_length_underflows pl pad"
    using n(1) small unat_u8_less [of pad] s(2) by (auto simp: payload_length_wraps split: if_splits)
  then have n': "?n = unat pl - unat pad - 1" and le: "unat pad + 1 \<le> unat pl"
    by (auto simp: payload_length_wraps packet_length_underflows_def)
  have len: "length (bp_payload p) = ?n" "length (bp_random_padding p) = unat pad"
    using n(1) by (simp_all add: p)
  then have pl: "bp_length p = unat pl" using n' le by (simp add: bp_length_def)
  have "take (?n + unat pad) (drop 5 (rem r)) = bp_payload p @ bp_random_padding p"
    by (simp add: p s(2) take_add)
  with s(1) have "take (5 + (?n + unat pad)) (rem r) = get_encoding BinaryPacket_encode p"
    by (simp add: take_add enc_simps pl len) (simp add: p)
  moreover have "length (get_encoding BinaryPacket_encode p) = 5 + (?n + unat pad)"
    by (simp add: enc_simps len) (simp add: p)
  moreover have "BinaryPacket_valid p"
    using unsigned_less [of pl] by (simp add: BinaryPacket_valid_def pl len) (simp add: p)
  ultimately show ?thesis using n(2) s(2) by simp
qed

text \<open>
  The only banner that is recognised is the one of libssh. A packet is taken for one only if its length field spells
  \<open>SSH-\<close>.
\<close>

primrec RawSshMessage_valid :: "RawSshMessage \<Rightarrow> bool" where
  "RawSshMessage_valid (Banner b) = (b = libssh_banner)"
| "RawSshMessage_valid (Packet p) = (BinaryPacket_valid p \<and> bp_length p \<noteq> 0x5353482D)"
| "RawSshMessage_valid (OnWire _) = False"

lemma libssh_banner_bytes:
  "libssh_banner = [0x53, 0x53, 0x48, 0x2D, 0x32, 0x2E, 0x30, 0x2D, 0x6C, 0x69, 0x62, 0x73, 0x73, 0x68, 0x5F, 0x30, 0x2E,
     0x31, 0x30, 0x2E, 0x39, 0x30, 0x0D, 0x0A]"
  by (simp add: libssh_banner_def)

lemma libssh_banner_length [simp]: "length libssh_banner = 24"
  by (simp add: libssh_banner_bytes)

lemma RawSshMessage_read_cases:
  "RawSshMessage_read r =
     (if take 24 (rem r) = libssh_banner then Some (Banner libssh_banner, adv r 24)
      else map_option (\<lambda>(p, r). (Packet p, r)) (BinaryPacket_read r))"
proof -
  have "take 24 (rem r) = libssh_banner \<Longrightarrow> 24 \<le> length (rem r)"
    using length_take_eq_iff [of libssh_banner "rem r"] by simp
  then show ?thesis
    by (auto simp: RawSshMessage_read_def Reader_peek_take Reader_take_rem map_option_case split: bind_splits option.splits)
qed

lemma RawSshMessage_bytes [enc_simps]:
  "get_encoding RawSshMessage_encode m = (case m of
     Banner b \<Rightarrow> b | Packet p \<Rightarrow> get_encoding BinaryPacket_encode p | OnWire (OnWireData d) \<Rightarrow> d)"
  by (cases m) (simp_all add: get_encoding_def split: OnWireData.splits)

lemma packet_no_banner:
  assumes "BinaryPacket_valid p" "bp_length p \<noteq> 0x5353482D"
    and "take (length (get_encoding BinaryPacket_encode p)) bs = get_encoding BinaryPacket_encode p"
  shows "take 24 bs \<noteq> libssh_banner"
proof
  assume "take 24 bs = libssh_banner"
  from arg_cong [OF this, of "take 4"] have "take 4 bs = take 4 libssh_banner" by simp
  moreover from arg_cong [OF assms(3), of "take 4"] have "take 4 bs = u32_to_be_bytes (word_of_nat (bp_length p))"
    by (simp add: BinaryPacket_bytes min_def)
  ultimately have "u32_from_be_bytes (u32_to_be_bytes (word_of_nat (bp_length p))) = u32_from_be_bytes (take 4 libssh_banner)"
    by simp
  also have "\<dots> = Some 0x5353482D" by (simp add: libssh_banner_bytes)
  finally have "word_of_nat (bp_length p) = (0x5353482D :: u32)" by (simp only: u32_from_to_be option.inject)
  then have "unat (word_of_nat (bp_length p) :: u32) = 0x5353482D" by simp
  with assms(1,2) show False by (simp add: BinaryPacket_valid_def unat_of_nat)
qed

interpretation RawSshMessage: codec RawSshMessage_encode RawSshMessage_read RawSshMessage_valid
proof unfold_locales
  fix m bs show "RawSshMessage_encode m bs = bs @ RawSshMessage_encode m []"
    by (cases m) (auto simp: BinaryPacket.encode_conv split: OnWireData.splits)
next
  fix r m r' assume rd: "RawSshMessage_read r = Some (m, r')"
  then show "advances r r'"
    using length_take_eq_iff [of libssh_banner "rem r"]
    by (auto simp: RawSshMessage_read_cases split: if_splits intro: BinaryPacket.progress)
next
  fix m r assume v: "RawSshMessage_valid m"
    and t: "take (length (get_encoding RawSshMessage_encode m)) (rem r) = get_encoding RawSshMessage_encode m"
  then show "RawSshMessage_read r = Some (m, adv r (length (get_encoding RawSshMessage_encode m)))"
    by (cases m) (auto simp: RawSshMessage_read_cases RawSshMessage_bytes BinaryPacket.read_encode dest: packet_no_banner)
qed

lemma RawSshMessage_encode_read:
  assumes "Reader_ok r" "length (rem r) < 2 ^ 63" "RawSshMessage_read r = Some (m, r')"
  shows "take (length (get_encoding RawSshMessage_encode m)) (rem r) = get_encoding RawSshMessage_encode m
    \<and> r' = adv r (length (get_encoding RawSshMessage_encode m))"
  using assms BinaryPacket_encode_read [OF assms(1,2)]
  by (auto simp: RawSshMessage_read_cases RawSshMessage_bytes split: if_splits)

text \<open>A message on the wire: it is wrapped into a packet, and what is decoded from the packet is the message.\<close>

lemma SshMessage_try_from_opaque:
  "SshMessage_valid m \<Longrightarrow> SshMessage_create_opaque m = Packet p \<Longrightarrow> SshMessage_try_from p = Inr m"
  using SshMessage.read_init [of m]
  by (auto simp: SshMessage_create_opaque_def SshMessage_try_from_def Let_def)

end
