(* ===== verification/Ssh_Deframer.thy ===== *)
theory Ssh_Deframer
  imports Ssh_Messages Puffin_Stream
begin

text \<open>
  \<open>SshMessageDeframer\<close> of \<open>sshpuffin/src/ssh/deframe.rs\<close>, and the stream of an SSH agent (\<open>MemoryStream\<close> over this deframer).

  Bytes that are not a whole message become one frame of \<open>OnWire\<close> data, so a read always empties the buffer, \<open>desynced\<close> is never set
  and \<open>Partial\<close> and \<open>Invalid\<close> are never returned. \<open>ssh_frames\<close> is what one read makes of its bytes. The lemmas: the deframer refines
  it, loses no byte, and returns the messages that were written when a read delivers whole messages; but, unlike the deframer of TLS,
  what it returns depends on how the input was cut into reads.
\<close>

definition SSH_MAX_WIRE_SIZE :: nat where
  "SSH_MAX_WIRE_SIZE = 35000"

record SshMessageDeframer =
  sd_frames :: "RawSshMessage list"
  sd_desynced :: bool
  sd_buf :: bytes
  sd_used :: nat

definition SshMessageDeframer_new :: SshMessageDeframer where
  "SshMessageDeframer_new =
     \<lparr>sd_frames = [], sd_desynced = False, sd_buf = replicate SSH_MAX_WIRE_SIZE 0, sd_used = 0\<rparr>"

definition ssh_buf_consume :: "SshMessageDeframer \<Rightarrow> nat \<Rightarrow> SshMessageDeframer" where
  "ssh_buf_consume d taken =
     (if taken < sd_used d
      then d\<lparr>sd_buf := overwrite 0 (drop taken (take (sd_used d) (sd_buf d))) (sd_buf d), sd_used := sd_used d - taken\<rparr>
      else if taken = sd_used d then d\<lparr>sd_used := 0\<rparr>
      else d)"

definition ssh_try_deframe_one :: "SshMessageDeframer \<Rightarrow> BufferContents \<times> SshMessageDeframer" where
  "ssh_try_deframe_one d =
     (let rd = Reader_init (take (sd_used d) (sd_buf d)) in
      case RawSshMessage_read rd of
        Some (m, rd) \<Rightarrow>
          let used = Reader_used rd;
              d = d\<lparr>sd_frames := sd_frames d @ [m]\<rparr>;
              d = ssh_buf_consume d used
          in (BufferContents.Valid, d)
      | None \<Rightarrow>
          let d = d\<lparr>sd_frames := sd_frames d @ [OnWire (OnWireData (take (sd_used d) (sd_buf d)))]\<rparr>;
              d = ssh_buf_consume d (sd_used d)
          in (BufferContents.Valid, d))"

text \<open>Any message that was read takes at least one byte.\<close>

lemma RawSshMessage_read_consumes:
  assumes "RawSshMessage_read (Reader_init bs) = Some (m, r)"
  shows "0 < Reader_used r \<and> Reader_used r \<le> length bs \<and> rem r = drop (Reader_used r) bs"
  using RawSshMessage.progress [OF assms] by (auto simp: advances_def)

lemma ssh_try_deframe_one_shrinks:
  "sd_used d \<noteq> 0 \<Longrightarrow> ssh_try_deframe_one d = (b, d') \<Longrightarrow> b = BufferContents.Valid \<and> sd_used d' < sd_used d"
  by (auto simp: ssh_try_deframe_one_def ssh_buf_consume_def Let_def split: option.splits if_splits
      dest!: RawSshMessage_read_consumes)

text \<open>The \<open>loop\<close> of \<open>read\<close>.\<close>

function ssh_deframe_loop :: "SshMessageDeframer \<Rightarrow> SshMessageDeframer" where
  "ssh_deframe_loop d =
     (if sd_used d = 0 then d
      else case ssh_try_deframe_one d of
        (BufferContents.Invalid, d) \<Rightarrow> d\<lparr>sd_desynced := True\<rparr>
      | (BufferContents.Valid, d) \<Rightarrow> ssh_deframe_loop d
      | (BufferContents.Partial, d) \<Rightarrow> d)"
  by pat_completeness auto
termination
  by (relation "measure sd_used") (simp, metis in_measure ssh_try_deframe_one_shrinks)

declare ssh_deframe_loop.simps [simp del]

definition SshMessageDeframer_read ::
  "SshMessageDeframer \<Rightarrow> (nat \<Rightarrow> 'e + bytes) \<Rightarrow> ('e + nat) \<times> SshMessageDeframer" where
  "SshMessageDeframer_read d rd =
     (case rd (length (sd_buf d) - sd_used d) of
        Inl e \<Rightarrow> (Inl e, d)
      | Inr bs \<Rightarrow>
          let new_bytes = length bs;
              d = d\<lparr>sd_buf := overwrite (sd_used d) bs (sd_buf d), sd_used := sd_used d + new_bytes\<rparr>
          in (Inr new_bytes, ssh_deframe_loop d))"

definition ssh_has_pending :: "SshMessageDeframer \<Rightarrow> bool" where
  "ssh_has_pending d \<longleftrightarrow> sd_frames d \<noteq> [] \<or> sd_used d > 0"

definition ssh_pop_frame :: "SshMessageDeframer \<Rightarrow> RawSshMessage option \<times> SshMessageDeframer" where
  "ssh_pop_frame d = (case sd_frames d of [] \<Rightarrow> (None, d) | m # ms \<Rightarrow> (Some m, d\<lparr>sd_frames := ms\<rparr>))"

definition ssh_deframer :: "(SshMessageDeframer, RawSshMessage) Deframer" where
  "ssh_deframer = \<lparr>deframer_pop = ssh_pop_frame, deframer_read = SshMessageDeframer_read\<rparr>"

subsection \<open>What a read makes of its bytes\<close>

function ssh_frames :: "bytes \<Rightarrow> RawSshMessage list" where
  "ssh_frames bs =
     (if bs = [] then []
      else case RawSshMessage_read (Reader_init bs) of
        Some (m, r) \<Rightarrow> m # ssh_frames (rem r)
      | None \<Rightarrow> [OnWire (OnWireData bs)])"
  by pat_completeness auto
termination
  by (relation "measure length") (auto dest!: RawSshMessage_read_consumes)

declare ssh_frames.simps [simp del]

text \<open>No byte is lost or changed.\<close>

abbreviation wire :: "RawSshMessage list \<Rightarrow> bytes" where
  "wire ms \<equiv> concat (map (get_encoding RawSshMessage_encode) ms)"

lemma wire_ssh_frames: "length bs < 2 ^ 63 \<Longrightarrow> wire (ssh_frames bs) = bs"
proof (induction bs rule: ssh_frames.induct)
  case (1 bs)
  show ?case
  proof (cases "bs = [] \<or> RawSshMessage_read (Reader_init bs) = None")
    case True
    then show ?thesis by (auto simp: ssh_frames.simps [of bs] RawSshMessage_bytes)
  next
    case False
    then obtain m r where rd: "RawSshMessage_read (Reader_init bs) = Some (m, r)" by fastforce
    from RawSshMessage_encode_read [OF _ _ rd] "1.prems"
    have m: "take (length (get_encoding RawSshMessage_encode m)) bs = get_encoding RawSshMessage_encode m"
      "rem r = drop (length (get_encoding RawSshMessage_encode m)) bs" by auto
    with False "1.IH" [OF _ rd refl] "1.prems" have "wire (ssh_frames (rem r)) = rem r" by simp
    with m rd False show ?thesis
      by (simp add: ssh_frames.simps [of bs]) (metis append_take_drop_id)
  qed
qed

text \<open>A read that delivers whole messages returns them.\<close>

lemma ssh_frames_messages: "list_all RawSshMessage_valid ms \<Longrightarrow> ssh_frames (wire ms) = ms"
proof (induction ms)
  case (Cons m ms)
  then have v: "RawSshMessage_valid m" by simp
  let ?bs = "wire (m # ms)"
  have "RawSshMessage_read (Reader_init ?bs) = Some (m, adv (Reader_init ?bs) (length (get_encoding RawSshMessage_encode m)))"
    by (rule RawSshMessage.read_encode [OF v]) simp
  with Cons RawSshMessage.encoding_nonempty [OF v] show ?case by (subst ssh_frames.simps) simp
qed (simp add: ssh_frames.simps)

subsection \<open>Refinement\<close>

definition ssh_deframer_ok :: "SshMessageDeframer \<Rightarrow> bool" where
  "ssh_deframer_ok d \<longleftrightarrow> length (sd_buf d) = SSH_MAX_WIRE_SIZE \<and> sd_used d = 0 \<and> \<not> sd_desynced d"

definition ssh_pending :: "SshMessageDeframer \<Rightarrow> bytes" where
  "ssh_pending d = take (sd_used d) (sd_buf d)"

lemma ssh_buf_consume_pending:
  assumes "n \<le> sd_used d" "sd_used d \<le> length (sd_buf d)"
  shows "ssh_pending (ssh_buf_consume d n) = drop n (ssh_pending d)"
    "sd_used (ssh_buf_consume d n) \<le> length (sd_buf (ssh_buf_consume d n))"
    "length (sd_buf (ssh_buf_consume d n)) = length (sd_buf d)"
    "sd_desynced (ssh_buf_consume d n) = sd_desynced d" "sd_frames (ssh_buf_consume d n) = sd_frames d"
  using assms by (auto simp: ssh_pending_def ssh_buf_consume_def overwrite_def min_def)

lemma ssh_try_deframe_one_cases:
  assumes "sd_used d \<le> length (sd_buf d)"
  obtains d' where "ssh_try_deframe_one d = (BufferContents.Valid, d')"
    "sd_used d' \<le> length (sd_buf d')" "length (sd_buf d') = length (sd_buf d)" "sd_desynced d' = sd_desynced d"
    "case RawSshMessage_read (Reader_init (ssh_pending d)) of
       Some (m, r) \<Rightarrow> sd_frames d' = sd_frames d @ [m] \<and> ssh_pending d' = rem r
     | None \<Rightarrow> sd_frames d' = sd_frames d @ [OnWire (OnWireData (ssh_pending d))] \<and> ssh_pending d' = []"
proof (cases "RawSshMessage_read (Reader_init (ssh_pending d))")
  case None
  let ?d = "d\<lparr>sd_frames := sd_frames d @ [OnWire (OnWireData (ssh_pending d))]\<rparr>"
  have "ssh_try_deframe_one d = (BufferContents.Valid, ssh_buf_consume ?d (sd_used d))"
    using None by (simp add: ssh_try_deframe_one_def ssh_pending_def Let_def)
  with ssh_buf_consume_pending [of "sd_used d" ?d] None assms that show ?thesis by (simp add: ssh_pending_def)
next
  case (Some x)
  then obtain m r where x: "x = (m, r)" by (cases x)
  let ?d = "d\<lparr>sd_frames := sd_frames d @ [m]\<rparr>"
  from RawSshMessage_read_consumes [of "ssh_pending d" m r] Some x
  have u: "Reader_used r \<le> sd_used ?d" "rem r = drop (Reader_used r) (ssh_pending ?d)" by (auto simp: ssh_pending_def)
  have "ssh_try_deframe_one d = (BufferContents.Valid, ssh_buf_consume ?d (Reader_used r))"
    using Some x by (simp add: ssh_try_deframe_one_def ssh_pending_def Let_def)
  with ssh_buf_consume_pending [OF u(1)] Some x u(2) assms that show ?thesis by simp
qed

lemma ssh_deframe_loop_refines:
  assumes "sd_used d \<le> length (sd_buf d)"
  shows "sd_used (ssh_deframe_loop d) = 0 \<and> sd_frames (ssh_deframe_loop d) = sd_frames d @ ssh_frames (ssh_pending d)
    \<and> length (sd_buf (ssh_deframe_loop d)) = length (sd_buf d) \<and> sd_desynced (ssh_deframe_loop d) = sd_desynced d"
  using assms
proof (induction d rule: ssh_deframe_loop.induct)
  case (1 d)
  show ?case
  proof (cases "sd_used d = 0")
    case True
    then show ?thesis by (simp add: ssh_deframe_loop.simps [of d] ssh_pending_def ssh_frames.simps)
  next
    case False
    obtain d' where d': "ssh_try_deframe_one d = (BufferContents.Valid, d')"
      "sd_used d' \<le> length (sd_buf d')" "length (sd_buf d') = length (sd_buf d)" "sd_desynced d' = sd_desynced d"
      "case RawSshMessage_read (Reader_init (ssh_pending d)) of
         Some (m, r) \<Rightarrow> sd_frames d' = sd_frames d @ [m] \<and> ssh_pending d' = rem r
       | None \<Rightarrow> sd_frames d' = sd_frames d @ [OnWire (OnWireData (ssh_pending d))] \<and> ssh_pending d' = []"
      using ssh_try_deframe_one_cases [OF "1.prems"] by metis
    have "ssh_pending d \<noteq> []" using False "1.prems" by (auto simp: ssh_pending_def)
    with d'(5) have "sd_frames d' @ ssh_frames (ssh_pending d') = sd_frames d @ ssh_frames (ssh_pending d)"
      by (simp add: ssh_frames.simps [of "ssh_pending d"] split: option.splits prod.splits)
        (simp add: ssh_frames.simps [of "[]"])
    with "1.IH" [OF False d'(1) [symmetric] refl d'(2)] d' False show ?thesis
      by (simp add: ssh_deframe_loop.simps [of d])
  qed
qed

lemma SshMessageDeframer_read_refines:
  assumes "ssh_deframer_ok d" "rd SSH_MAX_WIRE_SIZE = Inr bs" "length bs \<le> SSH_MAX_WIRE_SIZE"
  obtains d' where "SshMessageDeframer_read d rd = (Inr (length bs), d')" "ssh_deframer_ok d'"
    "sd_frames d' = sd_frames d @ ssh_frames bs"
proof -
  let ?d = "d\<lparr>sd_buf := overwrite (sd_used d) bs (sd_buf d), sd_used := sd_used d + length bs\<rparr>"
  have u: "sd_used ?d \<le> length (sd_buf ?d)" "length (sd_buf ?d) = SSH_MAX_WIRE_SIZE" "ssh_pending ?d = bs"
    "\<not> sd_desynced ?d" "sd_frames ?d = sd_frames d"
    using assms(1,3) by (auto simp: ssh_deframer_ok_def ssh_pending_def overwrite_def)
  have "SshMessageDeframer_read d rd = (Inr (length bs), ssh_deframe_loop ?d)"
    using assms(1,2) by (simp add: SshMessageDeframer_read_def ssh_deframer_ok_def Let_def)
  with ssh_deframe_loop_refines [OF u(1)] u that show ?thesis by (simp add: ssh_deframer_ok_def)
qed

lemma ssh_deframer_ok_new: "ssh_deframer_ok SshMessageDeframer_new"
  by (simp add: ssh_deframer_ok_def SshMessageDeframer_new_def)

subsection \<open>The stream of an SSH agent\<close>

interpretation ssh_stream: queueing_deframer ssh_deframer ssh_deframer_ok sd_frames
  "\<lambda>d bs. ssh_frames (take SSH_MAX_WIRE_SIZE bs)"
proof unfold_locales
  fix d bs v and d' :: SshMessageDeframer assume "deframer_read ssh_deframer d (slice_read bs) = (Inr v, d')"
  then show "v \<le> length bs"
    by (auto simp: ssh_deframer_def SshMessageDeframer_read_def slice_read_def Let_def split: sum.splits)
next
  fix d and bs :: bytes assume ok: "ssh_deframer_ok d"
  let ?in = "take SSH_MAX_WIRE_SIZE bs"
  obtain d' where "SshMessageDeframer_read d (slice_read bs) = (Inr (length ?in), d')" "ssh_deframer_ok d'"
    "sd_frames d' = sd_frames d @ ssh_frames ?in"
    by (rule SshMessageDeframer_read_refines [OF ok, of "slice_read bs" ?in]) (auto simp: slice_read_def)
  moreover have "ssh_frames ?in = []" if "length ?in = 0"
    unfolding that [unfolded length_0_conv] by (simp add: ssh_frames.simps)
  ultimately show "\<exists>n d'. deframer_read ssh_deframer d (slice_read bs) = (Inr n, d') \<and> ssh_deframer_ok d'
      \<and> sd_frames d' = sd_frames d @ ssh_frames ?in \<and> (n = 0 \<longrightarrow> ssh_frames ?in = [])"
    by (intro exI [of _ "length ?in"] exI [of _ d']) (simp add: ssh_deframer_def del: length_take)
qed (auto simp: ssh_deframer_def ssh_pop_frame_def ssh_deframer_ok_def ssh_frames.simps)

definition ssh_stream_frames :: "SshMessageDeframer MemoryStream \<Rightarrow> RawSshMessage list" where
  "ssh_stream_frames st = sd_frames (ms_deframer st) @ ssh_frames (take SSH_MAX_WIRE_SIZE (ch_buf (ms_outbound st)))"

lemma ssh_next_frame_refines:
  assumes "ssh_deframer_ok (ms_deframer st)"
  shows "\<exists>st'. ssh_deframer_ok (ms_deframer st') \<and>
    next_frame ssh_deframer st =
      (case ssh_stream_frames st of [] \<Rightarrow> Some (Inr None, st') | m # _ \<Rightarrow> Some (Inr (Some m), st')) \<and>
    ssh_stream_frames st' = tl (ssh_stream_frames st) \<and> ms_inbound st' = ms_inbound st"
  using ssh_stream.next_frame_yields [OF assms]
  by (simp add: ssh_stream_frames_def yields_head_def stream_queue_def)

end
