(* ===== verification/Ssh_Put.thy ===== *)
theory Ssh_Put
  imports Ssh_Deframer
begin

text \<open>
  The program under test of \<open>sshpuffin/src/libssh/mod.rs\<close>: an agent that runs libssh on one end of a socket, while the fuzzer reads
  and writes the other end. The wrappers of \<open>sshpuffin/src/libssh/ssh.rs\<close> that it calls turn the return codes of libssh into results.

  libssh is a C library and the socket is the kernel's: both are the parameter \<open>libssh\<close>, operations on a state \<open>'w\<close> that they share
  (what the session sends is what the socket delivers), together with the numbers of the generated bindings. A panic is a value of
  \<open>panics\<close>.

  The lemmas: the loop of \<open>take_message_from_outbound\<close> reads the socket at most once; the messages it returns are the ones the socket
  delivered, whole; the state of the agent only moves forward, one phase at a time.
\<close>

subsection \<open>libssh\<close>

record ('w, 'm) libssh =
  SSH_OK :: int
  SSH_ERROR :: int
  SSH_AGAIN :: int
  SSH_AUTH_ERROR :: int
  SSH_AUTH_SUCCESS :: int
  SSH_AUTH_AGAIN :: int
  SSH_AUTH_PARTIAL :: int
  SSH_AUTH_DENIED :: int
  SSH_REQUEST_AUTH :: u32
  SSH_REQUEST_CHANNEL_OPEN :: u32
  SSH_REQUEST_CHANNEL :: u32
  SSH_REQUEST_SERVICE :: u32
  SSH_REQUEST_GLOBAL :: u32
  SSH_SESSION_STATE_AUTHENTICATED :: int
  ssh_connect :: "'w \<Rightarrow> int \<times> 'w"
  ssh_handle_key_exchange :: "'w \<Rightarrow> int \<times> 'w"
  ssh_userauth_password :: "String option \<Rightarrow> String \<Rightarrow> 'w \<Rightarrow> int \<times> 'w"
  ssh_message_get :: "'w \<Rightarrow> 'm option \<times> 'w"
  ssh_message_type :: "'m \<Rightarrow> 'w \<Rightarrow> int"
  ssh_message_reply_default :: "'m \<Rightarrow> 'w \<Rightarrow> int \<times> 'w"
  ssh_message_auth_reply_success :: "'m \<Rightarrow> int \<Rightarrow> 'w \<Rightarrow> int \<times> 'w"
  ssh_get_error :: "'w \<Rightarrow> bytes"
  ssh_session_state :: "'w \<Rightarrow> int"
  socket_read :: "nat \<Rightarrow> 'w \<Rightarrow> (io_Error + bytes) \<times> 'w"
  socket_write_all :: "bytes \<Rightarrow> 'w \<Rightarrow> (io_Error + unit) \<times> 'w"

datatype SshResult = SshOk | SshAgain | SshUnknown int

datatype SshAuthResult = AuthSuccess | AuthAgain | AuthPartial | AuthDenied | AuthUnknown int

datatype SshRequest = REQUEST_AUTH | REQUEST_CHANNEL_OPEN | REQUEST_CHANNEL | REQUEST_SERVICE | REQUEST_GLOBAL

definition literal :: "string \<Rightarrow> String" where
  "literal s = map of_char s"

definition SshSession_get_error :: "('w, 'm) libssh \<Rightarrow> 'w \<Rightarrow> String" where
  "SshSession_get_error L w =
     (case map_option (\<lambda>message. if message = [] then literal ''Unknown error in session'' else message) (from_utf8 (ssh_get_error L w)) of
        Some e \<Rightarrow> e
      | None \<Rightarrow> literal ''Failed to decode libssh error string'')"

definition SshMessage_get_error :: "'w \<Rightarrow> String" where
  "SshMessage_get_error w = literal ''Error with ssh message''"

definition cvt_n :: "int \<Rightarrow> String \<Rightarrow> String + int" where
  "cvt_n r err = (if r < 0 then Inl err else Inr r)"

definition cvt_io :: "('w, 'm) libssh \<Rightarrow> int \<Rightarrow> String \<Rightarrow> String + SshResult" where
  "cvt_io L r err =
     (if r = SSH_ERROR L then Inl err
      else Inr (if r = SSH_OK L then SshOk else if r = SSH_AGAIN L then SshAgain else SshUnknown r))"

definition cvt_auth :: "('w, 'm) libssh \<Rightarrow> int \<Rightarrow> String \<Rightarrow> String + SshAuthResult" where
  "cvt_auth L r err =
     (if r = SSH_AUTH_ERROR L then Inl err
      else Inr (if r = SSH_AUTH_SUCCESS L then AuthSuccess
        else if r = SSH_AUTH_DENIED L then AuthDenied
        else if r = SSH_AUTH_PARTIAL L then AuthPartial
        else if r = SSH_AUTH_AGAIN L then AuthAgain
        else AuthUnknown r))"

definition from_raw :: "('w, 'm) libssh \<Rightarrow> u32 \<Rightarrow> SshRequest option" where
  "from_raw L v =
     (if v = SSH_REQUEST_AUTH L then Some REQUEST_AUTH
      else if v = SSH_REQUEST_CHANNEL_OPEN L then Some REQUEST_CHANNEL_OPEN
      else if v = SSH_REQUEST_CHANNEL L then Some REQUEST_CHANNEL
      else if v = SSH_REQUEST_SERVICE L then Some REQUEST_SERVICE
      else if v = SSH_REQUEST_GLOBAL L then Some REQUEST_GLOBAL
      else None)"

definition SshSession_connect :: "('w, 'm) libssh \<Rightarrow> 'w \<Rightarrow> (String + SshResult) \<times> 'w" where
  "SshSession_connect L w = (case ssh_connect L w of (r, w) \<Rightarrow> (cvt_io L r (SshSession_get_error L w), w))"

definition SshSession_handle_key_exchange :: "('w, 'm) libssh \<Rightarrow> 'w \<Rightarrow> (String + SshResult) \<times> 'w" where
  "SshSession_handle_key_exchange L w =
     (case ssh_handle_key_exchange L w of (r, w) \<Rightarrow> (cvt_io L r (SshSession_get_error L w), w))"

text \<open>A string with a NUL byte is no C string: \<open>unwrap\<close> of the user name panics, the password is an error.\<close>

datatype 'a panics = Panic | Returns 'a

definition SshSession_userauth_password ::
  "('w, 'm) libssh \<Rightarrow> String option \<Rightarrow> String \<Rightarrow> String \<Rightarrow> 'w \<Rightarrow> ((String + SshAuthResult) \<times> 'w) panics" where
  "SshSession_userauth_password L username password nul_error w =
     (case username of
        Some u \<Rightarrow> if 0 \<in> set u then Panic
          else if 0 \<in> set password then Returns (Inl nul_error, w)
          else (case ssh_userauth_password L (Some u) password w of (r, w) \<Rightarrow>
            Returns (cvt_auth L r (SshSession_get_error L w), w))
      | None \<Rightarrow>
          if 0 \<in> set password then Returns (Inl nul_error, w)
          else (case ssh_userauth_password L None password w of (r, w) \<Rightarrow>
            Returns (cvt_auth L r (SshSession_get_error L w), w)))"

definition SshMessage_typ :: "('w, 'm) libssh \<Rightarrow> 'm \<Rightarrow> 'w \<Rightarrow> String + SshRequest option" where
  "SshMessage_typ L message w =
     (case cvt_n (ssh_message_type L message w) (SshMessage_get_error w) of
        Inl e \<Rightarrow> Inl e
      | Inr r \<Rightarrow> Inr (from_raw L (word_of_int r)))"

definition SshMessage_reply_default :: "('w, 'm) libssh \<Rightarrow> 'm \<Rightarrow> 'w \<Rightarrow> (String + unit) \<times> 'w" where
  "SshMessage_reply_default L message w =
     (case ssh_message_reply_default L message w of (r, w) \<Rightarrow>
        (map_sum id (\<lambda>_. ()) (cvt_auth L r (SshMessage_get_error w)), w))"

definition SshMessage_auth_reply_success :: "('w, 'm) libssh \<Rightarrow> 'm \<Rightarrow> int \<Rightarrow> 'w \<Rightarrow> (String + unit) \<times> 'w" where
  "SshMessage_auth_reply_success L message partial w =
     (case ssh_message_auth_reply_success L message partial w of (r, w) \<Rightarrow>
        (map_sum id (\<lambda>_. ()) (cvt_auth L r (SshMessage_get_error w)), w))"

subsection \<open>The agent\<close>

datatype PutState = ExchangingKeys | Authenticating | Done

text \<open>\<open>ls_world\<close> is the session, both ends of the socket and what they share.\<close>

record 'w LibSSL =
  ls_world :: 'w
  ls_agent_descriptor :: AgentDescriptor
  ls_deframer :: SshMessageDeframer
  ls_state :: PutState

definition LibSSL_new :: "AgentDescriptor \<Rightarrow> 'w \<Rightarrow> 'w LibSSL" where
  "LibSSL_new agent_descriptor w =
     \<lparr>ls_world = w, ls_agent_descriptor = agent_descriptor, ls_deframer = SshMessageDeframer_new, ls_state = ExchangingKeys\<rparr>"

definition LibSSL_add_to_inbound :: "('w, 'm) libssh \<Rightarrow> RawSshMessage \<Rightarrow> 'w LibSSL \<Rightarrow> 'w LibSSL panics" where
  "LibSSL_add_to_inbound L result put =
     (let buffer = RawSshMessage_encode result [] in
      case socket_write_all L buffer (ls_world put) of
        (Inl _, w) \<Rightarrow> Panic
      | (Inr _, w) \<Rightarrow> Returns (put\<lparr>ls_world := w\<rparr>))"

partial_function (option) ssh_next_frame ::
  "('w, 'm) libssh \<Rightarrow> 'w LibSSL \<Rightarrow> ((puffin_Error + RawSshMessage option) \<times> 'w LibSSL) option" where
  "ssh_next_frame L put =
     (case sd_frames (ls_deframer put) of
        opaque_message # ms \<Rightarrow>
          Some (Inr (Some opaque_message), put\<lparr>ls_deframer := (ls_deframer put)\<lparr>sd_frames := ms\<rparr>\<rparr>)
      | [] \<Rightarrow>
          (case socket_read L (length (sd_buf (ls_deframer put)) - sd_used (ls_deframer put)) (ls_world put) of (rd, w) \<Rightarrow>
           case SshMessageDeframer_read (ls_deframer put) (\<lambda>_. rd) of (res, d) \<Rightarrow>
             (let put = put\<lparr>ls_world := w, ls_deframer := d\<rparr> in
              case res of
                Inr v \<Rightarrow> if v = 0 then Some (Inr None, put) else ssh_next_frame L put
              | Inl WouldBlock \<Rightarrow> Some (Inr None, put)
              | Inl (OtherError e) \<Rightarrow> Some (Inl (IO e), put))))"

primrec ssh_decode :: "RawSshMessage \<Rightarrow> SshMessage option" where
  "ssh_decode (Packet packet) = (case SshMessage_try_from packet of Inr message \<Rightarrow> Some message | Inl _ \<Rightarrow> None)"
| "ssh_decode (Banner _) = None"
| "ssh_decode (OnWire _) = None"

definition LibSSL_take_message_from_outbound ::
  "('w, 'm) libssh \<Rightarrow> 'w LibSSL \<Rightarrow> ((puffin_Error + (SshMessage option \<times> RawSshMessage) option) \<times> 'w LibSSL) option" where
  "LibSSL_take_message_from_outbound L put =
     map_option (\<lambda>(res, put).
       ((case res of
           Inl e \<Rightarrow> Inl e
         | Inr None \<Rightarrow> Inr None
         | Inr (Some opaque_message) \<Rightarrow> Inr (Some (ssh_decode opaque_message, opaque_message))), put))
       (ssh_next_frame L put)"

definition server_progress :: "('w, 'm) libssh \<Rightarrow> 'w LibSSL \<Rightarrow> 'w LibSSL panics" where
  "server_progress L put =
     (case ls_state put of
        ExchangingKeys \<Rightarrow>
          (case SshSession_handle_key_exchange L (ls_world put) of
             (Inr kex, w) \<Rightarrow>
               let put = put\<lparr>ls_world := w\<rparr> in
               Returns (if kex = SshOk then put\<lparr>ls_state := Authenticating\<rparr> else put)
           | (Inl err, w) \<Rightarrow> Panic)
      | Authenticating \<Rightarrow>
          (case ssh_message_get L (ls_world put) of
             (None, w) \<Rightarrow> Returns (put\<lparr>ls_world := w\<rparr>)
           | (Some message, w) \<Rightarrow>
               (case SshMessage_typ L message w of
                  Inl _ \<Rightarrow> Panic
                | Inr (Some REQUEST_AUTH) \<Rightarrow>
                    (case SshMessage_auth_reply_success L message 0 w of
                       (Inl _, w) \<Rightarrow> Panic
                     | (Inr _, w) \<Rightarrow> Returns (put\<lparr>ls_world := w, ls_state := Done\<rparr>))
                | Inr _ \<Rightarrow>
                    (case SshMessage_reply_default L message w of
                       (Inl _, w) \<Rightarrow> Panic
                     | (Inr _, w) \<Rightarrow> Returns (put\<lparr>ls_world := w\<rparr>))))
      | Done \<Rightarrow> Returns put)"

definition client_progress :: "('w, 'm) libssh \<Rightarrow> String \<Rightarrow> 'w LibSSL \<Rightarrow> 'w LibSSL panics" where
  "client_progress L nul_error put =
     (case ls_state put of
        ExchangingKeys \<Rightarrow>
          (case SshSession_connect L (ls_world put) of
             (Inr kex, w) \<Rightarrow>
               let put = put\<lparr>ls_world := w\<rparr> in
               Returns (if kex = SshOk then put\<lparr>ls_state := Authenticating\<rparr> else put)
           | (Inl err, w) \<Rightarrow> Panic)
      | Authenticating \<Rightarrow>
          (case SshSession_userauth_password L None (literal ''test'') nul_error (ls_world put) of
             Panic \<Rightarrow> Panic
           | Returns (Inr auth, w) \<Rightarrow>
               let put = put\<lparr>ls_world := w\<rparr> in
               Returns (if auth = AuthSuccess then put\<lparr>ls_state := Done\<rparr> else put)
           | Returns (Inl err, w) \<Rightarrow> Panic)
      | Done \<Rightarrow> Returns put)"

text \<open>\<open>progress\<close> returns \<open>Ok(())\<close> whenever it returns.\<close>

definition LibSSL_progress :: "('w, 'm) libssh \<Rightarrow> String \<Rightarrow> 'w LibSSL \<Rightarrow> 'w LibSSL panics" where
  "LibSSL_progress L nul_error put =
     (case ad_typ (ls_agent_descriptor put) of
        Server \<Rightarrow> server_progress L put
      | Client \<Rightarrow> client_progress L nul_error put)"

definition LibSSL_reset :: "AgentName \<Rightarrow> 'w LibSSL \<Rightarrow> 'w LibSSL panics" where
  "LibSSL_reset agent_name put = Panic"

definition LibSSL_rename_agent :: "AgentName \<Rightarrow> 'w LibSSL \<Rightarrow> 'w LibSSL panics" where
  "LibSSL_rename_agent agent_name put = Panic"

definition LibSSL_describe_state :: "'w LibSSL \<Rightarrow> string" where
  "LibSSL_describe_state put =
     (case ls_state put of
        ExchangingKeys \<Rightarrow> ''ExchangingKeys'' | Authenticating \<Rightarrow> ''Authenticating'' | Done \<Rightarrow> ''Done'')"

definition LibSSL_is_state_successful :: "('w, 'm) libssh \<Rightarrow> 'w LibSSL \<Rightarrow> bool" where
  "LibSSL_is_state_successful L put \<longleftrightarrow> ssh_session_state L (ls_world put) = SSH_SESSION_STATE_AUTHENTICATED L"

definition LibSSL_set_deterministic :: "'w LibSSL \<Rightarrow> (puffin_Error + unit) \<times> 'w LibSSL" where
  "LibSSL_set_deterministic put = (Inl (Put ''libssh does not support determinism''), put)"

subsection \<open>Messages from the socket\<close>

text \<open>The contract of \<open>Read\<close>: no more bytes than there is space for.\<close>

definition socket_ok :: "('w, 'm) libssh \<Rightarrow> bool" where
  "socket_ok L \<longleftrightarrow> (\<forall>n w bs w'. socket_read L n w = (Inr bs, w') \<longrightarrow> length bs \<le> n)"

lemma ssh_frames_Nil_iff: "ssh_frames bs = [] \<longleftrightarrow> bs = []"
  by (simp add: ssh_frames.simps [of bs] split: option.splits prod.splits)

lemma ssh_next_frame_queued:
  "sd_frames (ls_deframer put) = m # ms \<Longrightarrow>
     ssh_next_frame L put = Some (Inr (Some m), put\<lparr>ls_deframer := (ls_deframer put)\<lparr>sd_frames := ms\<rparr>\<rparr>)"
  by (subst ssh_next_frame.simps) simp

lemma ssh_deframer_ok_frames [simp]: "ssh_deframer_ok (d\<lparr>sd_frames := ms\<rparr>) = ssh_deframer_ok d"
  by (simp add: ssh_deframer_ok_def)

text \<open>With nothing queued the socket is read once: what arrives is at least one frame.\<close>

lemma ssh_next_frame_empty:
  assumes ok: "ssh_deframer_ok (ls_deframer put)" and sock: "socket_ok L"
    and none: "sd_frames (ls_deframer put) = []" and rd: "socket_read L SSH_MAX_WIRE_SIZE (ls_world put) = (rd, w)"
  obtains d where "ssh_deframer_ok d"
    "sd_frames d = (case rd of Inr bs \<Rightarrow> tl (ssh_frames bs) | Inl _ \<Rightarrow> [])"
    "ssh_next_frame L put = Some
      (case rd of
         Inr bs \<Rightarrow> Inr (if ssh_frames bs = [] then None else Some (hd (ssh_frames bs)))
       | Inl WouldBlock \<Rightarrow> Inr None
       | Inl (OtherError e) \<Rightarrow> Inl (IO e), put\<lparr>ls_world := w, ls_deframer := d\<rparr>)"
proof (cases rd)
  case (Inl e)
  let ?d = "ls_deframer put"
  from ok have sp: "length (sd_buf ?d) - sd_used ?d = SSH_MAX_WIRE_SIZE" by (simp add: ssh_deframer_ok_def)
  have "SshMessageDeframer_read ?d (\<lambda>_. rd) = (Inl e, ?d)" by (simp add: SshMessageDeframer_read_def Inl)
  then have "ssh_next_frame L put = Some (case e of WouldBlock \<Rightarrow> Inr None | OtherError e \<Rightarrow> Inl (IO e),
      put\<lparr>ls_world := w, ls_deframer := ?d\<rparr>)"
    using none rd sp Inl by (subst ssh_next_frame.simps) (simp add: Let_def split: io_Error.splits)
  with that [of ?d] ok none Inl show ?thesis by (simp split: io_Error.splits)
next
  case (Inr bs)
  let ?d = "ls_deframer put"
  from ok have sp: "length (sd_buf ?d) - sd_used ?d = SSH_MAX_WIRE_SIZE" by (simp add: ssh_deframer_ok_def)
  have len: "length bs \<le> SSH_MAX_WIRE_SIZE" using sock rd Inr by (auto simp: socket_ok_def)
  obtain d where d: "SshMessageDeframer_read ?d (\<lambda>_. rd) = (Inr (length bs), d)" "ssh_deframer_ok d"
    "sd_frames d = ssh_frames bs"
    using SshMessageDeframer_read_refines [OF ok _ len, of "\<lambda>_. rd"] Inr none by auto
  let ?put = "put\<lparr>ls_world := w, ls_deframer := d\<rparr>"
  have nf: "ssh_next_frame L put = (if bs = [] then Some (Inr None, ?put) else ssh_next_frame L ?put)"
    using none rd sp d(1) by (subst ssh_next_frame.simps) (simp add: Let_def)
  show ?thesis
  proof (cases "ssh_frames bs")
    case Nil
    with that [of d] d nf Inr show ?thesis by (simp add: ssh_frames_Nil_iff)
  next
    case (Cons m ms)
    then have "bs \<noteq> []" using ssh_frames_Nil_iff [of bs] by auto
    with nf ssh_next_frame_queued [of ?put m ms L] d Cons that [of "d\<lparr>sd_frames := ms\<rparr>"] Inr show ?thesis
      by simp
  qed
qed

text \<open>Packets that wrap a message are decoded to it.\<close>

lemma create_opaque_valid:
  assumes "length (get_encoding RawSshMessage_encode (SshMessage_create_opaque m)) \<le> SSH_MAX_WIRE_SIZE"
  shows "RawSshMessage_valid (SshMessage_create_opaque m)"
  using assms
  by (simp add: SshMessage_create_opaque_def Let_def RawSshMessage_bytes BinaryPacket_bytes BinaryPacket_valid_def bp_length_def
      SSH_MAX_WIRE_SIZE_def)

lemma ssh_decode_opaque: "SshMessage_valid m \<Longrightarrow> ssh_decode (SshMessage_create_opaque m) = Some m"
  using SshMessage_try_from_opaque [of m] by (auto simp: SshMessage_create_opaque_def Let_def)

subsection \<open>Phases\<close>

primrec phase :: "PutState \<Rightarrow> nat" where
  "phase ExchangingKeys = 0"
| "phase Authenticating = 1"
| "phase Done = 2"

instantiation PutState :: linorder
begin

definition less_eq_PutState :: "PutState \<Rightarrow> PutState \<Rightarrow> bool" where
  "less_eq_PutState a b \<longleftrightarrow> phase a \<le> phase b"

definition less_PutState :: "PutState \<Rightarrow> PutState \<Rightarrow> bool" where
  "less_PutState a b \<longleftrightarrow> phase a < phase b"

instance
proof
  fix x y :: PutState
  show "x \<le> y \<Longrightarrow> y \<le> x \<Longrightarrow> x = y" by (cases x; cases y) (simp_all add: less_eq_PutState_def)
qed (auto simp: less_eq_PutState_def less_PutState_def)

end

text \<open>One step of the state machine: the phase is kept or the next one, nothing but the phase and the world changes.\<close>

definition phase_step :: "'w LibSSL \<Rightarrow> 'w LibSSL panics \<Rightarrow> bool" where
  "phase_step put res \<longleftrightarrow>
     (case res of
        Panic \<Rightarrow> True
      | Returns put' \<Rightarrow>
          phase (ls_state put') \<in> {phase (ls_state put), phase (ls_state put) + 1}
          \<and> ls_agent_descriptor put' = ls_agent_descriptor put \<and> ls_deframer put' = ls_deframer put)"

lemma phase_step_simps [simp]:
  "phase_step put Panic"
  "phase_step put (Returns put') \<longleftrightarrow>
     phase (ls_state put') \<in> {phase (ls_state put), phase (ls_state put) + 1}
     \<and> ls_agent_descriptor put' = ls_agent_descriptor put \<and> ls_deframer put' = ls_deframer put"
  by (simp_all add: phase_step_def)

lemma server_progress_phase: "phase_step put (server_progress L put)"
  by (cases "ls_state put") (simp_all add: server_progress_def Let_def split: sum.split prod.split option.split SshRequest.split)

lemma client_progress_phase: "phase_step put (client_progress L nul put)"
  by (cases "ls_state put") (simp_all add: client_progress_def Let_def split: sum.split prod.split panics.split)

lemma LibSSL_progress_phase: "phase_step put (LibSSL_progress L nul put)"
  by (simp add: LibSSL_progress_def server_progress_phase client_progress_phase split: AgentType.split)

text \<open>What the executor does with an agent.\<close>

inductive put_step :: "('w, 'm) libssh \<Rightarrow> String \<Rightarrow> 'w LibSSL \<Rightarrow> 'w LibSSL \<Rightarrow> bool" for L nul where
  progress: "LibSSL_progress L nul put = Returns put' \<Longrightarrow> put_step L nul put put'"
| take: "LibSSL_take_message_from_outbound L put = Some (res, put') \<Longrightarrow> put_step L nul put put'"
| add: "LibSSL_add_to_inbound L m put = Returns put' \<Longrightarrow> put_step L nul put put'"

definition put_ok :: "'w LibSSL \<Rightarrow> bool" where
  "put_ok put \<longleftrightarrow> ssh_deframer_ok (ls_deframer put)"

lemma put_ok_new: "put_ok (LibSSL_new ad w)"
  by (simp add: put_ok_def LibSSL_new_def ssh_deframer_ok_new)

lemma take_message_frame:
  assumes "socket_ok L" "put_ok put" "LibSSL_take_message_from_outbound L put = Some (res, put')"
  shows "put_ok put' \<and> ls_state put' = ls_state put \<and> ls_agent_descriptor put' = ls_agent_descriptor put"
proof (cases "sd_frames (ls_deframer put)")
  case (Cons m ms)
  with assms(2,3) ssh_next_frame_queued [OF Cons, of L] show ?thesis
    by (auto simp: LibSSL_take_message_from_outbound_def put_ok_def)
next
  case Nil
  obtain rd w where rd: "socket_read L SSH_MAX_WIRE_SIZE (ls_world put) = (rd, w)" by fastforce
  have "ssh_deframer_ok (ls_deframer put)" using assms(2) by (simp add: put_ok_def)
  then obtain d res' where "ssh_deframer_ok d" "ssh_next_frame L put = Some (res', put\<lparr>ls_world := w, ls_deframer := d\<rparr>)"
    by (rule ssh_next_frame_empty [OF _ assms(1) Nil rd])
  with assms(3) show ?thesis by (auto simp: LibSSL_take_message_from_outbound_def put_ok_def)
qed

lemma put_step_frame:
  assumes "put_step L nul put put'" "socket_ok L" "put_ok put"
  shows "put_ok put' \<and> ls_state put \<le> ls_state put' \<and> phase (ls_state put') \<le> phase (ls_state put) + 1
    \<and> ls_agent_descriptor put' = ls_agent_descriptor put"
  using assms
proof (induction rule: put_step.induct)
  case (progress put put')
  then show ?case using LibSSL_progress_phase [of put L nul] by (auto simp: put_ok_def less_eq_PutState_def)
next
  case (take put res put')
  then show ?case using take_message_frame [OF take(2,3,1)] by simp
next
  case (add m put put')
  then show ?case by (auto simp: LibSSL_add_to_inbound_def Let_def put_ok_def split: prod.splits sum.splits)
qed

end
