(* ===== verification/Ssh_Protocol.thy ===== *)
theory Ssh_Protocol
  imports Ssh_Put Tls_Term_Macro
begin

text \<open>
  SSH as an instance of the fuzzer: the functions of \<open>sshpuffin/src/ssh/fn_constants.rs\<close> and \<open>fn_message.rs\<close>, the signature of \<open>ssh/mod.rs\<close>, the
  claims, the policy and \<open>SshProtocolBehavior\<close>, and the seed of \<open>ssh/seeds.rs\<close>.

  Parameters (\<open>ssh_env\<close>): what \<open>std::any\<close> says of types and functions. The code that builds the seed uses the combinators of
  \<open>Tls_Term_Macro\<close>. The lemmas: each function is total on its argument types; the seed builds and all its recipes are well typed; but
  none of the functions it uses is in the signature.
\<close>

subsection \<open>Functions\<close>

definition ssh_fn_true :: "bool Fn" where "ssh_fn_true = Inr True"
definition ssh_fn_false :: "bool Fn" where "ssh_fn_false = Inr False"
definition ssh_fn_seq_0 :: "u64 Fn" where "ssh_fn_seq_0 = Inr 0"
definition ssh_fn_seq_1 :: "u64 Fn" where "ssh_fn_seq_1 = Inr 1"
definition ssh_fn_seq_2 :: "u64 Fn" where "ssh_fn_seq_2 = Inr 2"
definition ssh_fn_seq_3 :: "u64 Fn" where "ssh_fn_seq_3 = Inr 3"
definition ssh_fn_seq_4 :: "u64 Fn" where "ssh_fn_seq_4 = Inr 4"
definition ssh_fn_seq_5 :: "u64 Fn" where "ssh_fn_seq_5 = Inr 5"
definition ssh_fn_seq_6 :: "u64 Fn" where "ssh_fn_seq_6 = Inr 6"
definition ssh_fn_seq_7 :: "u64 Fn" where "ssh_fn_seq_7 = Inr 7"
definition ssh_fn_seq_8 :: "u64 Fn" where "ssh_fn_seq_8 = Inr 8"
definition ssh_fn_seq_9 :: "u64 Fn" where "ssh_fn_seq_9 = Inr 9"
definition ssh_fn_seq_10 :: "u64 Fn" where "ssh_fn_seq_10 = Inr 10"
definition ssh_fn_seq_11 :: "u64 Fn" where "ssh_fn_seq_11 = Inr 11"
definition ssh_fn_seq_12 :: "u64 Fn" where "ssh_fn_seq_12 = Inr 12"
definition ssh_fn_seq_13 :: "u64 Fn" where "ssh_fn_seq_13 = Inr 13"
definition ssh_fn_seq_14 :: "u64 Fn" where "ssh_fn_seq_14 = Inr 14"
definition ssh_fn_seq_15 :: "u64 Fn" where "ssh_fn_seq_15 = Inr 15"
definition ssh_fn_seq_16 :: "u64 Fn" where "ssh_fn_seq_16 = Inr 16"
definition ssh_fn_empty_bytes_vec :: "bytes Fn" where "ssh_fn_empty_bytes_vec = Inr []"

definition ssh_fn_raw_message :: "RawSshMessage \<Rightarrow> RawSshMessage Fn" where
  "ssh_fn_raw_message message = Inr message"

definition ssh_fn_onwire_message :: "OnWireData \<Rightarrow> RawSshMessage Fn" where
  "ssh_fn_onwire_message data = Inr (OnWire data)"

definition ssh_fn_banner :: "String \<Rightarrow> RawSshMessage Fn" where
  "ssh_fn_banner banner = Inr (Banner banner)"

definition ssh_fn_kex_ecdh_reply :: "bytes \<Rightarrow> bytes \<Rightarrow> bytes \<Rightarrow> SshMessage Fn" where
  "ssh_fn_kex_ecdh_reply public_host_key ephemeral_public_key signature =
     Inr (KexEcdhReply \<lparr>kr_public_host_key = public_host_key, kr_ephemeral_public_key = ephemeral_public_key,
       kr_signature = signature\<rparr>)"

definition ssh_fn_kex_init ::
  "bytes \<Rightarrow> KexAlgorithms \<Rightarrow> SignatureSchemes \<Rightarrow> EncryptionAlgorithms \<Rightarrow> EncryptionAlgorithms \<Rightarrow> MacAlgorithms
     \<Rightarrow> MacAlgorithms \<Rightarrow> CompressionAlgorithms \<Rightarrow> CompressionAlgorithms \<Rightarrow> SshMessage Fn" where
  "ssh_fn_kex_init cookie kex host_key enc_sc enc_cs mac_cs mac_sc comp_cs comp_sc =
     Inr (KexInit \<lparr>ki_cookie = cookie, ki_kex_algorithms = kex, ki_server_host_key_algorithms = host_key,
       ki_encryption_algorithms_server_to_client = enc_sc, ki_encryption_algorithms_client_to_server = enc_cs,
       ki_mac_algorithms_client_to_server = mac_cs, ki_mac_algorithms_server_to_client = mac_sc,
       ki_compression_algorithms_client_to_server = comp_cs, ki_compression_algorithms_server_to_client = comp_sc,
       ki_languages_client_to_server = NameList_empty, ki_languages_server_to_client = NameList_empty,
       ki_first_kex_packet_follows = False\<rparr>)"

subsection \<open>Types\<close>

datatype ssh_type =
    ST_Bool
  | ST_U64
  | ST_Bytes
  | ST_String
  | ST_Cookie
  | ST_NameList
  | ST_KexAlgorithms
  | ST_SignatureSchemes
  | ST_EncryptionAlgorithms
  | ST_MacAlgorithms
  | ST_CompressionAlgorithms
  | ST_OnWireData
  | ST_RawMessage
  | ST_Message

primrec ssh_value_type :: "ssh_value \<Rightarrow> ssh_type" where
  "ssh_value_type (SBool _) = ST_Bool"
| "ssh_value_type (SU64 _) = ST_U64"
| "ssh_value_type (SBytes _) = ST_Bytes"
| "ssh_value_type (SString _) = ST_String"
| "ssh_value_type (SCookie _) = ST_Cookie"
| "ssh_value_type (SNameList _) = ST_NameList"
| "ssh_value_type (SKexAlgorithms _) = ST_KexAlgorithms"
| "ssh_value_type (SSignatureSchemes _) = ST_SignatureSchemes"
| "ssh_value_type (SEncryptionAlgorithms _) = ST_EncryptionAlgorithms"
| "ssh_value_type (SMacAlgorithms _) = ST_MacAlgorithms"
| "ssh_value_type (SCompressionAlgorithms _) = ST_CompressionAlgorithms"
| "ssh_value_type (SOnWireData _) = ST_OnWireData"
| "ssh_value_type (SRawMessage _) = ST_RawMessage"
| "ssh_value_type (SMessage _) = ST_Message"

text \<open>The casts of the dynamic wrappers.\<close>

fun as_Bytes :: "ssh_value \<Rightarrow> bytes option" where
  "as_Bytes (SBytes x) = Some x"
| "as_Bytes _ = None"

fun as_String :: "ssh_value \<Rightarrow> String option" where
  "as_String (SString x) = Some x"
| "as_String _ = None"

fun as_Cookie :: "ssh_value \<Rightarrow> bytes option" where
  "as_Cookie (SCookie x) = Some x"
| "as_Cookie _ = None"

fun as_KexAlgorithms :: "ssh_value \<Rightarrow> KexAlgorithms option" where
  "as_KexAlgorithms (SKexAlgorithms x) = Some x"
| "as_KexAlgorithms _ = None"

fun as_SignatureSchemes :: "ssh_value \<Rightarrow> SignatureSchemes option" where
  "as_SignatureSchemes (SSignatureSchemes x) = Some x"
| "as_SignatureSchemes _ = None"

fun as_EncryptionAlgorithms :: "ssh_value \<Rightarrow> EncryptionAlgorithms option" where
  "as_EncryptionAlgorithms (SEncryptionAlgorithms x) = Some x"
| "as_EncryptionAlgorithms _ = None"

fun as_MacAlgorithms :: "ssh_value \<Rightarrow> MacAlgorithms option" where
  "as_MacAlgorithms (SMacAlgorithms x) = Some x"
| "as_MacAlgorithms _ = None"

fun as_CompressionAlgorithms :: "ssh_value \<Rightarrow> CompressionAlgorithms option" where
  "as_CompressionAlgorithms (SCompressionAlgorithms x) = Some x"
| "as_CompressionAlgorithms _ = None"

fun as_OnWireData :: "ssh_value \<Rightarrow> OnWireData option" where
  "as_OnWireData (SOnWireData x) = Some x"
| "as_OnWireData _ = None"

fun as_RawMessage :: "ssh_value \<Rightarrow> RawSshMessage option" where
  "as_RawMessage (SRawMessage x) = Some x"
| "as_RawMessage _ = None"

fun as_Message :: "ssh_value \<Rightarrow> SshMessage option" where
  "as_Message (SMessage x) = Some x"
| "as_Message _ = None"

lemma as_Some_iff [simp]:
  "as_Bytes v = None \<longleftrightarrow> ssh_value_type v \<noteq> ST_Bytes"
  "as_String v = None \<longleftrightarrow> ssh_value_type v \<noteq> ST_String"
  "as_Cookie v = None \<longleftrightarrow> ssh_value_type v \<noteq> ST_Cookie"
  "as_KexAlgorithms v = None \<longleftrightarrow> ssh_value_type v \<noteq> ST_KexAlgorithms"
  "as_SignatureSchemes v = None \<longleftrightarrow> ssh_value_type v \<noteq> ST_SignatureSchemes"
  "as_EncryptionAlgorithms v = None \<longleftrightarrow> ssh_value_type v \<noteq> ST_EncryptionAlgorithms"
  "as_MacAlgorithms v = None \<longleftrightarrow> ssh_value_type v \<noteq> ST_MacAlgorithms"
  "as_CompressionAlgorithms v = None \<longleftrightarrow> ssh_value_type v \<noteq> ST_CompressionAlgorithms"
  "as_OnWireData v = None \<longleftrightarrow> ssh_value_type v \<noteq> ST_OnWireData"
  "as_RawMessage v = None \<longleftrightarrow> ssh_value_type v \<noteq> ST_RawMessage"
  "as_Message v = None \<longleftrightarrow> ssh_value_type v \<noteq> ST_Message"
  by (cases v; simp)+

subsection \<open>Symbols\<close>

datatype ssh_fn =
    Ssh_true | Ssh_false
  | Ssh_seq_0 | Ssh_seq_1 | Ssh_seq_2 | Ssh_seq_3 | Ssh_seq_4 | Ssh_seq_5 | Ssh_seq_6 | Ssh_seq_7 | Ssh_seq_8 | Ssh_seq_9 | Ssh_seq_10 | Ssh_seq_11 | Ssh_seq_12 | Ssh_seq_13 | Ssh_seq_14 | Ssh_seq_15 | Ssh_seq_16
  | Ssh_empty_bytes_vec
  | Ssh_raw_message | Ssh_onwire_message | Ssh_banner | Ssh_kex_ecdh_reply | Ssh_kex_init

definition kex_init_args :: "ssh_type list" where
  "kex_init_args = [ST_Cookie, ST_KexAlgorithms, ST_SignatureSchemes, ST_EncryptionAlgorithms, ST_EncryptionAlgorithms,
     ST_MacAlgorithms, ST_MacAlgorithms, ST_CompressionAlgorithms, ST_CompressionAlgorithms]"

fun ssh_args :: "ssh_fn \<Rightarrow> ssh_type list" where
  "ssh_args Ssh_raw_message = [ST_RawMessage]"
| "ssh_args Ssh_onwire_message = [ST_OnWireData]"
| "ssh_args Ssh_banner = [ST_String]"
| "ssh_args Ssh_kex_ecdh_reply = [ST_Bytes, ST_Bytes, ST_Bytes]"
| "ssh_args Ssh_kex_init = kex_init_args"
| "ssh_args _ = []"

fun ssh_ret :: "ssh_fn \<Rightarrow> ssh_type" where
  "ssh_ret Ssh_true = ST_Bool"
| "ssh_ret Ssh_false = ST_Bool"
| "ssh_ret Ssh_empty_bytes_vec = ST_Bytes"
| "ssh_ret Ssh_raw_message = ST_RawMessage"
| "ssh_ret Ssh_onwire_message = ST_RawMessage"
| "ssh_ret Ssh_banner = ST_RawMessage"
| "ssh_ret Ssh_kex_ecdh_reply = ST_Message"
| "ssh_ret Ssh_kex_init = ST_Message"
| "ssh_ret _ = ST_U64"

text \<open>A call with values of other types, which the dynamic wrapper rules out, is \<open>None\<close>.\<close>

definition call0 :: "('a \<Rightarrow> ssh_value) \<Rightarrow> 'a Fn \<Rightarrow> ssh_value list \<Rightarrow> ssh_value Fn option" where
  "call0 box r vs = (if vs = [] then Some (map_sum id box r) else None)"

definition call_kex_init :: "ssh_value list \<Rightarrow> ssh_value Fn option" where
  "call_kex_init vs =
     (case vs of
        [a, b, c, d, e, f, g, h, i] \<Rightarrow> do {
          a \<leftarrow> as_Cookie a; b \<leftarrow> as_KexAlgorithms b; c \<leftarrow> as_SignatureSchemes c;
          d \<leftarrow> as_EncryptionAlgorithms d; e \<leftarrow> as_EncryptionAlgorithms e;
          f \<leftarrow> as_MacAlgorithms f; g \<leftarrow> as_MacAlgorithms g;
          h \<leftarrow> as_CompressionAlgorithms h; i \<leftarrow> as_CompressionAlgorithms i;
          Some (map_sum id SMessage (ssh_fn_kex_init a b c d e f g h i)) }
      | _ \<Rightarrow> None)"

primrec ssh_call :: "ssh_fn \<Rightarrow> ssh_value list \<Rightarrow> ssh_value Fn option" where
  "ssh_call Ssh_true vs = call0 SBool ssh_fn_true vs"
| "ssh_call Ssh_false vs = call0 SBool ssh_fn_false vs"
| "ssh_call Ssh_seq_0 vs = call0 SU64 ssh_fn_seq_0 vs"
| "ssh_call Ssh_seq_1 vs = call0 SU64 ssh_fn_seq_1 vs"
| "ssh_call Ssh_seq_2 vs = call0 SU64 ssh_fn_seq_2 vs"
| "ssh_call Ssh_seq_3 vs = call0 SU64 ssh_fn_seq_3 vs"
| "ssh_call Ssh_seq_4 vs = call0 SU64 ssh_fn_seq_4 vs"
| "ssh_call Ssh_seq_5 vs = call0 SU64 ssh_fn_seq_5 vs"
| "ssh_call Ssh_seq_6 vs = call0 SU64 ssh_fn_seq_6 vs"
| "ssh_call Ssh_seq_7 vs = call0 SU64 ssh_fn_seq_7 vs"
| "ssh_call Ssh_seq_8 vs = call0 SU64 ssh_fn_seq_8 vs"
| "ssh_call Ssh_seq_9 vs = call0 SU64 ssh_fn_seq_9 vs"
| "ssh_call Ssh_seq_10 vs = call0 SU64 ssh_fn_seq_10 vs"
| "ssh_call Ssh_seq_11 vs = call0 SU64 ssh_fn_seq_11 vs"
| "ssh_call Ssh_seq_12 vs = call0 SU64 ssh_fn_seq_12 vs"
| "ssh_call Ssh_seq_13 vs = call0 SU64 ssh_fn_seq_13 vs"
| "ssh_call Ssh_seq_14 vs = call0 SU64 ssh_fn_seq_14 vs"
| "ssh_call Ssh_seq_15 vs = call0 SU64 ssh_fn_seq_15 vs"
| "ssh_call Ssh_seq_16 vs = call0 SU64 ssh_fn_seq_16 vs"
| "ssh_call Ssh_empty_bytes_vec vs = call0 SBytes ssh_fn_empty_bytes_vec vs"
| "ssh_call Ssh_raw_message vs =
     (case vs of [a] \<Rightarrow> do { a \<leftarrow> as_RawMessage a; Some (map_sum id SRawMessage (ssh_fn_raw_message a)) } | _ \<Rightarrow> None)"
| "ssh_call Ssh_onwire_message vs =
     (case vs of [a] \<Rightarrow> do { a \<leftarrow> as_OnWireData a; Some (map_sum id SRawMessage (ssh_fn_onwire_message a)) } | _ \<Rightarrow> None)"
| "ssh_call Ssh_banner vs =
     (case vs of [a] \<Rightarrow> do { a \<leftarrow> as_String a; Some (map_sum id SRawMessage (ssh_fn_banner a)) } | _ \<Rightarrow> None)"
| "ssh_call Ssh_kex_ecdh_reply vs =
     (case vs of
        [a, b, c] \<Rightarrow> do {
          a \<leftarrow> as_Bytes a; b \<leftarrow> as_Bytes b; c \<leftarrow> as_Bytes c;
          Some (map_sum id SMessage (ssh_fn_kex_ecdh_reply a b c)) }
      | _ \<Rightarrow> None)"
| "ssh_call Ssh_kex_init vs = call_kex_init vs"

text \<open>\<open>define_signature!\<close> in \<open>ssh/mod.rs\<close>: only the constants.\<close>

definition SSH_SIGNATURE_symbols :: "ssh_fn list" where
  "SSH_SIGNATURE_symbols =
     [Ssh_true, Ssh_false, Ssh_seq_0, Ssh_seq_1, Ssh_seq_2, Ssh_seq_3, Ssh_seq_4, Ssh_seq_5, Ssh_seq_6, Ssh_seq_7, Ssh_seq_8,
      Ssh_seq_9, Ssh_seq_10, Ssh_seq_11, Ssh_seq_12, Ssh_seq_13, Ssh_seq_14, Ssh_seq_15, Ssh_seq_16, Ssh_empty_bytes_vec]"

record ssh_env =
  senv_type_shape :: "ssh_type \<Rightarrow> TypeShape"
  senv_fn_name :: "ssh_fn \<Rightarrow> string"

definition ssh_shape :: "ssh_env \<Rightarrow> ssh_fn \<Rightarrow> DynamicFunctionShape" where
  "ssh_shape E f =
     \<lparr>dfs_name = senv_fn_name E f, dfs_argument_types = map (senv_type_shape E) (ssh_args f),
      dfs_return_type = senv_type_shape E (ssh_ret f)\<rparr>"

definition ssh_symbol_call :: "ssh_fn \<Rightarrow> ssh_value list \<Rightarrow> FnError + ssh_value" where
  "ssh_symbol_call f vs = (case ssh_call f vs of Some r \<Rightarrow> r | None \<Rightarrow> Inl FnPanic)"

definition ssh_dynamic :: "(TypeId \<Rightarrow> string) \<Rightarrow> ssh_env \<Rightarrow> ssh_fn \<Rightarrow> ssh_value DynamicFunction" where
  "ssh_dynamic hex E f = make_dynamic hex (ssh_shape E f) (ssh_symbol_call f)"

definition SSH_SIGNATURE :: "(TypeId \<Rightarrow> string) \<Rightarrow> ssh_env \<Rightarrow> ssh_value Signature" where
  "SSH_SIGNATURE hex E = Signature_new (map (\<lambda>f. (ssh_shape E f, ssh_dynamic hex E f)) SSH_SIGNATURE_symbols)"

subsection \<open>The instance\<close>

datatype SshClaimInner = SshClaimInner

record SshClaim =
  sc_agent_name :: AgentName
  sc_inner :: SshClaimInner

definition SshClaim_agent_name :: "SshClaim \<Rightarrow> AgentName" where
  "SshClaim_agent_name c = sc_agent_name c"

definition SshClaim_id :: "TypeShape \<Rightarrow> SshClaim \<Rightarrow> TypeShape" where
  "SshClaim_id inner_shape c = inner_shape"

text \<open>The box holds a \<open>Box<SshClaimInner>\<close>, not what \<open>id\<close> names.\<close>

definition SshClaim_inner :: "TypeShape \<Rightarrow> SshClaim \<Rightarrow> SshClaimInner Any" where
  "SshClaim_inner box_shape c = \<lparr>any_type = inner_type_id box_shape, any_val = sc_inner c\<rparr>"

definition ssh_check_violation :: "'c list \<Rightarrow> string option" where
  "ssh_check_violation claims = None"

definition ssh_create_corpus :: "((unit, ssh_value) Trace \<times> string) list" where
  "ssh_create_corpus = []"

definition ssh_box :: "ssh_env \<Rightarrow> ssh_value \<Rightarrow> ssh_value Any" where
  "ssh_box E v = \<lparr>any_type = inner_type_id (senv_type_shape E (ssh_value_type v)), any_val = v\<rparr>"

definition ssh_behavior ::
  "ssh_env \<Rightarrow> (unit, ssh_value, 'p, SshMessage, RawSshMessage) Protocol \<Rightarrow> (unit, ssh_value, 'p, SshMessage, RawSshMessage) Protocol" where
  "ssh_behavior E P =
     P\<lparr>pb_matcher := AnyMatcher,
       downcast_message := (\<lambda>a. if any_type a = inner_type_id (senv_type_shape E ST_Message) then as_Message (any_val a) else None),
       downcast_opaque := (\<lambda>a. if any_type a = inner_type_id (senv_type_shape E ST_RawMessage) then as_RawMessage (any_val a) else None),
       create_opaque := SshMessage_create_opaque,
       message_knowledge := (\<lambda>m. Inr (map (ssh_box E) (SshMessage_extract_knowledge m))),
       opaque_knowledge := (\<lambda>m. Inr (map (ssh_box E) (RawSshMessage_extract_knowledge m))),
       matcher_try_from := (\<lambda>_. Inr ()),
       check_violation := ssh_check_violation\<rparr>"

subsection \<open>The seed\<close>

text \<open>The bodies of \<open>term!\<close> that the seed uses: a query, with the type it may name, and a function.\<close>

datatype ssh_term =
    SshVar AgentName u16 "ssh_type option"
  | SshApp ssh_fn "ssh_term list"

fun ssh_term_macro ::
  "(TypeId \<Rightarrow> string) \<Rightarrow> ssh_env \<Rightarrow> 'r Rand \<Rightarrow> ssh_term \<Rightarrow> TypeShape option \<Rightarrow> ('r, (unit, ssh_value) Term) build"
  and ssh_term_args ::
  "(TypeId \<Rightarrow> string) \<Rightarrow> ssh_env \<Rightarrow> 'r Rand \<Rightarrow> ssh_term list \<Rightarrow> TypeShape list \<Rightarrow> ('r, (unit, ssh_value) Term list) build" where
  "ssh_term_macro hex E R (SshVar agent counter T) req_type =
     (case (case T of Some T \<Rightarrow> Some (senv_type_shape E T) | None \<Rightarrow> req_type) of
        None \<Rightarrow> build_panic
      | Some shape \<Rightarrow>
          build_bind (build_rand (new_var R shape agent None counter)) (\<lambda>var. build_return (Term.Variable var)))"
| "ssh_term_macro hex E R (SshApp f args) req_type =
     build_bind (build_rand (Function_new R (ssh_shape E f) (ssh_dynamic hex E f))) (\<lambda>func.
     build_bind (ssh_term_args hex E R args (dfs_argument_types (Function_shape func))) (\<lambda>arguments.
     build_return (Term.Application func arguments)))"
| "ssh_term_args hex E R [] Ts = build_return []"
| "ssh_term_args hex E R (a # as) [] = build_panic"
| "ssh_term_args hex E R (a # as) (argument # Ts) =
     build_bind (ssh_term_macro hex E R a (Some argument)) (\<lambda>t.
     build_bind (ssh_term_args hex E R as Ts) (\<lambda>ts.
     build_return (t # ts)))"

datatype ssh_step = SshOut AgentName | SshIn AgentName ssh_term

primrec ssh_build_step ::
  "(TypeId \<Rightarrow> string) \<Rightarrow> ssh_env \<Rightarrow> 'r Rand \<Rightarrow> ssh_step \<Rightarrow> ('r, (unit, ssh_value) Step) build" where
  "ssh_build_step hex E R (SshOut agent) = build_return (OutputAction_new_step agent)"
| "ssh_build_step hex E R (SshIn agent t) =
     build_bind (ssh_term_macro hex E R t None) (\<lambda>r. build_return (InputAction_new_step agent r))"

primrec ssh_build_steps ::
  "(TypeId \<Rightarrow> string) \<Rightarrow> ssh_env \<Rightarrow> 'r Rand \<Rightarrow> ssh_step list \<Rightarrow> ('r, (unit, ssh_value) Step list) build" where
  "ssh_build_steps hex E R [] = build_return []"
| "ssh_build_steps hex E R (x # xs) =
     build_bind (ssh_build_step hex E R x) (\<lambda>step. build_bind (ssh_build_steps hex E R xs) (\<lambda>ss. build_return (step # ss)))"

definition ssh_descriptor :: "AgentName \<Rightarrow> AgentType \<Rightarrow> AgentDescriptor" where
  "ssh_descriptor agent role =
     \<lparr>ad_name = agent, ad_tls_version = V1_3, ad_typ = role, ad_try_reuse = False, ad_client_authentication = False,
      ad_server_authentication = False\<rparr>"

definition seed_successful_steps :: "AgentName \<Rightarrow> AgentName \<Rightarrow> ssh_step list" where
  "seed_successful_steps client server =
     [SshOut client,
      SshIn server (SshApp Ssh_banner [SshVar client 0 None]),
      SshIn client (SshApp Ssh_banner [SshVar server 0 None]),
      SshIn server (SshApp Ssh_kex_init [SshVar client 0 (Some ST_Cookie), SshVar client 0 (Some ST_KexAlgorithms),
        SshVar client 0 (Some ST_SignatureSchemes), SshVar client 0 (Some ST_EncryptionAlgorithms),
        SshVar client 1 (Some ST_EncryptionAlgorithms), SshVar client 0 (Some ST_MacAlgorithms), SshVar client 1 (Some ST_MacAlgorithms),
        SshVar client 0 (Some ST_CompressionAlgorithms), SshVar client 1 (Some ST_CompressionAlgorithms)]),
      SshIn client (SshApp Ssh_kex_init [SshVar server 0 (Some ST_Cookie), SshVar server 0 (Some ST_KexAlgorithms),
        SshVar server 0 (Some ST_SignatureSchemes), SshVar server 0 (Some ST_EncryptionAlgorithms),
        SshVar server 1 (Some ST_EncryptionAlgorithms), SshVar server 0 (Some ST_MacAlgorithms), SshVar server 1 (Some ST_MacAlgorithms),
        SshVar server 0 (Some ST_CompressionAlgorithms), SshVar server 1 (Some ST_CompressionAlgorithms)]),
      SshIn server (SshApp Ssh_raw_message [SshVar client 2 (Some ST_RawMessage)]),
      SshIn client (SshApp Ssh_kex_ecdh_reply [SshVar server 0 (Some ST_Bytes), SshVar server 1 (Some ST_Bytes), SshVar server 2 (Some ST_Bytes)]),
      SshIn server (SshApp Ssh_raw_message [SshVar client 3 (Some ST_RawMessage)]),
      SshIn client (SshApp Ssh_raw_message [SshVar server 3 (Some ST_RawMessage)]),
      SshIn client (SshApp Ssh_onwire_message [SshVar server 0 (Some ST_OnWireData)]),
      SshIn server (SshApp Ssh_onwire_message [SshVar client 0 (Some ST_OnWireData)]),
      SshIn client (SshApp Ssh_onwire_message [SshVar server 1 (Some ST_OnWireData)]),
      SshIn server (SshApp Ssh_onwire_message [SshVar client 1 (Some ST_OnWireData)]),
      SshIn client (SshApp Ssh_onwire_message [SshVar server 2 (Some ST_OnWireData)])]"

definition ssh_seed_successful ::
  "(TypeId \<Rightarrow> string) \<Rightarrow> ssh_env \<Rightarrow> 'r Rand \<Rightarrow> AgentName \<Rightarrow> AgentName \<Rightarrow> ('r, (unit, ssh_value) Trace) build" where
  "ssh_seed_successful hex E R client server =
     build_bind (ssh_build_steps hex E R (seed_successful_steps client server)) (\<lambda>ss.
     build_return (Trace [ssh_descriptor client AgentType.Client, ssh_descriptor server AgentType.Server] ss []))"

subsection \<open>Every function is total on its types\<close>

lemma call0_None [simp]: "call0 box r vs = None \<longleftrightarrow> vs \<noteq> []"
  by (simp add: call0_def)

lemma call_kex_init_None: "call_kex_init vs = None \<longleftrightarrow> map ssh_value_type vs \<noteq> kex_init_args"
  by (auto simp: call_kex_init_def kex_init_args_def Option.bind_eq_None_conv split: list.split)

lemma ssh_call_None_iff: "ssh_call f vs = None \<longleftrightarrow> map ssh_value_type vs \<noteq> ssh_args f"
  by (cases f) (auto simp: call_kex_init_None Option.bind_eq_None_conv split: list.split)

lemma map_sum_Inr_iff [simp]: "map_sum id f r = Inr v \<longleftrightarrow> (\<exists>x. r = Inr x \<and> v = f x)"
  by (cases r) auto

lemma call0_Some: "call0 box r vs = Some (Inr v) \<Longrightarrow> \<exists>x. v = box x"
  by (auto simp: call0_def split: if_splits)

lemma ssh_call_type: "ssh_call f vs = Some (Inr v) \<Longrightarrow> ssh_value_type v = ssh_ret f"
  by (cases f) (auto simp: call_kex_init_def dest!: call0_Some split: list.split_asm bind_split_asm)

subsection \<open>The seed is well typed\<close>

fun ssh_has_type :: "ssh_term \<Rightarrow> ssh_type \<Rightarrow> bool" and ssh_have_types :: "ssh_term list \<Rightarrow> ssh_type list \<Rightarrow> bool" where
  "ssh_has_type (SshVar agent counter T') T \<longleftrightarrow> (case T' of None \<Rightarrow> True | Some T' \<Rightarrow> T' = T)"
| "ssh_has_type (SshApp f args) T \<longleftrightarrow> ssh_ret f = T \<and> ssh_have_types args (ssh_args f)"
| "ssh_have_types [] Ts \<longleftrightarrow> Ts = []"
| "ssh_have_types (a # as) [] \<longleftrightarrow> False"
| "ssh_have_types (a # as) (T # Ts) \<longleftrightarrow> ssh_has_type a T \<and> ssh_have_types as Ts"

definition ssh_function :: "(TypeId \<Rightarrow> string) \<Rightarrow> ssh_env \<Rightarrow> ssh_value Function \<Rightarrow> bool" where
  "ssh_function hex E g \<longleftrightarrow> (\<exists>f. Function_shape g = ssh_shape E f \<and> Function_dynamic_fn g = ssh_dynamic hex E f)"

definition ssh_typed_term :: "(TypeId \<Rightarrow> string) \<Rightarrow> ssh_env \<Rightarrow> ssh_type \<Rightarrow> (unit, ssh_value) Term \<Rightarrow> bool" where
  "ssh_typed_term hex E T t \<longleftrightarrow>
     well_typed t \<and> functions_sat (ssh_function hex E) t \<and> get_type_shape t = senv_type_shape E T"

lemma ssh_typed_args:
  "list_all2 (ssh_typed_term hex E) Ts us \<Longrightarrow>
     map get_type_shape us = map (senv_type_shape E) Ts \<and> list_all well_typed us \<and> list_all (functions_sat (ssh_function hex E)) us"
  by (induction rule: list_all2_induct) (auto simp: ssh_typed_term_def)

lemma ssh_typed_app:
  assumes "Function_shape g = ssh_shape E f" "Function_dynamic_fn g = ssh_dynamic hex E f"
    and "list_all2 (ssh_typed_term hex E) (ssh_args f) us"
  shows "ssh_typed_term hex E (ssh_ret f) (Term.Application g us)"
proof -
  note us = ssh_typed_args [OF assms(3)]
  from arg_cong [OF us [THEN conjunct1], of "map inner_type_id"]
  have "map type_of us = map (\<lambda>T. inner_type_id (senv_type_shape E T)) (ssh_args f)" by (simp add: comp_def)
  with us assms(1,2) show ?thesis by (auto simp: ssh_typed_term_def ssh_function_def ssh_shape_def comp_def)
qed

lemma ssh_builds_both:
  shows "ssh_has_type t T \<Longrightarrow> req = Some (senv_type_shape E T) \<or> (\<exists>f args. t = SshApp f args) \<Longrightarrow>
      builds (ssh_typed_term hex E T) (ssh_term_macro hex E R t req)"
    and "ssh_have_types ts Ts \<Longrightarrow>
      builds (list_all2 (ssh_typed_term hex E) Ts) (ssh_term_args hex E R ts (map (senv_type_shape E) Ts))"
proof (induction t T and ts Ts arbitrary: req rule: ssh_has_type_ssh_have_types.induct)
  case (1 agent counter T' T)
  then show ?case
    by (auto simp: ssh_typed_term_def new_var_def Variable_new_def
        intro!: builds_bind [OF builds_rand [where P = "\<lambda>v. var_typ v = senv_type_shape E T"]]
        builds_return split: option.splits prod.splits)
next
  case (2 f args T)
  let ?f = "\<lambda>g. Function_shape g = ssh_shape E f \<and> Function_dynamic_fn g = ssh_dynamic hex E f"
  have shape: "dfs_argument_types (ssh_shape E f) = map (senv_type_shape E) (ssh_args f)" by (simp add: ssh_shape_def)
  show ?case unfolding ssh_term_macro.simps
  proof (rule builds_bind [where P = ?f])
    show "builds ?f (build_rand (Function_new R (ssh_shape E f) (ssh_dynamic hex E f)))"
      by (rule builds_rand) (auto simp: Function_new_def Function_shape_def Function_dynamic_fn_def split: prod.splits)
    show "builds (ssh_typed_term hex E T) (build_bind (ssh_term_args hex E R args (dfs_argument_types (Function_shape g)))
        (\<lambda>as. build_return (Term.Application g as)))" if "?f g" for g
      using that 2 by (auto simp: shape intro!: builds_bind [OF 2(1)] builds_return ssh_typed_app)
  qed
next
  case (5 a as T Ts)
  then show ?case by (auto intro!: builds_bind [OF 5(1)] builds_bind [OF 5(2)] builds_return)
qed (auto intro: builds_return)

text \<open>A step whose recipe is a message that can be sent.\<close>

definition ssh_runnable_step :: "(TypeId \<Rightarrow> string) \<Rightarrow> ssh_env \<Rightarrow> AgentName set \<Rightarrow> (unit, ssh_value) Step \<Rightarrow> bool" where
  "ssh_runnable_step hex E own step \<longleftrightarrow>
     step_agent step \<in> own \<and>
     (case step_action step of
        Action.Input r \<Rightarrow> ssh_typed_term hex E ST_Message r \<or> ssh_typed_term hex E ST_RawMessage r
      | Action.Output \<Rightarrow> True)"

primrec ssh_step_checked :: "AgentName set \<Rightarrow> ssh_step \<Rightarrow> bool" where
  "ssh_step_checked own (SshOut agent) \<longleftrightarrow> agent \<in> own"
| "ssh_step_checked own (SshIn agent t) \<longleftrightarrow> agent \<in> own \<and> (\<exists>f args. t = SshApp f args)
     \<and> (ssh_has_type t ST_Message \<or> ssh_has_type t ST_RawMessage)"

lemma ssh_builds_step:
  assumes "ssh_step_checked own x"
  shows "builds (ssh_runnable_step hex E own) (ssh_build_step hex E R x)"
proof (cases x)
  case (SshIn agent t)
  with assms obtain T where T: "ssh_has_type t T" "T = ST_Message \<or> T = ST_RawMessage" "\<exists>f args. t = SshApp f args" "agent \<in> own"
    by auto
  show ?thesis unfolding SshIn ssh_build_step.simps
    by (rule builds_bind [OF ssh_builds_both(1) [OF T(1)]])
      (use T in \<open>auto simp: ssh_runnable_step_def InputAction_new_step_def intro!: builds_return\<close>)
qed (use assms in \<open>auto simp: ssh_runnable_step_def OutputAction_new_step_def intro!: builds_return\<close>)

lemma ssh_builds_steps:
  "list_all (ssh_step_checked own) xs \<Longrightarrow>
     builds (\<lambda>ss. list_all (ssh_runnable_step hex E own) ss \<and> length ss = length xs) (ssh_build_steps hex E R xs)"
proof (induction xs)
  case (Cons x xs)
  then show ?case by (auto intro!: builds_bind [OF ssh_builds_step] builds_bind [OF Cons.IH] builds_return)
qed (simp add: builds_return)

lemma seed_successful_checked: "list_all (ssh_step_checked {client, server}) (seed_successful_steps client server)"
  by (simp add: seed_successful_steps_def kex_init_args_def)

subsection \<open>The functions that the signature leaves out\<close>

lemma SSH_SIGNATURE_by_name:
  assumes "inj (senv_fn_name E)" "f \<notin> set SSH_SIGNATURE_symbols"
  shows "functions_by_name (SSH_SIGNATURE hex E) (senv_fn_name E f) = None"
  using assms by (auto simp: SSH_SIGNATURE_def Signature_new_def map_of_eq_None_iff ssh_shape_def dest: injD)

lemma visit_serialized_unknown:
  assumes "functions_by_name sig (dfs_name (fnc_shape c)) = None"
  shows "\<exists>e. FnContainer_visit_map sig (FnContainer_serialize c) = Inl e"
  using assms
  by (auto simp: FnContainer_visit_map_def FnContainer_serialize_def bind_sum_def split: sum.splits)

end
