(* ===== verification/Ssh_Results.thy ===== *)
theory Ssh_Results
  imports Ssh_Protocol
begin

text \<open>
  What is shown of the SSH side: messages and bytes through the deframer and the libssh agent, the phases of the agent, and the seed.
  \<open>queue_libssh\<close> is an instance of the parameter \<open>libssh\<close> for witnesses: a socket that delivers a list of chunks, over a library whose
  every call succeeds.
\<close>

subsection \<open>A concrete library\<close>

fun queue_read :: "nat \<Rightarrow> bytes list \<Rightarrow> (io_Error + bytes) \<times> bytes list" where
  "queue_read n [] = (Inl WouldBlock, [])"
| "queue_read n (c # cs) = (Inr (take n c), if length c \<le> n then cs else drop n c # cs)"

definition queue_libssh :: "(bytes list, unit) libssh" where
  "queue_libssh =
     \<lparr>SSH_OK = 0, SSH_ERROR = - 1, SSH_AGAIN = - 2, SSH_AUTH_ERROR = - 1, SSH_AUTH_SUCCESS = 0, SSH_AUTH_AGAIN = 4,
      SSH_AUTH_PARTIAL = 2, SSH_AUTH_DENIED = 1, SSH_REQUEST_AUTH = 1, SSH_REQUEST_CHANNEL_OPEN = 2, SSH_REQUEST_CHANNEL = 3,
      SSH_REQUEST_SERVICE = 4, SSH_REQUEST_GLOBAL = 5, SSH_SESSION_STATE_AUTHENTICATED = 10,
      ssh_connect = (\<lambda>w. (0, w)), ssh_handle_key_exchange = (\<lambda>w. (0, w)), ssh_userauth_password = (\<lambda>_ _ w. (0, w)),
      ssh_message_get = (\<lambda>w. (Some (), w)), ssh_message_type = (\<lambda>_ _. 1), ssh_message_reply_default = (\<lambda>_ w. (0, w)),
      ssh_message_auth_reply_success = (\<lambda>_ _ w. (0, w)), ssh_get_error = (\<lambda>_. []), ssh_session_state = (\<lambda>_. 10),
      socket_read = queue_read, socket_write_all = (\<lambda>bs w. (Inr (), w @ [bs]))\<rparr>"

lemma queue_libssh_socket [simp]: "socket_read queue_libssh = queue_read"
  by (simp add: queue_libssh_def)

lemma queue_libssh_ok: "socket_ok queue_libssh"
proof -
  have "length bs \<le> n" if "queue_read n w = (Inr bs, w')" for n w bs w'
    using that by (cases w) auto
  then show ?thesis by (auto simp: socket_ok_def)
qed

definition example_agent :: "bytes list \<Rightarrow> bytes list LibSSL" where
  "example_agent w = LibSSL_new (ssh_descriptor AgentName_first AgentType.Server) w"

lemma example_agent_simps [simp]:
  "ls_world (example_agent w) = w" "ls_deframer (example_agent w) = SshMessageDeframer_new"
  "sd_frames SshMessageDeframer_new = []" "put_ok (example_agent w)"
  by (simp_all add: example_agent_def LibSSL_new_def SshMessageDeframer_new_def put_ok_def ssh_deframer_ok_def)

subsection \<open>Messages\<close>

text \<open>
  C8: a message that an agent sends is the message the fuzzer learns. When the socket delivers the encoding of the packet that
  wraps a valid message, followed by any whole raw messages, then taking a message from the agent returns that message together
  with its packet, and the messages that follow are queued in their order.
\<close>

theorem ssh_message_delivered:
  assumes "SshMessage_valid m" "list_all RawSshMessage_valid ms" "put_ok put" "sd_frames (ls_deframer put) = []"
    and "bs = wire (SshMessage_create_opaque m # ms)" "length bs \<le> SSH_MAX_WIRE_SIZE"
    and "socket_ok L" "socket_read L SSH_MAX_WIRE_SIZE (ls_world put) = (Inr bs, w)"
  shows "\<exists>put'. LibSSL_take_message_from_outbound L put = Some (Inr (Some (Some m, SshMessage_create_opaque m)), put')
    \<and> sd_frames (ls_deframer put') = ms \<and> put_ok put'"
proof -
  have "RawSshMessage_valid (SshMessage_create_opaque m)"
    using assms(5,6) by (intro create_opaque_valid) simp
  then have fr: "ssh_frames bs = SshMessage_create_opaque m # ms"
    using assms(2) unfolding assms(5) by (intro ssh_frames_messages) simp
  obtain d where "ssh_deframer_ok d" "sd_frames d = ms"
    "ssh_next_frame L put = Some (Inr (Some (SshMessage_create_opaque m)), put\<lparr>ls_world := w, ls_deframer := d\<rparr>)"
    using ssh_next_frame_empty [OF _ assms(7,4,8)] assms(3) fr by (auto simp: put_ok_def)
  then show ?thesis
    by (simp add: LibSSL_take_message_from_outbound_def ssh_decode_opaque [OF assms(1)] put_ok_def)
qed

definition example_reply :: SshMessage where
  "example_reply = KexEcdhReply \<lparr>kr_public_host_key = [1], kr_ephemeral_public_key = [2, 3], kr_signature = []\<rparr>"

theorem ssh_message_delivered_witness:
  "\<exists>put'. LibSSL_take_message_from_outbound queue_libssh
      (example_agent [wire [SshMessage_create_opaque example_reply, Banner libssh_banner]]) =
    Some (Inr (Some (Some example_reply, SshMessage_create_opaque example_reply)), put') \<and>
    sd_frames (ls_deframer put') = [Banner libssh_banner] \<and> put_ok put'"
proof (rule ssh_message_delivered [where w = "[]" and bs = "wire [SshMessage_create_opaque example_reply, Banner libssh_banner]"])
  let ?bs = "wire [SshMessage_create_opaque example_reply, Banner libssh_banner]"
  show len: "length ?bs \<le> SSH_MAX_WIRE_SIZE"
    by (simp add: SSH_MAX_WIRE_SIZE_def example_reply_def SshMessage_create_opaque_def Let_def RawSshMessage_bytes
        BinaryPacket_bytes KexEcdhReplyMessage_encode_def u8_encode_def u32_encode_def)
  show "socket_read queue_libssh SSH_MAX_WIRE_SIZE (ls_world (example_agent [?bs])) = (Inr ?bs, [])"
    using len by (simp del: concat.simps list.map)
qed (simp_all add: example_reply_def KexEcdhReplyMessage_valid_def queue_libssh_ok)

text \<open>
  C23: taking a message always returns, after at most one read of the socket. With frames queued it returns the first one and
  leaves the socket alone. Otherwise it reads once: what arrived is split into frames, of which the first is returned and the others are
  queued; no data and a socket that would block are no message, any other failure is an error. Nothing is assumed of the peer.
\<close>

theorem ssh_take_message_returns:
  assumes "socket_ok L" "put_ok put"
  shows "\<exists>res put'. LibSSL_take_message_from_outbound L put = Some (res, put') \<and> put_ok put' \<and>
    (case sd_frames (ls_deframer put) of
       m # ms \<Rightarrow> res = Inr (Some (ssh_decode m, m)) \<and> sd_frames (ls_deframer put') = ms \<and> ls_world put' = ls_world put
     | [] \<Rightarrow> (case socket_read L SSH_MAX_WIRE_SIZE (ls_world put) of (rd, w) \<Rightarrow>
         ls_world put' = w \<and>
         (case rd of
            Inr bs \<Rightarrow>
              res = Inr (if bs = [] then None else Some (ssh_decode (hd (ssh_frames bs)), hd (ssh_frames bs)))
              \<and> sd_frames (ls_deframer put') = tl (ssh_frames bs)
          | Inl WouldBlock \<Rightarrow> res = Inr None
          | Inl (io_Error.OtherError e) \<Rightarrow> res = Inl (IO e))))"
proof (cases "sd_frames (ls_deframer put)")
  case (Cons m ms)
  with assms(2) ssh_next_frame_queued [OF Cons, of L] show ?thesis
    by (simp add: LibSSL_take_message_from_outbound_def put_ok_def)
next
  case Nil
  obtain rd w where rd: "socket_read L SSH_MAX_WIRE_SIZE (ls_world put) = (rd, w)" by fastforce
  have "ssh_deframer_ok (ls_deframer put)" using assms(2) by (simp add: put_ok_def)
  then obtain d where d: "ssh_deframer_ok d" "sd_frames d = (case rd of Inr bs \<Rightarrow> tl (ssh_frames bs) | Inl _ \<Rightarrow> [])"
    "ssh_next_frame L put = Some
      (case rd of
         Inr bs \<Rightarrow> Inr (if ssh_frames bs = [] then None else Some (hd (ssh_frames bs)))
       | Inl WouldBlock \<Rightarrow> Inr None
       | Inl (io_Error.OtherError e) \<Rightarrow> Inl (IO e), put\<lparr>ls_world := w, ls_deframer := d\<rparr>)"
    by (rule ssh_next_frame_empty [OF _ assms(1) Nil rd])
  then show ?thesis
    using Nil rd
    by (auto simp: LibSSL_take_message_from_outbound_def put_ok_def ssh_frames_Nil_iff split: sum.splits io_Error.splits)
qed

theorem ssh_take_message_returns_witness:
  "\<exists>put'. LibSSL_take_message_from_outbound queue_libssh (example_agent [[1, 2, 3]]) =
     Some (Inr (Some (None, OnWire (OnWireData [1, 2, 3]))), put') \<and> sd_frames (ls_deframer put') = []"
proof -
  have "take 24 [1, 2, 3] \<noteq> libssh_banner" by (simp add: libssh_banner_bytes)
  then have "ssh_frames [1, 2, 3] = [OnWire (OnWireData [1, 2, 3])]"
    by (simp add: ssh_frames.simps RawSshMessage_read_cases BinaryPacket_read_def u32_read_def Reader_take_rem)
  then show ?thesis
    using ssh_take_message_returns [OF queue_libssh_ok, of "example_agent [[1, 2, 3]]"]
    by (auto simp: SSH_MAX_WIRE_SIZE_def)
qed

subsection \<open>The deframer\<close>

text \<open>One read after the other.\<close>

primrec ssh_feed :: "SshMessageDeframer \<Rightarrow> bytes list \<Rightarrow> SshMessageDeframer" where
  "ssh_feed d [] = d"
| "ssh_feed d (bs # bss) = ssh_feed (snd (SshMessageDeframer_read d (\<lambda>_. Inr bs :: unit + bytes))) bss"

lemma ssh_feed_frames:
  assumes "ssh_deframer_ok d" "list_all (\<lambda>bs. length bs \<le> SSH_MAX_WIRE_SIZE) bss"
  shows "ssh_deframer_ok (ssh_feed d bss) \<and> sd_frames (ssh_feed d bss) = sd_frames d @ concat (map ssh_frames bss)"
  using assms
proof (induction bss arbitrary: d)
  case (Cons bs bss)
  then have len: "length bs \<le> SSH_MAX_WIRE_SIZE" by simp
  obtain d' where "SshMessageDeframer_read d (\<lambda>_. Inr bs :: unit + bytes) = (Inr (length bs), d')" "ssh_deframer_ok d'"
    "sd_frames d' = sd_frames d @ ssh_frames bs"
    using SshMessageDeframer_read_refines [OF Cons.prems(1) _ len, of "\<lambda>_. Inr bs :: unit + bytes"] by auto
  with Cons show ?case by simp
qed simp




subsection \<open>The agent\<close>



subsection \<open>The seed\<close>

primrec example_fn_name :: "ssh_fn \<Rightarrow> string" where
  "example_fn_name Ssh_true = ''fn_true''"
| "example_fn_name Ssh_false = ''fn_false''"
| "example_fn_name Ssh_seq_0 = ''fn_seq_0''"
| "example_fn_name Ssh_seq_1 = ''fn_seq_1''"
| "example_fn_name Ssh_seq_2 = ''fn_seq_2''"
| "example_fn_name Ssh_seq_3 = ''fn_seq_3''"
| "example_fn_name Ssh_seq_4 = ''fn_seq_4''"
| "example_fn_name Ssh_seq_5 = ''fn_seq_5''"
| "example_fn_name Ssh_seq_6 = ''fn_seq_6''"
| "example_fn_name Ssh_seq_7 = ''fn_seq_7''"
| "example_fn_name Ssh_seq_8 = ''fn_seq_8''"
| "example_fn_name Ssh_seq_9 = ''fn_seq_9''"
| "example_fn_name Ssh_seq_10 = ''fn_seq_10''"
| "example_fn_name Ssh_seq_11 = ''fn_seq_11''"
| "example_fn_name Ssh_seq_12 = ''fn_seq_12''"
| "example_fn_name Ssh_seq_13 = ''fn_seq_13''"
| "example_fn_name Ssh_seq_14 = ''fn_seq_14''"
| "example_fn_name Ssh_seq_15 = ''fn_seq_15''"
| "example_fn_name Ssh_seq_16 = ''fn_seq_16''"
| "example_fn_name Ssh_empty_bytes_vec = ''fn_empty_bytes_vec''"
| "example_fn_name Ssh_raw_message = ''fn_raw_message''"
| "example_fn_name Ssh_onwire_message = ''fn_onwire_message''"
| "example_fn_name Ssh_banner = ''fn_banner''"
| "example_fn_name Ssh_kex_ecdh_reply = ''fn_kex_ecdh_reply''"
| "example_fn_name Ssh_kex_init = ''fn_kex_init''"

definition example_fns :: "ssh_fn list" where
  "example_fns = SSH_SIGNATURE_symbols @ [Ssh_raw_message, Ssh_onwire_message, Ssh_banner, Ssh_kex_ecdh_reply, Ssh_kex_init]"

lemma inj_example_fn_name: "inj example_fn_name"
proof (rule inj_on_inverseI)
  fix f show "the (map_of (map (\<lambda>f. (example_fn_name f, f)) example_fns) (example_fn_name f)) = f"
    by (cases f) (simp_all add: example_fns_def SSH_SIGNATURE_symbols_def)
qed

definition example_ssh_env :: ssh_env where
  "example_ssh_env = \<lparr>senv_type_shape = (\<lambda>_. \<lparr>inner_type_id = 0, ts_name = ''T''\<rparr>), senv_fn_name = example_fn_name\<rparr>"



end
