(* ===== verification/Spec2Isabelle.thy ===== *)
theory Spec2Isabelle
  imports Tls_Results Tls_Fn_Results Puffin_Results Tls_Seed_Results Ssh_Results
begin

text \<open>
  A verification library for tlspuffin, a fuzzer for implementations of security protocols. Paths are below \<open>src/\<close>.

  \<^bold>\<open>The program.\<close> \<open>puffin\<close> is the protocol-independent fuzzer. A \<open>Trace\<close> is a list of steps for named agents; an input step holds a
  recipe, a first-order \<open>Term\<close> over the function symbols of a \<open>Signature\<close>. Executing a trace (\<open>trace.rs\<close>) spawns agents, each around a
  program under test (PUT), evaluates recipes over the knowledge learnt so far, sends the result to an agent's inbound channel, lets
  the agent progress, and learns from the messages it takes from the outbound channel (\<open>stream.rs\<close>); in the end a security policy judges
  the claims the agents made. The fuzzer mutates traces (\<open>fuzzer/mutations.rs\<close>). \<open>tlspuffin\<close> instantiates this for TLS: a bundled copy of
  rustls' message layer (\<open>tlspuffin/src/tls/rustls\<close>) encodes and decodes messages, and \<open>protocol.rs\<close>, \<open>query.rs\<close>, \<open>claims.rs\<close> and
  \<open>tls/violation.rs\<close> say what is learnt from a message, how it is queried and what a violation is. \<open>sshpuffin\<close> is a smaller instance for SSH
  with libssh as its PUT.

  \<^bold>\<open>Theories.\<close>
  \<^item> \<open>Prelude\<close>: byte strings and big-endian integers.
  \<^item> \<open>Puffin_Codec\<close> (\<open>puffin/src/codec.rs\<close>): \<open>Reader\<close>, integers, vectors with a length field; the locales that state the contract of
    a \<open>Codec\<close> (\<open>encoder\<close>, \<open>decoder\<close>, \<open>strict_decoder\<close>, \<open>codec\<close>, \<open>canonical_codec\<close>, \<open>tail_codec\<close>) and the lemmas that
    build codecs of vectors, pairs and tagged values from those of their parts.
  \<^item> \<open>Tls_Enums\<close>, \<open>Tls_Base\<close>, \<open>Tls_Structs\<close>, \<open>Tls_Extensions\<close>, \<open>Tls_Hello\<close>, \<open>Tls_Payloads\<close>, \<open>Tls_Handshake\<close>, \<open>Tls_Message\<close> (\<open>rustls/msgs/*.rs\<close>): the
    wire format from enums to records, each type with its encoder, decoder, accessors and an interpretation of the codec locales. The
    DNS-name parser of webpki is the parameter \<open>dns\<close>.
  \<^item> \<open>Tls_Deframer\<close>, \<open>Tls_Fragmenter\<close> (\<open>deframer.rs\<close>, \<open>fragmenter.rs\<close>, \<open>hsjoiner.rs\<close>): state machines over bytes, each with a
    one-pass specification (\<open>deframe\<close>, \<open>fragments\<close>, \<open>join_spec\<close>) and the refinement that the incremental code implements it.
  \<^item> \<open>Tls_Buffers\<close>, \<open>Tls_Record_Layer\<close> (\<open>vecbuf.rs\<close>, \<open>limited_cache.rs\<close>, \<open>record_layer.rs\<close>, \<open>cipher.rs\<close>): the locale \<open>byte_queue\<close>, the cache,
    and runs of the record layer's operations as a step relation.
  \<^item> \<open>Puffin_Term\<close> (\<open>algebra/*.rs\<close>): terms, symbols, dynamic calls, signature, serialization of symbols; the locale \<open>matcher\<close>.
  \<^item> \<open>Puffin_Trace\<close> (\<open>trace.rs\<close>, \<open>agent.rs\<close>, \<open>claims.rs\<close>, \<open>put.rs\<close>, \<open>put_registry.rs\<close>, \<open>protocol.rs\<close>, \<open>error.rs\<close>): context, queries, evaluation,
    actions and execution. PUT, protocol messages and policy are the fields of the record \<open>Protocol\<close>, parameters of the model.
  \<^item> \<open>Puffin_Mutations\<close> (\<open>fuzzer/mutations.rs\<close>, \<open>fuzzer/term_zoo.rs\<close>): sampling, the seven mutators, the zoo; the locale \<open>mutator\<close>. libafl's
    random numbers are the record \<open>Rand\<close> with the bounds libafl documents (\<open>Rand_ok\<close>).
  \<^item> \<open>Puffin_Stream\<close> (\<open>stream.rs\<close>): the memory stream over a deframer; the locales \<open>protocol_deframer\<close> and
    \<open>queueing_deframer\<close>, which the deframers of TLS and SSH both satisfy.
  \<^item> \<open>Tls_Protocol\<close> (\<open>tlspuffin/src/protocol.rs\<close>, \<open>query.rs\<close>, \<open>claims.rs\<close>, \<open>tls/violation.rs\<close>): the TLS instance.
  \<^item> \<open>Tls_Crypto\<close>, \<open>Tls_Key_Schedule\<close>, \<open>Tls_Tls12\<close>, \<open>Tls_Certs\<close> (\<open>hash_hs.rs\<close>, \<open>kx.rs\<close>, \<open>suites.rs\<close>, \<open>tls13/*.rs\<close>, \<open>tls12/*.rs\<close>, \<open>sign.rs\<close>,
    \<open>verify.rs\<close>, \<open>anchors.rs\<close> and what they use): transcript, cipher suites, key derivation, record ciphers, certificates. The primitives of ring
    and the checks of webpki are the records \<open>Ring\<close> and \<open>Webpki\<close>, with \<open>Ring_ok\<close> for what ring documents; locales \<open>message_transcript\<close> and
    \<open>record_cipher\<close>.
  \<^item> \<open>Tls_Key_Exchange\<close>, \<open>Tls_Fn_Messages\<close>, \<open>Tls_Fn_Crypto\<close>, \<open>Tls_Fn_Extensions\<close> (\<open>tls/key_*.rs\<close>, \<open>tls/fn_*.rs\<close>): every function of
    the attacker, with its errors and panics (\<open>FnPanic\<close>).
  \<^item> \<open>Tls_Signature\<close>, \<open>Tls_Typing\<close> (\<open>tls/mod.rs\<close>, \<open>define_signature!\<close>): those functions as symbols over one universe of values, the
    locale \<open>embedding\<close> for each Rust type, the TLS instance of \<open>Protocol\<close>, and the soundness of boxed values.
  \<^item> \<open>Tls_Term_Macro\<close>, \<open>Tls_Seeds\<close>, \<open>Tls_Vulnerabilities\<close> (\<open>algebra/macros.rs\<close>, \<open>tls/seeds.rs\<close>, \<open>tls/vulnerabilities.rs\<close>, \<open>tls/trace_helper.rs\<close>): the
    macro \<open>term!\<close> as code that draws ids and may panic, every seed and attack trace as written, and rules by which a seed is known to build.
  \<^item> \<open>Ssh_Messages\<close>, \<open>Ssh_Deframer\<close>, \<open>Ssh_Put\<close>, \<open>Ssh_Protocol\<close> (\<open>sshpuffin/src/ssh/*.rs\<close>, \<open>libssh/*.rs\<close>, \<open>protocol.rs\<close>, \<open>claim.rs\<close>, \<open>violation.rs\<close>): the
    packets and messages of SSH, their deframer, the libssh agent as a state machine over the parameter \<open>libssh\<close>, functions, signature and seed.
  \<^item> \<open>Tls_Results\<close>, \<open>Puffin_Results\<close>, \<open>Tls_Crypto_Results\<close>, \<open>Tls_Fn_Results\<close>, \<open>Tls_Seed_Results\<close>, \<open>Ssh_Results\<close> and this theory state the properties; those that
    span the fuzzer and the message layer are here.

  \<^bold>\<open>Modelling.\<close> \<open>struct\<close>s are records, \<open>enum\<close>s datatypes; integers keep their width where they are stored or written. \<open>&mut self\<close> becomes state
  passing. \<open>Option\<close> and \<open>Result\<close> are \<open>option\<close> and sums; a panic is \<open>None\<close> where one can happen. \<open>debug_assert!\<close>s are those of a release build
  in the codecs and of a debug build in the record layer, where they guard state. \<open>Box<dyn Any>\<close> is a value tagged with its type id. Loops
  are recursive functions with a termination proof; the loops that depend on foreign code, the output loop of a step and the retry loops
  of the streams, are partial functions, and that they return is proved (\<open>execute_terminates\<close>, \<open>take_message_refines_queue\<close>,
  \<open>ssh_take_message_returns\<close>). No fuel is used; the
  only bounds are the program's own (\<open>MAX_DEPTH\<close>, \<open>MAX_TRIES\<close>, \<open>MAX_WIRE_SIZE\<close> and the like).

  \<^bold>\<open>What is shown.\<close> Round trips and exact acceptance for records and handshake messages; what read errors mean; independence of the deframer
  and the joiner from how input is cut, and their liveness; uniqueness of nonces; queue and cache contracts; type soundness of
  evaluation; that execution ends, keeps knowledge and reports violations; the order of query answers; that mutations keep traces well
  typed and within their bounds, with nested swaps as the exception; what the security policy accepts. For the TLS stack: the transcript
  hash is the digest of the messages, the PRF is that of the RFC, both sides of a session decrypt what the other encrypts, signatures are
  accepted only under advertised schemes. For the attacker: decryption inverts encryption, a filled-in binder verifies, which symbols
  can panic. For the instance: executing any TLS trace keeps boxed values sound, every seed and attack trace builds and is well typed,
  what mutations make of the corpus can be evaluated, and what two of the attacks send. For SSH: what an agent sends is what the fuzzer learns, no byte is
  lost, taking a message reads the socket at most once, the phases of an agent. Some properties document
  defects: lost output of a PUT, ill-typed swaps, an extension that changes when re-read, length fields that wrap, an SSH deframer whose
  frames depend on how its input is cut, a seed outside its signature.

  \<^bold>\<open>Plan.\<close> Next: session data of clients and servers, ticket encryption, QUIC keys, and the \<open>Display\<close> of errors.

  \<^bold>\<open>Not modelled.\<close> Foreign programs and their bindings (\<open>crates/\<close>, \<open>openssl\<close>, \<open>wolfssl\<close>, \<open>tcp\<close>, what \<open>libssh/ssh.rs\<close> calls); the algorithms inside ring and webpki,
  and randomness; libafl and the glue around it; the vendored \<open>russh\<close>; command line, logging, plots and statistics; \<open>serde\<close> formats other than the
  linking of function symbols; \<open>Display\<close> and \<open>Debug\<close> output except that of terms; unit tests.
\<close>

section \<open>Properties that span components\<close>

subsection \<open>Handshake messages from sender to receiver\<close>

lemma fold_fragment: "fold (\<lambda>m out. fragment f m out) ms out = out @ concat (map (fragments f) ms)"
  by (induction ms arbitrary: out) (simp_all add: fragment_appends)

lemma into_plain_opaque [simp]: "into_plain_message (into_unencrypted_opaque m) = m"
  by (simp add: into_plain_message_def into_unencrypted_opaque_def)

lemma handshake_fragment_valid:
  assumes "MessageFragmenter_ok f" "version_ok v" "x \<in> set (fragments f (PlainMessage_from (hs_message v h)))"
  shows "OpaqueMessage_valid (into_unencrypted_opaque x)" "pm_version x = v"
proof -
  let ?m = "PlainMessage_from (hs_message v h)"
  have m: "pm_typ ?m = ContentType.Handshake" "pm_version ?m = v" "pm_payload ?m \<noteq> []"
    by (simp_all add: PlainMessage_from_def HandshakeMessagePayload.encode_conv message_bytes binder_header_def
        HandshakeType.enum_bytes)
  from fragments_shape [OF assms(1,3)] m assms(1,2) show "OpaqueMessage_valid (into_unencrypted_opaque x)" "pm_version x = v"
    by (auto simp: OpaqueMessage_valid_def into_unencrypted_opaque_def type_ok_def MessageFragmenter_ok_def MAX_FRAGMENT_LEN_def)
qed



subsection \<open>Mutated traces can be evaluated\<close>



end
